(* ===== verification/Fish_Prelude.thy ===== *)
theory Fish_Prelude
  imports Main "HOL-Library.Word" "HOL-Library.Char_ord" "HOL-Library.List_Lexorder"
begin

text \<open>
  Shared vocabulary of the development: the machine integer types, the C++ exceptions as
  values, sequencing of fallible steps over a list, and the generic list lemmas that the
  component theories use. An operation that the C++ standard leaves undefined (reading past
  the end of a vector, popping an empty container) is the value \<open>Inl Undefined_behaviour\<close>,
  so a theorem that a result is \<open>Inr\<close> also says that the code stays within its containers.
\<close>

type_synonym u8 = "8 word"
type_synonym u16 = "16 word"
type_synonym u32 = "32 word"
type_synonym u64 = "64 word"

datatype exn =
    Invalid_argument string
  | Out_of_range string
  | Range_error string
  | Filter_config_exception string
  | Filter_runtime_exception string
  | Scheduling_exception string
  | Project_config_exception string
  | Netio_exception string
  | Runtime_error string
  | Ftdi_exception string
  | Length_error string
  | Undefined_behaviour

type_synonym 'a result = "exn + 'a"

definition bind_res :: "'a result \<Rightarrow> ('a \<Rightarrow> 'b result) \<Rightarrow> 'b result" where
  "bind_res m f = (case m of Inl e \<Rightarrow> Inl e | Inr x \<Rightarrow> f x)"

lemma bind_res_simps [simp]:
  "bind_res (Inl e) f = Inl e"
  "bind_res (Inr x) f = f x"
  by (simp_all add: bind_res_def)

lemma bind_res_Inr_iff: "bind_res m f = Inr y \<longleftrightarrow> (\<exists>x. m = Inr x \<and> f x = Inr y)"
  by (cases m) simp_all

text \<open>A range-based \<open>for\<close> whose body may throw: the first exception leaves the loop.\<close>

fun fold_res :: "('a \<Rightarrow> 's \<Rightarrow> 's result) \<Rightarrow> 'a list \<Rightarrow> 's \<Rightarrow> 's result" where
  "fold_res f [] s = Inr s"
| "fold_res f (x # xs) s = bind_res (f x s) (fold_res f xs)"

lemma fold_res_append:
  "fold_res f (xs @ ys) s = bind_res (fold_res f xs s) (fold_res f ys)"
proof (induction xs arbitrary: s)
  case (Cons x xs)
  then show ?case by (cases "f x s") simp_all
qed simp

lemma fold_res_invariant:
  assumes "fold_res f xs s = Inr t" and "P s"
    and "\<And>x s t. x \<in> set xs \<Longrightarrow> P s \<Longrightarrow> f x s = Inr t \<Longrightarrow> P t"
  shows "P t"
  using assms
proof (induction xs arbitrary: s)
  case (Cons x xs)
  from Cons.prems(1) obtain u where u: "f x s = Inr u" "fold_res f xs u = Inr t"
    by (auto simp: bind_res_Inr_iff)
  have "P u" using Cons.prems(2,3) u(1) by (meson list.set_intros(1))
  then show ?case
    using Cons.IH [OF u(2)] Cons.prems(3) by (meson list.set_intros(2))
qed simp

text \<open>An invariant of a plain loop over a list.\<close>

lemma fold_invariant_list:
  assumes "P s" and "\<And>x s. x \<in> set xs \<Longrightarrow> P s \<Longrightarrow> P (f x s)"
  shows "P (fold f xs s)"
  using assms by (induction xs arbitrary: s) auto

text \<open>Indexing with the bounds check written out: outside is undefined behaviour.\<close>

definition vec_at :: "'a list \<Rightarrow> nat \<Rightarrow> 'a result" where
  "vec_at xs i = (if i < length xs then Inr (xs ! i) else Inl Undefined_behaviour)"

lemma vec_at_Inr [simp]: "vec_at xs i = Inr x \<longleftrightarrow> i < length xs \<and> xs ! i = x"
  by (simp add: vec_at_def)

lemma vec_at_lt: "i < length xs \<Longrightarrow> vec_at xs i = Inr (xs ! i)"
  by simp

text \<open>\<open>std::vector::at\<close>, which throws outside of the vector.\<close>

definition checked_at :: "'a list \<Rightarrow> nat \<Rightarrow> 'a result" where
  "checked_at xs i = (if i < length xs then Inr (xs ! i) else Inl (Out_of_range ''vector::_M_range_check''))"

lemma checked_at_Inr [simp]: "checked_at xs i = Inr x \<longleftrightarrow> i < length xs \<and> xs ! i = x"
  by (simp add: checked_at_def)

lemma checked_at_lt: "i < length xs \<Longrightarrow> checked_at xs i = Inr (xs ! i)"
  by simp

text \<open>Evaluating updates of an explicit list at literal positions.\<close>

lemma list_update_literal:
  "(x # xs)[0 := v] = v # xs" "(x # xs)[1 := v] = x # xs[0 := v]" "(x # xs)[Suc 0 := v] = x # xs[0 := v]"
  "(x # xs)[numeral k := v] = x # xs[pred_numeral k := v]"
  by (simp_all add: numeral_eq_Suc)

lemma unat_u32_bound: "unat (w :: u32) < 2 ^ 32" and unat_u32_bound64: "unat (w :: u32) < 2 ^ 64"
proof -
  show "unat w < 2 ^ 32" using unsigned_less [of w, where ?'a = nat] by simp
  then show "unat w < 2 ^ 64" by simp
qed

text \<open>The length of a word-indexed split of a list.\<close>

lemma take_drop_append_eq: "length xs = n \<Longrightarrow> take n (xs @ ys) = xs \<and> drop n (xs @ ys) = ys"
  by auto

lemma takeWhile_neq_append:
  "x \<notin> set xs \<Longrightarrow> takeWhile (\<lambda>y. y \<noteq> x) (xs @ x # ys) = xs"
  by (induction xs) auto

lemma distinct_map_filter_fst:
  "distinct (map fst xs) \<Longrightarrow> distinct (map fst (filter P xs))"
  by (induction xs) auto

end
