(* ===== verification/Std_Strings.thy ===== *)
theory Std_Strings
  imports Fish_Prelude
begin

text \<open>
  The members of \<open>std::string\<close> and the number conversions of the standard library that the
  program calls. Positions are natural numbers below \<open>2 ^ 64\<close>; \<open>npos\<close> is the largest
  \<open>size_t\<close>, and \<open>size_add\<close> and \<open>size_sub\<close> are the wrapping arithmetic the code does with
  positions that may be \<open>npos\<close>.
\<close>

definition npos :: nat where
  "npos = 2 ^ 64 - 1"

definition size_add :: "nat \<Rightarrow> nat \<Rightarrow> nat" where
  "size_add a b = (a + b) mod 2 ^ 64"

definition size_sub :: "nat \<Rightarrow> nat \<Rightarrow> nat" where
  "size_sub a b = (a + 2 ^ 64 - b) mod 2 ^ 64"

lemma size_sub_le: "b \<le> a \<Longrightarrow> a < 2 ^ 64 \<Longrightarrow> size_sub a b = a - b"
  by (simp add: size_sub_def mod_if)

lemma size_add_lt: "a + b < 2 ^ 64 \<Longrightarrow> size_add a b = a + b"
  by (simp add: size_add_def)

lemma size_add_npos: "size_add npos 1 = 0"
  by (simp add: size_add_def npos_def)

text \<open>The first offset at which a pattern occurs.\<close>

fun scan :: "'a list \<Rightarrow> 'a list \<Rightarrow> nat option" where
  "scan p [] = (if p = [] then Some 0 else None)"
| "scan p (c # s) = (if take (length p) (c # s) = p then Some 0 else map_option Suc (scan p s))"

definition str_find :: "string \<Rightarrow> string \<Rightarrow> nat \<Rightarrow> nat" where
  "str_find s p start =
     (if start > length s then npos
      else (case scan p (drop start s) of None \<Rightarrow> npos | Some i \<Rightarrow> start + i))"

definition substr :: "string \<Rightarrow> nat \<Rightarrow> nat \<Rightarrow> string result" where
  "substr s pos n =
     (if pos > length s then Inl (Out_of_range ''basic_string::substr'')
      else Inr (take n (drop pos s)))"

lemma scan_Some_bound: "scan p s = Some i \<Longrightarrow> i + length p \<le> length s"
proof (induction p s arbitrary: i rule: scan.induct)
  case (2 p c s)
  show ?case
  proof (cases "take (length p) (c # s) = p")
    case True
    with 2(2) have "i = 0" by simp
    moreover have "length p \<le> length (c # s)" using True by (metis length_take min.cobounded1)
    ultimately show ?thesis by simp
  next
    case False
    with 2(2) obtain k where "scan p s = Some k" "i = Suc k" by auto
    then show ?thesis using 2(1) [OF False] by fastforce
  qed
qed (auto split: if_splits)

lemma scan_single_None: "scan [x] s = None \<longleftrightarrow> x \<notin> set s"
  by (induction s) auto

lemma scan_single_append: "x \<notin> set u \<Longrightarrow> scan [x] (u @ x # v) = Some (length u)"
  by (induction u) auto

lemma scan_single_Some:
  "scan [x] s = Some i \<Longrightarrow> x \<notin> set (take i s) \<and> i < length s \<and> s ! i = x"
proof (induction s arbitrary: i)
  case (Cons c s)
  then show ?case by (cases "c = x") auto
qed simp

lemma str_find_ge: "str_find s p start = npos \<or> start \<le> str_find s p start \<and> str_find s p start + length p \<le> length s"
  using scan_Some_bound [of p "drop start s"]
  by (fastforce simp: str_find_def split: option.splits)

lemma str_find_single:
  "length u \<le> length s \<Longrightarrow> drop start s = u @ x # v \<Longrightarrow> start \<le> length s \<Longrightarrow> x \<notin> set u \<Longrightarrow>
   str_find s [x] start = start + length u"
  by (simp add: str_find_def scan_single_append)

lemma str_find_single_None:
  "start \<le> length s \<Longrightarrow> x \<notin> set (drop start s) \<Longrightarrow> str_find s [x] start = npos"
  using scan_single_None [of x "drop start s"] by (simp add: str_find_def)

subsection \<open>Character classes and number conversions\<close>

definition isspace :: "char \<Rightarrow> bool" where
  "isspace c \<longleftrightarrow> (of_char c :: nat) \<in> {9, 10, 11, 12, 13, 32}"

definition isdigit :: "char \<Rightarrow> bool" where
  "isdigit c \<longleftrightarrow> 48 \<le> (of_char c :: nat) \<and> (of_char c :: nat) \<le> 57"

definition toupper_char :: "char \<Rightarrow> char" where
  "toupper_char c =
     (if 97 \<le> (of_char c :: nat) \<and> (of_char c :: nat) \<le> 122 then char_of (of_char c - (32::nat)) else c)"

definition tolower_char :: "char \<Rightarrow> char" where
  "tolower_char c =
     (if 65 \<le> (of_char c :: nat) \<and> (of_char c :: nat) \<le> 90 then char_of (of_char c + (32::nat)) else c)"

definition digit :: "nat \<Rightarrow> char" where
  "digit n = char_of (48 + n)"

text \<open>\<open>std::to_string\<close> of an unsigned and of a signed integer.\<close>

fun dec :: "nat \<Rightarrow> string" where
  "dec n = (if n < 10 then [digit n] else dec (n div 10) @ [digit (n mod 10)])"

declare dec.simps [simp del]

definition dec_int :: "int \<Rightarrow> string" where
  "dec_int i = (if i < 0 then CHR ''-'' # dec (nat (- i)) else dec (nat i))"

definition digits_value :: "string \<Rightarrow> nat" where
  "digits_value ds = foldl (\<lambda>a c. a * 10 + (of_char c - 48)) 0 ds"

text \<open>
  The common part of \<open>strtol\<close> and \<open>strtoul\<close> in base ten: leading white space, an optional
  sign, the longest run of digits; None where there is no digit.
\<close>

definition parse_int_prefix :: "string \<Rightarrow> (bool \<times> nat) option" where
  "parse_int_prefix s =
     (let t = dropWhile isspace s;
          neg = (t \<noteq> [] \<and> hd t = CHR ''-'');
          u = (if t \<noteq> [] \<and> hd t \<in> {CHR ''-'', CHR ''+''} then tl t else t);
          ds = takeWhile isdigit u
      in if ds = [] then None else Some (neg, digits_value ds))"

definition stol :: "string \<Rightarrow> int result" where
  "stol s = (case parse_int_prefix s of
       None \<Rightarrow> Inl (Invalid_argument ''stol'')
     | Some (neg, v) \<Rightarrow>
         (let i = (if neg then - int v else int v)
          in if i < - (2 ^ 63) \<or> i > 2 ^ 63 - 1 then Inl (Out_of_range ''stol'') else Inr i))"

definition stoi :: "string \<Rightarrow> int result" where
  "stoi s = (case parse_int_prefix s of
       None \<Rightarrow> Inl (Invalid_argument ''stoi'')
     | Some (neg, v) \<Rightarrow>
         (let i = (if neg then - int v else int v)
          in if i < - (2 ^ 31) \<or> i > 2 ^ 31 - 1 then Inl (Out_of_range ''stoi'') else Inr i))"

definition stoul :: "string \<Rightarrow> u64 result" where
  "stoul s = (case parse_int_prefix s of
       None \<Rightarrow> Inl (Invalid_argument ''stoul'')
     | Some (neg, v) \<Rightarrow>
         (if v > 2 ^ 64 - 1 then Inl (Out_of_range ''stoul'')
          else Inr (if neg then - of_nat v else of_nat v)))"

text \<open>\<open>std::atol\<close>: zero where there is no number; saturating at the ends of \<open>long\<close>.\<close>

definition atol :: "string \<Rightarrow> int" where
  "atol s = (case parse_int_prefix s of
       None \<Rightarrow> 0
     | Some (neg, v) \<Rightarrow> max (- (2 ^ 63)) (min (2 ^ 63 - 1) (if neg then - int v else int v)))"

lemma of_char_digit [simp]: "n < 10 \<Longrightarrow> (of_char (digit n) :: nat) = 48 + n"
  by (simp add: digit_def of_char_mod_256)

lemma isdigit_digit [simp]: "n < 10 \<Longrightarrow> isdigit (digit n)"
  by (simp add: isdigit_def)

lemma dec_nonempty [simp]: "dec n \<noteq> []"
  by (subst dec.simps) simp

lemma dec_digits: "c \<in> set (dec n) \<Longrightarrow> isdigit c"
proof (induction n rule: dec.induct)
  case (1 n)
  show ?case
  proof (cases "n < 10")
    case True
    with 1(2) show ?thesis by (simp add: dec.simps [of n])
  next
    case False
    with 1(2) have "c \<in> set (dec (n div 10)) \<or> c = digit (n mod 10)"
      by (auto simp: dec.simps [of n])
    then show ?thesis using 1(1) [OF False] by auto
  qed
qed

lemma digits_value_snoc: "digits_value (ds @ [c]) = digits_value ds * 10 + (of_char c - 48)"
  by (simp add: digits_value_def)

lemma digits_value_dec: "digits_value (dec n) = n"
proof (induction n rule: dec.induct)
  case (1 n)
  then show ?case
    by (cases "n < 10")
      (simp_all add: dec.simps [of n] digits_value_snoc, simp add: digits_value_def)
qed

lemma not_space_digit: "isdigit c \<Longrightarrow> \<not> isspace c"
  by (auto simp: isdigit_def isspace_def)

lemma not_sign_digit: "isdigit c \<Longrightarrow> c \<noteq> CHR ''-'' \<and> c \<noteq> CHR ''+''"
  by (auto simp: isdigit_def)

lemma parse_dec_append:
  assumes "rest = [] \<or> \<not> isdigit (hd rest)"
  shows "parse_int_prefix (dec n @ rest) = Some (False, n)"
proof -
  obtain c cs where dec: "dec n = c # cs" by (cases "dec n") auto
  have c: "isdigit c" using dec dec_digits [of c n] by simp
  have "takeWhile isdigit (dec n @ rest) = dec n"
    using assms dec_digits [of _ n] by (cases rest) (auto simp: takeWhile_tail)
  then show ?thesis
    using dec c not_space_digit [OF c] not_sign_digit [OF c] digits_value_dec [of n]
    by (simp add: parse_int_prefix_def Let_def)
qed

lemma parse_dec: "parse_int_prefix (dec n) = Some (False, n)"
  using parse_dec_append [of "[]" n] by simp

lemma stoul_dec: "n < 2 ^ 64 \<Longrightarrow> stoul (dec n) = Inr (of_nat n)"
  by (simp add: stoul_def parse_dec)

lemma stoi_dec: "n < 2 ^ 31 \<Longrightarrow> stoi (dec n) = Inr (int n)"
  by (simp add: stoi_def parse_dec Let_def)

lemma atol_dec: "n < 2 ^ 63 \<Longrightarrow> atol (dec n) = int n"
  by (simp add: atol_def parse_dec)

lemma dec_inj: "dec m = dec n \<Longrightarrow> m = n"
  by (metis digits_value_dec)

end
