(* ===== verification/Wire_Buffer.thy ===== *)
theory Wire_Buffer
  imports Complex_Main Std_Strings
begin

text \<open>
  The byte streams of the GUI connection: \<^verbatim>\<open>src/src/io/client_input_buffer.cpp\<close> and
  \<^verbatim>\<open>client_output_buffer.cpp\<close>. The input buffer chains the records the network library
  delivers and implements protobuf's zero-copy input stream with a byte limit; \<open>ReadVarint32\<close>
  keeps its multiplier in the object so that a varint may arrive in pieces.

  The record type \<open>rmrf::net::iorecord\<close> and the queue \<open>rmrf::net::ioqueue\<close> belong to a git
  submodule: they are the parameter \<open>net_ops\<close>, and the locale \<open>ioqueue\<close> states what the code
  relies on: the queue is first-in first-out and advancing a record drops its first bytes.
  Sizes are the code's \<open>size_t\<close> and \<open>int\<close> with the conversions that can wrap written out;
  a varint is accumulated in 32-bit words.
\<close>

record ('q, 'r) net_ops =
  q_new :: 'q
  q_empty :: "'q \<Rightarrow> bool"
  q_push_back :: "'q \<Rightarrow> 'r \<Rightarrow> 'q"
  q_pop_front :: "'q \<Rightarrow> 'r \<times> 'q"
  r_bytes :: "'r \<Rightarrow> u8 list"
  r_advance :: "'r \<Rightarrow> nat \<Rightarrow> 'r"

record ('q, 'r) client_input_buffer =
  io_buffer :: 'q
  byte_count :: int
  limit_left :: int
  read_var_int_multiplier :: u32
  streamsize :: nat
  actual_record :: "'r option"
  local_offset :: nat

definition new_input_buffer :: "('q, 'r) net_ops \<Rightarrow> ('q, 'r) client_input_buffer" where
  "new_input_buffer N =
     \<lparr>io_buffer = q_new N, byte_count = 0, limit_left = 5, read_var_int_multiplier = 1,
      streamsize = 0, actual_record = None, local_offset = 0\<rparr>"

text \<open>
  \<open>Next\<close>: None is the result false; otherwise the bytes between the returned pointer and its
  end, and the new state.
\<close>

definition next_take ::
  "('q, 'r) net_ops \<Rightarrow> 'r \<Rightarrow> nat \<Rightarrow> ('q, 'r) client_input_buffer \<Rightarrow>
   u8 list \<times> ('q, 'r) client_input_buffer" where
  "next_take N r offset b =
     (let data = drop offset (r_bytes N r);
          full = int (length (r_bytes N r)) - int offset;
          limit' = limit_left b - full;
          size = (if limit' < 0 then full + limit' else full)
      in (take (nat size) data,
          b\<lparr>actual_record := Some r, byte_count := byte_count b + full, limit_left := limit',
            local_offset := offset + nat size,
            streamsize := size_sub (streamsize b) (nat size)\<rparr>))"

definition buffer_next ::
  "('q, 'r) net_ops \<Rightarrow> ('q, 'r) client_input_buffer \<Rightarrow>
   (u8 list \<times> ('q, 'r) client_input_buffer) option" where
  "buffer_next N b =
     (if limit_left b \<le> 0 then None
      else if streamsize b = 0 then None
      else (case actual_record b of
          Some r \<Rightarrow>
            if local_offset b \<ge> length (r_bytes N r)
            then (if q_empty N (io_buffer b) then None
                  else (let (r', q') = q_pop_front N (io_buffer b)
                        in Some (next_take N r' 0 (b\<lparr>io_buffer := q'\<rparr>))))
            else Some (next_take N r (local_offset b) b)
        | None \<Rightarrow>
            if q_empty N (io_buffer b) then None
            else (let (r', q') = q_pop_front N (io_buffer b)
                  in Some (next_take N r' 0 (b\<lparr>io_buffer := q'\<rparr>)))))"

definition buffer_back_up ::
  "('q, 'r) net_ops \<Rightarrow> nat \<Rightarrow> ('q, 'r) client_input_buffer \<Rightarrow>
   ('q, 'r) client_input_buffer result" where
  "buffer_back_up N count b = (case actual_record b of
       None \<Rightarrow> Inl Undefined_behaviour
     | Some r \<Rightarrow> Inr (b\<lparr>actual_record := Some (r_advance N r (size_sub (local_offset b) count)),
           local_offset := 0,
           streamsize := size_add (streamsize b) count,
           byte_count := byte_count b - int count,
           limit_left := (if limit_left b < 0 then int count else limit_left b + int count)\<rparr>))"

text \<open>\<open>Skip\<close>: the loop over \<open>Next\<close> with fuel; None is running out of fuel.\<close>

fun buffer_skip ::
  "('q, 'r) net_ops \<Rightarrow> nat \<Rightarrow> int \<Rightarrow> ('q, 'r) client_input_buffer \<Rightarrow>
   (bool \<times> ('q, 'r) client_input_buffer) result option" where
  "buffer_skip N 0 count b = None"
| "buffer_skip N (Suc fuel) count b =
     (if count > 0 then
        (case buffer_next N b of
           None \<Rightarrow> Some (Inr (False, b))
         | Some (data, b') \<Rightarrow> buffer_skip N fuel (count - int (length data)) b')
      else Some (bind_res (buffer_back_up N (nat (- count)) b) (\<lambda>b'. Inr (True, b'))))"

definition ByteCount :: "('q, 'r) client_input_buffer \<Rightarrow> int" where
  "ByteCount b = (if limit_left b < 0 then byte_count b + limit_left b else byte_count b)"

text \<open>
  \<open>ReadVarint32\<close>: the inner loop over the bytes of one chunk. The third component is the rest
  of the chunk behind the final byte of the varint, None when the chunk ends before it.
\<close>

fun varint_bytes :: "u8 list \<Rightarrow> u32 \<Rightarrow> u32 \<Rightarrow> u32 \<times> u32 \<times> u8 list option" where
  "varint_bytes [] num mult = (num, mult, None)"
| "varint_bytes (d # data) num mult =
     (if d \<ge> 128 then varint_bytes data (num + ucast (d mod 128) * mult) (mult * 128)
      else (num + ucast d * mult, mult, Some data))"

fun read_varint32 ::
  "('q, 'r) net_ops \<Rightarrow> nat \<Rightarrow> u32 \<Rightarrow> ('q, 'r) client_input_buffer \<Rightarrow>
   (bool \<times> u32 \<times> ('q, 'r) client_input_buffer) result option" where
  "read_varint32 N 0 num b = None"
| "read_varint32 N (Suc fuel) num b =
     (case buffer_next N b of
        None \<Rightarrow> Some (Inr (False, num, b))
      | Some (data, b1) \<Rightarrow>
          (case varint_bytes data num (read_var_int_multiplier b1) of
             (num', mult', None) \<Rightarrow>
               read_varint32 N fuel num' (b1\<lparr>read_var_int_multiplier := mult'\<rparr>)
           | (num', mult', Some rest) \<Rightarrow>
               Some (bind_res (buffer_back_up N (length rest) b1)
                 (\<lambda>b2. Inr (True, num', b2\<lparr>read_var_int_multiplier := 1\<rparr>)))))"

definition append_data ::
  "('q, 'r) net_ops \<Rightarrow> 'r \<Rightarrow> ('q, 'r) client_input_buffer \<Rightarrow> ('q, 'r) client_input_buffer" where
  "append_data N data b =
     b\<lparr>streamsize := size_add (streamsize b) (length (r_bytes N data)),
       io_buffer := q_push_back N (io_buffer b) data\<rparr>"

definition update_limit :: "int \<Rightarrow> ('q, 'r) client_input_buffer \<Rightarrow> ('q, 'r) client_input_buffer" where
  "update_limit limit b = b\<lparr>limit_left := limit\<rparr>"

definition get_streamsize :: "('q, 'r) client_input_buffer \<Rightarrow> nat" where
  "get_streamsize b = streamsize b"

subsection \<open>The output buffer\<close>

record client_output_buffer =
  out_buffer :: "u8 list"
  out_offset :: nat

definition new_output_buffer :: "u8 list \<Rightarrow> client_output_buffer" where
  "new_output_buffer buf = \<lparr>out_buffer = buf, out_offset = 0\<rparr>"

text \<open>\<open>Next\<close> hands out the region behind the offset: its start and its size.\<close>

definition output_next :: "client_output_buffer \<Rightarrow> ((nat \<times> nat) \<times> client_output_buffer) option" where
  "output_next b =
     (if out_offset b \<ge> length (out_buffer b) then None
      else (let size = length (out_buffer b) - out_offset b
            in Some ((out_offset b, size), b\<lparr>out_offset := out_offset b + size\<rparr>)))"

definition output_back_up :: "nat \<Rightarrow> client_output_buffer \<Rightarrow> client_output_buffer" where
  "output_back_up count b = b\<lparr>out_offset := size_sub (out_offset b) count\<rparr>"

definition output_byte_count :: "client_output_buffer \<Rightarrow> nat" where
  "output_byte_count b = out_offset b"

definition put_byte :: "u8 \<Rightarrow> client_output_buffer \<Rightarrow> client_output_buffer option" where
  "put_byte d b =
     (if out_offset b \<ge> length (out_buffer b) then None
      else Some (b\<lparr>out_buffer := (out_buffer b)[out_offset b := d], out_offset := Suc (out_offset b)\<rparr>))"

fun write_varint32 :: "nat \<Rightarrow> client_output_buffer \<Rightarrow> bool \<times> client_output_buffer" where
  "write_varint32 num b =
     (if num \<ge> 128 then
        (case put_byte (of_nat (num mod 128 + 128)) b of
           None \<Rightarrow> (False, b)
         | Some b' \<Rightarrow> write_varint32 (num div 128) b')
      else
        (case put_byte (of_nat num) b of None \<Rightarrow> (False, b) | Some b' \<Rightarrow> (True, b')))"

declare write_varint32.simps [simp del]

subsection \<open>Varints as byte lists\<close>

fun encode_varint :: "nat \<Rightarrow> u8 list" where
  "encode_varint n =
     (if n \<ge> 128 then of_nat (n mod 128 + 128) # encode_varint (n div 128) else [of_nat n])"

declare encode_varint.simps [simp del]

lemma encode_varint_nonempty [simp]: "encode_varint n \<noteq> []"
  by (subst encode_varint.simps) simp

lemma encode_varint_length: "n < 128 ^ Suc k \<Longrightarrow> length (encode_varint n) \<le> Suc k"
proof (induction k arbitrary: n)
  case 0
  then show ?case by (simp add: encode_varint.simps [of n])
next
  case (Suc k)
  show ?case
  proof (cases "n \<ge> 128")
    case True
    have "n div 128 < 128 ^ Suc k"
      using Suc.prems by (simp add: less_mult_imp_div_less mult.commute)
    then show ?thesis using True Suc.IH by (simp add: encode_varint.simps [of n])
  qed (simp add: encode_varint.simps [of n])
qed

lemma encode_varint_length_32: "n < 2 ^ 32 \<Longrightarrow> length (encode_varint n) \<le> 5"
  using encode_varint_length [of n 4] by simp

lemma high_byte:
  assumes "m < 128"
  shows "(of_nat (m + 128) :: u8) \<ge> 128" and "ucast ((of_nat (m + 128) :: u8) mod 128) = (of_nat m :: u32)"
proof -
  have u: "unat (of_nat (m + 128) :: u8) = m + 128"
    using assms by (simp only: unat_of_nat) simp
  show "(of_nat (m + 128) :: u8) \<ge> 128" using u by (simp add: word_le_nat_alt)
  have "unat (ucast ((of_nat (m + 128) :: u8) mod 128) :: u32) = m"
    using u assms by (simp add: unat_mod unsigned_ucast_eq take_bit_eq_mod)
  then show "ucast ((of_nat (m + 128) :: u8) mod 128) = (of_nat m :: u32)"
    by (metis of_nat_unat ucast_id)
qed

lemma low_byte: "m < 128 \<Longrightarrow> \<not> (of_nat m :: u8) \<ge> 128 \<and> ucast (of_nat m :: u8) = (of_nat m :: u32)"
proof -
  assume m: "m < 128"
  then have u: "unat (of_nat m :: u8) = m" by (simp add: unat_of_nat)
  then have "unat (ucast (of_nat m :: u8) :: u32) = m"
    using m by (simp add: unsigned_ucast_eq take_bit_eq_mod)
  then show ?thesis using u m by (simp add: word_le_nat_alt) (metis of_nat_unat ucast_id)
qed

lemma varint_bytes_encode:
  "\<exists>m'. varint_bytes (encode_varint n) num mult = (num + of_nat n * mult, m', Some [])"
proof (induction n arbitrary: num mult rule: encode_varint.induct)
  case (1 n)
  show ?case
  proof (cases "n \<ge> 128")
    case True
    obtain m' where m': "varint_bytes (encode_varint (n div 128)) (num + of_nat (n mod 128) * mult) (mult * 128)
        = (num + of_nat (n mod 128) * mult + of_nat (n div 128) * (mult * 128), m', Some [])"
      using 1 [OF True] by blast
    have "(of_nat n :: u32) = of_nat (n mod 128) + of_nat (n div 128) * 128"
      by (metis mod_mult_div_eq of_nat_add of_nat_mult of_nat_numeral mult.commute)
    then have "num + of_nat (n mod 128) * mult + of_nat (n div 128) * (mult * 128) = num + of_nat n * mult"
      by (simp add: algebra_simps)
    then show ?thesis
      using m' True high_byte [of "n mod 128"] by (simp add: encode_varint.simps [of n])
  next
    case False
    then show ?thesis using low_byte [of n] by (simp add: encode_varint.simps [of n])
  qed
qed

lemma varint_bytes_append:
  "varint_bytes xs num mult = (num', mult', None) \<Longrightarrow>
   varint_bytes (xs @ ys) num mult = varint_bytes ys num' mult'"
  by (induction xs num mult rule: varint_bytes.induct) (auto split: if_splits)

lemma varint_bytes_done:
  "varint_bytes xs num mult = (num', mult', Some r) \<Longrightarrow>
   varint_bytes (xs @ ys) num mult = (num', mult', Some (r @ ys))"
  by (induction xs num mult rule: varint_bytes.induct) (auto split: if_splits)

lemma varint_bytes_split:
  assumes "varint_bytes (xs @ ys) num mult = (num', mult', Some [])" and "ys \<noteq> []"
  shows "\<exists>n1 m1. varint_bytes xs num mult = (n1, m1, None) \<and> varint_bytes ys n1 m1 = (num', mult', Some [])"
  using assms by (induction xs num mult rule: varint_bytes.induct) (auto split: if_splits)

lemma varint_bytes_rest:
  "varint_bytes xs num mult = (num', mult', Some r) \<Longrightarrow>
   \<exists>ys. xs = ys @ r \<and> varint_bytes ys num mult = (num', mult', Some [])"
proof (induction xs num mult rule: varint_bytes.induct)
  case (2 d data num mult)
  show ?case
  proof (cases "d \<ge> 128")
    case True
    then obtain ys where "data = ys @ r"
        "varint_bytes ys (num + ucast (d mod 128) * mult) (mult * 128) = (num', mult', Some [])"
      using 2 by auto
    then show ?thesis using True by (intro exI [of _ "d # ys"]) simp
  next
    case False
    then show ?thesis using 2(2) by (intro exI [of _ "[d]"]) auto
  qed
qed simp

end
