(* ===== verification/Client_Handler.thy ===== *)
theory Client_Handler
  imports Wire_Buffer
begin

text \<open>
  \<^verbatim>\<open>src/src/io/client_handler.cpp\<close>: the framing of the GUI connection. A message is the varint
  of its type, the varint of its length and its bytes; the handler is a three-state machine
  (\<open>NEXT_MSG\<close>, \<open>GETLENGTH\<close>, \<open>READ_MSG\<close>) over the input buffer, and parses the body of a message
  by a callback that reads the buffer up to its limit.

  Parameters: the network library (\<open>net_ops\<close>), the callback with the state it works on, and
  for \<open>write_message\<close> the protobuf serialiser and the connection. The locale \<open>ioqueue\<close> holds
  the laws of the network library and the lemmas about the buffers that follow from them; it
  is interpreted on lists. The recursion of \<open>handle_messages\<close> takes fuel, and the lemmas show
  which amount is always enough.
\<close>

datatype internal_state_t = NEXT_MSG | GETLENGTH | READ_MSG

record ('q, 'r) client_handler =
  internal_state :: internal_state_t
  msg_type :: u32
  msg_length :: u32
  input_buffer :: "('q, 'r) client_input_buffer"

type_synonym ('q, 'r, 's) parse_callback =
  "u32 \<Rightarrow> 's \<Rightarrow> ('q, 'r) client_input_buffer \<Rightarrow> 's \<times> ('q, 'r) client_input_buffer"

definition new_client_handler :: "('q, 'r) net_ops \<Rightarrow> ('q, 'r) client_handler" where
  "new_client_handler N =
     \<lparr>internal_state = NEXT_MSG, msg_type = 0, msg_length = 0, input_buffer = new_input_buffer N\<rparr>"

text \<open>None is running out of fuel; the varint loop inside gets the fuel that is left.\<close>

fun handle_messages ::
  "('q, 'r) net_ops \<Rightarrow> ('q, 'r, 's) parse_callback \<Rightarrow> nat \<Rightarrow> 's \<Rightarrow> ('q, 'r) client_handler \<Rightarrow>
   ('s \<times> ('q, 'r) client_handler) result option" where
  "handle_messages N cb 0 s h = None"
| "handle_messages N cb (Suc fuel) s h =
     (case internal_state h of
        NEXT_MSG \<Rightarrow>
          (case read_varint32 N (Suc fuel) (msg_type h) (input_buffer h) of
             None \<Rightarrow> None
           | Some (Inl e) \<Rightarrow> Some (Inl e)
           | Some (Inr (False, t, b)) \<Rightarrow> Some (Inr (s, h\<lparr>msg_type := t, input_buffer := b\<rparr>))
           | Some (Inr (True, t, b)) \<Rightarrow>
               handle_messages N cb fuel s
                 (h\<lparr>msg_type := t, msg_length := 0, internal_state := GETLENGTH,
                    input_buffer := update_limit 5 b\<rparr>))
      | GETLENGTH \<Rightarrow>
          (case read_varint32 N (Suc fuel) (msg_length h) (input_buffer h) of
             None \<Rightarrow> None
           | Some (Inl e) \<Rightarrow> Some (Inl e)
           | Some (Inr (False, l, b)) \<Rightarrow> Some (Inr (s, h\<lparr>msg_length := l, input_buffer := b\<rparr>))
           | Some (Inr (True, l, b)) \<Rightarrow>
               handle_messages N cb fuel s
                 (h\<lparr>msg_length := l, internal_state := READ_MSG,
                    input_buffer := update_limit (sint l) b\<rparr>))
      | READ_MSG \<Rightarrow>
          if get_streamsize (input_buffer h) \<ge> unat (msg_length h)
          then (case cb (msg_type h) s (input_buffer h) of
                  (s', b) \<Rightarrow> handle_messages N cb fuel s'
                    (h\<lparr>msg_type := 0, internal_state := NEXT_MSG, input_buffer := update_limit 5 b\<rparr>))
          else Some (Inr (s, h)))"

definition incomming_data_callback ::
  "('q, 'r) net_ops \<Rightarrow> ('q, 'r, 's) parse_callback \<Rightarrow> nat \<Rightarrow> 'r \<Rightarrow> 's \<times> ('q, 'r) client_handler \<Rightarrow>
   ('s \<times> ('q, 'r) client_handler) result option" where
  "incomming_data_callback N cb fuel data sh =
     handle_messages N cb fuel (fst sh)
       ((snd sh)\<lparr>input_buffer := append_data N data (input_buffer (snd sh))\<rparr>)"

text \<open>The records of a connection, one callback after the other.\<close>

fun receive_records ::
  "('q, 'r) net_ops \<Rightarrow> ('q, 'r, 's) parse_callback \<Rightarrow> nat \<Rightarrow> 'r list \<Rightarrow> 's \<times> ('q, 'r) client_handler \<Rightarrow>
   ('s \<times> ('q, 'r) client_handler) result option" where
  "receive_records N cb fuel [] sh = Some (Inr sh)"
| "receive_records N cb fuel (r # rs) sh =
     (case incomming_data_callback N cb fuel r sh of
        Some (Inr sh') \<Rightarrow> receive_records N cb fuel rs sh'
      | bad \<Rightarrow> bad)"

subsection \<open>Writing a message\<close>

text \<open>The logarithm is the real one; the rounding of \<open>double\<close> is not modelled.\<close>

definition get_length_of_varint :: "nat \<Rightarrow> nat" where
  "get_length_of_varint num = (if num = 0 then 1 else nat \<lceil>log 2 (real (num + 1)) / 7\<rceil>)"

text \<open>
  \<open>msg_size\<close> and \<open>serialise\<close> are the message (\<open>ByteSizeLong\<close>, \<open>SerializeToZeroCopyStream\<close>),
  \<open>is_client_alive\<close> and \<open>write_data\<close> the connection; an exception of \<open>write_data\<close> is logged.
\<close>

definition write_message ::
  "('c \<Rightarrow> bool) \<Rightarrow> ('c \<Rightarrow> u8 list \<Rightarrow> 'c result) \<Rightarrow> nat \<Rightarrow>
   (client_output_buffer \<Rightarrow> bool \<times> client_output_buffer) \<Rightarrow> u32 \<Rightarrow> 'c \<Rightarrow> 'c" where
  "write_message is_client_alive write_data msg_size serialise msgtype conn =
     (let buffer = replicate (get_length_of_varint (unat msgtype) + get_length_of_varint msg_size + msg_size) 0
      in case write_varint32 (unat msgtype) (new_output_buffer buffer) of
           (False, s1) \<Rightarrow> conn
         | (True, s1) \<Rightarrow>
             (case write_varint32 msg_size s1 of
                (False, s2) \<Rightarrow> conn
              | (True, s2) \<Rightarrow>
                  (case serialise s2 of
                     (False, s3) \<Rightarrow> conn
                   | (True, s3) \<Rightarrow>
                       if is_client_alive conn
                       then (case write_data conn (out_buffer s3) of Inl e \<Rightarrow> conn | Inr conn' \<Rightarrow> conn')
                       else conn)))"

definition frame :: "u32 \<times> u8 list \<Rightarrow> u8 list" where
  "frame m = encode_varint (unat (fst m)) @ encode_varint (length (snd m)) @ snd m"

subsection \<open>The network library\<close>

locale ioqueue =
  fixes N :: "('q, 'r) net_ops" and qlist :: "'q \<Rightarrow> 'r list"
  assumes new_list: "qlist (q_new N) = []"
    and empty_list: "q_empty N q \<longleftrightarrow> qlist q = []"
    and push_list: "qlist (q_push_back N q r) = qlist q @ [r]"
    and pop_fst: "qlist q \<noteq> [] \<Longrightarrow> fst (q_pop_front N q) = hd (qlist q)"
    and pop_snd: "qlist q \<noteq> [] \<Longrightarrow> qlist (snd (q_pop_front N q)) = tl (qlist q)"
    and advance_bytes: "n \<le> length (r_bytes N r) \<Longrightarrow> r_bytes N (r_advance N r n) = drop n (r_bytes N r)"

definition unread :: "('q, 'r) net_ops \<Rightarrow> ('q, 'r) client_input_buffer \<Rightarrow> u8 list" where
  "unread N b = (case actual_record b of None \<Rightarrow> [] | Some r \<Rightarrow> drop (local_offset b) (r_bytes N r))"

definition pending ::
  "('q, 'r) net_ops \<Rightarrow> ('q \<Rightarrow> 'r list) \<Rightarrow> ('q, 'r) client_input_buffer \<Rightarrow> u8 list" where
  "pending N qlist b = unread N b @ concat (map (r_bytes N) (qlist (io_buffer b)))"

definition eff_limit :: "('q, 'r) client_input_buffer \<Rightarrow> nat" where
  "eff_limit b = nat (limit_left b)"

definition buffer_ok ::
  "('q, 'r) net_ops \<Rightarrow> ('q \<Rightarrow> 'r list) \<Rightarrow> ('q, 'r) client_input_buffer \<Rightarrow> bool" where
  "buffer_ok N qlist b \<longleftrightarrow> streamsize b = length (pending N qlist b) \<and> streamsize b < 2 ^ 64 \<and>
     (case actual_record b of None \<Rightarrow> True | Some r \<Rightarrow> local_offset b \<le> length (r_bytes N r) \<and> length (r_bytes N r) < 2 ^ 64)"

text \<open>How many more times \<open>Next\<close> can succeed.\<close>

definition rounds ::
  "('q, 'r) net_ops \<Rightarrow> ('q \<Rightarrow> 'r list) \<Rightarrow> ('q, 'r) client_input_buffer \<Rightarrow> nat" where
  "rounds N qlist b = (if limit_left b \<le> 0 then 0
     else length (qlist (io_buffer b)) + (if unread N b = [] then 0 else 1))"

text \<open>The bytes the last \<open>Next\<close> returned lie directly before the current offset.\<close>

definition just_read :: "('q, 'r) net_ops \<Rightarrow> ('q, 'r) client_input_buffer \<Rightarrow> u8 list \<Rightarrow> bool" where
  "just_read N b data \<longleftrightarrow> (\<exists>r offset. actual_record b = Some r
     \<and> local_offset b = offset + length data
     \<and> drop offset (r_bytes N r) = data @ drop (local_offset b) (r_bytes N r))"

fun read_all ::
  "('q, 'r) net_ops \<Rightarrow> nat \<Rightarrow> ('q, 'r) client_input_buffer \<Rightarrow> u8 list \<times> ('q, 'r) client_input_buffer" where
  "read_all N 0 b = ([], b)"
| "read_all N (Suc fuel) b = (case buffer_next N b of
      None \<Rightarrow> ([], b)
    | Some (data, b') \<Rightarrow> (case read_all N fuel b' of (ds, b'') \<Rightarrow> (data @ ds, b'')))"

subsection \<open>What the handler owes the peer\<close>

text \<open>
  What the code relies on when it calls \<open>parse_callback\<close>. \<open>stream_reader\<close>: the parser only
  takes bytes from the buffer. \<open>body_parser\<close>: given the whole body it consumes exactly the
  bytes within the limit, and what it does depends on these bytes alone.
\<close>

definition stream_reader ::
  "('q, 'r) net_ops \<Rightarrow> ('q \<Rightarrow> 'r list) \<Rightarrow> ('q, 'r, 's) parse_callback \<Rightarrow> bool" where
  "stream_reader N qlist cb \<longleftrightarrow> (\<forall>t s b s' b'. buffer_ok N qlist b \<longrightarrow>
     (cb t s b = (s', b') \<longrightarrow> buffer_ok N qlist b'
        \<and> length (pending N qlist b') \<le> length (pending N qlist b)
        \<and> length (qlist (io_buffer b')) \<le> length (qlist (io_buffer b))))"

definition body_parser ::
  "('q, 'r) net_ops \<Rightarrow> ('q \<Rightarrow> 'r list) \<Rightarrow> (u32 \<times> u8 list \<Rightarrow> 's \<Rightarrow> 's) \<Rightarrow> ('q, 'r, 's) parse_callback \<Rightarrow> bool" where
  "body_parser N qlist deliver cb \<longleftrightarrow> (\<forall>t s b s' b'. buffer_ok N qlist b \<longrightarrow>
     eff_limit b \<le> length (pending N qlist b) \<longrightarrow> read_var_int_multiplier b = 1 \<longrightarrow>
     (cb t s b = (s', b') \<longrightarrow> s' = deliver (t, take (eff_limit b) (pending N qlist b)) s
        \<and> buffer_ok N qlist b' \<and> pending N qlist b' = drop (eff_limit b) (pending N qlist b)
        \<and> read_var_int_multiplier b' = 1
        \<and> length (qlist (io_buffer b')) \<le> length (qlist (io_buffer b))))"

lemma stream_readerD:
  assumes "stream_reader N qlist cb" and "cb t s b = (s', b')" and "buffer_ok N qlist b"
  shows "buffer_ok N qlist b' \<and> length (pending N qlist b') \<le> length (pending N qlist b)
     \<and> length (qlist (io_buffer b')) \<le> length (qlist (io_buffer b))"
  using assms unfolding stream_reader_def by blast

lemma body_parserD:
  assumes "body_parser N qlist deliver cb" and "cb t s b = (s', b')" and "buffer_ok N qlist b"
    and "eff_limit b \<le> length (pending N qlist b)" and "read_var_int_multiplier b = 1"
  shows "s' = deliver (t, take (eff_limit b) (pending N qlist b)) s
     \<and> buffer_ok N qlist b' \<and> pending N qlist b' = drop (eff_limit b) (pending N qlist b)
     \<and> read_var_int_multiplier b' = 1
     \<and> length (qlist (io_buffer b')) \<le> length (qlist (io_buffer b))"
  using assms unfolding body_parser_def by blast

text \<open>
  The handler, with \<open>stream\<close> still to come from the peer (received or not), is going to see
  exactly the messages \<open>ms\<close>.
\<close>

definition reads :: "u8 list \<Rightarrow> u32 \<Rightarrow> ('q, 'r) client_input_buffer \<Rightarrow> u32 \<Rightarrow> bool" where
  "reads v num b num' \<longleftrightarrow> (\<exists>m'. varint_bytes v num (read_var_int_multiplier b) = (num', m', Some []))
     \<and> length v \<le> eff_limit b"

fun expects :: "('q, 'r) client_handler \<Rightarrow> u8 list \<Rightarrow> (u32 \<times> u8 list) list \<Rightarrow> bool" where
  "expects h stream [] \<longleftrightarrow> internal_state h = NEXT_MSG \<and> stream = [] \<and> msg_type h = 0
     \<and> read_var_int_multiplier (input_buffer h) = 1 \<and> eff_limit (input_buffer h) = 5"
| "expects h stream ((t, body) # ms) \<longleftrightarrow>
     length body < 2 ^ 31 \<and> list_all (\<lambda>m. length (snd m) < 2 ^ 31) ms \<and> (case internal_state h of
       NEXT_MSG \<Rightarrow> (\<exists>v. stream = v @ encode_varint (length body) @ body @ concat (map frame ms)
         \<and> reads v (msg_type h) (input_buffer h) t)
     | GETLENGTH \<Rightarrow> msg_type h = t \<and> (\<exists>v. stream = v @ body @ concat (map frame ms)
         \<and> reads v (msg_length h) (input_buffer h) (of_nat (length body)))
     | READ_MSG \<Rightarrow> msg_type h = t \<and> msg_length h = of_nat (length body)
         \<and> stream = body @ concat (map frame ms) \<and> eff_limit (input_buffer h) = length body
         \<and> read_var_int_multiplier (input_buffer h) = 1)"

fun weight :: "internal_state_t \<Rightarrow> nat" where
  "weight NEXT_MSG = 0"
| "weight GETLENGTH = 1"
| "weight READ_MSG = 2"

text \<open>Enough fuel for the bytes that are there.\<close>

definition work ::
  "('q, 'r) net_ops \<Rightarrow> ('q \<Rightarrow> 'r list) \<Rightarrow> ('q, 'r) client_handler \<Rightarrow> nat" where
  "work N qlist h = 2 * length (pending N qlist (input_buffer h)) + weight (internal_state h)
     + length (qlist (io_buffer (input_buffer h))) + 2"

lemma unat_of_small: "n < 2 ^ 31 \<Longrightarrow> unat (of_nat n :: u32) = n"
  by (simp add: unat_of_nat)

lemma sint_of_small:
  assumes "n < 2 ^ 31"
  shows "sint (of_nat n :: u32) = int n"
  using assms by (simp add: signed_of_nat signed_take_bit_int_eq_self)

lemma reads_encode:
  assumes "n < 2 ^ 32" and "read_var_int_multiplier b = 1" and "eff_limit b = 5"
  shows "reads (encode_varint n) 0 b (of_nat n)"
  using varint_bytes_encode [of n 0 1] encode_varint_length_32 [OF assms(1)] assms(2,3)
  by (simp add: reads_def)

lemma expects_next:
  assumes "internal_state h = NEXT_MSG" and "msg_type h = 0"
    and "read_var_int_multiplier (input_buffer h) = 1" and "eff_limit (input_buffer h) = 5"
    and "list_all (\<lambda>m. length (snd m) < 2 ^ 31) ms"
  shows "expects h (concat (map frame ms)) ms"
proof (cases ms)
  case (Cons m ms')
  obtain t body where m: "m = (t, body)" by fastforce
  have "unat t < 2 ^ 32" using unsigned_less [of t] by simp
  then have "reads (encode_varint (unat t)) 0 (input_buffer h) t"
    using reads_encode [of "unat t" "input_buffer h"] assms(3,4) by simp
  then show ?thesis
    using assms Cons m by (auto simp: frame_def intro!: exI [of _ "encode_varint (unat t)"])
qed (use assms in simp)

lemma multiplier_update [simp]:
  "unread N (b\<lparr>read_var_int_multiplier := m\<rparr>) = unread N b"
  "pending N ql (b\<lparr>read_var_int_multiplier := m\<rparr>) = pending N ql b"
  "eff_limit (b\<lparr>read_var_int_multiplier := m\<rparr>) = eff_limit b"
  "buffer_ok N ql (b\<lparr>read_var_int_multiplier := m\<rparr>) = buffer_ok N ql b"
  "rounds N ql (b\<lparr>read_var_int_multiplier := m\<rparr>) = rounds N ql b"
  by (cases "actual_record b"; simp add: unread_def pending_def eff_limit_def buffer_ok_def rounds_def)+

lemma update_limit_simps [simp]:
  "unread N (update_limit l b) = unread N b"
  "pending N ql (update_limit l b) = pending N ql b"
  "eff_limit (update_limit l b) = nat l"
  "buffer_ok N ql (update_limit l b) = buffer_ok N ql b"
  "read_var_int_multiplier (update_limit l b) = read_var_int_multiplier b"
  "io_buffer (update_limit l b) = io_buffer b"
  by (cases "actual_record b"; simp add: update_limit_def unread_def pending_def eff_limit_def buffer_ok_def)+

context ioqueue begin

abbreviation "pend \<equiv> pending N qlist"
abbreviation "ok \<equiv> buffer_ok N qlist"

lemma next_take_spec:
  assumes r: "offset \<le> length (r_bytes N r)" and small: "length (r_bytes N r) < 2 ^ 64" and lim: "limit_left b > 0"
    and p: "p = drop offset (r_bytes N r) @ concat (map (r_bytes N) (qlist (io_buffer b)))"
    and ssz: "streamsize b = length p" and bnd: "streamsize b < 2 ^ 64"
    and nt: "next_take N r offset (b\<lparr>local_offset := offset\<rparr>) = (data, b')"
  shows "ok b'" and "p = data @ pend b'" and "eff_limit b = eff_limit b' + length data"
    and "read_var_int_multiplier b' = read_var_int_multiplier b" and "io_buffer b' = io_buffer b"
    and "limit_left b' \<le> 0 \<or> unread N b' = []" and "just_read N b' data"
proof -
  let ?full = "length (r_bytes N r) - offset"
  let ?n = "min (eff_limit b) ?full"
  have n: "nat (if limit_left b - (int (length (r_bytes N r)) - int offset) < 0
      then int (length (r_bytes N r)) - int offset + (limit_left b - (int (length (r_bytes N r)) - int offset))
      else int (length (r_bytes N r)) - int offset) = ?n"
    using r lim by (auto simp: eff_limit_def)
  have data: "data = take ?n (drop offset (r_bytes N r))"
    and b': "b' = b\<lparr>actual_record := Some r, byte_count := byte_count b + (int (length (r_bytes N r)) - int offset),
       limit_left := limit_left b - (int (length (r_bytes N r)) - int offset),
       local_offset := offset + ?n, streamsize := size_sub (streamsize b) ?n\<rparr>"
    using nt n unfolding next_take_def Let_def by auto
  have ss: "size_sub (streamsize b) ?n = streamsize b - ?n"
    using bnd ssz p by (intro size_sub_le) auto
  have split: "drop offset (r_bytes N r) = data @ drop (offset + ?n) (r_bytes N r)"
    unfolding data by (metis append_take_drop_id drop_drop add.commute)
  have un: "unread N b' = drop (offset + ?n) (r_bytes N r)" by (simp add: b' unread_def)
  have io: "io_buffer b' = io_buffer b" by (simp add: b')
  show p': "p = data @ pend b'" unfolding pending_def un io p split by simp
  have ld: "length data = ?n" by (simp add: data)
  have "streamsize b' = streamsize b - ?n" unfolding b' by (simp add: ss)
  then have "streamsize b' = length (pend b')" using ssz p' ld by simp
  moreover have "streamsize b' < 2 ^ 64" using calculation bnd ssz p' by simp
  moreover have "actual_record b' = Some r" "local_offset b' \<le> length (r_bytes N r)"
    using r by (simp_all add: b')
  ultimately show "ok b'" using small by (simp add: buffer_ok_def)
  show "eff_limit b = eff_limit b' + length data"
    unfolding ld using r lim by (simp add: b' eff_limit_def)
  show "limit_left b' \<le> 0 \<or> unread N b' = []"
    unfolding un using r lim by (auto simp: b' eff_limit_def)
  show "just_read N b' data"
    unfolding just_read_def by (rule exI [of _ r], rule exI [of _ offset]) (use ld split in \<open>simp add: b'\<close>)
  show "read_var_int_multiplier b' = read_var_int_multiplier b" "io_buffer b' = io_buffer b" by (simp_all add: b')
qed

lemma buffer_next_None: "ok b \<Longrightarrow> buffer_next N b = None \<longleftrightarrow> eff_limit b = 0 \<or> pend b = []"
  by (auto simp: buffer_next_def buffer_ok_def pending_def unread_def eff_limit_def empty_list
      Let_def split: option.splits prod.splits if_splits)

lemma buffer_next_spec:
  assumes ok: "ok b" and nx: "buffer_next N b = Some (data, b')"
  shows "ok b' \<and> pend b = data @ pend b' \<and> eff_limit b = eff_limit b' + length data
    \<and> read_var_int_multiplier b' = read_var_int_multiplier b
    \<and> rounds N qlist b' < rounds N qlist b
    \<and> length (qlist (io_buffer b')) \<le> length (qlist (io_buffer b)) \<and> just_read N b' data"
proof -
  have lim: "limit_left b > 0" and ssz: "streamsize b \<noteq> 0"
    using nx by (auto simp: buffer_next_def split: if_splits)
  have bnd: "streamsize b < 2 ^ 64" and len: "streamsize b = length (pend b)"
    using ok by (auto simp: buffer_ok_def)
  show ?thesis
  proof (cases "\<exists>r. actual_record b = Some r \<and> local_offset b < length (r_bytes N r)")
    case True
    then obtain r where r: "actual_record b = Some r" "local_offset b < length (r_bytes N r)" by blast
    have st: "next_take N r (local_offset b) (b\<lparr>local_offset := local_offset b\<rparr>) = (data, b')"
      using nx lim ssz r by (auto simp: buffer_next_def split: if_splits)
    have p: "pend b = drop (local_offset b) (r_bytes N r) @ concat (map (r_bytes N) (qlist (io_buffer b)))"
      using r by (simp add: pending_def unread_def)
    have le: "local_offset b \<le> length (r_bytes N r)" using r by simp
    have small: "length (r_bytes N r) < 2 ^ 64" using ok r by (simp add: buffer_ok_def)
    note spec = next_take_spec [OF le small lim p len bnd st]
    have "unread N b \<noteq> []" using r by (simp add: unread_def)
    then have "rounds N qlist b' < rounds N qlist b"
      using spec(5,6) lim by (auto simp: rounds_def)
    with spec show ?thesis by simp
  next
    case False
    then have un: "unread N b = []" by (auto simp: unread_def split: option.splits)
    then have p: "pend b = concat (map (r_bytes N) (qlist (io_buffer b)))" by (simp add: pending_def)
    then have q: "qlist (io_buffer b) \<noteq> []" using len ssz by auto
    obtain r q' where pop: "q_pop_front N (io_buffer b) = (r, q')" by fastforce
    have ql: "qlist (io_buffer b) = r # qlist q'"
      using pop_fst [OF q] pop_snd [OF q] q pop by (cases "qlist (io_buffer b)") auto
    let ?b = "b\<lparr>io_buffer := q'\<rparr>"
    have nt: "next_take N r 0 ?b = (data, b')"
      using nx lim ssz False pop q by (auto simp: buffer_next_def empty_list split: if_splits option.splits)
    have st: "next_take N r 0 (?b\<lparr>local_offset := 0\<rparr>) = (data, b')"
      using nt by (simp add: next_take_def Let_def)
    have p2: "pend b = drop 0 (r_bytes N r) @ concat (map (r_bytes N) (qlist (io_buffer ?b)))"
      by (simp add: p ql)
    have "limit_left ?b > 0" "streamsize ?b = length (pend b)" "streamsize ?b < 2 ^ 64"
      and small: "length (r_bytes N r) < 2 ^ 64"
      using lim len bnd p ql by simp_all
    note spec = next_take_spec [OF le0 small this(1) p2 this(2,3) st]
    have "rounds N qlist b' < rounds N qlist b"
      using spec(5,6) lim un by (auto simp: rounds_def ql)
    moreover have "eff_limit ?b = eff_limit b" "read_var_int_multiplier ?b = read_var_int_multiplier b"
      by (simp_all add: eff_limit_def)
    ultimately show ?thesis using spec by (simp add: ql)
  qed
qed

lemma buffer_back_up_spec:
  assumes ok: "ok b" and jr: "just_read N b (used @ rest)" and bnd: "length (rest @ pend b) < 2 ^ 64"
  shows "\<exists>b'. buffer_back_up N (length rest) b = Inr b' \<and> ok b' \<and> pend b' = rest @ pend b
     \<and> eff_limit b' = eff_limit b + length rest
     \<and> read_var_int_multiplier b' = read_var_int_multiplier b \<and> io_buffer b' = io_buffer b"
proof -
  from jr obtain r offset where r: "actual_record b = Some r"
    and lo: "local_offset b = offset + length (used @ rest)"
    and dr: "drop offset (r_bytes N r) = (used @ rest) @ drop (local_offset b) (r_bytes N r)"
    by (auto simp: just_read_def)
  let ?k = "offset + length used"
  have "local_offset b \<le> length (r_bytes N r)" using ok r by (simp add: buffer_ok_def)
  then have kle: "?k \<le> length (r_bytes N r)" using lo by simp
  moreover have "local_offset b < 2 ^ 64" using ok r by (simp add: buffer_ok_def)
  ultimately have sz: "size_sub (local_offset b) (length rest) = ?k"
    using lo by (simp add: size_sub_le)
  have adv: "r_bytes N (r_advance N r ?k) = rest @ unread N b"
  proof -
    have "drop ?k (r_bytes N r) = drop (length used) (drop offset (r_bytes N r))"
      by (simp add: add.commute)
    also have "\<dots> = rest @ drop (local_offset b) (r_bytes N r)" by (subst dr) simp
    finally show ?thesis using advance_bytes [OF kle] r by (simp add: unread_def)
  qed
  obtain b' where bu: "buffer_back_up N (length rest) b = Inr b'" and b': "b' = b\<lparr>actual_record := Some (r_advance N r ?k), local_offset := 0,
      streamsize := size_add (streamsize b) (length rest), byte_count := byte_count b - int (length rest),
      limit_left := (if limit_left b < 0 then int (length rest) else limit_left b + int (length rest))\<rparr>"
    using r sz by (simp add: buffer_back_up_def)
  have un: "unread N b' = rest @ unread N b" using adv by (simp add: b' unread_def)
  then have pd: "pend b' = rest @ pend b" by (simp add: pending_def) (simp add: b')
  have "streamsize b = length (pend b)" using ok by (simp add: buffer_ok_def)
  then have "streamsize b' = length (rest @ pend b)" using bnd by (simp add: b' size_add_lt)
  moreover have "length (rest @ unread N b) < 2 ^ 64" using bnd by (simp add: pending_def)
  ultimately have "ok b'" using pd bnd adv by (simp add: buffer_ok_def) (simp add: b')
  moreover have "eff_limit b' = eff_limit b + length rest"
    by (auto simp: b' eff_limit_def)
  ultimately show ?thesis using bu pd by (simp add: b')
qed

text \<open>
  \<open>ReadVarint32\<close> with more fuel than \<open>Next\<close> can succeed: it decodes the bytes that are there and
  within the limit, consumes exactly those of the varint, and keeps its progress otherwise.
\<close>

definition varint_outcome ::
  "u32 \<Rightarrow> ('q, 'r) client_input_buffer \<Rightarrow> bool \<Rightarrow> u32 \<Rightarrow> ('q, 'r) client_input_buffer \<Rightarrow> bool" where
  "varint_outcome num b done num' b' \<longleftrightarrow> ok b' \<and> length (qlist (io_buffer b')) \<le> length (qlist (io_buffer b))
     \<and> (\<exists>used. pend b = used @ pend b' \<and> eff_limit b = eff_limit b' + length used
       \<and> (if done
          then \<exists>m'. varint_bytes used num (read_var_int_multiplier b) = (num', m', Some [])
               \<and> read_var_int_multiplier b' = 1
          else varint_bytes used num (read_var_int_multiplier b) = (num', read_var_int_multiplier b', None)
               \<and> (eff_limit b' = 0 \<or> pend b' = [])))"

lemma varint_outcome_step:
  assumes "varint_outcome num1 (b1\<lparr>read_var_int_multiplier := m1\<rparr>) fin num' b'"
    and "pend b = data @ pend b1" and "eff_limit b = eff_limit b1 + length data"
    and "length (qlist (io_buffer b1)) \<le> length (qlist (io_buffer b))"
    and "varint_bytes data num (read_var_int_multiplier b) = (num1, m1, None)"
  shows "varint_outcome num b fin num' b'"
proof -
  from assms(1) obtain used where "pend b1 = used @ pend b'" "eff_limit b1 = eff_limit b' + length used"
    and u: "if fin then \<exists>m'. varint_bytes used num1 m1 = (num', m', Some []) \<and> read_var_int_multiplier b' = 1
          else varint_bytes used num1 m1 = (num', read_var_int_multiplier b', None)
               \<and> (eff_limit b' = 0 \<or> pend b' = [])"
    and ok: "ok b'" "length (qlist (io_buffer b')) \<le> length (qlist (io_buffer b1))"
    unfolding varint_outcome_def by (auto split: if_splits)
  then have "pend b = (data @ used) @ pend b'" "eff_limit b = eff_limit b' + length (data @ used)"
    using assms(2,3) by simp_all
  moreover have "varint_bytes (data @ used) num (read_var_int_multiplier b) = varint_bytes used num1 m1"
    using varint_bytes_append [OF assms(5)] .
  ultimately show ?thesis
    unfolding varint_outcome_def using u ok assms(4)
    by (intro conjI exI [of _ "data @ used"]) (auto split: if_splits)
qed

lemma read_varint32_spec:
  "ok b \<Longrightarrow> rounds N qlist b < fuel \<Longrightarrow>
   \<exists>fin num' b'. read_varint32 N fuel num b = Some (Inr (fin, num', b')) \<and> varint_outcome num b fin num' b'"
proof (induction fuel arbitrary: num b)
  case (Suc fuel)
  show ?case
  proof (cases "buffer_next N b")
    case None
    then show ?thesis
      using Suc.prems buffer_next_None [of b] by (auto simp: varint_outcome_def)
  next
    case (Some db)
    obtain data b1 where db: "db = (data, b1)" by fastforce
    note nx = buffer_next_spec [OF Suc.prems(1) Some [unfolded db]]
    obtain num1 m1 r where vb: "varint_bytes data num (read_var_int_multiplier b1) = (num1, m1, r)"
      by (metis prod_cases3)
    show ?thesis
    proof (cases r)
      case None
      let ?b = "b1\<lparr>read_var_int_multiplier := m1\<rparr>"
      have "ok ?b" "rounds N qlist ?b < fuel"
        using nx Suc.prems(2) by simp_all
      then obtain fin num' b' where rd: "read_varint32 N fuel num1 ?b = Some (Inr (fin, num', b'))"
        and oc: "varint_outcome num1 ?b fin num' b'"
        using Suc.IH by blast
      have "varint_outcome num b fin num' b'"
        by (rule varint_outcome_step [OF oc, where data = data]) (use nx vb None in simp_all)
      then show ?thesis using rd vb None Some db by auto
    next
      case (Some rest)
      obtain used where used: "data = used @ rest"
        and vu: "varint_bytes used num (read_var_int_multiplier b1) = (num1, m1, Some [])"
        using varint_bytes_rest vb Some by blast
      have "length (rest @ pend b1) < 2 ^ 64"
        using nx used Suc.prems(1) by (auto simp: buffer_ok_def)
      then obtain b2 where b2: "buffer_back_up N (length rest) b1 = Inr b2" "ok b2"
          "pend b2 = rest @ pend b1" "eff_limit b2 = eff_limit b1 + length rest" "io_buffer b2 = io_buffer b1"
        using buffer_back_up_spec [of b1 used rest] nx used by auto
      let ?b = "b2\<lparr>read_var_int_multiplier := 1\<rparr>"
      have "ok ?b" "pend ?b = pend b2" "eff_limit ?b = eff_limit b2"
        using b2(2) by simp_all
      then have "varint_outcome num b True num1 ?b"
        unfolding varint_outcome_def using b2 nx used vu
        by (intro conjI exI [of _ used]) auto
      then show ?thesis using \<open>buffer_next N b = Some db\<close> db vb Some b2 by auto
    qed
  qed
qed simp

lemma read_expected:
  assumes ok: "ok b" and fuel: "rounds N qlist b < fuel" and rd: "reads v num b n"
    and st: "pend b @ future = v @ rest"
  shows "\<exists>fin num' b'. read_varint32 N fuel num b = Some (Inr (fin, num', b')) \<and> ok b'
     \<and> length (qlist (io_buffer b')) \<le> length (qlist (io_buffer b))
     \<and> (if fin then num' = n \<and> pend b' @ future = rest \<and> read_var_int_multiplier b' = 1
          \<and> length (pend b') < length (pend b)
        else pend b' = [] \<and> (\<exists>v'. future = v' @ rest \<and> v' \<noteq> [] \<and> reads v' num' b' n))"
proof -
  from rd obtain m' where v: "varint_bytes v num (read_var_int_multiplier b) = (n, m', Some [])"
    and lv: "length v \<le> eff_limit b" by (auto simp: reads_def)
  obtain fin num' b' where r: "read_varint32 N fuel num b = Some (Inr (fin, num', b'))"
    and oc: "varint_outcome num b fin num' b'"
    using read_varint32_spec [OF ok fuel] by blast
  then obtain used where used: "pend b = used @ pend b'" "eff_limit b = eff_limit b' + length used"
    and b': "ok b'" "length (qlist (io_buffer b')) \<le> length (qlist (io_buffer b))"
    by (auto simp: varint_outcome_def)
  have "used @ (pend b' @ future) = v @ rest" using st used(1) by simp
  then obtain us where us: "used = v @ us \<and> us @ pend b' @ future = rest
      \<or> used @ us = v \<and> pend b' @ future = us @ rest"
    by (auto simp: append_eq_append_conv2)
  show ?thesis
  proof (cases fin)
    case True
    then obtain m'' where vu: "varint_bytes used num (read_var_int_multiplier b) = (num', m'', Some [])"
      and one: "read_var_int_multiplier b' = 1"
      using oc used by (auto simp: varint_outcome_def)
    have "us = [] \<and> num' = n"
      using us v vu varint_bytes_done [OF v, of us] varint_bytes_done [OF vu, of us] by auto
    moreover have "used \<noteq> []" using vu by auto
    ultimately have "num' = n \<and> pend b' @ future = rest \<and> length (pend b') < length (pend b)"
      using us used(1) by auto
    with True one show ?thesis using r b' by auto
  next
    case False
    then have vu: "varint_bytes used num (read_var_int_multiplier b) = (num', read_var_int_multiplier b', None)"
      and stop: "eff_limit b' = 0 \<or> pend b' = []"
      using oc used by (auto simp: varint_outcome_def)
    have "\<not> (used = v @ us \<and> us @ pend b' @ future = rest)"
      using vu varint_bytes_done [OF v, of us] by auto
    then have us: "v = used @ us" "pend b' @ future = us @ rest" using us by auto
    have vs: "varint_bytes us num' (read_var_int_multiplier b') = (n, m', Some [])"
      using varint_bytes_append [OF vu, of us] v us by simp
    then have ne: "us \<noteq> []" by auto
    moreover have le: "length us \<le> eff_limit b'" using lv used(2) us(1) by simp
    ultimately have "pend b' = []" using stop by auto
    then have "\<exists>v'. future = v' @ rest \<and> v' \<noteq> [] \<and> reads v' num' b' n"
      using us vs ne le by (intro exI [of _ us]) (simp add: reads_def)
    with False show ?thesis using r b' \<open>pend b' = []\<close> by auto
  qed
qed

text \<open>With enough fuel the handler returns, whatever the peer sends.\<close>

lemma read_varint32_total:
  assumes "ok b" and "rounds N qlist b < fuel"
  shows "\<exists>fin num' b'. read_varint32 N fuel num b = Some (Inr (fin, num', b')) \<and> ok b'
     \<and> length (qlist (io_buffer b')) \<le> length (qlist (io_buffer b))
     \<and> length (pend b') + (if fin then 1 else 0) \<le> length (pend b)"
proof -
  obtain fin num' b' where r: "read_varint32 N fuel num b = Some (Inr (fin, num', b'))"
    and oc: "varint_outcome num b fin num' b'"
    using read_varint32_spec [OF assms] by blast
  then obtain used where "pend b = used @ pend b'" "fin \<Longrightarrow> used \<noteq> []"
    by (force simp: varint_outcome_def split: if_splits)
  then have "length (pend b') + (if fin then 1 else 0) \<le> length (pend b)"
    by (cases used) auto
  then show ?thesis using r oc by (auto simp: varint_outcome_def)
qed

declare read_varint32.simps [simp del]

lemma rounds_work: "rounds N qlist (input_buffer h) < work N qlist h"
  by (simp add: rounds_def work_def)

lemma handle_messages_total:
  assumes cb: "stream_reader N qlist cb"
  shows "ok (input_buffer h) \<Longrightarrow> work N qlist h \<le> fuel \<Longrightarrow>
    \<exists>s' h'. handle_messages N cb fuel s h = Some (Inr (s', h')) \<and> ok (input_buffer h')
      \<and> length (qlist (io_buffer (input_buffer h'))) \<le> length (qlist (io_buffer (input_buffer h)))
      \<and> length (pend (input_buffer h')) \<le> length (pend (input_buffer h))"
proof (induction fuel arbitrary: s h)
  case 0
  then show ?case by (simp add: work_def)
next
  case (Suc fuel)
  let ?b = "input_buffer h"
  have rounds: "rounds N qlist ?b < Suc fuel" using rounds_work [of h] Suc.prems(2) by simp
  show ?case
  proof (cases "internal_state h")
    case NEXT_MSG
    obtain fin t b where r: "read_varint32 N (Suc fuel) (msg_type h) ?b = Some (Inr (fin, t, b))" "ok b"
       "length (qlist (io_buffer b)) \<le> length (qlist (io_buffer ?b))"
       "length (pend b) + (if fin then 1 else 0) \<le> length (pend ?b)"
      using read_varint32_total [OF Suc.prems(1) rounds] by blast
    show ?thesis
    proof (cases fin)
      case True
      let ?h = "h\<lparr>msg_type := t, msg_length := 0, internal_state := GETLENGTH, input_buffer := update_limit 5 b\<rparr>"
      have "work N qlist ?h \<le> fuel" using Suc.prems(2) r True NEXT_MSG by (simp add: work_def)
      with Suc.IH [of ?h s] show ?thesis using NEXT_MSG r True by fastforce
    qed (use NEXT_MSG r in simp)
  next
    case GETLENGTH
    obtain fin l b where r: "read_varint32 N (Suc fuel) (msg_length h) ?b = Some (Inr (fin, l, b))" "ok b"
       "length (qlist (io_buffer b)) \<le> length (qlist (io_buffer ?b))"
       "length (pend b) + (if fin then 1 else 0) \<le> length (pend ?b)"
      using read_varint32_total [OF Suc.prems(1) rounds] by blast
    show ?thesis
    proof (cases fin)
      case True
      let ?h = "h\<lparr>msg_length := l, internal_state := READ_MSG, input_buffer := update_limit (sint l) b\<rparr>"
      have "work N qlist ?h \<le> fuel" using Suc.prems(2) r True GETLENGTH by (simp add: work_def)
      with Suc.IH [of ?h s] show ?thesis using GETLENGTH r True by fastforce
    qed (use GETLENGTH r in simp)
  next
    case READ_MSG
    obtain s' b where c: "cb (msg_type h) s ?b = (s', b)" by fastforce
    then have b: "ok b" "length (pend b) \<le> length (pend ?b)"
        "length (qlist (io_buffer b)) \<le> length (qlist (io_buffer ?b))"
      using stream_readerD [OF cb c Suc.prems(1)] by simp_all
    let ?h = "h\<lparr>msg_type := 0, internal_state := NEXT_MSG, input_buffer := update_limit 5 b\<rparr>"
    have "work N qlist ?h \<le> fuel" using Suc.prems(2) b READ_MSG by (simp add: work_def)
    with Suc.IH [of ?h s'] show ?thesis using READ_MSG Suc.prems(1) c b by fastforce
  qed
qed

text \<open>With enough fuel the handler delivers every message that is complete.\<close>

definition waiting :: "('q, 'r) client_handler \<Rightarrow> bool" where
  "waiting h \<longleftrightarrow> (if internal_state h = READ_MSG
     then length (pend (input_buffer h)) < unat (msg_length h) else pend (input_buffer h) = [])"

definition delivered where
  "delivered deliver s h future ms s' h' \<longleftrightarrow> ok (input_buffer h') \<and> waiting h'
     \<and> length (qlist (io_buffer (input_buffer h'))) \<le> length (qlist (io_buffer (input_buffer h)))
     \<and> length (pend (input_buffer h')) \<le> length (pend (input_buffer h))
     \<and> (\<exists>ms1 ms2. ms = ms1 @ ms2 \<and> s' = fold deliver ms1 s
          \<and> expects h' (pend (input_buffer h') @ future) ms2)"

lemma delivered_nothing:
  "ok (input_buffer h') \<Longrightarrow> waiting h' \<Longrightarrow>
   length (qlist (io_buffer (input_buffer h'))) \<le> length (qlist (io_buffer (input_buffer h))) \<Longrightarrow>
   length (pend (input_buffer h')) \<le> length (pend (input_buffer h)) \<Longrightarrow>
   expects h' (pend (input_buffer h') @ future) ms \<Longrightarrow> delivered deliver s h future ms s h'"
  by (fastforce simp: delivered_def intro: exI [of _ "[]"])

lemma delivered_Cons:
  assumes "delivered deliver s' h1 future ms' s'' h'" and "s' = deliver m s" and "ms = m # ms'"
    and "length (qlist (io_buffer (input_buffer h1))) \<le> length (qlist (io_buffer (input_buffer h)))"
    and "length (pend (input_buffer h1)) \<le> length (pend (input_buffer h))"
  shows "delivered deliver s h future ms s'' h'"
proof -
  from assms(1) obtain ms1 ms2 where "ms' = ms1 @ ms2" "s'' = fold deliver ms1 s'"
    "expects h' (pend (input_buffer h') @ future) ms2"
    by (auto simp: delivered_def)
  then have "\<exists>ms1 ms2. ms = ms1 @ ms2 \<and> s'' = fold deliver ms1 s
      \<and> expects h' (pend (input_buffer h') @ future) ms2"
    using assms(2,3) by (intro exI [of _ "m # ms1"] exI [of _ ms2]) simp
  then show ?thesis using assms(1,4,5) by (auto simp: delivered_def)
qed

lemma handle_messages_delivers:
  assumes cb: "body_parser N qlist deliver cb"
  shows "ok (input_buffer h) \<Longrightarrow> work N qlist h \<le> fuel \<Longrightarrow>
    expects h (pend (input_buffer h) @ future) ms \<Longrightarrow>
    \<exists>s' h'. handle_messages N cb fuel s h = Some (Inr (s', h')) \<and> delivered deliver s h future ms s' h'"
proof (induction fuel arbitrary: s h ms)
  case 0
  then show ?case by (simp add: work_def)
next
  case (Suc fuel)
  let ?b = "input_buffer h"
  have rounds: "rounds N qlist ?b < Suc fuel" using rounds_work [of h] Suc.prems(2) by simp
  show ?case
  proof (cases ms)
    case Nil
    then have "read_varint32 N (Suc fuel) (msg_type h) ?b = Some (Inr (False, msg_type h, ?b))"
      using Suc.prems buffer_next_None [of ?b] by (simp add: read_varint32.simps)
    then have "handle_messages N cb (Suc fuel) s h = Some (Inr (s, h))"
      using Suc.prems(3) Nil by simp
    then show ?thesis
      using Suc.prems Nil by (auto simp: delivered_def waiting_def)
  next
    case (Cons m ms')
    obtain t body where m: "m = (t, body)" by fastforce
    have lb: "length body < 2 ^ 31" "list_all (\<lambda>m. length (snd m) < 2 ^ 31) ms'"
      using Suc.prems(3) Cons m by simp_all
    show ?thesis
    proof (cases "internal_state h")
      case NEXT_MSG
      then obtain v where st: "pend ?b @ future = v @ encode_varint (length body) @ body @ concat (map frame ms')"
        and rd: "reads v (msg_type h) ?b t"
        using Suc.prems(3) Cons m by auto
      obtain fin t' b where r: "read_varint32 N (Suc fuel) (msg_type h) ?b = Some (Inr (fin, t', b))"
        and ok: "ok b" and q: "length (qlist (io_buffer b)) \<le> length (qlist (io_buffer ?b))"
        and f: "if fin then t' = t \<and> pend b @ future = encode_varint (length body) @ body @ concat (map frame ms')
            \<and> read_var_int_multiplier b = 1 \<and> length (pend b) < length (pend ?b)
          else pend b = [] \<and> (\<exists>v'. future = v' @ encode_varint (length body) @ body @ concat (map frame ms')
            \<and> v' \<noteq> [] \<and> reads v' t' b t)"
        using read_expected [OF Suc.prems(1) rounds rd st] by blast
      show ?thesis
      proof (cases fin)
        case True
        let ?h = "h\<lparr>msg_type := t', msg_length := 0, internal_state := GETLENGTH, input_buffer := update_limit 5 b\<rparr>"
        have w: "work N qlist ?h \<le> fuel" using Suc.prems(2) f q True NEXT_MSG by (simp add: work_def)
        have "reads (encode_varint (length body)) 0 (update_limit 5 b) (of_nat (length body))"
          using lb f True by (intro reads_encode) auto
        then have "expects ?h (pend b @ future) ms" using Cons m lb f True by auto
        then obtain s' h' where "handle_messages N cb fuel s ?h = Some (Inr (s', h'))"
          and "delivered deliver s ?h future ms s' h'"
          using Suc.IH [of ?h ms s] w ok by auto
        then show ?thesis using NEXT_MSG r True f q by (auto simp: delivered_def)
      next
        case False
        let ?h = "h\<lparr>msg_type := t', input_buffer := b\<rparr>"
        have "expects ?h (pend b @ future) ms" using NEXT_MSG f False Cons m lb by auto
        then have "delivered deliver s h future ms s ?h"
          using NEXT_MSG f False q ok by (intro delivered_nothing) (auto simp: waiting_def)
        then show ?thesis using NEXT_MSG r False by auto
      qed
    next
      case GETLENGTH
      then obtain v where st: "pend ?b @ future = v @ body @ concat (map frame ms')"
        and rd: "reads v (msg_length h) ?b (of_nat (length body))" and t: "msg_type h = t"
        using Suc.prems(3) Cons m by auto
      obtain fin l b where r: "read_varint32 N (Suc fuel) (msg_length h) ?b = Some (Inr (fin, l, b))"
        and ok: "ok b" and q: "length (qlist (io_buffer b)) \<le> length (qlist (io_buffer ?b))"
        and f: "if fin then l = of_nat (length body) \<and> pend b @ future = body @ concat (map frame ms')
            \<and> read_var_int_multiplier b = 1 \<and> length (pend b) < length (pend ?b)
          else pend b = [] \<and> (\<exists>v'. future = v' @ body @ concat (map frame ms')
            \<and> v' \<noteq> [] \<and> reads v' l b (of_nat (length body)))"
        using read_expected [OF Suc.prems(1) rounds rd st] by blast
      show ?thesis
      proof (cases fin)
        case True
        let ?h = "h\<lparr>msg_length := l, internal_state := READ_MSG, input_buffer := update_limit (sint l) b\<rparr>"
        have w: "work N qlist ?h \<le> fuel" using Suc.prems(2) f q True GETLENGTH by (simp add: work_def)
        have "expects ?h (pend b @ future) ms" using Cons m lb f True t sint_of_small [OF lb(1)] by simp
        then obtain s' h' where "handle_messages N cb fuel s ?h = Some (Inr (s', h'))"
          and "delivered deliver s ?h future ms s' h'"
          using Suc.IH [of ?h ms s] w ok by auto
        then show ?thesis using GETLENGTH r True f q by (auto simp: delivered_def)
      next
        case False
        let ?h = "h\<lparr>msg_length := l, input_buffer := b\<rparr>"
        have "expects ?h (pend b @ future) ms" using GETLENGTH f False Cons m lb t by auto
        then have "delivered deliver s h future ms s ?h"
          using GETLENGTH f False q ok by (intro delivered_nothing) (auto simp: waiting_def)
        then show ?thesis using GETLENGTH r False by auto
      qed
    next
      case READ_MSG
      then have st: "pend ?b @ future = body @ concat (map frame ms')" and t: "msg_type h = t"
        and l: "unat (msg_length h) = length body" "eff_limit ?b = length body" "read_var_int_multiplier ?b = 1"
        using Suc.prems(3) Cons m lb unat_of_small by auto
      have sz: "get_streamsize ?b = length (pend ?b)"
        using Suc.prems(1) by (simp add: get_streamsize_def buffer_ok_def)
      show ?thesis
      proof (cases "length body \<le> length (pend ?b)")
        case True
        obtain s' b where c: "cb t s ?b = (s', b)" by fastforce
        have p: "take (length body) (pend ?b) = body" "drop (length body) (pend ?b) @ future = concat (map frame ms')"
          using arg_cong [OF st, of "take (length body)"] arg_cong [OF st, of "drop (length body)"] True by simp_all
        note bp = body_parserD [OF cb c Suc.prems(1)]
        then have b: "s' = deliver m s" "ok b" "pend b @ future = concat (map frame ms')"
            "read_var_int_multiplier b = 1" "length (qlist (io_buffer b)) \<le> length (qlist (io_buffer ?b))"
            "length (pend b) \<le> length (pend ?b)"
          using l True p m by auto
        let ?h = "h\<lparr>msg_type := 0, internal_state := NEXT_MSG, input_buffer := update_limit 5 b\<rparr>"
        have w: "work N qlist ?h \<le> fuel" using Suc.prems(2) b READ_MSG by (simp add: work_def)
        have "list_all (\<lambda>m. length (snd m) < 2 ^ 31) ms'" using Suc.prems(3) Cons m by simp
        then have "expects ?h (pend b @ future) ms'" using b expects_next [of ?h ms'] by simp
        then obtain s'' h' where "handle_messages N cb fuel s' ?h = Some (Inr (s'', h'))"
          and d: "delivered deliver s' ?h future ms' s'' h'"
          using Suc.IH [of ?h ms' s'] w b by auto
        moreover have "delivered deliver s h future ms s'' h'"
          by (rule delivered_Cons [OF d]) (use b Cons in simp_all)
        ultimately show ?thesis using READ_MSG sz l True c t by auto
      next
        case False
        have "delivered deliver s h future ms s h"
          using READ_MSG False l Suc.prems by (intro delivered_nothing) (auto simp: waiting_def)
        then show ?thesis using READ_MSG sz l False by auto
      qed
    qed
  qed
qed

lemma waiting_complete: "waiting h \<Longrightarrow> expects h (pend (input_buffer h)) ms \<Longrightarrow> ms = []"
proof (cases ms)
  case (Cons m ms')
  obtain t body where m: "m = (t, body)" by fastforce
  assume "waiting h" "expects h (pend (input_buffer h)) ms"
  then show ?thesis
    using Cons m unat_of_small [of "length body"]
    by (cases "internal_state h") (auto simp: waiting_def reads_def)
qed

lemma append_data_simps [simp]:
  "pend (append_data N r b) = pend b @ r_bytes N r"
  "unread N (append_data N r b) = unread N b"
  "qlist (io_buffer (append_data N r b)) = qlist (io_buffer b) @ [r]"
  "eff_limit (append_data N r b) = eff_limit b"
  "read_var_int_multiplier (append_data N r b) = read_var_int_multiplier b"
  by (cases "actual_record b"; simp add: append_data_def pending_def unread_def push_list eff_limit_def)+

lemma ok_append_data: "ok b \<Longrightarrow> length (pend b @ r_bytes N r) < 2 ^ 64 \<Longrightarrow> ok (append_data N r b)"
  using append_data_simps(1) [of r b]
  by (cases "actual_record b") (simp_all add: buffer_ok_def, simp_all add: append_data_def size_add_lt)

lemma expects_append: "expects h stream ms \<Longrightarrow>
  expects (h\<lparr>input_buffer := append_data N r (input_buffer h)\<rparr>) stream ms"
  by (cases ms; cases "internal_state h") (auto simp: reads_def)

lemma receive_records_delivers:
  assumes cb: "body_parser N qlist deliver cb"
  shows "ok (input_buffer h) \<Longrightarrow> waiting h \<Longrightarrow>
    length (pend (input_buffer h) @ concat (map (r_bytes N) rs)) < 2 ^ 64 \<Longrightarrow>
    2 * length (pend (input_buffer h) @ concat (map (r_bytes N) rs))
      + length (qlist (io_buffer (input_buffer h))) + length rs + 4 \<le> fuel \<Longrightarrow>
    expects h (pend (input_buffer h) @ concat (map (r_bytes N) rs)) ms \<Longrightarrow>
    \<exists>h'. receive_records N cb fuel rs (s, h) = Some (Inr (fold deliver ms s, h'))
      \<and> expects h' [] [] \<and> pend (input_buffer h') = []"
proof (induction rs arbitrary: s h ms)
  case Nil
  then have "ms = []" using waiting_complete by auto
  then show ?case using Nil by auto
next
  case (Cons r rs)
  let ?h = "h\<lparr>input_buffer := append_data N r (input_buffer h)\<rparr>"
  have ok: "ok (input_buffer ?h)" using Cons.prems(1,3) ok_append_data by simp
  have w: "weight (internal_state h) \<le> 2" by (cases "internal_state h") auto
  have work: "work N qlist ?h \<le> fuel" using Cons.prems(4) w by (simp add: work_def)
  have "expects ?h (pend (input_buffer ?h) @ concat (map (r_bytes N) rs)) ms"
    using expects_append Cons.prems(5) by simp
  then obtain s' h' where hm: "handle_messages N cb fuel s ?h = Some (Inr (s', h'))"
    and d: "delivered deliver s ?h (concat (map (r_bytes N) rs)) ms s' h'"
    using handle_messages_delivers [OF cb ok work] by blast
  then obtain ms1 ms2 where ms: "ms = ms1 @ ms2" "s' = fold deliver ms1 s"
    and e: "expects h' (pend (input_buffer h') @ concat (map (r_bytes N) rs)) ms2"
    and h': "ok (input_buffer h')" "waiting h'"
      "length (qlist (io_buffer (input_buffer h'))) \<le> length (qlist (io_buffer (input_buffer h))) + 1"
      "length (pend (input_buffer h')) \<le> length (pend (input_buffer h) @ r_bytes N r)"
    by (auto simp: delivered_def)
  then obtain h'' where "receive_records N cb fuel rs (s', h') = Some (Inr (fold deliver ms2 s', h''))"
    and "expects h'' [] [] \<and> pend (input_buffer h'') = []"
    using Cons.IH [OF h'(1,2) _ _ e, of s'] Cons.prems(3,4) by fastforce
  then show ?case using hm ms by (auto simp: incomming_data_callback_def)
qed

lemma receive_records_returns:
  assumes cb: "stream_reader N qlist cb"
  shows "ok (input_buffer h) \<Longrightarrow>
    length (pend (input_buffer h) @ concat (map (r_bytes N) rs)) < 2 ^ 64 \<Longrightarrow>
    2 * length (pend (input_buffer h) @ concat (map (r_bytes N) rs))
      + length (qlist (io_buffer (input_buffer h))) + length rs + 4 \<le> fuel \<Longrightarrow>
    \<exists>s' h'. receive_records N cb fuel rs (s, h) = Some (Inr (s', h')) \<and> ok (input_buffer h')"
proof (induction rs arbitrary: s h)
  case (Cons r rs)
  let ?h = "h\<lparr>input_buffer := append_data N r (input_buffer h)\<rparr>"
  have ok: "ok (input_buffer ?h)" using Cons.prems(1,2) ok_append_data by simp
  have w: "weight (internal_state h) \<le> 2" by (cases "internal_state h") auto
  have work: "work N qlist ?h \<le> fuel" using Cons.prems(3) w by (simp add: work_def)
  obtain s' h' where hm: "handle_messages N cb fuel s ?h = Some (Inr (s', h'))" and h': "ok (input_buffer h')"
      "length (qlist (io_buffer (input_buffer h'))) \<le> length (qlist (io_buffer (input_buffer h))) + 1"
      "length (pend (input_buffer h')) \<le> length (pend (input_buffer h) @ r_bytes N r)"
    using handle_messages_total [OF cb ok work, of s] by auto
  then obtain s'' h'' where "receive_records N cb fuel rs (s', h') = Some (Inr (s'', h''))" "ok (input_buffer h'')"
    using Cons.IH [OF h'(1), of s'] Cons.prems(2,3) by fastforce
  then show ?case using hm by (auto simp: incomming_data_callback_def)
qed auto

lemma new_handler:
  "ok (input_buffer (new_client_handler N))" "waiting (new_client_handler N)"
  "pend (input_buffer (new_client_handler N)) = []"
  "qlist (io_buffer (input_buffer (new_client_handler N))) = []"
  "internal_state (new_client_handler N) = NEXT_MSG" "msg_type (new_client_handler N) = 0"
  "read_var_int_multiplier (input_buffer (new_client_handler N)) = 1"
  "eff_limit (input_buffer (new_client_handler N)) = 5"
  by (simp_all add: new_client_handler_def new_input_buffer_def buffer_ok_def pending_def unread_def
      waiting_def new_list eff_limit_def)

text \<open>Five bytes with the high bit set use up the limit of a varint, and nothing raises it again.\<close>

definition stuck :: "('q, 'r) client_handler \<Rightarrow> u8 list \<Rightarrow> bool" where
  "stuck h stream \<longleftrightarrow> internal_state h = NEXT_MSG
     \<and> list_all (\<lambda>d. d \<ge> 128) (take (eff_limit (input_buffer h)) stream)"

lemma varint_bytes_high: "list_all (\<lambda>d. d \<ge> 128) v \<Longrightarrow> snd (snd (varint_bytes v num mult)) = None"
  by (induction v num mult rule: varint_bytes.induct) auto

lemma handle_messages_stuck:
  assumes ok: "ok (input_buffer h)" and fuel: "work N qlist h \<le> fuel"
    and st: "stuck h (pend (input_buffer h) @ future)"
  shows "\<exists>h'. handle_messages N cb fuel s h = Some (Inr (s, h')) \<and> ok (input_buffer h')
      \<and> stuck h' (pend (input_buffer h') @ future)
      \<and> length (qlist (io_buffer (input_buffer h'))) \<le> length (qlist (io_buffer (input_buffer h)))
      \<and> length (pend (input_buffer h')) \<le> length (pend (input_buffer h))"
proof -
  let ?b = "input_buffer h"
  have "fuel > 0" using fuel by (auto simp: work_def)
  then obtain f where f: "fuel = Suc f" by (cases fuel) auto
  have rounds: "rounds N qlist ?b < Suc f" using rounds_work [of h] fuel f by simp
  obtain fin t b where r: "read_varint32 N (Suc f) (msg_type h) ?b = Some (Inr (fin, t, b))"
    and oc: "varint_outcome (msg_type h) ?b fin t b"
    using read_varint32_spec [OF ok rounds] by blast
  then obtain used where used: "pend ?b = used @ pend b" "eff_limit ?b = eff_limit b + length used"
    and vb: "if fin then \<exists>m'. varint_bytes used (msg_type h) (read_var_int_multiplier ?b) = (t, m', Some [])
       else True"
    by (auto simp: varint_outcome_def split: if_splits)
  have high: "list_all (\<lambda>d. d \<ge> 128) used" "list_all (\<lambda>d. d \<ge> 128) (take (eff_limit b) (pend b @ future))"
    using st used by (simp_all add: stuck_def)
  have nf: "\<not> fin" using vb varint_bytes_high [OF high(1), of "msg_type h" "read_var_int_multiplier ?b"] by auto
  let ?h = "h\<lparr>msg_type := t, input_buffer := b\<rparr>"
  have "handle_messages N cb fuel s h = Some (Inr (s, ?h))"
    using f r nf st by (simp add: stuck_def)
  moreover have "stuck ?h (pend b @ future)" using st high by (simp add: stuck_def)
  ultimately show ?thesis using oc used by (auto simp: varint_outcome_def)
qed

lemma receive_records_stuck:
  "ok (input_buffer h) \<Longrightarrow>
    length (pend (input_buffer h) @ concat (map (r_bytes N) rs)) < 2 ^ 64 \<Longrightarrow>
    2 * length (pend (input_buffer h) @ concat (map (r_bytes N) rs))
      + length (qlist (io_buffer (input_buffer h))) + length rs + 4 \<le> fuel \<Longrightarrow>
    stuck h (pend (input_buffer h) @ concat (map (r_bytes N) rs)) \<Longrightarrow>
    \<exists>h'. receive_records N cb fuel rs (s, h) = Some (Inr (s, h')) \<and> internal_state h' = NEXT_MSG"
proof (induction rs arbitrary: h)
  case Nil
  then show ?case by (simp add: stuck_def)
next
  case (Cons r rs)
  let ?h = "h\<lparr>input_buffer := append_data N r (input_buffer h)\<rparr>"
  have ok: "ok (input_buffer ?h)" using Cons.prems(1,2) ok_append_data by simp
  have work: "work N qlist ?h \<le> fuel"
    using Cons.prems(3,4) by (simp add: work_def stuck_def)
  have "stuck ?h (pend (input_buffer ?h) @ concat (map (r_bytes N) rs))"
    using Cons.prems(4) by (simp add: stuck_def)
  then obtain h' where hm: "handle_messages N cb fuel s ?h = Some (Inr (s, h'))" and h': "ok (input_buffer h')"
      "stuck h' (pend (input_buffer h') @ concat (map (r_bytes N) rs))"
      "length (qlist (io_buffer (input_buffer h'))) \<le> length (qlist (io_buffer (input_buffer h))) + 1"
      "length (pend (input_buffer h')) \<le> length (pend (input_buffer h) @ r_bytes N r)"
    using handle_messages_stuck [OF ok work] by fastforce
  then obtain h'' where "receive_records N cb fuel rs (s, h') = Some (Inr (s, h''))" "internal_state h'' = NEXT_MSG"
    using Cons.IH [OF h'(1)] Cons.prems(2,3) by fastforce
  then show ?case using hm by (auto simp: incomming_data_callback_def)
qed

text \<open>A parser that reads until the buffer says it is at its end, as protobuf does.\<close>

lemma read_all_spec:
  "ok b \<Longrightarrow> rounds N qlist b < fuel \<Longrightarrow>
   fst (read_all N fuel b) = take (eff_limit b) (pend b) \<and> ok (snd (read_all N fuel b))
   \<and> pend (snd (read_all N fuel b)) = drop (eff_limit b) (pend b)
   \<and> read_var_int_multiplier (snd (read_all N fuel b)) = read_var_int_multiplier b
   \<and> length (qlist (io_buffer (snd (read_all N fuel b)))) \<le> length (qlist (io_buffer b))"
proof (induction fuel arbitrary: b)
  case (Suc fuel)
  show ?case
  proof (cases "buffer_next N b")
    case None
    then show ?thesis using Suc.prems buffer_next_None [of b] by auto
  next
    case (Some db)
    obtain data b' where db: "db = (data, b')" by fastforce
    note nx = buffer_next_spec [OF Suc.prems(1) Some [unfolded db]]
    then show ?thesis using Suc.IH [of b'] Suc.prems Some db by (auto split: prod.splits)
  qed
qed simp

end

subsection \<open>The writing side\<close>

lemma encode_varint_Suc_length:
  "n \<ge> 128 \<Longrightarrow> length (encode_varint n) = Suc (length (encode_varint (n div 128)))"
  by (subst encode_varint.simps) simp

lemma encode_varint_small: "n < 128 \<Longrightarrow> encode_varint n = [of_nat n]"
  by (subst encode_varint.simps) simp

lemma encode_varint_range:
  "n < 128 ^ length (encode_varint n) \<and> (n > 0 \<longrightarrow> 128 ^ (length (encode_varint n) - 1) \<le> n)"
proof (induction n rule: encode_varint.induct)
  case (1 n)
  show ?case
  proof (cases "n \<ge> 128")
    case True
    let ?k = "length (encode_varint (n div 128))"
    have ih: "n div 128 < 128 ^ ?k" "128 ^ (?k - 1) \<le> n div 128" using 1 [OF True] True by auto
    have k: "?k > 0" by simp
    have "n < 128 * 128 ^ ?k" using ih(1) by (simp add: div_less_iff_less_mult mult.commute)
    moreover have "128 ^ (?k - 1) * 128 \<le> n" using ih(2) by (simp add: less_eq_div_iff_mult_less_eq)
    ultimately show ?thesis using True k
      by (simp add: encode_varint_Suc_length power_eq_if [of _ ?k] mult.commute)
  qed (simp add: encode_varint_small)
qed

lemma get_length_of_varint_eq: "get_length_of_varint n = length (encode_varint n)"
proof (cases "n = 0")
  case False
  let ?k = "length (encode_varint n)"
  have k: "?k > 0" by simp
  have up: "n < 128 ^ ?k" and lo: "128 ^ (?k - 1) \<le> n" using encode_varint_range [of n] False by auto
  have p: "(128::nat) ^ j = 2 ^ (7 * j)" for j by (simp add: power_mult)
  have "real (n + 1) \<le> 2 ^ (7 * ?k)" using up unfolding p by (metis Suc_eq_plus1 Suc_leI of_nat_le_numeral_power_cancel_iff)
  then have "log 2 (real (n + 1)) \<le> log 2 (2 ^ (7 * ?k))" by (intro log_mono) auto
  then have 1: "log 2 (real (n + 1)) / 7 \<le> ?k" by (simp add: log_nat_power)
  have "2 ^ (7 * (?k - 1)) < real (n + 1)" using lo unfolding p
    by (metis Suc_eq_plus1 le_imp_less_Suc of_nat_less_iff of_nat_numeral of_nat_power)
  then have "log 2 (2 ^ (7 * (?k - 1))) < log 2 (real (n + 1))" by (intro log_less) auto
  then have 2: "real (?k - 1) < log 2 (real (n + 1)) / 7" by (simp add: log_nat_power)
  have "\<lceil>log 2 (real (n + 1)) / 7\<rceil> = int ?k"
    using 1 2 k by (intro ceiling_unique) (auto simp: of_nat_diff)
  then show ?thesis using False by (simp add: get_length_of_varint_def)
qed (simp add: get_length_of_varint_def encode_varint_small)

definition wrote :: "client_output_buffer \<Rightarrow> u8 list \<Rightarrow> client_output_buffer" where
  "wrote b bytes = b\<lparr>out_buffer := take (out_offset b) (out_buffer b) @ bytes
       @ drop (out_offset b + length bytes) (out_buffer b),
     out_offset := out_offset b + length bytes\<rparr>"

lemma put_byte_wrote: "out_offset b < length (out_buffer b) \<Longrightarrow> put_byte d b = Some (wrote b [d])"
  by (simp add: put_byte_def wrote_def upd_conv_take_nth_drop)

lemma wrote_wrote: "out_offset b + length xs + length ys \<le> length (out_buffer b) \<Longrightarrow>
    wrote (wrote b xs) ys = wrote b (xs @ ys)"
proof -
  assume a: "out_offset b + length xs + length ys \<le> length (out_buffer b)"
  let ?pre = "take (out_offset b) (out_buffer b)"
  have l: "length ?pre = out_offset b" using a by simp
  have "drop (out_offset b + length xs + length ys) (?pre @ xs @ drop (out_offset b + length xs) (out_buffer b))
      = drop (out_offset b + length xs + length ys) (out_buffer b)"
    by (simp add: l min_def ac_simps)
  moreover have "take (out_offset b + length xs) (?pre @ xs @ drop (out_offset b + length xs) (out_buffer b)) = ?pre @ xs"
    using l by simp
  ultimately show ?thesis by (simp add: wrote_def add.assoc)
qed

lemma write_varint32_wrote:
  "out_offset b + length (encode_varint n) \<le> length (out_buffer b) \<Longrightarrow>
   write_varint32 n b = (True, wrote b (encode_varint n))"
proof (induction n b rule: write_varint32.induct)
  case (1 n b)
  show ?case
  proof (cases "n \<ge> 128")
    case True
    let ?d = "of_nat (n mod 128 + 128) :: u8"
    have room: "out_offset b + 1 + length (encode_varint (n div 128)) \<le> length (out_buffer b)"
      using 1(2) True by (simp add: encode_varint_Suc_length)
    then have pb: "put_byte ?d b = Some (wrote b [?d])" by (intro put_byte_wrote) simp
    have "out_offset (wrote b [?d]) + length (encode_varint (n div 128)) \<le> length (out_buffer (wrote b [?d]))"
      using room by (simp add: wrote_def)
    then have "write_varint32 (n div 128) (wrote b [?d]) = (True, wrote (wrote b [?d]) (encode_varint (n div 128)))"
      using 1(1) [OF True pb] by simp
    then show ?thesis
      using True pb room by (simp add: write_varint32.simps [of n] wrote_wrote encode_varint.simps [of n])
  next
    case False
    then show ?thesis using 1(2) put_byte_wrote [of b "of_nat n"]
      by (simp add: write_varint32.simps [of n] encode_varint_small)
  qed
qed

text \<open>What protobuf's serialiser does: it puts the body of the message behind what is written.\<close>

definition serialises :: "(client_output_buffer \<Rightarrow> bool \<times> client_output_buffer) \<Rightarrow> u8 list \<Rightarrow> bool" where
  "serialises serialise body \<longleftrightarrow> (\<forall>b. out_offset b + length body \<le> length (out_buffer b) \<longrightarrow>
     serialise b = (True, wrote b body))"

text \<open>
  What \<open>write_message\<close> hands to a live connection is exactly the frame of the message: the
  buffer is neither too short (no write of the stream fails) nor too long.
\<close>

theorem write_message_frame:
  assumes "serialises serialise body" and "is_client_alive conn"
    and "write_data conn (frame (msgtype, body)) = Inr conn'"
  shows "write_message is_client_alive write_data (length body) serialise msgtype conn = conn'"
proof -
  let ?t = "encode_varint (unat msgtype)" and ?l = "encode_varint (length body)"
  let ?b = "new_output_buffer (replicate (length ?t + length ?l + length body) 0)"
  have 1: "write_varint32 (unat msgtype) ?b = (True, wrote ?b ?t)"
    by (rule write_varint32_wrote) (simp add: new_output_buffer_def)
  have 2: "write_varint32 (length body) (wrote ?b ?t) = (True, wrote ?b (?t @ ?l))"
    by (subst write_varint32_wrote) (simp_all add: wrote_wrote, simp_all add: new_output_buffer_def wrote_def)
  have 3: "serialise (wrote ?b (?t @ ?l)) = (True, wrote ?b (?t @ ?l @ body))"
    using assms(1) wrote_wrote [of ?b "?t @ ?l" body]
    by (simp add: serialises_def new_output_buffer_def) (simp add: wrote_def)
  have "out_buffer (wrote ?b (?t @ ?l @ body)) = frame (msgtype, body)"
    by (simp add: wrote_def new_output_buffer_def frame_def)
  then show ?thesis
    using 1 2 3 assms(2,3) by (simp add: write_message_def get_length_of_varint_eq Let_def)
qed

subsection \<open>The handler on list queues\<close>

definition list_net :: "(u8 list list, u8 list) net_ops" where
  "list_net = \<lparr>q_new = [], q_empty = (\<lambda>q. q = []), q_push_back = (\<lambda>q r. q @ [r]),
     q_pop_front = (\<lambda>q. (hd q, tl q)), r_bytes = (\<lambda>r. r), r_advance = (\<lambda>r n. drop n r)\<rparr>"

interpretation lists: ioqueue list_net "\<lambda>q. q"
  by unfold_locales (simp_all add: list_net_def)

text \<open>A callback that records the messages it sees, with their bodies.\<close>

definition record_cb ::
  "('q \<Rightarrow> 'r list) \<Rightarrow> ('q, 'r) net_ops \<Rightarrow> ('q, 'r, (u32 \<times> u8 list) list) parse_callback" where
  "record_cb qlist N t s b = (case read_all N (length (qlist (io_buffer b)) + 2) b of
     (body, b') \<Rightarrow> (s @ [(t, body)], b'))"









text \<open>
  Five bytes with the high bit set at the start of a message stop the connection for good:
  the limit for the type is used up, nothing raises it again, and no later record ever reaches
  the callback.
\<close>

theorem oversized_varint_stalls:
  assumes "ioqueue N qlist" and "list_all (\<lambda>d. d \<ge> 128) (take 5 (concat (map (r_bytes N) rs)))"
    and "length (concat (map (r_bytes N) rs)) < 2 ^ 64"
    and "2 * length (concat (map (r_bytes N) rs)) + length rs + 4 \<le> fuel"
  shows "\<exists>h'. receive_records N cb fuel rs (s, new_client_handler N) = Some (Inr (s, h'))
    \<and> internal_state h' = NEXT_MSG"
proof -
  note new = ioqueue.new_handler [OF assms(1)]
  have "ioqueue.stuck (new_client_handler N) (concat (map (r_bytes N) rs))"
    using assms(1,2) new by (simp add: ioqueue.stuck_def)
  then show ?thesis
    using ioqueue.receive_records_stuck [OF assms(1), of "new_client_handler N" rs fuel cb s] new assms(3,4) by simp
qed

theorem oversized_varint_stalls_witness:
  "\<exists>h'. receive_records list_net (record_cb (\<lambda>q. q) list_net) 60 [[128, 129], [255, 128, 128], [3, 0]]
      ([], new_client_handler list_net) = Some (Inr ([], h')) \<and> internal_state h' = NEXT_MSG"
  by (rule oversized_varint_stalls [OF lists.ioqueue_axioms]) (simp_all add: list_net_def)

theorem write_message_frame_witness:
  "write_message (\<lambda>c. True) (\<lambda>c bytes. Inr (c @ bytes)) (length [7 :: u8, 8]) (\<lambda>b. (True, wrote b [7, 8])) 300 [1]
   = [1, 172, 2, 2, 7, 8]"
  by (rule write_message_frame [where body = "[7, 8]"])
    (simp_all add: serialises_def frame_def encode_varint.simps)

end
