(* ===== verification/Ordered_Map.thy ===== *)
theory Ordered_Map
  imports Fish_Prelude
begin

text \<open>
  \<open>std::map\<close>: an association list kept sorted by its key, so that a loop over the map visits
  the entries in the order the code does. The interface the components rely on is the locale
  \<open>std_map\<close>; the sorted lists interpret it.
\<close>

locale std_map =
  fixes empty :: "'m"
    and update :: "'k \<Rightarrow> 'v \<Rightarrow> 'm \<Rightarrow> 'm"
    and erase :: "'k \<Rightarrow> 'm \<Rightarrow> 'm"
    and lookup :: "'m \<Rightarrow> 'k \<Rightarrow> 'v option"
    and entries :: "'m \<Rightarrow> ('k \<times> 'v) list"
    and invar :: "'m \<Rightarrow> bool"
  assumes lookup_empty: "lookup empty k = None"
    and lookup_update: "invar m \<Longrightarrow> lookup (update k v m) k' = (if k' = k then Some v else lookup m k')"
    and lookup_erase: "invar m \<Longrightarrow> lookup (erase k m) k' = (if k' = k then None else lookup m k')"
    and lookup_entries: "invar m \<Longrightarrow> lookup m k = map_of (entries m) k"
    and invar_empty: "invar empty"
    and invar_update: "invar m \<Longrightarrow> invar (update k v m)"
    and invar_erase: "invar m \<Longrightarrow> invar (erase k m)"
    and distinct_entries: "invar m \<Longrightarrow> distinct (map fst (entries m))"
begin

lemmas invar_intros = invar_empty invar_update invar_erase

lemma entries_iff: "invar m \<Longrightarrow> (k, v) \<in> set (entries m) \<longleftrightarrow> lookup m k = Some v"
  using distinct_entries [of m] by (simp add: lookup_entries)

lemma invar_updates: "invar m \<Longrightarrow> invar (fold (\<lambda>(k, v). update k v) kvs m)"
  by (induction kvs arbitrary: m) (auto intro: invar_update)

lemma lookup_updates:
  "invar m \<Longrightarrow> lookup (fold (\<lambda>(k, v). update k v) kvs m) k =
     (case map_of (rev kvs) k of None \<Rightarrow> lookup m k | Some v \<Rightarrow> Some v)"
  by (induction kvs arbitrary: m)
    (auto simp: lookup_update invar_update map_add_def split: option.splits)

lemma erase_update_lookup:
  "invar m \<Longrightarrow> lookup (erase k (update k v m)) k' = lookup (erase k m) k'"
  by (simp add: lookup_erase lookup_update invar_update)

lemma update_twice_lookup:
  "invar m \<Longrightarrow> lookup (update k v (update k w m)) k' = lookup (update k v m) k'"
  by (simp add: lookup_update invar_update)

end

type_synonym ('k, 'v) omap = "('k \<times> 'v) list"

fun om_update :: "'k::linorder \<Rightarrow> 'v \<Rightarrow> ('k, 'v) omap \<Rightarrow> ('k, 'v) omap" where
  "om_update k v [] = [(k, v)]"
| "om_update k v ((k', v') # m) =
     (if k < k' then (k, v) # (k', v') # m
      else if k = k' then (k, v) # m
      else (k', v') # om_update k v m)"

definition om_erase :: "'k \<Rightarrow> ('k, 'v) omap \<Rightarrow> ('k, 'v) omap" where
  "om_erase k m = filter (\<lambda>(k', v). k' \<noteq> k) m"

definition om_ok :: "('k::linorder, 'v) omap \<Rightarrow> bool" where
  "om_ok m \<longleftrightarrow> sorted_wrt (<) (map fst m)"

lemma om_ok_simps [simp]:
  "om_ok []"
  "om_ok (e # m) \<longleftrightarrow> (\<forall>k \<in> set (map fst m). fst e < k) \<and> om_ok m"
  by (simp_all add: om_ok_def)

lemma om_ok_distinct: "om_ok m \<Longrightarrow> distinct (map fst m)"
  by (simp add: om_ok_def strict_sorted_iff)

lemma keys_om_update: "fst ` set (om_update k v m) = insert k (fst ` set m)"
  by (induction k v m rule: om_update.induct) auto

lemma set_om_update_subset: "set (om_update k v m) \<subseteq> insert (k, v) (set m)"
  by (induction k v m rule: om_update.induct) auto

lemma om_ok_update: "om_ok m \<Longrightarrow> om_ok (om_update k v m)"
proof (induction k v m rule: om_update.induct)
  case (2 k v k' v' m)
  then show ?case using keys_om_update [of k v m] by force
qed simp

lemma map_of_om_update:
  "om_ok m \<Longrightarrow> map_of (om_update k v m) k' = (if k' = k then Some v else map_of m k')"
proof (induction k v m rule: om_update.induct)
  case (2 k v k'' v'' m)
  then show ?case by auto
qed simp

lemma om_ok_erase: "om_ok m \<Longrightarrow> om_ok (om_erase k m)"
  by (induction m) (auto simp: om_erase_def)

lemma map_of_om_erase: "map_of (om_erase k m) k' = (if k' = k then None else map_of m k')"
  by (induction m) (auto simp: om_erase_def)

lemma set_om_erase: "set (om_erase k m) \<subseteq> set m"
  by (auto simp: om_erase_def)

text \<open>Inserting the entries of a map one by one rebuilds it.\<close>

lemma om_update_last: "\<forall>k' \<in> set (map fst m). k' < k \<Longrightarrow> om_update k v m = m @ [(k, v)]"
  by (induction k v m rule: om_update.induct) auto

lemma om_rebuild: "om_ok (m @ m') \<Longrightarrow> fold (\<lambda>(k, v). om_update k v) m' m = m @ m'"
proof (induction m' arbitrary: m)
  case (Cons e m')
  obtain k v where e: "e = (k, v)" by fastforce
  have "om_update k v m = m @ [(k, v)]"
    using Cons.prems e by (intro om_update_last) (auto simp: om_ok_def sorted_wrt_append)
  then show ?case using Cons.IH [of "m @ [(k, v)]"] Cons.prems e by simp
qed simp

interpretation om: std_map "[]" om_update om_erase map_of "\<lambda>m. m" om_ok
  by unfold_locales
    (simp_all add: map_of_om_update map_of_om_erase om_ok_update om_ok_erase om_ok_distinct)

end
