(* ===== verification/Utils.thy ===== *)
theory Utils
  imports Std_Strings
begin

text \<open>
  \<^verbatim>\<open>src/src/utils.cpp\<close>: the string helpers of the program, in the order of the file. The
  in-place \<open>ltrim\<close> and \<open>rtrim\<close> return the new string. The lemmas say what each helper
  computes: splitting is inverted by joining, trimming removes exactly the outer white
  space, the hand-written substring search never reports a string that is not there, and
  replacing terminates and is the identity where nothing matches.
\<close>

definition ltrim :: "string \<Rightarrow> string" where
  "ltrim s = dropWhile isspace s"

definition rtrim :: "string \<Rightarrow> string" where
  "rtrim s = rev (dropWhile isspace (rev s))"

definition trim :: "string \<Rightarrow> string" where
  "trim s = ltrim (rtrim s)"

definition is_number :: "string \<Rightarrow> bool" where
  "is_number s \<longleftrightarrow> s \<noteq> [] \<and> list_all isdigit s"

fun split_loop :: "char \<Rightarrow> string \<Rightarrow> string \<Rightarrow> string list \<Rightarrow> string list" where
  "split_loop delimiter [] ss l = l @ [ss]"
| "split_loop delimiter (c # str) ss l =
     (if c = delimiter then split_loop delimiter str [] (l @ [ss])
      else split_loop delimiter str (ss @ [c]) l)"

definition split_str :: "string \<Rightarrow> char \<Rightarrow> string list" where
  "split_str str delimiter = split_loop delimiter str [] []"

definition toupper :: "string \<Rightarrow> string" where
  "toupper s = map toupper_char s"

fun get_loop :: "string list \<Rightarrow> nat \<Rightarrow> nat \<Rightarrow> string" where
  "get_loop [] i position = []"
| "get_loop (elem # l) i position = (if i = position then elem else get_loop l (Suc i) position)"

definition get_from_str_list :: "string list \<Rightarrow> nat \<Rightarrow> string" where
  "get_from_str_list l position = (if length l \<le> position then [] else get_loop l 0 position)"

definition str_is_empty :: "string \<Rightarrow> bool" where
  "str_is_empty s \<longleftrightarrow> list_all (\<lambda>c. (of_char c :: nat) \<in> {32, 9, 13, 10}) s"

definition str_contains_char :: "string \<Rightarrow> char \<Rightarrow> bool" where
  "str_contains_char s c \<longleftrightarrow> list_ex (\<lambda>x. x = c) s"

text \<open>The scan of \<open>str_contains\<close>: \<open>j\<close> is the number of characters matched so far.\<close>

fun contains_loop :: "string \<Rightarrow> nat \<Rightarrow> string \<Rightarrow> bool result" where
  "contains_loop search_for j [] = Inr False"
| "contains_loop search_for j (c # rest) =
     (if j \<ge> length search_for then Inl (Out_of_range ''basic_string::at'')
      else if c = search_for ! j then
        (if Suc j = length search_for then Inr True else contains_loop search_for (Suc j) rest)
      else contains_loop search_for (if c = search_for ! 0 then 1 else 0) rest)"

definition str_contains :: "string \<Rightarrow> string \<Rightarrow> bool result" where
  "str_contains search_in search_for = contains_loop search_for 0 search_in"

fun matches_at :: "string \<Rightarrow> string \<Rightarrow> bool" where
  "matches_at [] s = True"
| "matches_at (w # ws) [] = False"
| "matches_at (w # ws) (c # s) = (if c \<noteq> w then False else matches_at ws s)"

fun replace_loop :: "string \<Rightarrow> string \<Rightarrow> string \<Rightarrow> string" where
  "replace_loop what new_content [] = []"
| "replace_loop what new_content (c # s) =
     (if matches_at what (c # s) then new_content @ replace_loop what new_content (drop (length what - 1) s)
      else c # replace_loop what new_content s)"

definition str_replace :: "string \<Rightarrow> string \<Rightarrow> string \<Rightarrow> string" where
  "str_replace s what new_content = (if what = [] then new_content else replace_loop what new_content s)"

definition stob :: "string \<Rightarrow> bool" where
  "stob s \<longleftrightarrow> toupper s = ''TRUE'' \<or> s = ''1''"

subsection \<open>Splitting and joining\<close>

fun join :: "char \<Rightarrow> string list \<Rightarrow> string" where
  "join d [] = []"
| "join d [s] = s"
| "join d (s # t # l) = s @ d # join d (t # l)"

lemma split_loop_acc: "split_loop d str ss l = l @ split_loop d str ss []"
proof (induction str arbitrary: ss l)
  case (Cons c str)
  show ?case
    using Cons.IH [of "[]" "l @ [ss]"] Cons.IH [of "[]" "[ss]"] Cons.IH [of "ss @ [c]" l] by simp
qed simp

lemma split_loop_nonempty: "split_loop d str ss [] \<noteq> []"
proof (induction str arbitrary: ss)
  case (Cons c str)
  show ?case using Cons.IH [of "ss @ [c]"] split_loop_acc [of d str "[]" "[ss]"] by simp
qed simp

lemma join_Cons: "l \<noteq> [] \<Longrightarrow> join d (s # l) = s @ d # join d l"
  by (cases l) simp_all

lemma join_split_loop: "join d (split_loop d str ss []) = ss @ str"
proof (induction str arbitrary: ss)
  case (Cons c str)
  show ?case
  proof (cases "c = d")
    case True
    then show ?thesis
      using Cons [of "[]"] split_loop_acc [of d str "[]" "[ss]"] split_loop_nonempty [of d str "[]"]
      by (simp add: join_Cons)
  next
    case False
    then show ?thesis using Cons [of "ss @ [c]"] by simp
  qed
qed simp

lemma split_loop_piece:
  "d \<notin> set s \<Longrightarrow> split_loop d (s @ str) ss l = split_loop d str (ss @ s) l"
  by (induction s arbitrary: ss) auto

lemma split_loop_join:
  "\<forall>p \<in> set (s # ps). d \<notin> set p \<Longrightarrow> split_loop d (join d (s # ps)) ss [] = (ss @ s) # ps"
proof (induction ps arbitrary: s ss)
  case Nil
  then show ?case using split_loop_piece [of d s "[]" ss "[]"] by simp
next
  case (Cons p ps)
  have "split_loop d (join d (s # p # ps)) ss [] = split_loop d (d # join d (p # ps)) (ss @ s) []"
    using Cons.prems split_loop_piece [of d s "d # join d (p # ps)" ss "[]"] by simp
  also have "\<dots> = (ss @ s) # split_loop d (join d (p # ps)) [] []"
    using split_loop_acc [of d "join d (p # ps)" "[]" "[ss @ s]"] by simp
  also have "\<dots> = (ss @ s) # p # ps" using Cons.IH [of p "[]"] Cons.prems by simp
  finally show ?case .
qed

lemma split_loop_pieces: "\<forall>p \<in> set (split_loop d str ss []). d \<notin> set p" if "d \<notin> set ss"
  using that
proof (induction str arbitrary: ss)
  case (Cons c str)
  show ?case
  proof (cases "c = d")
    case True
    then show ?thesis
      using Cons.IH [of "[]"] Cons.prems split_loop_acc [of d str "[]" "[ss]"] by simp
  next
    case False
    then show ?thesis using Cons.IH [of "ss @ [c]"] Cons.prems by simp
  qed
qed simp

lemma split_str_join: "ps \<noteq> [] \<Longrightarrow> \<forall>p \<in> set ps. d \<notin> set p \<Longrightarrow> split_str (join d ps) d = ps"
  by (cases ps) (simp_all add: split_str_def split_loop_join)

text \<open>
  Splitting at a delimiter loses nothing: joining the pieces with the delimiter gives the
  str back, no piece contains the delimiter, and there is always at least one piece.
\<close>

theorem split_str_inverse:
  "join d (split_str str d) = str \<and> list_all (\<lambda>p. d \<notin> set p) (split_str str d)
   \<and> split_str str d \<noteq> []"
  using join_split_loop [of d str "[]"] split_loop_pieces [of d "[]" str]
    split_loop_nonempty [of d str "[]"]
  by (simp add: split_str_def list_all_iff)

subsection \<open>Trimming\<close>

lemma ltrim_split: "\<exists>ws. s = ws @ ltrim s \<and> list_all isspace ws"
  by (metis ltrim_def takeWhile_dropWhile_id list_all_iff set_takeWhileD)

lemma rtrim_split: "\<exists>ws. s = rtrim s @ ws \<and> list_all isspace ws"
proof -
  obtain ws where "rev s = ws @ ltrim (rev s)" and ws: "list_all isspace ws"
    using ltrim_split [of "rev s"] by auto
  then have "s = rtrim s @ rev ws"
    by (metis ltrim_def rev_append rev_rev_ident rtrim_def)
  with ws show ?thesis by (metis list_all_rev)
qed

lemma trim_no_outer_space:
  "trim s = [] \<or> (\<not> isspace (hd (trim s)) \<and> \<not> isspace (last (trim s)))"
proof (cases "trim s = []")
  case False
  have "\<not> isspace (hd (trim s))" using False hd_dropWhile by (force simp: trim_def ltrim_def)
  moreover have "last (trim s) = last (rtrim s)"
    using False ltrim_split [of "rtrim s"] by (metis trim_def last_appendR)
  moreover have "rtrim s \<noteq> []" using False by (auto simp: trim_def ltrim_def)
  then have "\<not> isspace (last (rtrim s))"
    using hd_dropWhile [of isspace "rev s"] by (auto simp: rtrim_def last_rev)
  ultimately show ?thesis by simp
qed simp

subsection \<open>Searching\<close>

lemma contains_loop_sound:
  assumes "contains_loop p j rest = Inr True" and "p \<noteq> []" and "j < length p"
    and "take j p = drop (length pre - j) pre" and "j \<le> length pre"
  shows "\<exists>u v. pre @ rest = u @ p @ v"
  using assms
proof (induction rest arbitrary: j pre)
  case (Cons c rest)
  let ?pre = "pre @ [c]"
  show ?case
  proof (cases "c = p ! j")
    case match: True
    have t: "take (Suc j) p = drop (length pre - j) pre @ [c]"
      using Cons.prems(3,4) match by (simp add: take_Suc_conv_app_nth)
    show ?thesis
    proof (cases "Suc j = length p")
      case True
      then have "p = drop (length pre - j) pre @ [c]" using t by simp
      then have "pre @ c # rest = take (length pre - j) pre @ p @ rest"
        by (metis append.assoc append_Cons append_Nil append_take_drop_id)
      then show ?thesis by blast
    next
      case False
      then have "contains_loop p (Suc j) rest = Inr True" "Suc j < length p"
        using Cons.prems(1,3) match by auto
      moreover have "take (Suc j) p = drop (length ?pre - Suc j) ?pre"
        using t Cons.prems(5) by simp
      ultimately show ?thesis
        using Cons.IH [of "Suc j" ?pre] Cons.prems(2,5) by simp
    qed
  next
    case False
    let ?k = "if c = p ! 0 then 1 else 0 :: nat"
    have step: "contains_loop p ?k rest = Inr True" using Cons.prems(1,3) False by simp
    have len: "?k < length p" using Cons.prems(3) False by (cases "j = 0") auto
    have "take ?k p = drop (length ?pre - ?k) ?pre"
      using Cons.prems(2) by (cases p) auto
    moreover have "?k \<le> length ?pre" by simp
    ultimately have "\<exists>u v. ?pre @ rest = u @ p @ v"
      by (rule Cons.IH [OF step Cons.prems(2) len])
    then show ?thesis by simp
  qed
qed simp

lemma contains_loop_defined: "p \<noteq> [] \<Longrightarrow> j < length p \<Longrightarrow> \<exists>b. contains_loop p j rest = Inr b"
proof (induction rest arbitrary: j)
  case (Cons c rest)
  show ?case
  proof (cases "c = p ! j")
    case True
    then show ?thesis using Cons.IH [of "Suc j"] Cons.prems by auto
  next
    case False
    have "(if c = p ! 0 then 1 else 0 :: nat) < length p"
      using Cons.prems False by (cases "j = 0") auto
    then show ?thesis using Cons.IH [of "if c = p ! 0 then 1 else 0"] Cons.prems False by auto
  qed
qed auto

text \<open>
  The substring search returns for every non-empty pattern, and when it answers yes the
  pattern really occurs in the str.
\<close>

theorem str_contains_sound:
  assumes "search_for \<noteq> []"
  shows "\<exists>b. str_contains search_in search_for = Inr b
    \<and> (b \<longrightarrow> (\<exists>u v. search_in = u @ search_for @ v))"
proof -
  obtain b where b: "str_contains search_in search_for = Inr b"
    using assms contains_loop_defined by (force simp: str_contains_def)
  moreover have "\<exists>u v. search_in = u @ search_for @ v" if b
    using contains_loop_sound [of search_for 0 search_in "[]"] assms b that
    by (simp add: str_contains_def)
  ultimately show ?thesis by blast
qed

theorem str_contains_sound_witness:
  "''ell'' \<noteq> [] \<and> (\<exists>b. str_contains ''hello'' ''ell'' = Inr b
    \<and> (b \<longrightarrow> (\<exists>u v. ''hello'' = u @ ''ell'' @ v)))"
  using str_contains_sound [of "''ell''" "''hello''"] by simp

text \<open>The converse fails: after a partial match the scan drops to at most one matched
  character, and misses an occurrence that overlaps it.\<close>

lemma str_contains_misses_overlap: "str_contains ''aaab'' ''aab'' = Inr False"
  by (simp add: str_contains_def)

lemma str_contains_empty_pattern_throws:
  "str_contains (c # cs) [] = Inl (Out_of_range ''basic_string::at'')"
  by (simp add: str_contains_def)

subsection \<open>Replacing\<close>

lemma matches_at_iff: "matches_at w s \<longleftrightarrow> take (length w) s = w"
  by (induction w s rule: matches_at.induct) auto

lemma replace_loop_absent:
  "\<forall>u v. s \<noteq> u @ what @ v \<Longrightarrow> replace_loop what new_content s = s"
proof (induction s)
  case (Cons c s)
  have "\<not> matches_at what (c # s)"
    using Cons.prems by (metis append_Nil append_take_drop_id matches_at_iff)
  moreover have "\<forall>u v. s \<noteq> u @ what @ v" using Cons.prems by (metis append_Cons)
  ultimately show ?case using Cons.IH by simp
qed simp

lemma replace_loop_self: "what \<noteq> [] \<Longrightarrow> replace_loop what what s = s"
proof (induction s rule: length_induct)
  case (1 s)
  show ?case
  proof (cases s)
    case (Cons c t)
    show ?thesis
    proof (cases "matches_at what (c # t)")
      case True
      have "length (drop (length what - 1) t) < length s" using Cons by simp
      then have "replace_loop what what (drop (length what - 1) t) = drop (length what - 1) t"
        using 1 by blast
      moreover have "what @ drop (length what) (c # t) = c # t"
        using True by (metis append_take_drop_id matches_at_iff)
      moreover have "drop (length what) (c # t) = drop (length what - 1) t"
        using 1(2) by (cases what) auto
      ultimately show ?thesis using True Cons by simp
    next
      case False
      then show ?thesis using 1 Cons by simp
    qed
  qed simp
qed

lemma str_replace_absent:
  "what \<noteq> [] \<Longrightarrow> \<forall>u v. s \<noteq> u @ what @ v \<Longrightarrow> str_replace s what new_content = s"
  by (simp add: str_replace_def replace_loop_absent)

lemma str_replace_self: "what \<noteq> [] \<Longrightarrow> str_replace s what what = s"
  by (simp add: str_replace_def replace_loop_self)

lemma get_loop_nth: "i \<le> position \<Longrightarrow> position - i < length l \<Longrightarrow> get_loop l i position = l ! (position - i)"
proof (induction l arbitrary: i)
  case (Cons e l)
  show ?case
  proof (cases "i = position")
    case False
    then have "get_loop l (Suc i) position = l ! (position - Suc i)" using Cons by simp
    then show ?thesis using False Cons.prems by (simp add: nth_Cons' Suc_diff_Suc)
  qed simp
qed simp

lemma get_from_str_list_eq:
  "get_from_str_list l position = (if position < length l then l ! position else [])"
  using get_loop_nth [of 0 position l] by (simp add: get_from_str_list_def)

end
