(* ===== verification/Events.thy ===== *)
theory Events
  imports Ordered_Map Utils
begin

text \<open>
  \<^verbatim>\<open>src/src/events/\<close> and \<^verbatim>\<open>control_desk/xtouch_gpio_event_sender.cpp\<close>: events, their sources and
  the double-buffered event storage. Events inserted during a cycle go to the write buffer;
  \<open>swap_buffers\<close> at the start of the next cycle makes it the read buffer, follows the START and
  RELEASE events in \<open>ongoing_events\<close> and appends one ongoing event for every sender that is on.

  The state is the storage, the global counter of event ids and the log of the messages pushed
  to the connected GUIs. \<open>try_lock\<close> is an input: whether the mutex was free. The sources are
  held by \<open>senders\<close> for the life of the storage, so the weak pointers of
  \<open>index_source_by_name\<close> are positions in it and never expire.
\<close>

unbundle bit_operations_syntax

definition SINGLE_TRIGGER :: u8 where "SINGLE_TRIGGER = 0"
definition START :: u8 where "START = 1"
definition RELEASE :: u8 where "RELEASE = 2"
definition ONGOING_EVENT :: u8 where "ONGOING_EVENT = 3"
definition INVALID :: u8 where "INVALID = 255"

named_theorems event_types
lemmas event_type_defs [event_types] =
  SINGLE_TRIGGER_def START_def RELEASE_def ONGOING_EVENT_def INVALID_def

subsection \<open>Events\<close>

text \<open>The union \<open>event_sender_t\<close> on a little-endian machine: the sender is the low half.\<close>

definition event_sender :: "u32 \<Rightarrow> u32 \<Rightarrow> u64" where
  "event_sender sender sender_function = ucast sender OR push_bit 32 (ucast sender_function)"

definition sender_of :: "u64 \<Rightarrow> u32" where
  "sender_of e = ucast e"

definition sender_function_of :: "u64 \<Rightarrow> u32" where
  "sender_function_of e = ucast (drop_bit 32 e)"

definition is_same_sender :: "u64 \<Rightarrow> u64 \<Rightarrow> bool" where
  "is_same_sender a b \<longleftrightarrow> sender_of a = sender_of b"

record event =
  ev_type :: u8
  event_arguments :: "u8 list"
  event_id :: u64
  ev_sender :: u64

definition invalid_event :: event where
  "invalid_event = \<lparr>ev_type = INVALID, event_arguments = replicate 8 0, event_id = 0, ev_sender = 0\<rparr>"

definition new_event :: "u8 \<Rightarrow> u64 \<Rightarrow> u64 \<Rightarrow> event \<times> u64" where
  "new_event t s next_event_id =
     (\<lparr>ev_type = t, event_arguments = replicate 8 0, event_id = next_event_id, ev_sender = s\<rparr>,
      next_event_id + 1)"

definition derived_event :: "u8 \<Rightarrow> event \<Rightarrow> u64 \<Rightarrow> event \<times> u64" where
  "derived_event t other next_event_id =
     (\<lparr>ev_type = t, event_arguments = event_arguments other, event_id = next_event_id,
       ev_sender = ev_sender other\<rparr>, next_event_id + 1)"

definition is_valid :: "event \<Rightarrow> bool" where
  "is_valid e \<longleftrightarrow> \<not> (ev_type e = INVALID \<or> event_id e = 0)"

definition set_arg_data :: "nat \<Rightarrow> u8 \<Rightarrow> event \<Rightarrow> event result" where
  "set_arg_data pos d e =
     (if pos < 8 then Inr (e\<lparr>event_arguments := (event_arguments e)[pos := d]\<rparr>) else Inl Undefined_behaviour)"

definition get_args_as_str :: "event \<Rightarrow> string" where
  "get_args_as_str e = map (\<lambda>d. char_of (unat d)) (event_arguments e)"

definition set_args_as_string :: "string \<Rightarrow> event \<Rightarrow> event" where
  "set_args_as_string s e =
     e\<lparr>event_arguments := map (\<lambda>c. of_nat (of_char c)) (take 8 s) @ replicate (8 - length s) 0\<rparr>"

definition parse_sender_representation :: "string \<Rightarrow> u64 result" where
  "parse_sender_representation s = (case split_str s (CHR '':'') of
       [] \<Rightarrow> Inl Undefined_behaviour
     | p # parts \<Rightarrow> bind_res (stoul p) (\<lambda>sender.
         case parts of
           [] \<Rightarrow> Inl Undefined_behaviour
         | q # parts' \<Rightarrow> bind_res (stoul q) (\<lambda>f. Inr (event_sender (ucast sender) (ucast f)))))"

subsection \<open>Sources and storage\<close>

datatype source_class = Plain_source | Gpio_source int | Midirtp_source | Audio_source

record event_source =
  src_id :: u64
  src_name :: string
  remote_debug_enabled :: bool
  src_class :: source_class

record event_storage =
  storage_a :: "event list"
  storage_b :: "event list"
  senders :: "event_source list"
  current_read_storage_is_a :: bool
  ongoing_events :: "(u64, event) omap"
  index_source_by_name :: "(string, nat) omap"

record event_msg =
  m_type :: int
  m_sender_id :: u32
  m_sender_function :: u32
  m_event_id :: u64
  m_arguments :: "u32 list"

record event_sender_msg =
  s_sender_id :: u32
  s_type :: string
  s_name :: string
  s_gui_debug_enabled :: bool
  s_configuration :: "(string, string) omap"

datatype gui_message = Event_message event_msg | Sender_message event_sender_msg

record ev_world =
  next_event_id :: u64
  storage :: event_storage
  gui_log :: "gui_message list"

definition new_event_storage :: event_storage where
  "new_event_storage = \<lparr>storage_a = [], storage_b = [], senders = [], current_read_storage_is_a = False,
     ongoing_events = [], index_source_by_name = []\<rparr>"

definition start_world :: ev_world where
  "start_world = \<lparr>next_event_id = 1, storage = new_event_storage, gui_log = []\<rparr>"

definition get_storage :: "event_storage \<Rightarrow> event list" where
  "get_storage st = (if current_read_storage_is_a st then storage_a st else storage_b st)"

definition write_storage :: "event_storage \<Rightarrow> event list" where
  "write_storage st = (if \<not> current_read_storage_is_a st then storage_a st else storage_b st)"

definition event_to_msg :: "event \<Rightarrow> event_msg" where
  "event_to_msg e = \<lparr>m_type = uint (ev_type e), m_sender_id = sender_of (ev_sender e),
     m_sender_function = sender_function_of (ev_sender e), m_event_id = event_id e,
     m_arguments = map ucast (event_arguments e)\<rparr>"

definition notify_guis_about_event :: "event \<Rightarrow> ev_world \<Rightarrow> ev_world result" where
  "notify_guis_about_event e w =
     bind_res (vec_at (senders (storage w)) (unat (sender_of (ev_sender e)))) (\<lambda>src.
       if \<not> remote_debug_enabled src then Inr w
       else Inr (w\<lparr>gui_log := gui_log w @ [Event_message (event_to_msg e)]\<rparr>))"

definition insert_event :: "bool \<Rightarrow> event \<Rightarrow> ev_world \<Rightarrow> (bool \<times> ev_world) result" where
  "insert_event mutex_free e w =
     (let st = storage w in
      if unat (sender_of (ev_sender e)) \<ge> length (senders st) then Inr (False, w)
      else if \<not> mutex_free then Inr (False, w)
      else (let st' = (if \<not> current_read_storage_is_a st
                       then st\<lparr>storage_a := storage_a st @ [e]\<rparr>
                       else st\<lparr>storage_b := storage_b st @ [e]\<rparr>)
            in bind_res (notify_guis_about_event e (w\<lparr>storage := st'\<rparr>)) (\<lambda>w'. Inr (True, w'))))"

definition follow_edge :: "event \<Rightarrow> ev_world \<Rightarrow> ev_world" where
  "follow_edge ev w =
     (let st = storage w in
      if ev_type ev = START then
        (let (lasting, n) = derived_event ONGOING_EVENT ev (next_event_id w)
         in w\<lparr>next_event_id := n, storage := st\<lparr>ongoing_events := om_update (ev_sender ev) lasting (ongoing_events st)\<rparr>\<rparr>)
      else if ev_type ev = RELEASE then
        w\<lparr>storage := st\<lparr>ongoing_events := om_erase (ev_sender ev) (ongoing_events st)\<rparr>\<rparr>
      else w)"

definition push_to_read :: "event \<Rightarrow> event_storage \<Rightarrow> event_storage" where
  "push_to_read e st = (if current_read_storage_is_a st
     then st\<lparr>storage_a := storage_a st @ [e]\<rparr> else st\<lparr>storage_b := storage_b st @ [e]\<rparr>)"

definition push_lasting :: "u64 \<times> event \<Rightarrow> ev_world \<Rightarrow> ev_world result" where
  "push_lasting lasting_ev w =
     notify_guis_about_event (snd lasting_ev) (w\<lparr>storage := push_to_read (snd lasting_ev) (storage w)\<rparr>)"

definition swap_buffers :: "ev_world \<Rightarrow> ev_world result" where
  "swap_buffers w =
     (let st = storage w;
          cleared = (if current_read_storage_is_a st then st\<lparr>storage_a := []\<rparr> else st\<lparr>storage_b := []\<rparr>);
          swapped = cleared\<lparr>current_read_storage_is_a := \<not> current_read_storage_is_a cleared\<rparr>;
          w1 = fold follow_edge (get_storage swapped) (w\<lparr>storage := swapped\<rparr>)
      in fold_res push_lasting (ongoing_events (storage w1)) w1)"

definition register_event_source :: "event_source \<Rightarrow> event_storage \<Rightarrow> (u64 \<times> event_storage) result" where
  "register_event_source self st =
     (let next_slot = length (senders st) in
      if next_slot > 2 ^ 32 - 1
      then Inl (Range_error ''The amount of event senders reached the limit that can be stored. This seams to be a bug.'')
      else Inr (event_sender (of_nat next_slot) 0, st\<lparr>senders := senders st @ [self]\<rparr>))"

text \<open>\<open>event_source::create\<close>: the new object gets its id and name after it is registered.\<close>

definition create_source :: "source_class \<Rightarrow> string \<Rightarrow> ev_world \<Rightarrow> (nat \<times> ev_world) result" where
  "create_source cls nm w =
     (let st = storage w in
      if nm \<noteq> [] \<and> map_of (index_source_by_name st) nm \<noteq> None
      then Inl (Invalid_argument ''Name of new event source must be unique.'')
      else bind_res (register_event_source \<lparr>src_id = 0, src_name = [], remote_debug_enabled = False, src_class = cls\<rparr> st)
        (\<lambda>(sid, st1).
          let i = length (senders st);
              st2 = st1\<lparr>senders := (senders st1)[i := (senders st1 ! i)\<lparr>src_id := sid, src_name := nm\<rparr>]\<rparr>
          in Inr (i, w\<lparr>storage := (if nm = [] then st2
               else st2\<lparr>index_source_by_name := om_update nm i (index_source_by_name st2)\<rparr>)\<rparr>)))"

definition find_source_by_name :: "string \<Rightarrow> event_storage \<Rightarrow> nat option" where
  "find_source_by_name nm st = (if nm = [] then None else map_of (index_source_by_name st) nm)"

subsection \<open>Messages\<close>

definition insert_event_from_message :: "bool \<Rightarrow> event_msg \<Rightarrow> ev_world \<Rightarrow> (bool \<times> ev_world) result" where
  "insert_event_from_message mutex_free msg w =
     (let (e, n) = new_event (word_of_int (m_type msg)) (event_sender (m_sender_id msg) (m_sender_function msg))
            (next_event_id w)
      in bind_res (fold_res (\<lambda>(i, c). set_arg_data i (ucast c)) (take 8 (List.enumerate 0 (m_arguments msg))) e)
           (\<lambda>e'. insert_event mutex_free e' (w\<lparr>next_event_id := n\<rparr>)))"

definition xtouch_send_message :: "event_source \<Rightarrow> bool \<Rightarrow> u32 \<Rightarrow> u32 \<Rightarrow> ev_world \<Rightarrow> (bool \<times> ev_world) result" where
  "xtouch_send_message self mutex_free port new_state w =
     (let t = (if port = 2 then SINGLE_TRIGGER else if new_state = 0 then RELEASE else START);
          (e, n) = new_event t (event_sender (sender_of (src_id self)) port) (next_event_id w)
      in bind_res (set_arg_data 0 (ucast new_state) e)
           (\<lambda>e'. insert_event mutex_free e' (w\<lparr>next_event_id := n\<rparr>)))"

text \<open>
  Encoding and configuring a source; the MIDI and audio classes have their own settings, which
  are the parameters \<open>ext_conf\<close> and \<open>ext_encode\<close>.
\<close>

definition base_message :: "event_source \<Rightarrow> event_sender_msg" where
  "base_message src = \<lparr>s_sender_id = sender_of (src_id src), s_type = ''fish.builtin.plain'', s_name = src_name src,
     s_gui_debug_enabled = remote_debug_enabled src, s_configuration = []\<rparr>"

definition encode_proto_message ::
  "(event_source \<Rightarrow> event_sender_msg \<Rightarrow> event_sender_msg) \<Rightarrow> event_source \<Rightarrow> event_sender_msg" where
  "encode_proto_message ext_encode src = (case src_class src of
       Plain_source \<Rightarrow> base_message src
     | Gpio_source threshold \<Rightarrow> (base_message src)\<lparr>
         s_configuration := om_update ''expression_pedal_threshold'' (dec_int threshold) [],
         s_type := ''fish.builtin.xtouchgpio''\<rparr>
     | _ \<Rightarrow> ext_encode src (base_message src))"

definition update_conf_from_message ::
  "(event_sender_msg \<Rightarrow> event_source \<Rightarrow> bool \<times> event_source) \<Rightarrow> event_sender_msg \<Rightarrow> event_source \<Rightarrow>
   bool \<times> event_source" where
  "update_conf_from_message ext_conf msg src =
     (let src' = src\<lparr>remote_debug_enabled := s_gui_debug_enabled msg\<rparr> in
      case src_class src of
        Plain_source \<Rightarrow> (True, src')
      | Gpio_source _ \<Rightarrow>
          (case map_of (s_configuration msg) ''expression_pedal_threshold'' of
             None \<Rightarrow> (True, src')
           | Some v \<Rightarrow> (case stoi v of
               Inl _ \<Rightarrow> (False, src')
             | Inr i \<Rightarrow> (True, src'\<lparr>src_class := Gpio_source i\<rparr>)))
      | _ \<Rightarrow> ext_conf msg src')"

definition source_class_of_type :: "string \<Rightarrow> source_class option" where
  "source_class_of_type t =
     (if t = ''fish.builtin.plain'' then Some Plain_source
      else if t = ''fish.builtin.midirtp'' then Some Midirtp_source
      else if t = ''fish.builtin.audioextract'' then Some Audio_source
      else None)"

definition construct_or_update_event_source_from_message ::
  "(event_sender_msg \<Rightarrow> event_source \<Rightarrow> bool \<times> event_source) \<Rightarrow>
   (event_source \<Rightarrow> event_sender_msg \<Rightarrow> event_sender_msg) \<Rightarrow> event_sender_msg \<Rightarrow> ev_world \<Rightarrow>
   (bool \<times> ev_world) result" where
  "construct_or_update_event_source_from_message ext_conf ext_encode msg w =
     (let update = (\<lambda>i w.
            bind_res (vec_at (senders (storage w)) i) (\<lambda>s.
              let (success, src) = update_conf_from_message ext_conf msg s;
                  st = storage w
              in Inr (success, w\<lparr>storage := st\<lparr>senders := (senders st)[i := src]\<rparr>,
                   gui_log := gui_log w @ [Sender_message (encode_proto_message ext_encode src)]\<rparr>)))
      in case find_source_by_name (s_name msg) (storage w) of
           Some i \<Rightarrow> update i w
         | None \<Rightarrow> (case source_class_of_type (s_type msg) of
               None \<Rightarrow> Inr (False, w)
             | Some cls \<Rightarrow> bind_res (create_source cls (s_name msg) w) (\<lambda>(i, w'). update i w')))"

subsection \<open>Sender ids\<close>

lemma sender_of_event_sender [simp]: "sender_of (event_sender s f) = s"
  unfolding sender_of_def event_sender_def
  by (rule bit_word_eqI) (auto simp: bit_simps)

lemma sender_function_of_event_sender [simp]: "sender_function_of (event_sender s f) = f"
  unfolding sender_function_of_def event_sender_def
  by (rule bit_word_eqI) (auto simp: bit_simps dest: bit_imp_le_length)

lemma event_sender_inverse: "event_sender (sender_of e) (sender_function_of e) = e"
  unfolding sender_function_of_def event_sender_def sender_of_def
  by (rule bit_word_eqI) (auto simp: bit_simps)

lemma ucast_down_up [simp]: "ucast (ucast (x :: u32) :: u64) = x"
  by (rule bit_word_eqI) (auto simp: bit_simps)

text \<open>
  A sender written as \<open>sender:function\<close> in decimal is parsed to exactly this sender id.
\<close>

theorem parse_sender_roundtrip:
  "parse_sender_representation (dec (unat s) @ CHR '':'' # dec (unat f)) = Inr (event_sender s f)"
proof -
  have nc: "CHR '':'' \<notin> set (dec n)" for n using dec_digits [of "CHR '':''" n] by (auto simp: isdigit_def)
  have "split_str (join (CHR '':'') [dec (unat s), dec (unat f)]) (CHR '':'') = [dec (unat s), dec (unat f)]"
    by (rule split_str_join) (use nc in auto)
  moreover have "unat s < 2 ^ 64" "unat f < 2 ^ 64"
    by (rule unat_u32_bound64)+
  ultimately show ?thesis
    by (simp add: parse_sender_representation_def stoul_dec)
qed

lemma parse_sender_no_colon:
  "CHR '':'' \<notin> set s \<Longrightarrow> stoul s = Inr x \<Longrightarrow> parse_sender_representation s = Inl Undefined_behaviour"
  using split_str_join [of "[s]" "CHR '':''"] by (simp add: parse_sender_representation_def)

subsection \<open>The storage invariant\<close>

definition sender_known :: "event_storage \<Rightarrow> event \<Rightarrow> bool" where
  "sender_known st e \<longleftrightarrow> unat (sender_of (ev_sender e)) < length (senders st)"

definition sources_ok :: "event_storage \<Rightarrow> bool" where
  "sources_ok st \<longleftrightarrow> length (senders st) \<le> 2 ^ 32
     \<and> (\<forall>i < length (senders st). sender_of (src_id (senders st ! i)) = of_nat i)
     \<and> om_ok (index_source_by_name st)
     \<and> (\<forall>(nm, i) \<in> set (index_source_by_name st). i < length (senders st) \<and> src_name (senders st ! i) = nm)"

definition storage_ok :: "event_storage \<Rightarrow> bool" where
  "storage_ok st \<longleftrightarrow> sources_ok st \<and> om_ok (ongoing_events st)
     \<and> (\<forall>e \<in> set (storage_a st) \<union> set (storage_b st). sender_known st e)
     \<and> (\<forall>(s, e) \<in> set (ongoing_events st). ev_sender e = s \<and> ev_type e = ONGOING_EVENT \<and> sender_known st e)"

lemma storage_okI:
  assumes "sources_ok st" "om_ok (ongoing_events st)"
    and "\<And>e. e \<in> set (storage_a st) \<union> set (storage_b st) \<Longrightarrow> sender_known st e"
    and "\<And>s e. (s, e) \<in> set (ongoing_events st) \<Longrightarrow> ev_sender e = s \<and> ev_type e = ONGOING_EVENT \<and> sender_known st e"
  shows "storage_ok st"
  using assms by (auto simp: storage_ok_def)

lemma storage_ok_new: "storage_ok new_event_storage"
  by (simp add: storage_ok_def sources_ok_def new_event_storage_def)

lemma notify_known:
  "sender_known (storage w) e \<Longrightarrow>
   \<exists>g. notify_guis_about_event e w = Inr (w\<lparr>gui_log := g\<rparr>)"
proof -
  assume "sender_known (storage w) e"
  then have "notify_guis_about_event e w =
      Inr (if remote_debug_enabled (senders (storage w) ! unat (sender_of (ev_sender e)))
           then w\<lparr>gui_log := gui_log w @ [Event_message (event_to_msg e)]\<rparr> else w)"
    by (simp add: notify_guis_about_event_def sender_known_def vec_at_def)
  moreover have "w = w\<lparr>gui_log := gui_log w\<rparr>" by simp
  ultimately show ?thesis by metis
qed

definition accepts :: "event_storage \<Rightarrow> bool \<times> event \<Rightarrow> bool" where
  "accepts st me \<longleftrightarrow> fst me \<and> sender_known st (snd me)"

definition push_to_write :: "event \<Rightarrow> event_storage \<Rightarrow> event_storage" where
  "push_to_write e st = (if \<not> current_read_storage_is_a st
     then st\<lparr>storage_a := storage_a st @ [e]\<rparr> else st\<lparr>storage_b := storage_b st @ [e]\<rparr>)"

lemma insert_event_cases:
  "(\<not> accepts (storage w) (l, e) \<and> insert_event l e w = Inr (False, w)) \<or>
   (accepts (storage w) (l, e) \<and>
    (\<exists>g. insert_event l e w = Inr (True, w\<lparr>storage := push_to_write e (storage w), gui_log := g\<rparr>)))"
proof (cases "accepts (storage w) (l, e)")
  case True
  let ?w = "w\<lparr>storage := push_to_write e (storage w)\<rparr>"
  have "sender_known (storage ?w) e" using True by (simp add: accepts_def sender_known_def push_to_write_def)
  from notify_known [OF this] obtain g where "notify_guis_about_event e ?w = Inr (?w\<lparr>gui_log := g\<rparr>)" by blast
  then show ?thesis using True
    by (auto simp: insert_event_def accepts_def sender_known_def Let_def push_to_write_def)
qed (auto simp: insert_event_def accepts_def sender_known_def Let_def)

lemma sources_ok_cong:
  "sources_ok st \<Longrightarrow> senders st' = senders st \<Longrightarrow> index_source_by_name st' = index_source_by_name st \<Longrightarrow> sources_ok st'"
  by (simp add: sources_ok_def)

lemma push_to_write_ok:
  "storage_ok st \<Longrightarrow> sender_known st e \<Longrightarrow> storage_ok (push_to_write e st)"
  by (auto simp: storage_ok_def push_to_write_def sender_known_def sources_ok_def)

lemma insert_event_ok:
  assumes "storage_ok (storage w)"
  shows "\<exists>b w'. insert_event l e w = Inr (b, w') \<and> storage_ok (storage w')"
  using insert_event_cases [of w l e] assms push_to_write_ok by (fastforce simp: accepts_def)

subsection \<open>Swapping the buffers\<close>

text \<open>
  What the START and RELEASE events of a cycle make of a sender: None is off, and a sender that
  is on carries the arguments of its last START.
\<close>

fun follow :: "u64 \<Rightarrow> event list \<Rightarrow> u8 list option \<Rightarrow> u8 list option" where
  "follow s [] on = on"
| "follow s (e # es) on = follow s es
     (if ev_sender e \<noteq> s then on
      else if ev_type e = START then Some (event_arguments e)
      else if ev_type e = RELEASE then None
      else on)"

definition on_args :: "event_storage \<Rightarrow> u64 \<Rightarrow> u8 list option" where
  "on_args st s = map_option event_arguments (map_of (ongoing_events st) s)"

definition same_but_ongoing :: "event_storage \<Rightarrow> event_storage \<Rightarrow> bool" where
  "same_but_ongoing st st' \<longleftrightarrow> (\<exists>og. st' = st\<lparr>ongoing_events := og\<rparr>)"

lemma same_but_ongoing_intros [simp]:
  "same_but_ongoing st st" "same_but_ongoing st (st\<lparr>ongoing_events := og\<rparr>)"
  by (cases st) (auto simp: same_but_ongoing_def)

lemma follow_edge_frame: "same_but_ongoing (storage w) (storage (follow_edge e w)) \<and> gui_log (follow_edge e w) = gui_log w"
  by (simp add: follow_edge_def Let_def derived_event_def)

lemma follow_edge_ok:
  assumes "storage_ok (storage w)" and "sender_known (storage w) e"
  shows "storage_ok (storage (follow_edge e w))
     \<and> on_args (storage (follow_edge e w)) s = follow s [e] (on_args (storage w) s)"
proof -
  let ?st = "storage w"
  have om: "om_ok (ongoing_events ?st)" using assms(1) by (simp add: storage_ok_def)
  consider "ev_type e = START" | "ev_type e \<noteq> START" "ev_type e = RELEASE" | "ev_type e \<noteq> START" "ev_type e \<noteq> RELEASE"
    by blast
  then show ?thesis
  proof cases
    case 1
    let ?og = "om_update (ev_sender e) (fst (derived_event ONGOING_EVENT e (next_event_id w))) (ongoing_events ?st)"
    have st: "storage (follow_edge e w) = ?st\<lparr>ongoing_events := ?og\<rparr>"
      using 1 by (simp add: follow_edge_def derived_event_def Let_def)
    have "set ?og \<subseteq> insert (ev_sender e, fst (derived_event ONGOING_EVENT e (next_event_id w))) (set (ongoing_events ?st))"
      by (rule set_om_update_subset)
    then have "storage_ok (storage (follow_edge e w))"
      unfolding st using assms om_ok_update [OF om]
      by (intro storage_okI) (auto simp: storage_ok_def sources_ok_def sender_known_def derived_event_def)
    moreover have "on_args (storage (follow_edge e w)) s = follow s [e] (on_args ?st s)"
      unfolding st on_args_def using 1 om by (simp add: map_of_om_update derived_event_def)
    ultimately show ?thesis by blast
  next
    case 2
    let ?og = "om_erase (ev_sender e) (ongoing_events ?st)"
    have st: "storage (follow_edge e w) = ?st\<lparr>ongoing_events := ?og\<rparr>"
      using 2 by (simp add: follow_edge_def Let_def)
    have "storage_ok (storage (follow_edge e w))"
      unfolding st using assms om_ok_erase [OF om] set_om_erase [of "ev_sender e" "ongoing_events ?st"]
      by (intro storage_okI) (auto simp: storage_ok_def sources_ok_def sender_known_def)
    moreover have "on_args (storage (follow_edge e w)) s = follow s [e] (on_args ?st s)"
      unfolding st on_args_def using 2 by (simp add: map_of_om_erase)
    ultimately show ?thesis by blast
  next
    case 3
    then have "follow_edge e w = w" by (simp add: follow_edge_def Let_def)
    then show ?thesis using 3 assms by simp
  qed
qed

lemma same_but_ongoing_trans:
  "same_but_ongoing a b \<Longrightarrow> same_but_ongoing b c \<Longrightarrow> same_but_ongoing a c"
  by (auto simp: same_but_ongoing_def)

lemma same_but_ongoing_simps:
  "same_but_ongoing st st' \<Longrightarrow> senders st' = senders st \<and> get_storage st' = get_storage st
    \<and> write_storage st' = write_storage st \<and> sender_known st' e = sender_known st e"
  by (auto simp: same_but_ongoing_def get_storage_def write_storage_def sender_known_def)

lemma fold_follow_edge:
  "storage_ok (storage w) \<Longrightarrow> \<forall>e \<in> set es. sender_known (storage w) e \<Longrightarrow>
   storage_ok (storage (fold follow_edge es w))
   \<and> on_args (storage (fold follow_edge es w)) s = follow s es (on_args (storage w) s)
   \<and> same_but_ongoing (storage w) (storage (fold follow_edge es w))"
proof (induction es arbitrary: w)
  case Nil
  then show ?case by simp
next
  case (Cons e es)
  note fe = follow_edge_ok [of w e s]
  note fr = conjunct1 [OF follow_edge_frame [of w e]]
  have "\<forall>e' \<in> set es. sender_known (storage (follow_edge e w)) e'"
    using Cons.prems(2) same_but_ongoing_simps [OF fr] by simp
  then have "storage_ok (storage (fold follow_edge es (follow_edge e w)))
     \<and> on_args (storage (fold follow_edge es (follow_edge e w))) s = follow s es (on_args (storage (follow_edge e w)) s)
     \<and> same_but_ongoing (storage (follow_edge e w)) (storage (fold follow_edge es (follow_edge e w)))"
    using Cons fe by simp
  then show ?case using fe Cons.prems same_but_ongoing_trans [OF fr] by simp
qed

lemma push_lasting_all:
  "storage_ok (storage w) \<Longrightarrow> \<forall>(s, e) \<in> set les. sender_known (storage w) e \<Longrightarrow>
   \<exists>w'. fold_res push_lasting les w = Inr w' \<and> storage_ok (storage w')
     \<and> get_storage (storage w') = get_storage (storage w) @ map snd les
     \<and> write_storage (storage w') = write_storage (storage w) \<and> senders (storage w') = senders (storage w)
     \<and> ongoing_events (storage w') = ongoing_events (storage w)"
proof (induction les arbitrary: w)
  case (Cons se les)
  obtain s e where se: "se = (s, e)" by fastforce
  let ?w = "w\<lparr>storage := push_to_read e (storage w)\<rparr>"
  have known: "sender_known (storage ?w) e' = sender_known (storage w) e'" for e'
    by (simp add: sender_known_def push_to_read_def)
  obtain g where g: "notify_guis_about_event e ?w = Inr (?w\<lparr>gui_log := g\<rparr>)"
    using notify_known [of ?w e] known Cons.prems(2) se by auto
  have pr: "get_storage (push_to_read e (storage w)) = get_storage (storage w) @ [e]"
    "write_storage (push_to_read e (storage w)) = write_storage (storage w)"
    "senders (push_to_read e (storage w)) = senders (storage w)"
    "ongoing_events (push_to_read e (storage w)) = ongoing_events (storage w)"
    by (simp_all add: push_to_read_def get_storage_def write_storage_def)
  have "storage_ok (push_to_read e (storage w))"
    using Cons.prems se by (auto simp: storage_ok_def push_to_read_def sender_known_def sources_ok_def)
  then have "\<exists>w'. fold_res push_lasting les (?w\<lparr>gui_log := g\<rparr>) = Inr w' \<and> storage_ok (storage w')
     \<and> get_storage (storage w') = get_storage (storage (?w\<lparr>gui_log := g\<rparr>)) @ map snd les
     \<and> write_storage (storage w') = write_storage (storage (?w\<lparr>gui_log := g\<rparr>))
     \<and> senders (storage w') = senders (storage (?w\<lparr>gui_log := g\<rparr>))
     \<and> ongoing_events (storage w') = ongoing_events (storage (?w\<lparr>gui_log := g\<rparr>))"
    using Cons.prems(2) known by (intro Cons.IH) auto
  moreover have "push_lasting se w = Inr (?w\<lparr>gui_log := g\<rparr>)" using se g by (simp add: push_lasting_def)
  ultimately show ?case using se pr by simp
qed auto

lemma swap_buffers_spec:
  assumes ok: "storage_ok (storage w)"
  shows "\<exists>w'. swap_buffers w = Inr w' \<and> storage_ok (storage w') \<and> write_storage (storage w') = []
    \<and> get_storage (storage w') = write_storage (storage w) @ map snd (ongoing_events (storage w'))
    \<and> senders (storage w') = senders (storage w)
    \<and> (\<forall>s. on_args (storage w') s = follow s (write_storage (storage w)) (on_args (storage w) s))"
proof -
  let ?st = "storage w"
  define cleared where "cleared = (if current_read_storage_is_a ?st then ?st\<lparr>storage_a := []\<rparr> else ?st\<lparr>storage_b := []\<rparr>)"
  define sw where "sw = cleared\<lparr>current_read_storage_is_a := \<not> current_read_storage_is_a cleared\<rparr>"
  let ?w = "w\<lparr>storage := sw\<rparr>"
  have sw: "get_storage sw = write_storage ?st" "write_storage sw = []" "senders sw = senders ?st"
    "ongoing_events sw = ongoing_events ?st"
    by (simp_all add: sw_def cleared_def get_storage_def write_storage_def)
  have oks: "storage_ok (storage ?w)"
    using ok by (auto simp: sw_def cleared_def storage_ok_def sender_known_def sources_ok_def)
  have kn: "\<forall>e \<in> set (get_storage sw). sender_known (storage ?w) e"
    using oks by (auto simp: storage_ok_def get_storage_def split: if_splits)
  define w1 where "w1 = fold follow_edge (get_storage sw) ?w"
  note ff = fold_follow_edge [OF oks kn, folded w1_def]
  have sb: "same_but_ongoing sw (storage w1)" using ff by simp
  have "\<forall>(s, e) \<in> set (ongoing_events (storage w1)). sender_known (storage w1) e"
    using ff by (auto simp: storage_ok_def)
  then obtain w' where w': "fold_res push_lasting (ongoing_events (storage w1)) w1 = Inr w'" "storage_ok (storage w')"
      "get_storage (storage w') = get_storage (storage w1) @ map snd (ongoing_events (storage w1))"
      "write_storage (storage w') = write_storage (storage w1)" "senders (storage w') = senders (storage w1)"
      "ongoing_events (storage w') = ongoing_events (storage w1)"
    using push_lasting_all [of w1 "ongoing_events (storage w1)"] ff by blast
  have "swap_buffers w = Inr w'"
    using w'(1) unfolding w1_def swap_buffers_def Let_def sw_def cleared_def by simp
  then show ?thesis
    using w' same_but_ongoing_simps [OF sb] sw ff by (auto simp: on_args_def)
qed

subsection \<open>Creating and configuring sources\<close>

lemma create_source_cases:
  assumes ok: "sources_ok (storage w)" and res: "create_source cls nm w = Inr (i, w')"
  shows "i = length (senders (storage w)) \<and> sources_ok (storage w')
    \<and> (\<exists>src. senders (storage w') = senders (storage w) @ [src] \<and> src_name src = nm
        \<and> src_id src = event_sender (of_nat i) 0 \<and> \<not> remote_debug_enabled src \<and> src_class src = cls)
    \<and> (nm \<noteq> [] \<longrightarrow> find_source_by_name nm (storage w') = Some i)
    \<and> (\<forall>nm'. nm' \<noteq> nm \<longrightarrow> find_source_by_name nm' (storage w') = find_source_by_name nm' (storage w))"
proof -
  let ?st = "storage w" and ?src = "\<lparr>src_id = event_sender (of_nat (length (senders (storage w)))) 0, src_name = nm, remote_debug_enabled = False, src_class = cls\<rparr>"
  have fresh: "nm = [] \<or> map_of (index_source_by_name ?st) nm = None" and lt: "length (senders ?st) < 2 ^ 32"
    and i: "i = length (senders ?st)"
    and st: "storage w' = (if nm = [] then ?st\<lparr>senders := senders ?st @ [?src]\<rparr>
       else ?st\<lparr>senders := senders ?st @ [?src], index_source_by_name := om_update nm i (index_source_by_name ?st)\<rparr>)"
    using res by (auto simp: create_source_def register_event_source_def Let_def bind_res_Inr_iff split: if_splits)
  have om: "om_ok (index_source_by_name ?st)" using ok by (simp add: sources_ok_def)
  have old: "senders (storage w') = senders ?st @ [?src]" using st by (simp split: if_splits)
  have ids: "\<forall>j < length (senders (storage w')). sender_of (src_id (senders (storage w') ! j)) = of_nat j"
    using ok by (auto simp: old nth_append sources_ok_def less_Suc_eq)
  have idx: "om_ok (index_source_by_name (storage w'))" using om om_ok_update [OF om] by (simp add: st)
  have "\<forall>(n, j) \<in> set (index_source_by_name (storage w')). j < length (senders (storage w')) \<and> src_name (senders (storage w') ! j) = n"
    using ok set_om_update_subset [of nm i "index_source_by_name ?st"] i
    by (fastforce simp: st old nth_append sources_ok_def split: if_splits)
  then have "sources_ok (storage w')" using ids idx lt old by (simp add: sources_ok_def)
  then show ?thesis
    using i old om by (simp add: st find_source_by_name_def map_of_om_update)
qed

subsection \<open>The storage in use\<close>

text \<open>
  Settings of the classes that are not modelled may change anything but the id and the name of
  the source (\<open>update_conf_from_message\<close> documents that it cannot).
\<close>

definition keeps_identity :: "(event_sender_msg \<Rightarrow> event_source \<Rightarrow> bool \<times> event_source) \<Rightarrow> bool" where
  "keeps_identity ext_conf \<longleftrightarrow> (\<forall>msg src. src_id (snd (ext_conf msg src)) = src_id src
     \<and> src_name (snd (ext_conf msg src)) = src_name src)"

lemma update_conf_identity:
  "keeps_identity ext_conf \<Longrightarrow> src_id (snd (update_conf_from_message ext_conf msg src)) = src_id src
    \<and> src_name (snd (update_conf_from_message ext_conf msg src)) = src_name src"
  by (simp add: update_conf_from_message_def Let_def keeps_identity_def
      split: source_class.splits option.splits sum.splits)

lemma storage_ok_cong:
  assumes "storage_ok st" and "sources_ok st'" and "length (senders st) \<le> length (senders st')"
    and "storage_a st' = storage_a st" "storage_b st' = storage_b st" "ongoing_events st' = ongoing_events st"
  shows "storage_ok st'"
proof -
  have "sender_known st e \<Longrightarrow> sender_known st' e" for e
    using assms(3) by (auto simp: sender_known_def)
  then show ?thesis using assms by (fastforce intro!: storage_okI simp: storage_ok_def)
qed

lemma create_source_ok:
  assumes ok: "storage_ok (storage w)" and res: "create_source cls nm w = Inr (i, w')"
  shows "storage_ok (storage w')"
proof -
  note cs = create_source_cases [OF _ res]
  have "storage_a (storage w') = storage_a (storage w)" "storage_b (storage w') = storage_b (storage w)"
    "ongoing_events (storage w') = ongoing_events (storage w)"
    using res by (auto simp: create_source_def register_event_source_def Let_def bind_res_Inr_iff split: if_splits)
  then show ?thesis using ok cs by (intro storage_ok_cong [OF ok]) (auto simp: storage_ok_def)
qed

lemma update_source_ok:
  assumes ok: "storage_ok st" and i: "i < length (senders st)"
    and same: "src_id src = src_id (senders st ! i)" "src_name src = src_name (senders st ! i)"
  shows "storage_ok (st\<lparr>senders := (senders st)[i := src]\<rparr>)"
proof -
  have "sources_ok (st\<lparr>senders := (senders st)[i := src]\<rparr>)"
    using ok i same by (auto simp: storage_ok_def sources_ok_def nth_list_update)
  then show ?thesis by (intro storage_ok_cong [OF ok]) auto
qed

lemma set_args_sender:
  "fold_res (\<lambda>(i, c). set_arg_data i (f c)) ics e = Inr e' \<Longrightarrow> ev_sender e' = ev_sender e"
  by (rule fold_res_invariant [where P = "\<lambda>x. ev_sender x = ev_sender e"])
    (auto simp: set_arg_data_def split: if_splits)

inductive ev_step ::
  "(event_sender_msg \<Rightarrow> event_source \<Rightarrow> bool \<times> event_source) \<Rightarrow> (event_source \<Rightarrow> event_sender_msg \<Rightarrow> event_sender_msg) \<Rightarrow>
   ev_world \<Rightarrow> ev_world \<Rightarrow> bool"
  for ext_conf ext_encode where
  ev_insert: "insert_event l e w = Inr (b, w') \<Longrightarrow> ev_step ext_conf ext_encode w w'"
| ev_swap: "swap_buffers w = Inr w' \<Longrightarrow> ev_step ext_conf ext_encode w w'"
| ev_create: "create_source cls nm w = Inr (i, w') \<Longrightarrow> ev_step ext_conf ext_encode w w'"
| ev_message: "insert_event_from_message l msg w = Inr (b, w') \<Longrightarrow> ev_step ext_conf ext_encode w w'"
| ev_gpio: "xtouch_send_message src l port st w = Inr (b, w') \<Longrightarrow> ev_step ext_conf ext_encode w w'"
| ev_configure: "construct_or_update_event_source_from_message ext_conf ext_encode msg' w = Inr (b, w') \<Longrightarrow>
    ev_step ext_conf ext_encode w w'"

definition ev_reachable where
  "ev_reachable ext_conf ext_encode w \<longleftrightarrow> (ev_step ext_conf ext_encode)\<^sup>*\<^sup>* start_world w"

lemma insert_event_keeps: "storage_ok (storage w) \<Longrightarrow> insert_event l e w = Inr (b, w') \<Longrightarrow> storage_ok (storage w')"
  using insert_event_ok [of w l e] by auto

lemma configure_cases:
  assumes ok: "storage_ok (storage w)" and ki: "keeps_identity ext_conf"
    and res: "construct_or_update_event_source_from_message ext_conf ext_encode msg w = Inr (b, w')"
  shows "storage_ok (storage w')"
proof -
  define update where "update = (\<lambda>i w. bind_res (vec_at (senders (storage w)) i) (\<lambda>s.
              let (success, src) = update_conf_from_message ext_conf msg s;
                  st = storage w
              in Inr (success, w\<lparr>storage := st\<lparr>senders := (senders st)[i := src]\<rparr>,
                   gui_log := gui_log w @ [Sender_message (encode_proto_message ext_encode src)]\<rparr>)) :: (bool \<times> ev_world) result)"
  have upd: "storage_ok (storage v')" if o: "storage_ok (storage v)" and u: "update i v = Inr (b, v')" for i v v'
  proof -
    from u obtain src where i: "i < length (senders (storage v))"
      and s: "snd (update_conf_from_message ext_conf msg (senders (storage v) ! i)) = src"
      and v': "storage v' = (storage v)\<lparr>senders := (senders (storage v))[i := src]\<rparr>"
      by (auto simp: update_def bind_res_Inr_iff Let_def split: prod.splits)
    show ?thesis unfolding v'
      using update_source_ok [OF o i] update_conf_identity [OF ki, of msg "senders (storage v) ! i"] s by simp
  qed
  have step: "(case find_source_by_name (s_name msg) (storage w) of
           Some i \<Rightarrow> update i w
         | None \<Rightarrow> (case source_class_of_type (s_type msg) of
               None \<Rightarrow> Inr (False, w)
             | Some cls \<Rightarrow> bind_res (create_source cls (s_name msg) w) (\<lambda>(i, w'). update i w'))) = Inr (b, w')"
    using res unfolding construct_or_update_event_source_from_message_def update_def Let_def .
  show ?thesis
  proof (cases "find_source_by_name (s_name msg) (storage w)")
    case (Some i)
    then show ?thesis using step upd [OF ok] by simp
  next
    case None
    then show ?thesis
    proof (cases "source_class_of_type (s_type msg)")
      case (Some cls)
      with None step obtain i v where "create_source cls (s_name msg) w = Inr (i, v)" "update i v = Inr (b, w')"
        by (auto simp: bind_res_Inr_iff)
      then show ?thesis using upd create_source_ok [OF ok] by blast
    qed (use None step ok in simp)
  qed
qed

lemma ev_step_ok:
  assumes "keeps_identity ext_conf"
  shows "ev_step ext_conf ext_encode w w' \<Longrightarrow> storage_ok (storage w) \<Longrightarrow> storage_ok (storage w')"
proof (induction rule: ev_step.induct)
  case (ev_insert l e w b w')
  then show ?case using insert_event_keeps by blast
next
  case (ev_swap w w')
  then show ?case using swap_buffers_spec [of w] by auto
next
  case (ev_create cls nm w i w')
  then show ?case using create_source_ok by blast
next
  case (ev_message l msg w b w')
  from ev_message(1) obtain e n e' where "insert_event l e' (w\<lparr>next_event_id := n\<rparr>) = Inr (b, w')"
    by (auto simp: insert_event_from_message_def bind_res_Inr_iff split: prod.splits)
  moreover have "storage_ok (storage (w\<lparr>next_event_id := n\<rparr>))" using ev_message(2) by simp
  ultimately show ?case using insert_event_keeps by blast
next
  case (ev_gpio src l port st w b w')
  from ev_gpio(1) obtain e n e' where "insert_event l e' (w\<lparr>next_event_id := n\<rparr>) = Inr (b, w')"
    by (auto simp: xtouch_send_message_def bind_res_Inr_iff split: prod.splits)
  moreover have "storage_ok (storage (w\<lparr>next_event_id := n\<rparr>))" using ev_gpio(2) by simp
  ultimately show ?case using insert_event_keeps by blast
next
  case (ev_configure msg' w b w')
  then show ?case using configure_cases [OF _ assms] by blast
qed

lemma ev_reachable_ok:
  assumes "keeps_identity ext_conf" and "ev_reachable ext_conf ext_encode w"
  shows "storage_ok (storage w)"
  using assms(2) unfolding ev_reachable_def
proof (induction rule: rtranclp_induct)
  case base
  then show ?case using storage_ok_new by (simp add: start_world_def)
qed (use ev_step_ok [OF assms(1)] in blast)

text \<open>Inserting a sequence of events, each with the state of the mutex at that moment.\<close>

fun insert_all :: "(bool \<times> event) list \<Rightarrow> ev_world \<Rightarrow> (bool list \<times> ev_world) result" where
  "insert_all [] w = Inr ([], w)"
| "insert_all ((l, e) # les) w =
     bind_res (insert_event l e w) (\<lambda>(b, w'). bind_res (insert_all les w') (\<lambda>(bs, w''). Inr (b # bs, w'')))"

lemma insert_all_spec:
  "storage_ok (storage w) \<Longrightarrow>
   \<exists>w'. insert_all les w = Inr (map (accepts (storage w)) les, w') \<and> storage_ok (storage w')
     \<and> write_storage (storage w') = write_storage (storage w) @ map snd (filter (accepts (storage w)) les)
     \<and> ongoing_events (storage w') = ongoing_events (storage w) \<and> senders (storage w') = senders (storage w)"
proof (induction les arbitrary: w)
  case (Cons le les)
  obtain l e where le: "le = (l, e)" by fastforce
  show ?case
  proof (cases "accepts (storage w) (l, e)")
    case True
    then obtain g where g: "insert_event l e w = Inr (True, w\<lparr>storage := push_to_write e (storage w), gui_log := g\<rparr>)"
      using insert_event_cases [of w l e] by auto
    let ?w = "w\<lparr>storage := push_to_write e (storage w), gui_log := g\<rparr>"
    have "storage_ok (storage ?w)" using insert_event_keeps [OF Cons.prems g] .
    moreover have "accepts (storage ?w) = accepts (storage w)"
      by (rule ext) (simp add: accepts_def sender_known_def push_to_write_def)
    moreover have "write_storage (storage ?w) = write_storage (storage w) @ [e]"
      "ongoing_events (storage ?w) = ongoing_events (storage w)" "senders (storage ?w) = senders (storage w)"
      by (simp_all add: push_to_write_def write_storage_def)
    ultimately show ?thesis using Cons.IH [of ?w] g le True by auto
  next
    case False
    then have "insert_event l e w = Inr (False, w)" using insert_event_cases [of w l e] by auto
    then show ?thesis using Cons.IH [OF Cons.prems] False le by auto
  qed
qed simp

text \<open>
  C6. Delivery: in every reachable state, inserting any sequence of events and swapping never
  runs into undefined behaviour; an insert succeeds exactly when the mutex is free and the sender
  is registered; and the events of the next cycle are the accepted ones, each once and in order,
  behind what was already waiting and before the ongoing events.
\<close>

theorem events_delivered_once:
  assumes "keeps_identity ext_conf" and "ev_reachable ext_conf ext_encode w"
  shows "\<exists>w1 w2. insert_all les w = Inr (map (accepts (storage w)) les, w1) \<and> swap_buffers w1 = Inr w2
    \<and> get_storage (storage w2) = write_storage (storage w)
        @ map snd (filter (accepts (storage w)) les) @ map snd (ongoing_events (storage w2))
    \<and> write_storage (storage w2) = []"
proof -
  obtain w1 where w1: "insert_all les w = Inr (map (accepts (storage w)) les, w1)" "storage_ok (storage w1)"
    "write_storage (storage w1) = write_storage (storage w) @ map snd (filter (accepts (storage w)) les)"
    using insert_all_spec [OF ev_reachable_ok [OF assms], of les] by blast
  with swap_buffers_spec [OF w1(2)] show ?thesis by auto
qed

text \<open>
  C23. Ongoing events: after a swap there is one ongoing event exactly for the senders whose last
  START or RELEASE was a START, carrying the arguments of that START; all of them are in the read
  buffer, and they are sorted by sender with no sender twice.
\<close>

theorem ongoing_events_follow_edges:
  assumes "keeps_identity ext_conf" and "ev_reachable ext_conf ext_encode w"
  shows "\<exists>w'. swap_buffers w = Inr w'
    \<and> (\<forall>s. on_args (storage w') s = follow s (write_storage (storage w)) (on_args (storage w) s))
    \<and> list_all (\<lambda>(s, e). ev_sender e = s \<and> ev_type e = ONGOING_EVENT
          \<and> e \<in> set (get_storage (storage w'))) (ongoing_events (storage w'))
    \<and> sorted_wrt (<) (map fst (ongoing_events (storage w')))"
proof -
  obtain w' where w': "swap_buffers w = Inr w'" "storage_ok (storage w')"
    "get_storage (storage w') = write_storage (storage w) @ map snd (ongoing_events (storage w'))"
    "\<forall>s. on_args (storage w') s = follow s (write_storage (storage w)) (on_args (storage w) s)"
    using swap_buffers_spec [OF ev_reachable_ok [OF assms]] by blast
  then have "list_all (\<lambda>(s, e). ev_sender e = s \<and> ev_type e = ONGOING_EVENT
          \<and> e \<in> set (get_storage (storage w'))) (ongoing_events (storage w'))"
    unfolding w'(3) by (force simp: storage_ok_def list_all_iff)
  then show ?thesis using w' by (auto simp: storage_ok_def om_ok_def)
qed

text \<open>
  Sources: creating a source with a new name makes it findable under this name at the next
  free id, leaves every other name as it was, and a name that is taken is refused without a
  change.
\<close>

theorem create_source_registers:
  assumes "keeps_identity ext_conf" and "ev_reachable ext_conf ext_encode w" and "nm \<noteq> []"
    and "length (senders (storage w)) < 2 ^ 32"
  shows "case find_source_by_name nm (storage w) of
      Some i \<Rightarrow> i < length (senders (storage w)) \<and> src_name (senders (storage w) ! i) = nm
        \<and> create_source cls nm w = Inl (Invalid_argument ''Name of new event source must be unique.'')
    | None \<Rightarrow> \<exists>w' src. create_source cls nm w = Inr (length (senders (storage w)), w')
        \<and> senders (storage w') = senders (storage w) @ [src]
        \<and> src_id src = event_sender (of_nat (length (senders (storage w)))) 0
        \<and> (\<forall>nm'. find_source_by_name nm' (storage w') =
             (if nm' = nm then Some (length (senders (storage w))) else find_source_by_name nm' (storage w)))"
proof -
  have ok: "sources_ok (storage w)" using ev_reachable_ok [OF assms(1,2)] by (simp add: storage_ok_def)
  show ?thesis
  proof (cases "find_source_by_name nm (storage w)")
    case (Some i)
    then have "(nm, i) \<in> set (index_source_by_name (storage w))"
      using assms(3) map_of_SomeD by (fastforce simp: find_source_by_name_def)
    then show ?thesis using Some ok assms(3)
      by (auto simp: sources_ok_def create_source_def find_source_by_name_def)
  next
    case None
    then obtain i w' where r: "create_source cls nm w = Inr (i, w')"
      using assms(3,4) by (simp add: create_source_def find_source_by_name_def register_event_source_def Let_def)
    show ?thesis using create_source_cases [OF ok r] r None assms(3) by auto
  qed
qed

lemma set_args_fold:
  "k + length cs \<le> 8 \<Longrightarrow> length (event_arguments e) = 8 \<Longrightarrow>
   fold_res (\<lambda>(i, c). set_arg_data i (f c)) (List.enumerate k cs) e =
   Inr (e\<lparr>event_arguments := take k (event_arguments e) @ map f cs @ drop (k + length cs) (event_arguments e)\<rparr>)"
proof (induction cs arbitrary: k e)
  case (Cons c cs)
  let ?e = "e\<lparr>event_arguments := (event_arguments e)[k := f c]\<rparr>"
  have "fold_res (\<lambda>(i, c). set_arg_data i (f c)) (List.enumerate (Suc k) cs) ?e =
    Inr (?e\<lparr>event_arguments := take (Suc k) (event_arguments ?e) @ map f cs @ drop (Suc k + length cs) (event_arguments ?e)\<rparr>)"
    using Cons.prems by (intro Cons.IH) auto
  moreover have "take (Suc k) (event_arguments ?e) = take k (event_arguments e) @ [f c]"
    using Cons.prems by (simp add: take_Suc_conv_app_nth)
  moreover have "set_arg_data k (f c) e = Inr ?e" using Cons.prems by (simp add: set_arg_data_def)
  ultimately show ?case by simp
qed simp

text \<open>
  The messages about events: an event pushed to a GUI and sent back as a message is inserted
  again with the same type, sender, function and arguments, under a new id.
\<close>

theorem event_message_roundtrip:
  assumes "length (event_arguments e) = 8" and "sender_known (storage w) e"
  shows "\<exists>g. insert_event_from_message True (event_to_msg e) w
    = Inr (True, w\<lparr>next_event_id := next_event_id w + 1,
        storage := push_to_write (e\<lparr>event_id := next_event_id w\<rparr>) (storage w), gui_log := g\<rparr>)"
proof -
  let ?e = "e\<lparr>event_id := next_event_id w\<rparr>" and ?w = "w\<lparr>next_event_id := next_event_id w + 1\<rparr>"
  let ?fresh = "\<lparr>ev_type = ev_type e, event_arguments = replicate 8 0, event_id = next_event_id w, ev_sender = ev_sender e\<rparr>"
  have new: "new_event (word_of_int (m_type (event_to_msg e)))
      (event_sender (m_sender_id (event_to_msg e)) (m_sender_function (event_to_msg e))) (next_event_id w)
      = (?fresh, next_event_id w + 1)"
    by (simp add: new_event_def event_to_msg_def event_sender_inverse)
  have id8: "ucast (ucast (x :: u8) :: u32) = x" for x by (rule bit_word_eqI) (auto simp: bit_simps)
  have args: "fold_res (\<lambda>(i, c). set_arg_data i (ucast c)) (take 8 (List.enumerate 0 (m_arguments (event_to_msg e)))) ?fresh
      = Inr (?fresh\<lparr>event_arguments := event_arguments e\<rparr>)"
    using assms(1) set_args_fold [of 0 "m_arguments (event_to_msg e)" ?fresh ucast]
    by (simp add: event_to_msg_def id8 comp_def)
  have same: "?fresh\<lparr>event_arguments := event_arguments e\<rparr> = ?e" by (rule event.equality) simp_all
  have "insert_event_from_message True (event_to_msg e) w = insert_event True ?e ?w"
    unfolding insert_event_from_message_def new Let_def prod.case args [unfolded same] by simp
  moreover have "accepts (storage ?w) (True, ?e)" using assms(2) by (simp add: accepts_def sender_known_def)
  ultimately show ?thesis using insert_event_cases [of ?w True ?e] by auto
qed

subsection \<open>Witnesses\<close>

definition demo_world :: ev_world where
  "demo_world = (case create_source Plain_source ''keypad'' start_world of Inr (i, w) \<Rightarrow> w | Inl _ \<Rightarrow> start_world)"

definition demo_event :: "u8 \<Rightarrow> event" where
  "demo_event t = \<lparr>ev_type = t, event_arguments = [1, 2, 3, 4, 5, 6, 7, 8], event_id = 9, ev_sender = event_sender 0 5\<rparr>"

lemma demo_reachable: "ev_reachable (\<lambda>msg src. (True, src)) (\<lambda>src m. m) demo_world"
proof -
  have "create_source Plain_source ''keypad'' start_world = Inr (0, demo_world)"
    by (simp add: demo_world_def create_source_def start_world_def new_event_storage_def register_event_source_def)
  from ev_create [OF this] show ?thesis unfolding ev_reachable_def by blast
qed

lemma demo_identity: "keeps_identity (\<lambda>msg src. (True, src))"
  by (simp add: keeps_identity_def)

lemma demo_senders: "length (senders (storage demo_world)) = 1"
  by (simp add: demo_world_def create_source_def start_world_def new_event_storage_def register_event_source_def)

theorem events_delivered_once_witness:
  "\<exists>w1 w2. insert_all [(True, demo_event START), (False, demo_event RELEASE)] demo_world
      = Inr (map (accepts (storage demo_world)) [(True, demo_event START), (False, demo_event RELEASE)], w1)
    \<and> swap_buffers w1 = Inr w2
    \<and> get_storage (storage w2) = write_storage (storage demo_world)
        @ map snd (filter (accepts (storage demo_world)) [(True, demo_event START), (False, demo_event RELEASE)])
        @ map snd (ongoing_events (storage w2))
    \<and> write_storage (storage w2) = []"
  by (rule events_delivered_once [OF demo_identity demo_reachable])

theorem ongoing_events_follow_edges_witness:
  "\<exists>w'. swap_buffers demo_world = Inr w'
    \<and> (\<forall>s. on_args (storage w') s = follow s (write_storage (storage demo_world)) (on_args (storage demo_world) s))
    \<and> list_all (\<lambda>(s, e). ev_sender e = s \<and> ev_type e = ONGOING_EVENT
          \<and> e \<in> set (get_storage (storage w'))) (ongoing_events (storage w'))
    \<and> sorted_wrt (<) (map fst (ongoing_events (storage w')))"
  by (rule ongoing_events_follow_edges [OF demo_identity demo_reachable])

theorem create_source_registers_witness:
  "case find_source_by_name ''pedal'' (storage demo_world) of
      Some i \<Rightarrow> i < length (senders (storage demo_world)) \<and> src_name (senders (storage demo_world) ! i) = ''pedal''
        \<and> create_source Plain_source ''pedal'' demo_world = Inl (Invalid_argument ''Name of new event source must be unique.'')
    | None \<Rightarrow> \<exists>w' src. create_source Plain_source ''pedal'' demo_world = Inr (length (senders (storage demo_world)), w')
        \<and> senders (storage w') = senders (storage demo_world) @ [src]
        \<and> src_id src = event_sender (of_nat (length (senders (storage demo_world)))) 0
        \<and> (\<forall>nm'. find_source_by_name nm' (storage w') =
             (if nm' = ''pedal'' then Some (length (senders (storage demo_world)))
              else find_source_by_name nm' (storage demo_world)))"
  by (rule create_source_registers [OF demo_identity demo_reachable]) (simp_all add: demo_senders)

theorem event_message_roundtrip_witness:
  "\<exists>g. insert_event_from_message True (event_to_msg (demo_event START)) demo_world
    = Inr (True, demo_world\<lparr>next_event_id := next_event_id demo_world + 1,
        storage := push_to_write ((demo_event START)\<lparr>event_id := next_event_id demo_world\<rparr>) (storage demo_world),
        gui_log := g\<rparr>)"
  by (rule event_message_roundtrip) (simp_all add: sender_known_def demo_senders demo_event_def)

end
