(* ===== verification/State_Registry.thy ===== *)
theory State_Registry
  imports Ordered_Map Std_Strings
begin

text \<open>
  \<^verbatim>\<open>src/src/executioners/state_registry.cpp\<close>: the key-value states that survive a scene switch.
  States of one scene share a map with the key \<open>scene::key\<close>; the GUI reads all states by
  sending an empty list and writes states by sending a non-empty one. The unordered maps are
  sorted association lists here, since nothing depends on the order of a hash map except the
  order of an exported list. Scene ids are the code's \<open>size_t\<close>.
\<close>

record state_registry =
  scene_specific_map :: "(string, string) omap"
  unspecific_map :: "(string, string) omap"

record specific_state =
  kv_scene_id :: nat
  kv_k :: string
  kv_v :: string

record state_list =
  unspecific_states :: "(string, string) omap"
  specific_states :: "specific_state list"

definition empty_registry :: state_registry where
  "empty_registry = \<lparr>scene_specific_map = [], unspecific_map = []\<rparr>"

definition scene_key :: "nat \<Rightarrow> string \<Rightarrow> string" where
  "scene_key scene_id k = dec scene_id @ ''::'' @ k"

definition set_scene_state :: "nat \<Rightarrow> string \<Rightarrow> string \<Rightarrow> state_registry \<Rightarrow> state_registry" where
  "set_scene_state scene_id k v r =
     r\<lparr>scene_specific_map := om_update (scene_key scene_id k) v (scene_specific_map r)\<rparr>"

definition set_state :: "string \<Rightarrow> string \<Rightarrow> state_registry \<Rightarrow> state_registry" where
  "set_state k v r = r\<lparr>unspecific_map := om_update k v (unspecific_map r)\<rparr>"

definition get_state :: "string \<Rightarrow> state_registry \<Rightarrow> string option" where
  "get_state k r = map_of (unspecific_map r) k"

definition get_scene_state :: "nat \<Rightarrow> string \<Rightarrow> state_registry \<Rightarrow> string option" where
  "get_scene_state scene_id k r = map_of (scene_specific_map r) (scene_key scene_id k)"

definition reset_state_registry :: "state_registry \<Rightarrow> state_registry" where
  "reset_state_registry r = r\<lparr>unspecific_map := [], scene_specific_map := []\<rparr>"

text \<open>One iteration of the export loop: the scene id is what stands before the first \<open>::\<close>.\<close>

definition export_specific :: "string \<times> string \<Rightarrow> specific_state list \<Rightarrow> specific_state list result" where
  "export_specific skv acc =
     (let (sk, v) = skv; found = str_find sk ''::'' 0
      in bind_res
           (if found = npos then Inr (0, 0)
            else bind_res (substr sk 0 found) (\<lambda>s. Inr (size_add found 2, nat (atol s mod 2 ^ 64))))
           (\<lambda>(split_pos, scene_id). bind_res (substr sk split_pos npos)
              (\<lambda>k. Inr (acc @ [\<lparr>kv_scene_id = scene_id, kv_k = k, kv_v = v\<rparr>]))))"

definition import_states :: "state_list \<Rightarrow> state_registry \<Rightarrow> state_registry" where
  "import_states msg r =
     fold (\<lambda>kvs. set_scene_state (kv_scene_id kvs) (kv_k kvs) (kv_v kvs)) (specific_states msg)
       (fold (\<lambda>(k, v) r. r\<lparr>unspecific_map := om_update k v (unspecific_map r)\<rparr>) (unspecific_states msg) r)"

definition update_states_from_message ::
  "state_list \<Rightarrow> state_registry \<Rightarrow> (bool \<times> state_registry \<times> state_list) result" where
  "update_states_from_message msg r =
     (let was_empty = (unspecific_states msg = [] \<and> specific_states msg = []);
          r' = import_states msg r
      in if was_empty
         then bind_res (fold_res export_specific (scene_specific_map r') (specific_states msg))
                (\<lambda>kvs. Inr (True, r', \<lparr>unspecific_states = fold (\<lambda>(k, v). om_update k v) (unspecific_map r') (unspecific_states msg),
                   specific_states = kvs\<rparr>))
         else Inr (False, r', msg))"

subsection \<open>Keys\<close>

lemma colon_not_digit: "CHR '':'' \<notin> set (dec n)"
  using dec_digits [of "CHR '':''" n] by (auto simp: isdigit_def)

lemma scene_key_inj: "scene_key i k = scene_key j k' \<longleftrightarrow> i = j \<and> k = k'"
proof
  assume eq: "scene_key i k = scene_key j k'"
  have pre: "takeWhile (\<lambda>c. c \<noteq> CHR '':'') (scene_key n m) = dec n" for n m
    unfolding scene_key_def using takeWhile_neq_append [OF colon_not_digit [of n]] by simp
  have d: "dec i = dec j" using arg_cong [OF eq, of "takeWhile (\<lambda>c. c \<noteq> CHR '':'')"] unfolding pre .
  then have "i = j" by (rule dec_inj)
  then show "i = j \<and> k = k'" using eq by (simp add: scene_key_def)
qed simp

lemma scan_two: "x \<notin> set u \<Longrightarrow> scan [x, x] (u @ x # x # v) = Some (length u)"
  by (induction u) auto

lemma str_find_scene_key: "str_find (scene_key i k) ''::'' 0 = length (dec i)"
  using scan_two [OF colon_not_digit [of i], of k] by (simp add: str_find_def scene_key_def)

lemma dec_length: "0 < length (dec n)"
  by simp

lemma atol_bound_dec: "i < 2 ^ 63 \<Longrightarrow> nat (atol (dec i) mod 2 ^ 64) = i"
  by (simp add: atol_dec)

lemma export_specific_key:
  assumes "i < 2 ^ 63" and "length (scene_key i k) < 2 ^ 63"
  shows "export_specific (scene_key i k, v) acc = Inr (acc @ [\<lparr>kv_scene_id = i, kv_k = k, kv_v = v\<rparr>])"
proof -
  have len: "length (dec i) + 2 + length k < 2 ^ 63" using assms(2) by (simp add: scene_key_def)
  then have "length (dec i) \<noteq> npos" by (simp add: npos_def)
  moreover have "substr (scene_key i k) 0 (length (dec i)) = Inr (dec i)"
    by (simp add: substr_def scene_key_def)
  moreover have "size_add (length (dec i)) 2 = length (dec i) + 2" using len by (simp add: size_add_lt)
  moreover have "substr (scene_key i k) (length (dec i) + 2) npos = Inr k"
    using len by (simp add: substr_def scene_key_def npos_def)
  ultimately show ?thesis
    using atol_bound_dec [OF assms(1)] by (simp add: export_specific_def str_find_scene_key)
qed

subsection \<open>The registry in use\<close>

datatype registry_op = Set_scene nat string string | Set_global string string | Reset

fun apply_op :: "registry_op \<Rightarrow> state_registry \<Rightarrow> state_registry" where
  "apply_op (Set_scene i k v) r = set_scene_state i k v r"
| "apply_op (Set_global k v) r = set_state k v r"
| "apply_op Reset r = reset_state_registry r"

fun op_small :: "registry_op \<Rightarrow> bool" where
  "op_small (Set_scene i k v) \<longleftrightarrow> i < 2 ^ 63 \<and> length (scene_key i k) < 2 ^ 63"
| "op_small _ \<longleftrightarrow> True"

definition registry_ok :: "state_registry \<Rightarrow> bool" where
  "registry_ok r \<longleftrightarrow> om_ok (scene_specific_map r) \<and> om_ok (unspecific_map r)
     \<and> (\<forall>(sk, v) \<in> set (scene_specific_map r). \<exists>i k. sk = scene_key i k \<and> op_small (Set_scene i k v))"

lemma registry_ok_apply: "registry_ok r \<Longrightarrow> op_small op \<Longrightarrow> registry_ok (apply_op op r)"
proof (cases op)
  case (Set_scene i k v)
  assume ok: "registry_ok r" and "op_small op"
  then show ?thesis
    using Set_scene set_om_update_subset [of "scene_key i k" v "scene_specific_map r"]
    by (fastforce simp: registry_ok_def set_scene_state_def om_ok_update)
qed (auto simp: registry_ok_def set_state_def reset_state_registry_def om_ok_update)

lemma registry_ok_fold: "registry_ok r \<Longrightarrow> list_all op_small ops \<Longrightarrow> registry_ok (fold apply_op ops r)"
  by (induction ops arbitrary: r) (auto intro: registry_ok_apply)

lemma registry_ok_empty: "registry_ok empty_registry"
  by (simp add: registry_ok_def empty_registry_def)

lemma export_all:
  "\<forall>(sk, v) \<in> set m. \<exists>i k. sk = scene_key i k \<and> op_small (Set_scene i k v) \<Longrightarrow>
   \<exists>kvs. fold_res export_specific m acc = Inr (acc @ kvs)
     \<and> map (\<lambda>x. (scene_key (kv_scene_id x) (kv_k x), kv_v x)) kvs = m"
proof (induction m arbitrary: acc)
  case (Cons e m)
  then obtain i k v where e: "e = (scene_key i k, v)" and small: "op_small (Set_scene i k v)"
    by (cases e) auto
  then have ex: "export_specific e acc = Inr (acc @ [\<lparr>kv_scene_id = i, kv_k = k, kv_v = v\<rparr>])"
    using export_specific_key by simp
  obtain kvs where "fold_res export_specific m (acc @ [\<lparr>kv_scene_id = i, kv_k = k, kv_v = v\<rparr>])
      = Inr ((acc @ [\<lparr>kv_scene_id = i, kv_k = k, kv_v = v\<rparr>]) @ kvs)"
    and "map (\<lambda>x. (scene_key (kv_scene_id x) (kv_k x), kv_v x)) kvs = m"
    using Cons.IH [of "acc @ [\<lparr>kv_scene_id = i, kv_k = k, kv_v = v\<rparr>]"] Cons.prems by auto
  then show ?case using ex e
    by (intro exI [of _ "\<lparr>kv_scene_id = i, kv_k = k, kv_v = v\<rparr> # kvs"]) simp
qed simp

lemma import_scene_states:
  "scene_specific_map (fold (\<lambda>kvs. set_scene_state (kv_scene_id kvs) (kv_k kvs) (kv_v kvs)) kvs r)
   = fold (\<lambda>(k, v). om_update k v) (map (\<lambda>x. (scene_key (kv_scene_id x) (kv_k x), kv_v x)) kvs) (scene_specific_map r)
   \<and> unspecific_map (fold (\<lambda>kvs. set_scene_state (kv_scene_id kvs) (kv_k kvs) (kv_v kvs)) kvs r) = unspecific_map r"
  by (induction kvs arbitrary: r) (auto simp: set_scene_state_def)

lemma import_global_states:
  "unspecific_map (fold (\<lambda>(k, v) r. r\<lparr>unspecific_map := om_update k v (unspecific_map r)\<rparr>) us r)
   = fold (\<lambda>(k, v). om_update k v) us (unspecific_map r)
   \<and> scene_specific_map (fold (\<lambda>(k, v) r. r\<lparr>unspecific_map := om_update k v (unspecific_map r)\<rparr>) us r) = scene_specific_map r"
  by (induction us arbitrary: r) auto

text \<open>
  The states of a scene are separate from those of every other scene and from the global
  ones: after any sequence of writes a read sees the last write under exactly this scene and key.
\<close>

theorem scene_state_isolated:
  assumes "list_all op_small ops"
  defines "r \<equiv> fold apply_op ops empty_registry"
  shows "get_scene_state i k (set_scene_state j k' v r) = (if i = j \<and> k = k' then Some v else get_scene_state i k r)
    \<and> get_state k (set_scene_state j k' v r) = get_state k r
    \<and> get_state k (set_state k' v r) = (if k = k' then Some v else get_state k r)
    \<and> get_scene_state i k (set_state k' v r) = get_scene_state i k r
    \<and> get_state k (reset_state_registry r) = None \<and> get_scene_state i k (reset_state_registry r) = None"
proof -
  have "om_ok (scene_specific_map r)" "om_ok (unspecific_map r)"
    using registry_ok_fold [OF registry_ok_empty assms(1)] by (simp_all add: r_def registry_ok_def)
  then show ?thesis
    by (simp add: get_scene_state_def set_scene_state_def get_state_def set_state_def map_of_om_update
        scene_key_inj reset_state_registry_def)
qed

theorem scene_state_isolated_witness:
  "get_scene_state 3 ''cue'' (set_scene_state 3 ''cue'' ''7'' (fold apply_op [Set_scene 12 ''cue'' ''1''] empty_registry)) = Some ''7''"
proof -
  have "list_all op_small [Set_scene 12 ''cue'' ''1'']" by (simp add: scene_key_def dec.simps)
  from scene_state_isolated [OF this, of 3 "''cue''" 3 "''cue''" "''7''"] show ?thesis by simp
qed

text \<open>
  Reading the registry with an empty message and writing the answer to a fresh registry
  reproduces it exactly; the export never throws and changes nothing.
\<close>

theorem state_list_roundtrip:
  assumes "list_all op_small ops"
  defines "r \<equiv> fold apply_op ops empty_registry"
  shows "\<exists>msg. update_states_from_message \<lparr>unspecific_states = [], specific_states = []\<rparr> r = Inr (True, r, msg)
    \<and> import_states msg empty_registry = r"
proof -
  have ok: "registry_ok r" using registry_ok_fold [OF registry_ok_empty assms(1)] by (simp add: r_def)
  then obtain kvs where kvs: "fold_res export_specific (scene_specific_map r) [] = Inr kvs"
    "map (\<lambda>x. (scene_key (kv_scene_id x) (kv_k x), kv_v x)) kvs = scene_specific_map r"
    using export_all [of "scene_specific_map r" "[]"] by (auto simp: registry_ok_def)
  let ?msg = "\<lparr>unspecific_states = unspecific_map r, specific_states = kvs\<rparr>"
  have rebuild: "fold (\<lambda>(k, v). om_update k v) (unspecific_map r) [] = unspecific_map r"
    "fold (\<lambda>(k, v). om_update k v) (scene_specific_map r) [] = scene_specific_map r"
    using om_rebuild [of "[]" "unspecific_map r"] om_rebuild [of "[]" "scene_specific_map r"] ok
    by (simp_all add: registry_ok_def)
  have "update_states_from_message \<lparr>unspecific_states = [], specific_states = []\<rparr> r = Inr (True, r, ?msg)"
    using kvs(1) rebuild by (simp add: update_states_from_message_def import_states_def)
  moreover have "import_states ?msg empty_registry = r"
    using kvs(2) rebuild
    by (intro state_registry.equality)
      (simp_all add: import_states_def empty_registry_def import_scene_states import_global_states)
  ultimately show ?thesis by blast
qed

theorem state_list_roundtrip_witness:
  "\<exists>msg. update_states_from_message \<lparr>unspecific_states = [], specific_states = []\<rparr>
      (fold apply_op [Set_scene 12 ''cue'' ''1'', Set_global ''a'' ''b''] empty_registry)
      = Inr (True, fold apply_op [Set_scene 12 ''cue'' ''1'', Set_global ''a'' ''b''] empty_registry, msg)
    \<and> import_states msg empty_registry = fold apply_op [Set_scene 12 ''cue'' ''1'', Set_global ''a'' ''b''] empty_registry"
  by (rule state_list_roundtrip) (simp add: scene_key_def dec.simps)

end
