(* ===== verification/Channels.thy ===== *)
theory Channels
  imports Ordered_Map Std_Strings
begin

text \<open>
  \<^verbatim>\<open>src/src/filters/filter.hpp\<close>: the tables of named channels that filters publish and receive, one
  per type of channel; an address of a channel is of the type \<open>'p\<close>.
\<close>

record 'p channel_mapping =
  eight_bit_channels :: "(string, 'p) omap"
  sixteen_bit_channels :: "(string, 'p) omap"
  float_channels :: "(string, 'p) omap"
  color_channels :: "(string, 'p) omap"

definition empty_mapping :: "'p channel_mapping" where
  "empty_mapping = \<lparr>eight_bit_channels = [], sixteen_bit_channels = [], float_channels = [], color_channels = []\<rparr>"

end
