(* ===== verification/Scene_Factory.thy ===== *)
theory Scene_Factory
  imports Channels "HOL-Library.Multiset"
begin

text \<open>
  \<^verbatim>\<open>src/src/executioners/scene_factory.cpp\<close>: from the filters of a scene in the show file to the
  filters in the order they are updated, connected to each other. Filters are scheduled in
  rounds: a filter is placed when every filter it reads from has been placed; a round without
  a placement is the error E005. Then the output channels are collected in that order and every
  filter gets the channels it asked for, or the error E006.

  A filter object is an element of the type \<open>'f\<close>, and the virtual methods of \<open>filter\<close> that the
  factory calls are the record \<open>filter_methods\<close>; addresses of channels are the type \<open>'p\<close>. The
  sizes of the C++ classes are a parameter. The text the loader logs is not modelled, the text
  of the exceptions is.
\<close>

subsection \<open>The filter types\<close>

text \<open>The classes whose size \<open>get_filter_memory_size\<close> adds up for a type, fall-throughs included.\<close>

definition allocation_basic :: "(int \<times> string list) list" where
  "allocation_basic = [
    (0, [''constant_8bit'']), (1, [''constant_16bit'']), (2, [''constant_float'']),
    (3, [''constant_color'']), (4, [''debug_8bit'']), (5, [''debug_16bit'']),
    (6, [''debug_float'']), (7, [''debug_pixel'']), (8, [''filter_16bit_to_dual_byte'']),
    (9, [''filter_16bit_to_bool'']), (10, [''filter_multiply_add'']),
    (11, [''filter_universe_output'']), (12, [''filter_float_to_16bit'']),
    (13, [''filter_float_to_8bit'']), (14, [''filter_round_number'']),
    (15, [''filter_pixel_to_rgb_channels'']), (16, [''filter_pixel_to_rgbw_channels'']),
    (18, [''filter_floats_to_pixel'']), (19, [''filter_sine'']), (20, [''filter_cosine'']),
    (21, [''filter_tangent'']), (22, [''filter_arcsine'']), (23, [''filter_arccosine'']),
    (24, [''filter_arctangent'']), (28, [''filter_logarithm'']), (29, [''filter_exponential'']),
    (30, [''filter_minimum'']), (31, [''filter_maximum'']), (25, [''filter_square'']),
    (26, [''filter_triangle'']), (27, [''filter_sawtooth'']), (32, [''filter_time'']),
    (33, [''delay_switch_on_8bit'']), (34, [''delay_switch_on_16bit'']),
    (35, [''delay_switch_on_float'']), (36, [''delay_switch_off_8bit'']),
    (37, [''delay_switch_off_16bit'']), (38, [''delay_switch_off_float''])]"

definition allocation_show :: "(int \<times> string list) list" where
  "allocation_show = [
    (39, [''filter_fader_column_raw'']), (40, [''filter_fader_column_hsi'']),
    (41, [''filter_fader_column_hsia'']), (42, [''filter_fader_column_hsiu'']),
    (43, [''filter_fader_column_hsiau'']), (44, [''filter_cue'']), (45, [''filter_shift_8bit'']),
    (46, [''filter_shift_16bit'']), (47, [''filter_shift_float'']),
    (49, [''filter_main_brightness_fader'']), (48, [''filter_shift_color'']),
    (50, [''filter_lua_script'']), (51, [''filter_8bit_to_float'']),
    (52, [''filter_16bit_to_float'']), (53, [''filter_pixel_to_floats'']),
    (54, [''filter_float_map_range_8bit'']), (55, [''filter_float_map_range_16bit'']),
    (56, [''filter_float_map_range_float'']), (57, [''filter_combine_bytes_to_16bit'']),
    (58, [''filter_map_8bit_to_16bit'']), (62, [''filter_sum_8bit'']),
    (63, [''filter_sum_16bit'']), (64, [''filter_sum_float'', ''filter_color_mixer_hsv'']),
    (59, [''filter_color_mixer_hsv'']), (60, [''filter_color_mixer_add_rgb'']),
    (61, [''filter_color_mixer_norm_rgb'', ''debug_remote_8bit'']),
    (65, [''debug_remote_8bit'']), (66, [''debug_remote_8bit'']), (67, [''debug_remote_float'']),
    (68, [''debug_remote_pixel'']), (69, [''filter_sequencer'']),
    (70, [''filter_event_counter'']), (71, [''responding_constant_8bit'']),
    (72, [''responding_constant_16bit'']), (73, [''responding_constant_float'']),
    (75, [''filter_color_chaser'']), (74, [''responding_constant_color'']),
    (76, [''filter_switch_8bit'']), (77, [''filter_switch_16bit'']),
    (78, [''filter_switch_float'']), (79, [''filter_switch_color''])]"

definition allocation_table :: "(int \<times> string list) list" where
  "allocation_table = allocation_basic @ allocation_show"

text \<open>The class \<open>construct_filter\<close> instantiates for a type.\<close>

definition construction_basic :: "(int \<times> string) list" where
  "construction_basic = [
    (0, ''constant_8bit''), (1, ''constant_16bit''), (2, ''constant_float''),
    (3, ''constant_color''), (4, ''debug_8bit''), (5, ''debug_16bit''), (6, ''debug_float''),
    (7, ''debug_pixel''), (8, ''filter_16bit_to_dual_byte''), (9, ''filter_16bit_to_bool''),
    (10, ''filter_multiply_add''), (11, ''filter_universe_output''),
    (12, ''filter_float_to_16bit''), (13, ''filter_float_to_8bit''),
    (14, ''filter_round_number''), (15, ''filter_pixel_to_rgb_channels''),
    (16, ''filter_pixel_to_rgbw_channels''), (18, ''filter_floats_to_pixel''),
    (19, ''filter_sine''), (20, ''filter_cosine''), (21, ''filter_tangent''),
    (22, ''filter_arcsine''), (23, ''filter_arccosine''), (24, ''filter_arctangent''),
    (28, ''filter_logarithm''), (29, ''filter_exponential''), (30, ''filter_minimum''),
    (31, ''filter_maximum''), (25, ''filter_square''), (26, ''filter_triangle''),
    (27, ''filter_sawtooth''), (32, ''filter_time''), (33, ''delay_switch_on_8bit''),
    (34, ''delay_switch_on_16bit''), (35, ''delay_switch_on_float''),
    (36, ''delay_switch_off_8bit''), (37, ''delay_switch_off_16bit''),
    (38, ''delay_switch_off_float'')]"

definition construction_show :: "(int \<times> string) list" where
  "construction_show = [
    (39, ''filter_fader_column_raw''),
    (40, ''filter_fader_column_hsi''), (41, ''filter_fader_column_hsia''),
    (42, ''filter_fader_column_hsiu''), (43, ''filter_fader_column_hsiau''),
    (44, ''filter_cue''), (45, ''filter_shift_8bit''), (46, ''filter_shift_16bit''),
    (47, ''filter_shift_float''), (49, ''filter_main_brightness_fader''),
    (48, ''filter_shift_color''), (50, ''filter_lua_script''), (51, ''filter_8bit_to_float''),
    (52, ''filter_16bit_to_float''), (53, ''filter_pixel_to_floats''),
    (54, ''filter_float_map_range_8bit''), (55, ''filter_float_map_range_16bit''),
    (56, ''filter_float_map_range_float''), (57, ''filter_combine_bytes_to_16bit''),
    (58, ''filter_map_8bit_to_16bit''), (59, ''filter_color_mixer_hsv''),
    (60, ''filter_color_mixer_add_rgb''), (61, ''filter_color_mixer_norm_rgb''),
    (62, ''filter_sum_8bit''), (63, ''filter_sum_16bit''), (64, ''filter_sum_float''),
    (65, ''debug_remote_8bit''), (66, ''debug_remote_16bit''), (67, ''debug_remote_float''),
    (68, ''debug_remote_pixel''), (69, ''filter_sequencer''), (70, ''filter_event_counter''),
    (71, ''responding_constant_8bit''), (72, ''responding_constant_16bit''),
    (73, ''responding_constant_float''), (74, ''responding_constant_color''),
    (75, ''filter_color_chaser''), (76, ''filter_switch_8bit''), (77, ''filter_switch_16bit''),
    (78, ''filter_switch_float''), (79, ''filter_switch_color'')]"

definition construction_table :: "(int \<times> string) list" where
  "construction_table = construction_basic @ construction_show"

lemmas filter_type_tables = allocation_table_def allocation_basic_def allocation_show_def
  construction_table_def construction_basic_def construction_show_def

definition ERROR_FILTER_NOT_IMPLEMENTED_IN_ALLOCATION :: string where
  "ERROR_FILTER_NOT_IMPLEMENTED_IN_ALLOCATION = ''E001:''"

definition ERROR_FILTER_NOT_IMPLEMENTED_IN_CONSTRUCTION :: string where
  "ERROR_FILTER_NOT_IMPLEMENTED_IN_CONSTRUCTION = ''E002:''"

definition ERROR_CYCLIC_OR_BROKEN_DEPENDENCY_WHILE_SCHEDULING :: string where
  "ERROR_CYCLIC_OR_BROKEN_DEPENDENCY_WHILE_SCHEDULING = ''E005:''"

definition ERROR_UNKNOWN_REQUESTED_OUTPUT_CHANNEL :: string where
  "ERROR_UNKNOWN_REQUESTED_OUTPUT_CHANNEL = ''E006:''"

subsection \<open>Data\<close>

record filter_template =
  ft_id :: string
  ft_type :: int
  ft_channellink :: "(string \<times> string) list"
  ft_configuration :: "(string \<times> string) list"
  ft_initial_parameters :: "(string \<times> string) list"

record filter_info =
  fi_name :: string
  fi_configuration :: "(string, string) omap"
  fi_initial_parameters :: "(string, string) omap"
  fi_channel_mapping :: "(string \<times> string) list"

record ('f, 'p) filter_methods =
  fm_construct :: "string \<Rightarrow> 'f"
  fm_pre_setup :: "(string, string) omap \<Rightarrow> (string, string) omap \<Rightarrow> string \<Rightarrow> 'f \<Rightarrow> 'f result"
  fm_get_output_channels :: "nat \<Rightarrow> 'f \<Rightarrow> string \<Rightarrow> 'p channel_mapping \<Rightarrow> 'p channel_mapping"
  fm_setup_filter :: "(string, string) omap \<Rightarrow> (string, string) omap \<Rightarrow> 'p channel_mapping \<Rightarrow> string \<Rightarrow> 'f \<Rightarrow> 'f result"

record 'f scheduled =
  fv :: "'f list"
  boundaries :: "nat list"
  filter_info_map :: "(nat, filter_info) omap"
  scene_filter_index :: "(string, nat) omap"
  resolved_filters :: "(string, unit) omap"

subsection \<open>Allocation and construction\<close>

fun get_filter_memory_size :: "(string \<Rightarrow> nat) \<Rightarrow> filter_template list \<Rightarrow> nat \<Rightarrow> nat result" where
  "get_filter_memory_size size_of [] acc = Inr acc"
| "get_filter_memory_size size_of (f # fs) acc = (case map_of allocation_table (ft_type f) of
      None \<Rightarrow> Inl (Scheduling_exception (ERROR_FILTER_NOT_IMPLEMENTED_IN_ALLOCATION @
        ''The requested filter type ('' @ dec_int (ft_type f) @ '') is not yet implemented.''))
    | Some classes \<Rightarrow> get_filter_memory_size size_of fs (acc + sum_list (map size_of classes)))"

definition construct_filter :: "('f, 'p) filter_methods \<Rightarrow> int \<Rightarrow> 'f result" where
  "construct_filter M t = (case map_of construction_table t of
      None \<Rightarrow> Inl (Scheduling_exception (ERROR_FILTER_NOT_IMPLEMENTED_IN_CONSTRUCTION @
        ''Failed to construct filter. The requested filter type ('' @ dec_int t @ '') is not yet implemented.''))
    | Some cls \<Rightarrow> Inr (fm_construct M cls))"

definition convert_configuration :: "(string \<times> string) list \<Rightarrow> (string, string) omap" where
  "convert_configuration xml_conf = fold (\<lambda>(k, v). om_update k v) xml_conf []"

subsection \<open>Scheduling\<close>

text \<open>The filter a link reads from: the part of the channel name before the first colon.\<close>

definition required_filter :: "string \<Rightarrow> string" where
  "required_filter channel = (case substr channel 0 (str_find channel '':'' 0) of Inl _ \<Rightarrow> [] | Inr s \<Rightarrow> s)"

definition all_deps_clear :: "(string, unit) omap \<Rightarrow> filter_template \<Rightarrow> bool" where
  "all_deps_clear resolved t \<longleftrightarrow>
     list_all (\<lambda>(output_channel_id, _). map_of resolved (required_filter output_channel_id) \<noteq> None) (ft_channellink t)"

definition place_filter ::
  "('f, 'p) filter_methods \<Rightarrow> filter_template \<Rightarrow> 'f scheduled \<Rightarrow> 'f scheduled result" where
  "place_filter M t s =
     bind_res (construct_filter M (ft_type t)) (\<lambda>f.
       let filter_index = length (fv s);
           fid = ft_id t;
           conf = convert_configuration (ft_configuration t);
           initial_params = convert_configuration (ft_initial_parameters t);
           fi = \<lparr>fi_name = fid, fi_configuration = conf, fi_initial_parameters = initial_params,
                 fi_channel_mapping = ft_channellink t\<rparr>
       in bind_res (fm_pre_setup M conf initial_params fid f) (\<lambda>f'.
            Inr (s\<lparr>fv := fv s @ [f'],
                   filter_info_map := om_update filter_index fi (filter_info_map s),
                   scene_filter_index := om_update fid filter_index (scene_filter_index s),
                   resolved_filters := om_update fid () (resolved_filters s)\<rparr>)))"

text \<open>
  One round. The bound of the loop is the length of the queue, which shrinks when a filter is
  placed, so a round need not look at every filter that was missing at its start.
\<close>

function schedule_round ::
  "('f, 'p) filter_methods \<Rightarrow> nat \<Rightarrow> bool \<Rightarrow> filter_template list \<Rightarrow> 'f scheduled \<Rightarrow>
   (bool \<times> filter_template list \<times> 'f scheduled) result" where
  "schedule_round M i placed_filter [] s = Inr (placed_filter, [], s)"
| "schedule_round M i placed_filter (t # missing) s =
     (if i < length (t # missing)
      then (if all_deps_clear (resolved_filters s) t
            then bind_res (place_filter M t s) (\<lambda>s'. schedule_round M (Suc i) True missing s')
            else schedule_round M (Suc i) placed_filter (missing @ [t]) s)
      else Inr (placed_filter, t # missing, s))"
  by pat_completeness auto
termination
  by (relation "measure (\<lambda>(M, i, p, missing, s). length missing - i)") auto

lemma schedule_round_length:
  "schedule_round M i p missing s = Inr (p', missing', s') \<Longrightarrow>
   length missing' \<le> length missing \<and> (p' \<longrightarrow> \<not> p \<longrightarrow> length missing' < length missing)"
proof (induction M i p missing s rule: schedule_round.induct)
  case (2 M i p t missing s)
  show ?case
  proof (cases "i < length (t # missing)")
    case inr: True
    show ?thesis
    proof (cases "all_deps_clear (resolved_filters s) t")
      case True
      with 2(3) inr obtain s1 where "schedule_round M (Suc i) True missing s1 = Inr (p', missing', s')"
        by (auto simp: bind_res_Inr_iff)
      then show ?thesis using 2(1) [OF inr True] by fastforce
    next
      case False
      then show ?thesis using 2(2) [OF inr False] 2(3) inr by auto
    qed
  qed (use 2(3) in auto)
qed auto

definition join_with :: "string \<Rightarrow> string list \<Rightarrow> string" where
  "join_with sep l = (case l of [] \<Rightarrow> [] | x # xs \<Rightarrow> x @ concat (map (\<lambda>s. sep @ s) xs))"

definition quote :: string where
  "quote = [char_of (39 :: nat)]"

definition newline :: string where
  "newline = [char_of (10 :: nat)]"

definition tab :: string where
  "tab = [char_of (9 :: nat)]"

definition scheduling_error :: "nat \<Rightarrow> filter_template list \<Rightarrow> 'f scheduled \<Rightarrow> exn" where
  "scheduling_error round missing s = Scheduling_exception (newline @
     ERROR_CYCLIC_OR_BROKEN_DEPENDENCY_WHILE_SCHEDULING @
     ''There were no filters with resolved dependencies within this round ('' @ dec round @
     '').'' @ newline @ ''Possible causes: broken or cyclic dependencies.'' @ newline @
     ''Already scheduled filters: '' @ join_with '', '' (map fst (resolved_filters s)) @ newline @
     ''Still missing filters: '' @ join_with '', '' (map ft_id missing) @
     concat (map (\<lambda>f. newline @ ft_id f @ '':'' @ newline @
       concat (map (\<lambda>(dep, _). tab @ dep @ newline)
         (filter (\<lambda>(dep, _). map_of (resolved_filters s) (required_filter dep) = None) (ft_channellink f)))) missing))"

function schedule_loop ::
  "('f, 'p) filter_methods \<Rightarrow> nat \<Rightarrow> filter_template list \<Rightarrow> 'f scheduled \<Rightarrow> 'f scheduled result" where
  "schedule_loop M round missing s =
     (if missing = [] then Inr s
      else case schedule_round M 0 False missing s of
          Inl e \<Rightarrow> Inl e
        | Inr (placed_filter, missing', s') \<Rightarrow>
            if \<not> placed_filter then Inl (scheduling_error round missing' s')
            else schedule_loop M (Suc round) missing' (s'\<lparr>boundaries := boundaries s' @ [length (fv s')]\<rparr>))"
  by pat_completeness auto
termination
  by (relation "measure (\<lambda>(M, r, missing, s). length missing)") (auto dest: schedule_round_length)

declare schedule_loop.simps [simp del]

definition nothing_scheduled :: "'f scheduled" where
  "nothing_scheduled = \<lparr>fv = [], boundaries = [], filter_info_map = [], scene_filter_index = [], resolved_filters = []\<rparr>"

definition schedule_filters :: "('f, 'p) filter_methods \<Rightarrow> filter_template list \<Rightarrow> 'f scheduled result" where
  "schedule_filters M fs = schedule_loop M 0 fs nothing_scheduled"

subsection \<open>Connecting\<close>

definition link_channel ::
  "'p channel_mapping \<Rightarrow> filter_info \<Rightarrow> string \<times> string \<Rightarrow> 'p channel_mapping \<Rightarrow> 'p channel_mapping result" where
  "link_channel global_cm fi entry cm =
     (let (out, inp) = entry;
          put = (\<lambda>from into. case map_of from out of None \<Rightarrow> into | Some a \<Rightarrow> om_update inp a into);
          cm' = cm\<lparr>
            eight_bit_channels := put (eight_bit_channels global_cm) (eight_bit_channels cm),
            sixteen_bit_channels := put (sixteen_bit_channels global_cm) (sixteen_bit_channels cm),
            float_channels := put (float_channels global_cm) (float_channels cm),
            color_channels := put (color_channels global_cm) (color_channels cm)\<rparr>;
          found = (map_of (eight_bit_channels global_cm) out \<noteq> None \<or> map_of (sixteen_bit_channels global_cm) out \<noteq> None
            \<or> map_of (float_channels global_cm) out \<noteq> None \<or> map_of (color_channels global_cm) out \<noteq> None)
      in if \<not> found then Inl (Scheduling_exception (ERROR_UNKNOWN_REQUESTED_OUTPUT_CHANNEL @ ''The filter '' @ quote @
             fi_name fi @ quote @ '' requested the output channel '' @ quote @ out @ quote @
             '' to populate its input channel '' @ quote @ inp @ quote @
             '' but the corresponding output channel was'' @ ''n'' @ quote @ ''t found.''))
         else Inr cm')"

definition construct_channel_input_mapping ::
  "'p channel_mapping \<Rightarrow> filter_info \<Rightarrow> 'p channel_mapping result" where
  "construct_channel_input_mapping global_cm fi =
     fold_res (link_channel global_cm fi) (fi_channel_mapping fi) empty_mapping"

definition connect_filter ::
  "('f, 'p) filter_methods \<Rightarrow> (nat, filter_info) omap \<Rightarrow> nat \<Rightarrow> 'f list \<times> 'p channel_mapping \<Rightarrow>
   ('f list \<times> 'p channel_mapping) result" where
  "connect_filter M infos i st =
     (let (fs, cm) = st;
          finfo = (case map_of infos i of Some fi \<Rightarrow> fi
            | None \<Rightarrow> \<lparr>fi_name = [], fi_configuration = [], fi_initial_parameters = [], fi_channel_mapping = []\<rparr>);
          cm' = fm_get_output_channels M i (fs ! i) (fi_name finfo) cm
      in bind_res (construct_channel_input_mapping cm' finfo) (\<lambda>input_channels.
           bind_res (fm_setup_filter M (fi_configuration finfo) (fi_initial_parameters finfo) input_channels
               (fi_name finfo) (fs ! i)) (\<lambda>f'. Inr (fs[i := f'], cm'))))"

definition connect_filters ::
  "('f, 'p) filter_methods \<Rightarrow> (nat, filter_info) omap \<Rightarrow> 'f list \<Rightarrow> 'f list result" where
  "connect_filters M infos fs =
     bind_res (fold_res (connect_filter M infos) [0..<length fs] (fs, empty_mapping)) (\<lambda>(fs', _). Inr fs')"

definition compute_filter ::
  "(string \<Rightarrow> nat) \<Rightarrow> ('f, 'p) filter_methods \<Rightarrow> filter_template list \<Rightarrow>
   ('f list \<times> nat list \<times> (string, nat) omap) result" where
  "compute_filter size_of M fs =
     bind_res (get_filter_memory_size size_of fs 0) (\<lambda>_.
     bind_res (schedule_filters M fs) (\<lambda>s.
     bind_res (connect_filters M (filter_info_map s) (fv s)) (\<lambda>filters.
       Inr (filters, boundaries s, scene_filter_index s))))"

subsection \<open>Supported types\<close>

lemma tables_same_types: "set (map fst allocation_table) = set (map fst construction_table)"
proof -
  have "list_all (\<lambda>t. t \<in> set (map fst construction_table)) (map fst allocation_table)"
    by (simp add: filter_type_tables)
  moreover have "list_all (\<lambda>t. t \<in> set (map fst allocation_table)) (map fst construction_table)"
    by (simp add: filter_type_tables)
  ultimately show ?thesis by (auto simp only: list_all_iff)
qed

text \<open>
  Allocation and construction support the same filter types: a scene whose memory is computed
  never fails with E002, and the E001 check is not stricter than the construction.
\<close>

theorem allocation_iff_construction:
  "(\<exists>n. get_filter_memory_size size_of fs 0 = Inr n) \<longleftrightarrow>
   list_all (\<lambda>f. \<exists>obj. construct_filter M (ft_type f) = Inr obj) fs"
proof -
  have same: "map_of allocation_table t = None \<longleftrightarrow> map_of construction_table t = None" for t
    using tables_same_types by (simp add: map_of_eq_None_iff)
  have "(\<exists>n. get_filter_memory_size size_of fs a = Inr n) \<longleftrightarrow>
      list_all (\<lambda>f. map_of allocation_table (ft_type f) \<noteq> None) fs" for a
    by (induction fs arbitrary: a) (auto split: option.splits)
  moreover have "(\<exists>obj. construct_filter M t = Inr obj) \<longleftrightarrow> map_of construction_table t \<noteq> None" for t
    by (auto simp: construct_filter_def split: option.splits)
  ultimately show ?thesis by (simp add: same list_all_iff)
qed

subsection \<open>The order of the filters\<close>

definition make_filter :: "('f, 'p) filter_methods \<Rightarrow> filter_template \<Rightarrow> 'f result" where
  "make_filter M t = bind_res (construct_filter M (ft_type t)) (fm_pre_setup M
     (convert_configuration (ft_configuration t)) (convert_configuration (ft_initial_parameters t)) (ft_id t))"

definition info_of :: "filter_template \<Rightarrow> filter_info" where
  "info_of t = \<lparr>fi_name = ft_id t, fi_configuration = convert_configuration (ft_configuration t),
     fi_initial_parameters = convert_configuration (ft_initial_parameters t), fi_channel_mapping = ft_channellink t\<rparr>"

definition needs :: "filter_template \<Rightarrow> string set" where
  "needs t = (\<lambda>(out, _). required_filter out) ` set (ft_channellink t)"

fun valid_order :: "string set \<Rightarrow> filter_template list \<Rightarrow> bool" where
  "valid_order known [] \<longleftrightarrow> True"
| "valid_order known (t # ts) \<longleftrightarrow> needs t \<subseteq> known \<and> valid_order (insert (ft_id t) known) ts"

lemma valid_order_append:
  "valid_order known (p @ q) \<longleftrightarrow> valid_order known p \<and> valid_order (known \<union> ft_id ` set p) q"
  by (induction p arbitrary: known) auto

lemma valid_order_nth:
  "valid_order {} p \<longleftrightarrow> (\<forall>i < length p. needs (p ! i) \<subseteq> ft_id ` set (take i p))"
proof (induction p rule: rev_induct)
  case (snoc t p)
  then show ?case by (auto simp: valid_order_append nth_append less_Suc_eq)
qed simp

definition placed :: "('f, 'p) filter_methods \<Rightarrow> filter_template list \<Rightarrow> 'f scheduled \<Rightarrow> bool" where
  "placed M p s \<longleftrightarrow> map (make_filter M) p = map Inr (fv s) \<and> valid_order {} p
     \<and> om_ok (filter_info_map s) \<and> om_ok (scene_filter_index s) \<and> om_ok (resolved_filters s)
     \<and> (\<forall>i. map_of (filter_info_map s) i = (if i < length p then Some (info_of (p ! i)) else None))
     \<and> (\<forall>x. map_of (resolved_filters s) x \<noteq> None \<longleftrightarrow> x \<in> ft_id ` set p)
     \<and> (\<forall>x. case map_of (scene_filter_index s) x of None \<Rightarrow> x \<notin> ft_id ` set p
          | Some i \<Rightarrow> i < length p \<and> ft_id (p ! i) = x)"

lemma placed_length: "placed M p s \<Longrightarrow> length (fv s) = length p"
  by (metis placed_def length_map)

lemma all_deps_clear_iff: "placed M p s \<Longrightarrow> all_deps_clear (resolved_filters s) t \<longleftrightarrow> needs t \<subseteq> ft_id ` set p"
  by (auto simp: all_deps_clear_def list_all_iff needs_def placed_def)

lemma place_filter_eq:
  "place_filter M t s = bind_res (make_filter M t) (\<lambda>f'. Inr (s\<lparr>fv := fv s @ [f'],
     filter_info_map := om_update (length (fv s)) (info_of t) (filter_info_map s),
     scene_filter_index := om_update (ft_id t) (length (fv s)) (scene_filter_index s),
     resolved_filters := om_update (ft_id t) () (resolved_filters s)\<rparr>))"
  by (cases "construct_filter M (ft_type t)") (simp_all add: place_filter_def make_filter_def info_of_def Let_def)

lemma place_filter_placed:
  assumes pl: "placed M p s" and clear: "all_deps_clear (resolved_filters s) t" and res: "place_filter M t s = Inr s'"
  shows "placed M (p @ [t]) s' \<and> boundaries s' = boundaries s"
proof -
  obtain f where f: "make_filter M t = Inr f" and s': "s' = s\<lparr>fv := fv s @ [f],
     filter_info_map := om_update (length (fv s)) (info_of t) (filter_info_map s),
     scene_filter_index := om_update (ft_id t) (length (fv s)) (scene_filter_index s),
     resolved_filters := om_update (ft_id t) () (resolved_filters s)\<rparr>"
    using res by (auto simp: place_filter_eq bind_res_Inr_iff)
  have oks: "om_ok (filter_info_map s)" "om_ok (scene_filter_index s)" "om_ok (resolved_filters s)"
    using pl by (simp_all add: placed_def)
  have vo: "valid_order {} (p @ [t])"
    using pl clear all_deps_clear_iff [OF pl] by (simp add: valid_order_append placed_def)
  have idx: "case map_of (scene_filter_index s') x of None \<Rightarrow> x \<notin> ft_id ` set (p @ [t])
          | Some i \<Rightarrow> i < length (p @ [t]) \<and> ft_id ((p @ [t]) ! i) = x" for x
  proof (cases "x = ft_id t")
    case False
    moreover have "case map_of (scene_filter_index s) x of None \<Rightarrow> x \<notin> ft_id ` set p
          | Some i \<Rightarrow> i < length p \<and> ft_id (p ! i) = x"
      using pl by (simp add: placed_def)
    ultimately show ?thesis using oks
      by (auto simp: s' map_of_om_update nth_append split: option.splits)
  qed (use oks placed_length [OF pl] in \<open>simp add: s' map_of_om_update\<close>)
  have info: "map_of (filter_info_map s') i = (if i < length (p @ [t]) then Some (info_of ((p @ [t]) ! i)) else None)" for i
    using pl oks placed_length [OF pl] by (auto simp: s' placed_def map_of_om_update nth_append less_Suc_eq)
  have reso: "map_of (resolved_filters s') x \<noteq> None \<longleftrightarrow> x \<in> ft_id ` set (p @ [t])" for x
    using pl oks by (auto simp: s' placed_def map_of_om_update)
  have "map (make_filter M) (p @ [t]) = map Inr (fv s')" using pl f by (simp add: s' placed_def)
  then show ?thesis
    unfolding placed_def [of M "p @ [t]"]
    using vo info reso idx oks by (simp add: s' om_ok_update)
qed

lemma schedule_round_placed:
  "placed M p s \<Longrightarrow> schedule_round M i b missing s = Inr (b', missing', s') \<Longrightarrow>
   \<exists>q. placed M (p @ q) s' \<and> mset missing = mset q + mset missing' \<and> boundaries s' = boundaries s
     \<and> (b' \<longleftrightarrow> b \<or> q \<noteq> [])"
proof (induction M i b missing s arbitrary: p rule: schedule_round.induct)
  case (2 M i b t missing s)
  show ?case
  proof (cases "i < length (t # missing)")
    case inr: True
    show ?thesis
    proof (cases "all_deps_clear (resolved_filters s) t")
      case True
      then obtain s1 where s1: "place_filter M t s = Inr s1"
        and r: "schedule_round M (Suc i) True missing s1 = Inr (b', missing', s')"
        using 2(4) inr by (auto simp: bind_res_Inr_iff)
      note pf = place_filter_placed [OF 2(3) True s1]
      obtain q where q: "placed M ((p @ [t]) @ q) s'" "mset missing = mset q + mset missing'"
          "boundaries s' = boundaries s1" "b'"
        using 2(1) [OF inr True conjunct1 [OF pf] r] pf by auto
      show ?thesis
        by (rule exI [of _ "t # q"]) (use q pf in simp)
    next
      case False
      then have r: "schedule_round M (Suc i) b (missing @ [t]) s = Inr (b', missing', s')"
        using 2(4) inr by simp
      show ?thesis using 2(2) [OF inr False 2(3) r] by simp
    qed
  next
    case False
    then show ?thesis using 2(3,4) by (auto intro!: exI [of _ "[]"])
  qed
next
  case (1 M i b s)
  then show ?case by (auto intro!: exI [of _ "[]"])
qed

lemma schedule_round_True: "schedule_round M i True missing s \<noteq> Inr (False, missing', s')"
proof (induction M i True missing s rule: schedule_round.induct)
  case (2 M i t missing s)
  show ?case
    using 2 by (cases "i < length (t # missing)"; cases "all_deps_clear (resolved_filters s) t")
      (auto simp: bind_res_Inr_iff)
qed simp

lemma schedule_round_stuck:
  "schedule_round M i b missing s = Inr (False, missing', s') \<Longrightarrow> i \<le> length missing \<Longrightarrow>
   s' = s \<and> (\<forall>t \<in> set (take (length missing - i) missing). \<not> all_deps_clear (resolved_filters s) t)"
proof (induction M i b missing s rule: schedule_round.induct)
  case (2 M i b t missing s)
  show ?case
  proof (cases "i < length (t # missing)")
    case inr: True
    show ?thesis
    proof (cases "all_deps_clear (resolved_filters s) t")
      case True
      then obtain s1 where r: "schedule_round M (Suc i) True missing s1 = Inr (False, missing', s')"
        using 2(3) inr by (auto simp: bind_res_Inr_iff)
      then have False using schedule_round_True by blast
      then show ?thesis ..
    next
      case False
      then have r: "schedule_round M (Suc i) b (missing @ [t]) s = Inr (False, missing', s')"
        using 2(3) inr by simp
      have "s' = s \<and> (\<forall>t \<in> set (take (length (missing @ [t]) - Suc i) (missing @ [t])). \<not> all_deps_clear (resolved_filters s) t)"
        using 2(2) [OF inr False r] inr by simp
      then show ?thesis using False inr by (auto simp: take_Cons' split: if_splits)
    qed
  qed (use 2(3,4) in auto)
qed auto

lemma some_clear:
  assumes w: "mset w = mset p + mset missing" and vo: "valid_order {} w" and ne: "missing \<noteq> []"
  shows "\<exists>t \<in> set missing. needs t \<subseteq> ft_id ` set p"
proof -
  have set: "set w = set p \<union> set missing" using w by (metis set_mset_mset set_mset_union)
  define i where "i = length (takeWhile (\<lambda>t. t \<notin> set missing) w)"
  have "\<exists>t \<in> set w. t \<in> set missing" using set ne by (cases missing) auto
  then have "takeWhile (\<lambda>t. t \<notin> set missing) w \<noteq> w" by (simp add: takeWhile_eq_all_conv)
  moreover have tk: "takeWhile (\<lambda>t. t \<notin> set missing) w = take i w"
    unfolding i_def by (rule takeWhile_eq_take)
  ultimately have lt: "i < length w" by (metis not_less take_all)
  have i: "i < length w" "w ! i \<in> set missing"
    using lt nth_length_takeWhile [of "\<lambda>t. t \<notin> set missing" w] by (simp_all add: i_def)
  have "set (take i w) \<subseteq> set p"
  proof
    fix t assume t: "t \<in> set (take i w)"
    then have "t \<in> set w" by (rule in_set_takeD)
    moreover have "t \<notin> set missing" using t set_takeWhileD [of t "\<lambda>t. t \<notin> set missing" w] unfolding tk by simp
    ultimately show "t \<in> set p" using set by blast
  qed
  then have "ft_id ` set (take i w) \<subseteq> ft_id ` set p" by auto
  moreover have "needs (w ! i) \<subseteq> ft_id ` set (take i w)" using vo i by (simp add: valid_order_nth)
  ultimately show ?thesis using i by blast
qed

definition rounds_ok :: "filter_template list \<Rightarrow> 'f scheduled \<Rightarrow> bool" where
  "rounds_ok p s \<longleftrightarrow> sorted_wrt (<) (boundaries s) \<and> (\<forall>b \<in> set (boundaries s). b \<le> length p)
     \<and> (p = [] \<or> (boundaries s \<noteq> [] \<and> last (boundaries s) = length p))"

lemma placed_boundaries: "placed M p (s\<lparr>boundaries := b\<rparr>) = placed M p s"
  by (simp add: placed_def)

lemma schedule_loop_sound:
  "placed M p s \<Longrightarrow> rounds_ok p s \<Longrightarrow> schedule_loop M round missing s = Inr s' \<Longrightarrow>
   \<exists>q. mset q = mset missing \<and> placed M (p @ q) s' \<and> rounds_ok (p @ q) s'"
proof (induction M round missing s arbitrary: p rule: schedule_loop.induct)
  case (1 M round missing s)
  show ?case
  proof (cases "missing = []")
    case True
    then show ?thesis using 1(2,3,4) by (auto simp: schedule_loop.simps)
  next
    case False
    then obtain b missing1 s1 where r: "schedule_round M 0 False missing s = Inr (b, missing1, s1)" and b: "b"
      and loop: "schedule_loop M (Suc round) missing1 (s1\<lparr>boundaries := boundaries s1 @ [length (fv s1)]\<rparr>) = Inr s'"
      using 1(4) by (subst (asm) schedule_loop.simps) (auto split: sum.splits prod.splits if_splits)
    obtain q where q: "placed M (p @ q) s1" "mset missing = mset q + mset missing1" "boundaries s1 = boundaries s" "q \<noteq> []"
      using schedule_round_placed [OF 1(2) r] b by auto
    let ?s = "s1\<lparr>boundaries := boundaries s1 @ [length (fv s1)]\<rparr>"
    have pl: "placed M (p @ q) ?s" using q(1) by (simp add: placed_boundaries)
    have "length p < length (p @ q)" using q(4) by simp
    then have "\<forall>b \<in> set (boundaries s). b < length (p @ q)"
      using 1(3) unfolding rounds_ok_def by (meson le_less_trans)
    then have "rounds_ok (p @ q) ?s"
      using 1(3) q(3) placed_length [OF q(1)] by (simp add: rounds_ok_def sorted_wrt_append less_imp_le)
    then obtain q' where "mset q' = mset missing1" "placed M ((p @ q) @ q') s'" "rounds_ok ((p @ q) @ q') s'"
      using 1(1) [OF False r refl refl _ pl _ loop] b by auto
    then show ?thesis using q(2) by (intro exI [of _ "q @ q'"]) simp
  qed
qed

lemma schedule_round_subset:
  "schedule_round M i b missing s = Inr (b', missing', s') \<Longrightarrow> set missing' \<subseteq> set missing"
proof (induction M i b missing s rule: schedule_round.induct)
  case (2 M i b t missing s)
  show ?case
  proof (cases "i < length (t # missing)")
    case inr: True
    show ?thesis
    proof (cases "all_deps_clear (resolved_filters s) t")
      case True
      then obtain s1 where "schedule_round M (Suc i) True missing s1 = Inr (b', missing', s')"
        using 2(3) inr by (auto simp: bind_res_Inr_iff)
      then show ?thesis using 2(1) [OF inr True] by fastforce
    next
      case False
      then show ?thesis using 2(2) [OF inr False] 2(3) inr by auto
    qed
  qed (use 2(3) in auto)
qed auto

lemma schedule_round_returns:
  "\<forall>t \<in> set missing. \<exists>f. make_filter M t = Inr f \<Longrightarrow> \<exists>r. schedule_round M i b missing s = Inr r"
proof (induction M i b missing s rule: schedule_round.induct)
  case (2 M i b t missing s)
  obtain f where "make_filter M t = Inr f" using 2(3) by auto
  then obtain s1 where "place_filter M t s = Inr s1" by (auto simp: place_filter_eq)
  then show ?case using 2 by (cases "i < length (t # missing)"; cases "all_deps_clear (resolved_filters s) t") auto
qed simp

lemma schedule_loop_complete:
  "placed M p s \<Longrightarrow> \<forall>t \<in> set missing. \<exists>f. make_filter M t = Inr f \<Longrightarrow> mset w = mset p + mset missing \<Longrightarrow>
   valid_order {} w \<Longrightarrow> \<exists>s'. schedule_loop M round missing s = Inr s'"
proof (induction M round missing s arbitrary: p rule: schedule_loop.induct)
  case (1 M round missing s)
  show ?case
  proof (cases "missing = []")
    case True
    then show ?thesis by (simp add: schedule_loop.simps)
  next
    case False
    obtain b missing1 s1 where r: "schedule_round M 0 False missing s = Inr (b, missing1, s1)"
      using schedule_round_returns [OF 1(3)] by (metis prod_cases3)
    have b: b
    proof (rule ccontr)
      assume "\<not> b"
      then have "\<forall>t \<in> set missing. \<not> all_deps_clear (resolved_filters s) t"
        using schedule_round_stuck [of M 0 False missing s missing1 s1] r by simp
      then show False using some_clear [OF 1(4,5) False] all_deps_clear_iff [OF 1(2)] by blast
    qed
    obtain q where q: "placed M (p @ q) s1" "mset missing = mset q + mset missing1"
      using schedule_round_placed [OF 1(2) r] by auto
    let ?s = "s1\<lparr>boundaries := boundaries s1 @ [length (fv s1)]\<rparr>"
    have "placed M (p @ q) ?s" using q(1) by (simp add: placed_boundaries)
    moreover have "\<forall>t \<in> set missing1. \<exists>f. make_filter M t = Inr f"
      using 1(3) q(2) by (metis UnCI set_mset_mset set_mset_union)
    moreover have "mset w = mset (p @ q) + mset missing1" using 1(4) q(2) by simp
    ultimately obtain s' where "schedule_loop M (Suc round) missing1 ?s = Inr s'"
      using 1(1) [OF False r refl refl _ _ _ _ 1(5)] b by blast
    then show ?thesis using False r b by (simp add: schedule_loop.simps [of M round missing s])
  qed
qed

lemma schedule_loop_error:
  "\<forall>t \<in> set missing. \<exists>f. make_filter M t = Inr f \<Longrightarrow> schedule_loop M round missing s = Inl e \<Longrightarrow>
   \<exists>msg. e = Scheduling_exception (newline @ ERROR_CYCLIC_OR_BROKEN_DEPENDENCY_WHILE_SCHEDULING @ msg)"
proof (induction M round missing s rule: schedule_loop.induct)
  case (1 M round missing s)
  have ne: "missing \<noteq> []" using 1(3) by (auto simp: schedule_loop.simps)
  obtain b missing1 s1 where r: "schedule_round M 0 False missing s = Inr (b, missing1, s1)"
    using schedule_round_returns [OF 1(2)] by (metis prod_cases3)
  show ?case
  proof (cases b)
    case True
    have "set missing1 \<subseteq> set missing" using schedule_round_subset [OF r] .
    then show ?thesis
      using 1(1) [OF ne r refl refl] 1(2,3) True ne r by (subst (asm) schedule_loop.simps [of M round missing s]) auto
  next
    case False
    then show ?thesis using 1(3) ne r
      by (subst (asm) schedule_loop.simps [of M round missing s]) (auto simp: scheduling_error_def)
  qed
qed

lemma nothing_placed: "placed M [] nothing_scheduled \<and> rounds_ok [] nothing_scheduled"
  by (simp add: placed_def nothing_scheduled_def rounds_ok_def)

lemma schedule_filters_sound_order:
  assumes "schedule_filters M fs = Inr s"
  shows "\<exists>p. mset p = mset fs \<and> valid_order {} p"
proof -
  obtain q where "mset q = mset fs" "placed M q s"
    using schedule_loop_sound [of M "[]" nothing_scheduled 0 fs s] nothing_placed assms
    by (auto simp: schedule_filters_def)
  then show ?thesis by (auto simp: placed_def)
qed

text \<open>
  C2. A schedule is correct: when \<open>schedule_filters\<close> succeeds, the filters are the templates of
  the scene in an order in which every filter comes after all filters it reads from, each
  constructed and set up from its own template; the information of each filter is stored under
  its position and the index finds a filter with the right id; the round boundaries increase and
  end at the number of filters.
\<close>

theorem schedule_filters_sound:
  assumes "schedule_filters M fs = Inr s"
  shows "\<exists>p. mset p = mset fs \<and> map (make_filter M) p = map Inr (fv s)
    \<and> (\<forall>i < length p. needs (p ! i) \<subseteq> ft_id ` set (take i p))
    \<and> (\<forall>i. map_of (filter_info_map s) i = (if i < length p then Some (info_of (p ! i)) else None))
    \<and> (\<forall>x. case map_of (scene_filter_index s) x of None \<Rightarrow> x \<notin> ft_id ` set p
          | Some i \<Rightarrow> i < length p \<and> ft_id (p ! i) = x)
    \<and> sorted_wrt (<) (boundaries s) \<and> (p = [] \<or> last (boundaries s) = length p)"
proof -
  obtain q where "mset q = mset fs" "placed M q s" "rounds_ok q s"
    using schedule_loop_sound [of M "[]" nothing_scheduled 0 fs s] nothing_placed assms
    by (auto simp: schedule_filters_def)
  then show ?thesis
    by (intro exI [of _ q]) (auto simp: placed_def rounds_ok_def valid_order_nth)
qed

text \<open>
  C3. Scheduling is complete: if every filter can be constructed and set up, then the scene is
  scheduled exactly when some order of its filters respects the dependencies, and otherwise the
  error is E005. In particular the loop always ends.
\<close>

theorem schedule_filters_complete:
  assumes "list_all (\<lambda>t. \<exists>f. make_filter M t = Inr f) fs"
  shows "case schedule_filters M fs of
      Inr s \<Rightarrow> \<exists>p. mset p = mset fs \<and> valid_order {} p
    | Inl e \<Rightarrow> (\<nexists>p. mset p = mset fs \<and> valid_order {} p)
        \<and> (\<exists>msg. e = Scheduling_exception (newline @ ERROR_CYCLIC_OR_BROKEN_DEPENDENCY_WHILE_SCHEDULING @ msg))"
proof (cases "schedule_filters M fs")
  case (Inr s)
  then show ?thesis using schedule_filters_sound_order [OF Inr] by simp
next
  case (Inl e)
  have all: "\<forall>t \<in> set fs. \<exists>f. make_filter M t = Inr f" using assms by (simp add: list_all_iff)
  have "\<not> (mset p = mset fs \<and> valid_order {} p)" for p
    using schedule_loop_complete [of M "[]" nothing_scheduled fs p 0] nothing_placed all Inl
    by (auto simp: schedule_filters_def)
  moreover have "\<exists>msg. e = Scheduling_exception (newline @ ERROR_CYCLIC_OR_BROKEN_DEPENDENCY_WHILE_SCHEDULING @ msg)"
    using schedule_loop_error [OF all] Inl by (simp add: schedule_filters_def)
  ultimately show ?thesis using Inl by auto
qed

subsection \<open>Memory\<close>

definition class_size :: "(string \<Rightarrow> nat) \<Rightarrow> int \<Rightarrow> nat" where
  "class_size size_of t = (case map_of construction_table t of None \<Rightarrow> 0 | Some cls \<Rightarrow> size_of cls)"

lemma tables_agree:
  "list_all (\<lambda>(t, classes). t = 66 \<or> (case map_of construction_table t of None \<Rightarrow> False | Some cls \<Rightarrow> cls \<in> set classes))
     allocation_table"
  by code_simp

lemma class_size_allocated:
  assumes "map_of allocation_table t = Some classes" and "size_of ''debug_remote_16bit'' \<le> size_of ''debug_remote_8bit''"
  shows "class_size size_of t \<le> sum_list (map size_of classes)"
proof (cases "t = 66")
  case True
  then have "classes = [''debug_remote_8bit'']" "map_of construction_table t = Some ''debug_remote_16bit''"
    using assms(1) by (simp_all add: filter_type_tables)
  then show ?thesis using assms(2) by (simp add: class_size_def)
next
  case False
  have "(t, classes) \<in> set allocation_table" using assms(1) by (rule map_of_SomeD)
  then obtain cls where "map_of construction_table t = Some cls" "cls \<in> set classes"
    using tables_agree False by (fastforce simp: list_all_iff split: option.splits)
  then show ?thesis by (simp add: class_size_def member_le_sum_list)
qed

text \<open>
  C33. The memory computed for a scene holds all its filters, provided that a 16-bit remote debug
  filter is no larger than an 8-bit one (its case adds the size of the 8-bit class); missing
  \<open>break\<close>s only reserve more than necessary.
\<close>

theorem filter_memory_sufficient:
  assumes "size_of ''debug_remote_16bit'' \<le> size_of ''debug_remote_8bit''"
    and "get_filter_memory_size size_of fs 0 = Inr n"
  shows "sum_list (map (\<lambda>f. class_size size_of (ft_type f)) fs) \<le> n"
proof -
  have "get_filter_memory_size size_of fs a = Inr n \<Longrightarrow>
      a + sum_list (map (\<lambda>f. class_size size_of (ft_type f)) fs) \<le> n" for a
  proof (induction fs arbitrary: a)
    case (Cons f fs)
    then obtain classes where c: "map_of allocation_table (ft_type f) = Some classes"
      and r: "get_filter_memory_size size_of fs (a + sum_list (map size_of classes)) = Inr n"
      by (auto split: option.splits)
    show ?case using Cons.IH [OF r] class_size_allocated [where size_of = size_of, OF c assms(1)] by simp
  qed simp
  from this [OF assms(2)] show ?thesis by simp
qed

subsection \<open>Channels\<close>

definition mapping_ok :: "'p channel_mapping \<Rightarrow> bool" where
  "mapping_ok cm \<longleftrightarrow> om_ok (eight_bit_channels cm) \<and> om_ok (sixteen_bit_channels cm)
     \<and> om_ok (float_channels cm) \<and> om_ok (color_channels cm)"

definition provided :: "'p channel_mapping \<Rightarrow> string \<Rightarrow> bool" where
  "provided g out \<longleftrightarrow> map_of (eight_bit_channels g) out \<noteq> None \<or> map_of (sixteen_bit_channels g) out \<noteq> None
     \<or> map_of (float_channels g) out \<noteq> None \<or> map_of (color_channels g) out \<noteq> None"

definition linked_as :: "'p channel_mapping \<Rightarrow> 'p channel_mapping \<Rightarrow> string \<Rightarrow> string \<Rightarrow> bool" where
  "linked_as g cm out inp \<longleftrightarrow> map_of (eight_bit_channels cm) inp = map_of (eight_bit_channels g) out
     \<and> map_of (sixteen_bit_channels cm) inp = map_of (sixteen_bit_channels g) out
     \<and> map_of (float_channels cm) inp = map_of (float_channels g) out
     \<and> map_of (color_channels cm) inp = map_of (color_channels g) out"

definition unused :: "'p channel_mapping \<Rightarrow> string \<Rightarrow> bool" where
  "unused cm inp \<longleftrightarrow> map_of (eight_bit_channels cm) inp = None \<and> map_of (sixteen_bit_channels cm) inp = None
     \<and> map_of (float_channels cm) inp = None \<and> map_of (color_channels cm) inp = None"

lemma link_channel_provided:
  "provided g out \<Longrightarrow> link_channel g fi (out, inp) cm = Inr \<lparr>
      eight_bit_channels = (case map_of (eight_bit_channels g) out of None \<Rightarrow> eight_bit_channels cm | Some a \<Rightarrow> om_update inp a (eight_bit_channels cm)),
      sixteen_bit_channels = (case map_of (sixteen_bit_channels g) out of None \<Rightarrow> sixteen_bit_channels cm | Some a \<Rightarrow> om_update inp a (sixteen_bit_channels cm)),
      float_channels = (case map_of (float_channels g) out of None \<Rightarrow> float_channels cm | Some a \<Rightarrow> om_update inp a (float_channels cm)),
      color_channels = (case map_of (color_channels g) out of None \<Rightarrow> color_channels cm | Some a \<Rightarrow> om_update inp a (color_channels cm))\<rparr>"
  by (auto simp: link_channel_def Let_def provided_def)

lemma put_channel:
  "om_ok m \<Longrightarrow> om_ok (case x of None \<Rightarrow> m | Some a \<Rightarrow> om_update inp a m)"
  "om_ok m \<Longrightarrow> map_of (case x of None \<Rightarrow> m | Some a \<Rightarrow> om_update inp a m) inp' =
     (if inp' = inp \<and> x \<noteq> None then x else map_of m inp')"
  by (auto simp: om_ok_update map_of_om_update split: option.splits)

lemma link_channel_step:
  assumes "mapping_ok cm" and "provided g out"
  shows "\<exists>cm'. link_channel g fi (out, inp) cm = Inr cm' \<and> mapping_ok cm'
    \<and> (unused cm inp \<longrightarrow> linked_as g cm' out inp)
    \<and> (\<forall>inp' out'. inp' \<noteq> inp \<longrightarrow> unused cm' inp' = unused cm inp' \<and> linked_as g cm' out' inp' = linked_as g cm out' inp')"
proof -
  obtain cm' where cm': "link_channel g fi (out, inp) cm = Inr cm'"
    and e: "cm' = \<lparr>
      eight_bit_channels = (case map_of (eight_bit_channels g) out of None \<Rightarrow> eight_bit_channels cm | Some a \<Rightarrow> om_update inp a (eight_bit_channels cm)),
      sixteen_bit_channels = (case map_of (sixteen_bit_channels g) out of None \<Rightarrow> sixteen_bit_channels cm | Some a \<Rightarrow> om_update inp a (sixteen_bit_channels cm)),
      float_channels = (case map_of (float_channels g) out of None \<Rightarrow> float_channels cm | Some a \<Rightarrow> om_update inp a (float_channels cm)),
      color_channels = (case map_of (color_channels g) out of None \<Rightarrow> color_channels cm | Some a \<Rightarrow> om_update inp a (color_channels cm))\<rparr>"
    using link_channel_provided [OF assms(2)] by blast
  have "mapping_ok cm'" using assms(1) by (simp add: e mapping_ok_def put_channel(1))
  moreover have "unused cm inp \<longrightarrow> linked_as g cm' out inp"
    using assms(1) by (simp add: e linked_as_def unused_def mapping_ok_def put_channel(2))
  moreover have "unused cm' inp' = unused cm inp' \<and> linked_as g cm' out' inp' = linked_as g cm out' inp'" if "inp' \<noteq> inp" for inp' out'
    using assms(1) that by (simp add: e linked_as_def unused_def mapping_ok_def put_channel(2))
  ultimately show ?thesis using cm' by blast
qed

lemma link_channels:
  "mapping_ok cm \<Longrightarrow> \<forall>(out, inp) \<in> set links. provided g out \<and> unused cm inp \<Longrightarrow> distinct (map snd links) \<Longrightarrow>
   \<exists>cm'. fold_res (link_channel g fi) links cm = Inr cm' \<and> (\<forall>(out, inp) \<in> set links. linked_as g cm' out inp)
     \<and> (\<forall>inp out. inp \<notin> snd ` set links \<longrightarrow> linked_as g cm' out inp = linked_as g cm out inp)"
proof (induction links arbitrary: cm)
  case (Cons l links)
  obtain out inp where l: "l = (out, inp)" by fastforce
  obtain cm1 where cm1: "link_channel g fi (out, inp) cm = Inr cm1" "mapping_ok cm1"
      "unused cm inp \<longrightarrow> linked_as g cm1 out inp"
    and other: "\<And>inp' out'. inp' \<noteq> inp \<Longrightarrow> unused cm1 inp' = unused cm inp' \<and> linked_as g cm1 out' inp' = linked_as g cm out' inp'"
    using link_channel_step [OF Cons.prems(1), of g out fi inp] Cons.prems(2) l by auto
  have d: "inp \<notin> snd ` set links" "distinct (map snd links)" using Cons.prems(3) l by auto
  have "\<forall>(out, inp) \<in> set links. provided g out \<and> unused cm1 inp"
  proof (rule ballI, clarify)
    fix out' inp' assume m: "(out', inp') \<in> set links"
    then have "inp' \<noteq> inp" using d(1) by (metis imageI snd_conv)
    then show "provided g out' \<and> unused cm1 inp'" using m Cons.prems(2) other by auto
  qed
  with Cons.IH [OF cm1(2) _ d(2)] obtain cm' where cm': "fold_res (link_channel g fi) links cm1 = Inr cm'"
    and a: "\<forall>(out, inp) \<in> set links. linked_as g cm' out inp"
    and b: "\<And>inp out. inp \<notin> snd ` set links \<Longrightarrow> linked_as g cm' out inp = linked_as g cm1 out inp"
    by blast
  have "linked_as g cm' out inp" using b d(1) cm1(3) Cons.prems(2) l by auto
  moreover have "linked_as g cm' out' inp' = linked_as g cm out' inp'" if "inp' \<notin> snd ` set (l # links)" for inp' out'
    using b other that l by simp
  ultimately show ?case using cm1(1) cm' a l by auto
qed simp

text \<open>
  C22. Connecting a filter: when the inputs of a filter are linked at most once each, the mapping
  is built exactly when every requested output channel exists, each input then gets the address
  of its output channel in the map of the right type and in no other map, and otherwise the
  error is E006.
\<close>

theorem channel_input_mapping_correct:
  assumes "distinct (map snd (fi_channel_mapping fi))"
  shows "if list_all (\<lambda>(out, _). provided g out) (fi_channel_mapping fi)
    then \<exists>cm. construct_channel_input_mapping g fi = Inr cm
       \<and> list_all (\<lambda>(out, inp). linked_as g cm out inp) (fi_channel_mapping fi)
    else \<exists>msg. construct_channel_input_mapping g fi = Inl (Scheduling_exception (ERROR_UNKNOWN_REQUESTED_OUTPUT_CHANNEL @ msg))"
proof (cases "list_all (\<lambda>(out, _). provided g out) (fi_channel_mapping fi)")
  case True
  have e: "mapping_ok empty_mapping" "unused empty_mapping inp" for inp
    by (simp_all add: mapping_ok_def unused_def empty_mapping_def)
  have "\<forall>(out, inp) \<in> set (fi_channel_mapping fi). provided g out \<and> unused (empty_mapping :: 'a channel_mapping) inp"
    using True e(2) by (auto simp: list_all_iff)
  from link_channels [OF e(1) this assms] show ?thesis
    using True by (fastforce simp: construct_channel_input_mapping_def list_all_iff)
next
  case False
  have "\<exists>msg. fold_res (link_channel g fi) links cm = Inl (Scheduling_exception (ERROR_UNKNOWN_REQUESTED_OUTPUT_CHANNEL @ msg))"
    if "\<not> list_all (\<lambda>(out, _). provided g out) links" for links cm
    using that
  proof (induction links arbitrary: cm)
    case (Cons l links)
    obtain out inp where l: "l = (out, inp)" by fastforce
    show ?case
    proof (cases "provided g out")
      case True
      then obtain cm1 where "link_channel g fi l cm = Inr cm1"
        unfolding l using link_channel_provided by blast
      then show ?thesis using Cons.IH Cons.prems True l by simp
    next
      case False
      then show ?thesis unfolding l by (simp add: link_channel_def provided_def Let_def)
    qed
  qed simp
  then show ?thesis using False by (simp add: construct_channel_input_mapping_def)
qed

subsection \<open>Witnesses\<close>

definition demo_methods :: "(string, string) filter_methods" where
  "demo_methods = \<lparr>fm_construct = (\<lambda>cls. cls), fm_pre_setup = (\<lambda>_ _ _ f. Inr f),
     fm_get_output_channels = (\<lambda>_ _ nm cm. cm\<lparr>float_channels := om_update (nm @ '':value'') nm (float_channels cm)\<rparr>),
     fm_setup_filter = (\<lambda>_ _ _ _ f. Inr f)\<rparr>"

definition demo_filter :: "string \<Rightarrow> string list \<Rightarrow> filter_template" where
  "demo_filter nm deps = \<lparr>ft_id = nm, ft_type = 19, ft_channellink = map (\<lambda>d. (d @ '':value'', ''in_'' @ d)) deps,
     ft_configuration = [], ft_initial_parameters = []\<rparr>"

text \<open>
  The rounds do not separate dependent filters: here \<open>b\<close> reads from \<open>a\<close> and is placed in the same
  round, between the boundaries 0 and 2 (\<^verbatim>\<open>scene.hpp\<close> suggests that such a range could be
  updated in parallel).
\<close>

lemma dependent_filters_in_one_round:
  "(case schedule_filters demo_methods [demo_filter ''a'' [], demo_filter ''b'' [''a''], demo_filter ''c'' [''b'']] of
     Inl e \<Rightarrow> False | Inr s \<Rightarrow> boundaries s = [2, 3])"
  by code_simp

theorem schedule_filters_sound_witness:
  "\<exists>s. schedule_filters demo_methods [demo_filter ''b'' [''a''], demo_filter ''a'' []] = Inr s \<and>
   (\<exists>p. mset p = mset [demo_filter ''b'' [''a''], demo_filter ''a'' []]
    \<and> map (make_filter demo_methods) p = map Inr (fv s)
    \<and> (\<forall>i < length p. needs (p ! i) \<subseteq> ft_id ` set (take i p))
    \<and> (\<forall>i. map_of (filter_info_map s) i = (if i < length p then Some (info_of (p ! i)) else None))
    \<and> (\<forall>x. case map_of (scene_filter_index s) x of None \<Rightarrow> x \<notin> ft_id ` set p
          | Some i \<Rightarrow> i < length p \<and> ft_id (p ! i) = x)
    \<and> sorted_wrt (<) (boundaries s) \<and> (p = [] \<or> last (boundaries s) = length p))"
proof -
  have "\<exists>s. schedule_filters demo_methods [demo_filter ''b'' [''a''], demo_filter ''a'' []] = Inr s"
  proof (cases "schedule_filters demo_methods [demo_filter ''b'' [''a''], demo_filter ''a'' []]")
    case (Inl e)
    moreover have "(case schedule_filters demo_methods [demo_filter ''b'' [''a''], demo_filter ''a'' []] of
      Inl e \<Rightarrow> False | Inr s \<Rightarrow> True)" by code_simp
    ultimately show ?thesis by simp
  qed blast
  then show ?thesis using schedule_filters_sound by blast
qed

theorem schedule_filters_complete_witness:
  "case schedule_filters demo_methods [demo_filter ''a'' [''b''], demo_filter ''b'' [''a'']] of
      Inr s \<Rightarrow> \<exists>p. mset p = mset [demo_filter ''a'' [''b''], demo_filter ''b'' [''a'']] \<and> valid_order {} p
    | Inl e \<Rightarrow> (\<nexists>p. mset p = mset [demo_filter ''a'' [''b''], demo_filter ''b'' [''a'']] \<and> valid_order {} p)
        \<and> (\<exists>msg. e = Scheduling_exception (newline @ ERROR_CYCLIC_OR_BROKEN_DEPENDENCY_WHILE_SCHEDULING @ msg))"
  by (rule schedule_filters_complete)
    (simp add: make_filter_def construct_filter_def filter_type_tables demo_filter_def demo_methods_def)

theorem filter_memory_sufficient_witness:
  "sum_list (map (\<lambda>f. class_size (\<lambda>c. 8) (ft_type f)) [demo_filter ''a'' []]) \<le> 8"
  by (rule filter_memory_sufficient)
    (simp_all add: demo_filter_def filter_type_tables)

theorem channel_input_mapping_correct_witness:
  "if list_all (\<lambda>(out, _). provided (fm_get_output_channels demo_methods 0 ''x'' ''a'' empty_mapping) out)
       (fi_channel_mapping (info_of (demo_filter ''b'' [''a''])))
    then \<exists>cm. construct_channel_input_mapping (fm_get_output_channels demo_methods 0 ''x'' ''a'' empty_mapping)
          (info_of (demo_filter ''b'' [''a''])) = Inr cm
       \<and> list_all (\<lambda>(out, inp). linked_as (fm_get_output_channels demo_methods 0 ''x'' ''a'' empty_mapping) cm out inp)
           (fi_channel_mapping (info_of (demo_filter ''b'' [''a''])))
    else \<exists>msg. construct_channel_input_mapping (fm_get_output_channels demo_methods 0 ''x'' ''a'' empty_mapping)
          (info_of (demo_filter ''b'' [''a'']))
       = Inl (Scheduling_exception (ERROR_UNKNOWN_REQUESTED_OUTPUT_CHANNEL @ msg))"
  by (rule channel_input_mapping_correct) (simp add: info_of_def demo_filter_def)

end
