(* ===== verification/Universes.thy ===== *)
theory Universes
  imports Ordered_Map
begin

text \<open>
  The DMX output: \<^verbatim>\<open>src/src/dmx/universe.hpp\<close>, \<^verbatim>\<open>artnet_universe.hpp\<close>, the data of
  \<^verbatim>\<open>ftdi_universe\<close>, \<^verbatim>\<open>src/src/io/artnet_handler.hpp\<close> and \<^verbatim>\<open>universe_sender.cpp\<close>. A universe is an
  object with an identity: its address is its position in \<open>objs\<close>. Owners are the Art-Net
  registry, the map of the USB dongles and whoever else keeps the pointer (\<open>held\<close>); the list
  \<open>active_universes\<close> has weak pointers, which are alive as long as the object has an owner.

  Parameters: the socket addresses (\<open>'a\<close>), opening a dongle and sending to it (libftdi). The
  handler of the I/O board is never assigned in \<^verbatim>\<open>universe_sender.cpp\<close>, so it is absent here.
\<close>

datatype universe_type = PHYSICAL | ARTNET | SACN | FTDI

record universe =
  u_id :: int
  u_type :: universe_type
  is_dummy :: bool
  u_data :: "u8 list"

definition artnet_pkg_size :: nat where
  "artnet_pkg_size = 7 + 1 + 2 + 2 + 1 + 1 + 2 + 2 + 512"

definition update_sequence_number :: "u8 \<Rightarrow> universe \<Rightarrow> universe" where
  "update_sequence_number seq_num u = u\<lparr>u_data := (u_data u)[12 := seq_num]\<rparr>"

definition update_physical_id :: "u8 \<Rightarrow> universe \<Rightarrow> universe" where
  "update_physical_id new_id u = u\<lparr>u_data := (u_data u)[13 := new_id]\<rparr>"

definition update_device_universe :: "u16 \<Rightarrow> universe \<Rightarrow> universe" where
  "update_device_universe new_universe_id u =
     u\<lparr>u_data := (u_data u)[14 := ucast new_universe_id, 15 := ucast (drop_bit 8 new_universe_id)]\<rparr>"

definition new_artnet_universe :: "int \<Rightarrow> u16 \<Rightarrow> bool \<Rightarrow> universe" where
  "new_artnet_universe i id_on_device dummy =
     (let zero = replicate artnet_pkg_size 0;
          named = zero[0 := 65, 1 := 114, 2 := 116, 3 := 45, 4 := 78, 5 := 101, 6 := 116, 7 := 0];
          versioned = named[8 := 0, 9 := 80, 10 := 0, 11 := 14];
          u = \<lparr>u_id = i, u_type = ARTNET, is_dummy = dummy, u_data = versioned\<rparr>;
          u' = update_device_universe id_on_device (update_physical_id 0 (update_sequence_number 0 u))
      in u'\<lparr>u_data := (u_data u')[16 := 2, 17 := 0]\<rparr>)"

definition new_ftdi_universe :: "int \<Rightarrow> bool \<Rightarrow> universe" where
  "new_ftdi_universe i dummy =
     \<lparr>u_id = i, u_type = FTDI, is_dummy = dummy,
      u_data = (replicate (512 + 6) 0)[0 := 126, 1 := 6, 2 := 1, 3 := 2, 4 := 0, 517 := 231]\<rparr>"

definition channel_offset :: "universe_type \<Rightarrow> nat" where
  "channel_offset t = (case t of FTDI \<Rightarrow> 5 | _ \<Rightarrow> artnet_pkg_size - 512)"

text \<open>Writing through \<open>operator[]\<close>; outside of the array it is undefined.\<close>

definition write_channel :: "nat \<Rightarrow> u8 \<Rightarrow> universe \<Rightarrow> universe result" where
  "write_channel p v u =
     (if channel_offset (u_type u) + p < length (u_data u)
      then Inr (u\<lparr>u_data := (u_data u)[channel_offset (u_type u) + p := v]\<rparr>) else Inl Undefined_behaviour)"

subsection \<open>The registries\<close>

record 'a node_registry =
  internal_universe_id :: int
  device_universe_id :: u16
  sequence_number :: u8
  node_address :: 'a
  node_ptr :: nat

record 'a io_state =
  objs :: "universe list"
  nodes :: "(int, 'a node_registry) omap"
  dongle_map :: "(int, nat) omap"
  active_universes :: "nat list"
  held :: "nat list"
  sent :: "('a \<times> u8 list) list"

definition new_node_registry :: "int \<Rightarrow> u16 \<Rightarrow> 'a \<Rightarrow> nat \<Rightarrow> 'a node_registry" where
  "new_node_registry i dev address ptr =
     \<lparr>internal_universe_id = i, device_universe_id = dev, sequence_number = 1, node_address = address, node_ptr = ptr\<rparr>"

definition alive :: "'a io_state \<Rightarrow> nat \<Rightarrow> bool" where
  "alive st a \<longleftrightarrow> a \<in> node_ptr ` snd ` set (nodes st) \<or> a \<in> snd ` set (dongle_map st) \<or> a \<in> set (held st)"

definition next_sequence :: "u8 \<Rightarrow> u8" where
  "next_sequence s = (if s + 1 = 0 then 1 else s + 1)"

definition push_universe :: "nat \<Rightarrow> 'a io_state \<Rightarrow> 'a io_state result" where
  "push_universe a st = (case map_of (nodes st) (u_id (objs st ! a)) of
      None \<Rightarrow> Inl (Invalid_argument ''This universe was not registered with this artnet_handler.'')
    | Some r \<Rightarrow>
        (let r' = r\<lparr>sequence_number := next_sequence (sequence_number r)\<rparr>;
             u' = update_sequence_number (sequence_number r') (objs st ! a)
         in Inr (st\<lparr>nodes := om_update (u_id (objs st ! a)) r' (nodes st), objs := (objs st)[a := u'],
                   sent := sent st @ [(node_address r, u_data u')]\<rparr>)))"

definition get_or_create_universe :: "int \<Rightarrow> 'a \<Rightarrow> u16 \<Rightarrow> bool \<Rightarrow> 'a io_state \<Rightarrow> nat \<times> 'a io_state" where
  "get_or_create_universe i address dev dummy st = (case map_of (nodes st) i of
      None \<Rightarrow>
        (let a = length (objs st)
         in (a, st\<lparr>objs := objs st @ [new_artnet_universe i dev dummy],
                   nodes := om_update i (new_node_registry i dev address a) (nodes st)\<rparr>))
    | Some r \<Rightarrow>
        (let r' = (if node_address r \<noteq> address \<or> device_universe_id r \<noteq> dev
                   then (new_node_registry i dev address (node_ptr r))\<lparr>sequence_number := sequence_number r\<rparr>
                   else r)
         in (node_ptr r', st\<lparr>nodes := om_update i r' (nodes st),
                objs := (objs st)[node_ptr r' := (objs st ! node_ptr r')\<lparr>is_dummy := dummy\<rparr>]\<rparr>)))"

definition unlink_universe :: "int \<Rightarrow> 'a io_state \<Rightarrow> bool \<times> 'a io_state" where
  "unlink_universe i st =
     (if map_of (nodes st) i = None then (False, st) else (True, st\<lparr>nodes := om_erase i (nodes st)\<rparr>))"

subsection \<open>Sending\<close>

definition publish_universe_update ::
  "(universe \<Rightarrow> bool) \<Rightarrow> nat \<Rightarrow> 'a io_state \<Rightarrow> (bool \<times> 'a io_state) result" where
  "publish_universe_update ftdi_send a st =
     (let u = objs st ! a in
      if is_dummy u then Inr (False, st)
      else case u_type u of
          ARTNET \<Rightarrow> bind_res (push_universe a st) (\<lambda>st'. Inr (True, st'))
        | PHYSICAL \<Rightarrow> Inr (False, st)
        | SACN \<Rightarrow> Inr (False, st)
        | FTDI \<Rightarrow> Inr (ftdi_send u, st))"

definition push_step ::
  "(universe \<Rightarrow> bool) \<Rightarrow> nat \<Rightarrow> bool \<times> 'a io_state \<Rightarrow> (bool \<times> 'a io_state) result" where
  "push_step ftdi_send a s =
     (let (house_keeping_required, st) = s in
      if alive st a
      then bind_res (publish_universe_update ftdi_send a st) (\<lambda>(_, st'). Inr (house_keeping_required, st'))
      else Inr (True, st))"

definition push_all_registered_universes ::
  "(universe \<Rightarrow> bool) \<Rightarrow> 'a io_state \<Rightarrow> (bool \<times> 'a io_state) result" where
  "push_all_registered_universes ftdi_send st =
     bind_res (fold_res (push_step ftdi_send) (active_universes st) (False, st)) (\<lambda>(required, st').
       Inr (\<not> required, if required then st'\<lparr>active_universes := filter (alive st') (active_universes st')\<rparr> else st'))"

subsection \<open>Registration\<close>

fun replace_same_id :: "'a io_state \<Rightarrow> nat \<Rightarrow> nat list \<Rightarrow> nat list" where
  "replace_same_id st candidate [] = [candidate]"
| "replace_same_id st candidate (u # us) =
     (if alive st u \<and> u_id (objs st ! u) = u_id (objs st ! candidate) then candidate # us
      else u # replace_same_id st candidate us)"

definition check_update_required_from_registration :: "nat \<Rightarrow> 'a io_state \<Rightarrow> 'a io_state" where
  "check_update_required_from_registration candidate st =
     st\<lparr>active_universes := replace_same_id (st\<lparr>held := candidate # held st\<rparr>) candidate (active_universes st)\<rparr>"

datatype ('a, 'd) location = Artnet_location 'a u16 | Ftdi_location 'd | Local_location

text \<open>
  Both registrations, from a message (never a dummy) and from the show file. The result None is
  the null pointer; the caller keeps what it gets, so the pointer becomes \<open>held\<close>.
\<close>

definition register_universe ::
  "('d \<Rightarrow> unit result) \<Rightarrow> int \<Rightarrow> ('a, 'd) location \<Rightarrow> bool \<Rightarrow> 'a io_state \<Rightarrow> (nat option \<times> 'a io_state) result" where
  "register_universe ftdi_open i loc dummy st = (case loc of
      Artnet_location address dev \<Rightarrow>
        (let (a, st1) = get_or_create_universe i address dev dummy st;
             st2 = (if map_of (dongle_map st1) i \<noteq> None then st1\<lparr>dongle_map := om_erase i (dongle_map st1)\<rparr> else st1);
             st3 = check_update_required_from_registration a st2
         in Inr (Some a, st3\<lparr>held := a # held st3\<rparr>))
    | Ftdi_location desc \<Rightarrow>
        (case map_of (dongle_map st) i of
           Some a \<Rightarrow> Inr (Some a, st\<lparr>held := a # held st\<rparr>)
         | None \<Rightarrow> bind_res (ftdi_open desc) (\<lambda>_.
             let a = length (objs st);
                 st1 = st\<lparr>objs := objs st @ [new_ftdi_universe i dummy], dongle_map := om_update i a (dongle_map st)\<rparr>;
                 st2 = snd (unlink_universe i st1);
                 st3 = check_update_required_from_registration a st2
             in Inr (Some a, st3\<lparr>held := a # held st3\<rparr>)))
    | Local_location \<Rightarrow> Inr (None, st))"

definition register_universe_from_message ::
  "('d \<Rightarrow> unit result) \<Rightarrow> int \<Rightarrow> ('a, 'd) location \<Rightarrow> 'a io_state \<Rightarrow> (nat option \<times> 'a io_state) result" where
  "register_universe_from_message ftdi_open i loc st = register_universe ftdi_open i loc False st"

definition register_universe_from_xml ::
  "('d \<Rightarrow> unit result) \<Rightarrow> int \<Rightarrow> ('a, 'd) location \<Rightarrow> bool \<Rightarrow> 'a io_state \<Rightarrow> (nat option \<times> 'a io_state) result" where
  "register_universe_from_xml ftdi_open i loc dummy st = register_universe ftdi_open i loc dummy st"

definition unregister_universe :: "int \<Rightarrow> 'a io_state \<Rightarrow> 'a io_state" where
  "unregister_universe i st =
     (let (found, st1) = unlink_universe i st;
          st2 = (if \<not> found \<and> map_of (dongle_map st1) i \<noteq> None
                 then st1\<lparr>dongle_map := om_erase i (dongle_map st1)\<rparr> else st1)
      in st2\<lparr>active_universes := filter (\<lambda>a. \<not> (\<not> alive st2 a \<or> u_id (objs st2 ! a) = i)) (active_universes st2)\<rparr>)"

definition get_universe :: "int \<Rightarrow> 'a io_state \<Rightarrow> nat option" where
  "get_universe i st = (case map_of (dongle_map st) i of
      Some a \<Rightarrow> Some a
    | None \<Rightarrow> map_option node_ptr (map_of (nodes st) i))"

definition get_universe_list :: "'a io_state \<Rightarrow> nat list" where
  "get_universe_list st = rev (active_universes st)"

definition empty_io :: "'a io_state" where
  "empty_io = \<lparr>objs = [], nodes = [], dongle_map = [], active_universes = [], held = [], sent = []\<rparr>"

subsection \<open>Sequence numbers\<close>

lemma next_sequence_nonzero: "next_sequence s \<noteq> 0"
  by (simp add: next_sequence_def)

lemma next_sequence_unat: "unat (next_sequence s) = unat s mod 255 + 1"
proof (cases "s + 1 = 0")
  case True
  then have "s = - 1" by (simp add: eq_neg_iff_add_eq_0)
  moreover have "unat (- 1 :: u8) = 255" by code_simp
  ultimately have "unat s = 255" by simp
  then show ?thesis using True by (simp add: next_sequence_def)
next
  case False
  then have "unat (s + 1) = unat s + 1" by (simp add: unatSuc add.commute)
  moreover have "unat (s + 1) < 256" using unsigned_less [of "s + 1", where ?'a = nat] by simp
  ultimately show ?thesis using False by (simp add: next_sequence_def)
qed

text \<open>
  Sequence numbers: the n-th packet of a universe after its registration carries the number
  \<open>n mod 255 + 1\<close> counted from one further, so the numbers run through 1 to 255 and never take the
  value 0, which tells an Art-Net node to ignore the order.
\<close>

theorem sequence_cycles: "unat ((next_sequence ^^ n) 1) = n mod 255 + 1"
proof (induction n)
  case (Suc n)
  have "unat ((next_sequence ^^ Suc n) 1) = (n mod 255 + 1) mod 255 + 1"
    using Suc by (simp add: next_sequence_unat)
  then show ?case by (simp add: mod_Suc_eq)
qed simp

subsection \<open>The packets\<close>

definition artnet_header :: "u8 list" where
  "artnet_header = [65, 114, 116, 45, 78, 101, 116, 0, 0, 80, 0, 14]"

definition data_ok :: "universe \<Rightarrow> bool" where
  "data_ok u \<longleftrightarrow>
     (u_type u = ARTNET \<and> length (u_data u) = 530 \<and> take 12 (u_data u) = artnet_header
        \<and> u_data u ! 16 = 2 \<and> u_data u ! 17 = 0)
     \<or> (u_type u = FTDI \<and> length (u_data u) = 518 \<and> take 5 (u_data u) = [126, 6, 1, 2, 0] \<and> u_data u ! 517 = 231)"

lemma replicate_530: "replicate artnet_pkg_size (0 :: u8) = [0, 0, 0, 0, 0, 0, 0, 0, 0, 0, 0, 0, 0, 0, 0, 0, 0, 0] @ replicate 512 0"
proof -
  have "replicate (18 + 512) (0 :: u8) = replicate 18 0 @ replicate 512 0" by (simp only: replicate_add)
  moreover have "replicate 18 (0 :: u8) = [0, 0, 0, 0, 0, 0, 0, 0, 0, 0, 0, 0, 0, 0, 0, 0, 0, 0]"
    by (simp add: numeral_eq_Suc)
  ultimately show ?thesis by (simp add: artnet_pkg_size_def)
qed

lemma new_artnet_data:
  "u_data (new_artnet_universe i dev dummy) =
     artnet_header @ [0, 0, ucast dev, ucast (drop_bit 8 dev), 2, 0] @ replicate 512 0"
  unfolding new_artnet_universe_def replicate_530 update_device_universe_def update_physical_id_def
    update_sequence_number_def artnet_header_def Let_def
  by (simp add: list_update_literal)

lemma data_ok_new_artnet: "data_ok (new_artnet_universe i dev dummy)"
  unfolding data_ok_def new_artnet_data
  by (simp add: artnet_header_def nth_append) (simp add: new_artnet_universe_def Let_def update_device_universe_def
      update_physical_id_def update_sequence_number_def)

lemma new_ftdi_data:
  "u_data (new_ftdi_universe i dummy) = [126, 6, 1, 2, 0] @ replicate 512 0 @ [231]"
proof -
  have "replicate (5 + (512 + 1)) (0 :: u8) = replicate 5 0 @ replicate 512 0 @ replicate 1 0"
    by (simp only: replicate_add)
  moreover have "replicate 5 (0 :: u8) = [0, 0, 0, 0, 0]" by (simp add: numeral_eq_Suc)
  ultimately have r: "replicate (512 + 6) (0 :: u8) = [0, 0, 0, 0, 0] @ replicate 512 0 @ [0]" by simp
  show ?thesis unfolding new_ftdi_universe_def r by (simp add: list_update_literal list_update_append)
qed

lemma data_ok_new_ftdi: "data_ok (new_ftdi_universe i dummy)"
  unfolding data_ok_def new_ftdi_data by (simp add: nth_append) (simp add: new_ftdi_universe_def)

subsection \<open>The invariant of the registries\<close>

definition id_of :: "'a io_state \<Rightarrow> nat \<Rightarrow> int" where
  "id_of st a = u_id (objs st ! a)"

definition owned :: "'a io_state \<Rightarrow> bool" where
  "owned st \<longleftrightarrow> om_ok (nodes st) \<and> om_ok (dongle_map st)
     \<and> (\<forall>i r. map_of (nodes st) i = Some r \<longrightarrow>
          node_ptr r < length (objs st) \<and> id_of st (node_ptr r) = i \<and> u_type (objs st ! node_ptr r) = ARTNET
          \<and> map_of (dongle_map st) i = None)
     \<and> (\<forall>i a. map_of (dongle_map st) i = Some a \<longrightarrow>
          a < length (objs st) \<and> id_of st a = i \<and> u_type (objs st ! a) = FTDI)
     \<and> (\<forall>a \<in> set (active_universes st) \<union> set (held st). a < length (objs st))"

definition listed :: "'a io_state \<Rightarrow> bool" where
  "listed st \<longleftrightarrow> distinct (map (id_of st) (filter (alive st) (active_universes st)))
     \<and> (\<forall>a \<in> set (active_universes st). alive st a \<longrightarrow> u_type (objs st ! a) = ARTNET \<longrightarrow>
          (\<exists>r. map_of (nodes st) (id_of st a) = Some r \<and> node_ptr r = a))"

definition packet_ok :: "u8 list \<Rightarrow> bool" where
  "packet_ok p \<longleftrightarrow> length p = 530 \<and> take 12 p = artnet_header \<and> p ! 12 \<noteq> 0 \<and> p ! 16 = 2 \<and> p ! 17 = 0"

definition io_ok :: "'a io_state \<Rightarrow> bool" where
  "io_ok st \<longleftrightarrow> owned st \<and> listed st \<and> list_all data_ok (objs st) \<and> list_all (packet_ok \<circ> snd) (sent st)"

lemma alive_iff:
  "om_ok (nodes st) \<Longrightarrow> om_ok (dongle_map st) \<Longrightarrow> alive st a \<longleftrightarrow>
    (\<exists>i r. map_of (nodes st) i = Some r \<and> node_ptr r = a) \<or> (\<exists>i. map_of (dongle_map st) i = Some a) \<or> a \<in> set (held st)"
proof -
  assume ok: "om_ok (nodes st)" "om_ok (dongle_map st)"
  have "a \<in> node_ptr ` snd ` set (nodes st) \<longleftrightarrow> (\<exists>i r. (i, r) \<in> set (nodes st) \<and> node_ptr r = a)" by force
  moreover have "a \<in> snd ` set (dongle_map st) \<longleftrightarrow> (\<exists>i. (i, a) \<in> set (dongle_map st))" by force
  ultimately show ?thesis unfolding alive_def by (simp add: om.entries_iff ok)
qed

lemma ownedI:
  assumes "om_ok (nodes st)" "om_ok (dongle_map st)"
    and "\<And>i r. map_of (nodes st) i = Some r \<Longrightarrow> node_ptr r < length (objs st) \<and> id_of st (node_ptr r) = i
        \<and> u_type (objs st ! node_ptr r) = ARTNET \<and> map_of (dongle_map st) i = None"
    and "\<And>i a. map_of (dongle_map st) i = Some a \<Longrightarrow> a < length (objs st) \<and> id_of st a = i \<and> u_type (objs st ! a) = FTDI"
    and "\<And>a. a \<in> set (active_universes st) \<Longrightarrow> a < length (objs st)"
    and "\<And>a. a \<in> set (held st) \<Longrightarrow> a < length (objs st)"
  shows "owned st"
  using assms unfolding owned_def by blast

lemma owned_node: "owned st \<Longrightarrow> map_of (nodes st) i = Some r \<Longrightarrow> node_ptr r < length (objs st) \<and> id_of st (node_ptr r) = i
    \<and> u_type (objs st ! node_ptr r) = ARTNET \<and> map_of (dongle_map st) i = None"
  by (simp add: owned_def)

lemma owned_dongle: "owned st \<Longrightarrow> map_of (dongle_map st) i = Some a \<Longrightarrow>
    a < length (objs st) \<and> id_of st a = i \<and> u_type (objs st ! a) = FTDI"
  by (simp add: owned_def)

lemma alive_bound: "owned st \<Longrightarrow> alive st a \<Longrightarrow> a < length (objs st)"
  using alive_iff [of st a] unfolding owned_def by auto

lemma filter_ids_subset:
  "\<forall>a \<in> set us. B a \<longrightarrow> A a \<Longrightarrow> distinct (map f (filter A us)) \<Longrightarrow> distinct (map f (filter B us))"
  by (induction us) (auto split: if_splits)

lemma listed_shrink:
  assumes "listed st" and "active_universes st' = filter P (active_universes st)"
    and "\<And>a. a \<in> set (active_universes st) \<Longrightarrow> P a \<Longrightarrow> alive st' a \<Longrightarrow> alive st a \<and> id_of st' a = id_of st a
        \<and> u_type (objs st' ! a) = u_type (objs st ! a)
        \<and> (u_type (objs st ! a) = ARTNET \<longrightarrow> map_option node_ptr (map_of (nodes st') (id_of st a)) = map_option node_ptr (map_of (nodes st) (id_of st a)))"
  shows "listed st'"
proof -
  let ?us = "active_universes st"
  have "distinct (map (id_of st) (filter (\<lambda>a. P a \<and> alive st' a) ?us))"
    by (rule filter_ids_subset [of _ _ "alive st"]) (use assms in \<open>auto simp: listed_def\<close>)
  moreover have "map (id_of st') (filter (\<lambda>a. P a \<and> alive st' a) ?us) = map (id_of st) (filter (\<lambda>a. P a \<and> alive st' a) ?us)"
    using assms(3) by auto
  moreover have "filter (alive st') (filter P ?us) = filter (\<lambda>a. P a \<and> alive st' a) ?us" by simp
  ultimately have "distinct (map (id_of st') (filter (alive st') (filter P ?us)))" by argo
  moreover have "\<exists>r. map_of (nodes st') (id_of st' a) = Some r \<and> node_ptr r = a"
    if "a \<in> set ?us" "P a" "alive st' a" "u_type (objs st' ! a) = ARTNET" for a
    using assms(1,3) that unfolding listed_def by (metis map_option_eq_Some)
  ultimately show ?thesis by (simp add: listed_def assms(2))
qed

lemma replace_same_id_ids:
  fixes st :: "'a io_state"
  assumes "alive st c" and "distinct (map (id_of st) (filter (alive st) us))"
  shows "distinct (map (id_of st) (filter (alive st) (replace_same_id st c us)))"
    and "a \<in> set (replace_same_id st c us) \<Longrightarrow> alive st a \<Longrightarrow> a = c \<or> (a \<in> set us \<and> id_of st a \<noteq> id_of st c)"
proof -
  have "distinct (map (id_of st) (filter (alive st) (replace_same_id st c us)))
      \<and> set (map (id_of st) (filter (alive st) (replace_same_id st c us)))
        = insert (id_of st c) (set (map (id_of st) (filter (alive st) us)))
      \<and> (\<forall>a \<in> set (replace_same_id st c us). alive st a \<longrightarrow> a = c \<or> (a \<in> set us \<and> id_of st a \<noteq> id_of st c))"
    using assms(2)
  proof (induction us)
    case (Cons u us)
    show ?case
    proof (cases "alive st u \<and> id_of st u = id_of st c")
      case True
      then have "replace_same_id st c (u # us) = c # us" by (simp add: id_of_def)
      then show ?thesis using Cons.prems True assms(1) by (force simp: image_iff)
    next
      case False
      then have "replace_same_id st c (u # us) = u # replace_same_id st c us" by (auto simp: id_of_def)
      then show ?thesis using Cons False by (cases "alive st u") auto
    qed
  qed (use assms(1) in simp)
  then show "distinct (map (id_of st) (filter (alive st) (replace_same_id st c us)))"
    "a \<in> set (replace_same_id st c us) \<Longrightarrow> alive st a \<Longrightarrow> a = c \<or> (a \<in> set us \<and> id_of st a \<noteq> id_of st c)" by auto
qed

definition keep :: "nat \<Rightarrow> 'a io_state \<Rightarrow> 'a io_state" where
  "keep c st = st\<lparr>held := c # held st\<rparr>"

lemma keep_simps [simp]:
  "objs (keep c st) = objs st" "nodes (keep c st) = nodes st" "dongle_map (keep c st) = dongle_map st"
  "active_universes (keep c st) = active_universes st" "held (keep c st) = c # held st" "sent (keep c st) = sent st"
  "id_of (keep c st) = id_of st" "alive (keep c st) a \<longleftrightarrow> a = c \<or> alive st a"
  by (auto simp: keep_def alive_def id_of_def fun_eq_iff)

lemma listed_register:
  fixes st st2 :: "'a io_state"
  assumes li: "listed st" and act: "active_universes st2 = active_universes st"
    and same: "\<And>a. a \<in> set (active_universes st) \<Longrightarrow> id_of st2 a = id_of st a \<and> u_type (objs st2 ! a) = u_type (objs st ! a)"
    and al: "\<And>a. a \<in> set (active_universes st) \<Longrightarrow> a = c \<or> alive st2 a \<Longrightarrow> alive st a"
    and nd: "\<And>i. i \<noteq> id_of st2 c \<Longrightarrow> map_of (nodes st2) i = map_of (nodes st) i"
    and own: "u_type (objs st2 ! c) = ARTNET \<Longrightarrow> \<exists>r. map_of (nodes st2) (id_of st2 c) = Some r \<and> node_ptr r = c"
  shows "listed (keep c (check_update_required_from_registration c st2))"
proof -
  let ?w = "keep c st2" and ?us = "active_universes st"
  let ?f = "keep c (check_update_required_from_registration c st2)"
  have d: "distinct (map (id_of ?w) (filter (alive ?w) ?us))"
  proof -
    have "distinct (map (id_of st) (filter (alive ?w) ?us))"
      by (rule filter_ids_subset [of _ _ "alive st"]) (use li al in \<open>auto simp: listed_def\<close>)
    moreover have "map (id_of ?w) (filter (alive ?w) ?us) = map (id_of st) (filter (alive ?w) ?us)"
      using same by simp
    ultimately show ?thesis by argo
  qed
  have active: "active_universes ?f = replace_same_id ?w c ?us"
    by (simp add: check_update_required_from_registration_def act keep_def)
  have alf: "alive ?f = alive ?w" "id_of ?f = id_of ?w" "objs ?f = objs ?w" "nodes ?f = nodes ?w"
    by (auto simp: check_update_required_from_registration_def alive_def id_of_def fun_eq_iff)
  have c: "alive ?w c" by simp
  have "distinct (map (id_of ?f) (filter (alive ?f) (active_universes ?f)))"
    using replace_same_id_ids(1) [OF c d] unfolding active alf .
  moreover have "\<exists>r. map_of (nodes ?f) (id_of ?f a) = Some r \<and> node_ptr r = a"
    if a: "a \<in> set (active_universes ?f)" "alive ?f a" "u_type (objs ?f ! a) = ARTNET" for a
  proof (cases "a = c")
    case True
    then show ?thesis using own a unfolding alf by simp
  next
    case False
    then have in_us: "a \<in> set ?us" and ne: "id_of st2 a \<noteq> id_of st2 c"
      using replace_same_id_ids(2) [OF c d, of a] a(1,2) unfolding active alf by auto
    then have "alive st a" "u_type (objs st ! a) = ARTNET"
      using al same a(2,3) unfolding alf by auto
    then have "\<exists>r. map_of (nodes st) (id_of st a) = Some r \<and> node_ptr r = a"
      using li in_us by (simp add: listed_def)
    then show ?thesis using nd ne same in_us unfolding alf by auto
  qed
  ultimately show ?thesis by (simp add: listed_def)
qed

lemma get_or_create_cases:
  assumes own: "owned st" and res: "get_or_create_universe i address dev dummy st = (c, st1)"
  shows "(map_of (nodes st) i = None \<and> c = length (objs st) \<and> objs st1 = objs st @ [new_artnet_universe i dev dummy]
      \<and> nodes st1 = om_update i (new_node_registry i dev address c) (nodes st))
    \<or> (\<exists>r r'. map_of (nodes st) i = Some r \<and> node_ptr r = c \<and> node_ptr r' = c
      \<and> objs st1 = (objs st)[c := (objs st ! c)\<lparr>is_dummy := dummy\<rparr>] \<and> nodes st1 = om_update i r' (nodes st))"
    and "dongle_map st1 = dongle_map st" "active_universes st1 = active_universes st" "held st1 = held st" "sent st1 = sent st"
  using res by (auto simp: get_or_create_universe_def Let_def new_node_registry_def split: option.splits)

lemma new_universe_simps [simp]:
  "u_id (new_artnet_universe i dev dummy) = i" "u_type (new_artnet_universe i dev dummy) = ARTNET"
  "u_id (new_ftdi_universe i dummy) = i" "u_type (new_ftdi_universe i dummy) = FTDI"
  by (simp_all add: new_artnet_universe_def new_ftdi_universe_def Let_def update_device_universe_def
      update_physical_id_def update_sequence_number_def)

text \<open>What \<open>get_or_create_universe\<close> guarantees to the registration.\<close>

lemma get_or_create_ok:
  assumes own: "owned st" and dat: "list_all data_ok (objs st)"
    and res: "get_or_create_universe i address dev dummy st = (c, st1)"
  shows "c < length (objs st1)" "id_of st1 c = i" "u_type (objs st1 ! c) = ARTNET" "length (objs st) \<le> length (objs st1)"
    and "\<And>a. a < length (objs st) \<Longrightarrow> id_of st1 a = id_of st a \<and> u_type (objs st1 ! a) = u_type (objs st ! a)"
    and "\<exists>r. map_of (nodes st1) i = Some r \<and> node_ptr r = c"
    and "\<And>j. j \<noteq> i \<Longrightarrow> map_of (nodes st1) j = map_of (nodes st) j"
    and "om_ok (nodes st1)" "list_all data_ok (objs st1)"
    and "c < length (objs st) \<Longrightarrow> \<exists>r. map_of (nodes st) i = Some r \<and> node_ptr r = c"
proof -
  have om: "om_ok (nodes st)" using own by (simp add: owned_def)
  consider (new) "map_of (nodes st) i = None" "c = length (objs st)" "objs st1 = objs st @ [new_artnet_universe i dev dummy]"
      "nodes st1 = om_update i (new_node_registry i dev address c) (nodes st)"
    | (old) r r' where "map_of (nodes st) i = Some r" "node_ptr r = c" "node_ptr r' = c"
      "objs st1 = (objs st)[c := (objs st ! c)\<lparr>is_dummy := dummy\<rparr>]" "nodes st1 = om_update i r' (nodes st)"
    using get_or_create_cases(1) [OF own res] by metis
  then have all: "c < length (objs st1) \<and> id_of st1 c = i \<and> u_type (objs st1 ! c) = ARTNET \<and> length (objs st) \<le> length (objs st1)
    \<and> (\<forall>a. a < length (objs st) \<longrightarrow> id_of st1 a = id_of st a \<and> u_type (objs st1 ! a) = u_type (objs st ! a))
    \<and> (\<exists>r. map_of (nodes st1) i = Some r \<and> node_ptr r = c)
    \<and> (\<forall>j. j \<noteq> i \<longrightarrow> map_of (nodes st1) j = map_of (nodes st) j)
    \<and> om_ok (nodes st1) \<and> list_all data_ok (objs st1)
    \<and> (c < length (objs st) \<longrightarrow> (\<exists>r. map_of (nodes st) i = Some r \<and> node_ptr r = c))"
  proof cases
    case new
    then show ?thesis using om dat data_ok_new_artnet
      by (auto simp: id_of_def nth_append map_of_om_update om_ok_update new_node_registry_def)
  next
    case old
    then have c: "c < length (objs st)" "id_of st c = i" "u_type (objs st ! c) = ARTNET"
      using own by (auto simp: owned_def)
    have "data_ok ((objs st ! c)\<lparr>is_dummy := dummy\<rparr>)"
      using dat c(1) by (simp add: list_all_length data_ok_def)
    then have "list_all data_ok (objs st1)"
      using dat old by (auto simp: list_all_iff dest!: set_update_subset_insert [THEN subsetD])
    then show ?thesis using old c om
      by (auto simp: id_of_def nth_list_update map_of_om_update om_ok_update)
  qed
  then show "c < length (objs st1)" "id_of st1 c = i" "u_type (objs st1 ! c) = ARTNET" "length (objs st) \<le> length (objs st1)"
    "\<And>a. a < length (objs st) \<Longrightarrow> id_of st1 a = id_of st a \<and> u_type (objs st1 ! a) = u_type (objs st ! a)"
    "\<exists>r. map_of (nodes st1) i = Some r \<and> node_ptr r = c"
    "\<And>j. j \<noteq> i \<Longrightarrow> map_of (nodes st1) j = map_of (nodes st) j"
    "om_ok (nodes st1)" "list_all data_ok (objs st1)"
    "c < length (objs st) \<Longrightarrow> \<exists>r. map_of (nodes st) i = Some r \<and> node_ptr r = c"
    by blast+
qed

subsection \<open>Every operation keeps the invariant\<close>

lemma set_replace_same_id: "set (replace_same_id w c us) \<subseteq> insert c (set us)"
  by (induction us) auto

lemma register_artnet_ok:
  assumes ok: "io_ok st" and res: "register_universe ftdi_open i (Artnet_location address dev) dummy st = Inr (p, st')"
  shows "io_ok st' \<and> (\<exists>c. p = Some c \<and> get_universe i st' = Some c \<and> id_of st' c = i) \<and> sent st' = sent st"
proof -
  obtain c st1 where g: "get_or_create_universe i address dev dummy st = (c, st1)" by fastforce
  define st2 where "st2 = (if map_of (dongle_map st1) i \<noteq> None then st1\<lparr>dongle_map := om_erase i (dongle_map st1)\<rparr> else st1)"
  have st': "st' = keep c (check_update_required_from_registration c st2)" and p: "p = Some c"
    using res g by (auto simp: register_universe_def Let_def st2_def keep_def)
  have own: "owned st" and li: "listed st" and dat: "list_all data_ok (objs st)" using ok by (simp_all add: io_ok_def)
  note gc = get_or_create_ok [OF own dat g] and fr = get_or_create_cases(2-5) [OF own g]
  have omd: "om_ok (dongle_map st)" and omn: "om_ok (nodes st)" using own by (simp_all add: owned_def)
  note al_st = alive_iff [OF omn omd]
  have st2: "objs st2 = objs st1" "nodes st2 = nodes st1" "active_universes st2 = active_universes st" "held st2 = held st"
    "sent st2 = sent st" "id_of st2 = id_of st1"
    using fr by (auto simp: st2_def id_of_def fun_eq_iff)
  have dm: "map_of (dongle_map st2) j = (if j = i then None else map_of (dongle_map st) j)" "om_ok (dongle_map st2)" for j
    using fr(1) omd by (auto simp: st2_def map_of_om_erase om_ok_erase)
  have bound: "a < length (objs st)" if "a \<in> set (active_universes st) \<union> set (held st)" for a
    using own that by (auto simp: owned_def)
  have al: "alive st a" if a: "a \<in> set (active_universes st)" "a = c \<or> alive st2 a" for a
  proof (cases "a = c")
    case True
    then have "c < length (objs st)" using bound a(1) by blast
    then show ?thesis using gc(10) True unfolding al_st by blast
  next
    case False
    then have "(\<exists>j r. map_of (nodes st1) j = Some r \<and> node_ptr r = a) \<or> (\<exists>j. map_of (dongle_map st2) j = Some a) \<or> a \<in> set (held st)"
      using a alive_iff [of st2 a, unfolded st2, OF gc(8) dm(2)] False by blast
    moreover have "j \<noteq> i" if "map_of (nodes st1) j = Some r" "node_ptr r = a" for j r
      using that False gc(6) by auto
    ultimately show ?thesis unfolding al_st using gc(7) dm(1) by (metis option.discI)
  qed
  have "listed st'"
    unfolding st' by (rule listed_register [OF li]) (use st2 gc bound al in auto)
  moreover have "owned st'"
  proof -
    have f: "objs st' = objs st1" "nodes st' = nodes st1" "dongle_map st' = dongle_map st2" "held st' = c # held st"
      "active_universes st' = replace_same_id (keep c st2) c (active_universes st)" "id_of st' = id_of st1"
      using st2 by (simp_all add: st' check_update_required_from_registration_def keep_def id_of_def fun_eq_iff)
    show ?thesis
    proof (rule ownedI, unfold f)
      show "om_ok (nodes st1)" "om_ok (dongle_map st2)" by (fact gc(8), fact dm(2))
    next
      fix j r assume r: "map_of (nodes st1) j = Some r"
      show "node_ptr r < length (objs st1) \<and> id_of st1 (node_ptr r) = j \<and> u_type (objs st1 ! node_ptr r) = ARTNET
        \<and> map_of (dongle_map st2) j = None"
      proof (cases "j = i")
        case True
        then show ?thesis using r gc(1,2,3,6) dm(1) by auto
      next
        case False
        then have "map_of (nodes st) j = Some r" using r gc(7) by simp
        from owned_node [OF own this] show ?thesis using gc(4) gc(5) [of "node_ptr r"] dm(1) [of j] False by simp
      qed
    next
      fix j a assume "map_of (dongle_map st2) j = Some a"
      then have "map_of (dongle_map st) j = Some a" using dm(1) [of j] by (auto split: if_splits)
      from owned_dongle [OF own this] show "a < length (objs st1) \<and> id_of st1 a = j \<and> u_type (objs st1 ! a) = FTDI"
        using gc(4) gc(5) [of a] by simp
    next
      fix a assume "a \<in> set (replace_same_id (keep c st2) c (active_universes st))"
      then have "a = c \<or> a \<in> set (active_universes st)" using set_replace_same_id by fast
      then show "a < length (objs st1)" using bound gc(1,4) by (auto intro: less_le_trans)
    next
      fix a assume "a \<in> set (c # held st)"
      then show "a < length (objs st1)" using bound gc(1,4) by (auto intro: less_le_trans)
    qed
  qed
  moreover have "objs st' = objs st1" "sent st' = sent st" "nodes st' = nodes st1" "dongle_map st' = dongle_map st2"
    using st2 by (simp_all add: st' check_update_required_from_registration_def)
  ultimately show ?thesis
    using ok gc p dm by (auto simp: io_ok_def get_universe_def id_of_def)
qed

lemma register_ftdi_ok:
  assumes ok: "io_ok st" and res: "register_universe ftdi_open i (Ftdi_location desc) dummy st = Inr (p, st')"
  shows "io_ok st' \<and> (\<exists>c. p = Some c \<and> get_universe i st' = Some c \<and> id_of st' c = i) \<and> sent st' = sent st"
proof -
  have own: "owned st" and li: "listed st" and dat: "list_all data_ok (objs st)" using ok by (simp_all add: io_ok_def)
  have omd: "om_ok (dongle_map st)" and omn: "om_ok (nodes st)" using own by (simp_all add: owned_def)
  note al_st = alive_iff [OF omn omd]
  show ?thesis
  proof (cases "map_of (dongle_map st) i")
    case (Some c)
    then have st': "st' = keep c st" and p: "p = Some c"
      using res by (auto simp: register_universe_def keep_def)
    have c: "c < length (objs st)" "id_of st c = i" "alive st c" using Some own al_st by (auto simp: owned_def)
    then have al: "alive (keep c st) = alive st" by (auto simp: fun_eq_iff)
    have "listed (keep c st)" using li unfolding listed_def al by simp
    moreover have "owned (keep c st)" using own c(1) by (auto simp: owned_def)
    ultimately show ?thesis using ok c Some p by (simp add: st' io_ok_def get_universe_def)
  next
    case None
    define c where "c = length (objs st)"
    define st1 where "st1 = st\<lparr>objs := objs st @ [new_ftdi_universe i dummy], dongle_map := om_update i c (dongle_map st)\<rparr>"
    define st2 where "st2 = snd (unlink_universe i st1)"
    have st': "st' = keep c (check_update_required_from_registration c st2)" and p: "p = Some c"
      using res None by (auto simp: register_universe_def Let_def st2_def st1_def keep_def c_def bind_res_Inr_iff)
    have st2: "objs st2 = objs st @ [new_ftdi_universe i dummy]" "dongle_map st2 = om_update i c (dongle_map st)"
      "active_universes st2 = active_universes st" "held st2 = held st" "sent st2 = sent st"
      by (auto simp: st2_def st1_def unlink_universe_def)
    have nd: "map_of (nodes st2) j = (if j = i then None else map_of (nodes st) j)" "om_ok (nodes st2)" for j
      using omn by (auto simp: st2_def st1_def unlink_universe_def map_of_om_erase om_ok_erase)
    have dm: "map_of (dongle_map st2) j = (if j = i then Some c else map_of (dongle_map st) j)" "om_ok (dongle_map st2)" for j
      using omd by (auto simp: st2 map_of_om_update om_ok_update)
    have bound: "a < length (objs st)" if "a \<in> set (active_universes st) \<union> set (held st)" for a
      using own that by (auto simp: owned_def)
    have ids: "id_of st2 a = id_of st a \<and> u_type (objs st2 ! a) = u_type (objs st ! a)" if "a < length (objs st)" for a
      using that by (simp add: id_of_def st2 nth_append)
    have idc: "id_of st2 c = i" "u_type (objs st2 ! c) = FTDI" by (simp_all add: id_of_def st2 c_def nth_append)
    have al: "alive st a" if a: "a \<in> set (active_universes st)" "a = c \<or> alive st2 a" for a
    proof -
      have "a \<noteq> c" using bound a(1) c_def by fastforce
      then show ?thesis using a(2) alive_iff [OF nd(2) dm(2), of a] nd(1) dm(1) st2 unfolding al_st
        by (metis option.discI option.inject)
    qed
    have "listed st'"
      unfolding st' by (rule listed_register [OF li]) (use st2 ids bound al nd idc in auto)
    moreover have "owned st'"
    proof -
      have f: "objs st' = objs st2" "nodes st' = nodes st2" "dongle_map st' = dongle_map st2" "held st' = c # held st"
        "active_universes st' = replace_same_id (keep c st2) c (active_universes st)" "id_of st' = id_of st2"
        using st2 by (simp_all add: st' check_update_required_from_registration_def keep_def id_of_def fun_eq_iff)
      have c: "c < length (objs st2)" and len: "length (objs st) \<le> length (objs st2)" by (simp_all add: c_def st2)
      show ?thesis
      proof (rule ownedI, unfold f)
        show "om_ok (nodes st2)" "om_ok (dongle_map st2)" by (fact nd(2), fact dm(2))
      next
        fix j r assume "map_of (nodes st2) j = Some r"
        then have r: "map_of (nodes st) j = Some r" "j \<noteq> i" using nd(1) [of j] by (auto split: if_splits)
        from owned_node [OF own r(1)] show "node_ptr r < length (objs st2) \<and> id_of st2 (node_ptr r) = j
            \<and> u_type (objs st2 ! node_ptr r) = ARTNET \<and> map_of (dongle_map st2) j = None"
          using ids [of "node_ptr r"] len dm(1) [of j] r(2) by simp
      next
        fix j a assume a: "map_of (dongle_map st2) j = Some a"
        show "a < length (objs st2) \<and> id_of st2 a = j \<and> u_type (objs st2 ! a) = FTDI"
        proof (cases "j = i")
          case True
          then show ?thesis using a dm(1) idc c by simp
        next
          case False
          then have "map_of (dongle_map st) j = Some a" using a dm(1) by simp
          from owned_dongle [OF own this] show ?thesis using ids [of a] len by simp
        qed
      next
        fix a assume "a \<in> set (replace_same_id (keep c st2) c (active_universes st))"
        then have "a = c \<or> a \<in> set (active_universes st)" using set_replace_same_id by fast
        then show "a < length (objs st2)" using bound c len by (auto intro: less_le_trans)
      next
        fix a assume "a \<in> set (c # held st)"
        then show "a < length (objs st2)" using bound c len by (auto intro: less_le_trans)
      qed
    qed
    moreover have "objs st' = objs st2" "sent st' = sent st" "nodes st' = nodes st2" "dongle_map st' = dongle_map st2"
      using st2 by (simp_all add: st' check_update_required_from_registration_def)
    ultimately show ?thesis
      using ok dat p dm idc data_ok_new_ftdi by (simp add: io_ok_def get_universe_def id_of_def st2(1))
  qed
qed

lemma unlink_cases:
  "unlink_universe i st = (found, st1) \<Longrightarrow> om_ok (nodes st) \<Longrightarrow>
   found = (map_of (nodes st) i \<noteq> None) \<and> (\<forall>j. map_of (nodes st1) j = (if j = i then None else map_of (nodes st) j))
   \<and> om_ok (nodes st1) \<and> objs st1 = objs st \<and> dongle_map st1 = dongle_map st \<and> held st1 = held st
   \<and> active_universes st1 = active_universes st \<and> sent st1 = sent st"
  by (auto simp: unlink_universe_def map_of_om_erase om_ok_erase split: if_splits)

lemma unregister_ok:
  assumes ok: "io_ok st"
  shows "io_ok (unregister_universe i st) \<and> get_universe i (unregister_universe i st) = None
    \<and> (\<forall>a \<in> set (active_universes (unregister_universe i st)). id_of (unregister_universe i st) a \<noteq> i)"
proof -
  have own: "owned st" and li: "listed st" using ok by (simp_all add: io_ok_def)
  have omd: "om_ok (dongle_map st)" and omn: "om_ok (nodes st)" using own by (simp_all add: owned_def)
  obtain found st1 where ul: "unlink_universe i st = (found, st1)" by fastforce
  note u = unlink_cases [OF ul omn]
  define st2 where "st2 = (if \<not> found \<and> map_of (dongle_map st1) i \<noteq> None
                 then st1\<lparr>dongle_map := om_erase i (dongle_map st1)\<rparr> else st1)"
  define P where "P = (\<lambda>a. \<not> (\<not> alive st2 a \<or> u_id (objs st2 ! a) = i))"
  have st': "unregister_universe i st = st2\<lparr>active_universes := filter P (active_universes st2)\<rparr>"
    by (simp add: unregister_universe_def ul Let_def st2_def P_def)
  let ?f = "st2\<lparr>active_universes := filter P (active_universes st2)\<rparr>"
  have none: "map_of (dongle_map st) i = None" if found using u that own by (auto simp: owned_def)
  have st2: "objs st2 = objs st" "held st2 = held st" "active_universes st2 = active_universes st" "sent st2 = sent st"
      "nodes st2 = nodes st1"
    using u by (auto simp: st2_def)
  have dm: "map_of (dongle_map st2) j = (if j = i then None else map_of (dongle_map st) j)" "om_ok (dongle_map st2)" for j
    using u none omd by (auto simp: st2_def map_of_om_erase om_ok_erase)
  have nd: "map_of (nodes st2) j = (if j = i then None else map_of (nodes st) j)" "om_ok (nodes st2)" for j
    using u st2 by auto
  have alf: "alive ?f = alive st2" "id_of ?f = id_of st" by (auto simp: alive_def id_of_def st2 fun_eq_iff)
  have al: "alive st a" if "alive st2 a" for a
    using that alive_iff [OF nd(2) dm(2), of a] nd(1) dm(1) st2(2) unfolding alive_iff [OF omn omd]
    by (metis option.discI)
  have "listed ?f"
  proof (rule listed_shrink [OF li, where P = P])
    fix a assume a: "a \<in> set (active_universes st)" "P a" "alive ?f a"
    then have "id_of st a \<noteq> i" by (auto simp: P_def id_of_def st2)
    then show "alive st a \<and> id_of ?f a = id_of st a \<and> u_type (objs ?f ! a) = u_type (objs st ! a)
      \<and> (u_type (objs st ! a) = ARTNET \<longrightarrow> map_option node_ptr (map_of (nodes ?f) (id_of st a)) = map_option node_ptr (map_of (nodes st) (id_of st a)))"
      using al a(3) nd(1) unfolding alf by (simp add: st2(1))
  qed (simp add: st2)
  moreover have "owned ?f"
    using own nd dm st2 by (auto simp: owned_def id_of_def)
  moreover have "get_universe i ?f = None" using nd(1) dm(1) by (simp add: get_universe_def)
  moreover have "\<forall>a \<in> set (active_universes ?f). id_of ?f a \<noteq> i"
    unfolding alf by (auto simp: P_def id_of_def st2)
  ultimately show ?thesis using ok by (simp add: st' io_ok_def st2)
qed

subsection \<open>Sending\<close>

definition sends :: "'a io_state \<Rightarrow> nat \<Rightarrow> bool" where
  "sends st a \<longleftrightarrow> alive st a \<and> \<not> is_dummy (objs st ! a) \<and> u_type (objs st ! a) = ARTNET"

text \<open>The packet a universe sends next: its data with the next sequence number.\<close>

definition next_packet :: "'a io_state \<Rightarrow> nat \<Rightarrow> 'a \<times> u8 list" where
  "next_packet st a = (case map_of (nodes st) (id_of st a) of
     Some r \<Rightarrow> (node_address r, (u_data (objs st ! a))[12 := next_sequence (sequence_number r)]))"

definition same_shape :: "'a io_state \<Rightarrow> 'a io_state \<Rightarrow> bool" where
  "same_shape st st' \<longleftrightarrow> length (objs st') = length (objs st)
     \<and> (\<forall>a. id_of st' a = id_of st a \<and> u_type (objs st' ! a) = u_type (objs st ! a)
          \<and> is_dummy (objs st' ! a) = is_dummy (objs st ! a))
     \<and> alive st' = alive st \<and> active_universes st' = active_universes st \<and> held st' = held st
     \<and> dongle_map st' = dongle_map st
     \<and> (\<forall>i. map_option node_ptr (map_of (nodes st') i) = map_option node_ptr (map_of (nodes st) i))"

lemma same_shape_trans: "same_shape st st1 \<Longrightarrow> same_shape st1 st2 \<Longrightarrow> same_shape st st2"
  by (simp add: same_shape_def)

lemma same_shape_owned_listed:
  assumes sh: "same_shape st st'" and own: "owned st" and li: "listed st" and om: "om_ok (nodes st')"
  shows "owned st' \<and> listed st'"
proof
  show "owned st'"
  proof (rule ownedI)
    fix j r assume "map_of (nodes st') j = Some r"
    moreover have "map_option node_ptr (map_of (nodes st') j) = map_option node_ptr (map_of (nodes st) j)"
      using sh by (simp add: same_shape_def)
    ultimately obtain r0 where "map_of (nodes st) j = Some r0" "node_ptr r0 = node_ptr r"
      by (cases "map_of (nodes st) j") auto
    then show "node_ptr r < length (objs st') \<and> id_of st' (node_ptr r) = j \<and> u_type (objs st' ! node_ptr r) = ARTNET
        \<and> map_of (dongle_map st') j = None"
      using owned_node [OF own] sh unfolding same_shape_def by metis
  qed (use sh own om in \<open>auto simp: same_shape_def owned_def\<close>)
  have "id_of st' = id_of st" using sh by (simp add: same_shape_def fun_eq_iff)
  moreover have "\<exists>r. map_of (nodes st') (id_of st' a) = Some r \<and> node_ptr r = a"
    if "a \<in> set (active_universes st)" "alive st a" "u_type (objs st ! a) = ARTNET" for a
  proof -
    have "map_option node_ptr (map_of (nodes st) (id_of st a)) = Some a" using li that by (auto simp: listed_def)
    then have "map_option node_ptr (map_of (nodes st') (id_of st' a)) = Some a" using sh by (simp add: same_shape_def)
    then show ?thesis by (simp only: map_option_eq_Some)
  qed
  ultimately show "listed st'" using li sh by (simp add: listed_def same_shape_def)
qed

lemma data_ok_sequence: "data_ok u \<Longrightarrow> u_type u = ARTNET \<Longrightarrow> data_ok (update_sequence_number n u)"
  by (simp add: data_ok_def update_sequence_number_def)

lemma push_universe_ok:
  fixes st :: "'a io_state"
  assumes ok: "io_ok st" and a: "a \<in> set (active_universes st)" "sends st a"
  shows "\<exists>st'. push_universe a st = Inr st' \<and> io_ok st' \<and> same_shape st st'
    \<and> sent st' = sent st @ [next_packet st a]
    \<and> (\<forall>b. id_of st b \<noteq> id_of st a \<longrightarrow> next_packet st' b = next_packet st b)"
proof -
  have own: "owned st" and li: "listed st" and dat: "list_all data_ok (objs st)" using ok by (simp_all add: io_ok_def)
  have om: "om_ok (nodes st)" "om_ok (dongle_map st)" using own by (simp_all add: owned_def)
  have ty: "u_type (objs st ! a) = ARTNET" and al: "alive st a" using a(2) by (simp_all add: sends_def)
  obtain r where r: "map_of (nodes st) (id_of st a) = Some r" "node_ptr r = a"
    using li a(1) al ty by (auto simp: listed_def)
  have len: "a < length (objs st)" using own a(1) by (auto simp: owned_def)
  let ?r = "r\<lparr>sequence_number := next_sequence (sequence_number r)\<rparr>"
  let ?u = "update_sequence_number (next_sequence (sequence_number r)) (objs st ! a)"
  define st' where "st' = st\<lparr>nodes := om_update (id_of st a) ?r (nodes st), objs := (objs st)[a := ?u],
     sent := sent st @ [(node_address r, u_data ?u)]\<rparr>"
  have push: "push_universe a st = Inr st'"
    using r by (simp add: push_universe_def st'_def id_of_def Let_def)
  have nd: "map_of (nodes st') j = (if j = id_of st a then Some ?r else map_of (nodes st) j)" "om_ok (nodes st')" for j
    using om by (simp_all add: st'_def map_of_om_update om_ok_update)
  have u: "u_id ?u = u_id (objs st ! a)" "u_type ?u = u_type (objs st ! a)" "is_dummy ?u = is_dummy (objs st ! a)"
    by (simp_all add: update_sequence_number_def)
  have ptr: "map_option node_ptr (map_of (nodes st') j) = map_option node_ptr (map_of (nodes st) j)" for j
    using nd(1) r by simp
  have dm: "dongle_map st' = dongle_map st" "held st' = held st" by (simp_all add: st'_def)
  have om_dm: "om_ok (dongle_map st')" using om(2) dm by simp
  have "alive st' = alive st"
  proof
    fix b
    have some: "(\<exists>j r. map_of m j = Some r \<and> node_ptr r = b) \<longleftrightarrow> (\<exists>j. map_option node_ptr (map_of m j) = Some b)"
      for m :: "(int \<times> 'a node_registry) list" by auto
    show "alive st' b = alive st b"
      unfolding alive_iff [OF nd(2) om_dm, of b] alive_iff [OF om, of b] some ptr dm ..
  qed
  moreover have "id_of st' b = id_of st b \<and> u_type (objs st' ! b) = u_type (objs st ! b)
      \<and> is_dummy (objs st' ! b) = is_dummy (objs st ! b)" for b
    using u len by (cases "b = a") (simp_all add: st'_def id_of_def)
  moreover have "length (objs st') = length (objs st)" "active_universes st' = active_universes st"
    by (simp_all add: st'_def)
  ultimately have sh: "same_shape st st'"
    using ptr dm unfolding same_shape_def by blast
  have pk: "next_packet st a = (node_address r, u_data ?u)"
    using r by (simp add: next_packet_def update_sequence_number_def)
  have du: "data_ok (objs st ! a)" using dat len by (simp add: list_all_length)
  then have "packet_ok (u_data ?u)"
    using ty next_sequence_nonzero by (auto simp: packet_ok_def data_ok_def update_sequence_number_def)
  then have "list_all (packet_ok \<circ> snd) (sent st')" using ok by (simp add: io_ok_def st'_def)
  moreover have "list_all data_ok (objs st')"
    using dat data_ok_sequence [OF du ty] set_update_subset_insert [of "objs st" a ?u]
    by (auto simp: st'_def list_all_iff)
  ultimately have "io_ok st'" using same_shape_owned_listed [OF sh own li nd(2)] by (simp add: io_ok_def)
  moreover have "next_packet st' b = next_packet st b" if "id_of st b \<noteq> id_of st a" for b
  proof -
    have "b \<noteq> a" "id_of st' b = id_of st b" using that sh by (auto simp: same_shape_def)
    then have "objs st' ! b = objs st ! b" "map_of (nodes st') (id_of st' b) = map_of (nodes st) (id_of st b)"
      using nd(1) that by (simp_all add: st'_def)
    then show ?thesis unfolding next_packet_def by (cases "map_of (nodes st) (id_of st b)") simp_all
  qed
  ultimately show ?thesis using push sh pk by (auto simp: st'_def)
qed

lemma push_step_ok:
  assumes ok: "io_ok st" and a: "a \<in> set (active_universes st)"
  shows "\<exists>st'. push_step ftdi_send a (h, st) = Inr (h \<or> \<not> alive st a, st') \<and> io_ok st' \<and> same_shape st st'
    \<and> sent st' = sent st @ (if sends st a then [next_packet st a] else [])
    \<and> (\<forall>b. id_of st b \<noteq> id_of st a \<longrightarrow> next_packet st' b = next_packet st b)"
proof (cases "sends st a")
  case True
  then have "push_step ftdi_send a (h, st) = bind_res (push_universe a st) (\<lambda>st'. Inr (h, st'))"
    by (cases "push_universe a st") (auto simp: push_step_def publish_universe_update_def sends_def Let_def)
  then show ?thesis using push_universe_ok [OF ok a True] True by (auto simp: sends_def)
next
  case False
  have d: "data_ok (objs st ! a)"
    using ok a unfolding io_ok_def owned_def by (metis UnI1 list_all_length)
  have "same_shape st st" by (simp add: same_shape_def)
  moreover have "push_step ftdi_send a (h, st) = Inr (h \<or> \<not> alive st a, st)"
    using False d by (auto simp: push_step_def publish_universe_update_def sends_def Let_def data_ok_def split: universe_type.splits)
  ultimately show ?thesis using ok False by auto
qed

lemma push_step_idle:
  assumes "io_ok st" and "a \<in> set (active_universes st)" and "\<not> sends st a" and "push_step ftdi_send a (h, st) = Inr (h', st')"
  shows "st' = st"
proof -
  have "data_ok (objs st ! a)"
    using assms(1,2) unfolding io_ok_def owned_def by (metis UnI1 list_all_length)
  then show ?thesis
    using assms(3,4)
    by (auto simp: push_step_def publish_universe_update_def sends_def Let_def data_ok_def split: universe_type.splits if_splits)
qed

lemma push_steps_ok:
  "io_ok st \<Longrightarrow> set us \<subseteq> set (active_universes st) \<Longrightarrow> distinct (map (id_of st) (filter (alive st) us)) \<Longrightarrow>
   \<exists>st'. fold_res (push_step ftdi_send) us (h, st) = Inr (h \<or> \<not> list_all (alive st) us, st') \<and> io_ok st' \<and> same_shape st st'
    \<and> sent st' = sent st @ map (next_packet st) (filter (sends st) us)"
proof (induction us arbitrary: h st)
  case Nil
  then show ?case by (auto simp: same_shape_def)
next
  case (Cons a us)
  obtain st1 where st1: "push_step ftdi_send a (h, st) = Inr (h \<or> \<not> alive st a, st1)" "io_ok st1" and sh: "same_shape st st1"
    and sent1: "sent st1 = sent st @ (if sends st a then [next_packet st a] else [])"
    and pk: "\<And>b. id_of st b \<noteq> id_of st a \<Longrightarrow> next_packet st1 b = next_packet st b"
    using push_step_ok [OF Cons.prems(1), of a ftdi_send h] Cons.prems(2) by auto
  have eqs: "alive st1 = alive st" "id_of st1 = id_of st" "sends st1 = sends st" "active_universes st1 = active_universes st"
    using sh by (auto simp: same_shape_def sends_def fun_eq_iff)
  have d: "distinct (map (id_of st) (filter (alive st) us))" using Cons.prems(3) by (auto split: if_splits)
  then obtain st' where st': "fold_res (push_step ftdi_send) us (h \<or> \<not> alive st a, st1)
       = Inr ((h \<or> \<not> alive st a) \<or> \<not> list_all (alive st) us, st')" "io_ok st'" "same_shape st1 st'"
      "sent st' = sent st1 @ map (next_packet st1) (filter (sends st) us)"
    using Cons.IH [of st1 "h \<or> \<not> alive st a"] st1(2) Cons.prems(2) unfolding eqs by auto
  have "sends st a \<Longrightarrow> b \<in> set (filter (sends st) us) \<Longrightarrow> id_of st b \<noteq> id_of st a" for b
    using Cons.prems(3) by (auto simp: sends_def) (metis (mono_tags, lifting) image_eqI mem_Collect_eq)
  then have "sends st a \<Longrightarrow> map (next_packet st1) (filter (sends st) us) = map (next_packet st) (filter (sends st) us)"
    using pk by auto
  moreover have "\<not> sends st a \<Longrightarrow> st1 = st"
    using st1(1) Cons.prems(1,2) push_step_idle by auto
  ultimately have "sent st' = sent st @ map (next_packet st) (filter (sends st) (a # us))"
    using st'(4) sent1 by (cases "sends st a") auto
  then show ?case using st1(1) st'(1,2) same_shape_trans [OF sh st'(3)] by auto
qed

lemma push_all_ok:
  fixes st :: "'a io_state"
  assumes ok: "io_ok st"
  shows "\<exists>st'. push_all_registered_universes ftdi_send st = Inr (list_all (alive st) (active_universes st), st') \<and> io_ok st'
    \<and> sent st' = sent st @ map (next_packet st) (filter (sends st) (active_universes st))
    \<and> active_universes st' = filter (alive st) (active_universes st)"
proof -
  let ?us = "active_universes st"
  have "distinct (map (id_of st) (filter (alive st) ?us))" using ok by (simp add: io_ok_def listed_def)
  then obtain st1 where run: "fold_res (push_step ftdi_send) ?us (False, st) = Inr (\<not> list_all (alive st) ?us, st1)"
    and ok1: "io_ok st1" and sh: "same_shape st st1" and sent1: "sent st1 = sent st @ map (next_packet st) (filter (sends st) ?us)"
    using push_steps_ok [OF ok, of ?us ftdi_send False] by auto
  have eqs: "active_universes st1 = ?us" "alive st1 = alive st" using sh by (simp_all add: same_shape_def)
  show ?thesis
  proof (cases "list_all (alive st) ?us")
    case True
    then have "filter (alive st) ?us = ?us" by (simp add: list_all_iff)
    then show ?thesis using run ok1 sent1 eqs True by (simp add: push_all_registered_universes_def)
  next
    case False
    let ?f = "st1\<lparr>active_universes := filter (alive st1) (active_universes st1)\<rparr>"
    have "alive ?f = alive st1" "id_of ?f = id_of st1" by (auto simp: alive_def id_of_def fun_eq_iff)
    then have "owned ?f" "listed ?f"
      using ok1 by (auto simp: io_ok_def owned_def listed_def)
    then have "io_ok ?f" using ok1 by (simp add: io_ok_def)
    then show ?thesis using run sent1 eqs False by (simp add: push_all_registered_universes_def)
  qed
qed

subsection \<open>Reachable states\<close>

text \<open>
  What happens between two rounds of sending: universes are registered and given up, a filter
  writes a channel (0 to 511) of a universe it has, and someone drops a pointer.
\<close>

inductive io_reachable ::
  "('d \<Rightarrow> unit result) \<Rightarrow> (universe \<Rightarrow> bool) \<Rightarrow> 'a io_state \<Rightarrow> bool" for ftdi_open ftdi_send where
  io_start: "io_reachable ftdi_open ftdi_send empty_io"
| io_register: "io_reachable ftdi_open ftdi_send st \<Longrightarrow> register_universe ftdi_open i loc dummy st = Inr (p, st') \<Longrightarrow>
    io_reachable ftdi_open ftdi_send st'"
| io_unregister: "io_reachable ftdi_open ftdi_send st \<Longrightarrow> io_reachable ftdi_open ftdi_send (unregister_universe i st)"
| io_push: "io_reachable ftdi_open ftdi_send st \<Longrightarrow> push_all_registered_universes ftdi_send st = Inr (b, st') \<Longrightarrow>
    io_reachable ftdi_open ftdi_send st'"
| io_write: "io_reachable ftdi_open ftdi_send st \<Longrightarrow> alive st a \<Longrightarrow> p < 512 \<Longrightarrow> write_channel p v (objs st ! a) = Inr u \<Longrightarrow>
    io_reachable ftdi_open ftdi_send (st\<lparr>objs := (objs st)[a := u]\<rparr>)"
| io_drop: "io_reachable ftdi_open ftdi_send st \<Longrightarrow> io_reachable ftdi_open ftdi_send (st\<lparr>held := remove1 a (held st)\<rparr>)"

lemma io_ok_empty: "io_ok empty_io"
  by (simp add: io_ok_def owned_def listed_def empty_io_def om_ok_def)

lemma write_channel_data_ok:
  "data_ok u \<Longrightarrow> p < 512 \<Longrightarrow> write_channel p v u = Inr u' \<Longrightarrow>
   data_ok u' \<and> u_id u' = u_id u \<and> u_type u' = u_type u \<and> is_dummy u' = is_dummy u"
  by (auto simp: data_ok_def write_channel_def channel_offset_def artnet_pkg_size_def split: if_splits)

lemma write_channel_in_range: "data_ok u \<Longrightarrow> p < 512 \<Longrightarrow> \<exists>u'. write_channel p v u = Inr u'"
  by (auto simp: data_ok_def write_channel_def channel_offset_def artnet_pkg_size_def)

lemma write_ok:
  assumes ok: "io_ok st" and al: "alive st a" and p: "p < 512" "write_channel p v (objs st ! a) = Inr u"
  shows "io_ok (st\<lparr>objs := (objs st)[a := u]\<rparr>)"
proof -
  let ?f = "st\<lparr>objs := (objs st)[a := u]\<rparr>"
  have own: "owned st" and li: "listed st" and dat: "list_all data_ok (objs st)" using ok by (simp_all add: io_ok_def)
  have len: "a < length (objs st)" using alive_bound [OF own al] .
  have u: "data_ok u" "u_id u = u_id (objs st ! a)" "u_type u = u_type (objs st ! a)" "is_dummy u = is_dummy (objs st ! a)"
    using write_channel_data_ok [OF _ p] dat len by (simp_all add: list_all_length)
  have "id_of ?f b = id_of st b \<and> u_type (objs ?f ! b) = u_type (objs st ! b) \<and> is_dummy (objs ?f ! b) = is_dummy (objs st ! b)" for b
    using u len by (cases "b = a") (simp_all add: id_of_def)
  moreover have "alive ?f = alive st" by (auto simp: alive_def fun_eq_iff)
  ultimately have sh: "same_shape st ?f" by (simp add: same_shape_def)
  have "om_ok (nodes ?f)" using own by (simp add: owned_def)
  note ol = same_shape_owned_listed [OF sh own li this]
  have "list_all data_ok (objs ?f)"
    using dat u(1) set_update_subset_insert [of "objs st" a u] by (auto simp: list_all_iff)
  then show ?thesis using ol ok by (simp add: io_ok_def)
qed

lemma drop_ok:
  assumes ok: "io_ok st"
  shows "io_ok (st\<lparr>held := remove1 a (held st)\<rparr>)"
proof -
  let ?f = "st\<lparr>held := remove1 a (held st)\<rparr>"
  have own: "owned st" and li: "listed st" using ok by (simp_all add: io_ok_def)
  have sub: "set (remove1 a (held st)) \<subseteq> set (held st)" by (rule set_remove1_subset)
  have al: "alive st b" if "alive ?f b" for b using that sub by (auto simp: alive_def)
  have ido: "id_of ?f = id_of st" by (simp add: id_of_def fun_eq_iff)
  have "owned ?f" using own sub by (auto simp: owned_def ido)
  moreover have "listed ?f"
    by (rule listed_shrink [OF li, where P = "\<lambda>_. True"]) (use al in \<open>simp_all add: ido\<close>)
  ultimately show ?thesis using ok by (simp add: io_ok_def)
qed

lemma register_ok:
  assumes "io_ok st" and "register_universe ftdi_open i loc dummy st = Inr (p, st')"
  shows "io_ok st' \<and> (loc \<noteq> Local_location \<longrightarrow> (\<exists>c. p = Some c \<and> get_universe i st' = Some c \<and> id_of st' c = i))
    \<and> sent st' = sent st"
proof (cases loc)
  case (Artnet_location address dev)
  with register_artnet_ok [OF assms(1) assms(2) [unfolded Artnet_location]] show ?thesis by simp
next
  case (Ftdi_location d)
  with register_ftdi_ok [OF assms(1) assms(2) [unfolded Ftdi_location]] show ?thesis by simp
next
  case Local_location
  then show ?thesis using assms by (auto simp: register_universe_def)
qed

lemma io_reachable_ok: "io_reachable ftdi_open ftdi_send st \<Longrightarrow> io_ok st"
proof (induction rule: io_reachable.induct)
  case io_start
  show ?case by (rule io_ok_empty)
next
  case (io_register st i loc dummy p st')
  then show ?case using register_ok by blast
next
  case (io_unregister st i)
  then show ?case using unregister_ok by blast
next
  case (io_push st b st')
  then have "io_ok st" by simp
  then obtain st1 where "push_all_registered_universes ftdi_send st = Inr (list_all (alive st) (active_universes st), st1)" "io_ok st1"
    using push_all_ok by blast
  then show ?case using io_push by simp
next
  case (io_write st a p v u)
  then show ?case using write_ok by blast
next
  case (io_drop st a)
  then show ?case using drop_ok by blast
qed

subsection \<open>Channel values\<close>

definition channel_value :: "universe \<Rightarrow> nat \<Rightarrow> u8" where
  "channel_value u c = u_data u ! (channel_offset (u_type u) + c)"

lemma write_channel_value:
  "data_ok u \<Longrightarrow> p < 512 \<Longrightarrow> write_channel p v u = Inr u' \<Longrightarrow>
   channel_value u' c = (if c = p then v else channel_value u c)"
  by (auto simp: write_channel_def channel_value_def data_ok_def split: if_splits)

subsection \<open>What the output side guarantees\<close>

text \<open>
  C5. Sending round: in every reachable state, whatever was registered, given up, written or
  dropped before, the round does not fail. It sends exactly one packet for every living Art-Net
  universe of the list that is no dummy, in the order of the list, each with the next sequence
  number and to the address of its node; it answers true exactly if no entry was dead, and
  afterwards the list has the living entries in the same order.
\<close>

theorem push_all_sends_each_universe_once:
  assumes "io_reachable ftdi_open ftdi_send st"
  shows "\<exists>st'. push_all_registered_universes ftdi_send st = Inr (list_all (alive st) (active_universes st), st')
    \<and> sent st' = sent st @ map (next_packet st) (filter (sends st) (active_universes st))
    \<and> active_universes st' = filter (alive st) (active_universes st)"
  using push_all_ok [OF io_reachable_ok [OF assms], of ftdi_send] by blast

text \<open>
  C24. Packets: every packet that ever leaves has the 530 bytes of an Art-Net DMX packet of 512
  channels, starts with the Art-Net header, has the length field 512 and a sequence number other
  than 0, because no reachable write to a channel touches the header.
\<close>

theorem sent_packets_well_formed:
  assumes "io_reachable ftdi_open ftdi_send st" and "(address, p) \<in> set (sent st)"
  shows "length p = 530 \<and> take 12 p = artnet_header \<and> p ! 12 \<noteq> 0 \<and> unat (p ! 16) * 256 + unat (p ! 17) = 512"
proof -
  have "packet_ok p" using io_reachable_ok [OF assms(1)] assms(2) by (auto simp: io_ok_def list_all_iff)
  then show ?thesis by (simp add: packet_ok_def)
qed

text \<open>
  Registration: after a universe was registered on Art-Net or on a dongle, looking up its id
  finds the universe that was returned, it has this id, and no two living entries of the list of
  active universes have the same id, also if the id was on the other kind of device before.
\<close>

theorem register_then_get:
  assumes "io_reachable ftdi_open ftdi_send st" and "loc \<noteq> Local_location"
    and "register_universe_from_xml ftdi_open i loc dummy st = Inr (p, st')"
  shows "p \<noteq> None \<and> get_universe i st' = p \<and> u_id (objs st' ! the p) = i
    \<and> distinct (map (id_of st') (filter (alive st') (active_universes st')))"
proof -
  have "register_universe ftdi_open i loc dummy st = Inr (p, st')"
    using assms(3) by (simp add: register_universe_from_xml_def)
  from register_ok [OF io_reachable_ok [OF assms(1)] this] assms(2)
  show ?thesis by (auto simp: io_ok_def listed_def id_of_def)
qed

text \<open>
  Unregistration: afterwards the id is not found any more, and no entry of the list of
  universes given to the clients has it.
\<close>

theorem unregister_forgets:
  assumes "io_reachable ftdi_open ftdi_send st"
  shows "get_universe i (unregister_universe i st) = None
    \<and> i \<notin> u_id ` ((!) (objs (unregister_universe i st))) ` set (get_universe_list (unregister_universe i st))"
  using unregister_ok [OF io_reachable_ok [OF assms], of i] by (auto simp: get_universe_list_def id_of_def)

text \<open>
  Moving a universe on its node: registering a known universe with another universe number of
  the device changes the registry and the address, but not the packet: the next packet goes out
  with the old universe number, because \<open>update_device_universe\<close> is not called.
\<close>

theorem moved_universe_keeps_old_number:
  assumes "io_reachable ftdi_open ftdi_send st" and "map_of (nodes st) i = Some r"
    and "get_or_create_universe i address dev dummy st = (a, st')"
  shows "a = node_ptr r \<and> u_data (objs st' ! a) = u_data (objs st ! a)
    \<and> map_option device_universe_id (map_of (nodes st') i) = Some dev"
proof -
  have own: "owned st" using io_reachable_ok [OF assms(1)] by (simp add: io_ok_def)
  have om: "om_ok (nodes st)" and len: "node_ptr r < length (objs st)"
    using own owned_node [OF own assms(2)] by (simp_all add: owned_def)
  show ?thesis
    using assms(2,3) len unfolding get_or_create_universe_def Let_def new_node_registry_def
    by (auto simp: map_of_om_update [OF om] simp del: map_of_eq_Some_iff split: if_splits)
qed

definition demo_io :: "string io_state" where
  "demo_io = \<lparr>objs = [new_artnet_universe 1 4 False], nodes = [(1, new_node_registry 1 4 ''10.0.0.7'' 0)],
     dongle_map = [], active_universes = [0], held = [0], sent = []\<rparr>"

lemma demo_io_register:
  "register_universe_from_xml f 1 (Artnet_location ''10.0.0.7'' 4) False empty_io = Inr (Some 0, demo_io)"
  by (simp add: register_universe_from_xml_def register_universe_def get_or_create_universe_def Let_def empty_io_def demo_io_def
      check_update_required_from_registration_def)

lemma demo_io_reachable: "io_reachable (\<lambda>_ :: unit. Inr ()) (\<lambda>_. True) demo_io"
  by (rule io_register [OF io_start])
    (rule demo_io_register [unfolded register_universe_from_xml_def])

lemma demo_io_sends: "sends demo_io 0" "alive demo_io 0"
  by (simp_all add: sends_def alive_def demo_io_def new_node_registry_def new_artnet_universe_def Let_def
      update_device_universe_def update_physical_id_def update_sequence_number_def)

theorem push_all_sends_each_universe_once_witness:
  "\<exists>st'. push_all_registered_universes (\<lambda>_. True) demo_io = Inr (True, st')
     \<and> sent st' = [(''10.0.0.7'', artnet_header @ [2, 0, 4, 0, 2, 0] @ replicate 512 0)]"
proof -
  have data: "u_data (objs demo_io ! 0) = artnet_header @ [0, 0, 4, 0, 2, 0] @ replicate 512 0"
    by (simp add: demo_io_def new_artnet_data)
  have n: "map_of (nodes demo_io) (id_of demo_io 0) = Some (new_node_registry 1 4 ''10.0.0.7'' 0)"
    by (simp add: demo_io_def id_of_def)
  have "next_packet demo_io 0 = (''10.0.0.7'', artnet_header @ [2, 0, 4, 0, 2, 0] @ replicate 512 0)"
    unfolding next_packet_def n data
    by (simp add: artnet_header_def new_node_registry_def next_sequence_def list_update_literal)
  moreover have "active_universes demo_io = [0]" "sent demo_io = []" by (simp_all add: demo_io_def)
  ultimately show ?thesis
    using push_all_sends_each_universe_once [OF demo_io_reachable] demo_io_sends by auto
qed

theorem sent_packets_well_formed_witness:
  "\<exists>st' p. push_all_registered_universes (\<lambda>_. True) demo_io = Inr (True, st') \<and> (''10.0.0.7'', p) \<in> set (sent st') \<and> p ! 12 \<noteq> 0"
proof -
  obtain st' where st': "push_all_registered_universes (\<lambda>_. True) demo_io = Inr (True, st')"
      "sent st' = map (next_packet demo_io) [0]"
    using push_all_ok [OF io_reachable_ok [OF demo_io_reachable], of "\<lambda>_. True"] demo_io_sends
    by (auto simp: demo_io_def)
  have r: "io_reachable (\<lambda>_ :: unit. Inr ()) (\<lambda>_. True) st'" using io_push [OF demo_io_reachable st'(1)] .
  have "fst (next_packet demo_io 0) = ''10.0.0.7''"
    by (simp add: next_packet_def demo_io_def id_of_def new_node_registry_def)
  then have m: "(''10.0.0.7'', snd (next_packet demo_io 0)) \<in> set (sent st')" using st'(2) by (auto simp: prod_eq_iff)
  then show ?thesis using sent_packets_well_formed [OF r m] st'(1) by blast
qed

theorem register_then_get_witness:
  "register_universe_from_xml (\<lambda>_ :: unit. Inr ()) 1 (Artnet_location ''10.0.0.7'' 4) False empty_io = Inr (Some 0, demo_io)
   \<and> get_universe 1 demo_io = Some 0"
proof -
  have s: "io_reachable (\<lambda>_ :: unit. Inr ()) (\<lambda>_. True) (empty_io :: string io_state)" by (rule io_start)
  show ?thesis using register_then_get [OF s _ demo_io_register] demo_io_register by simp
qed

theorem unregister_forgets_witness:
  "get_universe 1 demo_io = Some 0 \<and> get_universe 1 (unregister_universe 1 demo_io) = None"
  using unregister_forgets [OF demo_io_reachable, of 1] by (simp add: get_universe_def demo_io_def new_node_registry_def)

theorem moved_universe_keeps_old_number_witness:
  "\<exists>st'. get_or_create_universe 1 ''10.0.0.7'' 5 False demo_io = (0, st')
     \<and> map_option device_universe_id (map_of (nodes st') 1) = Some 5 \<and> u_data (objs st' ! 0) ! 14 = 4"
proof -
  obtain a st' where g: "get_or_create_universe 1 ''10.0.0.7'' 5 False demo_io = (a, st')" by fastforce
  have m: "map_of (nodes demo_io) 1 = Some (new_node_registry 1 4 ''10.0.0.7'' 0)" by (simp add: demo_io_def)
  have "u_data (objs demo_io ! 0) ! 14 = 4"
    by (simp add: demo_io_def new_artnet_data artnet_header_def)
  moreover have "u_data (objs st' ! a) = u_data (objs demo_io ! a)"
      "map_option device_universe_id (map_of (nodes st') 1) = Some 5"
    using moved_universe_keeps_old_number [OF demo_io_reachable m g] by blast+
  moreover have "a = 0"
    using moved_universe_keeps_old_number [OF demo_io_reachable m g] by (simp add: new_node_registry_def)
  ultimately show ?thesis using g by metis
qed

end
