(* ===== verification/Doubles.thy ===== *)
theory Doubles
  imports Complex_Main Std_Strings
begin

text \<open>
  The type \<open>double\<close> as IEEE 754 binary64 with rounding to nearest, ties to even: a finite value is
  the real number it stands for, and every operation of the code is the exact operation followed
  by \<open>rnd\<close>. The two zeros are one value. Comparisons with a NaN are false, and a conversion to an
  integer type whose range does not hold the value is undefined behaviour. \<open>stod\<close> is
  \<open>std::stod\<close>.
\<close>

datatype double = Num real | Inf bool | NaN

subsection \<open>Rounding\<close>

definition round_half_even :: "real \<Rightarrow> int" where
  "round_half_even x =
     (let f = \<lfloor>x\<rfloor>; r = x - of_int f
      in if r < 1 / 2 then f else if r > 1 / 2 then f + 1 else if even f then f else f + 1)"

definition ulp_exponent :: "real \<Rightarrow> int" where
  "ulp_exponent x = max (\<lfloor>log 2 \<bar>x\<bar>\<rfloor> - 52) (- 1074)"

definition rnd :: "real \<Rightarrow> double" where
  "rnd x =
     (if x = 0 then Num 0
      else let e = ulp_exponent x;
               y = of_int (round_half_even (x / 2 powi e)) * 2 powi e
           in if \<bar>y\<bar> \<ge> 2 ^ 1024 then Inf (x < 0) else Num y)"

lemma round_half_even_int [simp]: "round_half_even (of_int n) = n"
  by (simp add: round_half_even_def)

lemma floor_log_bound:
  assumes "n \<noteq> (0 :: int)" and "\<bar>n\<bar> < 2 ^ k"
  shows "0 \<le> \<lfloor>log 2 \<bar>of_int n :: real\<bar>\<rfloor>" and "\<lfloor>log 2 \<bar>of_int n :: real\<bar>\<rfloor> < int k"
proof -
  have one: "1 \<le> \<bar>real_of_int n\<bar>" using assms(1) by linarith
  then show "0 \<le> \<lfloor>log 2 \<bar>of_int n :: real\<bar>\<rfloor>" by simp
  have "real_of_int \<bar>n\<bar> < real_of_int (2 ^ k)" using assms(2) by (simp only: of_int_less_iff)
  then have "\<bar>real_of_int n\<bar> < 2 powr real k" by (simp add: powr_realpow)
  then have "log 2 \<bar>real_of_int n\<bar> < real k" using one by (simp add: log_less_iff)
  then show "\<lfloor>log 2 \<bar>of_int n :: real\<bar>\<rfloor> < int k" by (simp add: floor_less_iff)
qed

text \<open>The reals \<open>m * 2 powi e\<close> with \<open>m\<close> of up to 53 bits are doubles, the integers among them.\<close>

lemma rnd_scaled_less:
  assumes m: "\<bar>m\<bar> < (2 :: int) ^ 53" and e: "- 1074 \<le> e" and b: "\<bar>of_int m * 2 powi e\<bar> < (2 :: real) ^ 1024"
  shows "rnd (of_int m * 2 powi e) = Num (of_int m * 2 powi e)"
proof (cases "m = 0")
  case False
  define x where "x = of_int m * (2 :: real) powi e"
  have p: "(2 :: real) powi e > 0" by simp
  then have ab: "\<bar>x\<bar> = \<bar>of_int m\<bar> * 2 powi e" by (simp add: x_def abs_mult)
  have x0: "x \<noteq> 0" using False p by (simp add: x_def)
  have lg: "log 2 \<bar>x\<bar> = log 2 \<bar>of_int m\<bar> + of_int e"
    using False p unfolding ab by (simp add: log_mult flip: powr_real_of_int')
  have "\<lfloor>log 2 \<bar>x\<bar>\<rfloor> \<le> 52 + e" unfolding lg using floor_log_bound(2) [OF False m] by simp
  then have le: "ulp_exponent x \<le> e" using e by (simp add: ulp_exponent_def)
  define k where "k = nat (e - ulp_exponent x)"
  have "e = int k + ulp_exponent x" using le by (simp add: k_def)
  then have "(2 :: real) powi e = 2 ^ k * 2 powi ulp_exponent x" by (simp add: power_int_add)
  then have "x = of_int (m * 2 ^ k) * 2 powi ulp_exponent x" using x_def by simp
  then have "x / 2 powi ulp_exponent x = of_int (m * 2 ^ k)"
    by (metis nonzero_eq_divide_eq power_int_not_zero zero_neq_numeral)
  then have "of_int (round_half_even (x / 2 powi ulp_exponent x)) * 2 powi ulp_exponent x = x"
    by (metis (no_types, lifting) nonzero_eq_divide_eq power_int_not_zero round_half_even_int zero_neq_numeral)
  then have "rnd x = Num x" using x0 b by (simp add: rnd_def Let_def x_def [symmetric])
  then show ?thesis by (simp add: x_def)
qed (simp add: rnd_def)

lemma rnd_scaled:
  assumes m: "\<bar>m\<bar> \<le> (2 :: int) ^ 53" and e: "- 1074 \<le> e" and b: "\<bar>of_int m * 2 powi e\<bar> < (2 :: real) ^ 1024"
  shows "rnd (of_int m * 2 powi e) = Num (of_int m * 2 powi e)"
proof (cases "\<bar>m\<bar> < 2 ^ 53")
  case True
  then show ?thesis using rnd_scaled_less [OF _ e b] by simp
next
  case False
  then have "m = 2 ^ 53 \<or> m = - (2 ^ 53)" using m by linarith
  then have m': "m = sgn m * 2 ^ 52 * 2" by auto
  have "of_int m * (2 :: real) powi e = of_int (sgn m * 2 ^ 52) * 2 powi (e + 1)"
    using arg_cong [OF m', of "\<lambda>i. of_int i * (2 :: real) powi e"] by (simp add: power_int_add)
  moreover have "\<bar>sgn m * 2 ^ 52\<bar> < (2 :: int) ^ 53" by (simp add: abs_mult sgn_if)
  ultimately show ?thesis using rnd_scaled_less [of "sgn m * 2 ^ 52" "e + 1"] e b by simp
qed

lemma rnd_int:
  assumes "\<bar>n\<bar> < (2 :: int) ^ 53"
  shows "rnd (of_int n) = Num (of_int n)"
proof -
  have "\<bar>real_of_int n\<bar> < 2 ^ 53" using assms by (metis of_int_abs of_int_less_iff of_int_numeral of_int_power)
  also have "(2 :: real) ^ 53 \<le> 2 ^ 1024" by (rule power_increasing) simp_all
  finally show ?thesis using rnd_scaled_less [OF assms, of 0] by simp
qed

lemma rnd_nat: "n < 2 ^ 53 \<Longrightarrow> rnd (of_nat n) = Num (of_nat n)"
  using rnd_int [of "int n"] by (metis abs_of_nat of_int_of_nat_eq of_nat_less_numeral_power_cancel_iff)

lemma round_half_even_bounds: "x - 1 / 2 \<le> of_int (round_half_even x) \<and> of_int (round_half_even x) \<le> x + 1 / 2"
proof -
  have f: "of_int \<lfloor>x\<rfloor> \<le> x" "x < of_int \<lfloor>x\<rfloor> + 1" by simp_all
  show ?thesis
  proof (cases "x - of_int \<lfloor>x\<rfloor>" "1 / 2 :: real" rule: linorder_cases)
    case less
    then have "round_half_even x = \<lfloor>x\<rfloor>" by (simp add: round_half_even_def Let_def)
    then show ?thesis using f less by (intro conjI) linarith+
  next
    case equal
    then show ?thesis by (simp add: round_half_even_def Let_def)
  next
    case greater
    then have "round_half_even x = \<lfloor>x\<rfloor> + 1" by (simp add: round_half_even_def Let_def)
    then show ?thesis using f greater by (intro conjI) linarith+
  qed
qed

lemma round_half_even_le: "\<bar>x\<bar> < of_int k \<Longrightarrow> \<bar>round_half_even x\<bar> \<le> k"
proof -
  assume "\<bar>x\<bar> < of_int k"
  then have "of_int (round_half_even x) < (of_int (k + 1) :: real)" "(of_int (- k - 1) :: real) < of_int (round_half_even x)"
    using round_half_even_bounds [of x] by auto
  then have "round_half_even x < k + 1" "- k - 1 < round_half_even x" by (simp_all only: of_int_less_iff)
  then show ?thesis by linarith
qed

text \<open>Rounding a rounded number changes nothing.\<close>

lemma rnd_form:
  assumes "rnd x = Num y"
  shows "\<exists>m e. \<bar>m\<bar> \<le> (2 :: int) ^ 53 \<and> - 1074 \<le> e \<and> y = of_int m * 2 powi e \<and> \<bar>y\<bar> < 2 ^ 1024"
proof (cases "x = 0")
  case True
  then have "y = of_int 0 * 2 powi 0" using assms by (simp add: rnd_def)
  then show ?thesis by (intro exI [of _ 0]) (auto intro: exI [of _ "0 :: int"])
next
  case False
  define e where "e = ulp_exponent x"
  have "log 2 \<bar>x\<bar> < of_int e + 53" unfolding e_def ulp_exponent_def by linarith
  then have "\<bar>x\<bar> < 2 powr (of_int e + 53)" using False by (simp add: log_less_iff)
  also have "\<dots> = 2 powi e * 2 ^ 53"
    by (simp add: powr_add powr_real_of_int' power_int_add)
  finally have "\<bar>x / 2 powi e\<bar> < of_int (2 ^ 53)" by (simp add: pos_divide_less_eq mult.commute)
  then have "\<bar>round_half_even (x / 2 powi e)\<bar> \<le> 2 ^ 53" by (rule round_half_even_le)
  moreover have "- 1074 \<le> e" by (simp add: e_def ulp_exponent_def)
  moreover have "y = of_int (round_half_even (x / 2 powi e)) * 2 powi e" "\<bar>y\<bar> < 2 ^ 1024"
    using assms False by (auto simp: rnd_def Let_def e_def split: if_splits)
  ultimately show ?thesis by blast
qed

lemma rnd_idem: "rnd x = Num y \<Longrightarrow> rnd y = Num y"
  using rnd_form [of x y] rnd_scaled by blast

lemma rnd_double: "rnd x = Num y \<Longrightarrow> \<bar>2 * y\<bar> < 2 ^ 1024 \<Longrightarrow> rnd (2 * y) = Num (2 * y)"
proof -
  assume r: "rnd x = Num y" and b: "\<bar>2 * y\<bar> < 2 ^ 1024"
  obtain m e where "\<bar>m\<bar> \<le> (2 :: int) ^ 53" "- 1074 \<le> e" and y: "y = of_int m * 2 powi e"
    using rnd_form [OF r] by blast
  moreover have y2: "2 * y = of_int m * 2 powi (e + 1)" by (simp add: y power_int_add_1)
  ultimately show ?thesis using rnd_scaled [of m "e + 1"] b unfolding y2 by linarith
qed

text \<open>The rounding error, far away from overflow.\<close>

lemma inverse_power_le: "n \<le> m \<Longrightarrow> 1 / (2 :: real) ^ m \<le> 1 / 2 ^ n"
  by (simp add: frac_le power_increasing)

lemma powi_minus: "(2 :: real) powi (- int n) = 1 / 2 ^ n"
  by (simp add: power_int_minus divide_inverse)

lemma rnd_error:
  assumes "\<bar>x\<bar> \<le> 2 ^ 60"
  shows "\<exists>y. rnd x = Num y \<and> \<bar>y - x\<bar> \<le> \<bar>x\<bar> / 2 ^ 52 + 1 / 2 ^ 100"
proof (cases "x = 0")
  case False
  define e where "e = ulp_exponent x"
  define y where "y = of_int (round_half_even (x / 2 powi e)) * (2 :: real) powi e"
  have p: "(2 :: real) powi e > 0" by simp
  have "\<bar>of_int (round_half_even (x / 2 powi e)) - x / 2 powi e\<bar> \<le> 1 / 2"
    using round_half_even_bounds [of "x / 2 powi e"] by linarith
  then have "\<bar>of_int (round_half_even (x / 2 powi e)) - x / 2 powi e\<bar> * 2 powi e \<le> 1 / 2 * 2 powi e"
    using p by (intro mult_right_mono) simp_all
  moreover have "(of_int (round_half_even (x / 2 powi e)) - x / 2 powi e) * 2 powi e = y - x"
    by (simp add: y_def left_diff_distrib)
  ultimately have err: "\<bar>y - x\<bar> \<le> 1 / 2 * 2 powi e" using p by (metis abs_mult abs_of_pos)
  have "(2 :: real) powi e \<le> \<bar>x\<bar> / 2 ^ 52 + 1 / 2 ^ 100"
  proof (cases "\<lfloor>log 2 \<bar>x\<bar>\<rfloor> - 52 \<ge> - 1074")
    case True
    then have "of_int e + 52 \<le> log 2 \<bar>x\<bar>" unfolding e_def ulp_exponent_def by linarith
    then have "2 powr (of_int e + 52) \<le> \<bar>x\<bar>" using False by (simp add: le_log_iff)
    then have "2 powi e * 2 ^ 52 \<le> \<bar>x\<bar>" by (simp add: powr_add powr_real_of_int')
    then show ?thesis by (simp add: pos_le_divide_eq add_increasing2)
  next
    case False
    then have "e = - 1074" by (simp add: e_def ulp_exponent_def)
    then have "(2 :: real) powi e = 1 / 2 ^ 1074" using powi_minus [of 1074] by (simp del: power_numeral)
    also have "\<dots> \<le> 1 / 2 ^ 100" by (rule inverse_power_le) simp
    finally show ?thesis by (rule add_increasing [rotated]) simp
  qed
  then have e2: "\<bar>y - x\<bar> \<le> \<bar>x\<bar> / 2 ^ 52 + 1 / 2 ^ 100" using err p by linarith
  have "\<bar>y\<bar> \<le> \<bar>x\<bar> + (\<bar>x\<bar> / 2 ^ 52 + 1 / 2 ^ 100)" using e2 by linarith
  also have "\<dots> < 2 ^ 62" using assms by simp
  also have "(2 :: real) ^ 62 \<le> 2 ^ 1024" by (rule power_increasing) simp_all
  finally have "rnd x = Num y" using False by (simp add: rnd_def Let_def y_def e_def)
  then show ?thesis using e2 by blast
qed (simp add: rnd_def)

lemma rnd_near: "\<bar>x\<bar> \<le> 1000 \<Longrightarrow> \<exists>y. rnd x = Num y \<and> \<bar>y - x\<bar> \<le> 1 / 1000000"
proof -
  assume x: "\<bar>x\<bar> \<le> 1000"
  then have "\<bar>x\<bar> \<le> 2 ^ 60" by simp
  then obtain y where y: "rnd x = Num y" "\<bar>y - x\<bar> \<le> \<bar>x\<bar> / 2 ^ 52 + 1 / 2 ^ 100" using rnd_error by blast
  have "\<bar>x\<bar> / 2 ^ 52 + 1 / 2 ^ 100 \<le> 1 / 1000000" using x by simp
  then show ?thesis using y by (intro exI [of _ y]) linarith
qed

lemma rnd_near_eq: "rnd x = Num y \<Longrightarrow> \<bar>x\<bar> \<le> 1000 \<Longrightarrow> \<bar>y - x\<bar> \<le> 1 / 1000000"
  using rnd_near [of x] by auto

lemma rnd_finite: "\<bar>x\<bar> \<le> 2 ^ 60 \<Longrightarrow> \<exists>y. rnd x = Num y \<and> \<bar>y\<bar> \<le> 2 * \<bar>x\<bar> + 1"
  using rnd_error [of x] by fastforce

text \<open>A number of the type \<open>double\<close>.\<close>

definition is_double :: "double \<Rightarrow> bool" where
  "is_double d \<longleftrightarrow> (case d of Num x \<Rightarrow> rnd x = Num x | _ \<Rightarrow> True)"

lemma is_double_rnd [simp]: "is_double (rnd x)"
  by (cases "rnd x") (auto simp: is_double_def rnd_idem)

subsection \<open>Arithmetic\<close>

definition of_int_d :: "int \<Rightarrow> double" where
  "of_int_d n = rnd (of_int n)"

fun d_neg :: "double \<Rightarrow> double" where
  "d_neg (Num x) = Num (- x)"
| "d_neg (Inf s) = Inf (\<not> s)"
| "d_neg NaN = NaN"

fun d_add :: "double \<Rightarrow> double \<Rightarrow> double" where
  "d_add (Num x) (Num y) = rnd (x + y)"
| "d_add (Inf s) (Num _) = Inf s"
| "d_add (Num _) (Inf s) = Inf s"
| "d_add (Inf s) (Inf t) = (if s = t then Inf s else NaN)"
| "d_add _ _ = NaN"

definition d_sub :: "double \<Rightarrow> double \<Rightarrow> double" where
  "d_sub a b = d_add a (d_neg b)"

fun d_mul :: "double \<Rightarrow> double \<Rightarrow> double" where
  "d_mul (Num x) (Num y) = rnd (x * y)"
| "d_mul (Inf s) (Num y) = (if y = 0 then NaN else Inf (s \<noteq> (y < 0)))"
| "d_mul (Num x) (Inf t) = (if x = 0 then NaN else Inf (t \<noteq> (x < 0)))"
| "d_mul (Inf s) (Inf t) = Inf (s \<noteq> t)"
| "d_mul _ _ = NaN"

text \<open>Division by zero takes the zero as positive.\<close>

fun d_div :: "double \<Rightarrow> double \<Rightarrow> double" where
  "d_div (Num x) (Num y) = (if y = 0 then (if x = 0 then NaN else Inf (x < 0)) else rnd (x / y))"
| "d_div (Inf s) (Num y) = Inf (s \<noteq> (y < 0))"
| "d_div (Num _) (Inf _) = Num 0"
| "d_div _ _ = NaN"

fun d_lt :: "double \<Rightarrow> double \<Rightarrow> bool" where
  "d_lt (Num x) (Num y) \<longleftrightarrow> x < y"
| "d_lt (Num _) (Inf s) \<longleftrightarrow> \<not> s"
| "d_lt (Inf s) (Num _) \<longleftrightarrow> s"
| "d_lt (Inf s) (Inf t) \<longleftrightarrow> s \<and> \<not> t"
| "d_lt _ _ \<longleftrightarrow> False"

fun d_eq :: "double \<Rightarrow> double \<Rightarrow> bool" where
  "d_eq (Num x) (Num y) \<longleftrightarrow> x = y"
| "d_eq (Inf s) (Inf t) \<longleftrightarrow> s = t"
| "d_eq _ _ \<longleftrightarrow> False"

definition d_le :: "double \<Rightarrow> double \<Rightarrow> bool" where
  "d_le a b \<longleftrightarrow> d_lt a b \<or> d_eq a b"

fun d_abs :: "double \<Rightarrow> double" where
  "d_abs (Num x) = Num \<bar>x\<bar>"
| "d_abs (Inf _) = Inf False"
| "d_abs NaN = NaN"

fun d_floor :: "double \<Rightarrow> double" where
  "d_floor (Num x) = Num (of_int \<lfloor>x\<rfloor>)"
| "d_floor d = d"

text \<open>\<open>std::round\<close>: halfway cases away from zero.\<close>

definition round_away :: "real \<Rightarrow> int" where
  "round_away x = (if x < 0 then - \<lfloor>- x + 1 / 2\<rfloor> else \<lfloor>x + 1 / 2\<rfloor>)"

fun d_round :: "double \<Rightarrow> double" where
  "d_round (Num x) = Num (of_int (round_away x))"
| "d_round d = d"

text \<open>\<open>std::min\<close> and \<open>std::max\<close>, which return their first argument when it is not greater or less.\<close>

definition std_min :: "double \<Rightarrow> double \<Rightarrow> double" where
  "std_min a b = (if d_lt b a then b else a)"

definition std_max :: "double \<Rightarrow> double \<Rightarrow> double" where
  "std_max a b = (if d_lt a b then b else a)"

text \<open>\<open>std::fmin\<close> and \<open>std::fmax\<close>, which prefer a number to a NaN.\<close>

definition d_fmin :: "double \<Rightarrow> double \<Rightarrow> double" where
  "d_fmin a b = (if a = NaN then b else if b = NaN then a else if d_lt b a then b else a)"

definition d_fmax :: "double \<Rightarrow> double \<Rightarrow> double" where
  "d_fmax a b = (if a = NaN then b else if b = NaN then a else if d_lt a b then b else a)"

text \<open>Truncating conversion to an unsigned type of w bits.\<close>

definition trunc_real :: "real \<Rightarrow> int" where
  "trunc_real x = (if x < 0 then - \<lfloor>- x\<rfloor> else \<lfloor>x\<rfloor>)"

fun to_unsigned :: "nat \<Rightarrow> double \<Rightarrow> nat result" where
  "to_unsigned w (Num x) =
     (if 0 \<le> trunc_real x \<and> trunc_real x < 2 ^ w then Inr (nat (trunc_real x)) else Inl Undefined_behaviour)"
| "to_unsigned w _ = Inl Undefined_behaviour"

definition d_of_word :: "'w::len word \<Rightarrow> double" where
  "d_of_word v = rnd (of_nat (unat v))"

lemma d_of_word_Num: "LENGTH('w) \<le> 52 \<Longrightarrow> d_of_word (v :: 'w::len word) = Num (of_nat (unat v))"
proof -
  assume l: "LENGTH('w) \<le> 52"
  have "unat v < 2 ^ LENGTH('w)" by (rule unsigned_less)
  also have "(2 :: nat) ^ LENGTH('w) \<le> 2 ^ 52" using l by (rule power_increasing) simp
  finally have "unat v < 2 ^ 53" by simp
  then show ?thesis unfolding d_of_word_def by (rule rnd_nat)
qed

lemma real_unat_u16_le: "0 \<le> real (unat (v :: u16))" "real (unat (v :: u16)) \<le> 65535"
proof -
  show "0 \<le> real (unat v)" by (rule of_nat_0_le_iff)
  have "unat v < 65536" using unsigned_less [of v, where ?'a = nat] by simp
  then have "real (unat v) \<le> real 65535" by (simp only: of_nat_le_iff)
  then show "real (unat v) \<le> 65535" by (metis of_nat_numeral)
qed

lemma round_away_int [simp]: "round_away (of_int n) = n"
proof (cases "n < 0")
  case True
  have "\<lfloor>- real_of_int n + 1 / 2\<rfloor> = - n" by linarith
  then show ?thesis using True by (simp add: round_away_def)
next
  case False
  have "\<lfloor>real_of_int n + 1 / 2\<rfloor> = n" by linarith
  then show ?thesis using False by (simp add: round_away_def)
qed

lemma round_away_nat [simp]: "round_away (of_nat n) = int n"
  using round_away_int [of "int n"] by simp

lemma trunc_real_int [simp]: "trunc_real (of_int n) = n"
  by (simp add: trunc_real_def)

lemma trunc_real_nat [simp]: "trunc_real (of_nat n) = int n"
  using trunc_real_int [of "int n"] by simp

lemma round_away_mono_bounds:
  assumes "0 \<le> x" and "x \<le> of_nat n"
  shows "0 \<le> round_away x \<and> round_away x \<le> int n"
proof -
  have "0 \<le> \<lfloor>x + 1 / 2\<rfloor>" using assms(1) by simp
  moreover have "\<lfloor>x + 1 / 2\<rfloor> \<le> int n" using assms(2) by linarith
  ultimately show ?thesis using assms(1) by (simp add: round_away_def)
qed

text \<open>\<open>std::to_string\<close> of a double: six decimals.\<close>

definition pad6 :: "nat \<Rightarrow> string" where
  "pad6 n = replicate (6 - length (dec n)) (CHR ''0'') @ dec n"

definition to_string_double :: "double \<Rightarrow> string" where
  "to_string_double d = (case d of
      Num x \<Rightarrow> (let n = nat (round_half_even (\<bar>x\<bar> * 10 ^ 6))
               in (if x < 0 then ''-'' else []) @ dec (n div 10 ^ 6) @ ''.'' @ pad6 (n mod 10 ^ 6))
    | Inf neg \<Rightarrow> if neg then ''-inf'' else ''inf''
    | NaN \<Rightarrow> ''nan'')"

subsection \<open>Reading a number\<close>

definition hex_digit :: "char \<Rightarrow> nat option" where
  "hex_digit c =
     (let n = of_char c
      in if 48 \<le> n \<and> n \<le> 57 then Some (n - 48)
         else if 97 \<le> n \<and> n \<le> 102 then Some (n - 87)
         else if 65 \<le> n \<and> n \<le> 70 then Some (n - 55) else None)"

definition base_digit :: "nat \<Rightarrow> char \<Rightarrow> bool" where
  "base_digit b c \<longleftrightarrow> (case hex_digit c of None \<Rightarrow> False | Some d \<Rightarrow> d < b)"

definition digits_to_nat :: "nat \<Rightarrow> string \<Rightarrow> nat" where
  "digits_to_nat b ds = foldl (\<lambda>a c. a * b + the (hex_digit c)) 0 ds"

text \<open>The digits with an optional point: their value and the rest, None without a digit.\<close>

definition read_mantissa :: "nat \<Rightarrow> string \<Rightarrow> (real \<times> string) option" where
  "read_mantissa b s =
     (let whole = takeWhile (base_digit b) s;
          rest = drop (length whole) s;
          frac = (case rest of [] \<Rightarrow> [] | c # cs \<Rightarrow> if c = CHR ''.'' then takeWhile (base_digit b) cs else []);
          rest' = (case rest of [] \<Rightarrow> [] | c # cs \<Rightarrow> if c = CHR ''.'' then drop (length frac) cs else rest)
      in if whole = [] \<and> frac = [] then None
         else Some (of_nat (digits_to_nat b (whole @ frac)) / of_nat b ^ length frac, rest'))"

definition read_exponent :: "char \<Rightarrow> string \<Rightarrow> int" where
  "read_exponent e s = (case s of [] \<Rightarrow> 0
     | c # cs \<Rightarrow>
        if tolower_char c = e
        then (let neg = (cs \<noteq> [] \<and> hd cs = CHR ''-'');
                  ds = takeWhile isdigit (if cs \<noteq> [] \<and> hd cs \<in> {CHR ''-'', CHR ''+''} then tl cs else cs)
              in if neg then - int (digits_value ds) else int (digits_value ds))
        else 0)"

definition strtod_value :: "string \<Rightarrow> (double \<times> real) option" where
  "strtod_value s =
     (let t = dropWhile isspace s;
          neg = (t \<noteq> [] \<and> hd t = CHR ''-'');
          u = (if t \<noteq> [] \<and> hd t \<in> {CHR ''-'', CHR ''+''} then tl t else t);
          low = map tolower_char u;
          signed = (\<lambda>x. if neg then - x else x :: real)
      in if take 3 low = ''inf'' then Some (Inf neg, 0)
         else if take 3 low = ''nan'' then Some (NaN, 0)
         else case (if take 2 low = ''0x'' then read_mantissa 16 (drop 2 u) else None) of
             Some (m, rest) \<Rightarrow> (let x = signed (m * 2 powi read_exponent (CHR ''p'') rest) in Some (rnd x, x))
           | None \<Rightarrow>
               (case read_mantissa 10 u of None \<Rightarrow> None
                | Some (m, rest) \<Rightarrow> (let x = signed (m * 10 powi read_exponent (CHR ''e'') rest) in Some (rnd x, x))))"

text \<open>A number too large, or too small to be represented without loss, is out of range.\<close>

definition stod :: "string \<Rightarrow> double result" where
  "stod s = (case strtod_value s of
      None \<Rightarrow> Inl (Invalid_argument ''stod'')
    | Some (d, x) \<Rightarrow>
        (if (d = Inf (x < 0) \<and> x \<noteq> 0) \<or> (x \<noteq> 0 \<and> \<bar>x\<bar> < 2 powi (- 1022) \<and> d \<noteq> Num x)
         then Inl (Out_of_range ''stod'') else Inr d))"

lemma hex_digit_dec: "isdigit c \<Longrightarrow> hex_digit c = Some (of_char c - 48)"
  by (simp add: isdigit_def hex_digit_def Let_def)

lemma base_digit_dec: "isdigit c \<Longrightarrow> base_digit 10 c"
  by (auto simp: base_digit_def hex_digit_dec isdigit_def)

lemma digits_to_nat_dec: "list_all isdigit ds \<Longrightarrow> digits_to_nat 10 ds = digits_value ds"
proof -
  have "list_all isdigit ds \<Longrightarrow> foldl (\<lambda>a c. a * 10 + the (hex_digit c)) n ds = foldl (\<lambda>a c. a * 10 + (of_char c - 48)) n ds" for n
    by (induction ds arbitrary: n) (simp_all add: hex_digit_dec)
  then show "list_all isdigit ds \<Longrightarrow> ?thesis" by (simp add: digits_to_nat_def digits_value_def)
qed

lemma tolower_digit: "isdigit c \<Longrightarrow> tolower_char c = c"
  by (simp add: isdigit_def tolower_char_def)

text \<open>A decimal integer is read back.\<close>

lemma stod_dec:
  assumes "n < 2 ^ 53"
  shows "stod (dec n) = Inr (Num (of_nat n))"
proof -
  have all: "list_all isdigit (dec n)" using dec_digits [of _ n] by (simp add: list_all_iff)
  obtain c cs where d: "dec n = c # cs" by (cases "dec n") auto
  have c: "isdigit c" "list_all isdigit cs" using all d by simp_all
  have low: "map tolower_char (dec n) = dec n"
    using all by (simp add: list_all_iff tolower_digit map_idI)
  have tw: "takeWhile (base_digit 10) (dec n) = dec n"
    using all by (simp add: list_all_iff takeWhile_eq_all_conv base_digit_dec)
  have rm: "read_mantissa 10 (dec n) = Some (of_nat n, [])"
    using all unfolding read_mantissa_def Let_def tw by (simp add: digits_to_nat_dec digits_value_dec)
  have pre: "take 2 (dec n) \<noteq> ''0x''" "take 3 (dec n) \<noteq> ''inf''" "take 3 (dec n) \<noteq> ''nan''"
    using d c by (auto simp: isdigit_def numeral_eq_Suc list_all_iff dest: spec split: list.splits)
      (cases cs; simp add: isdigit_def)+
  have dw: "dropWhile isspace (dec n) = dec n" using d not_space_digit [OF c(1)] by simp
  have sign: "\<not> (dec n \<noteq> [] \<and> hd (dec n) = CHR ''-'')" "\<not> (dec n \<noteq> [] \<and> hd (dec n) \<in> {CHR ''-'', CHR ''+''})"
    using d not_sign_digit [OF c(1)] by auto
  have "strtod_value (dec n) = Some (Num (of_nat n), of_nat n)"
    unfolding strtod_value_def Let_def dw if_not_P [OF sign(2)] if_not_P [OF sign(1)] low
      if_not_P [OF pre(1)] if_not_P [OF pre(2)] if_not_P [OF pre(3)] rm
    using rnd_nat [OF assms] by (simp add: read_exponent_def)
  moreover have "n \<noteq> 0 \<Longrightarrow> \<not> (real n < 2 powi (- 1022))"
  proof -
    assume "n \<noteq> 0"
    then have "1 \<le> real n" by simp
    moreover have "(2 :: real) powi (- 1022) \<le> 1" by (simp add: power_int_minus inverse_le_1_iff)
    ultimately show ?thesis by linarith
  qed
  ultimately show ?thesis by (simp add: stod_def)
qed

end
