(* ===== verification/Pixel.thy ===== *)
theory Pixel
  imports Doubles
begin

text \<open>
  \<^verbatim>\<open>src/src/dmx/pixel.cpp\<close>: a colour, stored as HSI and as 16 bit RGB at once, with the conversions
  between the two. A negative illuminance says that HSI is to be computed from RGB, an RGB of
  zero with a positive illuminance that RGB is to be computed from HSI; every constructor and
  setter computes what is missing. \<open>std::cos\<close> and \<open>std::acos\<close>, whose results the standard does not
  fix, are parameters; the text form of a colour (\<open>str\<close>) is not modelled.
\<close>

record libm =
  m_cos :: "double \<Rightarrow> double"
  m_acos :: "double \<Rightarrow> double"

record pixel =
  hue :: double
  saturation :: double
  iluminance :: double
  red :: u16
  green :: u16
  blue :: u16

definition lit :: "real \<Rightarrow> double" where
  "lit x = rnd x"

fun d_fmod :: "double \<Rightarrow> double \<Rightarrow> double" where
  "d_fmod (Num x) (Num y) = (if y = 0 then NaN else Num (x - of_int (trunc_real (x / y)) * y))"
| "d_fmod (Num x) (Inf _) = Num x"
| "d_fmod _ _ = NaN"

fun d_sqrt :: "double \<Rightarrow> double" where
  "d_sqrt (Num x) = (if x < 0 then NaN else rnd (sqrt x))"
| "d_sqrt (Inf s) = (if s then NaN else Inf False)"
| "d_sqrt NaN = NaN"

definition default_pixel :: pixel where
  "default_pixel = \<lparr>hue = Num 0, saturation = Num 0, iluminance = Num 0, red = 0, green = 0, blue = 0\<rparr>"

subsection \<open>Conversions\<close>

definition clamp01 :: "double \<Rightarrow> double" where
  "clamp01 x = (if d_lt (Num 0) x then (if d_lt x (Num 1) then x else Num 1) else Num 0)"

definition hue_to_rad :: "double \<Rightarrow> double" where
  "hue_to_rad h = d_div (d_mul (lit 3.14159) (d_fmod h (Num 360))) (Num 180)"

text \<open>The rounded third of pi the code writes as a literal.\<close>

definition third_pi :: double where
  "third_pi = lit 1.047196667"

text \<open>The cosine quotient of a sector of the colour circle.\<close>

definition sector_cos :: "libm \<Rightarrow> double \<Rightarrow> double \<times> double" where
  "sector_cos lm h = (m_cos lm h, m_cos lm (d_sub third_pi h))"

definition to_u16 :: "double \<Rightarrow> u16 result" where
  "to_u16 d = bind_res (to_unsigned 16 (d_round d)) (\<lambda>n. Inr (of_nat n))"

definition to_u8 :: "double \<Rightarrow> u8 result" where
  "to_u8 d = bind_res (to_unsigned 8 (d_round d)) (\<lambda>n. Inr (of_nat n))"

definition sector_rgb16 :: "libm \<Rightarrow> double \<Rightarrow> double \<Rightarrow> double \<Rightarrow> (u16 \<times> u16 \<times> u16) result" where
  "sector_rgb16 lm h s i =
     (let scale = d_div (d_mul (Num 65535) i) (Num 3);
          (ch, c1) = sector_cos lm h
      in bind_res (to_u16 (d_mul scale (d_add (Num 1) (d_div (d_mul s ch) c1)))) (\<lambda>first.
         bind_res (to_u16 (d_mul scale (d_add (Num 1) (d_mul s (d_sub (Num 1) (d_div ch c1)))))) (\<lambda>second.
         bind_res (to_u16 (d_mul scale (d_sub (Num 1) s))) (\<lambda>third.
         Inr (first, second, third)))))"

definition pixel_to_rgb16 :: "libm \<Rightarrow> pixel \<Rightarrow> (u16 \<times> u16 \<times> u16) result" where
  "pixel_to_rgb16 lm p =
     (let h = hue_to_rad (hue p); s = clamp01 (saturation p); i = clamp01 (iluminance p)
      in if d_lt h (lit 2.09439)
         then bind_res (sector_rgb16 lm h s i) (\<lambda>(x, y, z). Inr (x, y, z))
         else if d_lt h (lit 4.188787)
         then bind_res (sector_rgb16 lm (d_sub h (lit 2.09439)) s i) (\<lambda>(x, y, z). Inr (z, x, y))
         else bind_res (sector_rgb16 lm (d_sub h (lit 4.188787)) s i) (\<lambda>(x, y, z). Inr (y, z, x)))"

definition pixel_to_rgb :: "libm \<Rightarrow> pixel \<Rightarrow> (u8 \<times> u8 \<times> u8) result" where
  "pixel_to_rgb lm p = bind_res (pixel_to_rgb16 lm p) (\<lambda>(r, g, b).
     Inr (ucast (drop_bit 8 r), ucast (drop_bit 8 g), ucast (drop_bit 8 b)))"

definition sector_rgbw :: "libm \<Rightarrow> double \<Rightarrow> double \<Rightarrow> double \<Rightarrow> (u8 \<times> u8 \<times> u8) result" where
  "sector_rgbw lm h s i =
     (let scale = d_div (d_mul (d_mul s (Num 255)) i) (Num 3);
          (ch, c1) = sector_cos lm h
      in bind_res (to_u8 (d_mul scale (d_add (Num 1) (d_div ch c1)))) (\<lambda>first.
         bind_res (to_u8 (d_mul scale (d_add (Num 1) (d_sub (Num 1) (d_div ch c1))))) (\<lambda>second.
         bind_res (to_u8 (d_mul (d_mul (Num 255) (d_sub (Num 1) s)) i)) (\<lambda>w.
         Inr (first, second, w)))))"

definition pixel_to_rgbw :: "libm \<Rightarrow> pixel \<Rightarrow> (u8 \<times> u8 \<times> u8 \<times> u8) result" where
  "pixel_to_rgbw lm p =
     (let h = hue_to_rad (hue p); s = clamp01 (saturation p); i = clamp01 (iluminance p)
      in if d_lt h (lit 2.09439)
         then bind_res (sector_rgbw lm h s i) (\<lambda>(x, y, w). Inr (x, y, 0, w))
         else if d_lt h (lit 4.188787)
         then bind_res (sector_rgbw lm (d_sub h (lit 2.09439)) s i) (\<lambda>(x, y, w). Inr (0, x, y, w))
         else bind_res (sector_rgbw lm (d_sub h (lit 4.188787)) s i) (\<lambda>(x, y, w). Inr (y, 0, x, w)))"

definition convert_hsi_to_rgb :: "libm \<Rightarrow> pixel \<Rightarrow> pixel result" where
  "convert_hsi_to_rgb lm p =
     bind_res (pixel_to_rgb16 lm p) (\<lambda>(r, g, b). Inr (p\<lparr>red := r, green := g, blue := b\<rparr>))"

definition convert_rgb_to_hsi :: "libm \<Rightarrow> pixel \<Rightarrow> pixel" where
  "convert_rgb_to_hsi lm p =
     (let r = d_div (d_of_word (red p)) (Num 65565);
          g = d_div (d_of_word (green p)) (Num 65565);
          b = d_div (d_of_word (blue p)) (Num 65565);
          total = d_add (d_add r g) b
      in if d_le total (Num 0)
         then p\<lparr>hue := Num 0, saturation := Num 0, iluminance := Num 0\<rparr>
         else
           (let lowest = std_min (std_min r g) b;
                a = d_sqrt (d_sub (d_sub (d_sub (d_add (d_add (d_mul r r) (d_mul g g)) (d_mul b b))
                      (d_mul r g)) (d_mul r b)) (d_mul g b));
                h = (if d_lt (Num 0) a
                     then m_acos lm (d_div (d_sub (d_sub r (d_mul g (Num (1 / 2)))) (d_mul b (Num (1 / 2)))) a)
                     else Num 0);
                h' = (if d_lt g b then d_sub (d_mul (Num 2) (lit pi)) h else h);
                sat = d_sub (Num 1) (d_div (d_mul lowest (Num 3)) total)
            in p\<lparr>hue := (if d_le sat (Num 0) then Num 0 else d_mul h' (d_div (Num 180) (lit pi))),
                 saturation := sat, iluminance := d_div total (Num 3)\<rparr>))"

definition rgb_invalid :: "pixel \<Rightarrow> bool" where
  "rgb_invalid p \<longleftrightarrow> red p = 0 \<and> green p = 0 \<and> blue p = 0 \<and> d_lt (Num 0) (iluminance p)"

definition hsi_invalid :: "pixel \<Rightarrow> bool" where
  "hsi_invalid p \<longleftrightarrow> d_lt (iluminance p) (Num (- 1 / 2))"

definition convert_hsi_to_rgb_pre :: "libm \<Rightarrow> pixel \<Rightarrow> pixel result" where
  "convert_hsi_to_rgb_pre lm p = (if rgb_invalid p then convert_hsi_to_rgb lm p else Inr p)"

definition convert_rgb_to_hsi_pre :: "libm \<Rightarrow> pixel \<Rightarrow> pixel" where
  "convert_rgb_to_hsi_pre lm p = (if hsi_invalid p then convert_rgb_to_hsi lm p else p)"

definition invalidate_rgb :: "pixel \<Rightarrow> pixel" where
  "invalidate_rgb p = p\<lparr>red := 0, green := 0, blue := 0\<rparr>"

definition invalidate_hsi :: "pixel \<Rightarrow> pixel" where
  "invalidate_hsi p = p\<lparr>iluminance := Num (- 1)\<rparr>"

subsection \<open>Construction and access\<close>

definition hsi_pixel :: "libm \<Rightarrow> double \<Rightarrow> double \<Rightarrow> double \<Rightarrow> pixel result" where
  "hsi_pixel lm h s i =
     convert_hsi_to_rgb_pre lm \<lparr>hue = h, saturation = s, iluminance = i, red = 0, green = 0, blue = 0\<rparr>"

definition rgb_pixel :: "libm \<Rightarrow> u16 \<Rightarrow> u16 \<Rightarrow> u16 \<Rightarrow> pixel" where
  "rgb_pixel lm r g b =
     convert_rgb_to_hsi_pre lm \<lparr>hue = Num 0, saturation = Num 0, iluminance = Num (- 1), red = r, green = g, blue = b\<rparr>"

text \<open>A getter converts first, so it also returns the colour it leaves behind.\<close>

definition getHue :: "libm \<Rightarrow> pixel \<Rightarrow> double \<times> pixel" where
  "getHue lm p = (let p' = convert_rgb_to_hsi_pre lm p in (hue p', p'))"

definition getSaturation :: "libm \<Rightarrow> pixel \<Rightarrow> double \<times> pixel" where
  "getSaturation lm p = (let p' = convert_rgb_to_hsi_pre lm p in (saturation p', p'))"

definition getIluminance :: "libm \<Rightarrow> pixel \<Rightarrow> double \<times> pixel" where
  "getIluminance lm p = (let p' = convert_rgb_to_hsi_pre lm p in (iluminance p', p'))"

definition getRed :: "libm \<Rightarrow> pixel \<Rightarrow> (u16 \<times> pixel) result" where
  "getRed lm p = bind_res (convert_hsi_to_rgb_pre lm p) (\<lambda>p'. Inr (red p', p'))"

definition getGreen :: "libm \<Rightarrow> pixel \<Rightarrow> (u16 \<times> pixel) result" where
  "getGreen lm p = bind_res (convert_hsi_to_rgb_pre lm p) (\<lambda>p'. Inr (green p', p'))"

definition getBlue :: "libm \<Rightarrow> pixel \<Rightarrow> (u16 \<times> pixel) result" where
  "getBlue lm p = bind_res (convert_hsi_to_rgb_pre lm p) (\<lambda>p'. Inr (blue p', p'))"

definition clamp_set :: "double \<Rightarrow> double" where
  "clamp_set x = (if d_lt (Num 1) x then Num 1 else if d_lt x (Num 0) then Num 0 else x)"

definition setHue :: "libm \<Rightarrow> double \<Rightarrow> pixel \<Rightarrow> pixel result" where
  "setHue lm h p = convert_hsi_to_rgb_pre lm ((invalidate_rgb (convert_rgb_to_hsi_pre lm p))\<lparr>hue := h\<rparr>)"

definition setSaturation :: "libm \<Rightarrow> double \<Rightarrow> pixel \<Rightarrow> pixel result" where
  "setSaturation lm s p =
     convert_hsi_to_rgb_pre lm ((invalidate_rgb (convert_rgb_to_hsi_pre lm p))\<lparr>saturation := clamp_set s\<rparr>)"

definition setIluminance :: "libm \<Rightarrow> double \<Rightarrow> pixel \<Rightarrow> pixel result" where
  "setIluminance lm i p =
     convert_hsi_to_rgb_pre lm ((invalidate_rgb (convert_rgb_to_hsi_pre lm p))\<lparr>iluminance := clamp_set i\<rparr>)"

definition setRed :: "libm \<Rightarrow> u16 \<Rightarrow> pixel \<Rightarrow> pixel result" where
  "setRed lm r p = bind_res (convert_hsi_to_rgb_pre lm p) (\<lambda>p'.
     Inr (convert_rgb_to_hsi_pre lm ((invalidate_hsi p')\<lparr>red := r\<rparr>)))"

definition setGreen :: "libm \<Rightarrow> u16 \<Rightarrow> pixel \<Rightarrow> pixel result" where
  "setGreen lm g p = bind_res (convert_hsi_to_rgb_pre lm p) (\<lambda>p'.
     Inr (convert_rgb_to_hsi_pre lm ((invalidate_hsi p')\<lparr>green := g\<rparr>)))"

definition setBlue :: "libm \<Rightarrow> u16 \<Rightarrow> pixel \<Rightarrow> pixel result" where
  "setBlue lm b p = bind_res (convert_hsi_to_rgb_pre lm p) (\<lambda>p'.
     Inr (convert_rgb_to_hsi_pre lm ((invalidate_hsi p')\<lparr>blue := b\<rparr>)))"

definition mix_color_interleaving :: "libm \<Rightarrow> pixel \<Rightarrow> pixel \<Rightarrow> double \<Rightarrow> pixel result" where
  "mix_color_interleaving lm c1 c2 ratio =
     (if d_lt ratio (Num 0) \<or> d_lt (Num 1) ratio
      then Inl (Invalid_argument ''The range interval needs to be within 0 and 1.'')
      else
        (let (h1, c1a) = getHue lm c1; (h2, c2a) = getHue lm c2;
             (s1, c1b) = getSaturation lm c1a; (s2, c2b) = getSaturation lm c2a;
             (i1, c1c) = getIluminance lm c1b; (i2, c2c) = getIluminance lm c2b;
             hue_diff = d_sub (d_fmod (d_add (d_add (d_sub h1 h2) (Num 180)) (Num 360)) (Num 360)) (Num 180);
             h = d_fmod (d_add (d_add (Num 360) h2) (d_div (d_mul hue_diff (d_mul ratio (Num 2))) (Num 2))) (Num 360);
             s = d_add (d_mul s1 ratio) (d_mul s2 (d_sub (Num 1) ratio));
             i = d_add (d_mul i1 ratio) (d_mul i2 (d_sub (Num 1) ratio))
         in bind_res (setHue lm h default_pixel) (\<lambda>o1.
            bind_res (setSaturation lm s o1) (setIluminance lm i))))"

definition stopixel :: "libm \<Rightarrow> string \<Rightarrow> pixel result" where
  "stopixel lm str =
     (let first_position = str_find str '','' 0
      in bind_res (bind_res (substr str 0 first_position) stod) (\<lambda>h.
         let second_position = str_find str '','' (size_add first_position 1)
         in bind_res (bind_res (substr str (size_add first_position 1)
                (size_sub (size_sub second_position first_position) 1)) stod) (\<lambda>s.
            bind_res (bind_res (substr str (size_add second_position 1) npos) stod) (\<lambda>i.
            hsi_pixel lm h s i))))"

subsection \<open>Properties\<close>

lemma convert_hsi_keeps:
  "convert_hsi_to_rgb_pre lm p = Inr p' \<Longrightarrow>
   hue p' = hue p \<and> saturation p' = saturation p \<and> iluminance p' = iluminance p"
  by (auto simp: convert_hsi_to_rgb_pre_def convert_hsi_to_rgb_def bind_res_Inr_iff split: if_splits prod.splits)

lemma clamp_set_range: "s \<noteq> NaN \<Longrightarrow> d_le (Num 0) (clamp_set s) \<and> d_le (clamp_set s) (Num 1)"
  by (cases s) (auto simp: clamp_set_def d_le_def)

lemma rgb_pixel_keeps: "red (rgb_pixel lm r g b) = r" "green (rgb_pixel lm r g b) = g" "blue (rgb_pixel lm r g b) = b"
  by (simp_all add: rgb_pixel_def convert_rgb_to_hsi_pre_def convert_rgb_to_hsi_def Let_def)

lemma hsi_invalid_minus_one: "hsi_invalid (p\<lparr>iluminance := Num (- 1)\<rparr>)"
  by (simp add: hsi_invalid_def)

text \<open>The HSI of a grey of level v: no hue, no saturation, a third of the sum of the channels.\<close>

lemma grey_hsi:
  assumes "red p = v" "green p = v" "blue p = v"
  shows "\<exists>y t. d_div (d_of_word v) (Num 65565) = Num y \<and> rnd (3 * y) = Num t
    \<and> convert_rgb_to_hsi lm p = p\<lparr>hue := Num 0, saturation := Num 0,
          iluminance := (if t \<le> 0 then Num 0 else rnd (t / 3))\<rparr>"
proof -
  have v: "d_of_word v = Num (of_nat (unat v))" by (rule d_of_word_Num) simp
  define n where "n = real (unat v)"
  have "\<bar>n / 65565\<bar> \<le> 2" using real_unat_u16_le [of v, folded n_def] by simp
  then obtain y where yn: "rnd (n / 65565) = Num y" "\<bar>y - n / 65565\<bar> \<le> 1 / 1000000" using rnd_near [of "n / 65565"] by auto
  then have y: "rnd (n / 65565) = Num y" "\<bar>y\<bar> \<le> 8" using \<open>\<bar>n / 65565\<bar> \<le> 2\<close> by linarith+
  obtain t where t: "rnd (3 * y) = Num t" using rnd_near [of "3 * y"] y(2) by (auto simp: abs_mult)
  have d: "d_div (d_of_word v) (Num 65565) = Num y" unfolding v n_def [symmetric] using yn(1) by simp
  have y2: "rnd (2 * y) = Num (2 * y)"
  proof (rule rnd_double [OF y(1)])
    have "\<bar>2 * y\<bar> < 2 ^ 5" using y(2) by simp
    also have "(2 :: real) ^ 5 \<le> 2 ^ 1024" by (rule power_increasing) simp_all
    finally show "\<bar>2 * y\<bar> < 2 ^ 1024" .
  qed
  have total: "d_add (d_add (Num y) (Num y)) (Num y) = Num t"
    using y2 t by (simp add: mult_2 [symmetric] add.commute)
  have t3: "d_mul (Num y) (Num 3) = Num t" using t by (simp add: mult.commute)
  have r1: "rnd 1 = Num 1" using rnd_int [of 1] by simp
  have r0: "rnd 0 = Num 0" by (simp add: rnd_def)
  have eq: "convert_rgb_to_hsi lm p = p\<lparr>hue := Num 0, saturation := Num 0,
      iluminance := (if t \<le> 0 then Num 0 else rnd (t / 3))\<rparr>"
  proof (cases "t \<le> 0")
    case True
    then have "d_le (Num t) (Num 0)" by (auto simp: d_le_def)
    then show ?thesis using True unfolding convert_rgb_to_hsi_def Let_def assms d total by simp
  next
    case False
    have lowest: "std_min (std_min (Num y) (Num y)) (Num y) = Num y" by (simp add: std_min_def)
    have "d_div (Num t) (Num t) = Num 1" using False r1 by simp
    then have sat: "d_sub (Num 1) (d_div (Num t) (Num t)) = Num 0" by (simp add: d_sub_def r0)
    have "\<not> d_le (Num t) (Num 0)" "d_le (Num 0) (Num 0)" using False by (simp_all add: d_le_def)
    then show ?thesis using False
      unfolding convert_rgb_to_hsi_def Let_def assms d total lowest t3 sat by simp
  qed
  show ?thesis using d t eq by blast
qed

text \<open>
  Saturation and illuminance stay within 0 and 1: whatever number (not NaN) is set, the colour
  afterwards has a saturation or an illuminance between 0 and 1, and the other two of its HSI
  components are those it had.
\<close>

theorem setters_clamp:
  assumes "x \<noteq> NaN" and "\<not> hsi_invalid p" and "setSaturation lm x p = Inr p'" and "setIluminance lm x p = Inr p''"
  shows "d_le (Num 0) (saturation p') \<and> d_le (saturation p') (Num 1) \<and> hue p' = hue p \<and> iluminance p' = iluminance p
    \<and> d_le (Num 0) (iluminance p'') \<and> d_le (iluminance p'') (Num 1) \<and> hue p'' = hue p \<and> saturation p'' = saturation p"
  using assms clamp_set_range [OF assms(1)]
  by (auto simp: setSaturation_def setIluminance_def invalidate_rgb_def convert_rgb_to_hsi_pre_def dest!: convert_hsi_keeps)

text \<open>
  Grey is without colour: a colour made of three equal channels has saturation and hue exactly
  0 in spite of all the rounding on the way, keeps its channels, and even full white has an
  illuminance below 1, since the code divides by 65565 instead of 65535.
\<close>

theorem grey_has_no_colour:
  "saturation (rgb_pixel lm v v v) = Num 0 \<and> hue (rgb_pixel lm v v v) = Num 0
   \<and> red (rgb_pixel lm v v v) = v \<and> green (rgb_pixel lm v v v) = v \<and> blue (rgb_pixel lm v v v) = v
   \<and> (\<exists>i. iluminance (rgb_pixel lm v v v) = Num i \<and> i < 1)"
proof -
  define p where "p = \<lparr>hue = Num 0, saturation = Num 0, iluminance = Num (- 1), red = v, green = v, blue = v\<rparr>"
  have pre: "rgb_pixel lm v v v = convert_rgb_to_hsi lm p"
    using hsi_invalid_minus_one [of p] by (simp add: rgb_pixel_def convert_rgb_to_hsi_pre_def p_def)
  obtain y t where y: "d_div (d_of_word v) (Num 65565) = Num y" and t: "rnd (3 * y) = Num t"
    and c: "convert_rgb_to_hsi lm p = p\<lparr>hue := Num 0, saturation := Num 0, iluminance := (if t \<le> 0 then Num 0 else rnd (t / 3))\<rparr>"
    using grey_hsi [of p v lm] by (auto simp: p_def)
  define n where "n = real (unat v)"
  note n = real_unat_u16_le [of v, folded n_def]
  have "rnd (n / 65565) = Num y" using y d_of_word_Num [of v] by (simp add: n_def)
  then have "\<bar>y - n / 65565\<bar> \<le> 1 / 1000000" using n by (intro rnd_near_eq) simp_all
  then have yb: "- 1 \<le> y" "y \<le> 9996 / 10000" using n by linarith+
  have tb: "\<bar>t - 3 * y\<bar> \<le> 1 / 1000000" using t yb by (intro rnd_near_eq) simp_all
  then have "\<bar>t / 3\<bar> \<le> 1000" using yb by linarith
  then obtain i where "rnd (t / 3) = Num i" "\<bar>i - t / 3\<bar> \<le> 1 / 1000000" using rnd_near by blast
  moreover have "i < 1" using calculation tb yb by linarith
  ultimately obtain i where "rnd (t / 3) = Num i" "i < 1" by blast
  then show ?thesis unfolding pre c by (simp add: p_def)
qed

lemma third_pi_Num: "\<exists>k. third_pi = Num k \<and> k \<noteq> 0"
  using rnd_error [of "1.047196667"] by (force simp: third_pi_def lit_def)

text \<open>
  The two conversions disagree by a factor of three: the white of illuminance 1 gets the
  channels 21845, a third of the full scale; when one of its channels is set to the value it
  already has, illuminance is computed from the channels again and is about a third.
\<close>

theorem rgb_hsi_roundtrip_loses_brightness:
  assumes "m_cos lm (Num 0) = Num 1" and "m_cos lm third_pi = Num c" and "1 / 4 \<le> c"
  shows "\<exists>p p' i. hsi_pixel lm (Num 0) (Num 0) (Num 1) = Inr p
    \<and> red p = 21845 \<and> green p = 21845 \<and> blue p = 21845
    \<and> setRed lm (red p) p = Inr p' \<and> red p' = red p \<and> iluminance p' = Num i \<and> i < 34 / 100"
proof -
  have int: "rnd 0 = Num 0" "rnd 1 = Num 1" "rnd 65535 = Num 65535" "rnd 21845 = Num 21845"
    using rnd_int [of 0] rnd_int [of 1] rnd_int [of 65535] rnd_int [of 21845] by simp_all
  have h: "hue_to_rad (Num 0) = Num 0"
  proof -
    obtain x where "lit 3.14159 = Num x" using rnd_finite [of "3.14159"] by (fastforce simp: lit_def)
    then show ?thesis by (simp add: hue_to_rad_def int trunc_real_def)
  qed
  obtain k where k: "third_pi = Num k" using third_pi_Num by blast
  then have "rnd k = Num k" by (auto simp: third_pi_def lit_def intro: rnd_idem)
  then have c1: "d_add third_pi (Num 0) = third_pi" by (simp add: k)
  have c4: "0 \<le> 1 / c" "1 / c \<le> 4" using assms(3) by (simp_all add: divide_le_eq)
  then obtain q where q: "rnd (1 / c) = Num q" "\<bar>q - 1 / c\<bar> \<le> 1 / 1000000" using rnd_near [of "1 / c"] by auto
  then have "\<bar>1 - q\<bar> \<le> 1000" using c4 by linarith
  then obtain w where w: "rnd (1 - q) = Num w" using rnd_near by blast
  have conv: "to_u16 (Num 21845) = Inr 21845"
    using round_away_int [of 21845] trunc_real_int [of 21845] by (simp add: to_u16_def)
  have sector: "sector_rgb16 lm (Num 0) (Num 0) (Num 1) = Inr (21845, 21845, 21845)"
    using assms q w conv by (simp add: sector_rgb16_def sector_cos_def c1 d_sub_def int)
  obtain l where l: "lit 2.09439 = Num l" "0 < l"
    using rnd_error [of "2.09439"] by (fastforce simp: lit_def)
  define p where "p = \<lparr>hue = Num 0, saturation = Num 0, iluminance = Num 1, red = 21845, green = 21845, blue = 21845\<rparr>"
  have "hsi_pixel lm (Num 0) (Num 0) (Num 1) = Inr p"
    using sector l by (simp add: hsi_pixel_def convert_hsi_to_rgb_pre_def rgb_invalid_def convert_hsi_to_rgb_def
        pixel_to_rgb16_def h clamp01_def p_def)
  moreover have "\<exists>p' i. setRed lm (red p) p = Inr p' \<and> red p' = red p \<and> iluminance p' = Num i \<and> i < 34 / 100"
  proof -
    define p1 where "p1 = p\<lparr>iluminance := Num (- 1), red := 21845\<rparr>"
    have "setRed lm (red p) p = Inr (convert_rgb_to_hsi lm p1)"
      by (simp add: setRed_def convert_hsi_to_rgb_pre_def rgb_invalid_def invalidate_hsi_def
          convert_rgb_to_hsi_pre_def hsi_invalid_def p_def p1_def)
    moreover obtain y t where y: "d_div (d_of_word (21845 :: u16)) (Num 65565) = Num y" "rnd (3 * y) = Num t"
      and c: "convert_rgb_to_hsi lm p1 = p1\<lparr>hue := Num 0, saturation := Num 0, iluminance := (if t \<le> 0 then Num 0 else rnd (t / 3))\<rparr>"
      using grey_hsi [of p1 21845 lm] by (auto simp: p1_def p_def)
    have "rnd (21845 / 65565) = Num y" using y d_of_word_Num [of "21845 :: u16"] by simp
    then have "\<bar>y - 21845 / 65565\<bar> \<le> 1 / 1000000" by (rule rnd_near_eq) simp
    then have yb: "- 1 \<le> y" "y \<le> 3335 / 10000" by linarith+
    have tb: "\<bar>t - 3 * y\<bar> \<le> 1 / 1000000" using y(2) yb by (intro rnd_near_eq) simp_all
    then have "\<bar>t / 3\<bar> \<le> 1000" using yb by linarith
    then obtain i where i: "rnd (t / 3) = Num i" "\<bar>i - t / 3\<bar> \<le> 1 / 1000000" using rnd_near by blast
    then have "i < 34 / 100" using tb yb by linarith
    ultimately show ?thesis using i unfolding c by (simp add: p1_def p_def)
  qed
  moreover have "red p = 21845 \<and> green p = 21845 \<and> blue p = 21845" by (simp add: p_def)
  ultimately show ?thesis by blast
qed

text \<open>A cosine that is exact where the two properties need it, for the witnesses.\<close>

definition demo_libm :: libm where
  "demo_libm = \<lparr>m_cos = (\<lambda>x. if x = Num 0 then Num 1 else Num (1 / 2)), m_acos = (\<lambda>_. Num 0)\<rparr>"

theorem rgb_hsi_roundtrip_loses_brightness_witness:
  "\<exists>p p' i. hsi_pixel demo_libm (Num 0) (Num 0) (Num 1) = Inr p \<and> setRed demo_libm (red p) p = Inr p'
     \<and> iluminance p = Num 1 \<and> iluminance p' = Num i \<and> i < 34 / 100"
proof -
  obtain k where k: "third_pi = Num k" "k \<noteq> 0" using third_pi_Num by blast
  have m: "m_cos demo_libm (Num 0) = Num 1" "m_cos demo_libm third_pi = Num (1 / 2)"
    unfolding k(1) using k(2) by (simp_all add: demo_libm_def)
  have "1 / 4 \<le> (1 / 2 :: real)" by simp
  from rgb_hsi_roundtrip_loses_brightness [OF m this] obtain p p' i where
    p: "hsi_pixel demo_libm (Num 0) (Num 0) (Num 1) = Inr p" "setRed demo_libm (red p) p = Inr p'" "iluminance p' = Num i" "i < 34 / 100"
    by blast
  moreover have "iluminance p = Num 1" using p(1) by (auto simp: hsi_pixel_def dest!: convert_hsi_keeps)
  ultimately show ?thesis by blast
qed

theorem setters_clamp_witness:
  "setSaturation demo_libm (Num (- 3)) default_pixel = Inr default_pixel \<and> d_le (Num 0) (saturation default_pixel)"
proof -
  have s: "setSaturation demo_libm (Num (- 3)) default_pixel = Inr default_pixel"
    "setIluminance demo_libm (Num (- 3)) default_pixel = Inr default_pixel"
    by (simp_all add: setSaturation_def setIluminance_def default_pixel_def invalidate_rgb_def
        convert_rgb_to_hsi_pre_def hsi_invalid_def convert_hsi_to_rgb_pre_def rgb_invalid_def clamp_set_def)
  have "\<not> hsi_invalid default_pixel" by (simp add: hsi_invalid_def default_pixel_def)
  then show ?thesis using setters_clamp [OF _ _ s] s(1) by simp
qed

end
