(* ===== verification/Filter_Base.thy ===== *)
theory Filter_Base
  imports Channels Pixel
begin

text \<open>
  What the filters of \<^verbatim>\<open>src/src/filters/\<close> share (\<^verbatim>\<open>filter.hpp\<close>, \<^verbatim>\<open>filter_config_exception.cpp\<close>). A channel is
  a field of a filter object: its address is the position of the filter in the scene together
  with the number of the field. Reading through the pointers of a filter is reading from a
  \<open>memory\<close>, one view per type of channel; a null pointer is None and reading it is undefined.

  Many filters are templates over the type of their channels. The parts of C++ that depend on
  the type are the record \<open>chan_kind\<close> with its four instances \<open>kind8\<close>, \<open>kind16\<close>, \<open>kindf\<close> and
  \<open>kindc\<close>, and a template is a definition that takes such a record.
\<close>

type_synonym addr = "nat \<times> nat"

record memory =
  rd8 :: "addr \<Rightarrow> u8"
  rd16 :: "addr \<Rightarrow> u16"
  rdf :: "addr \<Rightarrow> double"
  rdc :: "addr \<Rightarrow> pixel"

definition quoted :: "string \<Rightarrow> string" where
  "quoted s = CHR 0x27 # s @ [CHR 0x27]"

definition compute_cause :: "string \<Rightarrow> int \<Rightarrow> string \<Rightarrow> string" where
  "compute_cause cause t filter_id =
     ''TYPE:'' @ dec_int t @ ''ID:'' @ quoted filter_id @ ''REASON:'' @ cause"

definition config_error :: "string \<Rightarrow> int \<Rightarrow> string \<Rightarrow> 'a result" where
  "config_error cause t own_id = Inl (Filter_config_exception (compute_cause cause t own_id))"

definition runtime_error :: "string \<Rightarrow> int \<Rightarrow> 'a result" where
  "runtime_error cause t = Inl (Filter_runtime_exception (compute_cause cause t ''???''))"

record 'v chan_kind =
  ck_channels :: "addr channel_mapping \<Rightarrow> (string, addr) omap"
  ck_publish :: "string \<Rightarrow> addr \<Rightarrow> addr channel_mapping \<Rightarrow> addr channel_mapping"
  ck_read :: "memory \<Rightarrow> addr \<Rightarrow> 'v"
  ck_zero :: 'v
  ck_name :: string
  ck_parse :: "string \<Rightarrow> 'v result"

text \<open>Reading an integer parameter: clamped to the range of the type.\<close>

definition parse_clamped :: "int \<Rightarrow> string \<Rightarrow> int result" where
  "parse_clamped highest s = bind_res (stol s) (\<lambda>v. Inr (if v < 0 then 0 else if v > highest then highest else v))"

definition kind8 :: "u8 chan_kind" where
  "kind8 = \<lparr>ck_channels = eight_bit_channels,
     ck_publish = (\<lambda>n a cm. cm\<lparr>eight_bit_channels := om_update n a (eight_bit_channels cm)\<rparr>),
     ck_read = rd8, ck_zero = 0, ck_name = ''uint8_t'',
     ck_parse = (\<lambda>s. bind_res (parse_clamped 255 s) (\<lambda>v. Inr (of_int v)))\<rparr>"

definition kind16 :: "u16 chan_kind" where
  "kind16 = \<lparr>ck_channels = sixteen_bit_channels,
     ck_publish = (\<lambda>n a cm. cm\<lparr>sixteen_bit_channels := om_update n a (sixteen_bit_channels cm)\<rparr>),
     ck_read = rd16, ck_zero = 0, ck_name = ''uint16_t'',
     ck_parse = (\<lambda>s. bind_res (parse_clamped 65535 s) (\<lambda>v. Inr (of_int v)))\<rparr>"

definition kindf :: "double chan_kind" where
  "kindf = \<lparr>ck_channels = float_channels,
     ck_publish = (\<lambda>n a cm. cm\<lparr>float_channels := om_update n a (float_channels cm)\<rparr>),
     ck_read = rdf, ck_zero = Num 0, ck_name = ''double'', ck_parse = stod\<rparr>"

definition kindc :: "libm \<Rightarrow> pixel chan_kind" where
  "kindc lm = \<lparr>ck_channels = color_channels,
     ck_publish = (\<lambda>n a cm. cm\<lparr>color_channels := om_update n a (color_channels cm)\<rparr>),
     ck_read = rdc, ck_zero = default_pixel, ck_name = ''hsv_pixel'', ck_parse = stopixel lm\<rparr>"

lemmas kind_defs = kind8_def kind16_def kindf_def kindc_def

definition deref :: "('v, 'z) chan_kind_scheme \<Rightarrow> memory \<Rightarrow> addr option \<Rightarrow> 'v result" where
  "deref k m p = (case p of None \<Rightarrow> Inl Undefined_behaviour | Some a \<Rightarrow> Inr (ck_read k m a))"

text \<open>Looking up an input channel, with the exception of the filter when it is missing.\<close>

definition link_input ::
  "('v, 'z) chan_kind_scheme \<Rightarrow> addr channel_mapping \<Rightarrow> string \<Rightarrow> string \<Rightarrow> int \<Rightarrow> string \<Rightarrow> addr result" where
  "link_input k cm channel cause t own_id = (case map_of (ck_channels k cm) channel of
      None \<Rightarrow> config_error cause t own_id
    | Some a \<Rightarrow> Inr a)"

text \<open>The message \<open>update_parameter\<close> with which a filter reports to the user interfaces.\<close>

record parameter_update =
  up_filter_id :: string
  up_scene_id :: u32
  up_parameter_key :: string
  up_parameter_value :: string

text \<open>The update from the GUI of a filter without parameters.\<close>

definition no_parameters :: "string \<Rightarrow> string \<Rightarrow> 'f \<Rightarrow> bool \<times> 'f" where
  "no_parameters key value f = (False, f)"

lemma deref_simps [simp]:
  "deref k m None = Inl Undefined_behaviour" "deref k m (Some a) = Inr (ck_read k m a)"
  by (simp_all add: deref_def)

lemma deref_Inr_iff: "deref k m p = Inr v \<longleftrightarrow> (\<exists>a. p = Some a \<and> v = ck_read k m a)"
  by (cases p) auto

lemma link_input_Inr_iff: "link_input k cm channel cause t own_id = Inr a \<longleftrightarrow> map_of (ck_channels k cm) channel = Some a"
  by (auto simp: link_input_def config_error_def split: option.splits)

lemma ck_read_simps [simp]:
  "ck_read kind8 = rd8" "ck_read kind16 = rd16" "ck_read kindf = rdf" "ck_read (kindc lm) = rdc"
  by (simp_all add: kind_defs)

lemma ck_zero_simps [simp]:
  "ck_zero kind8 = 0" "ck_zero kind16 = 0" "ck_zero kindf = Num 0" "ck_zero (kindc lm) = default_pixel"
  by (simp_all add: kind_defs)

lemma parse_clamped_range: "parse_clamped highest s = Inr v \<Longrightarrow> 0 \<le> highest \<Longrightarrow> 0 \<le> v \<and> v \<le> highest"
  by (auto simp: parse_clamped_def bind_res_Inr_iff)

end
