(* ===== verification/Filters_Arith.thy ===== *)
theory Filters_Arith
  imports Filter_Base
begin

text \<open>
  The filters of \<^verbatim>\<open>filter_constants.hpp\<close> (without the responding ones), \<^verbatim>\<open>filter_math.hpp\<close>,
  \<^verbatim>\<open>filter_trigonometric.hpp\<close> and \<^verbatim>\<open>filter_conversion.hpp\<close>. A class is the record of its fields with
  its \<open>setup\<close>, \<open>outputs\<close> (\<open>get_output_channels\<close>), \<open>update\<close> and, where it does something,
  \<open>receive\<close> (\<open>receive_update_from_gui\<close>). The trigonometric functions of the C library are
  parameters.
\<close>

subsection \<open>Constants\<close>

record 'v filter_constant =
  fc_value :: 'v

definition new_constant :: "('v, 'z) chan_kind_scheme \<Rightarrow> 'v filter_constant" where
  "new_constant k = \<lparr>fc_value = ck_zero k\<rparr>"

definition constant_receive ::
  "('v, 'z) chan_kind_scheme \<Rightarrow> string \<Rightarrow> string \<Rightarrow> 'v filter_constant \<Rightarrow> (bool \<times> 'v filter_constant) result" where
  "constant_receive k key v f =
     (if key \<noteq> ''value'' then Inr (False, f)
      else case ck_parse k v of
          Inr x \<Rightarrow> Inr (True, f\<lparr>fc_value := x\<rparr>)
        | Inl (Invalid_argument _) \<Rightarrow> Inr (False, f)
        | Inl (Out_of_range _) \<Rightarrow> Inr (False, f)
        | Inl e \<Rightarrow> Inl e)"

definition constant_setup ::
  "('v, 'z) chan_kind_scheme \<Rightarrow> int \<Rightarrow> (string, string) omap \<Rightarrow> string \<Rightarrow> 'v filter_constant \<Rightarrow> 'v filter_constant result" where
  "constant_setup k own_type initial_parameters own_id f = (case map_of initial_parameters ''value'' of
      None \<Rightarrow> config_error ''Unable to set value of constant filter: initial configuration does not contain value parameter''
          own_type own_id
    | Some v \<Rightarrow> bind_res (constant_receive k ''value'' v f) (\<lambda>(ok, f').
        if \<not> ok then config_error ''Unable to set value of constant filter: unable to parse parameter.'' own_type own_id
        else Inr f'))"

definition constant_outputs ::
  "('v, 'z) chan_kind_scheme \<Rightarrow> nat \<Rightarrow> string \<Rightarrow> addr channel_mapping \<Rightarrow> addr channel_mapping" where
  "constant_outputs k i name cm = ck_publish k (name @ '':value'') (i, 0) cm"

subsection \<open>Functions of one and of two numbers\<close>

record filter_math_single =
  ms_input :: "addr option"
  ms_output :: double

definition math_single_setup ::
  "int \<Rightarrow> addr channel_mapping \<Rightarrow> string \<Rightarrow> filter_math_single \<Rightarrow> filter_math_single result" where
  "math_single_setup own_type cm own_id f =
     bind_res (link_input kindf cm ''value_in'' (''Unable to link input of math filter: channel mapping does not contain '' @
         ''channel 'value_in' of type 'double'.'') own_type own_id) (\<lambda>a. Inr (f\<lparr>ms_input := Some a\<rparr>))"

definition value_output :: "('v, 'z) chan_kind_scheme \<Rightarrow> nat \<Rightarrow> string \<Rightarrow> addr channel_mapping \<Rightarrow> addr channel_mapping" where
  "value_output k i name cm = ck_publish k (name @ '':value'') (i, 0) cm"

text \<open>The function the template is instantiated with takes no part in the update.\<close>

definition math_single_update ::
  "(double \<Rightarrow> double) \<Rightarrow> memory \<Rightarrow> filter_math_single \<Rightarrow> filter_math_single result" where
  "math_single_update F m f = bind_res (deref kindf m (ms_input f)) (\<lambda>v. Inr (f\<lparr>ms_output := v\<rparr>))"

record filter_math_dual =
  md_param1 :: "addr option"
  md_param2 :: "addr option"
  md_output :: double

definition math_dual_setup ::
  "int \<Rightarrow> addr channel_mapping \<Rightarrow> string \<Rightarrow> filter_math_dual \<Rightarrow> filter_math_dual result" where
  "math_dual_setup own_type cm own_id f =
     (case (map_of (float_channels cm) ''param1'', map_of (float_channels cm) ''param2'') of
        (Some a, Some b) \<Rightarrow> Inr (f\<lparr>md_param1 := Some a, md_param2 := Some b\<rparr>)
      | _ \<Rightarrow> config_error (''Unable to link input of math filter: channel mapping does not contain '' @
               ''channel 'param1' or 'param2' of type 'double'.'') own_type own_id)"

definition math_dual_update ::
  "(double \<Rightarrow> double \<Rightarrow> double) \<Rightarrow> memory \<Rightarrow> filter_math_dual \<Rightarrow> filter_math_dual result" where
  "math_dual_update F m f =
     bind_res (deref kindf m (md_param1 f)) (\<lambda>a.
     bind_res (deref kindf m (md_param2 f)) (\<lambda>b. Inr (f\<lparr>md_output := F a b\<rparr>)))"

subsection \<open>Sums\<close>

record 'v filter_multi_t_sum =
  fs_params :: "addr list"
  fs_output :: 'v

definition link_param ::
  "('v, 'z) chan_kind_scheme \<Rightarrow> int \<Rightarrow> addr channel_mapping \<Rightarrow> string \<Rightarrow> nat \<Rightarrow> addr list \<Rightarrow> addr list result" where
  "link_param k own_type cm own_id i params =
     bind_res (link_input k cm (dec i) (''Expected channel input map to contain key: '' @ dec i) own_type own_id)
       (\<lambda>a. Inr (params @ [a]))"

text \<open>A number out of the range of long leaves the set-up as \<open>std::out_of_range\<close>.\<close>

definition sum_setup ::
  "('v, 'z) chan_kind_scheme \<Rightarrow> int \<Rightarrow> (string, string) omap \<Rightarrow> addr channel_mapping \<Rightarrow> string \<Rightarrow>
   'v filter_multi_t_sum \<Rightarrow> 'v filter_multi_t_sum result" where
  "sum_setup k own_type configuration cm own_id f = (case map_of configuration ''input_count'' of
      None \<Rightarrow> config_error ''Paramter `item_count` missing.'' own_type own_id
    | Some s \<Rightarrow>
        (case stol s of
           Inl (Invalid_argument e) \<Rightarrow> config_error (''Unable to decode `item_count` parameter: '' @ e) own_type own_id
         | Inl e \<Rightarrow> Inl e
         | Inr n \<Rightarrow>
             if n < 0 then config_error ''`item_count` must not be negative.'' own_type own_id
             else bind_res (fold_res (link_param k own_type cm own_id) [0..<nat n] (fs_params f))
                    (\<lambda>params. Inr (f\<lparr>fs_params := params\<rparr>))))"

definition saturating_add :: "'w::len word \<Rightarrow> 'w word \<Rightarrow> 'w word" where
  "saturating_add v acc = of_nat (min (unat v + unat acc) (2 ^ LENGTH('w) - 1))"

definition sum_update ::
  "('v, 'z) chan_kind_scheme \<Rightarrow> ('v \<Rightarrow> 'v \<Rightarrow> 'v) \<Rightarrow> memory \<Rightarrow> 'v filter_multi_t_sum \<Rightarrow> 'v filter_multi_t_sum" where
  "sum_update k add m f = f\<lparr>fs_output := foldl (\<lambda>acc a. add (ck_read k m a) acc) (ck_zero k) (fs_params f)\<rparr>"

definition sum_8bit_update :: "memory \<Rightarrow> u8 filter_multi_t_sum \<Rightarrow> u8 filter_multi_t_sum" where
  "sum_8bit_update = sum_update kind8 saturating_add"

definition sum_16bit_update :: "memory \<Rightarrow> u16 filter_multi_t_sum \<Rightarrow> u16 filter_multi_t_sum" where
  "sum_16bit_update = sum_update kind16 saturating_add"

definition sum_float_update :: "memory \<Rightarrow> double filter_multi_t_sum \<Rightarrow> double filter_multi_t_sum" where
  "sum_float_update = sum_update kindf (\<lambda>v acc. d_add acc v)"

subsection \<open>Splitting and joining bytes\<close>

record filter_16bit_to_dual_byte =
  db_input :: "addr option"
  lower_output :: u8
  upper_output :: u8

definition dual_byte_setup ::
  "addr channel_mapping \<Rightarrow> string \<Rightarrow> filter_16bit_to_dual_byte \<Rightarrow> filter_16bit_to_dual_byte result" where
  "dual_byte_setup cm own_id f =
     bind_res (link_input kind16 cm ''value'' (''Unable to link input of 16 bit splitting filter: channel mapping does '' @
       ''not contain channel 'value' of type 'uint16_t'.'') 8 own_id) (\<lambda>a. Inr (f\<lparr>db_input := Some a\<rparr>))"

definition dual_byte_outputs :: "nat \<Rightarrow> string \<Rightarrow> addr channel_mapping \<Rightarrow> addr channel_mapping" where
  "dual_byte_outputs i name cm =
     ck_publish kind8 (name @ '':value_upper'') (i, 1) (ck_publish kind8 (name @ '':value_lower'') (i, 0) cm)"

definition dual_byte_update :: "memory \<Rightarrow> filter_16bit_to_dual_byte \<Rightarrow> filter_16bit_to_dual_byte result" where
  "dual_byte_update m f = bind_res (deref kind16 m (db_input f)) (\<lambda>v.
     Inr (f\<lparr>lower_output := ucast (and v 0x00FF), upper_output := ucast (drop_bit 8 (and v 0xFF00))\<rparr>))"

record filter_16bit_to_bool =
  tb_input :: "addr option"
  tb_output :: u8

definition to_bool_setup :: "addr channel_mapping \<Rightarrow> string \<Rightarrow> filter_16bit_to_bool \<Rightarrow> filter_16bit_to_bool result" where
  "to_bool_setup cm own_id f =
     bind_res (link_input kind16 cm ''value_in'' (''Unable to link input of bool conversion filter: channel mapping does not'' @
       '' contain channel 'value_in' of type 'uint16_t'.'') 9 own_id) (\<lambda>a. Inr (f\<lparr>tb_input := Some a\<rparr>))"

definition to_bool_update :: "memory \<Rightarrow> filter_16bit_to_bool \<Rightarrow> filter_16bit_to_bool result" where
  "to_bool_update m f = bind_res (deref kind16 m (tb_input f)) (\<lambda>v. Inr (f\<lparr>tb_output := (if v > 0 then 1 else 0)\<rparr>))"

record filter_combine_bytes_to_16bit =
  cb_output :: u16
  cb_lower_input :: "addr option"
  cb_upper_input :: "addr option"

definition combine_setup ::
  "addr channel_mapping \<Rightarrow> string \<Rightarrow> filter_combine_bytes_to_16bit \<Rightarrow> filter_combine_bytes_to_16bit result" where
  "combine_setup cm own_id f =
     bind_res (link_input kind8 cm ''lower'' (''Unable to link input of 8 bit merge to 16 bit filter: channel mapping does '' @
       ''not contain channel 'lower' of type 'uint8_t'.'') 57 own_id) (\<lambda>l.
     bind_res (link_input kind8 cm ''upper'' (''Unable to link input of 8 bit merge to 16 bit filter: channel mapping does '' @
       ''not contain channel 'upper' of type 'uint8_t'.'') 57 own_id) (\<lambda>u.
     Inr (f\<lparr>cb_lower_input := Some l, cb_upper_input := Some u\<rparr>)))"

text \<open>The bytes are promoted to int before the shift and the addition.\<close>

definition combine_bytes :: "u8 \<Rightarrow> u8 \<Rightarrow> u16" where
  "combine_bytes upper lower = ucast (push_bit 8 (ucast upper :: u32)) + ucast lower"

definition combine_update ::
  "memory \<Rightarrow> filter_combine_bytes_to_16bit \<Rightarrow> filter_combine_bytes_to_16bit result" where
  "combine_update m f =
     bind_res (deref kind8 m (cb_upper_input f)) (\<lambda>u.
     bind_res (deref kind8 m (cb_lower_input f)) (\<lambda>l. Inr (f\<lparr>cb_output := combine_bytes u l\<rparr>)))"

record filter_map_8bit_to_16bit =
  mp_output :: u16
  mp_input :: "addr option"

definition map_8bit_setup :: "addr channel_mapping \<Rightarrow> string \<Rightarrow> filter_map_8bit_to_16bit \<Rightarrow> filter_map_8bit_to_16bit result" where
  "map_8bit_setup cm own_id f =
     bind_res (link_input kind8 cm ''value_in'' (''Unable to link input of 8 bit map to 16 bit filter: channel mapping does '' @
       ''not contain channel 'value_in' of type 'uint8_t'.'') 58 own_id) (\<lambda>a. Inr (f\<lparr>mp_input := Some a\<rparr>))"

definition map_8bit_update :: "memory \<Rightarrow> filter_map_8bit_to_16bit \<Rightarrow> filter_map_8bit_to_16bit result" where
  "map_8bit_update m f = bind_res (deref kind8 m (mp_input f)) (\<lambda>v. Inr (f\<lparr>mp_output := combine_bytes v v\<rparr>))"

subsection \<open>Numbers with a fractional part\<close>

record filter_multiply_add =
  input_factor_1 :: "addr option"
  input_factor_2 :: "addr option"
  input_summand :: "addr option"
  ma_output :: double

definition multiply_add_setup :: "addr channel_mapping \<Rightarrow> string \<Rightarrow> filter_multiply_add \<Rightarrow> filter_multiply_add result" where
  "multiply_add_setup cm own_id f =
     (case (map_of (float_channels cm) ''factor1'', map_of (float_channels cm) ''factor2'', map_of (float_channels cm) ''summand'') of
        (Some a, Some b, Some c) \<Rightarrow> Inr (f\<lparr>input_factor_1 := Some a, input_factor_2 := Some b, input_summand := Some c\<rparr>)
      | _ \<Rightarrow> config_error (''Unable to link input of multiply add filter: channel mapping does not '' @
               ''contain required channels.'') 10 own_id)"

definition multiply_add_update :: "memory \<Rightarrow> filter_multiply_add \<Rightarrow> filter_multiply_add result" where
  "multiply_add_update m f =
     bind_res (deref kindf m (input_factor_1 f)) (\<lambda>a.
     bind_res (deref kindf m (input_factor_2 f)) (\<lambda>b.
     bind_res (deref kindf m (input_summand f)) (\<lambda>c. Inr (f\<lparr>ma_output := d_add (d_mul a b) c\<rparr>))))"

record 'v filter_float_to_X =
  fx_input :: "addr option"
  fx_output :: 'v

definition float_to_X_setup ::
  "string \<Rightarrow> int \<Rightarrow> addr channel_mapping \<Rightarrow> string \<Rightarrow> 'v filter_float_to_X \<Rightarrow> 'v filter_float_to_X result" where
  "float_to_X_setup what own_type cm own_id f =
     bind_res (link_input kindf cm ''value_in'' (''Unable to link input of '' @ what @ '' filter: channel '' @
       ''mapping does not contain channel 'value_in' of type 'double'.'') own_type own_id) (\<lambda>a. Inr (f\<lparr>fx_input := Some a\<rparr>))"

text \<open>The texts of the 8 and the 16 bit class are swapped in the code.\<close>

definition float_to_8bit_setup :: "addr channel_mapping \<Rightarrow> string \<Rightarrow> u8 filter_float_to_X \<Rightarrow> u8 filter_float_to_X result" where
  "float_to_8bit_setup = float_to_X_setup ''float to 16 bit conversion'' 13"

definition float_to_16bit_setup :: "addr channel_mapping \<Rightarrow> string \<Rightarrow> u16 filter_float_to_X \<Rightarrow> u16 filter_float_to_X result" where
  "float_to_16bit_setup = float_to_X_setup ''float to 8 bit conversion'' 12"

definition round_number_setup :: "addr channel_mapping \<Rightarrow> string \<Rightarrow> double filter_float_to_X \<Rightarrow> double filter_float_to_X result" where
  "round_number_setup = float_to_X_setup ''number rounding'' 14"

definition float_to_X_update ::
  "(double \<Rightarrow> 'v result) \<Rightarrow> memory \<Rightarrow> 'v filter_float_to_X \<Rightarrow> 'v filter_float_to_X result" where
  "float_to_X_update cast m f = bind_res (deref kindf m (fx_input f)) (\<lambda>v.
     bind_res (cast (d_round v)) (\<lambda>x. Inr (f\<lparr>fx_output := x\<rparr>)))"

definition cast_u8 :: "double \<Rightarrow> u8 result" where
  "cast_u8 d = bind_res (to_unsigned 8 d) (\<lambda>n. Inr (of_nat n))"

definition cast_u16 :: "double \<Rightarrow> u16 result" where
  "cast_u16 d = bind_res (to_unsigned 16 d) (\<lambda>n. Inr (of_nat n))"

definition float_to_8bit_update :: "memory \<Rightarrow> u8 filter_float_to_X \<Rightarrow> u8 filter_float_to_X result" where
  "float_to_8bit_update = float_to_X_update cast_u8"

definition float_to_16bit_update :: "memory \<Rightarrow> u16 filter_float_to_X \<Rightarrow> u16 filter_float_to_X result" where
  "float_to_16bit_update = float_to_X_update cast_u16"

definition round_number_update :: "memory \<Rightarrow> double filter_float_to_X \<Rightarrow> double filter_float_to_X result" where
  "round_number_update = float_to_X_update Inr"

record filter_to_float =
  tf_input :: "addr option"
  tf_output :: double

definition to_float_setup ::
  "('v, 'z) chan_kind_scheme \<Rightarrow> int \<Rightarrow> addr channel_mapping \<Rightarrow> string \<Rightarrow> filter_to_float \<Rightarrow> filter_to_float result" where
  "to_float_setup k own_type cm own_id f =
     bind_res (link_input k cm ''value_in'' (''Unable to link input of float conversion filter: channel mapping '' @
       ''does not contain channel 'value_in' of type '' @ quoted (ck_name k) @ ''.'') own_type own_id)
       (\<lambda>a. Inr (f\<lparr>tf_input := Some a\<rparr>))"

definition to_float_update ::
  "('v \<Rightarrow> double) \<Rightarrow> ('v, 'z) chan_kind_scheme \<Rightarrow> memory \<Rightarrow> filter_to_float \<Rightarrow> filter_to_float result" where
  "to_float_update to_double k m f = bind_res (deref k m (tf_input f)) (\<lambda>v. Inr (f\<lparr>tf_output := to_double v\<rparr>))"

definition filter_8bit_to_float_update :: "memory \<Rightarrow> filter_to_float \<Rightarrow> filter_to_float result" where
  "filter_8bit_to_float_update = to_float_update d_of_word kind8"

definition filter_16bit_to_float_update :: "memory \<Rightarrow> filter_to_float \<Rightarrow> filter_to_float result" where
  "filter_16bit_to_float_update = to_float_update d_of_word kind16"

subsection \<open>Colours\<close>

text \<open>
  The getters of a colour may convert it in place, so the update also returns what the colour
  that was read is afterwards.
\<close>

record filter_pixel_to_rgb_channels =
  rgb_input :: "addr option"
  rgb_r :: u8
  rgb_g :: u8
  rgb_b :: u8

definition pixel_input ::
  "libm \<Rightarrow> string \<Rightarrow> int \<Rightarrow> string \<Rightarrow> addr channel_mapping \<Rightarrow> string \<Rightarrow> addr result" where
  "pixel_input lm channel t cause cm own_id = link_input (kindc lm) cm channel cause t own_id"

definition pixel_to_rgb_setup ::
  "libm \<Rightarrow> addr channel_mapping \<Rightarrow> string \<Rightarrow> filter_pixel_to_rgb_channels \<Rightarrow> filter_pixel_to_rgb_channels result" where
  "pixel_to_rgb_setup lm cm own_id f =
     bind_res (pixel_input lm ''value'' 15 (''Unable to link input of color to rgb filter: channel mapping does not '' @
       ''contain channel 'value' of type 'color'.'') cm own_id) (\<lambda>a. Inr (f\<lparr>rgb_input := Some a\<rparr>))"

definition pixel_to_rgb_outputs :: "nat \<Rightarrow> string \<Rightarrow> addr channel_mapping \<Rightarrow> addr channel_mapping" where
  "pixel_to_rgb_outputs i name cm =
     ck_publish kind8 (name @ '':b'') (i, 2) (ck_publish kind8 (name @ '':g'') (i, 1) (ck_publish kind8 (name @ '':r'') (i, 0) cm))"

definition high_byte :: "u16 \<Rightarrow> u8" where
  "high_byte v = ucast (drop_bit 8 (and v 0xFF00))"

definition pixel_to_rgb_update ::
  "libm \<Rightarrow> memory \<Rightarrow> filter_pixel_to_rgb_channels \<Rightarrow> (filter_pixel_to_rgb_channels \<times> pixel) result" where
  "pixel_to_rgb_update lm m f =
     bind_res (deref (kindc lm) m (rgb_input f)) (\<lambda>p.
     bind_res (getRed lm p) (\<lambda>(r, p1).
     bind_res (getGreen lm p1) (\<lambda>(g, p2).
     bind_res (getBlue lm p2) (\<lambda>(b, p3).
     Inr (f\<lparr>rgb_r := high_byte r, rgb_g := high_byte g, rgb_b := high_byte b\<rparr>, p3)))))"

record filter_pixel_to_rgbw_channels =
  rgbw_input :: "addr option"
  rgbw_r :: u8
  rgbw_g :: u8
  rgbw_b :: u8
  rgbw_w :: u8

definition pixel_to_rgbw_setup ::
  "libm \<Rightarrow> addr channel_mapping \<Rightarrow> string \<Rightarrow> filter_pixel_to_rgbw_channels \<Rightarrow> filter_pixel_to_rgbw_channels result" where
  "pixel_to_rgbw_setup lm cm own_id f =
     bind_res (pixel_input lm ''value'' 16 (''Unable to link input of color to rgbw filter: channel mapping does not '' @
       ''contain channel 'value' of type 'color'.'') cm own_id) (\<lambda>a. Inr (f\<lparr>rgbw_input := Some a\<rparr>))"

definition pixel_to_rgbw_outputs :: "nat \<Rightarrow> string \<Rightarrow> addr channel_mapping \<Rightarrow> addr channel_mapping" where
  "pixel_to_rgbw_outputs i name cm = ck_publish kind8 (name @ '':w'') (i, 3) (pixel_to_rgb_outputs i name cm)"

definition pixel_to_rgbw_update ::
  "libm \<Rightarrow> memory \<Rightarrow> filter_pixel_to_rgbw_channels \<Rightarrow> filter_pixel_to_rgbw_channels result" where
  "pixel_to_rgbw_update lm m f =
     bind_res (deref (kindc lm) m (rgbw_input f)) (\<lambda>p.
     bind_res (pixel_to_rgbw lm p) (\<lambda>(r, g, b, w). Inr (f\<lparr>rgbw_r := r, rgbw_g := g, rgbw_b := b, rgbw_w := w\<rparr>)))"

record filter_floats_to_pixel =
  fp_output :: pixel
  fp_h :: "addr option"
  fp_s :: "addr option"
  fp_i :: "addr option"

definition floats_to_pixel_setup ::
  "addr channel_mapping \<Rightarrow> string \<Rightarrow> filter_floats_to_pixel \<Rightarrow> filter_floats_to_pixel result" where
  "floats_to_pixel_setup cm own_id f =
     (case (map_of (float_channels cm) ''h'', map_of (float_channels cm) ''s'', map_of (float_channels cm) ''i'') of
        (Some h, Some s, Some i) \<Rightarrow> Inr (f\<lparr>fp_h := Some h, fp_s := Some s, fp_i := Some i\<rparr>)
      | _ \<Rightarrow> config_error (''Unable to link input of float to color filter: channel mapping does not '' @
               ''contain input channels.'') 18 own_id)"

definition floats_to_pixel_update :: "libm \<Rightarrow> memory \<Rightarrow> filter_floats_to_pixel \<Rightarrow> filter_floats_to_pixel result" where
  "floats_to_pixel_update lm m f =
     bind_res (deref kindf m (fp_h f)) (\<lambda>h.
     bind_res (deref kindf m (fp_s f)) (\<lambda>s.
     bind_res (deref kindf m (fp_i f)) (\<lambda>i.
     bind_res (hsi_pixel lm h s i) (\<lambda>p. Inr (f\<lparr>fp_output := p\<rparr>)))))"

record filter_pixel_to_floats =
  pf_input :: "addr option"
  pf_h :: double
  pf_s :: double
  pf_i :: double

definition pixel_to_floats_setup ::
  "libm \<Rightarrow> addr channel_mapping \<Rightarrow> string \<Rightarrow> filter_pixel_to_floats \<Rightarrow> filter_pixel_to_floats result" where
  "pixel_to_floats_setup lm cm own_id f =
     bind_res (pixel_input lm ''input'' 53 (''Unable to link input of color to float filter: channel mapping does not '' @
       ''contain the input channel.'') cm own_id) (\<lambda>a. Inr (f\<lparr>pf_input := Some a\<rparr>))"

definition pixel_to_floats_outputs :: "nat \<Rightarrow> string \<Rightarrow> addr channel_mapping \<Rightarrow> addr channel_mapping" where
  "pixel_to_floats_outputs i name cm =
     ck_publish kindf (name @ '':i'') (i, 2) (ck_publish kindf (name @ '':s'') (i, 1) (ck_publish kindf (name @ '':h'') (i, 0) cm))"

definition pixel_to_floats_update ::
  "libm \<Rightarrow> memory \<Rightarrow> filter_pixel_to_floats \<Rightarrow> (filter_pixel_to_floats \<times> pixel) result" where
  "pixel_to_floats_update lm m f =
     bind_res (deref (kindc lm) m (pf_input f)) (\<lambda>p.
       let (h, p1) = getHue lm p; (s, p2) = getSaturation lm p1; (i, p3) = getIluminance lm p2
       in Inr (f\<lparr>pf_h := h, pf_s := s, pf_i := i\<rparr>, p3))"

subsection \<open>Mapping a range\<close>

record 'v float_map_range =
  mr_input :: "addr option"
  lower_bound_in :: double
  upper_bound_in :: double
  lower_bound_out :: double
  upper_bound_out :: double
  limit :: bool
  mr_output :: 'v

definition new_map_range :: "'v \<Rightarrow> 'v float_map_range" where
  "new_map_range zero = \<lparr>mr_input = None, lower_bound_in = Num 0, upper_bound_in = Num 1, lower_bound_out = Num 0,
     upper_bound_out = Num 1, limit = False, mr_output = zero\<rparr>"

definition DBL_MIN :: real where
  "DBL_MIN = 2 powi (- 1022)"

text \<open>A parameter given as a number; what \<open>stod\<close> does not accept is refused.\<close>

definition set_bound ::
  "(double \<Rightarrow> bool) \<Rightarrow> (double \<Rightarrow> 'f \<Rightarrow> 'f) \<Rightarrow> string \<Rightarrow> 'f \<Rightarrow> bool \<times> 'f" where
  "set_bound refused store v f = (case stod v of
      Inl _ \<Rightarrow> (False, f)
    | Inr val \<Rightarrow> if refused val then (False, f) else (True, store val f))"

definition map_range_receive :: "string \<Rightarrow> string \<Rightarrow> 'v float_map_range \<Rightarrow> bool \<times> 'v float_map_range" where
  "map_range_receive key v f =
     (if key = ''lower_bound_in''
      then set_bound (\<lambda>x. d_lt (d_abs (d_sub x (upper_bound_in f))) (Num DBL_MIN)) (\<lambda>x f. f\<lparr>lower_bound_in := x\<rparr>) v f
      else if key = ''upper_bound_in''
      then set_bound (\<lambda>x. d_lt (d_abs (d_sub x (lower_bound_in f))) (Num DBL_MIN)) (\<lambda>x f. f\<lparr>upper_bound_in := x\<rparr>) v f
      else if key = ''lower_bound_out'' then set_bound (\<lambda>_. False) (\<lambda>x f. f\<lparr>lower_bound_out := x\<rparr>) v f
      else if key = ''upper_bound_out'' then set_bound (\<lambda>_. False) (\<lambda>x f. f\<lparr>upper_bound_out := x\<rparr>) v f
      else if key = ''limit_range'' then (True, f\<lparr>limit := (v = ''1'')\<rparr>)
      else (False, f))"

text \<open>An initial parameter is applied when it is present and not empty.\<close>

definition map_range_initial ::
  "int \<Rightarrow> string \<Rightarrow> (string, string) omap \<Rightarrow> string \<times> string \<Rightarrow> 'v float_map_range \<Rightarrow> 'v float_map_range result" where
  "map_range_initial own_type own_id initial_parameters kc f =
     (let (key, cause) = kc in case map_of initial_parameters key of
        None \<Rightarrow> Inr f
      | Some v \<Rightarrow> if v = [] then Inr f
          else (let (ok, f') = map_range_receive key v f
                in if \<not> ok then config_error cause own_type own_id else Inr f'))"

definition parse_cause :: "string \<Rightarrow> string" where
  "parse_cause key = ''Unable to parse '' @ key @ '' of float map range filter conversion filter ''"

definition map_range_setup ::
  "double \<Rightarrow> int \<Rightarrow> (string, string) omap \<Rightarrow> addr channel_mapping \<Rightarrow> string \<Rightarrow>
   'v float_map_range \<Rightarrow> 'v float_map_range result" where
  "map_range_setup default_bound own_type initial_parameters cm own_id f =
     bind_res (link_input kindf cm ''value_in'' (''Unable to link input of float map range filter conversion filter: channel mapping '' @
       ''does not contain channel 'value_in' of type 'float'.'') own_type own_id) (\<lambda>a.
     let f1 = f\<lparr>mr_input := Some a, upper_bound_out := default_bound\<rparr>;
         limit_cause = ''Unable to set the parameter for limiting the tange to '' @
           (case map_of initial_parameters ''limit_range'' of None \<Rightarrow> [] | Some v \<Rightarrow> v)
     in fold_res (map_range_initial own_type own_id initial_parameters)
          [(''limit_range'', limit_cause), (''lower_bound_in'', parse_cause ''lower_bound_in''),
           (''upper_bound_in'', parse_cause ''upper_bound_in''), (''lower_bound_out'', parse_cause ''lower_bound_out''),
           (''upper_bound_out'', parse_cause ''upper_bound_out'')] f1)"

definition map_range_value :: "'v float_map_range \<Rightarrow> double \<Rightarrow> double" where
  "map_range_value f v =
     (let value_in = std_max (std_min v (if limit f then upper_bound_in f else v)) (if limit f then lower_bound_in f else v)
      in d_add (d_mul (d_div (d_sub value_in (lower_bound_in f)) (d_sub (upper_bound_in f) (lower_bound_in f)))
                 (d_sub (upper_bound_out f) (lower_bound_out f))) (lower_bound_out f))"

definition map_range_update ::
  "(double \<Rightarrow> 'v result) \<Rightarrow> memory \<Rightarrow> 'v float_map_range \<Rightarrow> 'v float_map_range result" where
  "map_range_update cast m f = bind_res (deref kindf m (mr_input f)) (\<lambda>v.
     bind_res (cast (map_range_value f v)) (\<lambda>x. Inr (f\<lparr>mr_output := x\<rparr>)))"

definition map_range_8bit_update :: "memory \<Rightarrow> u8 float_map_range \<Rightarrow> u8 float_map_range result" where
  "map_range_8bit_update = map_range_update (\<lambda>val. cast_u8 (d_round (std_max (std_min val (Num 255)) (Num 0))))"

definition map_range_16bit_update :: "memory \<Rightarrow> u16 float_map_range \<Rightarrow> u16 float_map_range result" where
  "map_range_16bit_update = map_range_update (\<lambda>val. cast_u16 (d_round (std_max (std_min val (Num 65535)) (Num 0))))"

definition map_range_float_update :: "memory \<Rightarrow> double float_map_range \<Rightarrow> double float_map_range result" where
  "map_range_float_update = map_range_update Inr"

subsection \<open>Waves\<close>

text \<open>\<open>std::remainder\<close>: exact, with the quotient rounded to the nearest integer.\<close>

fun d_remainder :: "double \<Rightarrow> double \<Rightarrow> double" where
  "d_remainder (Num x) (Num y) = (if y = 0 then NaN else Num (x - of_int (round_half_even (x / y)) * y))"
| "d_remainder (Num x) (Inf _) = Num x"
| "d_remainder _ _ = NaN"

definition angle :: "double \<Rightarrow> double \<Rightarrow> double \<Rightarrow> double" where
  "angle v m p = d_remainder (d_mul (d_add v p) m) (Num 360)"

definition fun_deg :: "(double \<Rightarrow> double) \<Rightarrow> double \<Rightarrow> double \<Rightarrow> double \<Rightarrow> double \<Rightarrow> double \<Rightarrow> double" where
  "fun_deg c_function v f m p off = d_add (d_mul f (c_function (d_div (d_mul (angle v m p) (lit pi)) (Num 180)))) off"

definition triangle :: "double \<Rightarrow> double \<Rightarrow> double \<Rightarrow> double \<Rightarrow> double \<Rightarrow> double" where
  "triangle v f m p off =
     d_add (d_mul f (d_sub (Num 1) (d_mul (Num 2) (d_abs (d_div
       (d_remainder (d_mul (d_sub (d_add v p) (Num 90)) m) (Num 360)) (Num 180)))))) off"

definition sawtooth :: "double \<Rightarrow> double \<Rightarrow> double \<Rightarrow> double \<Rightarrow> double \<Rightarrow> double" where
  "sawtooth v f m p off = d_add (d_div (d_mul f (angle v m p)) (Num 180)) off"

definition square_wave :: "double \<Rightarrow> double \<Rightarrow> double \<Rightarrow> double \<Rightarrow> double \<Rightarrow> double \<Rightarrow> double" where
  "square_wave v f m p off l =
     d_add (d_mul f (d_sub (d_mul (Num 2) (if d_lt (d_sub l (Num 180)) (angle v m p) then Num 1 else Num 0)) (Num 1))) off"

definition inverse_deg :: "(double \<Rightarrow> double) \<Rightarrow> double \<Rightarrow> double" where
  "inverse_deg c_function v = d_div (d_mul (c_function v) (Num 180)) (lit pi)"

record filter_trigonometric =
  tr_input :: "addr option"
  factor_outer :: "addr option"
  factor_inner :: "addr option"
  phase :: "addr option"
  tr_offset :: "addr option"
  tr_length :: "addr option"
  tr_output :: double

definition trig_link :: "int \<Rightarrow> addr channel_mapping \<Rightarrow> string \<Rightarrow> string \<Rightarrow> addr result" where
  "trig_link own_type cm own_id channel =
     link_input kindf cm channel (''Unable to link input of trigonometric filter: channel mapping does not contain channel '' @
       quoted channel @ '' of type 'double'.'') own_type own_id"

definition trigonometric_setup ::
  "int \<Rightarrow> addr channel_mapping \<Rightarrow> string \<Rightarrow> filter_trigonometric \<Rightarrow> filter_trigonometric result" where
  "trigonometric_setup own_type cm own_id f =
     bind_res (trig_link own_type cm own_id ''value_in'') (\<lambda>a.
     bind_res (trig_link own_type cm own_id ''factor_outer'') (\<lambda>b.
     bind_res (trig_link own_type cm own_id ''factor_inner'') (\<lambda>c.
     bind_res (trig_link own_type cm own_id ''phase'') (\<lambda>d.
     bind_res (trig_link own_type cm own_id ''offset'') (\<lambda>e.
     Inr (f\<lparr>tr_input := Some a, factor_outer := Some b, factor_inner := Some c, phase := Some d, tr_offset := Some e\<rparr>))))))"

definition five_params_setup ::
  "int \<Rightarrow> addr channel_mapping \<Rightarrow> string \<Rightarrow> filter_trigonometric \<Rightarrow> filter_trigonometric result" where
  "five_params_setup own_type cm own_id f =
     bind_res (trigonometric_setup own_type cm own_id f) (\<lambda>f'.
     bind_res (trig_link own_type cm own_id ''length'') (\<lambda>l. Inr (f'\<lparr>tr_length := Some l\<rparr>)))"

definition trigonometric_update ::
  "(double \<Rightarrow> double \<Rightarrow> double \<Rightarrow> double \<Rightarrow> double \<Rightarrow> double) \<Rightarrow> memory \<Rightarrow>
   filter_trigonometric \<Rightarrow> filter_trigonometric result" where
  "trigonometric_update F m f =
     bind_res (deref kindf m (tr_input f)) (\<lambda>v. bind_res (deref kindf m (factor_outer f)) (\<lambda>b.
     bind_res (deref kindf m (factor_inner f)) (\<lambda>c. bind_res (deref kindf m (phase f)) (\<lambda>d.
     bind_res (deref kindf m (tr_offset f)) (\<lambda>e. Inr (f\<lparr>tr_output := F v b c d e\<rparr>))))))"

definition five_params_update ::
  "(double \<Rightarrow> double \<Rightarrow> double \<Rightarrow> double \<Rightarrow> double \<Rightarrow> double \<Rightarrow> double) \<Rightarrow> memory \<Rightarrow>
   filter_trigonometric \<Rightarrow> filter_trigonometric result" where
  "five_params_update F m f =
     bind_res (deref kindf m (tr_length f)) (\<lambda>l. trigonometric_update (\<lambda>v b c d e. F v b c d e l) m f)"

subsection \<open>Bytes\<close>

lemma unat_ucast_up: "LENGTH('a) \<le> LENGTH('b) \<Longrightarrow> unat (ucast (w :: 'a::len word) :: 'b::len word) = unat w"
proof -
  assume l: "LENGTH('a) \<le> LENGTH('b)"
  have "unat w < 2 ^ LENGTH('a)" by (rule unsigned_less)
  also have "(2 :: nat) ^ LENGTH('a) \<le> 2 ^ LENGTH('b)" using l by (rule power_increasing) simp
  finally show ?thesis by (simp add: unsigned_ucast_eq take_bit_nat_eq_self)
qed

lemma unat_combine_bytes: "unat (combine_bytes u l) = unat u * 256 + unat l"
proof -
  have u: "unat u < 256" and l: "unat l < 256"
    using unsigned_less [of u, where ?'a = nat] unsigned_less [of l, where ?'a = nat] by simp_all
  have "unat (push_bit 8 (ucast u :: u32)) = unat u * 256"
    using u unat_ucast_up [of u, where 'b = 32] unfolding unsigned_push_bit_eq
    by (simp add: push_bit_eq_mult take_bit_eq_mod)
  then have "unat (ucast (push_bit 8 (ucast u :: u32)) :: u16) = unat u * 256"
    using u by (simp only: unsigned_ucast_eq) (simp add: take_bit_eq_mod)
  then show ?thesis using u l unat_ucast_up [of l, where 'b = 16]
    unfolding combine_bytes_def by (simp only: unat_word_ariths) simp
qed

lemma unat_low_byte: "unat (ucast (and v 0x00FF) :: u8) = unat (v :: u16) mod 256"
proof -
  have eq: "and v 0x00FF = take_bit 8 v" by (simp add: take_bit_eq_mask mask_eq_exp_minus_1)
  have "unat (and v 0x00FF) = unat v mod 256" unfolding eq by (simp add: unat_mod take_bit_eq_mod)
  then show ?thesis by (simp only: unsigned_ucast_eq) (simp add: take_bit_eq_mod)
qed

lemma unat_high_byte: "unat (ucast (drop_bit 8 (and v 0xFF00)) :: u8) = unat (v :: u16) div 256"
proof -
  have "(0xFF00 :: u16) = push_bit 8 (mask 8)" by (simp add: mask_eq_exp_minus_1 push_bit_eq_mult)
  then have "drop_bit 8 (and v 0xFF00) = and (drop_bit 8 v) (drop_bit 8 (push_bit 8 (mask 8)))" by (simp only: drop_bit_and)
  also have "\<dots> = drop_bit 8 v"
    by (rule bit_word_eqI) (auto simp: bit_simps dest: bit_imp_le_length)
  finally have d: "drop_bit 8 (and v 0xFF00) = drop_bit 8 v" .
  have "unat v < 65536" using unsigned_less [of v, where ?'a = nat] by simp
  then show ?thesis unfolding d
    by (simp only: unsigned_ucast_eq unsigned_drop_bit_eq) (simp add: take_bit_eq_mod drop_bit_eq_div unat_div)
qed
text \<open>
  Splitting and joining: joining the two bytes the splitting filter puts out gives the 16 bit
  value it read, and splitting a joined value gives back the two bytes.
\<close>

theorem split_join_roundtrip:
  assumes "db_input f = Some a" and "dual_byte_update m f = Inr f'"
  shows "combine_bytes (upper_output f') (lower_output f') = rd16 m a
    \<and> (\<forall>u l. rd16 m a = combine_bytes u l \<longrightarrow> upper_output f' = u \<and> lower_output f' = l)"
proof -
  have f': "f' = f\<lparr>lower_output := ucast (and (rd16 m a) 0x00FF), upper_output := ucast (drop_bit 8 (and (rd16 m a) 0xFF00))\<rparr>"
    using assms by (simp add: dual_byte_update_def)
  have b: "unat (l :: u8) < 256" for l using unsigned_less [of l, where ?'a = nat] by simp
  have "upper_output f' = ucast (drop_bit 8 (and (rd16 m a) 0xFF00))" "lower_output f' = ucast (and (rd16 m a) 0x00FF)"
    by (simp_all add: f')
  then have o: "unat (upper_output f') = unat (rd16 m a) div 256" "unat (lower_output f') = unat (rd16 m a) mod 256"
    by (simp_all only: unat_high_byte unat_low_byte)
  have "unat (combine_bytes (upper_output f') (lower_output f')) = unat (rd16 m a)"
    unfolding unat_combine_bytes o by simp
  moreover have "upper_output f' = u \<and> lower_output f' = l" if "rd16 m a = combine_bytes u l" for u l
  proof -
    have "unat (rd16 m a) = unat u * 256 + unat l" using that by (simp add: unat_combine_bytes)
    then have "unat (upper_output f') = unat u" "unat (lower_output f') = unat l"
      using b [of l] unfolding o by simp_all
    then show ?thesis by (simp add: word_unat_eq_iff)
  qed
  ultimately show ?thesis by (simp add: word_unat_eq_iff)
qed

subsection \<open>Saturating sums\<close>

lemma unat_le_max: "unat v \<le> 2 ^ LENGTH('w) - 1" for v :: "'w::len word"
  using unsigned_less [of v, where ?'a = nat] by linarith

lemma unat_saturating_add: "unat (saturating_add v acc) = min (unat v + unat acc) (2 ^ LENGTH('w) - 1)"
  for v acc :: "'w::len word"
proof -
  have "min (unat v + unat acc) (2 ^ LENGTH('w) - 1) < 2 ^ LENGTH('w)"
    by (simp add: min_less_iff_disj)
  then show ?thesis by (simp add: saturating_add_def unat_of_nat)
qed

lemma saturating_foldl:
  fixes acc :: "'w::len word"
  shows "unat (foldl (\<lambda>acc a. saturating_add (rd a) acc) acc as)
    = min (unat acc + sum_list (map (unat \<circ> rd) as)) (2 ^ LENGTH('w) - 1)"
proof (induction as arbitrary: acc)
  case Nil
  show ?case using unat_le_max [of acc] by simp
next
  case (Cons a as)
  have "min (min (x + y) b + s) b = min (y + (x + s)) b" for x y s b :: nat by (simp add: min_def)
  then show ?case by (simp add: Cons.IH unat_saturating_add)
qed

text \<open>
  Sums of integer channels saturate: the output is the sum of all inputs as a mathematical
  number, or the largest value of the type where the sum is larger; the order does not matter
  and nothing wraps around.
\<close>

theorem sums_saturate:
  "unat (fs_output (sum_8bit_update m f)) = min (sum_list (map (unat \<circ> rd8 m) (fs_params f))) 255
   \<and> unat (fs_output (sum_16bit_update m g)) = min (sum_list (map (unat \<circ> rd16 m) (fs_params g))) 65535"
  using saturating_foldl [of "rd8 m" 0 "fs_params f"] saturating_foldl [of "rd16 m" 0 "fs_params g"]
  by (simp add: sum_8bit_update_def sum_16bit_update_def sum_update_def)

subsection \<open>Conversion to and from numbers\<close>

lemma cast_of_word: "cast_u8 (d_round (d_of_word v)) = Inr v" "cast_u16 (d_round (d_of_word w)) = Inr w"
proof -
  have d: "d_of_word v = Num (of_nat (unat v))" "d_of_word w = Num (of_nat (unat w))"
    by (simp_all add: d_of_word_Num del: of_nat_unat)
  have r: "d_round (Num (of_nat n)) = Num (of_nat n)" for n by (simp add: round_away_nat del: of_nat_numeral)
  have t: "n < 2 ^ b \<Longrightarrow> to_unsigned b (Num (of_nat n)) = Inr n" for n b
    by (simp add: trunc_real_nat)
  show "cast_u8 (d_round (d_of_word v)) = Inr v" "cast_u16 (d_round (d_of_word w)) = Inr w"
    unfolding cast_u8_def cast_u16_def d r
    using t [of "unat v" 8] t [of "unat w" 16] unsigned_less [of v, where ?'a = nat] unsigned_less [of w, where ?'a = nat]
    by simp_all
qed

text \<open>
  To a number and back: an 8 or 16 bit channel that is converted to a number and then back to
  its type arrives unchanged.
\<close>

theorem to_float_and_back:
  assumes "tf_input f = Some a" and "fx_input g = Some b" and "fx_input h = Some b"
  shows "(filter_8bit_to_float_update m f = Inr f' \<longrightarrow> rdf m' b = tf_output f' \<longrightarrow>
      float_to_8bit_update m' g = Inr (g\<lparr>fx_output := rd8 m a\<rparr>))
    \<and> (filter_16bit_to_float_update m f = Inr f' \<longrightarrow> rdf m' b = tf_output f' \<longrightarrow>
      float_to_16bit_update m' h = Inr (h\<lparr>fx_output := rd16 m a\<rparr>))"
  using assms by (auto simp: filter_8bit_to_float_update_def filter_16bit_to_float_update_def to_float_update_def
      float_to_8bit_update_def float_to_16bit_update_def float_to_X_update_def cast_of_word)

text \<open>
  Logarithm, exponential and the inverse trigonometric filters do not compute anything: the
  update copies the input for every function the class is instantiated with.
\<close>

theorem math_single_copies:
  assumes "ms_input f = Some a"
  shows "math_single_update F m f = Inr (f\<lparr>ms_output := rdf m a\<rparr>)"
  using assms by (simp add: math_single_update_def)

subsection \<open>The range mapping\<close>

definition bounds_differ :: "'v float_map_range \<Rightarrow> bool" where
  "bounds_differ f \<longleftrightarrow> \<not> (\<exists>x. lower_bound_in f = Num x \<and> upper_bound_in f = Num x)"

lemma refused_equal: "d_lt (d_abs (d_sub (Num x) (Num x))) (Num DBL_MIN)"
  by (simp add: d_sub_def DBL_MIN_def rnd_def)

lemma set_bound_cases:
  "P f \<Longrightarrow> (\<And>x. \<not> refused x \<Longrightarrow> P (store x f)) \<Longrightarrow> P (snd (set_bound refused store v f))"
  by (simp add: set_bound_def split: sum.split)

lemma map_range_receive_differ:
  assumes "bounds_differ f"
  shows "bounds_differ (snd (map_range_receive key v f))"
proof -
  have "bounds_differ (f\<lparr>lower_bound_in := x\<rparr>)" if "\<not> d_lt (d_abs (d_sub x (upper_bound_in f))) (Num DBL_MIN)" for x
    using that refused_equal by (auto simp: bounds_differ_def)
  moreover have "bounds_differ (f\<lparr>upper_bound_in := x\<rparr>)" if "\<not> d_lt (d_abs (d_sub x (lower_bound_in f))) (Num DBL_MIN)" for x
    using that refused_equal by (auto simp: bounds_differ_def)
  moreover have "bounds_differ (f\<lparr>lower_bound_out := x\<rparr>)" "bounds_differ (f\<lparr>upper_bound_out := x\<rparr>)"
      "bounds_differ (f\<lparr>limit := c\<rparr>)" for x c
    using assms by (simp_all add: bounds_differ_def)
  ultimately show ?thesis unfolding map_range_receive_def
    by (simp add: assms set_bound_cases [where P = bounds_differ])
qed

lemma map_range_initial_receive:
  "map_range_initial t own_id ip kc g = Inr h \<Longrightarrow> h = g \<or> (\<exists>key v. h = snd (map_range_receive key v g))"
proof -
  assume i: "map_range_initial t own_id ip kc g = Inr h"
  obtain key cause where kc: "kc = (key, cause)" by fastforce
  show ?thesis
  proof (cases "map_of ip key")
    case (Some v)
    obtain ok f' where r: "map_range_receive key v g = (ok, f')" by fastforce
    then have "h = g \<or> h = f'"
      using i Some by (auto simp: map_range_initial_def Let_def config_error_def kc split: if_splits)
    then show ?thesis using r by (metis snd_conv)
  qed (use i in \<open>simp add: map_range_initial_def kc\<close>)
qed

lemma map_range_setup_differ:
  assumes "map_range_setup d t ip cm own_id (new_map_range z) = Inr f"
  shows "bounds_differ f"
proof -
  obtain a cs where "fold_res (map_range_initial t own_id ip) cs ((new_map_range z)\<lparr>mr_input := Some a, upper_bound_out := d\<rparr>) = Inr f"
    using assms by (auto simp: map_range_setup_def bind_res_Inr_iff Let_def simp del: fold_res.simps)
  then show ?thesis
  proof (rule fold_res_invariant)
    show "bounds_differ ((new_map_range z)\<lparr>mr_input := Some a, upper_bound_out := d\<rparr>)"
      by (simp add: bounds_differ_def new_map_range_def)
    fix kc g h assume "bounds_differ g" "map_range_initial t own_id ip kc g = Inr h"
    then show "bounds_differ h" using map_range_receive_differ [of g] map_range_initial_receive [of t own_id ip kc g h] by auto
  qed
qed

text \<open>
  Bounds of the range mapping: whatever initial parameters the filter was set up with and
  whatever the GUI sends it afterwards, its two input bounds are never the same finite number, so
  the division by their difference is not a division by an exact zero.
\<close>

theorem map_range_bounds_differ:
  assumes "map_range_setup d t ip cm own_id (new_map_range z) = Inr f"
  shows "bounds_differ (fold (\<lambda>(key, v) f. snd (map_range_receive key v f)) updates f)"
  by (rule fold_invariant_list [of bounds_differ])
    (use assms map_range_setup_differ map_range_receive_differ in \<open>auto split: prod.splits\<close>)

lemma clamp_bounds:
  assumes "d \<noteq> NaN"
  shows "\<exists>x. std_max (std_min d (Num n)) (Num 0) = Num x \<and> (0 \<le> n \<longrightarrow> 0 \<le> x \<and> x \<le> n)"
  using assms by (cases d) (auto simp: std_max_def std_min_def)

lemma cast_clamped:
  assumes "0 \<le> x" "x \<le> of_nat n" "n < 2 ^ w"
  shows "\<exists>k. to_unsigned w (d_round (Num x)) = Inr k \<and> k \<le> n"
proof -
  have r: "0 \<le> round_away x" "round_away x \<le> int n" using round_away_mono_bounds [OF assms(1,2)] by simp_all
  then have "round_away x < 2 ^ w" using assms(3) by (metis le_less_trans of_nat_less_iff of_nat_numeral of_nat_power)
  then show ?thesis using r by (simp add: nat_le_iff)
qed

text \<open>
  The mapped value always fits: as long as the computed number is not a NaN, even if it is
  infinite or far outside, the update to 8 bit succeeds; it is undefined when the value is a NaN,
  which a bound given as \<open>nan\<close> causes.
\<close>

theorem map_range_8bit_defined:
  assumes "mr_input f = Some a"
  shows "(map_range_8bit_update m f = Inl Undefined_behaviour \<longleftrightarrow> map_range_value f (rdf m a) = NaN)
    \<and> (map_range_value f (rdf m a) = NaN \<or> (\<exists>x. map_range_8bit_update m f = Inr (f\<lparr>mr_output := x\<rparr>)))"
proof -
  let ?v = "map_range_value f (rdf m a)"
  have "\<exists>x. cast_u8 (d_round (std_max (std_min ?v (Num 255)) (Num 0))) = Inr x" if nn: "?v \<noteq> NaN"
  proof -
    obtain x where x: "std_max (std_min ?v (Num 255)) (Num 0) = Num x" "0 \<le> x" "x \<le> 255"
      using clamp_bounds [OF nn, of 255] by auto
    then obtain k where "to_unsigned 8 (d_round (Num x)) = Inr k" using cast_clamped [of x 255 8] by auto
    then show ?thesis unfolding x(1) cast_u8_def by simp
  qed
  moreover have "cast_u8 (d_round (std_max (std_min NaN (Num 255)) (Num 0))) = Inl Undefined_behaviour"
    by (simp add: std_max_def std_min_def cast_u8_def)
  ultimately show ?thesis
    using assms by (cases "?v = NaN") (force simp: map_range_8bit_update_def map_range_update_def)+
qed

text \<open>
  Ends of the range: with limiting on and the outputs 0 and 255, every input at or below the
  lower bound gives exactly 0 and every input at or above the upper bound exactly 255, whatever
  the rounding in between.
\<close>

theorem map_range_endpoints:
  assumes "mr_input f = Some a" and "limit f" and "lower_bound_in f = Num l" and "upper_bound_in f = Num u"
    and "\<bar>l\<bar> \<le> 500" and "\<bar>u\<bar> \<le> 500" and "l + 1 / 1000 \<le> u"
    and "lower_bound_out f = Num 0" and "upper_bound_out f = Num 255" and "rdf m a = Num x"
  shows "(x \<le> l \<longrightarrow> map_range_8bit_update m f = Inr (f\<lparr>mr_output := 0\<rparr>))
    \<and> (u \<le> x \<longrightarrow> map_range_8bit_update m f = Inr (f\<lparr>mr_output := 255\<rparr>))"
proof -
  have "\<bar>u - l\<bar> \<le> 1000" using assms(5,6) by linarith
  then obtain d where d: "rnd (u - l) = Num d" "\<bar>d - (u - l)\<bar> \<le> 1 / 1000000" using rnd_near by blast
  then have d0: "d \<noteq> 0" using assms(7) by linarith
  have r: "rnd 0 = Num 0" "rnd 1 = Num 1" "rnd 255 = Num 255"
    using rnd_int [of 0] rnd_int [of 1] rnd_int [of 255] by simp_all
  have c: "cast_u8 (d_round (Num 0)) = Inr 0" "cast_u8 (d_round (Num 255)) = Inr 255"
    using round_away_int [of 0] trunc_real_int [of 0] round_away_int [of 255] trunc_real_int [of 255]
    by (simp_all add: cast_u8_def)
  have low: "map_range_value f (Num x) = Num 0" if "x \<le> l"
  proof -
    have "std_max (std_min (Num x) (Num u)) (Num l) = Num l"
      using that assms(7) by (auto simp: std_max_def std_min_def)
    then show ?thesis using assms d d0 r by (simp add: map_range_value_def d_sub_def Let_def)
  qed
  have high: "map_range_value f (Num x) = Num 255" if "u \<le> x"
  proof -
    have "std_max (std_min (Num x) (Num u)) (Num l) = Num u"
      using that assms(7) by (auto simp: std_max_def std_min_def)
    then show ?thesis using assms d d0 r by (simp add: map_range_value_def d_sub_def Let_def)
  qed
  have "std_max (std_min (Num 0) (Num 255)) (Num 0) = Num 0" "std_max (std_min (Num 255) (Num 255)) (Num 0) = Num 255"
    by (simp_all add: std_max_def std_min_def)
  then show ?thesis using assms(1,10) low high c by (simp add: map_range_8bit_update_def map_range_update_def)
qed

subsection \<open>The properties on concrete filters\<close>

definition demo_memory :: memory where
  "demo_memory = \<lparr>rd8 = (\<lambda>_. 200), rd16 = (\<lambda>_. 0x1234), rdf = (\<lambda>_. Num 7), rdc = (\<lambda>_. default_pixel)\<rparr>"

theorem split_join_roundtrip_witness:
  "\<exists>f'. dual_byte_update demo_memory \<lparr>db_input = Some (0, 0), lower_output = 0, upper_output = 0\<rparr> = Inr f'
     \<and> combine_bytes (upper_output f') (lower_output f') = 0x1234"
proof -
  let ?f = "\<lparr>db_input = Some (0, 0), lower_output = 0, upper_output = 0\<rparr>"
  obtain f' where f': "dual_byte_update demo_memory ?f = Inr f'" by (simp add: dual_byte_update_def)
  have "db_input ?f = Some (0, 0)" by simp
  from split_join_roundtrip [OF this f'] f' show ?thesis by (simp add: demo_memory_def)
qed

theorem to_float_and_back_witness:
  "float_to_8bit_update (demo_memory\<lparr>rdf := \<lambda>_. d_of_word (200 :: u8)\<rparr>) \<lparr>fx_input = Some (1, 0), fx_output = 0\<rparr>
     = Inr \<lparr>fx_input = Some (1, 0), fx_output = 200\<rparr>"
  using to_float_and_back [of "\<lparr>tf_input = Some (0, 0), tf_output = Num 0\<rparr>" "(0, 0)" "\<lparr>fx_input = Some (1, 0), fx_output = 0\<rparr>" "(1, 0)"
      "\<lparr>fx_input = Some (1, 0), fx_output = 0\<rparr>" demo_memory "\<lparr>tf_input = Some (0, 0), tf_output = d_of_word (200 :: u8)\<rparr>"
      "demo_memory\<lparr>rdf := \<lambda>_. d_of_word (200 :: u8)\<rparr>"]
  by (simp add: demo_memory_def filter_8bit_to_float_update_def to_float_update_def)

theorem math_single_copies_witness:
  "math_single_update (\<lambda>_. Num 0) demo_memory \<lparr>ms_input = Some (0, 0), ms_output = Num 0\<rparr>
     = Inr \<lparr>ms_input = Some (0, 0), ms_output = Num 7\<rparr>"
  using math_single_copies [of "\<lparr>ms_input = Some (0, 0), ms_output = Num 0\<rparr>" "(0, 0)" "\<lambda>_. Num 0" demo_memory]
  by (simp add: demo_memory_def)

definition demo_range :: "u8 float_map_range" where
  "demo_range = (new_map_range 0)\<lparr>mr_input := Some (0, 0), upper_bound_out := Num 255\<rparr>"

lemma demo_range_setup:
  "map_range_setup (Num 255) 54 [] (empty_mapping\<lparr>float_channels := [(''value_in'', (0, 0))]\<rparr>) ''m'' (new_map_range 0) = Inr demo_range"
  by (simp add: map_range_setup_def link_input_def kindf_def map_range_initial_def demo_range_def)

theorem map_range_bounds_differ_witness:
  "bounds_differ (snd (map_range_receive ''lower_bound_in'' ''1'' demo_range))"
  using map_range_bounds_differ [OF demo_range_setup, of "[(''lower_bound_in'', ''1'')]"] by simp

theorem map_range_8bit_defined_witness:
  "map_range_8bit_update (demo_memory\<lparr>rdf := \<lambda>_. NaN\<rparr>) demo_range = Inl Undefined_behaviour"
  using map_range_8bit_defined [of demo_range "(0, 0)" "demo_memory\<lparr>rdf := \<lambda>_. NaN\<rparr>"]
  by (simp add: demo_range_def new_map_range_def map_range_value_def std_min_def std_max_def d_sub_def)

theorem map_range_endpoints_witness:
  "map_range_8bit_update demo_memory (demo_range\<lparr>limit := True\<rparr>) = Inr (demo_range\<lparr>limit := True, mr_output := 255\<rparr>)"
  using map_range_endpoints [of "demo_range\<lparr>limit := True\<rparr>" "(0, 0)" 0 1 demo_memory 7]
  by (simp add: demo_range_def new_map_range_def demo_memory_def)

end
