(* ===== verification/Filters_Time.thy ===== *)
theory Filters_Time
  imports Filter_Base Events Universes
begin

text \<open>
  The filters with a memory of their own or with effects: \<^verbatim>\<open>filter_shift.hpp\<close>, \<^verbatim>\<open>filter_switch.hpp\<close>,
  \<^verbatim>\<open>filter_time.hpp\<close>, \<^verbatim>\<open>filter_event_counter.cpp\<close>, \<^verbatim>\<open>filter_universe_output.hpp\<close> and
  \<^verbatim>\<open>filter_debug_output.hpp\<close>. The clock is an argument, the number of milliseconds since the
  start. Fields that the C++ classes leave uninitialised are arguments of the constructors.
\<close>

subsection \<open>Shifting through several outputs\<close>

record 'v filter_shift =
  sh_input :: "addr option"
  sh_time :: "addr option"
  sh_switch_time :: "addr option"
  sh_values :: "'v list"
  sh_last_update :: double

definition new_shift :: "double \<Rightarrow> 'v filter_shift" where
  "new_shift uninitialised =
     \<lparr>sh_input = None, sh_time = None, sh_switch_time = None, sh_values = [], sh_last_update = uninitialised\<rparr>"

text \<open>A count read with \<open>std::stoi\<close>; a number too large for int leaves as \<open>std::out_of_range\<close>.\<close>

definition read_count ::
  "string \<Rightarrow> string \<Rightarrow> string \<Rightarrow> string \<Rightarrow> int \<Rightarrow> (string, string) omap \<Rightarrow> string \<Rightarrow> nat result" where
  "read_count key missing unparsed too_small own_type configuration own_id = (case map_of configuration key of
      None \<Rightarrow> config_error missing own_type own_id
    | Some s \<Rightarrow>
        (case stoi s of
           Inl (Invalid_argument _) \<Rightarrow> config_error unparsed own_type own_id
         | Inl e \<Rightarrow> Inl e
         | Inr n \<Rightarrow> if n < 1 then config_error too_small own_type own_id else Inr (nat n)))"

definition shift_pre_setup ::
  "('v, 'z) chan_kind_scheme \<Rightarrow> int \<Rightarrow> (string, string) omap \<Rightarrow> string \<Rightarrow> 'v filter_shift \<Rightarrow> 'v filter_shift result" where
  "shift_pre_setup k own_type configuration own_id f =
     bind_res (read_count ''nr_outputs''
         (''Unable to setup shift filter: configuration does not contain a value '' @ ''for '' @ quoted ''nr_outputs'')
         ''Unable to setup shift filter: could not parse the 'nr_outputs' as int''
         ''Unable to setup shift filter: the number of outputs is less then 1'' own_type configuration own_id)
       (\<lambda>n. Inr (f\<lparr>sh_values := sh_values f @ replicate n (ck_zero k)\<rparr>))"

definition shift_setup ::
  "('v, 'z) chan_kind_scheme \<Rightarrow> int \<Rightarrow> addr channel_mapping \<Rightarrow> string \<Rightarrow> 'v filter_shift \<Rightarrow> 'v filter_shift result" where
  "shift_setup k own_type cm own_id f =
     bind_res (link_input kindf cm ''time'' (''Unable to link input of shift filter: channel mapping does not contain '' @
       ''channel 'time' of type 'double'. This input should come from the scenes '' @ ''global time node.'') own_type own_id) (\<lambda>t.
     bind_res (link_input kindf cm ''switch_time'' (''Unable to link input of shift filter: channel mapping does not contain '' @
       ''channel 'switch_time' of type 'double'.'') own_type own_id) (\<lambda>s.
     bind_res (link_input k cm ''input'' (''Unable to link input of shift filter: channel mapping does not '' @
       ''contain channel 'input' of type '' @ quoted (ck_name k) @ ''.'') own_type own_id) (\<lambda>a.
     Inr (f\<lparr>sh_time := Some t, sh_switch_time := Some s, sh_input := Some a\<rparr>))))"

definition shift_outputs ::
  "('v, 'z) chan_kind_scheme \<Rightarrow> nat \<Rightarrow> string \<Rightarrow> 'v filter_shift \<Rightarrow> addr channel_mapping \<Rightarrow> addr channel_mapping" where
  "shift_outputs k i name f cm =
     fold (\<lambda>j. ck_publish k (name @ '':output_'' @ dec (j + 1)) (i, j)) [0..<length (sh_values f)] cm"

text \<open>The two loops over the values.\<close>

definition shift_down :: "'v list \<Rightarrow> 'v \<Rightarrow> 'v list" where
  "shift_down vs x = (fold (\<lambda>i vs. vs[i := vs ! (i + 1)]) [0..<length vs - 1] vs)[length vs - 1 := x]"

definition shift_up :: "'v list \<Rightarrow> 'v \<Rightarrow> 'v list" where
  "shift_up vs x = (fold (\<lambda>i vs. vs[i := vs ! (i - 1)]) (rev [1..<length vs]) vs)[0 := x]"

definition shift_update :: "('v, 'z) chan_kind_scheme \<Rightarrow> memory \<Rightarrow> 'v filter_shift \<Rightarrow> 'v filter_shift result" where
  "shift_update k m f =
     bind_res (deref kindf m (sh_switch_time f)) (\<lambda>switch_time.
     let reverse = d_lt switch_time (Num 0);
         st = (if reverse then d_mul (Num (- 1)) switch_time else switch_time)
     in if d_lt switch_time (Num 1) \<and> d_lt (Num (- 1)) switch_time
        then (if sh_values f = [] then Inr f
              else bind_res (deref k m (sh_input f)) (\<lambda>x. Inr (f\<lparr>sh_values := map (\<lambda>_. x) (sh_values f)\<rparr>)))
        else bind_res (deref kindf m (sh_time f)) (\<lambda>time.
          if d_le (d_add (sh_last_update f) st) time
          then (if sh_values f = [] then Inl (Out_of_range ''vector::_M_range_check'')
                else bind_res (deref k m (sh_input f)) (\<lambda>x.
                  Inr (f\<lparr>sh_values := (if reverse then shift_down else shift_up) (sh_values f) x,
                         sh_last_update :=
                           (if d_lt (Num 0) st
                            then d_add (sh_last_update f) (d_mul (d_floor (d_div (d_sub time (sh_last_update f)) st)) st)
                            else time)\<rparr>)))
          else Inr f))"

subsection \<open>Selecting one of several inputs\<close>

record 'v filter_switch =
  sw_output :: 'v
  sw_select :: "addr option"
  sw_inputs :: "addr option list"

definition resize :: "'a list \<Rightarrow> nat \<Rightarrow> 'a \<Rightarrow> 'a list" where
  "resize xs n x = take n xs @ replicate (n - length xs) x"

definition switch_pre_setup :: "int \<Rightarrow> (string, string) omap \<Rightarrow> string \<Rightarrow> 'v filter_switch \<Rightarrow> 'v filter_switch result" where
  "switch_pre_setup own_type configuration own_id f =
     bind_res (read_count ''nr_inputs''
         (''Unable to setup switch filter: configuration does not contain a value '' @ ''for '' @ quoted ''nr_inputs'')
         ''Unable to setup shift filter: could not parse the 'nr_inputs' as int''
         ''Unable to setup shift filter: the number of inputs is less then 1'' own_type configuration own_id)
       (\<lambda>n. Inr (f\<lparr>sw_inputs := resize (sw_inputs f) n None\<rparr>))"

definition link_switch_input ::
  "('v, 'z) chan_kind_scheme \<Rightarrow> int \<Rightarrow> addr channel_mapping \<Rightarrow> string \<Rightarrow> nat \<Rightarrow> addr option list \<Rightarrow> addr option list result" where
  "link_switch_input k own_type cm own_id i inputs =
     bind_res (link_input k cm (dec i) (''Unable to link input of shift filter: channel mapping does not '' @
       ''contain channel input of type '' @ quoted (ck_name k) @ '' for '' @ dec i @ ''.'') own_type own_id)
       (\<lambda>a. Inr (inputs[i := Some a]))"

definition switch_setup ::
  "('v, 'z) chan_kind_scheme \<Rightarrow> int \<Rightarrow> addr channel_mapping \<Rightarrow> string \<Rightarrow> 'v filter_switch \<Rightarrow> 'v filter_switch result" where
  "switch_setup k own_type cm own_id f =
     bind_res (fold_res (link_switch_input k own_type cm own_id) [0..<length (sw_inputs f)] (sw_inputs f)) (\<lambda>inputs.
     bind_res (link_input kind8 cm ''select'' (''Unable to link input of shift filter: channel mapping does not '' @
       ''contain channel `select` of type 'uint8_t'.'') own_type own_id) (\<lambda>s.
     Inr (f\<lparr>sw_inputs := inputs, sw_select := Some s\<rparr>)))"

text \<open>The channel is published as \<open>out\<close>, without the name of the filter.\<close>

definition switch_outputs :: "('v, 'z) chan_kind_scheme \<Rightarrow> nat \<Rightarrow> string \<Rightarrow> addr channel_mapping \<Rightarrow> addr channel_mapping" where
  "switch_outputs k i name cm = ck_publish k ''out'' (i, 0) cm"

definition switch_update :: "('v, 'z) chan_kind_scheme \<Rightarrow> memory \<Rightarrow> 'v filter_switch \<Rightarrow> 'v filter_switch result" where
  "switch_update k m f = bind_res (deref kind8 m (sw_select f)) (\<lambda>selected_input.
     if unat selected_input \<ge> length (sw_inputs f) then Inr f
     else bind_res (deref k m (sw_inputs f ! unat selected_input)) (\<lambda>v. Inr (f\<lparr>sw_output := v\<rparr>)))"

subsection \<open>Time and delay\<close>

record filter_time =
  ft_now :: double

definition time_update :: "int \<Rightarrow> filter_time \<Rightarrow> filter_time" where
  "time_update milliseconds f = f\<lparr>ft_now := of_int_d milliseconds\<rparr>"

definition time_setup :: "int \<Rightarrow> filter_time \<Rightarrow> filter_time" where
  "time_setup milliseconds f = f\<lparr>ft_now := of_int_d milliseconds\<rparr>"

definition time_scene_activated :: "int \<Rightarrow> filter_time \<Rightarrow> filter_time" where
  "time_scene_activated milliseconds f = time_update milliseconds f"

record 'v filter_delay =
  dl_value :: "addr option"
  dl_time :: "addr option"
  dl_delay :: double
  dl_last_update :: double
  dl_output :: 'v

definition delay_setup ::
  "('v, 'z) chan_kind_scheme \<Rightarrow> int \<Rightarrow> (string, string) omap \<Rightarrow> addr channel_mapping \<Rightarrow> string \<Rightarrow>
   'v filter_delay \<Rightarrow> 'v filter_delay result" where
  "delay_setup k own_type configuration cm own_id f = (case map_of configuration ''delay'' of
      None \<Rightarrow> config_error (''Unable to setup delay filter: configuration does not contain a value for'' @ '' '' @ quoted ''delay'')
          own_type own_id
    | Some s \<Rightarrow>
        (case stod s of
           Inl (Invalid_argument _) \<Rightarrow>
             config_error ''Unable to setup delay filter: could not parse the 'delay' as double'' own_type own_id
         | Inl e \<Rightarrow> Inl e
         | Inr d \<Rightarrow>
             bind_res (link_input kindf cm ''time'' (''Unable to link input of delay filter: channel mapping does not contain '' @
               ''channel 'time' of type 'double'. This input should come from the scenes '' @ ''global time node.'') own_type own_id) (\<lambda>t.
             bind_res (link_input k cm ''value_in'' (''Unable to link input of delay filter: channel mapping does not '' @
               ''contain channel 'value_in' of type '' @ quoted (ck_name k) @ ''.'') own_type own_id) (\<lambda>a.
             Inr (f\<lparr>dl_delay := d_mul d (Num 1000), dl_time := Some t, dl_value := Some a\<rparr>)))))"

definition delay_update ::
  "('v, 'z) chan_kind_scheme \<Rightarrow> ('v \<Rightarrow> bool) \<Rightarrow> memory \<Rightarrow> 'v filter_delay \<Rightarrow> 'v filter_delay result" where
  "delay_update k F m f =
     bind_res (deref kindf m (dl_time f)) (\<lambda>time.
     bind_res (deref k m (dl_value f)) (\<lambda>value.
     let timeout = d_lt time (d_add (dl_last_update f) (dl_delay f))
     in if F value then Inr (f\<lparr>dl_output := value, dl_last_update := time\<rparr>)
        else if \<not> timeout then Inr (f\<lparr>dl_output := value\<rparr>) else Inr f))"

definition delay_scene_activated ::
  "('v, 'z) chan_kind_scheme \<Rightarrow> ('v \<Rightarrow> bool) \<Rightarrow> memory \<Rightarrow> 'v filter_delay \<Rightarrow> 'v filter_delay result" where
  "delay_scene_activated k F m f =
     bind_res (deref kindf m (dl_time f)) (\<lambda>time.
     Inr ((if F (ck_zero k) then f\<lparr>dl_output := ck_zero k\<rparr> else f)\<lparr>dl_last_update := time\<rparr>))"

definition switch_on_condition :: "u8 \<Rightarrow> bool" where
  "switch_on_condition a \<longleftrightarrow> a \<le> 0"

definition switch_off_condition :: "u8 \<Rightarrow> bool" where
  "switch_off_condition a \<longleftrightarrow> a > 0"

subsection \<open>Counting events\<close>

record filter_event_counter =
  time_til_next_count :: double
  ec_last_update :: double
  ec_time :: "addr option"
  trigger_event_sender :: u64
  counted_events :: u64
  freq :: u16
  bpm :: u16
  bpm_window :: "u16 list"

definition new_event_counter :: filter_event_counter where
  "new_event_counter = \<lparr>time_til_next_count = Num 1000, ec_last_update = Num 0, ec_time = None, trigger_event_sender = 0,
     counted_events = 0, freq = 0, bpm = 0, bpm_window = [0, 0, 0, 0]\<rparr>"

definition event_counter_setup ::
  "(string, string) omap \<Rightarrow> addr channel_mapping \<Rightarrow> string \<Rightarrow> filter_event_counter \<Rightarrow> filter_event_counter result" where
  "event_counter_setup configuration cm own_id f = (case map_of configuration ''event'' of
      None \<Rightarrow> config_error (''Unable to setup bpm counter filter: configuration does not contain a value for'' @ '' '' @ quoted ''event'')
          70 own_id
    | Some s \<Rightarrow> bind_res (parse_sender_representation s) (\<lambda>sender.
        case map_of (float_channels cm) ''time'' of
          None \<Rightarrow> Inl (Out_of_range ''map::at'')
        | Some a \<Rightarrow> Inr (f\<lparr>trigger_event_sender := sender, ec_time := Some a\<rparr>)))"

definition event_counter_outputs :: "nat \<Rightarrow> string \<Rightarrow> addr channel_mapping \<Rightarrow> addr channel_mapping" where
  "event_counter_outputs i name cm = ck_publish kind16 (name @ '':freq'') (i, 1) (ck_publish kind16 (name @ '':bpm'') (i, 0) cm)"

definition event_counter_activated :: "filter_event_counter \<Rightarrow> filter_event_counter" where
  "event_counter_activated f = f\<lparr>freq := 0, bpm := 0, counted_events := 0, time_til_next_count := Num 1000,
     bpm_window := map (\<lambda>_. 0) (bpm_window f)\<rparr>"

text \<open>The loop that moves the window and adds up what it moved, then the newest count.\<close>

definition move_window :: "u64 \<Rightarrow> u16 list \<Rightarrow> u16 list \<times> u16" where
  "move_window counted w =
     (let (w', window_counter) =
            fold (\<lambda>i (w, c). (w[i - 1 := w ! i], c + w ! i)) [1..<length w] (w, 0)
      in (w'[length w - 1 := ucast counted], window_counter))"

definition event_counter_update ::
  "event_storage \<Rightarrow> memory \<Rightarrow> filter_event_counter \<Rightarrow> filter_event_counter result" where
  "event_counter_update st m f =
     bind_res (deref kindf m (ec_time f)) (\<lambda>time.
     let til = d_sub (time_til_next_count f) (d_sub time (ec_last_update f));
         f1 = f\<lparr>time_til_next_count := til, ec_last_update := time\<rparr>;
         f2 = (if d_le til (Num 0)
               then (let (w, window_counter) = move_window (counted_events f1) (bpm_window f1)
                     in f1\<lparr>freq := ucast (counted_events f1), bpm_window := w, bpm := window_counter * 15,
                           time_til_next_count := Num 1000, counted_events := 0\<rparr>)
               else f1)
     in Inr (fold (\<lambda>e f. if is_same_sender (ev_sender e) (trigger_event_sender f)
                          then f\<lparr>counted_events := counted_events f + 1\<rparr> else f) (get_storage st) f2))"

subsection \<open>Writing to a universe\<close>

record filter_universe_output =
  uo_universe_id :: int
  uo_mapping :: "(u16 \<times> addr) list"

definition what_of :: "exn \<Rightarrow> string" where
  "what_of e = (case e of
      Invalid_argument s \<Rightarrow> s | Out_of_range s \<Rightarrow> s | Range_error s \<Rightarrow> s | Filter_config_exception s \<Rightarrow> s
    | Filter_runtime_exception s \<Rightarrow> s | Scheduling_exception s \<Rightarrow> s | Project_config_exception s \<Rightarrow> s
    | Undefined_behaviour \<Rightarrow> [])"

text \<open>One entry of the configuration; every exception on the way is wrapped into another.\<close>

definition map_output ::
  "int \<Rightarrow> addr channel_mapping \<Rightarrow> string \<Rightarrow> string \<times> string \<Rightarrow> (u16 \<times> addr) list \<Rightarrow> (u16 \<times> addr) list result" where
  "map_output universe_id cm own_id entry mapping =
     (let (ichannel, uchannel) = entry in
      if ichannel = ''universe'' then Inr mapping
      else case bind_res (link_input kind8 cm ichannel (''Failed to configure output filter for universe '' @ dec_int universe_id @
                   '': input channel '' @ quoted ichannel @ '' does not exist.'') 11 own_id) (\<lambda>a.
                 bind_res (stoi uchannel) (\<lambda>c. Inr (of_int c, a))) of
          Inr l \<Rightarrow> Inr (mapping @ [l])
        | Inl e \<Rightarrow> config_error (''Failed to configure output filter for universe '' @ dec_int universe_id @ '': input channel '' @
              quoted ichannel @ '' cannot be mapped to universe channel #'' @ uchannel @ ''. Reason: '' @ what_of e) 11 own_id)"

definition universe_output_setup ::
  "'a io_state \<Rightarrow> (string, string) omap \<Rightarrow> addr channel_mapping \<Rightarrow> string \<Rightarrow>
   filter_universe_output \<Rightarrow> filter_universe_output result" where
  "universe_output_setup st configuration cm own_id f =
     (if length configuration < 1
      then config_error ''The configuration of a universe filter must not be empty.'' 11 own_id
      else case map_of configuration ''universe'' of
          None \<Rightarrow> config_error (''A universe id must be set in order to let the universe output filter do '' @ ''its work.'') 11 own_id
        | Some u \<Rightarrow> bind_res (stoi u) (\<lambda>i.
            if get_universe i st = None
            then config_error ''The configured universe id does not seam to match a universe.'' 11 own_id
            else bind_res (fold_res (map_output i cm own_id) configuration (uo_mapping f)) (\<lambda>mapping.
                   Inr (f\<lparr>uo_universe_id := i, uo_mapping := mapping\<rparr>))))"

definition write_link :: "memory \<Rightarrow> nat \<Rightarrow> u16 \<times> addr \<Rightarrow> 'a io_state \<Rightarrow> 'a io_state result" where
  "write_link m a l st =
     bind_res (write_channel (unat (fst l)) (rd8 m (snd l)) (objs st ! a)) (\<lambda>u. Inr (st\<lparr>objs := (objs st)[a := u]\<rparr>))"

definition universe_output_update ::
  "memory \<Rightarrow> filter_universe_output \<Rightarrow> 'a io_state \<Rightarrow> 'a io_state result" where
  "universe_output_update m f st = (case get_universe (uo_universe_id f) st of
      Some a \<Rightarrow> fold_res (write_link m a) (uo_mapping f) st
    | None \<Rightarrow> runtime_error (''The requested universe with id '' @ dec_int (uo_universe_id f) @ '' does not exist anymore'') 11)"

subsection \<open>Debug output\<close>

record filter_debug =
  dbg_input :: "addr option"
  filter_name :: string

record update_parameter_msg =
  up_scene_id :: int
  up_filter_id :: string
  up_parameter_key :: string
  up_parameter_value :: string

definition debug_setup ::
  "('v, 'z) chan_kind_scheme \<Rightarrow> int \<Rightarrow> addr channel_mapping \<Rightarrow> string \<Rightarrow> filter_debug \<Rightarrow> filter_debug result" where
  "debug_setup k own_type cm own_id f =
     bind_res (link_input k cm ''value'' (''Unable to link input of debug output filter: channel mapping does '' @
       ''not contain channel 'value' of type '' @ quoted (ck_name k) @ ''.'') own_type own_id)
       (\<lambda>a. Inr (f\<lparr>dbg_input := Some a\<rparr>))"

definition debug_outputs :: "string \<Rightarrow> filter_debug \<Rightarrow> filter_debug" where
  "debug_outputs name f = f\<lparr>filter_name := name\<rparr>"

text \<open>The message a remote debug filter sends; the others log the same text.\<close>

definition debug_remote_update ::
  "('v, 'z) chan_kind_scheme \<Rightarrow> ('v \<Rightarrow> string) \<Rightarrow> int \<Rightarrow> memory \<Rightarrow> filter_debug \<Rightarrow> update_parameter_msg option" where
  "debug_remote_update k to_text scene_id m f = (case dbg_input f of
      None \<Rightarrow> None
    | Some a \<Rightarrow> Some \<lparr>up_scene_id = scene_id, up_filter_id = filter_name f, up_parameter_key = ''value'',
        up_parameter_value = to_text (ck_read k m a)\<rparr>)"

subsection \<open>The loops of the shift filter\<close>

lemma shift_down_loop:
  "k < length vs \<Longrightarrow> fold (\<lambda>i vs. vs[i := vs ! (i + 1)]) [0..<k] vs = take k (tl vs) @ drop k vs"
proof (induction k)
  case (Suc k)
  have "drop k vs = vs ! k # drop (Suc k) vs" using Suc.prems by (simp add: Cons_nth_drop_Suc)
  moreover have "take (Suc k) (tl vs) = take k (tl vs) @ [vs ! Suc k]"
    using Suc.prems by (cases vs) (simp_all add: take_Suc_conv_app_nth)
  moreover have "length (take k (tl vs)) = k" using Suc.prems by simp
  ultimately show ?case using Suc by (simp add: list_update_append nth_append)
qed simp

lemma shift_up_loop:
  assumes "1 \<le> length vs"
  shows "j < length vs \<Longrightarrow> foldr (\<lambda>i vs. vs[i := vs ! (i - 1)]) [length vs - j..<length vs] vs
    = take (length vs - j) vs @ drop (length vs - j - 1) (butlast vs)"
proof (induction j)
  case 0
  then show ?case by simp
next
  case (Suc j)
  let ?n = "length vs" and ?i = "length vs - Suc j"
  have i: "[?i..<?n] = ?i # [?n - j..<?n]" using Suc.prems by (simp add: upt_conv_Cons Suc_diff_Suc)
  have s: "Suc ?i = ?n - j" "?i < ?n" "0 < ?i" using Suc.prems by simp_all
  have t: "take (?n - j) vs = take ?i vs @ [vs ! ?i]" using s by (metis take_Suc_conv_app_nth)
  have d: "drop (?i - 1) (butlast vs) = butlast vs ! (?i - 1) # drop ?i (butlast vs)"
  proof -
    have "?i - 1 < length (butlast vs)" "Suc (?i - 1) = ?i" using s by auto
    then show ?thesis using Cons_nth_drop_Suc [of "?i - 1" "butlast vs"] by metis
  qed
  have b: "butlast vs ! (?i - 1) = vs ! (?i - 1)" using s by (simp add: nth_butlast)
  have "foldr (\<lambda>i vs. vs[i := vs ! (i - 1)]) [?i..<?n] vs
    = (take ?i vs @ [vs ! ?i] @ drop (?n - j - 1) (butlast vs))[?i := vs ! (?i - 1)]"
    unfolding i using Suc s by (simp add: t nth_append)
  also have "\<dots> = take ?i vs @ drop (?i - 1) (butlast vs)"
    unfolding d b using s by (simp add: list_update_append)
  finally show ?case by simp
qed

lemma shift_down_eq: "vs \<noteq> [] \<Longrightarrow> shift_down vs x = tl vs @ [x]"
proof -
  assume ne: "vs \<noteq> []"
  then have l: "length vs - 1 < length vs" by simp
  have "drop (length vs - 1) vs = [last vs]" using ne by (metis append_butlast_last_id append_eq_conv_conj length_butlast)
  then show ?thesis using shift_down_loop [OF l] ne by (simp add: shift_down_def list_update_append)
qed

lemma shift_up_eq: "vs \<noteq> [] \<Longrightarrow> shift_up vs x = x # butlast vs"
proof -
  assume ne: "vs \<noteq> []"
  then have l: "1 \<le> length vs" "length vs - 1 < length vs" "length vs - (length vs - 1) = 1" by (cases vs; simp)+
  have "fold (\<lambda>i vs. vs[i := vs ! (i - 1)]) (rev [1..<length vs]) vs = take 1 vs @ butlast vs"
    using shift_up_loop [OF l(1,2)] unfolding l(3) by (simp add: foldr_conv_fold)
  then show ?thesis using ne by (cases vs) (simp_all add: shift_up_def)
qed

text \<open>
  C38. The shift filter is a delay line: after any sequence of shifts upwards the outputs are the
  latest inputs, newest first, followed by what was there before; downwards they are the latest
  inputs, newest last. This is what the two in-place loops compute.
\<close>

theorem shift_is_delay_line:
  assumes "vs \<noteq> []"
  shows "fold (\<lambda>x vs. shift_up vs x) xs vs = take (length vs) (rev xs @ vs)
    \<and> fold (\<lambda>x vs. shift_down vs x) xs vs = drop (length xs) (vs @ xs)"
  using assms
proof (induction xs arbitrary: vs)
  case (Cons x xs)
  have "take m (x # butlast vs) = take m (x # vs)" if "m \<le> length vs" for m
    using that Cons.prems by (cases m) (simp_all add: take_butlast)
  then have "take (length vs) (rev xs @ x # butlast vs) = take (length vs) (rev (x # xs) @ vs)"
    by (simp del: take_Cons')
  moreover have "drop (length xs) ((tl vs @ [x]) @ xs) = drop (length (x # xs)) (vs @ x # xs)"
    using Cons.prems by (cases vs) simp_all
  ultimately show ?case
    using Cons.IH [of "x # butlast vs"] Cons.IH [of "tl vs @ [x]"] Cons.prems
    by (simp add: shift_up_eq shift_down_eq)
qed simp

theorem shift_is_delay_line_witness:
  "fold (\<lambda>x vs. shift_up vs x) [1, 2, 3 :: u8] [0, 0] = [3, 2] \<and> fold (\<lambda>x vs. shift_down vs x) [1, 2, 3 :: u8] [0, 0] = [2, 3]"
  using shift_is_delay_line [of "[0, 0]" "[1, 2, 3 :: u8]"] by simp

subsection \<open>The switch\<close>

lemma link_switch_inputs:
  "fold_res (link_switch_input k t cm own_id) [0..<j] ins = Inr ins' \<Longrightarrow> j \<le> length ins \<Longrightarrow>
   length ins' = length ins \<and> (\<forall>i < j. ins' ! i \<noteq> None \<and> map_of (ck_channels k cm) (dec i) = ins' ! i)"
proof (induction j arbitrary: ins')
  case (Suc j)
  obtain ins1 where i1: "fold_res (link_switch_input k t cm own_id) [0..<j] ins = Inr ins1"
    and "link_switch_input k t cm own_id j ins1 = Inr ins'"
    using Suc.prems(1) by (auto simp: fold_res_append bind_res_Inr_iff)
  then obtain a where "map_of (ck_channels k cm) (dec j) = Some a" "ins' = ins1[j := Some a]"
    by (auto simp: link_switch_input_def bind_res_Inr_iff link_input_Inr_iff)
  then show ?case using Suc.IH [OF i1] Suc.prems(2) by (auto simp: nth_list_update less_Suc_eq)
qed simp

text \<open>
  The switch never reads a null pointer: once the two set-up steps have succeeded on a fresh
  filter, every update succeeds; it copies the input the selector names, as the input mapping
  gave it, and keeps the output when the selector is too large.
\<close>

theorem switch_selects:
  assumes "switch_pre_setup t configuration own_id \<lparr>sw_output = x, sw_select = None, sw_inputs = []\<rparr> = Inr f1"
    and "switch_setup k t cm own_id f1 = Inr f"
  shows "\<exists>s. map_of (eight_bit_channels cm) ''select'' = Some s \<and> sw_inputs f \<noteq> [] \<and>
    (let sel = unat (rd8 m s) in
     if sel < length (sw_inputs f)
     then \<exists>a. map_of (ck_channels k cm) (dec sel) = Some a \<and> switch_update k m f = Inr (f\<lparr>sw_output := ck_read k m a\<rparr>)
     else switch_update k m f = Inr f)"
proof -
  obtain n where n: "sw_inputs f1 = replicate n None" "n \<noteq> 0"
    using assms(1) by (auto simp: switch_pre_setup_def bind_res_Inr_iff resize_def read_count_def config_error_def
        split: option.splits sum.splits exn.splits if_splits)
  obtain inputs s where i: "fold_res (link_switch_input k t cm own_id) [0..<length (sw_inputs f1)] (sw_inputs f1) = Inr inputs"
    and s: "map_of (ck_channels kind8 cm) ''select'' = Some s" and f: "f = f1\<lparr>sw_inputs := inputs, sw_select := Some s\<rparr>"
    using assms(2) by (auto simp: switch_setup_def bind_res_Inr_iff link_input_Inr_iff)
  note l = link_switch_inputs [OF i]
  have "inputs \<noteq> []" using l n by auto
  moreover have "\<exists>a. map_of (ck_channels k cm) (dec sel) = Some a \<and> inputs ! sel = Some a" if "sel < length inputs" for sel
    using l that by auto
  ultimately show ?thesis using s f by (fastforce simp: switch_update_def kind8_def Let_def)
qed

definition demo_inputs :: "addr channel_mapping" where
  "demo_inputs = empty_mapping\<lparr>eight_bit_channels := [(''0'', (0, 0)), (''1'', (1, 0)), (''select'', (2, 0))]\<rparr>"

lemma dec_digit: "n < 10 \<Longrightarrow> dec n = [digit n]"
  by (simp add: dec.simps)

theorem switch_selects_witness:
  "\<exists>f. switch_update kind8 \<lparr>rd8 = (\<lambda>(i, _). if i = 2 then 1 else of_nat i + 7), rd16 = (\<lambda>_. 0), rdf = (\<lambda>_. NaN), rdc = (\<lambda>_. default_pixel)\<rparr> f
     = Inr (f\<lparr>sw_output := 8\<rparr>)"
proof -
  let ?m = "\<lparr>rd8 = (\<lambda>(i, _). if i = 2 then 1 else of_nat i + 7), rd16 = (\<lambda>_. 0), rdf = (\<lambda>_. NaN), rdc = (\<lambda>_. default_pixel)\<rparr>"
  let ?f1 = "\<lparr>sw_output = 0 :: u8, sw_select = None, sw_inputs = [None, None]\<rparr>"
  let ?f = "\<lparr>sw_output = 0 :: u8, sw_select = Some (2, 0), sw_inputs = [Some (0, 0), Some (1, 0)]\<rparr>"
  have d: "dec 0 = ''0''" "dec (Suc 0) = ''1''" "dec 2 = ''2''" by code_simp+
  have "stoi ''2'' = Inr 2" using stoi_dec [of 2] d by simp
  then have p: "switch_pre_setup 76 [(''nr_inputs'', ''2'')] ''s'' \<lparr>sw_output = 0 :: u8, sw_select = None, sw_inputs = []\<rparr> = Inr ?f1"
    by (simp add: switch_pre_setup_def read_count_def resize_def numeral_2_eq_2)
  have q: "switch_setup kind8 76 demo_inputs ''s'' ?f1 = Inr ?f"
    using d by (simp add: switch_setup_def link_switch_input_def link_input_def kind8_def demo_inputs_def)
  show ?thesis using switch_selects [OF p q, of ?m] d
    by (intro exI [of _ ?f]) (simp add: demo_inputs_def kind8_def)
qed

subsection \<open>The event counter\<close>

lemma count_matching:
  "fold (\<lambda>e f. if is_same_sender (ev_sender e) (trigger_event_sender f) then f\<lparr>counted_events := counted_events f + 1\<rparr> else f) es f
   = f\<lparr>counted_events := counted_events f + of_nat (length (filter (\<lambda>e. is_same_sender (ev_sender e) (trigger_event_sender f)) es))\<rparr>"
  by (induction es arbitrary: f) simp_all

lemma move_window_4: "move_window n [a, b, c, d] = ([b, c, d, ucast n], b + c + d)"
  by (simp add: move_window_def upt_conv_Cons numeral_eq_Suc)

text \<open>
  When a second is over, the frequency is the number of events counted in it and the window
  moves on; but the tempo is fifteen times the three older counts only, the newest is left out, so
  that a steady n events per second is reported as 45 n beats per minute instead of 60 n.
\<close>

theorem event_counter_tick:
  assumes "ec_time f = Some a" and "bpm_window f = [w0, w1, w2, w3]"
    and "d_le (d_sub (time_til_next_count f) (d_sub (rdf m a) (ec_last_update f))) (Num 0)"
  shows "\<exists>f'. event_counter_update st m f = Inr f' \<and> freq f' = ucast (counted_events f)
    \<and> bpm_window f' = [w1, w2, w3, ucast (counted_events f)] \<and> bpm f' = (w1 + w2 + w3) * 15
    \<and> counted_events f' = of_nat (length (filter (\<lambda>e. is_same_sender (ev_sender e) (trigger_event_sender f)) (get_storage st)))"
  using assms by (simp add: event_counter_update_def Let_def move_window_4 count_matching)

theorem event_counter_tick_witness:
  "\<exists>f'. event_counter_update new_event_storage \<lparr>rd8 = (\<lambda>_. 0), rd16 = (\<lambda>_. 0), rdf = (\<lambda>_. Num 1000), rdc = (\<lambda>_. default_pixel)\<rparr>
       (new_event_counter\<lparr>ec_time := Some (0, 0), counted_events := 2, bpm_window := [2, 2, 2, 2]\<rparr>) = Inr f'
     \<and> freq f' = 2 \<and> bpm f' = 90"
proof -
  let ?m = "\<lparr>rd8 = (\<lambda>_. 0), rd16 = (\<lambda>_. 0), rdf = (\<lambda>_ :: addr. Num 1000), rdc = (\<lambda>_. default_pixel)\<rparr>"
  let ?f = "new_event_counter\<lparr>ec_time := Some (0, 0), counted_events := 2, bpm_window := [2, 2, 2, 2]\<rparr>"
  have "rnd 1000 = Num 1000" "rnd 0 = Num 0" using rnd_int [of 1000] rnd_int [of 0] by simp_all
  then have "d_le (d_sub (time_til_next_count ?f) (d_sub (rdf ?m (0, 0)) (ec_last_update ?f))) (Num 0)"
    by (simp add: new_event_counter_def d_sub_def d_le_def)
  then show ?thesis using event_counter_tick [of ?f "(0, 0)" 2 2 2 2 ?m new_event_storage] by (auto simp: new_event_counter_def)
qed

subsection \<open>The universe output\<close>

lemma write_links:
  assumes "io_reachable ftdi_open ftdi_send st" and "alive st a"
    and "list_all (\<lambda>(c, p). unat c < 512) links" and "distinct (map fst links)"
  shows "\<exists>st'. fold_res (write_link m a) links st = Inr st' \<and> io_reachable ftdi_open ftdi_send st' \<and> alive st' a
    \<and> (\<forall>c. channel_value (objs st' ! a) (unat c) =
         (case map_of links c of None \<Rightarrow> channel_value (objs st ! a) (unat c) | Some p \<Rightarrow> rd8 m p))"
  using assms
proof (induction links arbitrary: st)
  case (Cons l links)
  obtain c p where l: "l = (c, p)" by (cases l)
  have own: "owned st" and dat: "list_all data_ok (objs st)"
    using io_reachable_ok [OF Cons.prems(1)] by (simp_all add: io_ok_def)
  have len: "a < length (objs st)" using alive_bound [OF own Cons.prems(2)] .
  have ok: "data_ok (objs st ! a)" using dat len by (simp add: list_all_length)
  have c: "unat c < 512" using Cons.prems(3) l by simp
  obtain u where u: "write_channel (unat c) (rd8 m p) (objs st ! a) = Inr u" using write_channel_in_range [OF ok c] by blast
  let ?st = "st\<lparr>objs := (objs st)[a := u]\<rparr>"
  have r: "io_reachable ftdi_open ftdi_send ?st" by (rule io_write [OF Cons.prems(1,2) c u])
  have al: "alive ?st a" using Cons.prems(2) by (simp add: alive_def)
  obtain st' where st': "fold_res (write_link m a) links ?st = Inr st'" "io_reachable ftdi_open ftdi_send st'" "alive st' a"
    and v: "\<And>d. channel_value (objs st' ! a) (unat d) =
         (case map_of links d of None \<Rightarrow> channel_value (objs ?st ! a) (unat d) | Some p \<Rightarrow> rd8 m p)"
    using Cons.IH [OF r al] Cons.prems(3,4) by auto
  have "write_link m a l st = Inr ?st" using u by (simp add: write_link_def l)
  moreover have "channel_value (objs st' ! a) (unat d) =
      (case map_of (l # links) d of None \<Rightarrow> channel_value (objs st ! a) (unat d) | Some p \<Rightarrow> rd8 m p)" for d
  proof (cases "d = c")
    case True
    have "map_of links c = None" using Cons.prems(4) l by (simp add: map_of_eq_None_iff)
    then show ?thesis using v [of d] True l len write_channel_value [OF ok c u] by simp
  next
    case False
    then have "unat d \<noteq> unat c" by (simp add: word_unat_eq_iff)
    then show ?thesis using v [of d] False l len write_channel_value [OF ok c u] by (simp split: option.split)
  qed
  ultimately show ?case using st' by auto
qed (auto)

text \<open>
  Universe output: when the configured channels are below 512 and different from each other,
  the update of the filter succeeds in every reachable state in which the universe exists; each
  configured channel of the universe then has the value of its input, all others are unchanged,
  and the state is again a reachable one, so that its packets stay well-formed.
\<close>

theorem universe_output_writes:
  assumes "io_reachable ftdi_open ftdi_send st" and "get_universe (uo_universe_id f) st = Some a"
    and "list_all (\<lambda>(c, p). unat c < 512) (uo_mapping f)" and "distinct (map fst (uo_mapping f))"
  shows "\<exists>st'. universe_output_update m f st = Inr st' \<and> io_reachable ftdi_open ftdi_send st'
    \<and> (\<forall>c. channel_value (objs st' ! a) (unat c) =
         (case map_of (uo_mapping f) c of None \<Rightarrow> channel_value (objs st ! a) (unat c) | Some p \<Rightarrow> rd8 m p))"
proof -
  have "owned st" using io_reachable_ok [OF assms(1)] by (simp add: io_ok_def)
  then have om: "om_ok (nodes st)" "om_ok (dongle_map st)" by (simp_all add: owned_def)
  have "alive st a" unfolding alive_iff [OF om] using assms(2) by (auto simp: get_universe_def split: option.splits)
  from write_links [OF assms(1) this assms(3,4), of m] assms(2) show ?thesis by (auto simp: universe_output_update_def)
qed

definition demo_output :: filter_universe_output where
  "demo_output = \<lparr>uo_universe_id = 1, uo_mapping = [(3, (0, 0))]\<rparr>"

theorem universe_output_writes_witness:
  "\<exists>st'. universe_output_update \<lparr>rd8 = (\<lambda>_. 77), rd16 = (\<lambda>_. 0), rdf = (\<lambda>_. NaN), rdc = (\<lambda>_. default_pixel)\<rparr> demo_output demo_io = Inr st'
     \<and> channel_value (objs st' ! 0) 3 = 77"
proof -
  let ?m = "\<lparr>rd8 = (\<lambda>_. 77), rd16 = (\<lambda>_. 0), rdf = (\<lambda>_ :: addr. NaN), rdc = (\<lambda>_. default_pixel)\<rparr>"
  have "get_universe (uo_universe_id demo_output) demo_io = Some 0"
    by (simp add: get_universe_def demo_io_def new_node_registry_def demo_output_def)
  from universe_output_writes [OF demo_io_reachable this, of ?m] obtain st' where
    u: "universe_output_update ?m demo_output demo_io = Inr st'"
    and v: "\<And>c. channel_value (objs st' ! 0) (unat c) =
      (case map_of (uo_mapping demo_output) c of None \<Rightarrow> channel_value (objs demo_io ! 0) (unat c) | Some p \<Rightarrow> rd8 ?m p)"
    by (auto simp: demo_output_def)
  have "channel_value (objs st' ! 0) 3 = 77" using v [of 3] by (simp add: demo_output_def)
  with u show ?thesis by blast
qed

text \<open>
  Channel numbers are not checked: a show file that maps an input to channel 600 is accepted,
  and the first update of the filter then writes outside of the packet of the universe.
\<close>

theorem universe_output_channel_unchecked:
  "\<exists>f. universe_output_setup demo_io [(''in'', ''600''), (''universe'', ''1'')]
       (empty_mapping\<lparr>eight_bit_channels := [(''in'', (0, 0))]\<rparr>) ''out'' \<lparr>uo_universe_id = 0, uo_mapping = []\<rparr> = Inr f
     \<and> universe_output_update m f demo_io = Inl Undefined_behaviour"
proof -
  have d: "dec 600 = ''600''" "dec 1 = ''1''" by code_simp+
  have s: "stoi ''600'' = Inr 600" "stoi ''1'' = Inr 1" using stoi_dec [of 600] stoi_dec [of 1] unfolding d by simp_all
  have g: "get_universe 1 demo_io = Some 0" by (simp add: get_universe_def demo_io_def new_node_registry_def)
  have "length (u_data (objs demo_io ! 0)) = 530" "u_type (objs demo_io ! 0) = ARTNET"
    by (simp_all add: demo_io_def new_artnet_data artnet_header_def)
  then have "write_channel 600 v (objs demo_io ! 0) = Inl Undefined_behaviour" for v
    by (simp add: write_channel_def channel_offset_def artnet_pkg_size_def)
  then show ?thesis using s g
    by (simp add: universe_output_setup_def map_output_def link_input_def kind8_def universe_output_update_def write_link_def)
qed

end
