(* ===== verification/Actions.thy ===== *)
theory Actions
  imports Fish_Prelude
begin

text \<open>
  Member functions that change an object and may throw: an action takes the state and returns
  the result or the exception together with the state it leaves behind, so that what was
  changed before a throw stays changed.
\<close>

type_synonym ('s, 'a) act = "'s \<Rightarrow> 'a result \<times> 's"

definition ret_act :: "'a \<Rightarrow> ('s, 'a) act" where
  "ret_act x s = (Inr x, s)"

definition throw_act :: "exn \<Rightarrow> ('s, 'a) act" where
  "throw_act e s = (Inl e, s)"

definition bind_act :: "('s, 'a) act \<Rightarrow> ('a \<Rightarrow> ('s, 'b) act) \<Rightarrow> ('s, 'b) act" where
  "bind_act m f s = (case m s of (Inl e, s') \<Rightarrow> (Inl e, s') | (Inr x, s') \<Rightarrow> f x s')"

definition lift_act :: "'a result \<Rightarrow> ('s, 'a) act" where
  "lift_act r s = (r, s)"

definition modify_act :: "('s \<Rightarrow> 's) \<Rightarrow> ('s, unit) act" where
  "modify_act f s = (Inr (), f s)"

text \<open>Reading from the state, and an action on one part of it.\<close>

definition read_act :: "('s \<Rightarrow> 'a result) \<Rightarrow> ('s, 'a) act" where
  "read_act g s = (g s, s)"

definition on_fst :: "('s, 'a) act \<Rightarrow> ('s \<times> 'w, 'a) act" where
  "on_fst m s = (case m (fst s) of (r, t) \<Rightarrow> (r, t, snd s))"

text \<open>\<open>catch (const std::exception&)\<close>: undefined behaviour is not an exception.\<close>

definition catch_act :: "('s, 'a) act \<Rightarrow> (exn \<Rightarrow> ('s, 'a) act) \<Rightarrow> ('s, 'a) act" where
  "catch_act m h s = (case m s of
      (Inl e, s') \<Rightarrow> if e = Undefined_behaviour then (Inl e, s') else h e s'
    | (Inr x, s') \<Rightarrow> (Inr x, s'))"

fun for_act :: "('x \<Rightarrow> ('s, unit) act) \<Rightarrow> 'x list \<Rightarrow> ('s, unit) act" where
  "for_act f [] s = (Inr (), s)"
| "for_act f (x # xs) s = bind_act (f x) (\<lambda>_. for_act f xs) s"

lemma act_simps [simp]:
  "ret_act x s = (Inr x, s)" "throw_act e s = (Inl e, s)" "lift_act r s = (r, s)" "modify_act f s = (Inr (), f s)"
  "read_act g s = (g s, s)"
  by (simp_all add: ret_act_def throw_act_def lift_act_def modify_act_def read_act_def)

lemma bind_act_Inr_iff: "bind_act m f s = (Inr y, t) \<longleftrightarrow> (\<exists>x u. m s = (Inr x, u) \<and> f x u = (Inr y, t))"
  by (auto simp: bind_act_def split: prod.splits sum.splits)

lemma bind_act_Inr: "m s = (Inr x, u) \<Longrightarrow> bind_act m f s = f x u"
  by (simp add: bind_act_def)

lemma bind_act_Inl: "m s = (Inl e, u) \<Longrightarrow> bind_act m f s = (Inl e, u)"
  by (simp add: bind_act_def)

lemma for_act_append: "for_act f (xs @ ys) s = bind_act (for_act f xs) (\<lambda>_. for_act f ys) s"
  by (induction xs arbitrary: s) (auto simp: bind_act_def split: prod.splits sum.splits)

text \<open>What every step keeps, also when it throws, the loop keeps.\<close>

lemma for_act_keeps:
  assumes "P s" and "\<And>x s. x \<in> set xs \<Longrightarrow> P s \<Longrightarrow> P (snd (f x s))"
  shows "P (snd (for_act f xs s))"
  using assms
proof (induction xs arbitrary: s)
  case (Cons x xs)
  have "P (snd (f x s))" using Cons.prems by simp
  then show ?case using Cons.IH Cons.prems(2)
    by (auto simp: bind_act_def split: prod.splits sum.splits)
qed simp

end
