(* ===== verification/Scenes.thy ===== *)
theory Scenes
  imports Scene_Factory Universes Actions
begin

text \<open>
  Scenes and projects: \<^verbatim>\<open>src/src/executioners/scene.hpp\<close>, \<^verbatim>\<open>project_configuration.hpp\<close>,
  \<^verbatim>\<open>project_configuration.cpp\<close>, and the part of \<^verbatim>\<open>scene_factory.cpp\<close> that fills the scenes of a
  project with the help of a thread pool (\<^verbatim>\<open>threadpool.cpp\<close>). The virtual methods of the filters
  are a record of actions over all filters of the scene (a filter reads the outputs of others)
  and the world outside, of which this theory knows the universes.
\<close>

record 'a world =
  w_io :: "'a io_state"

record ('f, 'w) virtual_methods =
  vm_update :: "nat \<Rightarrow> ('f list \<times> 'w, unit) act"
  vm_scene_activated :: "nat \<Rightarrow> ('f list \<times> 'w, unit) act"
  vm_scene_deactivated :: "nat \<Rightarrow> ('f list \<times> 'w, unit) act"
  vm_receive :: "nat \<Rightarrow> string \<Rightarrow> string \<Rightarrow> ('f list \<times> 'w, bool) act"

record 'f scene =
  sc_filters :: "'f list"
  dependency_boundries :: "nat list"
  sc_filter_index :: "(string, nat) omap"
  default_dmx_values :: "(u64 \<times> u16 \<times> u8) list"

subsection \<open>Scenes\<close>

text \<open>An action on the filters of a scene is an action on the scene.\<close>

definition on_filters :: "('f list \<times> 'w, 'b) act \<Rightarrow> ('f scene \<times> 'w, 'b) act" where
  "on_filters m s = (case m (sc_filters (fst s), snd s) of (r, fs, w) \<Rightarrow> (r, (fst s)\<lparr>sc_filters := fs\<rparr>, w))"

definition invoke_filters :: "('f, 'w) virtual_methods \<Rightarrow> ('f scene \<times> 'w, unit) act" where
  "invoke_filters VM s = on_filters (for_act (vm_update VM) [0..<length (sc_filters (fst s))]) s"

text \<open>
  The default values: the universe is looked up again only when the number changes, starting
  with universe 0; channels beyond the packet and unknown universes are skipped.
\<close>

definition find_universe :: "u64 \<Rightarrow> 'a io_state \<Rightarrow> nat option" where
  "find_universe universe_id st = get_universe (sint (ucast universe_id :: u32)) st"

definition default_value_step ::
  "u64 \<times> u16 \<times> u8 \<Rightarrow> (u64 \<times> nat option) \<times> 'a io_state \<Rightarrow> ((u64 \<times> nat option) \<times> 'a io_state) result" where
  "default_value_step v s = (case (v, s) of ((universe_id, channel, x), ((i, uptr), st)) \<Rightarrow>
     let (i', uptr') = (if universe_id \<noteq> i then (universe_id, find_universe universe_id st) else (i, uptr))
     in case uptr' of
          Some a \<Rightarrow> if unat channel < 512
            then bind_res (write_channel (unat channel) x (objs st ! a)) (\<lambda>u. Inr ((i', uptr'), st\<lparr>objs := (objs st)[a := u]\<rparr>))
            else Inr ((i', uptr'), st)
        | None \<Rightarrow> Inr ((i', uptr'), st))"

definition apply_default_values :: "(u64 \<times> u16 \<times> u8) list \<Rightarrow> 'a io_state \<Rightarrow> 'a io_state result" where
  "apply_default_values vs st =
     (if vs = [] then Inr st
      else bind_res (fold_res default_value_step vs ((0, find_universe 0 st), st)) (\<lambda>(_, st'). Inr st'))"

definition on_start :: "('f, ('a, 'z) world_scheme) virtual_methods \<Rightarrow> ('f scene \<times> ('a, 'z) world_scheme, unit) act" where
  "on_start VM s = (let (sc, w) = s in
     case apply_default_values (default_dmx_values sc) (w_io w) of
       Inl e \<Rightarrow> (Inl e, sc, w)
     | Inr st \<Rightarrow> on_filters (for_act (\<lambda>i. catch_act (vm_scene_activated VM i) (\<lambda>_. ret_act ())) [0..<length (sc_filters sc)])
                  (sc, w\<lparr>w_io := st\<rparr>))"

definition on_stop :: "('f, 'w) virtual_methods \<Rightarrow> ('f scene \<times> 'w, unit) act" where
  "on_stop VM s = on_filters (for_act (vm_scene_deactivated VM) [0..<length (sc_filters (fst s))]) s"

definition scene_update_filter_parameter ::
  "('f, 'w) virtual_methods \<Rightarrow> string \<Rightarrow> string \<Rightarrow> string \<Rightarrow> ('f scene \<times> 'w, bool) act" where
  "scene_update_filter_parameter VM filter_id key val s = (case map_of (sc_filter_index (fst s)) filter_id of
      None \<Rightarrow> (Inl (Invalid_argument (''The requested scene does not contain the requested filter '' @ quote @ filter_id @ quote @ ''.'')), s)
    | Some i \<Rightarrow> on_filters (vm_receive VM i key val) s)"

subsection \<open>Loading the scenes of a show file\<close>

record scene_template =
  st_id :: "int option"
  st_human_readable_name :: string
  st_filters :: "filter_template list"
  st_dmxdefaultvalue :: "(int \<times> int \<times> int) list"

definition load_default_dmx_values :: "scene_template \<Rightarrow> (u64 \<times> u16 \<times> u8) list" where
  "load_default_dmx_values t = map (\<lambda>(u, c, v). (of_int u, of_int c, of_int v)) (st_dmxdefaultvalue t)"

definition load_scene :: "(string \<Rightarrow> nat) \<Rightarrow> ('f, 'p) filter_methods \<Rightarrow> scene_template \<Rightarrow> 'f scene result" where
  "load_scene size_of M t = bind_res (compute_filter size_of M (st_filters t)) (\<lambda>(fs, bs, index).
     Inr \<lparr>sc_filters = fs, dependency_boundries = bs, sc_filter_index = index,
          default_dmx_values = load_default_dmx_values t\<rparr>)"

record 'f loaded =
  ld_scenes :: "'f scene list"
  ld_index :: "(int, nat) omap"
  ld_log :: string
  ld_worked :: bool

definition ERROR_FILTER_CONFIGURATION_EXCEPTION :: string where
  "ERROR_FILTER_CONFIGURATION_EXCEPTION = ''E003:''"

definition ERROR_FILTER_SCHEDULING_EXCEPTION :: string where
  "ERROR_FILTER_SCHEDULING_EXCEPTION = ''E004:''"

definition template_key :: "scene_template \<Rightarrow> nat \<Rightarrow> int" where
  "template_key t last_index = sint (of_int (case st_id t of Some i \<Rightarrow> i | None \<Rightarrow> int last_index) :: u32)"

text \<open>
  A task of the pool. An exception that is neither of the two kinds ends the loading when the
  task runs on the calling thread, and is swallowed by the pool when it runs on a worker.
  The text form of an optional number belongs to the XML library.
\<close>

definition scene_task ::
  "(string \<Rightarrow> nat) \<Rightarrow> ('f, 'p) filter_methods \<Rightarrow> (int option \<Rightarrow> string) \<Rightarrow> scene_template \<times> bool \<Rightarrow>
   'f loaded \<Rightarrow> 'f loaded result" where
  "scene_task size_of M id_text task l = (let (t, on_caller) = task in
     case load_scene size_of M t of
       Inr sc \<Rightarrow> Inr (l\<lparr>ld_scenes := ld_scenes l @ [sc],
                       ld_index := om_update (template_key t (length (ld_scenes l))) (length (ld_scenes l)) (ld_index l)\<rparr>)
     | Inl (Filter_config_exception what) \<Rightarrow>
         Inr (l\<lparr>ld_worked := False, ld_log := ld_log l @ ERROR_FILTER_CONFIGURATION_EXCEPTION @ ''SCENE_ID:'' @ id_text (st_id t) @
           ''/Failed to configure filters in scene '' @ quote @ st_human_readable_name t @ quote @ ''. Reason: '' @ what @ newline\<rparr>)
     | Inl (Scheduling_exception what) \<Rightarrow>
         Inr (l\<lparr>ld_worked := False, ld_log := ld_log l @ ERROR_FILTER_SCHEDULING_EXCEPTION @ ''SCENE_ID:'' @ id_text (st_id t) @
           ''Failed to schedule filters in scene '' @ quote @ st_human_readable_name t @ quote @ ''. Reason: '' @ what @ newline\<rparr>)
     | Inl Undefined_behaviour \<Rightarrow> Inl Undefined_behaviour
     | Inl e \<Rightarrow> if on_caller then Inl e else Inr l)"

text \<open>
  The schedule of the pool is a list: the tasks in the order in which they take the locks, each
  with whether the calling thread runs it.
\<close>

definition nothing_loaded :: "'f loaded" where
  "nothing_loaded = \<lparr>ld_scenes = [], ld_index = [], ld_log = [], ld_worked = True\<rparr>"

definition populate_scene_vector ::
  "(string \<Rightarrow> nat) \<Rightarrow> ('f, 'p) filter_methods \<Rightarrow> (int option \<Rightarrow> string) \<Rightarrow> (nat \<times> bool) list \<Rightarrow> scene_template list \<Rightarrow>
   'f loaded result" where
  "populate_scene_vector size_of M id_text order ss =
     (if ss = [] then Inr (nothing_loaded\<lparr>ld_log := ''There were no scenes defined. Skipping.'', ld_worked := False\<rparr>)
      else bind_res (fold_res (\<lambda>(i, c). scene_task size_of M id_text (ss ! i, c)) order nothing_loaded)
             (\<lambda>l. Inr (l\<lparr>ld_log := ld_log l @ ''Done.'' @ newline\<rparr>)))"

subsection \<open>Projects\<close>

record ('a, 'd) show_file =
  sf_show_name :: "string option"
  sf_universes :: "(int \<times> ('a, 'd) location \<times> bool) list"
  sf_scenes :: "scene_template list"
  sf_default_active_scene :: "int option"

record 'f project_configuration =
  scenes :: "'f scene list"
  project_universes :: "nat option list"
  scene_id_mapping :: "(int, nat) omap"
  project_name :: string
  default_active_scene :: nat
  current_active_scene :: nat
  current_scene_id :: u32

definition on_scene :: "nat \<Rightarrow> ('f scene \<times> 'w, 'b) act \<Rightarrow> ('f project_configuration \<times> 'w, 'b) act" where
  "on_scene k m s = (let (p, w) = s in
     if k < length (scenes p)
     then (case m (scenes p ! k, w) of (r, sc, w') \<Rightarrow> (r, p\<lparr>scenes := (scenes p)[k := sc]\<rparr>, w'))
     else (Inl Undefined_behaviour, s))"

definition stop_current :: "('f, 'w) virtual_methods \<Rightarrow> ('f project_configuration \<times> 'w, unit) act" where
  "stop_current VM s = (if current_active_scene (fst s) < length (scenes (fst s))
     then on_scene (current_active_scene (fst s)) (on_stop VM) s else (Inr (), s))"

definition enter_scene :: "u32 \<Rightarrow> nat \<Rightarrow> 'f project_configuration \<Rightarrow> 'f project_configuration" where
  "enter_scene new_scene k p =
     (if k \<ge> length (scenes p)
      then p\<lparr>current_active_scene := size_sub (length (scenes p)) 1, current_scene_id := of_nat (size_sub (length (scenes p)) 1)\<rparr>
      else p\<lparr>current_active_scene := k, current_scene_id := new_scene\<rparr>)"

definition start_current ::
  "('f, ('a, 'z) world_scheme) virtual_methods \<Rightarrow> ('f project_configuration \<times> ('a, 'z) world_scheme, unit) act" where
  "start_current VM s = (if current_active_scene (fst s) < length (scenes (fst s))
     then on_scene (current_active_scene (fst s)) (on_start VM) s else (Inr (), s))"

definition register_show_universes ::
  "('d \<Rightarrow> unit result) \<Rightarrow> (int \<times> ('a, 'd) location \<times> bool) list \<Rightarrow> 'a io_state \<Rightarrow> (nat option list \<times> 'a io_state) result" where
  "register_show_universes ftdi_open us st =
     fold_res (\<lambda>(i, loc, dummy) (ps, st). bind_res (register_universe_from_xml ftdi_open i loc dummy st)
        (\<lambda>(p, st'). Inr (ps @ [p], st'))) us ([], st)"

definition new_project :: "('a, 'd) show_file \<Rightarrow> nat option list \<Rightarrow> 'f loaded \<Rightarrow> 'f project_configuration" where
  "new_project sf us l =
     (let d = (case sf_default_active_scene sf of Some d \<Rightarrow> unat (of_int d :: u64) | None \<Rightarrow> 0)
      in \<lparr>scenes = ld_scenes l, project_universes = us, scene_id_mapping = ld_index l,
          project_name = (case sf_show_name sf of Some n \<Rightarrow> n | None \<Rightarrow> ''No Name''),
          default_active_scene = d, current_active_scene = d, current_scene_id = 0\<rparr>)"

text \<open>
  The constructor. The logging target is part of the state: what was logged before an
  exception remains readable. The filters of the scenes may look at the registered universes,
  so their methods are a function of the state of the universes.
\<close>

definition construct_project ::
  "('d \<Rightarrow> unit result) \<Rightarrow> (string \<Rightarrow> nat) \<Rightarrow> ('a io_state \<Rightarrow> ('f, 'p) filter_methods) \<Rightarrow>
   ('f, ('a, 'z) world_scheme) virtual_methods \<Rightarrow> (int option \<Rightarrow> string) \<Rightarrow> (nat \<times> bool) list \<Rightarrow> ('a, 'd) show_file \<Rightarrow>
   (string \<times> ('a, 'z) world_scheme, 'f project_configuration) act" where
  "construct_project ftdi_open size_of M VM id_text order sf s = (let (lg, w) = s in
     case register_show_universes ftdi_open (sf_universes sf) (w_io w) of
       Inl e \<Rightarrow> (Inl e, s)
     | Inr (us, st) \<Rightarrow>
         (case populate_scene_vector size_of (M st) id_text order (sf_scenes sf) of
            Inl e \<Rightarrow> (Inl e, lg, w\<lparr>w_io := st\<rparr>)
          | Inr l \<Rightarrow>
              let lg' = lg @ ''Scene scheduling results: '' @ (if ld_worked l then ''Success.'' else ''Failed.'') @ '' Logs:'' @
                    newline @ ld_log l @ newline
              in if \<not> ld_worked l
                 then (Inl (Project_config_exception ''Scheduling failed. Please review log.''), lg', w\<lparr>w_io := st\<rparr>)
                 else let lg'' = lg' @ ''Initializing default scene.'' @ newline
                      in case start_current VM (new_project sf us l, w\<lparr>w_io := st\<rparr>) of
                           (Inl e, _, w') \<Rightarrow> (Inl e, lg'', w')
                         | (Inr _, p, w') \<Rightarrow>
                             (Inr p, lg'' @ ''Show file '' @ quote @ project_name p @ quote @ '' successfully loaded.'' @ newline, w')))"

definition switch_to_scene ::
  "('f, ('a, 'z) world_scheme) virtual_methods \<Rightarrow> u32 \<Rightarrow> nat \<Rightarrow>
   ('f project_configuration \<times> ('a, 'z) world_scheme, bool) act" where
  "switch_to_scene VM new_scene k =
     bind_act (stop_current VM) (\<lambda>_.
     bind_act (modify_act (map_prod (enter_scene new_scene k) id)) (\<lambda>_.
     bind_act (start_current VM) (\<lambda>_.
     ret_act True)))"

definition set_active_scene ::
  "('f, ('a, 'z) world_scheme) virtual_methods \<Rightarrow> u32 \<Rightarrow> ('f project_configuration \<times> ('a, 'z) world_scheme, bool) act" where
  "set_active_scene VM new_scene s = (case map_of (scene_id_mapping (fst s)) (sint new_scene) of
      None \<Rightarrow> (Inr False, s)
    | Some k \<Rightarrow> if k = current_active_scene (fst s) then (Inr True, s) else switch_to_scene VM new_scene k s)"

definition update_filter_parameter ::
  "('f, 'w) virtual_methods \<Rightarrow> int \<Rightarrow> string \<Rightarrow> string \<Rightarrow> string \<Rightarrow> ('f project_configuration \<times> 'w, bool) act" where
  "update_filter_parameter VM show_id filter_id key val s = (case map_of (scene_id_mapping (fst s)) show_id of
      None \<Rightarrow> (Inl (Invalid_argument (''Failed to update filter parameter of non existant show '' @ dec_int show_id @ ''.'')), s)
    | Some k \<Rightarrow> on_scene k (scene_update_filter_parameter VM filter_id key val) s)"

definition run_cycle_update :: "('f, 'w) virtual_methods \<Rightarrow> ('f project_configuration \<times> 'w, unit) act" where
  "run_cycle_update VM s = on_scene (current_active_scene (fst s)) (invoke_filters VM) s"

definition find_scene_id_from_index :: "nat \<Rightarrow> 'f project_configuration \<Rightarrow> u64" where
  "find_scene_id_from_index scene_index p = (case find (\<lambda>(i, k). k = scene_index) (scene_id_mapping p) of
      Some (i, k) \<Rightarrow> of_int i | None \<Rightarrow> 0)"

subsection \<open>Loading in any order\<close>

lemma template_key_present: "st_id t \<noteq> None \<Longrightarrow> template_key t n = template_key t 0"
  by (auto simp: template_key_def)

text \<open>The tasks that succeed, in the order in which they push their scene.\<close>

lemma scene_tasks_succeed:
  assumes "list_all (\<lambda>(i, c). load_scene size_of M (ss ! i) = Inr (sc i) \<and> st_id (ss ! i) \<noteq> None) order"
    and "distinct (map (\<lambda>(i, c). template_key (ss ! i) 0) order)" and "om_ok (ld_index l)"
  shows "\<exists>l'. fold_res (\<lambda>(i, c). scene_task size_of M id_text (ss ! i, c)) order l = Inr l'
    \<and> ld_scenes l' = ld_scenes l @ map (sc \<circ> fst) order \<and> ld_log l' = ld_log l \<and> ld_worked l' = ld_worked l \<and> om_ok (ld_index l')
    \<and> (\<forall>j < length order. map_of (ld_index l') (template_key (ss ! fst (order ! j)) 0) = Some (length (ld_scenes l) + j))
    \<and> (\<forall>x. x \<notin> (\<lambda>(i, c). template_key (ss ! i) 0) ` set order \<longrightarrow> map_of (ld_index l') x = map_of (ld_index l) x)"
  using assms
proof (induction order arbitrary: l)
  case (Cons o' order)
  obtain i c where o: "o' = (i, c)" by (cases o')
  let ?k = "template_key (ss ! i) 0"
  let ?l = "l\<lparr>ld_scenes := ld_scenes l @ [sc i], ld_index := om_update ?k (length (ld_scenes l)) (ld_index l)\<rparr>"
  have i: "load_scene size_of M (ss ! i) = Inr (sc i)" "st_id (ss ! i) \<noteq> None" using Cons.prems(1) o by simp_all
  have step: "scene_task size_of M id_text (ss ! i, c) l = Inr ?l"
    using i(1) by (simp add: scene_task_def template_key_present [OF i(2), of "length (ld_scenes l)"])
  have ok: "om_ok (ld_index ?l)" using Cons.prems(3) by (simp add: om_ok_update)
  have dist: "distinct (map (\<lambda>(i, c). template_key (ss ! i) 0) order)"
    and fresh: "?k \<notin> (\<lambda>(i, c). template_key (ss ! i) 0) ` set order"
    using Cons.prems(2) o by auto
  have all: "list_all (\<lambda>(i, c). load_scene size_of M (ss ! i) = Inr (sc i) \<and> st_id (ss ! i) \<noteq> None) order"
    using Cons.prems(1) by simp
  obtain l' where l': "fold_res (\<lambda>(i, c). scene_task size_of M id_text (ss ! i, c)) order ?l = Inr l'"
      "ld_scenes l' = ld_scenes ?l @ map (sc \<circ> fst) order" "ld_log l' = ld_log l" "ld_worked l' = ld_worked l" "om_ok (ld_index l')"
    and idx: "\<And>j. j < length order \<Longrightarrow> map_of (ld_index l') (template_key (ss ! fst (order ! j)) 0) = Some (Suc (length (ld_scenes l)) + j)"
    and oth: "\<And>x. x \<notin> (\<lambda>(i, c). template_key (ss ! i) 0) ` set order \<Longrightarrow> map_of (ld_index l') x = map_of (ld_index ?l) x"
    using Cons.IH [OF all dist ok] by auto
  have "map_of (ld_index l') (template_key (ss ! fst ((o' # order) ! j)) 0) = Some (length (ld_scenes l) + j)"
    if "j < length (o' # order)" for j
  proof (cases j)
    case 0
    then show ?thesis using oth [OF fresh] Cons.prems(3) by (simp add: o map_of_om_update)
  qed (use idx that in simp)
  moreover have "map_of (ld_index l') x = map_of (ld_index l) x" if "x \<notin> (\<lambda>(i, c). template_key (ss ! i) 0) ` set (o' # order)" for x
    using oth [of x] that Cons.prems(3) by (auto simp: o map_of_om_update)
  ultimately show ?case using l' step by (auto simp: o)
qed simp

text \<open>
  C30. Scenes are loaded in parallel: whatever the order in which the tasks finish and whichever
  threads run them, when every scene can be loaded and the scenes have different numbers, the
  project gets all scenes and every number of the show file leads to its own scene.
\<close>

theorem populate_any_order:
  assumes "mset (map fst order) = mset [0..<length ss]" and "ss \<noteq> []"
    and "list_all (\<lambda>t. st_id t \<noteq> None) ss" and "distinct (map (\<lambda>t. template_key t 0) ss)"
    and "list_all (\<lambda>t. \<exists>sc. load_scene size_of M t = Inr sc) ss"
  shows "\<exists>l. populate_scene_vector size_of M id_text order ss = Inr l \<and> ld_worked l \<and> length (ld_scenes l) = length ss
    \<and> (\<forall>i < length ss. \<exists>k < length ss. map_of (ld_index l) (template_key (ss ! i) 0) = Some k
         \<and> load_scene size_of M (ss ! i) = Inr (ld_scenes l ! k))"
proof -
  define sc where "sc i = projr (load_scene size_of M (ss ! i))" for i
  have len: "length order = length ss" using arg_cong [OF assms(1), of size] by simp
  have dom: "set (map fst order) = {..<length ss}" using arg_cong [OF assms(1), of set_mset] by (simp add: lessThan_atLeast0)
  have sc: "load_scene size_of M (ss ! i) = Inr (sc i)" if "i < length ss" for i
    using assms(5) that by (auto simp: list_all_length sc_def)
  have "distinct (map fst order)" using assms(1) by (metis distinct_upt mset_eq_imp_distinct_iff)
  moreover have "inj_on (\<lambda>i. template_key (ss ! i) 0) {..<length ss}"
    using assms(4) by (auto simp: inj_on_def distinct_conv_nth)
  ultimately have "distinct (map (\<lambda>i. template_key (ss ! i) 0) (map fst order))"
    unfolding distinct_map using dom by simp
  then have dist: "distinct (map (\<lambda>(i, c). template_key (ss ! i) 0) order)" by (simp add: comp_def split_def)
  have bound: "fst x < length ss" if "x \<in> set order" for x using dom that by auto
  then have "list_all (\<lambda>(i, c). load_scene size_of M (ss ! i) = Inr (sc i) \<and> st_id (ss ! i) \<noteq> None) order"
    using sc assms(3) by (fastforce simp: list_all_iff list_all_length case_prod_beta)
  from scene_tasks_succeed [OF this dist, of nothing_loaded id_text]
  obtain l' where l': "fold_res (\<lambda>(i, c). scene_task size_of M id_text (ss ! i, c)) order nothing_loaded = Inr l'"
      "ld_scenes l' = map (sc \<circ> fst) order" "ld_worked l'"
    and idx: "\<And>j. j < length order \<Longrightarrow> map_of (ld_index l') (template_key (ss ! fst (order ! j)) 0) = Some j"
    by (auto simp: nothing_loaded_def)
  have "\<exists>k < length ss. map_of (ld_index l') (template_key (ss ! i) 0) = Some k \<and> load_scene size_of M (ss ! i) = Inr (ld_scenes l' ! k)"
    if i: "i < length ss" for i
  proof -
    have "i \<in> set (map fst order)" using dom i by simp
    then obtain k where k: "k < length order" "fst (order ! k) = i" by (metis in_set_conv_nth length_map nth_map)
    show ?thesis by (rule exI [of _ k]) (use k idx [OF k(1)] sc [OF i] len l'(2) in simp)
  qed
  then show ?thesis using l' len assms(2) by (simp add: populate_scene_vector_def)
qed

lemma load_scene_defaults: "load_scene size_of M t = Inr sc \<Longrightarrow> default_dmx_values sc = load_default_dmx_values t"
  by (auto simp: load_scene_def bind_res_Inr_iff)

definition demo_scene :: "int \<Rightarrow> int option \<Rightarrow> scene_template" where
  "demo_scene v i = \<lparr>st_id = i, st_human_readable_name = ''demo'', st_filters = [demo_filter ''a'' []],
     st_dmxdefaultvalue = [(1, 7, v)]\<rparr>"

lemma demo_scene_loads: "\<exists>sc. load_scene (\<lambda>_. 8) demo_methods (demo_scene v i) = Inr sc"
proof -
  have "(case compute_filter (\<lambda>_. 8) demo_methods [demo_filter ''a'' []] of Inl e \<Rightarrow> False | Inr s \<Rightarrow> True)" by code_simp
  then show ?thesis by (cases "compute_filter (\<lambda>_. 8) demo_methods [demo_filter ''a'' []]")
    (auto simp: load_scene_def demo_scene_def)
qed

theorem populate_any_order_witness:
  "\<exists>l. populate_scene_vector (\<lambda>_. 8) demo_methods (\<lambda>_. []) [(1, False), (0, True)] [demo_scene 10 (Some 5), demo_scene 20 (Some 9)] = Inr l
     \<and> (\<exists>k < 2. map_of (ld_index l) 5 = Some k \<and> default_dmx_values (ld_scenes l ! k) = [(1, 7, 10)])"
proof -
  let ?ss = "[demo_scene 10 (Some 5), demo_scene 20 (Some 9)]"
  have k: "template_key (demo_scene v (Some 5)) 0 = 5" "template_key (demo_scene v (Some 9)) 0 = 9" for v
    by (simp_all add: template_key_def demo_scene_def)
  have ne: "?ss \<noteq> []" "list_all (\<lambda>t. st_id t \<noteq> None) ?ss" "distinct (map (\<lambda>t. template_key t 0) ?ss)"
    "list_all (\<lambda>t. \<exists>sc. load_scene (\<lambda>_. 8) demo_methods t = Inr sc) ?ss"
    using demo_scene_loads by (simp_all add: k) (simp_all add: demo_scene_def)
  from populate_any_order [OF _ ne, of "[(1, False), (0, True)]" "\<lambda>_. []"]
  obtain l where l: "populate_scene_vector (\<lambda>_. 8) demo_methods (\<lambda>_. []) [(1, False), (0, True)] ?ss = Inr l"
    and i: "\<And>i. i < 2 \<Longrightarrow> \<exists>k < 2. map_of (ld_index l) (template_key (?ss ! i) 0) = Some k
         \<and> load_scene (\<lambda>_. 8) demo_methods (?ss ! i) = Inr (ld_scenes l ! k)" by (auto simp: numeral_2_eq_2)
  from i [of 0] obtain k' where "k' < 2" "map_of (ld_index l) 5 = Some k'"
    "load_scene (\<lambda>_. 8) demo_methods (demo_scene 10 (Some 5)) = Inr (ld_scenes l ! k')"
    by (auto simp: k)
  moreover from this(3) have "default_dmx_values (ld_scenes l ! k') = [(1, 7, 10)]"
    by (simp add: load_scene_defaults load_default_dmx_values_def demo_scene_def)
  ultimately show ?thesis using l by blast
qed

subsection \<open>The active scene\<close>

definition project_ok :: "'f project_configuration \<Rightarrow> bool" where
  "project_ok p \<longleftrightarrow> om_ok (scene_id_mapping p) \<and> (\<forall>i k. map_of (scene_id_mapping p) i = Some k \<longrightarrow> k < length (scenes p))"

text \<open>What stays when a scene of the project runs.\<close>

definition same_project :: "'f project_configuration \<Rightarrow> 'f project_configuration \<Rightarrow> bool" where
  "same_project p q \<longleftrightarrow> q = p\<lparr>scenes := scenes q\<rparr> \<and> length (scenes q) = length (scenes p)"

lemma same_project_simps:
  assumes "same_project p q"
  shows "length (scenes q) = length (scenes p)" "scene_id_mapping q = scene_id_mapping p"
    "default_active_scene q = default_active_scene p" "current_active_scene q = current_active_scene p"
    "current_scene_id q = current_scene_id p" "project_ok q = project_ok p"
proof -
  have q: "q = p\<lparr>scenes := scenes q\<rparr>" "length (scenes q) = length (scenes p)" using assms by (simp_all add: same_project_def)
  show "length (scenes q) = length (scenes p)" "scene_id_mapping q = scene_id_mapping p"
    "default_active_scene q = default_active_scene p" "current_active_scene q = current_active_scene p"
    "current_scene_id q = current_scene_id p" by (rule q(2), (subst q(1), simp)+)
  then show "project_ok q = project_ok p" by (simp add: project_ok_def)
qed

lemma on_scene_same: "on_scene k m (p, w) = (r, q, w') \<Longrightarrow> same_project p q \<and> (\<forall>j. j \<noteq> k \<longrightarrow> scenes q ! j = scenes p ! j)"
  by (auto simp: on_scene_def same_project_def split: if_splits prod.splits)

lemma on_scene_in_range:
  "k < length (scenes p) \<Longrightarrow> m (scenes p ! k, w) = (r, sc, w') \<Longrightarrow>
   on_scene k m (p, w) = (r, p\<lparr>scenes := (scenes p)[k := sc]\<rparr>, w')"
  by (simp add: on_scene_def)

text \<open>
  C25. Switching the scene: a number that the show file does not contain is refused and changes
  nothing; the number of the active scene is accepted and changes nothing; otherwise, when the
  switch succeeds, the scene that was active has been stopped, then the scene with the requested
  number has been started and is the active one, all other scenes are as they were.
\<close>

theorem set_active_scene_switches:
  assumes "project_ok p" and "set_active_scene VM new_scene (p, w) = (Inr b, q, w')"
  shows "case map_of (scene_id_mapping p) (sint new_scene) of
      None \<Rightarrow> \<not> b \<and> q = p \<and> w' = w
    | Some k \<Rightarrow> b \<and> current_active_scene q = k \<and> k < length (scenes q) \<and> length (scenes q) = length (scenes p)
        \<and> (if k = current_active_scene p then q = p \<and> w' = w
           else current_scene_id q = new_scene
             \<and> (\<forall>j. j \<noteq> k \<longrightarrow> j \<noteq> current_active_scene p \<longrightarrow> scenes q ! j = scenes p ! j)
             \<and> (\<exists>w1. (if current_active_scene p < length (scenes p)
                  then on_stop VM (scenes p ! current_active_scene p, w) = (Inr (), scenes q ! current_active_scene p, w1)
                  else w1 = w)
                \<and> on_start VM (scenes p ! k, w1) = (Inr (), scenes q ! k, w')))"
proof (cases "map_of (scene_id_mapping p) (sint new_scene)")
  case (Some k)
  have k: "k < length (scenes p)" using assms(1) Some by (simp add: project_ok_def)
  show ?thesis
  proof (cases "k = current_active_scene p")
    case False
    let ?c = "current_active_scene p"
    have sw: "switch_to_scene VM new_scene k (p, w) = (Inr b, q, w')"
      using assms(2) Some False by (simp add: set_active_scene_def)
    then obtain p1 w1 where st: "stop_current VM (p, w) = (Inr (), p1, w1)" and b: b
      and go: "start_current VM (enter_scene new_scene k p1, w1) = (Inr (), q, w')"
      by (auto simp: switch_to_scene_def bind_act_Inr_iff)
    have p1: "same_project p p1" "\<And>j. j \<noteq> ?c \<Longrightarrow> scenes p1 ! j = scenes p ! j"
      using st on_scene_same [of ?c "on_stop VM" p w "Inr ()" p1 w1] by (auto simp: stop_current_def same_project_def split: if_splits)
    note same = same_project_simps [OF p1(1)]
    let ?p2 = "p1\<lparr>current_active_scene := k, current_scene_id := new_scene\<rparr>"
    have start: "on_scene k (on_start VM) (?p2, w1) = (Inr (), q, w')"
      using go k same(1) by (simp add: start_current_def enter_scene_def)
    obtain sc where sc: "on_start VM (scenes p1 ! k, w1) = (Inr (), sc, w')" and q: "q = ?p2\<lparr>scenes := (scenes p1)[k := sc]\<rparr>"
      using start k same(1) by (auto simp: on_scene_def split: prod.splits)
    have stop: "if ?c < length (scenes p) then on_stop VM (scenes p ! ?c, w) = (Inr (), scenes p1 ! ?c, w1) else w1 = w"
      using st by (auto simp: stop_current_def on_scene_def split: prod.splits if_splits)
    then show ?thesis using Some False k q sc b same(1) p1(2) by (auto simp: p1(2) [of k])
  qed (use assms(2) Some k in \<open>simp add: set_active_scene_def\<close>)
qed (use assms(2) in \<open>simp add: set_active_scene_def\<close>)

inductive project_reachable ::
  "('d \<Rightarrow> unit result) \<Rightarrow> (string \<Rightarrow> nat) \<Rightarrow> ('a io_state \<Rightarrow> ('f, 'p) filter_methods) \<Rightarrow>
   ('f, ('a, 'z) world_scheme) virtual_methods \<Rightarrow> (int option \<Rightarrow> string) \<Rightarrow> (nat \<times> bool) list \<Rightarrow> ('a, 'd) show_file \<Rightarrow>
   'f project_configuration \<Rightarrow> bool" for ftdi_open size_of M VM id_text order sf where
  pr_load: "construct_project ftdi_open size_of M VM id_text order sf s = (Inr p, s') \<Longrightarrow>
    project_reachable ftdi_open size_of M VM id_text order sf p"
| pr_switch: "project_reachable ftdi_open size_of M VM id_text order sf p \<Longrightarrow>
    set_active_scene VM new_scene (p, w) = (r, q, w') \<Longrightarrow> project_reachable ftdi_open size_of M VM id_text order sf q"
| pr_parameter: "project_reachable ftdi_open size_of M VM id_text order sf p \<Longrightarrow>
    update_filter_parameter VM show_id filter_id key val (p, w) = (r, q, w') \<Longrightarrow>
    project_reachable ftdi_open size_of M VM id_text order sf q"
| pr_cycle: "project_reachable ftdi_open size_of M VM id_text order sf p \<Longrightarrow>
    run_cycle_update VM (p, w) = (r', q, w') \<Longrightarrow> project_reachable ftdi_open size_of M VM id_text order sf q"

definition project_invariant :: "'f project_configuration \<Rightarrow> bool" where
  "project_invariant p \<longleftrightarrow> project_ok p
     \<and> (current_active_scene p < length (scenes p) \<or> current_active_scene p = default_active_scene p)"

lemma same_project_invariant: "same_project p q \<Longrightarrow> project_invariant p \<Longrightarrow> project_invariant q"
  using same_project_simps [of p q] by (simp add: project_invariant_def)

lemma scene_task_index:
  assumes "scene_task size_of M id_text x l = Inr l'" and "om_ok (ld_index l) \<and> (\<forall>i k. map_of (ld_index l) i = Some k \<longrightarrow> k < length (ld_scenes l))"
  shows "om_ok (ld_index l') \<and> (\<forall>i k. map_of (ld_index l') i = Some k \<longrightarrow> k < length (ld_scenes l'))"
  using assms by (auto simp: scene_task_def map_of_om_update om_ok_update less_Suc_eq
      split: prod.splits sum.splits exn.splits if_splits)

lemma populate_index:
  assumes "populate_scene_vector size_of M id_text order ss = Inr l"
  shows "om_ok (ld_index l) \<and> (\<forall>i k. map_of (ld_index l) i = Some k \<longrightarrow> k < length (ld_scenes l))"
proof (cases "ss = []")
  case False
  then obtain l' where l': "fold_res (\<lambda>(i, c). scene_task size_of M id_text (ss ! i, c)) order nothing_loaded = Inr l'"
    and l: "l = l'\<lparr>ld_log := ld_log l' @ ''Done.'' @ newline\<rparr>"
    using assms by (auto simp: populate_scene_vector_def bind_res_Inr_iff)
  have "om_ok (ld_index l') \<and> (\<forall>i k. map_of (ld_index l') i = Some k \<longrightarrow> k < length (ld_scenes l'))"
    by (rule fold_res_invariant [OF l']) (simp add: nothing_loaded_def, use scene_task_index in \<open>fast\<close>)
  then show ?thesis by (simp add: l)
qed (use assms in \<open>auto simp: populate_scene_vector_def nothing_loaded_def\<close>)

lemma construct_project_invariant:
  assumes "construct_project ftdi_open size_of M VM id_text order sf s = (Inr p, s')"
  shows "project_invariant p"
proof -
  obtain us st l w w' r where l: "populate_scene_vector size_of (M st) id_text order (sf_scenes sf) = Inr l"
    and p: "start_current VM (new_project sf us l, w) = (r, p, w')"
    using assms by (auto simp: construct_project_def Let_def split: prod.splits sum.splits if_splits)
  have "project_invariant (new_project sf us l)"
    using populate_index [OF l] by (simp add: new_project_def project_invariant_def project_ok_def Let_def)
  moreover have "same_project (new_project sf us l) p"
    using p by (auto simp: start_current_def same_project_def dest: on_scene_same split: if_splits)
  ultimately show ?thesis by (rule same_project_invariant [rotated])
qed

lemma start_current_same: "start_current VM (p, w) = (r, q, w') \<Longrightarrow> same_project p q"
  and stop_current_same: "stop_current VM (p, w) = (r, q, w') \<Longrightarrow> same_project p q"
  by (auto simp: start_current_def stop_current_def same_project_def dest: on_scene_same split: if_splits)

lemma enter_scene_invariant: "project_invariant p \<Longrightarrow> k < length (scenes p) \<Longrightarrow> project_invariant (enter_scene n k p)"
  by (simp add: enter_scene_def project_invariant_def project_ok_def)

lemma set_active_scene_invariant:
  assumes "project_invariant p" and "set_active_scene VM new_scene (p, w) = (r, q, w')"
  shows "project_invariant q"
proof (cases "map_of (scene_id_mapping p) (sint new_scene)")
  case (Some k)
  show ?thesis
  proof (cases "k = current_active_scene p")
    case False
    obtain r1 p1 w1 where st: "stop_current VM (p, w) = (r1, p1, w1)" by (metis prod_cases3)
    have p1: "project_invariant p1" "length (scenes p1) = length (scenes p)"
      using same_project_invariant [OF stop_current_same [OF st] assms(1)] stop_current_same [OF st] by (simp_all add: same_project_def)
    have k: "k < length (scenes p1)" using assms(1) Some p1(2) by (simp add: project_invariant_def project_ok_def)
    obtain r2 p2 w2 where go: "start_current VM (enter_scene new_scene k p1, w1) = (r2, p2, w2)" by (metis prod_cases3)
    have "project_invariant p2"
      using same_project_invariant [OF start_current_same [OF go] enter_scene_invariant [OF p1(1) k]] .
    moreover have "q = p1 \<or> q = p2"
      using assms(2) Some False st go
      by (auto simp: set_active_scene_def switch_to_scene_def bind_act_def split: prod.splits sum.splits)
    ultimately show ?thesis using p1(1) by auto
  qed (use assms Some in \<open>simp add: set_active_scene_def\<close>)
qed (use assms in \<open>simp add: set_active_scene_def\<close>)

text \<open>
  C26. In every state of a project that a show file, switches, parameter updates and cycles can
  produce, every scene number leads into the scene vector, and a cycle updates a scene of the
  project, unless the show file names a default scene that does not exist: the constructor does
  not check it, and the next cycle is then undefined.
\<close>

theorem project_stays_consistent:
  assumes "project_reachable ftdi_open size_of M VM id_text order sf p"
  shows "project_ok p \<and> (current_active_scene p < length (scenes p)
    \<or> current_active_scene p = default_active_scene p \<and> (\<forall>w. run_cycle_update VM (p, w) = (Inl Undefined_behaviour, p, w)))"
proof -
  have "project_invariant p"
    using assms
  proof induction
    case (pr_parameter p show_id filter_id key val w r q w')
    then show ?case
      by (auto simp: update_filter_parameter_def dest: on_scene_same intro: same_project_invariant split: option.splits)
  next
    case (pr_cycle p w r' q w')
    then show ?case by (auto simp: run_cycle_update_def dest: on_scene_same intro: same_project_invariant)
  qed (auto intro: construct_project_invariant set_active_scene_invariant)
  then show ?thesis by (auto simp: project_invariant_def run_cycle_update_def on_scene_def)
qed

subsection \<open>Default values\<close>

definition default_of :: "'a io_state \<Rightarrow> nat \<Rightarrow> nat \<Rightarrow> u64 \<times> u16 \<times> u8 \<Rightarrow> u8 \<Rightarrow> u8" where
  "default_of st a c e d = (case e of (u, c', x) \<Rightarrow> if find_universe u st = Some a \<and> unat c' = c then x else d)"

lemma find_universe_objs: "find_universe u (st\<lparr>objs := os\<rparr>) = find_universe u st"
  by (simp add: find_universe_def get_universe_def split: option.split)

lemma universe_alive: "io_reachable ftdi_open ftdi_send st \<Longrightarrow> get_universe i st = Some a \<Longrightarrow> alive st a"
proof -
  assume "io_reachable ftdi_open ftdi_send st" and g: "get_universe i st = Some a"
  then have "owned st" using io_reachable_ok by (auto simp: io_ok_def)
  then have om: "om_ok (nodes st)" "om_ok (dongle_map st)" by (simp_all add: owned_def)
  show "alive st a" unfolding alive_iff [OF om] using g by (auto simp: get_universe_def split: option.splits)
qed

lemma default_value_steps:
  assumes "io_reachable ftdi_open ftdi_send st" and "uptr = find_universe i st"
  shows "\<exists>r st'. fold_res default_value_step vs ((i, uptr), st) = Inr (r, st') \<and> io_reachable ftdi_open ftdi_send st'
    \<and> (\<forall>a c. alive st a \<longrightarrow> c < 512 \<longrightarrow>
         channel_value (objs st' ! a) c = fold (default_of st a c) vs (channel_value (objs st ! a) c))"
  using assms
proof (induction vs arbitrary: st i uptr)
  case (Cons e vs)
  obtain u c x where e: "e = (u, c, x)" by (cases e)
  have uptr: "(if u \<noteq> i then (u, find_universe u st) else (i, uptr)) = (u, find_universe u st)" using Cons.prems(2) by simp
  show ?case
  proof (cases "\<exists>a. find_universe u st = Some a \<and> unat c < 512")
    case True
    then obtain b where b: "find_universe u st = Some b" and c: "unat c < 512" by blast
    have al: "alive st b" using universe_alive [OF Cons.prems(1)] b by (simp add: find_universe_def)
    have own: "owned st" and dat: "list_all data_ok (objs st)"
      using io_reachable_ok [OF Cons.prems(1)] by (simp_all add: io_ok_def)
    have len: "b < length (objs st)" using alive_bound [OF own al] .
    have ok: "data_ok (objs st ! b)" using dat len by (simp add: list_all_length)
    obtain o' where o': "write_channel (unat c) x (objs st ! b) = Inr o'" using write_channel_in_range [OF ok c] by blast
    let ?st = "st\<lparr>objs := (objs st)[b := o']\<rparr>"
    have r: "io_reachable ftdi_open ftdi_send ?st" by (rule io_write [OF Cons.prems(1) al c o'])
    have "find_universe u st = find_universe u ?st" by (simp add: find_universe_objs)
    from Cons.IH [OF r this] obtain q st' where
        st': "fold_res default_value_step vs ((u, find_universe u st), ?st) = Inr (q, st')" "io_reachable ftdi_open ftdi_send st'"
      and v: "\<And>a d. alive ?st a \<Longrightarrow> d < 512 \<Longrightarrow>
         channel_value (objs st' ! a) d = fold (default_of ?st a d) vs (channel_value (objs ?st ! a) d)" by blast
    have "default_value_step e ((i, uptr), st) = Inr ((u, find_universe u st), ?st)"
      using uptr b c o' by (simp add: default_value_step_def e Let_def)
    moreover have "channel_value (objs st' ! a) d = fold (default_of st a d) (e # vs) (channel_value (objs st ! a) d)"
      if "alive st a" "d < 512" for a d
    proof -
      have "default_of ?st = default_of st" by (simp add: default_of_def find_universe_objs fun_eq_iff split: prod.split)
      moreover have "channel_value (objs ?st ! a) d = default_of st a d e (channel_value (objs st ! a) d)"
        using b c len write_channel_value [OF ok c o', of d] by (auto simp: default_of_def e nth_list_update)
      ultimately show ?thesis using v [of a d] that by (simp add: alive_def)
    qed
    ultimately show ?thesis using st' by simp
  next
    case False
    then have step: "default_value_step e ((i, uptr), st) = Inr ((u, find_universe u st), st)"
      using uptr by (auto simp: default_value_step_def e Let_def split: option.split)
    have "default_of st a d e y = y" if "d < 512" for a d y using False that by (auto simp: default_of_def e)
    then show ?thesis using step Cons.IH [OF Cons.prems(1) refl, of u] by simp
  qed
qed simp

text \<open>
  When a scene starts, its default values are written: in every reachable state of the
  universes this succeeds whatever the scene names, each channel of a universe gets the last
  default value listed for it, all other channels keep their value, and entries for unknown
  universes or for channels from 512 on are ignored.
\<close>

theorem default_values_applied:
  assumes "io_reachable ftdi_open ftdi_send st"
  shows "\<exists>st'. apply_default_values vs st = Inr st' \<and> io_reachable ftdi_open ftdi_send st'
    \<and> (\<forall>a c. alive st a \<longrightarrow> c < 512 \<longrightarrow>
         channel_value (objs st' ! a) c = fold (default_of st a c) vs (channel_value (objs st ! a) c))"
proof (cases "vs = []")
  case False
  then show ?thesis using default_value_steps [OF assms refl, of vs 0] by (auto simp: apply_default_values_def)
qed (use assms in \<open>simp add: apply_default_values_def\<close>)

theorem default_values_applied_witness:
  "\<exists>st'. apply_default_values [(1, 7, 10), (1, 600, 3), (4, 7, 9), (1, 7, 20)] demo_io = Inr st' \<and> channel_value (objs st' ! 0) 7 = 20"
proof -
  have g: "find_universe 1 demo_io = Some 0" "find_universe 4 demo_io = None"
    by (simp_all add: find_universe_def get_universe_def demo_io_def new_node_registry_def)
  obtain st' where st': "apply_default_values [(1, 7, 10), (1, 600, 3), (4, 7, 9), (1, 7, 20)] demo_io = Inr st'"
    and v: "\<And>a c. alive demo_io a \<Longrightarrow> c < 512 \<Longrightarrow> channel_value (objs st' ! a) c =
      fold (default_of demo_io a c) [(1, 7, 10), (1, 600, 3), (4, 7, 9), (1, 7, 20)] (channel_value (objs demo_io ! a) c)"
    using default_values_applied [OF demo_io_reachable, of "[(1, 7, 10), (1, 600, 3), (4, 7, 9), (1, 7, 20)]"] by blast
  have "alive demo_io 0" by (simp add: alive_def demo_io_def)
  then have "channel_value (objs st' ! 0) 7 = 20" using v [of 0 7] g by (simp add: default_of_def)
  with st' show ?thesis by blast
qed

subsection \<open>Witnesses\<close>

definition demo_virtual :: "(string, string world) virtual_methods" where
  "demo_virtual = \<lparr>vm_update = (\<lambda>i. ret_act ()), vm_scene_activated = (\<lambda>i. modify_act (\<lambda>(fs, w). (fs[i := ''started''], w))),
     vm_scene_deactivated = (\<lambda>i. modify_act (\<lambda>(fs, w). (fs[i := ''stopped''], w))), vm_receive = (\<lambda>i key val. ret_act False)\<rparr>"

definition demo_show :: "int \<Rightarrow> (string, unit) show_file" where
  "demo_show d = \<lparr>sf_show_name = None, sf_universes = [(1, Artnet_location ''10.0.0.7'' 4, False)],
     sf_scenes = [demo_scene 10 (Some 5), demo_scene 20 (Some 9)], sf_default_active_scene = Some d\<rparr>"

definition demo_project :: "string project_configuration" where
  "demo_project = (let sc = \<lparr>sc_filters = [''idle''], dependency_boundries = [1], sc_filter_index = [(''a'', 0)], default_dmx_values = []\<rparr>
     in \<lparr>scenes = [sc, sc], project_universes = [], scene_id_mapping = [(5, 1), (9, 0)], project_name = ''demo'',
         default_active_scene = 0, current_active_scene = 0, current_scene_id = 0\<rparr>)"

theorem set_active_scene_switches_witness:
  "\<exists>q w'. set_active_scene demo_virtual 5 (demo_project, \<lparr>w_io = empty_io\<rparr>) = (Inr True, q, w')
     \<and> current_active_scene q = 1 \<and> current_scene_id q = 5"
proof -
  have "fst (set_active_scene demo_virtual 5 (demo_project, \<lparr>w_io = empty_io\<rparr>)) = Inr True" by code_simp
  then obtain q w' where q: "set_active_scene demo_virtual 5 (demo_project, \<lparr>w_io = empty_io\<rparr>) = (Inr True, q, w')"
    by (metis prod.collapse)
  have "project_ok demo_project" by (auto simp: project_ok_def demo_project_def Let_def split: if_splits)
  from set_active_scene_switches [OF this q] q show ?thesis by (simp add: demo_project_def Let_def)
qed

theorem project_stays_consistent_witness:
  "\<exists>p. construct_project (\<lambda>_. Inr ()) (\<lambda>_. 8) (\<lambda>_. demo_methods) demo_virtual (\<lambda>_. []) [(1, False), (0, True)] (demo_show 7)
       ([], \<lparr>w_io = empty_io\<rparr>) = (Inr (p :: string project_configuration), snd (construct_project (\<lambda>_. Inr ()) (\<lambda>_. 8) (\<lambda>_. demo_methods)
         demo_virtual (\<lambda>_. []) [(1, False), (0, True)] (demo_show 7) ([], \<lparr>w_io = empty_io\<rparr>)))
     \<and> (\<forall>w. run_cycle_update demo_virtual (p, w) = (Inl Undefined_behaviour, p, w))"
proof -
  let ?c = "construct_project (\<lambda>_ :: unit. Inr ()) (\<lambda>_. 8) (\<lambda>_. demo_methods) demo_virtual (\<lambda>_. []) [(1, False), (0, True)] (demo_show 7)
    ([], \<lparr>w_io = empty_io\<rparr>)"
  have "case ?c of (Inr p, _) \<Rightarrow> current_active_scene p = 7 \<and> length (scenes p) = 2 | _ \<Rightarrow> False" by code_simp
  then obtain p where p: "?c = (Inr p, snd ?c)" "current_active_scene p = 7" "length (scenes p) = 2"
    by (auto split: prod.splits sum.splits)
  have "project_reachable (\<lambda>_ :: unit. Inr ()) (\<lambda>_. 8) (\<lambda>_. demo_methods) demo_virtual (\<lambda>_. []) [(1, False), (0, True)] (demo_show 7) p"
    by (rule pr_load [OF p(1)])
  from project_stays_consistent [OF this] p show ?thesis by auto
qed

end
