(* ===== verification/Filter_Scene.thy ===== *)
theory Filter_Scene
  imports Scenes Filters_Arith Filters_Time
begin

text \<open>
  The filters of \<^verbatim>\<open>Filters_Arith\<close> and \<^verbatim>\<open>Filters_Time\<close> as the objects of a scene: one constructor per
  class, with the dispatch of the virtual methods and the construction by class name. Classes
  that are not modelled are the constructor \<open>Unmodelled\<close>, whose set-up is the value
  \<open>Undefined_behaviour\<close>, so that nothing is claimed about a scene that contains one. The two
  classes that convert a colour of another filter in place are among them.

  The locale \<open>dataflow\<close> is the interface between a scene and its filters: an update looks at the
  filters it is linked with, and at nothing else of the scene. From it follows what a pass over
  the scene computes.
\<close>

subsection \<open>One pass over filters that read each other\<close>

locale dataflow =
  fixes step :: "'e \<Rightarrow> 'm \<Rightarrow> 'f \<Rightarrow> ('f \<times> 'e) result"
    and view :: "'f list \<Rightarrow> 'm"
    and inputs :: "'f \<Rightarrow> nat set"
  assumes reads_inputs: "length fs = length fs' \<Longrightarrow> (\<And>j. j \<in> inputs f \<Longrightarrow> fs ! j = fs' ! j) \<Longrightarrow>
      step e (view fs) f = step e (view fs') f"
    and keeps_inputs: "step e m f = Inr (f', e') \<Longrightarrow> inputs f' = inputs f"
begin

definition update_at :: "nat \<Rightarrow> ('f list \<times> 'e, unit) act" where
  "update_at i s = (case step (snd s) (view (fst s)) (fst s ! i) of
      Inl e \<Rightarrow> (Inl e, s)
    | Inr (f, e) \<Rightarrow> (Inr (), (fst s)[i := f], e))"

definition in_order :: "'f list \<Rightarrow> bool" where
  "in_order fs \<longleftrightarrow> (\<forall>i < length fs. inputs (fs ! i) \<subseteq> {..i})"

lemma update_at_order: "in_order fs \<Longrightarrow> update_at i (fs, e) = (r, fs', e') \<Longrightarrow> in_order fs' \<and> length fs' = length fs"
proof -
  assume ord: "in_order fs" and up: "update_at i (fs, e) = (r, fs', e')"
  have "inputs (fs' ! j) = inputs (fs ! j) \<and> length fs' = length fs" for j
    using up by (cases "i < length fs")
      (auto simp: update_at_def nth_list_update list_update_beyond dest!: keeps_inputs split: sum.splits prod.splits if_splits)
  then show "in_order fs' \<and> length fs' = length fs" using ord by (simp add: in_order_def)
qed

text \<open>Updating the filters of an interval: every new state is the step in the final memory.\<close>

lemma pass_interval:
  assumes "for_act update_at [m..<n] (fs, e) = (Inr (), fs', e')" and "m \<le> n" and "n \<le> length fs" and "in_order fs"
  shows "length fs' = length fs \<and> (\<forall>i. i \<notin> {m..<n} \<longrightarrow> fs' ! i = fs ! i)
    \<and> (\<exists>es. es m = e \<and> es n = e'
         \<and> (\<forall>i \<in> {m..<n}. step (es i) (view (fs'[i := fs ! i])) (fs ! i) = Inr (fs' ! i, es (Suc i))))"
  using assms
proof (induction "n - m" arbitrary: m fs e)
  case 0
  then show ?case by auto
next
  case (Suc k)
  then have m: "m < n" by simp
  then have up: "[m..<n] = m # [Suc m..<n]" by (rule upt_conv_Cons)
  obtain fs1 e1 where s1: "update_at m (fs, e) = (Inr (), fs1, e1)"
    and rest: "for_act update_at [Suc m..<n] (fs1, e1) = (Inr (), fs', e')"
    using Suc.prems(1) by (auto simp: up bind_act_Inr_iff)
  obtain f where f: "step e (view fs) (fs ! m) = Inr (f, e1)" and fs1: "fs1 = fs[m := f]"
    using s1 by (auto simp: update_at_def split: sum.splits)
  have lfs1: "length fs1 = length fs" using fs1 by simp
  have o1: "in_order fs1" using update_at_order [OF Suc.prems(4) s1] by simp
  obtain es where len: "length fs' = length fs1" and out: "\<And>i. i \<notin> {Suc m..<n} \<Longrightarrow> fs' ! i = fs1 ! i"
    and es: "es (Suc m) = e1" "es n = e'"
    and eq: "\<And>i. i \<in> {Suc m..<n} \<Longrightarrow> step (es i) (view (fs'[i := fs1 ! i])) (fs1 ! i) = Inr (fs' ! i, es (Suc i))"
    using Suc.hyps(1) [OF _ rest _ _ o1] Suc.hyps(2) Suc.prems(3) m lfs1 by fastforce
  let ?es = "es(m := e)"
  have here: "step e (view (fs'[m := fs ! m])) (fs ! m) = Inr (fs' ! m, e1)"
  proof -
    have "inputs (fs ! m) \<subseteq> {..m}" using Suc.prems(3,4) m by (simp add: in_order_def)
    then have "fs'[m := fs ! m] ! j = fs ! j" if "j \<in> inputs (fs ! m)" for j
      using that out [of j] m Suc.prems(3) len fs1 by (cases "j = m") auto
    then have "step e (view (fs'[m := fs ! m])) (fs ! m) = step e (view fs) (fs ! m)"
      by (intro reads_inputs) (simp_all add: len fs1)
    then show ?thesis using f out [of m] fs1 Suc.prems(3) m by simp
  qed
  have "step (?es i) (view (fs'[i := fs ! i])) (fs ! i) = Inr (fs' ! i, ?es (Suc i))" if "i \<in> {m..<n}" for i
    using that eq [of i] here es(1) fs1 by (cases "i = m") auto
  moreover have "fs' ! i = fs ! i" if "i \<notin> {m..<n}" for i using out [of i] that fs1 m by auto
  ultimately show ?case using len fs1 es(2) m by (auto intro!: exI [of _ ?es])
qed

lemma pass:
  assumes "for_act update_at [0..<length fs] (fs, e) = (Inr (), fs', e')" and "in_order fs"
  shows "length fs' = length fs \<and> (\<exists>es. es 0 = e \<and> es (length fs) = e'
    \<and> (\<forall>i < length fs. step (es i) (view (fs'[i := fs ! i])) (fs ! i) = Inr (fs' ! i, es (Suc i))))"
  using pass_interval [OF assms(1) _ _ assms(2)] by auto

lemma pass_order:
  assumes "in_order fs"
  shows "in_order (fst (snd (for_act update_at is (fs, e)))) \<and> length (fst (snd (for_act update_at is (fs, e)))) = length fs"
proof (rule for_act_keeps [where P = "\<lambda>s. in_order (fst s) \<and> length (fst s) = length fs"])
  fix i :: nat and s :: "'f list \<times> 'e"
  assume s: "in_order (fst s) \<and> length (fst s) = length fs"
  show "in_order (fst (snd (update_at i s))) \<and> length (fst (snd (update_at i s))) = length fs"
    using s update_at_order [of "fst s" i "snd s"] by (metis prod.collapse)
qed (use assms in simp)

end

subsection \<open>The objects of a scene\<close>

datatype scene_filter =
    Constant8 "u8 filter_constant" | Constant16 "u16 filter_constant"
  | ConstantF "double filter_constant" | ConstantC "pixel filter_constant"
  | Math_single int filter_math_single | Math_dual int filter_math_dual
  | Sum8 "u8 filter_multi_t_sum" | Sum16 "u16 filter_multi_t_sum" | SumF "double filter_multi_t_sum"
  | Dual_byte filter_16bit_to_dual_byte | To_bool filter_16bit_to_bool
  | Combine_bytes filter_combine_bytes_to_16bit | Map_8bit filter_map_8bit_to_16bit
  | Multiply_add filter_multiply_add
  | Float_to_8bit "u8 filter_float_to_X" | Float_to_16bit "u16 filter_float_to_X" | Round_number "double filter_float_to_X"
  | From_8bit filter_to_float | From_16bit filter_to_float
  | Floats_to_pixel filter_floats_to_pixel | Pixel_to_rgbw filter_pixel_to_rgbw_channels
  | Map_range8 "u8 float_map_range" | Map_range16 "u16 float_map_range" | Map_rangeF "double float_map_range"
  | Wave int filter_trigonometric | Square filter_trigonometric
  | Shift8 "u8 filter_shift" | Shift16 "u16 filter_shift" | ShiftF "double filter_shift" | ShiftC "pixel filter_shift"
  | Switch8 "u8 filter_switch" | Switch16 "u16 filter_switch" | SwitchF "double filter_switch" | SwitchC "pixel filter_switch"
  | Time filter_time
  | Event_counter filter_event_counter | Universe_output filter_universe_output
  | Unmodelled string

text \<open>The C library, and the value that fields hold which the classes do not initialise.\<close>

record c_library =
  c_libm :: libm
  c_sin :: "double \<Rightarrow> double"
  c_tan :: "double \<Rightarrow> double"
  c_uninitialised :: double
  c_uninitialised8 :: u8
  c_uninitialised16 :: u16

record 'a filter_world = "'a world" +
  w_events :: event_storage
  w_clock :: "nat \<Rightarrow> int"
  w_readings :: nat

subsection \<open>Construction and set-up\<close>

definition new_sum :: "'v \<Rightarrow> 'v filter_multi_t_sum" where
  "new_sum zero = \<lparr>fs_params = [], fs_output = zero\<rparr>"

definition new_switch :: "'v \<Rightarrow> 'v filter_switch" where
  "new_switch uninitialised = \<lparr>sw_output = uninitialised, sw_select = None, sw_inputs = []\<rparr>"

definition new_trigonometric :: filter_trigonometric where
  "new_trigonometric = \<lparr>tr_input = None, factor_outer = None, factor_inner = None, phase = None, tr_offset = None,
     tr_length = None, tr_output = Num 0\<rparr>"

definition class_objects :: "c_library \<Rightarrow> (string \<times> scene_filter) list" where
  "class_objects lib = [
     (''constant_8bit'', Constant8 (new_constant kind8)), (''constant_16bit'', Constant16 (new_constant kind16)),
     (''constant_float'', ConstantF (new_constant kindf)), (''constant_color'', ConstantC (new_constant (kindc (c_libm lib)))),
     (''filter_arcsine'', Math_single 22 \<lparr>ms_input = None, ms_output = Num 0\<rparr>),
     (''filter_arccosine'', Math_single 23 \<lparr>ms_input = None, ms_output = Num 0\<rparr>),
     (''filter_arctangent'', Math_single 24 \<lparr>ms_input = None, ms_output = Num 0\<rparr>),
     (''filter_logarithm'', Math_single 28 \<lparr>ms_input = None, ms_output = Num 0\<rparr>),
     (''filter_exponential'', Math_single 29 \<lparr>ms_input = None, ms_output = Num 0\<rparr>),
     (''filter_minimum'', Math_dual 30 \<lparr>md_param1 = None, md_param2 = None, md_output = Num 0\<rparr>),
     (''filter_maximum'', Math_dual 31 \<lparr>md_param1 = None, md_param2 = None, md_output = Num 0\<rparr>),
     (''filter_sum_8bit'', Sum8 (new_sum 0)), (''filter_sum_16bit'', Sum16 (new_sum 0)), (''filter_sum_float'', SumF (new_sum (Num 0))),
     (''filter_16bit_to_dual_byte'', Dual_byte \<lparr>db_input = None, lower_output = 0, upper_output = 0\<rparr>),
     (''filter_16bit_to_bool'', To_bool \<lparr>tb_input = None, tb_output = 0\<rparr>),
     (''filter_combine_bytes_to_16bit'', Combine_bytes \<lparr>cb_output = 0, cb_lower_input = None, cb_upper_input = None\<rparr>),
     (''filter_map_8bit_to_16bit'', Map_8bit \<lparr>mp_output = 0, mp_input = None\<rparr>),
     (''filter_multiply_add'', Multiply_add \<lparr>input_factor_1 = None, input_factor_2 = None, input_summand = None, ma_output = Num 0\<rparr>),
     (''filter_float_to_8bit'', Float_to_8bit \<lparr>fx_input = None, fx_output = 0\<rparr>),
     (''filter_float_to_16bit'', Float_to_16bit \<lparr>fx_input = None, fx_output = 0\<rparr>),
     (''filter_round_number'', Round_number \<lparr>fx_input = None, fx_output = Num 0\<rparr>),
     (''filter_8bit_to_float'', From_8bit \<lparr>tf_input = None, tf_output = Num 0\<rparr>),
     (''filter_16bit_to_float'', From_16bit \<lparr>tf_input = None, tf_output = Num 0\<rparr>),
     (''filter_floats_to_pixel'', Floats_to_pixel \<lparr>fp_output = default_pixel, fp_h = None, fp_s = None, fp_i = None\<rparr>),
     (''filter_pixel_to_rgbw_channels'', Pixel_to_rgbw \<lparr>rgbw_input = None, rgbw_r = 0, rgbw_g = 0, rgbw_b = 0, rgbw_w = 0\<rparr>),
     (''filter_float_map_range_8bit'', Map_range8 (new_map_range 0)), (''filter_float_map_range_16bit'', Map_range16 (new_map_range 0)),
     (''filter_float_map_range_float'', Map_rangeF (new_map_range (Num 0))),
     (''filter_sine'', Wave 19 new_trigonometric), (''filter_cosine'', Wave 20 new_trigonometric),
     (''filter_tangent'', Wave 21 new_trigonometric), (''filter_square'', Square new_trigonometric),
     (''filter_triangle'', Wave 26 new_trigonometric), (''filter_sawtooth'', Wave 27 new_trigonometric),
     (''filter_shift_8bit'', Shift8 (new_shift (c_uninitialised lib))), (''filter_shift_16bit'', Shift16 (new_shift (c_uninitialised lib))),
     (''filter_shift_float'', ShiftF (new_shift (c_uninitialised lib))), (''filter_shift_color'', ShiftC (new_shift (c_uninitialised lib))),
     (''filter_switch_8bit'', Switch8 (new_switch (c_uninitialised8 lib))), (''filter_switch_16bit'', Switch16 (new_switch (c_uninitialised16 lib))),
     (''filter_switch_float'', SwitchF (new_switch (c_uninitialised lib))), (''filter_switch_color'', SwitchC (new_switch default_pixel)),
     (''filter_time'', Time \<lparr>ft_now = Num 0\<rparr>), (''filter_event_counter'', Event_counter new_event_counter),
     (''filter_universe_output'', Universe_output \<lparr>uo_universe_id = 0, uo_mapping = []\<rparr>)]"

definition construct_object :: "c_library \<Rightarrow> string \<Rightarrow> scene_filter" where
  "construct_object lib cls = (case map_of (class_objects lib) cls of Some f \<Rightarrow> f | None \<Rightarrow> Unmodelled cls)"

definition over :: "('g \<Rightarrow> scene_filter) \<Rightarrow> 'g result \<Rightarrow> scene_filter result" where
  "over c r = bind_res r (\<lambda>g. Inr (c g))"

definition object_pre_setup ::
  "c_library \<Rightarrow> (string, string) omap \<Rightarrow> (string, string) omap \<Rightarrow> string \<Rightarrow> scene_filter \<Rightarrow> scene_filter result" where
  "object_pre_setup lib configuration initial_parameters own_id f = (case f of
      Shift8 g \<Rightarrow> over Shift8 (shift_pre_setup kind8 45 configuration own_id g)
    | Shift16 g \<Rightarrow> over Shift16 (shift_pre_setup kind16 46 configuration own_id g)
    | ShiftF g \<Rightarrow> over ShiftF (shift_pre_setup kindf 46 configuration own_id g)
    | ShiftC g \<Rightarrow> over ShiftC (shift_pre_setup (kindc (c_libm lib)) 46 configuration own_id g)
    | Switch8 g \<Rightarrow> over Switch8 (switch_pre_setup 45 configuration own_id g)
    | Switch16 g \<Rightarrow> over Switch16 (switch_pre_setup 46 configuration own_id g)
    | SwitchF g \<Rightarrow> over SwitchF (switch_pre_setup 46 configuration own_id g)
    | SwitchC g \<Rightarrow> over SwitchC (switch_pre_setup 46 configuration own_id g)
    | _ \<Rightarrow> Inr f)"

text \<open>\<open>ms\<close> is the reading of the clock that a time filter takes when it is set up, by the name of the filter.\<close>

definition object_setup ::
  "c_library \<Rightarrow> 'a io_state \<Rightarrow> (string \<Rightarrow> int) \<Rightarrow> (string, string) omap \<Rightarrow> (string, string) omap \<Rightarrow> addr channel_mapping \<Rightarrow> string \<Rightarrow>
   scene_filter \<Rightarrow> scene_filter result" where
  "object_setup lib st ms configuration initial_parameters cm own_id f = (case f of
      Constant8 g \<Rightarrow> over Constant8 (constant_setup kind8 0 initial_parameters own_id g)
    | Constant16 g \<Rightarrow> over Constant16 (constant_setup kind16 1 initial_parameters own_id g)
    | ConstantF g \<Rightarrow> over ConstantF (constant_setup kindf 2 initial_parameters own_id g)
    | ConstantC g \<Rightarrow> over ConstantC (constant_setup (kindc (c_libm lib)) 3 initial_parameters own_id g)
    | Math_single t g \<Rightarrow> over (Math_single t) (math_single_setup t cm own_id g)
    | Math_dual t g \<Rightarrow> over (Math_dual t) (math_dual_setup t cm own_id g)
    | Sum8 g \<Rightarrow> over Sum8 (sum_setup kind8 62 configuration cm own_id g)
    | Sum16 g \<Rightarrow> over Sum16 (sum_setup kind16 63 configuration cm own_id g)
    | SumF g \<Rightarrow> over SumF (sum_setup kindf 64 configuration cm own_id g)
    | Dual_byte g \<Rightarrow> over Dual_byte (dual_byte_setup cm own_id g)
    | To_bool g \<Rightarrow> over To_bool (to_bool_setup cm own_id g)
    | Combine_bytes g \<Rightarrow> over Combine_bytes (combine_setup cm own_id g)
    | Map_8bit g \<Rightarrow> over Map_8bit (map_8bit_setup cm own_id g)
    | Multiply_add g \<Rightarrow> over Multiply_add (multiply_add_setup cm own_id g)
    | Float_to_8bit g \<Rightarrow> over Float_to_8bit (float_to_8bit_setup cm own_id g)
    | Float_to_16bit g \<Rightarrow> over Float_to_16bit (float_to_16bit_setup cm own_id g)
    | Round_number g \<Rightarrow> over Round_number (round_number_setup cm own_id g)
    | From_8bit g \<Rightarrow> over From_8bit (to_float_setup kind8 51 cm own_id g)
    | From_16bit g \<Rightarrow> over From_16bit (to_float_setup kind16 52 cm own_id g)
    | Floats_to_pixel g \<Rightarrow> over Floats_to_pixel (floats_to_pixel_setup cm own_id g)
    | Pixel_to_rgbw g \<Rightarrow> over Pixel_to_rgbw (pixel_to_rgbw_setup (c_libm lib) cm own_id g)
    | Map_range8 g \<Rightarrow> over Map_range8 (map_range_setup (Num 255) 54 initial_parameters cm own_id g)
    | Map_range16 g \<Rightarrow> over Map_range16 (map_range_setup (Num 65535) 55 initial_parameters cm own_id g)
    | Map_rangeF g \<Rightarrow> over Map_rangeF (map_range_setup (Num 1) 56 initial_parameters cm own_id g)
    | Wave t g \<Rightarrow> over (Wave t) (trigonometric_setup t cm own_id g)
    | Square g \<Rightarrow> over Square (five_params_setup 25 cm own_id g)
    | Shift8 g \<Rightarrow> over Shift8 (shift_setup kind8 45 cm own_id g)
    | Shift16 g \<Rightarrow> over Shift16 (shift_setup kind16 46 cm own_id g)
    | ShiftF g \<Rightarrow> over ShiftF (shift_setup kindf 46 cm own_id g)
    | ShiftC g \<Rightarrow> over ShiftC (shift_setup (kindc (c_libm lib)) 46 cm own_id g)
    | Switch8 g \<Rightarrow> over Switch8 (switch_setup kind8 45 cm own_id g)
    | Switch16 g \<Rightarrow> over Switch16 (switch_setup kind16 46 cm own_id g)
    | SwitchF g \<Rightarrow> over SwitchF (switch_setup kindf 46 cm own_id g)
    | SwitchC g \<Rightarrow> over SwitchC (switch_setup (kindc (c_libm lib)) 46 cm own_id g)
    | Time g \<Rightarrow> Inr (Time (time_setup (ms own_id) g))
    | Event_counter g \<Rightarrow> over Event_counter (event_counter_setup configuration cm own_id g)
    | Universe_output g \<Rightarrow> over Universe_output (universe_output_setup st configuration cm own_id g)
    | Unmodelled cls \<Rightarrow> Inl Undefined_behaviour)"

subsection \<open>Outputs\<close>

definition object_outputs :: "c_library \<Rightarrow> nat \<Rightarrow> scene_filter \<Rightarrow> string \<Rightarrow> addr channel_mapping \<Rightarrow> addr channel_mapping" where
  "object_outputs lib i f name cm = (case f of
      Constant8 g \<Rightarrow> constant_outputs kind8 i name cm | Constant16 g \<Rightarrow> constant_outputs kind16 i name cm
    | ConstantF g \<Rightarrow> constant_outputs kindf i name cm | ConstantC g \<Rightarrow> constant_outputs (kindc (c_libm lib)) i name cm
    | Sum8 g \<Rightarrow> value_output kind8 i name cm | Sum16 g \<Rightarrow> value_output kind16 i name cm
    | Dual_byte g \<Rightarrow> dual_byte_outputs i name cm | To_bool g \<Rightarrow> value_output kind8 i name cm
    | Combine_bytes g \<Rightarrow> value_output kind16 i name cm | Map_8bit g \<Rightarrow> value_output kind16 i name cm
    | Float_to_8bit g \<Rightarrow> value_output kind8 i name cm | Float_to_16bit g \<Rightarrow> value_output kind16 i name cm
    | Floats_to_pixel g \<Rightarrow> value_output (kindc (c_libm lib)) i name cm | Pixel_to_rgbw g \<Rightarrow> pixel_to_rgbw_outputs i name cm
    | Map_range8 g \<Rightarrow> value_output kind8 i name cm | Map_range16 g \<Rightarrow> value_output kind16 i name cm
    | Shift8 g \<Rightarrow> shift_outputs kind8 i name g cm | Shift16 g \<Rightarrow> shift_outputs kind16 i name g cm
    | ShiftF g \<Rightarrow> shift_outputs kindf i name g cm | ShiftC g \<Rightarrow> shift_outputs (kindc (c_libm lib)) i name g cm
    | Switch8 g \<Rightarrow> switch_outputs kind8 i name cm | Switch16 g \<Rightarrow> switch_outputs kind16 i name cm
    | SwitchF g \<Rightarrow> switch_outputs kindf i name cm | SwitchC g \<Rightarrow> switch_outputs (kindc (c_libm lib)) i name cm
    | Event_counter g \<Rightarrow> event_counter_outputs i name cm
    | Universe_output g \<Rightarrow> cm | Unmodelled cls \<Rightarrow> cm
    | _ \<Rightarrow> value_output kindf i name cm)"

text \<open>What the addresses published above hold.\<close>

definition byte_at :: "scene_filter \<Rightarrow> nat \<Rightarrow> u8" where
  "byte_at f j = (case f of
      Constant8 g \<Rightarrow> fc_value g | Sum8 g \<Rightarrow> fs_output g | Dual_byte g \<Rightarrow> (if j = 0 then lower_output g else upper_output g)
    | To_bool g \<Rightarrow> tb_output g | Float_to_8bit g \<Rightarrow> fx_output g
    | Pixel_to_rgbw g \<Rightarrow> (if j = 0 then rgbw_r g else if j = 1 then rgbw_g g else if j = 2 then rgbw_b g else rgbw_w g)
    | Map_range8 g \<Rightarrow> mr_output g | Shift8 g \<Rightarrow> sh_values g ! j | Switch8 g \<Rightarrow> sw_output g | _ \<Rightarrow> 0)"

definition short_at :: "scene_filter \<Rightarrow> nat \<Rightarrow> u16" where
  "short_at f j = (case f of
      Constant16 g \<Rightarrow> fc_value g | Sum16 g \<Rightarrow> fs_output g | Combine_bytes g \<Rightarrow> cb_output g | Map_8bit g \<Rightarrow> mp_output g
    | Float_to_16bit g \<Rightarrow> fx_output g | Map_range16 g \<Rightarrow> mr_output g | Shift16 g \<Rightarrow> sh_values g ! j
    | Switch16 g \<Rightarrow> sw_output g | Event_counter g \<Rightarrow> (if j = 0 then bpm g else freq g) | _ \<Rightarrow> 0)"

definition float_at :: "scene_filter \<Rightarrow> nat \<Rightarrow> double" where
  "float_at f j = (case f of
      ConstantF g \<Rightarrow> fc_value g | Math_single t g \<Rightarrow> ms_output g | Math_dual t g \<Rightarrow> md_output g | SumF g \<Rightarrow> fs_output g
    | Multiply_add g \<Rightarrow> ma_output g | Round_number g \<Rightarrow> fx_output g | From_8bit g \<Rightarrow> tf_output g | From_16bit g \<Rightarrow> tf_output g
    | Map_rangeF g \<Rightarrow> mr_output g | Wave t g \<Rightarrow> tr_output g | Square g \<Rightarrow> tr_output g | ShiftF g \<Rightarrow> sh_values g ! j
    | SwitchF g \<Rightarrow> sw_output g | Time g \<Rightarrow> ft_now g | _ \<Rightarrow> NaN)"

definition color_at :: "scene_filter \<Rightarrow> nat \<Rightarrow> pixel" where
  "color_at f j = (case f of
      ConstantC g \<Rightarrow> fc_value g | Floats_to_pixel g \<Rightarrow> fp_output g | ShiftC g \<Rightarrow> sh_values g ! j | SwitchC g \<Rightarrow> sw_output g
    | _ \<Rightarrow> default_pixel)"

definition scene_memory :: "scene_filter list \<Rightarrow> memory" where
  "scene_memory fs = \<lparr>rd8 = (\<lambda>(i, j). byte_at (fs ! i) j), rd16 = (\<lambda>(i, j). short_at (fs ! i) j),
     rdf = (\<lambda>(i, j). float_at (fs ! i) j), rdc = (\<lambda>(i, j). color_at (fs ! i) j)\<rparr>"

subsection \<open>Updates\<close>

definition wave_of :: "c_library \<Rightarrow> int \<Rightarrow> double \<Rightarrow> double \<Rightarrow> double \<Rightarrow> double \<Rightarrow> double \<Rightarrow> double" where
  "wave_of lib t = (if t = 19 then fun_deg (c_sin lib) else if t = 20 then fun_deg (m_cos (c_libm lib))
     else if t = 21 then fun_deg (c_tan lib) else if t = 26 then triangle else sawtooth)"

text \<open>The update of a filter that only computes.\<close>

definition pure_update :: "c_library \<Rightarrow> memory \<Rightarrow> scene_filter \<Rightarrow> scene_filter result" where
  "pure_update lib m f = (case f of
      Math_single t g \<Rightarrow> over (Math_single t) (math_single_update id m g)
    | Math_dual t g \<Rightarrow> over (Math_dual t) (math_dual_update (if t = 30 then d_fmin else d_fmax) m g)
    | Sum8 g \<Rightarrow> Inr (Sum8 (sum_8bit_update m g)) | Sum16 g \<Rightarrow> Inr (Sum16 (sum_16bit_update m g))
    | SumF g \<Rightarrow> Inr (SumF (sum_float_update m g))
    | Dual_byte g \<Rightarrow> over Dual_byte (dual_byte_update m g) | To_bool g \<Rightarrow> over To_bool (to_bool_update m g)
    | Combine_bytes g \<Rightarrow> over Combine_bytes (combine_update m g) | Map_8bit g \<Rightarrow> over Map_8bit (map_8bit_update m g)
    | Multiply_add g \<Rightarrow> over Multiply_add (multiply_add_update m g)
    | Float_to_8bit g \<Rightarrow> over Float_to_8bit (float_to_8bit_update m g)
    | Float_to_16bit g \<Rightarrow> over Float_to_16bit (float_to_16bit_update m g)
    | Round_number g \<Rightarrow> over Round_number (round_number_update m g)
    | From_8bit g \<Rightarrow> over From_8bit (filter_8bit_to_float_update m g)
    | From_16bit g \<Rightarrow> over From_16bit (filter_16bit_to_float_update m g)
    | Floats_to_pixel g \<Rightarrow> over Floats_to_pixel (floats_to_pixel_update (c_libm lib) m g)
    | Pixel_to_rgbw g \<Rightarrow> over Pixel_to_rgbw (pixel_to_rgbw_update (c_libm lib) m g)
    | Map_range8 g \<Rightarrow> over Map_range8 (map_range_8bit_update m g)
    | Map_range16 g \<Rightarrow> over Map_range16 (map_range_16bit_update m g)
    | Map_rangeF g \<Rightarrow> over Map_rangeF (map_range_float_update m g)
    | Wave t g \<Rightarrow> over (Wave t) (trigonometric_update (wave_of lib t) m g)
    | Square g \<Rightarrow> over Square (five_params_update square_wave m g)
    | Shift8 g \<Rightarrow> over Shift8 (shift_update kind8 m g) | Shift16 g \<Rightarrow> over Shift16 (shift_update kind16 m g)
    | ShiftF g \<Rightarrow> over ShiftF (shift_update kindf m g) | ShiftC g \<Rightarrow> over ShiftC (shift_update (kindc (c_libm lib)) m g)
    | Switch8 g \<Rightarrow> over Switch8 (switch_update kind8 m g) | Switch16 g \<Rightarrow> over Switch16 (switch_update kind16 m g)
    | SwitchF g \<Rightarrow> over SwitchF (switch_update kindf m g) | SwitchC g \<Rightarrow> over SwitchC (switch_update (kindc (c_libm lib)) m g)
    | Unmodelled cls \<Rightarrow> Inl Undefined_behaviour
    | _ \<Rightarrow> Inr f)"

definition object_update ::
  "c_library \<Rightarrow> ('a, 'z) filter_world_scheme \<Rightarrow> memory \<Rightarrow> scene_filter \<Rightarrow>
   (scene_filter \<times> ('a, 'z) filter_world_scheme) result" where
  "object_update lib w m f = (case f of
      Time g \<Rightarrow> Inr (Time (time_update (w_clock w (w_readings w)) g), w\<lparr>w_readings := w_readings w + 1\<rparr>)
    | Event_counter g \<Rightarrow> bind_res (event_counter_update (w_events w) m g) (\<lambda>g'. Inr (Event_counter g', w))
    | Universe_output g \<Rightarrow> bind_res (universe_output_update m g (w_io w)) (\<lambda>st. Inr (f, w\<lparr>w_io := st\<rparr>))
    | _ \<Rightarrow> bind_res (pure_update lib m f) (\<lambda>f'. Inr (f', w)))"

text \<open>The filters an update looks at.\<close>

definition source :: "addr option \<Rightarrow> nat set" where
  "source p = (case p of None \<Rightarrow> {} | Some a \<Rightarrow> {fst a})"

definition sources :: "addr option list \<Rightarrow> nat set" where
  "sources ps = \<Union> (source ` set ps)"

definition wave_inputs :: "filter_trigonometric \<Rightarrow> addr option list" where
  "wave_inputs g = [tr_input g, factor_outer g, factor_inner g, phase g, tr_offset g]"

definition shift_inputs :: "'v filter_shift \<Rightarrow> addr option list" where
  "shift_inputs g = [sh_input g, sh_time g, sh_switch_time g]"

definition input_pointers :: "scene_filter \<Rightarrow> addr option list" where
  "input_pointers f = (case f of
      Math_single t g \<Rightarrow> [ms_input g] | Math_dual t g \<Rightarrow> [md_param1 g, md_param2 g]
    | Sum8 g \<Rightarrow> map Some (fs_params g) | Sum16 g \<Rightarrow> map Some (fs_params g) | SumF g \<Rightarrow> map Some (fs_params g)
    | Dual_byte g \<Rightarrow> [db_input g] | To_bool g \<Rightarrow> [tb_input g]
    | Combine_bytes g \<Rightarrow> [cb_lower_input g, cb_upper_input g] | Map_8bit g \<Rightarrow> [mp_input g]
    | Multiply_add g \<Rightarrow> [input_factor_1 g, input_factor_2 g, input_summand g]
    | Float_to_8bit g \<Rightarrow> [fx_input g] | Float_to_16bit g \<Rightarrow> [fx_input g] | Round_number g \<Rightarrow> [fx_input g]
    | From_8bit g \<Rightarrow> [tf_input g] | From_16bit g \<Rightarrow> [tf_input g]
    | Floats_to_pixel g \<Rightarrow> [fp_h g, fp_s g, fp_i g] | Pixel_to_rgbw g \<Rightarrow> [rgbw_input g]
    | Map_range8 g \<Rightarrow> [mr_input g] | Map_range16 g \<Rightarrow> [mr_input g] | Map_rangeF g \<Rightarrow> [mr_input g]
    | Wave t g \<Rightarrow> wave_inputs g | Square g \<Rightarrow> tr_length g # wave_inputs g
    | Shift8 g \<Rightarrow> shift_inputs g | Shift16 g \<Rightarrow> shift_inputs g | ShiftF g \<Rightarrow> shift_inputs g | ShiftC g \<Rightarrow> shift_inputs g
    | Switch8 g \<Rightarrow> sw_select g # sw_inputs g | Switch16 g \<Rightarrow> sw_select g # sw_inputs g
    | SwitchF g \<Rightarrow> sw_select g # sw_inputs g | SwitchC g \<Rightarrow> sw_select g # sw_inputs g
    | Event_counter g \<Rightarrow> [ec_time g] | Universe_output g \<Rightarrow> map (\<lambda>(c, a). Some a) (uo_mapping g)
    | _ \<Rightarrow> [])"

definition object_inputs :: "scene_filter \<Rightarrow> nat set" where
  "object_inputs f = sources (input_pointers f)"

subsection \<open>The virtual methods\<close>

definition object_activated ::
  "('a, 'z) filter_world_scheme \<Rightarrow> scene_filter \<Rightarrow> scene_filter \<times> ('a, 'z) filter_world_scheme" where
  "object_activated w f = (case f of
      Time g \<Rightarrow> (Time (time_scene_activated (w_clock w (w_readings w)) g), w\<lparr>w_readings := w_readings w + 1\<rparr>)
    | Event_counter g \<Rightarrow> (Event_counter (event_counter_activated g), w)
    | _ \<Rightarrow> (f, w))"

definition over_pair :: "('g \<Rightarrow> scene_filter) \<Rightarrow> bool \<times> 'g \<Rightarrow> bool \<times> scene_filter" where
  "over_pair c r = (fst r, c (snd r))"

definition object_receive :: "c_library \<Rightarrow> string \<Rightarrow> string \<Rightarrow> scene_filter \<Rightarrow> (bool \<times> scene_filter) result" where
  "object_receive lib key val f = (case f of
      Constant8 g \<Rightarrow> bind_res (constant_receive kind8 key val g) (\<lambda>r. Inr (over_pair Constant8 r))
    | Constant16 g \<Rightarrow> bind_res (constant_receive kind16 key val g) (\<lambda>r. Inr (over_pair Constant16 r))
    | ConstantF g \<Rightarrow> bind_res (constant_receive kindf key val g) (\<lambda>r. Inr (over_pair ConstantF r))
    | ConstantC g \<Rightarrow> bind_res (constant_receive (kindc (c_libm lib)) key val g) (\<lambda>r. Inr (over_pair ConstantC r))
    | Map_range8 g \<Rightarrow> Inr (over_pair Map_range8 (map_range_receive key val g))
    | Map_range16 g \<Rightarrow> Inr (over_pair Map_range16 (map_range_receive key val g))
    | Map_rangeF g \<Rightarrow> Inr (over_pair Map_rangeF (map_range_receive key val g))
    | _ \<Rightarrow> Inr (no_parameters key val f))"

definition fish_methods :: "c_library \<Rightarrow> (string \<Rightarrow> int) \<Rightarrow> 'a io_state \<Rightarrow> (scene_filter, addr) filter_methods" where
  "fish_methods lib ms st = \<lparr>fm_construct = construct_object lib, fm_pre_setup = object_pre_setup lib,
     fm_get_output_channels = object_outputs lib, fm_setup_filter = object_setup lib st ms\<rparr>"

definition fish_virtual :: "c_library \<Rightarrow> (scene_filter, ('a, 'z) filter_world_scheme) virtual_methods" where
  "fish_virtual lib = \<lparr>
     vm_update = (\<lambda>i (fs, w). case object_update lib w (scene_memory fs) (fs ! i) of
        Inl e \<Rightarrow> (Inl e, fs, w) | Inr (f, w') \<Rightarrow> (Inr (), fs[i := f], w')),
     vm_scene_activated = (\<lambda>i (fs, w). case object_activated w (fs ! i) of (f, w') \<Rightarrow> (Inr (), fs[i := f], w')),
     vm_scene_deactivated = (\<lambda>i. ret_act ()),
     vm_receive = (\<lambda>i key val (fs, w). case object_receive lib key val (fs ! i) of
        Inl e \<Rightarrow> (Inl e, fs, w) | Inr (b, f) \<Rightarrow> (Inr b, fs[i := f], w))\<rparr>"

subsection \<open>An update reads its inputs only\<close>

definition agree :: "memory \<Rightarrow> memory \<Rightarrow> nat set \<Rightarrow> bool" where
  "agree m m' J \<longleftrightarrow> (\<forall>i \<in> J. \<forall>j. rd8 m (i, j) = rd8 m' (i, j) \<and> rd16 m (i, j) = rd16 m' (i, j)
     \<and> rdf m (i, j) = rdf m' (i, j) \<and> rdc m (i, j) = rdc m' (i, j))"

definition local_kind :: "('v, 'z) chan_kind_scheme \<Rightarrow> bool" where
  "local_kind k \<longleftrightarrow> (\<forall>m m' J a. agree m m' J \<longrightarrow> fst a \<in> J \<longrightarrow> ck_read k m a = ck_read k m' a)"

lemma local_kinds [simp]: "local_kind kind8" "local_kind kind16" "local_kind kindf" "local_kind (kindc lm)"
  by (auto simp: local_kind_def agree_def)

lemma deref_agree:
  "agree m m' (sources ps) \<Longrightarrow> p \<in> set ps \<Longrightarrow> local_kind k \<Longrightarrow> deref k m p = deref k m' p"
  by (cases p) (force simp: deref_def local_kind_def sources_def source_def)+

lemma shift_update_agree:
  assumes "agree m m' (sources (shift_inputs g))" and "local_kind k"
  shows "shift_update k m g = shift_update k m' g"
proof -
  have d: "deref k m (sh_input g) = deref k m' (sh_input g)" "deref kindf m (sh_time g) = deref kindf m' (sh_time g)"
    "deref kindf m (sh_switch_time g) = deref kindf m' (sh_switch_time g)"
    by (rule deref_agree [OF assms(1)]; simp add: shift_inputs_def assms(2))+
  show ?thesis unfolding shift_update_def d ..
qed

lemma switch_update_agree:
  fixes k :: "('a, 'z) chan_kind_scheme"
  assumes "agree m m' (sources (sw_select g # sw_inputs g))" and "local_kind k"
  shows "switch_update k m g = switch_update k m' g"
proof -
  have d: "deref kind8 m (sw_select g) = deref kind8 m' (sw_select g)" by (rule deref_agree [OF assms(1)]) simp_all
  have el: "deref k m (sw_inputs g ! n) = deref k m' (sw_inputs g ! n)" if "n < length (sw_inputs g)" for n
    using that by (intro deref_agree [OF assms(1)]) (simp_all add: assms(2))
  have step: "(if length (sw_inputs g) \<le> unat v then Inr g else bind_res (deref k m (sw_inputs g ! unat v)) h)
      = (if length (sw_inputs g) \<le> unat v then Inr g else bind_res (deref k m' (sw_inputs g ! unat v)) h)"
    for v :: u8 and h :: "'a \<Rightarrow> 'a filter_switch result"
  proof (cases "length (sw_inputs g) \<le> unat v")
    case False
    then have "deref k m (sw_inputs g ! unat v) = deref k m' (sw_inputs g ! unat v)" by (intro el) simp
    then show ?thesis by simp
  qed simp
  show ?thesis unfolding switch_update_def d step ..
qed

lemma sum_update_agree:
  assumes "agree m m' (sources (map Some (fs_params g)))" and "local_kind k"
  shows "sum_update k add m g = sum_update k add m' g"
proof -
  have eq: "ck_read k m a = ck_read k m' a" if "a \<in> set (fs_params g)" for a
  proof -
    have "fst a \<in> sources (map Some (fs_params g))" using that by (auto simp: sources_def source_def)
    then show ?thesis using assms unfolding local_kind_def by blast
  qed
  have "foldl (\<lambda>acc a. add (ck_read k m a) acc) z as = foldl (\<lambda>acc a. add (ck_read k m' a) acc) z as"
    if "set as \<subseteq> set (fs_params g)" for as z
    using that by (induction as arbitrary: z) (simp_all add: eq)
  then show ?thesis by (simp add: sum_update_def)
qed

lemma wave_update_agree:
  "agree m m' (sources (wave_inputs g)) \<Longrightarrow> trigonometric_update F m g = trigonometric_update F m' g"
  by (simp add: trigonometric_update_def wave_inputs_def
      deref_agree [of m m' "[tr_input g, factor_outer g, factor_inner g, phase g, tr_offset g]"])

lemma square_update_agree:
  assumes "agree m m' (sources (tr_length g # wave_inputs g))"
  shows "five_params_update F m g = five_params_update F m' g"
proof -
  have "agree m m' (sources (wave_inputs g))" using assms by (simp add: agree_def sources_def)
  then show ?thesis using assms
    by (simp add: five_params_update_def deref_agree [of m m' "tr_length g # wave_inputs g"] wave_update_agree [of m m'])
qed

lemmas update_defs = math_single_update_def math_dual_update_def dual_byte_update_def to_bool_update_def combine_update_def
  map_8bit_update_def multiply_add_update_def float_to_8bit_update_def float_to_16bit_update_def round_number_update_def
  float_to_X_update_def filter_8bit_to_float_update_def filter_16bit_to_float_update_def to_float_update_def
  floats_to_pixel_update_def pixel_to_rgbw_update_def map_range_8bit_update_def map_range_16bit_update_def
  map_range_float_update_def map_range_update_def

lemma pure_update_agree:
  "agree m m' (object_inputs f) \<Longrightarrow> pure_update lib m f = pure_update lib m' f"
proof (cases f)
qed (simp_all add: pure_update_def object_inputs_def input_pointers_def shift_update_agree [of m m'] switch_update_agree [of m m']
      sum_update_agree [of m m'] wave_update_agree [of m m'] square_update_agree [of m m'] update_defs sum_8bit_update_def sum_16bit_update_def sum_float_update_def
      deref_agree [of m m'])

lemma fold_res_cong: "(\<And>x s. x \<in> set xs \<Longrightarrow> f x s = g x s) \<Longrightarrow> fold_res f xs s = fold_res g xs s"
proof (induction xs arbitrary: s)
  case (Cons x xs)
  then show ?case by (simp add: bind_res_def split: sum.split)
qed simp

lemma universe_output_agree:
  assumes "agree m m' (sources (map (\<lambda>(c, a). Some a) (uo_mapping g)))"
  shows "universe_output_update m g st = universe_output_update m' g st"
proof -
  have "rd8 m a = rd8 m' a" if "(c, a) \<in> set (uo_mapping g)" for c a
  proof -
    have "fst a \<in> sources (map (\<lambda>(c, a). Some a) (uo_mapping g))" using that by (force simp: sources_def source_def)
    then show ?thesis using assms by (cases a) (simp add: agree_def)
  qed
  then have "write_link m n l s = write_link m' n l s" if "l \<in> set (uo_mapping g)" for n l s
    using that by (cases l) (simp add: write_link_def)
  then have "fold_res (write_link m n) (uo_mapping g) st = fold_res (write_link m' n) (uo_mapping g) st" for n
    by (rule fold_res_cong)
  then show ?thesis by (simp add: universe_output_update_def split: option.split)
qed

lemma event_counter_agree:
  "agree m m' (sources [ec_time g]) \<Longrightarrow> event_counter_update st m g = event_counter_update st m' g"
  by (simp add: event_counter_update_def deref_agree [of m m' "[ec_time g]"])

lemma object_update_agree:
  assumes "agree m m' (object_inputs f)"
  shows "object_update lib w m f = object_update lib w m' f"
  using pure_update_agree [OF assms, of lib] assms
  by (cases f) (simp_all add: object_update_def object_inputs_def input_pointers_def
      universe_output_agree [of m m'] event_counter_agree [of m m'])

lemma memory_agree: "(\<And>j. j \<in> J \<Longrightarrow> fs ! j = fs' ! j) \<Longrightarrow> agree (scene_memory fs) (scene_memory fs') J"
  by (simp add: agree_def scene_memory_def)

subsection \<open>What an update leaves alone\<close>

lemma shift_update_inputs: "shift_update k m g = Inr g' \<Longrightarrow> shift_inputs g' = shift_inputs g"
  by (auto simp: shift_update_def shift_inputs_def bind_res_Inr_iff Let_def split: if_splits)

lemma switch_update_inputs: "switch_update k m g = Inr g' \<Longrightarrow> sw_select g' = sw_select g \<and> sw_inputs g' = sw_inputs g"
  by (auto simp: switch_update_def bind_res_Inr_iff split: if_splits)

lemma wave_update_inputs: "trigonometric_update F m g = Inr g' \<Longrightarrow> wave_inputs g' = wave_inputs g \<and> tr_length g' = tr_length g"
  by (auto simp: trigonometric_update_def wave_inputs_def bind_res_Inr_iff)

lemma sum_update_inputs [simp]: "fs_params (sum_update k add m g) = fs_params g"
  by (simp add: sum_update_def)

lemma over_Inr_iff: "over c r = Inr f \<longleftrightarrow> (\<exists>g. r = Inr g \<and> f = c g)"
  by (auto simp: over_def bind_res_Inr_iff)

lemma pure_update_inputs: "pure_update lib m f = Inr f' \<Longrightarrow> input_pointers f' = input_pointers f"
  by (cases f) (auto simp: pure_update_def input_pointers_def over_Inr_iff bind_res_Inr_iff update_defs
      sum_8bit_update_def sum_16bit_update_def sum_float_update_def five_params_update_def
      dest: shift_update_inputs switch_update_inputs wave_update_inputs)

lemma event_counter_inputs: "event_counter_update st m g = Inr g' \<Longrightarrow> ec_time g' = ec_time g"
proof -
  assume u: "event_counter_update st m g = Inr g'"
  have "ec_time (fold (\<lambda>e f. if is_same_sender (ev_sender e) (trigger_event_sender f)
      then f\<lparr>counted_events := counted_events f + 1\<rparr> else f) es h) = ec_time h" for es :: "event list" and h :: filter_event_counter
    by (induction es arbitrary: h) simp_all
  with u show ?thesis by (auto simp: event_counter_update_def bind_res_Inr_iff Let_def split: prod.splits if_splits)
qed

lemma object_update_inputs:
  "object_update lib w m f = Inr (f', w') \<Longrightarrow> input_pointers f' = input_pointers f"
  by (cases f) (auto simp: object_update_def bind_res_Inr_iff dest: pure_update_inputs,
    auto simp: input_pointers_def dest: event_counter_inputs)

subsection \<open>Where the pointers of a filter lead\<close>

definition mapping_sources :: "addr channel_mapping \<Rightarrow> nat set" where
  "mapping_sources cm = fst ` snd ` (set (eight_bit_channels cm) \<union> set (sixteen_bit_channels cm)
     \<union> set (float_channels cm) \<union> set (color_channels cm))"

definition mapped_kind :: "('v, 'z) chan_kind_scheme \<Rightarrow> bool" where
  "mapped_kind k \<longleftrightarrow> (\<forall>cm. fst ` snd ` set (ck_channels k cm) \<subseteq> mapping_sources cm)
     \<and> (\<forall>n a cm. mapping_sources (ck_publish k n a cm) \<subseteq> insert (fst a) (mapping_sources cm))"

lemma mapped_publish:
  "fst ` snd ` set (om_update n a cm) \<subseteq> insert (fst a) (fst ` snd ` set cm)"
  using set_om_update_subset [of n a cm] by fastforce

lemma mapping_sources_least:
  "fst ` snd ` set (eight_bit_channels cm) \<subseteq> S \<Longrightarrow> fst ` snd ` set (sixteen_bit_channels cm) \<subseteq> S \<Longrightarrow>
   fst ` snd ` set (float_channels cm) \<subseteq> S \<Longrightarrow> fst ` snd ` set (color_channels cm) \<subseteq> S \<Longrightarrow> mapping_sources cm \<subseteq> S"
  by (simp only: mapping_sources_def image_Un Un_least)

lemma mapping_sources_upper:
  "fst ` snd ` set (eight_bit_channels cm) \<subseteq> mapping_sources cm" "fst ` snd ` set (sixteen_bit_channels cm) \<subseteq> mapping_sources cm"
  "fst ` snd ` set (float_channels cm) \<subseteq> mapping_sources cm" "fst ` snd ` set (color_channels cm) \<subseteq> mapping_sources cm"
  unfolding mapping_sources_def by (intro image_mono, blast)+

lemmas channel_sources = mapping_sources_upper mapping_sources_upper [THEN subset_insertI2]
  mapping_sources_upper [THEN insert_mono [THEN order_trans [OF mapped_publish]]]

lemma mapped_kinds [simp]: "mapped_kind kind8" "mapped_kind kind16" "mapped_kind kindf" "mapped_kind (kindc lm)"
proof -
  show "mapped_kind kind8" unfolding mapped_kind_def kind8_def
    by (simp only: chan_kind.simps) (intro conjI allI mapping_sources_least; simp add: channel_sources del: image_subset_iff)
  show "mapped_kind kind16" unfolding mapped_kind_def kind16_def
    by (simp only: chan_kind.simps) (intro conjI allI mapping_sources_least; simp add: channel_sources del: image_subset_iff)
  show "mapped_kind kindf" unfolding mapped_kind_def kindf_def
    by (simp only: chan_kind.simps) (intro conjI allI mapping_sources_least; simp add: channel_sources del: image_subset_iff)
  show "mapped_kind (kindc lm)" unfolding mapped_kind_def kindc_def
    by (simp only: chan_kind.simps) (intro conjI allI mapping_sources_least; simp add: channel_sources del: image_subset_iff)
qed

lemma publish_sources: "mapped_kind k \<Longrightarrow> mapping_sources (ck_publish k n (i, j) cm) \<subseteq> insert i (mapping_sources cm)"
  by (auto simp: mapped_kind_def)

lemma link_source: "link_input k cm ch c t own_id = Inr a \<Longrightarrow> mapped_kind k \<Longrightarrow> fst a \<in> mapping_sources cm"
  unfolding link_input_Inr_iff mapped_kind_def by (force dest: map_of_SomeD)

lemma float_source: "map_of (float_channels cm) ch = Some a \<Longrightarrow> fst a \<in> mapping_sources cm"
  by (force simp: mapping_sources_def dest: map_of_SomeD)

lemma sources_simps [simp]:
  "sources [] = {}" "sources (None # ps) = sources ps" "sources (Some a # ps) = insert (fst a) (sources ps)"
  "sources (ps @ qs) = sources ps \<union> sources qs"
  by (auto simp: sources_def source_def)

lemma sum_setup_inputs:
  assumes "sum_setup k t configuration cm own_id g = Inr g'" and "mapped_kind k"
  shows "sources (map Some (fs_params g')) \<subseteq> sources (map Some (fs_params g)) \<union> mapping_sources cm"
proof -
  obtain n where n: "fold_res (link_param k t cm own_id) [0..<n] (fs_params g) = Inr (fs_params g')"
    using assms(1) by (auto simp: sum_setup_def config_error_def bind_res_Inr_iff split: option.splits sum.splits exn.splits if_splits)
  show ?thesis
  proof (rule fold_res_invariant [OF n])
    fix i ps qs
    assume s: "sources (map Some ps) \<subseteq> sources (map Some (fs_params g)) \<union> mapping_sources cm" and l: "link_param k t cm own_id i ps = Inr qs"
    obtain a where a: "qs = ps @ [a]" and l: "link_input k cm (dec i) (''Expected channel input map to contain key: '' @ dec i) t own_id = Inr a"
      using l unfolding link_param_def bind_res_Inr_iff by blast
    show "sources (map Some qs) \<subseteq> sources (map Some (fs_params g)) \<union> mapping_sources cm"
      using s link_source [OF l assms(2)] by (simp add: a)
  qed simp
qed

lemma sources_update: "sources (ps[i := p]) \<subseteq> source p \<union> sources ps"
  using set_update_subset_insert [of ps i p] by (fastforce simp: sources_def)

lemma switch_setup_inputs:
  assumes "switch_setup k t cm own_id g = Inr g'" and "mapped_kind k"
  shows "sources (sw_select g' # sw_inputs g') \<subseteq> sources (sw_select g # sw_inputs g) \<union> mapping_sources cm"
proof -
  obtain sel where f: "fold_res (link_switch_input k t cm own_id) [0..<length (sw_inputs g)] (sw_inputs g) = Inr (sw_inputs g')"
    and sel: "sw_select g' = Some sel" "fst sel \<in> mapping_sources cm"
    using assms(1) by (auto simp: switch_setup_def bind_res_Inr_iff dest: link_source)
  have "sources (sw_inputs g') \<subseteq> sources (sw_inputs g) \<union> mapping_sources cm"
  proof (rule fold_res_invariant [OF f])
    fix i ps qs
    assume s: "sources ps \<subseteq> sources (sw_inputs g) \<union> mapping_sources cm" and "link_switch_input k t cm own_id i ps = Inr qs"
    then obtain a where "qs = ps[i := Some a]" "fst a \<in> mapping_sources cm"
      using assms(2) by (auto simp: link_switch_input_def bind_res_Inr_iff dest: link_source)
    then show "sources qs \<subseteq> sources (sw_inputs g) \<union> mapping_sources cm"
      using s sources_update [of ps i "Some a"] by (auto simp: source_def)
  qed simp
  then show ?thesis using sel by (auto simp: sources_def source_def)
qed

lemma universe_output_setup_inputs:
  assumes "universe_output_setup st configuration cm own_id g = Inr g'"
  shows "sources (map (\<lambda>(c, a). Some a) (uo_mapping g')) \<subseteq> sources (map (\<lambda>(c, a). Some a) (uo_mapping g)) \<union> mapping_sources cm"
proof -
  obtain i where f: "fold_res (map_output i cm own_id) configuration (uo_mapping g) = Inr (uo_mapping g')"
    using assms by (auto simp: universe_output_setup_def config_error_def bind_res_Inr_iff split: option.splits if_splits)
  show ?thesis
  proof (rule fold_res_invariant [OF f])
    fix e l l'
    assume s: "sources (map (\<lambda>(c, a). Some a) l) \<subseteq> sources (map (\<lambda>(c, a). Some a) (uo_mapping g)) \<union> mapping_sources cm"
      and m: "map_output i cm own_id e l = Inr l'"
    have "l' = l \<or> (\<exists>c a. l' = l @ [(c, a)] \<and> fst a \<in> mapping_sources cm)"
      using m by (auto simp: map_output_def config_error_def bind_res_Inr_iff dest: link_source
          split: prod.splits if_splits sum.splits)
    then show "sources (map (\<lambda>(c, a). Some a) l') \<subseteq> sources (map (\<lambda>(c, a). Some a) (uo_mapping g)) \<union> mapping_sources cm"
      using s by auto
  qed simp
qed

lemma map_range_setup_inputs:
  assumes "map_range_setup d t initial_parameters cm own_id g = Inr g'"
  shows "source (mr_input g') \<subseteq> mapping_sources cm"
proof -
  obtain a xs g1 where a: "fst a \<in> mapping_sources cm" "mr_input g1 = Some a"
    and f: "fold_res (map_range_initial t own_id initial_parameters) xs g1 = Inr g'"
    using assms unfolding map_range_setup_def Let_def bind_res_Inr_iff by (fastforce dest: link_source)
  have "mr_input g' = Some a"
    by (rule fold_res_invariant [OF f])
      (use a(2) in \<open>auto simp: map_range_initial_def map_range_receive_def set_bound_def config_error_def
        split: prod.splits option.splits if_splits sum.splits\<close>)
  then show ?thesis using a(1) by (simp add: source_def)
qed

lemma link_pair: "link_input k cm ch c t own_id = Inr (i, j) \<Longrightarrow> mapped_kind k \<Longrightarrow> i \<in> mapping_sources cm"
  using link_source by fastforce

lemma float_pair: "map_of (float_channels cm) ch = Some (i, j) \<Longrightarrow> i \<in> mapping_sources cm"
  using float_source by fastforce

lemmas link_pairs = link_pair [OF _ mapped_kinds(1)] link_pair [OF _ mapped_kinds(2)] link_pair [OF _ mapped_kinds(3)]
  link_pair [OF _ mapped_kinds(4)] float_pair

lemma wave_setup_inputs:
  "trigonometric_setup t cm own_id g = Inr g' \<Longrightarrow> sources (wave_inputs g') \<subseteq> mapping_sources cm \<and> tr_length g' = tr_length g"
  by (auto simp: trigonometric_setup_def trig_link_def bind_res_Inr_iff wave_inputs_def dest!: link_pairs)

lemma square_setup_inputs:
  assumes "five_params_setup t cm own_id g = Inr g'"
  shows "sources (tr_length g' # wave_inputs g') \<subseteq> mapping_sources cm"
proof -
  obtain g1 l where g1: "trigonometric_setup t cm own_id g = Inr g1"
    and l: "trig_link t cm own_id ''length'' = Inr l" and g': "g' = g1\<lparr>tr_length := Some l\<rparr>"
    using assms unfolding five_params_setup_def bind_res_Inr_iff by blast
  have "fst l \<in> mapping_sources cm" using l unfolding trig_link_def by (rule link_source) simp
  then show ?thesis using wave_setup_inputs [OF g1] by (simp add: g' wave_inputs_def)
qed

lemma shift_setup_inputs:
  assumes "shift_setup k t cm own_id g = Inr g'" and "mapped_kind k"
  shows "sources (shift_inputs g') \<subseteq> mapping_sources cm"
  using assms(1) by (auto simp: shift_setup_def shift_inputs_def bind_res_Inr_iff dest!: link_pair [OF _ assms(2)] link_pairs)

lemmas setup_defs = math_single_setup_def math_dual_setup_def dual_byte_setup_def to_bool_setup_def combine_setup_def
  map_8bit_setup_def multiply_add_setup_def float_to_8bit_setup_def float_to_16bit_setup_def round_number_setup_def
  float_to_X_setup_def to_float_setup_def floats_to_pixel_setup_def pixel_to_rgbw_setup_def pixel_input_def

lemma event_counter_setup_inputs: "event_counter_setup configuration cm own_id g = Inr g' \<Longrightarrow> sources [ec_time g'] \<subseteq> mapping_sources cm"
  by (cases "map_of (float_channels cm) ''time''")
    (auto simp: event_counter_setup_def config_error_def bind_res_Inr_iff dest!: link_pairs split: option.splits)

lemma map_range_object: "map_range_setup d t ip cm own_id g = Inr g' \<Longrightarrow> sources [mr_input g'] \<subseteq> mapping_sources cm"
  using map_range_setup_inputs by (fastforce simp: sources_def)

lemma over_inputs:
  assumes "over c r = Inr f'" and "\<And>g'. r = Inr g' \<Longrightarrow> sources (input_pointers (c g')) \<subseteq> S"
  shows "object_inputs f' \<subseteq> S"
  using assms by (auto simp: over_Inr_iff object_inputs_def)

text \<open>Every pointer a set-up stores comes from the mapping it was given.\<close>

lemmas setup_inputs =
  sum_setup_inputs [OF _ mapped_kinds(1)] sum_setup_inputs [OF _ mapped_kinds(2)] sum_setup_inputs [OF _ mapped_kinds(3)]
  switch_setup_inputs [OF _ mapped_kinds(1)] switch_setup_inputs [OF _ mapped_kinds(2)]
  switch_setup_inputs [OF _ mapped_kinds(3)] switch_setup_inputs [OF _ mapped_kinds(4)]
  shift_setup_inputs [OF _ mapped_kinds(1)] shift_setup_inputs [OF _ mapped_kinds(2)]
  shift_setup_inputs [OF _ mapped_kinds(3)] shift_setup_inputs [OF _ mapped_kinds(4)]
  wave_setup_inputs square_setup_inputs universe_output_setup_inputs event_counter_setup_inputs map_range_object

lemma object_setup_inputs:
  assumes "object_setup lib st ms configuration initial_parameters cm own_id f = Inr f'"
  shows "object_inputs f' \<subseteq> object_inputs f \<union> mapping_sources cm"
  using assms
  by (cases f; simp add: object_setup_def)
    ((erule over_inputs, drule setup_inputs, simp add: object_inputs_def input_pointers_def, blast?)
       | (auto simp: over_Inr_iff object_inputs_def input_pointers_def bind_res_Inr_iff setup_defs config_error_def
           dest!: link_pairs split: option.splits) [])+

lemma sources_resize: "sources (resize ps n None) \<subseteq> sources ps"
  by (auto simp: sources_def resize_def source_def dest: in_set_takeD)

lemma shift_pre_setup_inputs: "shift_pre_setup k t configuration own_id g = Inr g' \<Longrightarrow> shift_inputs g' = shift_inputs g"
  by (auto simp: shift_pre_setup_def shift_inputs_def bind_res_Inr_iff)

lemma switch_pre_setup_inputs:
  assumes "switch_pre_setup t configuration own_id g = Inr g'"
  shows "sources (sw_select g' # sw_inputs g') \<subseteq> sources (sw_select g # sw_inputs g)"
proof -
  obtain n where n: "g' = g\<lparr>sw_inputs := resize (sw_inputs g) n None\<rparr>"
    using assms unfolding switch_pre_setup_def bind_res_Inr_iff by blast
  have "sources (p # ps) = source p \<union> sources ps" for p ps by (simp add: sources_def)
  then show ?thesis using sources_resize [of "sw_inputs g" n] by (simp add: n) blast
qed

lemma object_pre_setup_inputs:
  assumes "object_pre_setup lib configuration initial_parameters own_id f = Inr f'"
  shows "object_inputs f' \<subseteq> object_inputs f"
  using assms
  by (cases f; simp add: object_pre_setup_def)
    ((erule over_inputs, drule shift_pre_setup_inputs, simp add: object_inputs_def input_pointers_def)
     | (erule over_inputs, drule switch_pre_setup_inputs, simp add: object_inputs_def input_pointers_def))+

lemma construct_object_inputs: "object_inputs (construct_object lib cls) = {}"
proof -
  have "list_all (\<lambda>(c, f). sources (input_pointers f) = {}) (class_objects lib)"
    by (simp add: class_objects_def input_pointers_def new_sum_def new_map_range_def new_trigonometric_def wave_inputs_def
        shift_inputs_def new_shift_def new_switch_def new_event_counter_def)
  then show ?thesis
    by (auto simp: construct_object_def object_inputs_def list_all_iff input_pointers_def dest!: map_of_SomeD split: option.split)
qed

lemma publish_le:
  "mapped_kind k \<Longrightarrow> mapping_sources cm \<subseteq> insert i S \<Longrightarrow> mapping_sources (ck_publish k n (i, j) cm) \<subseteq> insert i S"
  using publish_sources [of k n i j cm] by blast

lemma publish_all_le:
  assumes "mapped_kind k"
  shows "mapping_sources cm \<subseteq> insert i S \<Longrightarrow> mapping_sources (fold (\<lambda>j. ck_publish k (nm j) (i, j)) js cm) \<subseteq> insert i S"
proof (induction js arbitrary: cm)
  case (Cons j js)
  then show ?case using publish_le [OF assms Cons.prems] by simp
qed simp

lemmas output_defs = constant_outputs_def value_output_def dual_byte_outputs_def pixel_to_rgbw_outputs_def pixel_to_rgb_outputs_def
  shift_outputs_def switch_outputs_def event_counter_outputs_def

lemma object_outputs_sources: "mapping_sources (object_outputs lib i f name cm) \<subseteq> insert i (mapping_sources cm)"
  by (cases f; simp only: object_outputs_def scene_filter.case output_defs; (intro publish_le publish_all_le mapped_kinds)?; blast)

lemma object_inputs_unchanged: "object_update lib w m f = Inr (f', w') \<Longrightarrow> object_inputs f' = object_inputs f"
  using object_update_inputs [of lib w m f f' w'] by (simp add: object_inputs_def)

interpretation fish: dataflow "object_update lib" scene_memory object_inputs for lib
  by unfold_locales (simp_all add: object_update_agree memory_agree object_inputs_unchanged)

subsection \<open>Filters are linked to filters before them\<close>

lemma link_channel_sources:
  assumes "link_channel g fi l cm = Inr cm'"
  shows "mapping_sources cm' \<subseteq> mapping_sources cm \<union> mapping_sources g"
proof -
  obtain out inp where l: "l = (out, inp)" by (cases l)
  have put: "fst ` snd ` set (case map_of m out of None \<Rightarrow> into | Some a \<Rightarrow> om_update inp a into) \<subseteq> fst ` snd ` set into \<union> fst ` snd ` set m"
    for m into :: "(string, addr) omap"
  proof (cases "map_of m out")
    case (Some a)
    have "fst a \<in> fst ` snd ` set m" using map_of_SomeD [OF Some] by force
    then have "insert (fst a) (fst ` snd ` set into) \<subseteq> fst ` snd ` set into \<union> fst ` snd ` set m" by simp
    with mapped_publish [of inp a into] show ?thesis unfolding Some option.case by (rule order_trans)
  qed simp
  have m': "cm' = cm\<lparr>
      eight_bit_channels := (case map_of (eight_bit_channels g) out of None \<Rightarrow> eight_bit_channels cm | Some a \<Rightarrow> om_update inp a (eight_bit_channels cm)),
      sixteen_bit_channels := (case map_of (sixteen_bit_channels g) out of None \<Rightarrow> sixteen_bit_channels cm | Some a \<Rightarrow> om_update inp a (sixteen_bit_channels cm)),
      float_channels := (case map_of (float_channels g) out of None \<Rightarrow> float_channels cm | Some a \<Rightarrow> om_update inp a (float_channels cm)),
      color_channels := (case map_of (color_channels g) out of None \<Rightarrow> color_channels cm | Some a \<Rightarrow> om_update inp a (color_channels cm))\<rparr>"
    using assms unfolding link_channel_def l Let_def by (auto split: if_splits)
  show ?thesis
  proof (rule mapping_sources_least)
    have "eight_bit_channels cm' = (case map_of (eight_bit_channels g) out of None \<Rightarrow> eight_bit_channels cm | Some a \<Rightarrow> om_update inp a (eight_bit_channels cm))"
      by (simp add: m')
    then show "fst ` snd ` set (eight_bit_channels cm') \<subseteq> mapping_sources cm \<union> mapping_sources g"
      by (simp only:) (rule order_trans [OF put Un_mono [OF mapping_sources_upper(1) mapping_sources_upper(1)]])
    have "sixteen_bit_channels cm' = (case map_of (sixteen_bit_channels g) out of None \<Rightarrow> sixteen_bit_channels cm | Some a \<Rightarrow> om_update inp a (sixteen_bit_channels cm))"
      by (simp add: m')
    then show "fst ` snd ` set (sixteen_bit_channels cm') \<subseteq> mapping_sources cm \<union> mapping_sources g"
      by (simp only:) (rule order_trans [OF put Un_mono [OF mapping_sources_upper(2) mapping_sources_upper(2)]])
    have "float_channels cm' = (case map_of (float_channels g) out of None \<Rightarrow> float_channels cm | Some a \<Rightarrow> om_update inp a (float_channels cm))"
      by (simp add: m')
    then show "fst ` snd ` set (float_channels cm') \<subseteq> mapping_sources cm \<union> mapping_sources g"
      by (simp only:) (rule order_trans [OF put Un_mono [OF mapping_sources_upper(3) mapping_sources_upper(3)]])
    have "color_channels cm' = (case map_of (color_channels g) out of None \<Rightarrow> color_channels cm | Some a \<Rightarrow> om_update inp a (color_channels cm))"
      by (simp add: m')
    then show "fst ` snd ` set (color_channels cm') \<subseteq> mapping_sources cm \<union> mapping_sources g"
      by (simp only:) (rule order_trans [OF put Un_mono [OF mapping_sources_upper(4) mapping_sources_upper(4)]])
  qed
qed

lemma input_mapping_sources:
  assumes "construct_channel_input_mapping g fi = Inr cm"
  shows "mapping_sources cm \<subseteq> mapping_sources g"
proof (rule fold_res_invariant [OF assms [unfolded construct_channel_input_mapping_def]])
  show "mapping_sources empty_mapping \<subseteq> mapping_sources g" by (simp add: mapping_sources_def empty_mapping_def)
qed (use link_channel_sources in blast)

definition connected :: "nat \<Rightarrow> scene_filter list \<times> addr channel_mapping \<Rightarrow> bool" where
  "connected m s \<longleftrightarrow> mapping_sources (snd s) \<subseteq> {..<m}
     \<and> (\<forall>i < length (fst s). object_inputs (fst s ! i) \<subseteq> (if i < m then {..i} else {}))"

lemma connect_filter_connected:
  assumes "connect_filter (fish_methods lib ms st) infos m s = Inr s'" and "connected m s"
  shows "connected (Suc m) s' \<and> length (fst s') = length (fst s)"
proof -
  obtain fs cm where s: "s = (fs, cm)" by (cases s)
  obtain fi where fi: "fi = (case map_of infos m of Some fi \<Rightarrow> fi
            | None \<Rightarrow> \<lparr>fi_name = [], fi_configuration = [], fi_initial_parameters = [], fi_channel_mapping = []\<rparr>)" by simp
  let ?cm = "object_outputs lib m (fs ! m) (fi_name fi) cm"
  obtain ic f' where ic: "construct_channel_input_mapping ?cm fi = Inr ic"
    and f': "object_setup lib st ms (fi_configuration fi) (fi_initial_parameters fi) ic (fi_name fi) (fs ! m) = Inr f'"
    and s': "s' = (fs[m := f'], ?cm)"
    using assms(1) by (auto simp: connect_filter_def s fish_methods_def Let_def bind_res_Inr_iff simp flip: fi)
  have cm: "mapping_sources ?cm \<subseteq> {..<Suc m}"
    using object_outputs_sources [of lib m "fs ! m" "fi_name fi" cm] assms(2) by (auto simp: connected_def s)
  have "object_inputs f' \<subseteq> {..m}" if "m < length fs"
  proof -
    have "object_inputs (fs ! m) \<subseteq> (if m < m then {..m} else {})" using assms(2) that unfolding connected_def s fst_conv by blast
    then have "object_inputs (fs ! m) = {}" by simp
    then have "object_inputs f' \<subseteq> mapping_sources ic" using object_setup_inputs [OF f'] by simp
    then have "object_inputs f' \<subseteq> {..<Suc m}" using input_mapping_sources [OF ic] cm by blast
    then show ?thesis by (simp only: lessThan_Suc_atMost)
  qed
  then have "object_inputs (fs[m := f'] ! i) \<subseteq> (if i < Suc m then {..i} else {})" if "i < length fs" for i
    using assms(2) that by (cases "i = m") (auto simp: connected_def s split: if_splits)
  then show ?thesis using cm by (simp add: connected_def s' s)
qed

lemma connect_filters_connected:
  "fold_res (connect_filter (fish_methods lib ms st) infos) [m..<n] s = Inr s' \<Longrightarrow> m \<le> n \<Longrightarrow> connected m s \<Longrightarrow>
   connected n s' \<and> length (fst s') = length (fst s)"
proof (induction "n - m" arbitrary: m s)
  case (Suc k)
  then have up: "[m..<n] = m # [Suc m..<n]" by (simp add: upt_conv_Cons)
  obtain s1 where s1: "connect_filter (fish_methods lib ms st) infos m s = Inr s1"
    and r: "fold_res (connect_filter (fish_methods lib ms st) infos) [Suc m..<n] s1 = Inr s'"
    using Suc.prems(1) by (auto simp: up bind_res_Inr_iff)
  show ?case using Suc.hyps(1) [OF _ r] Suc.hyps(2) connect_filter_connected [OF s1 Suc.prems(3)] by simp
qed simp

lemma make_object_inputs: "make_filter (fish_methods lib ms st) t = Inr f \<Longrightarrow> object_inputs f = {}"
  using construct_object_inputs object_pre_setup_inputs
  by (fastforce simp: make_filter_def construct_filter_def fish_methods_def bind_res_Inr_iff split: option.splits)

lemma load_scene_in_order:
  assumes "load_scene size_of (fish_methods lib ms st) t = Inr sc"
  shows "fish.in_order (sc_filters sc)"
proof -
  let ?M = "fish_methods lib ms st"
  obtain s where s: "schedule_filters ?M (st_filters t) = Inr s"
    and c: "connect_filters ?M (filter_info_map s) (fv s) = Inr (sc_filters sc)"
    using assms unfolding load_scene_def compute_filter_def bind_res_Inr_iff by (auto simp: bind_res_Inr_iff)
  obtain p where p: "map (make_filter ?M) p = map Inr (fv s)" using schedule_filters_sound [OF s] by blast
  have "object_inputs f = {}" if "f \<in> set (fv s)" for f
  proof -
    have "Inr f \<in> set (map (make_filter ?M) p)" using that by (simp add: p)
    then obtain x where "make_filter ?M x = Inr f" by auto
    then show ?thesis by (rule make_object_inputs)
  qed
  then have "connected 0 (fv s, empty_mapping)"
    by (simp add: connected_def mapping_sources_def empty_mapping_def)
  moreover obtain s' where "fold_res (connect_filter ?M (filter_info_map s)) [0..<length (fv s)] (fv s, empty_mapping) = Inr s'"
    "sc_filters sc = fst s'"
    using c by (auto simp: connect_filters_def bind_res_Inr_iff)
  ultimately have "connected (length (fv s)) s' \<and> length (fst s') = length (fv s)" using connect_filters_connected by fastforce
  then have o: "\<And>i. i < length (fst s') \<Longrightarrow> object_inputs (fst s' ! i) \<subseteq> (if i < length (fv s) then {..i} else {})"
    and l: "length (fst s') = length (fv s)" unfolding connected_def by blast+
  have "object_inputs (fst s' ! i) \<subseteq> {..i}" if "i < length (fst s')" for i
    using o [OF that] that l by (simp only: if_True)
  then show ?thesis unfolding fish.in_order_def \<open>sc_filters sc = fst s'\<close> by blast
qed

subsection \<open>What a cycle computes\<close>

inductive scene_reachable ::
  "c_library \<Rightarrow> (scene_filter, ('a, 'z) filter_world_scheme) virtual_methods \<Rightarrow> scene_filter scene \<Rightarrow> bool" for lib VM where
  scr_load: "load_scene size_of (fish_methods lib ms (st :: 'a io_state)) t = Inr sc \<Longrightarrow> scene_reachable lib VM sc"
| scr_cycle: "scene_reachable lib VM sc \<Longrightarrow> invoke_filters VM (sc, w) = (r, sc', w') \<Longrightarrow> scene_reachable lib VM sc'"
| scr_start: "scene_reachable lib VM sc \<Longrightarrow> on_start VM (sc, w) = (r, sc', w') \<Longrightarrow> scene_reachable lib VM sc'"
| scr_stop: "scene_reachable lib VM sc \<Longrightarrow> on_stop VM (sc, w) = (r, sc', w') \<Longrightarrow> scene_reachable lib VM sc'"
| scr_parameter: "scene_reachable lib VM sc \<Longrightarrow> scene_update_filter_parameter VM fid key val (sc, w) = (b, sc', w') \<Longrightarrow>
    scene_reachable lib VM sc'"

lemma vm_update_fish: "vm_update (fish_virtual lib) = fish.update_at lib"
  by (auto simp: fun_eq_iff fish_virtual_def fish.update_at_def split: sum.split prod.split)

lemma same_inputs_in_order:
  "fish.in_order fs \<Longrightarrow> object_inputs f = object_inputs (fs ! i) \<Longrightarrow> fish.in_order (fs[i := f])"
  by (cases "i < length fs") (auto simp: fish.in_order_def nth_list_update list_update_beyond split: if_splits)

lemma object_activated_inputs: "object_activated w f = (f', w') \<Longrightarrow> object_inputs f' = object_inputs f"
  by (cases f) (auto simp: object_activated_def object_inputs_def input_pointers_def event_counter_activated_def)

lemma map_range_receive_input: "mr_input (snd (map_range_receive key val g)) = mr_input g"
  by (simp add: map_range_receive_def set_bound_def split: sum.split)

lemma object_receive_inputs: "object_receive lib key val f = Inr (b, f') \<Longrightarrow> object_inputs f' = object_inputs f"
  by (cases f) (auto simp: object_receive_def no_parameters_def over_pair_def object_inputs_def input_pointers_def bind_res_Inr_iff
      map_range_receive_input)

lemma on_filters_order:
  assumes "on_filters m (sc, w) = (r, sc', w')" and "\<And>w. fish.in_order (fst (snd (m (sc_filters sc, w))))"
  shows "fish.in_order (sc_filters sc')"
  using assms(1) assms(2) [of w] by (auto simp: on_filters_def split: prod.splits)

lemma scene_reachable_in_order:
  "scene_reachable lib VM sc \<Longrightarrow> VM = fish_virtual lib \<Longrightarrow> fish.in_order (sc_filters sc)"
proof (induction rule: scene_reachable.induct)
  case (scr_load size_of ms st t sc)
  from scr_load.hyps show ?case by (rule load_scene_in_order)
next
  case (scr_cycle sc w r sc' w')
  have "fish.in_order (sc_filters sc)" by (rule scr_cycle.IH [OF scr_cycle.prems])
  then show ?case using scr_cycle.hyps(2) fish.pass_order [of "sc_filters sc" lib]
    by (auto simp: invoke_filters_def vm_update_fish scr_cycle.prems elim!: on_filters_order)
next
  case (scr_start sc w r sc' w')
  have ord: "fish.in_order (sc_filters sc)" by (rule scr_start.IH [OF scr_start.prems])
  let ?m = "for_act (\<lambda>i. catch_act (vm_scene_activated VM i) (\<lambda>_. ret_act ())) [0..<length (sc_filters sc)]"
  have "fish.in_order (fst (snd (?m (sc_filters sc, w))))" for w
    by (rule for_act_keeps [where P = "\<lambda>s. fish.in_order (fst s)"])
      (use ord in \<open>auto simp: catch_act_def scr_start.prems fish_virtual_def intro!: same_inputs_in_order dest: object_activated_inputs
        split: prod.splits sum.splits\<close>)
  then show ?case using scr_start.hyps(2) ord by (auto simp: on_start_def elim!: on_filters_order split: sum.splits)
next
  case (scr_stop sc w r sc' w')
  have ord: "fish.in_order (sc_filters sc)" by (rule scr_stop.IH [OF scr_stop.prems])
  have "fish.in_order (fst (snd (for_act (vm_scene_deactivated VM) js (sc_filters sc, w))))" for js w
    by (rule for_act_keeps [where P = "\<lambda>s. fish.in_order (fst s)"]) (simp_all add: ord scr_stop.prems fish_virtual_def)
  then show ?case using scr_stop.hyps(2) by (auto simp: on_stop_def elim!: on_filters_order)
next
  case (scr_parameter sc fid key val w b sc' w')
  have ord: "fish.in_order (sc_filters sc)" by (rule scr_parameter.IH [OF scr_parameter.prems])
  have "fish.in_order (fst (snd (vm_receive VM i key val (sc_filters sc, w))))" for i w
    using ord by (auto simp: scr_parameter.prems fish_virtual_def intro!: same_inputs_in_order dest: object_receive_inputs
        split: sum.splits prod.splits)
  then show ?case using scr_parameter.hyps(2) ord
    by (auto simp: scene_update_filter_parameter_def elim!: on_filters_order split: option.splits)
qed

text \<open>
  C4. A scene is a synchronous data flow program. In every reachable state of a scene of modelled
  filters, a cycle that completes leaves every filter in the state its update computes from the
  values all other filters have at the end of the same cycle, and from its own previous value:
  no filter reads a value of the cycle before, because every filter is linked to filters in
  front of it only. The clock readings, universe writes and events are threaded through the
  filters in their order.
\<close>

theorem cycle_is_synchronous:
  assumes "scene_reachable lib (fish_virtual lib) sc" and "invoke_filters (fish_virtual lib) (sc, w) = (Inr (), sc', w')"
  shows "length (sc_filters sc') = length (sc_filters sc)
    \<and> (\<forall>i < length (sc_filters sc). object_inputs (sc_filters sc ! i) \<subseteq> {..i})
    \<and> (\<exists>ws. ws 0 = w \<and> ws (length (sc_filters sc)) = w'
        \<and> (\<forall>i < length (sc_filters sc).
             object_update lib (ws i) (scene_memory ((sc_filters sc')[i := sc_filters sc ! i])) (sc_filters sc ! i)
               = Inr (sc_filters sc' ! i, ws (Suc i))))"
proof -
  have ord: "fish.in_order (sc_filters sc)" using scene_reachable_in_order [OF assms(1) refl] .
  have "for_act (fish.update_at lib) [0..<length (sc_filters sc)] (sc_filters sc, w) = (Inr (), sc_filters sc', w')"
    using assms(2) by (auto simp: invoke_filters_def on_filters_def vm_update_fish split: prod.splits)
  from fish.pass [OF this ord] show ?thesis using ord by (simp add: fish.in_order_def)
qed

subsection \<open>Witness\<close>

definition demo_library :: c_library where
  "demo_library = \<lparr>c_libm = demo_libm, c_sin = id, c_tan = id, c_uninitialised = Num 0, c_uninitialised8 = 0, c_uninitialised16 = 0\<rparr>"
definition demo_world :: "string filter_world" where
  "demo_world = \<lparr>w_io = empty_io, w_events = new_event_storage, w_clock = (\<lambda>_. 0), w_readings = 0\<rparr>"
definition widening_scene :: scene_template where
  "widening_scene = \<lparr>st_id = Some 1, st_human_readable_name = ''demo'',
     st_filters = [
       \<lparr>ft_id = ''wide'', ft_type = 58, ft_channellink = [(''level:value'', ''value_in'')], ft_configuration = [], ft_initial_parameters = []\<rparr>,
       \<lparr>ft_id = ''level'', ft_type = 0, ft_channellink = [], ft_configuration = [], ft_initial_parameters = [(''value'', ''7'')]\<rparr>],
     st_dmxdefaultvalue = []\<rparr>"

abbreviation demo_object_methods :: "(scene_filter, addr) filter_methods" where
  "demo_object_methods \<equiv> fish_methods demo_library (\<lambda>_. 0) (empty_io :: string io_state)"

lemma demo_constructs:
  "construct_filter demo_object_methods 58 = Inr (Map_8bit \<lparr>mp_output = 0, mp_input = None\<rparr>)"
  "construct_filter demo_object_methods 0 = Inr (Constant8 (new_constant kind8))"
  by (simp_all add: construct_filter_def filter_type_tables fish_methods_def construct_object_def class_objects_def)

lemma demo_pre_setup:
  "fm_pre_setup demo_object_methods c ip own_id (Constant8 g) = Inr (Constant8 g)"
  "fm_pre_setup demo_object_methods c ip own_id (Map_8bit h) = Inr (Map_8bit h)"
  by (simp_all add: fish_methods_def object_pre_setup_def)

lemma demo_required: "required_filter ''level:value'' = ''level''"
  by code_simp

lemma demo_schedule:
  "schedule_filters demo_object_methods (st_filters widening_scene) = Inr
    \<lparr>fv = [Constant8 (new_constant kind8), Map_8bit \<lparr>mp_output = 0, mp_input = None\<rparr>], boundaries = [1, 2],
     filter_info_map = [
       (0, \<lparr>fi_name = ''level'', fi_configuration = [], fi_initial_parameters = [(''value'', ''7'')], fi_channel_mapping = []\<rparr>),
       (1, \<lparr>fi_name = ''wide'', fi_configuration = [], fi_initial_parameters = [], fi_channel_mapping = [(''level:value'', ''value_in'')]\<rparr>)],
     scene_filter_index = [(''level'', 0), (''wide'', 1)], resolved_filters = [(''level'', ()), (''wide'', ())]\<rparr>"
  by (simp add: schedule_filters_def widening_scene_def schedule_loop.simps nothing_scheduled_def all_deps_clear_def demo_required
      place_filter_def Let_def demo_constructs demo_pre_setup convert_configuration_def)

lemma demo_value: "stol ''7'' = Inr 7"
  by code_simp

lemma demo_connect:
  "connect_filters demo_object_methods
     [(0, \<lparr>fi_name = ''level'', fi_configuration = [], fi_initial_parameters = [(''value'', ''7'')], fi_channel_mapping = []\<rparr>),
      (1, \<lparr>fi_name = ''wide'', fi_configuration = [], fi_initial_parameters = [], fi_channel_mapping = [(''level:value'', ''value_in'')]\<rparr>)]
     [Constant8 (new_constant kind8), Map_8bit \<lparr>mp_output = 0, mp_input = None\<rparr>]
   = Inr [Constant8 \<lparr>fc_value = 7\<rparr>, Map_8bit \<lparr>mp_output = 0, mp_input = Some (0, 0)\<rparr>]"
  by (simp add: connect_filters_def upt_rec connect_filter_def Let_def fish_methods_def object_outputs_def constant_outputs_def
      value_output_def construct_channel_input_mapping_def object_setup_def over_def constant_setup_def constant_receive_def
      kind8_def kind16_def parse_clamped_def demo_value new_constant_def link_channel_def map_8bit_setup_def link_input_def empty_mapping_def)

lemma demo_loads:
  "load_scene (\<lambda>_. 8) demo_object_methods widening_scene = Inr \<lparr>
     sc_filters = [Constant8 \<lparr>fc_value = 7\<rparr>, Map_8bit \<lparr>mp_output = 0, mp_input = Some (0, 0)\<rparr>],
     dependency_boundries = [1, 2], sc_filter_index = [(''level'', 0), (''wide'', 1)], default_dmx_values = []\<rparr>"
proof -
  have "get_filter_memory_size (\<lambda>_. 8) (st_filters widening_scene) 0 = Inr 16"
    by (simp add: widening_scene_def filter_type_tables)
  then show ?thesis using demo_connect
    by (simp add: load_scene_def compute_filter_def demo_schedule load_default_dmx_values_def) (simp add: widening_scene_def)
qed

theorem cycle_is_synchronous_witness:
  "\<exists>sc sc' w'. load_scene (\<lambda>_. 8) demo_object_methods widening_scene = Inr sc
     \<and> invoke_filters (fish_virtual demo_library) (sc, demo_world) = (Inr (), sc', w')
     \<and> sc_filters sc ! 1 = Map_8bit \<lparr>mp_output = 0, mp_input = Some (0, 0)\<rparr>
     \<and> object_update demo_library demo_world (scene_memory [Constant8 \<lparr>fc_value = 7\<rparr>, sc_filters sc ! 1]) (sc_filters sc ! 1)
         = Inr (sc_filters sc' ! 1, demo_world)"
proof -
  let ?fs = "[Constant8 \<lparr>fc_value = 7\<rparr>, Map_8bit \<lparr>mp_output = 0, mp_input = Some (0, 0)\<rparr>]"
  let ?sc = "\<lparr>sc_filters = ?fs, dependency_boundries = [1, 2], sc_filter_index = [(''level'', 0), (''wide'', 1)], default_dmx_values = []\<rparr>"
  let ?fs' = "[Constant8 \<lparr>fc_value = 7\<rparr>, Map_8bit \<lparr>mp_output = combine_bytes 7 7, mp_input = Some (0, 0)\<rparr>]"
  have r: "scene_reachable demo_library (fish_virtual demo_library :: (scene_filter, string filter_world) virtual_methods) ?sc"
    by (rule scr_load [OF demo_loads])
  have run: "invoke_filters (fish_virtual demo_library) (?sc, demo_world) = (Inr (), ?sc\<lparr>sc_filters := ?fs'\<rparr>, demo_world)"
    by (simp add: invoke_filters_def on_filters_def upt_rec fish_virtual_def object_update_def pure_update_def over_def bind_act_def
        map_8bit_update_def deref_def scene_memory_def byte_at_def kind8_def)
  from cycle_is_synchronous [OF r run] obtain ws where "ws 0 = demo_world" "ws 2 = demo_world"
    and step: "\<And>i. i < 2 \<Longrightarrow> object_update demo_library (ws i) (scene_memory (?fs'[i := ?fs ! i])) (?fs ! i) = Inr (?fs' ! i, ws (Suc i))"
    by (auto simp: numeral_2_eq_2)
  have "ws 1 = demo_world" using step [of 0] \<open>ws 0 = demo_world\<close> by (simp add: object_update_def pure_update_def)
  with step [of 1] \<open>ws 2 = demo_world\<close>
  have "object_update demo_library demo_world (scene_memory [Constant8 \<lparr>fc_value = 7\<rparr>, ?fs ! 1]) (?fs ! 1) = Inr (?fs' ! 1, demo_world)"
    by (simp add: numeral_2_eq_2)
  with run demo_loads show ?thesis by fastforce
qed

end
