(* ===== verification/Midi.thy ===== *)
theory Midi
  imports Client_Handler
begin

text \<open>
  The MIDI side of the control desk: \<^verbatim>\<open>src/src/control_desk/command.hpp\<close> (commands and their
  bytes), \<^verbatim>\<open>device_handle.hpp\<close> and \<^verbatim>\<open>.cpp\<close> (a device with its queues) and \<^verbatim>\<open>xtouch_driver\<close>
  (the lights, faders and displays of an X-Touch). The byte queue of the network library is a
  parameter, as in the connection to the user interface. The operating system is the input of
  the handler: the bytes a read delivers and the answers to the writes, in order.
\<close>

unbundle bit_operations_syntax

subsection \<open>Commands\<close>

definition MIDI_INVALID :: u8 where "MIDI_INVALID = 0x00"
definition NOTE_OFF :: u8 where "NOTE_OFF = 0x80"
definition NOTE_ON :: u8 where "NOTE_ON = 0x90"
definition CONTROL_CHANGE :: u8 where "CONTROL_CHANGE = 0xB0"
definition SYS_EX :: u8 where "SYS_EX = 0xF0"

record midi_command =
  mc_status :: u8
  mc_channel :: u8
  data_1 :: u8
  data_2 :: u8

definition empty_command :: midi_command where
  "empty_command = \<lparr>mc_status = MIDI_INVALID, mc_channel = 0, data_1 = 0, data_2 = 0\<rparr>"

definition midi_command_of_bytes :: "u8 \<Rightarrow> u8 \<Rightarrow> u8 \<Rightarrow> midi_command" where
  "midi_command_of_bytes status_byte data_byte_1 data_byte_2 =
     \<lparr>mc_status = status_byte AND 0xF0, mc_channel = status_byte AND 0x0F, data_1 = data_byte_1, data_2 = data_byte_2\<rparr>"

definition encode_command :: "midi_command \<Rightarrow> u8 list \<Rightarrow> u8 list" where
  "encode_command c dv = dv @ [mc_status c OR (0x0F AND mc_channel c), data_1 c AND 0x7F, data_2 c AND 0x7F]"

datatype midi_device_id = X_TOUCH | X_TOUCH_EXTENSION

definition device_id_byte :: "midi_device_id \<Rightarrow> u8" where
  "device_id_byte i = (case i of X_TOUCH \<Rightarrow> 0x14 | X_TOUCH_EXTENSION \<Rightarrow> 0x15)"

record sysex_command =
  sysex_data :: "u8 list"
  vendor :: "u8 \<times> u8 \<times> u8"

definition encode_sysex :: "sysex_command \<Rightarrow> midi_device_id \<Rightarrow> u8 list \<Rightarrow> u8 list" where
  "encode_sysex c devid dv = (case vendor c of (v0, v1, v2) \<Rightarrow>
     dv @ [0xF0, v0] @ (if v0 = 0 then [v1, v2] else []) @ [device_id_byte devid]
        @ map (\<lambda>d. d AND 0x7F) (sysex_data c) @ [0xF7])"

subsection \<open>The device\<close>

text \<open>
  \<open>rmrf::net::ioqueue\<close> and \<open>iorecord\<close>: what the connection uses, and in addition building a
  record from bytes and putting a record back to the front.
\<close>

record ('q, 'r) midi_net =
  mn_ops :: "('q, 'r) net_ops"
  q_push_front :: "'q \<Rightarrow> 'r \<Rightarrow> 'q"
  r_make :: "u8 list \<Rightarrow> 'r"

record 'q device_handle =
  event_queue :: 'q
  sysex_queue :: 'q
  incomming_queue :: "midi_command list"
  event_construction :: "u8 list"
  sysex_construction :: "u8 list"
  in_construction :: "u8 list"
  device_id :: midi_device_id
  in_error_state :: bool

text \<open>
  The two vectors under construction are initialised with braces, so they hold the one byte 63
  and the one byte 64, not that many bytes. \<open>opened\<close> says that the device file could be opened.
\<close>

definition new_device :: "('q, 'r) midi_net \<Rightarrow> bool \<Rightarrow> midi_device_id \<Rightarrow> 'q device_handle result" where
  "new_device N opened i =
     (if opened
      then Inr \<lparr>event_queue = q_new (mn_ops N), sysex_queue = q_new (mn_ops N), incomming_queue = [],
                event_construction = [63], sysex_construction = [64], in_construction = [],
                device_id = i, in_error_state = False\<rparr>
      else Inl (Netio_exception ''Failed to connect to MIDI driver.''))"

definition send_command :: "midi_command \<Rightarrow> 'q device_handle \<Rightarrow> 'q device_handle" where
  "send_command c d = d\<lparr>event_construction := encode_command c (event_construction d)\<rparr>"

definition send_sysex_command :: "sysex_command \<Rightarrow> 'q device_handle \<Rightarrow> 'q device_handle" where
  "send_sysex_command c d = d\<lparr>sysex_construction := encode_sysex c (device_id d) (sysex_construction d)\<rparr>"

definition get_next_command_from_desk :: "'q device_handle \<Rightarrow> midi_command option \<times> 'q device_handle" where
  "get_next_command_from_desk d = (case incomming_queue d of
      [] \<Rightarrow> (None, d) | c # cs \<Rightarrow> (Some c, d\<lparr>incomming_queue := cs\<rparr>))"

definition number_of_supported_columns :: nat where
  "number_of_supported_columns = 8"

definition schedule_transmission :: "('q, 'r) midi_net \<Rightarrow> 'q device_handle \<Rightarrow> 'q device_handle" where
  "schedule_transmission N d =
     (if in_error_state d then d\<lparr>event_construction := [], sysex_construction := []\<rparr>
      else let d1 = (if event_construction d \<noteq> []
                     then d\<lparr>event_queue := q_push_back (mn_ops N) (event_queue d) (r_make N (event_construction d)),
                            event_construction := []\<rparr>
                     else d)
           in if sysex_construction d1 \<noteq> []
              then d1\<lparr>sysex_queue := q_push_back (mn_ops N) (sysex_queue d1) (r_make N (sysex_construction d1)),
                      sysex_construction := []\<rparr>
              else d1)"

text \<open>\<open>set_io_flags\<close>: whether the loop waits for input and for room to write.\<close>

definition set_io_flags :: "('q, 'r) midi_net \<Rightarrow> 'q device_handle \<Rightarrow> bool \<times> bool" where
  "set_io_flags N d =
     (if in_error_state d then (False, False)
      else (True, \<not> q_empty (mn_ops N) (event_queue d) \<or> \<not> q_empty (mn_ops N) (sysex_queue d)))"

subsection \<open>Input\<close>

text \<open>Dropping bytes up to the next status byte reads from the empty queue when there is none.\<close>

fun skip_data :: "u8 list \<Rightarrow> (u8 \<times> u8 list) result" where
  "skip_data [] = Inl Undefined_behaviour"
| "skip_data (b # bs) = (if b AND 0x80 = 0 then skip_data bs else Inr (b, bs))"

definition decode_incomming_event :: "'q device_handle \<Rightarrow> (bool \<times> 'q device_handle) result" where
  "decode_incomming_event d =
     bind_res (skip_data (in_construction d)) (\<lambda>(initial_byte, rest).
       case rest of
         d1 # d2 # rest' \<Rightarrow>
           if initial_byte AND 0xF0 = SYS_EX then Inr (True, d\<lparr>in_construction := rest\<rparr>)
           else Inr (True, d\<lparr>in_construction := rest',
                  incomming_queue := incomming_queue d @
                    [\<lparr>mc_status = initial_byte AND 0xF0, mc_channel = initial_byte AND 0x0F, data_1 = d1, data_2 = d2\<rparr>]\<rparr>)
       | _ \<Rightarrow> Inr (False, d\<lparr>in_construction := initial_byte # rest\<rparr>))"

lemma skip_data_shorter: "skip_data bs = Inr (b, rest) \<Longrightarrow> length rest < length bs"
  by (induction bs) (auto split: if_splits intro: less_SucI)

lemma decode_shorter:
  "decode_incomming_event d = Inr (True, d') \<Longrightarrow> length (in_construction d') < length (in_construction d)"
proof -
  assume d: "decode_incomming_event d = Inr (True, d')"
  then obtain b rest where b: "skip_data (in_construction d) = Inr (b, rest)"
    by (auto simp: decode_incomming_event_def bind_res_Inr_iff)
  from skip_data_shorter [OF this] d show ?thesis
    by (simp add: decode_incomming_event_def b split: list.split_asm if_split_asm) auto
qed

function decode_all :: "'q device_handle \<Rightarrow> 'q device_handle result" where
  "decode_all d =
     (if in_construction d = [] then Inr d
      else case decode_incomming_event d of
          Inl e \<Rightarrow> Inl e
        | Inr (True, d') \<Rightarrow> decode_all d'
        | Inr (False, d') \<Rightarrow> Inr d')"
  by pat_completeness auto
termination
  by (relation "measure (\<lambda>d. length (in_construction d))") (auto intro: decode_shorter)

declare decode_all.simps [simp del]

definition receive_bytes :: "u8 list \<Rightarrow> 'q device_handle \<Rightarrow> 'q device_handle result" where
  "receive_bytes data d = decode_all (d\<lparr>in_construction := in_construction d @ data\<rparr>)"

subsection \<open>Output\<close>

datatype write_answer = Written nat | Would_block | Write_failed

text \<open>
  Writing a queue until it is empty or the driver has no room: whether there is still room, the
  answers that are left, the queue and the bytes that were written. None: more answers needed.
  A write takes at most the bytes it is given.
  A record whose write fails is not put back.
\<close>

fun write_queue ::
  "('q, 'r) midi_net \<Rightarrow> write_answer list \<Rightarrow> 'q \<Rightarrow> u8 list \<Rightarrow> (bool result \<times> write_answer list \<times> 'q \<times> u8 list) option" where
  "write_queue N answers q out =
     (if q_empty (mn_ops N) q then Some (Inr True, answers, q, out)
      else let (buffer, q') = q_pop_front (mn_ops N) q
           in (case answers of
                 [] \<Rightarrow> None
               | Written n # answers' \<Rightarrow>
                   (let k = min n (length (r_bytes (mn_ops N) buffer))
                    in write_queue N answers' (q_push_front N q' (r_advance (mn_ops N) buffer k))
                         (out @ take k (r_bytes (mn_ops N) buffer)))
               | Would_block # answers' \<Rightarrow> Some (Inr False, answers', q_push_front N q' buffer, out)
               | Write_failed # answers' \<Rightarrow> Some (Inl (Netio_exception ''Could not write to MIDI driver.''), answers', q', out)))"

declare write_queue.simps [simp del]

text \<open>
  \<open>cb_io_handler\<close> with the event flags error, read and write. The result is the exception that
  leaves it, the device and the bytes written.
\<close>

definition handle_write ::
  "('q, 'r) midi_net \<Rightarrow> write_answer list \<Rightarrow> 'q device_handle \<Rightarrow> (unit result \<times> 'q device_handle \<times> u8 list) option" where
  "handle_write N answers d = (case write_queue N answers (event_queue d) [] of
      None \<Rightarrow> None
    | Some (Inl e, _, q, out) \<Rightarrow> Some (Inl e, d\<lparr>event_queue := q, in_error_state := True\<rparr>, out)
    | Some (Inr False, _, q, out) \<Rightarrow> Some (Inr (), d\<lparr>event_queue := q\<rparr>, out)
    | Some (Inr True, answers', q, out) \<Rightarrow>
        (case write_queue N answers' (sysex_queue d) out of
           None \<Rightarrow> None
         | Some (Inl e, _, q', out') \<Rightarrow> Some (Inl e, d\<lparr>event_queue := q, sysex_queue := q', in_error_state := True\<rparr>, out')
         | Some (Inr _, _, q', out') \<Rightarrow> Some (Inr (), d\<lparr>event_queue := q, sysex_queue := q'\<rparr>, out')))"

definition cb_io_handler ::
  "('q, 'r) midi_net \<Rightarrow> bool \<times> bool \<times> bool \<Rightarrow> u8 list \<Rightarrow> write_answer list \<Rightarrow> 'q device_handle \<Rightarrow>
   (unit result \<times> 'q device_handle \<times> u8 list) option" where
  "cb_io_handler N events data answers d = (let (ev_error, ev_read, ev_write) = events in
     if in_error_state d then Some (Inr (), d, [])
     else if ev_error then Some (Inl (Netio_exception ''MIDI client error.''), d\<lparr>in_error_state := True\<rparr>, [])
     else case (if ev_read then receive_bytes data d else Inr d) of
         Inl e \<Rightarrow> Some (Inl e, d, [])
       | Inr d' \<Rightarrow> if ev_write then handle_write N answers d' else Some (Inr (), d', []))"

subsection \<open>The X-Touch\<close>

definition xtouch_set_button_led :: "u8 \<Rightarrow> u8 \<Rightarrow> 'q device_handle \<Rightarrow> 'q device_handle" where
  "xtouch_set_button_led b s d = send_command \<lparr>mc_status = NOTE_ON, mc_channel = 0, data_1 = b, data_2 = s\<rparr> d"

definition control_change :: "u8 \<Rightarrow> u8 \<Rightarrow> 'q device_handle \<Rightarrow> 'q device_handle" where
  "control_change i v d = send_command \<lparr>mc_status = CONTROL_CHANGE, mc_channel = 0, data_1 = i, data_2 = v\<rparr> d"

definition xtouch_set_fader_position :: "u8 \<Rightarrow> u8 \<Rightarrow> 'q device_handle \<Rightarrow> 'q device_handle" where
  "xtouch_set_fader_position f position d = control_change f position d"

definition xtouch_set_ring_led :: "u8 \<Rightarrow> u8 \<Rightarrow> 'q device_handle \<Rightarrow> 'q device_handle" where
  "xtouch_set_ring_led enc v d = control_change enc v d"

definition xtouch_set_meter_leds :: "u8 \<Rightarrow> u8 \<Rightarrow> 'q device_handle \<Rightarrow> 'q device_handle" where
  "xtouch_set_meter_leds l v d = control_change l v d"

definition led_off :: u8 where "led_off = 0"
definition led_flash :: u8 where "led_flash = 64"
definition led_on :: u8 where "led_on = 127"

definition BTN_CH1_ENCODER_ROTARYMODE :: u8 where "BTN_CH1_ENCODER_ROTARYMODE = 0"
definition BTN_CH1_REC_READY :: u8 where "BTN_CH1_REC_READY = 8"
definition BTN_CH1_SOLO_FLASH :: u8 where "BTN_CH1_SOLO_FLASH = 16"
definition BTN_CH1_MUTE_BLACK :: u8 where "BTN_CH1_MUTE_BLACK = 24"
definition BTN_CH1_SELECT_SELECT :: u8 where "BTN_CH1_SELECT_SELECT = 32"
definition BTN_CH8_SELECT_SELECT :: u8 where "BTN_CH8_SELECT_SELECT = 39"
definition BTN_GLOBALVIEW_COMMITRDY :: u8 where "BTN_GLOBALVIEW_COMMITRDY = 48"
definition BTN_USER_OOPS :: u8 where "BTN_USER_OOPS = 56"
definition BTN_FLIP_MAINDARK :: u8 where "BTN_FLIP_MAINDARK = 57"
definition BTN_FADERBANKPREV :: u8 where "BTN_FADERBANKPREV = 92"
definition BTN_FADERBANKNEXT :: u8 where "BTN_FADERBANKNEXT = 93"
definition BTN_LEFT_LEFT :: u8 where "BTN_LEFT_LEFT = 98"
definition FADERTOUCH_MAIN :: u8 where "FADERTOUCH_MAIN = 118"
definition FADER_CH1 :: u8 where "FADER_CH1 = 70"
definition FADER_CH8 :: u8 where "FADER_CH8 = 77"
definition FADER_MAIN :: u8 where "FADER_MAIN = 78"
definition ENC_CH1 :: u8 where "ENC_CH1 = 80"
definition BAR_CH1 :: u8 where "BAR_CH1 = 90"
definition button_pressed :: u8 where "button_pressed = 127"
definition button_released :: u8 where "button_released = 0"

text \<open>The loops over all buttons: of an X-Touch, and of an extension.\<close>

definition xtouch_buttons :: "u8 list" where
  "xtouch_buttons = map of_nat [0..<104]"

definition xtouch_extender_buttons :: "u8 list" where
  "xtouch_extender_buttons = map of_nat [0..<40]"

definition xtouch_is_column_button :: "u8 \<Rightarrow> bool" where
  "xtouch_is_column_button b \<longleftrightarrow> b \<le> BTN_CH8_SELECT_SELECT"

definition xtouch_is_fader_touch :: "u8 \<Rightarrow> bool" where
  "xtouch_is_fader_touch b \<longleftrightarrow> BTN_LEFT_LEFT < b \<and> b \<le> FADERTOUCH_MAIN"

definition xtouch_is_column_fader :: "u8 \<Rightarrow> bool" where
  "xtouch_is_column_fader c \<longleftrightarrow> 70 \<le> c \<and> c < 78"

definition xtouch_is_column_encoder :: "u8 \<Rightarrow> bool" where
  "xtouch_is_column_encoder c \<longleftrightarrow> 80 \<le> c \<and> c < 88"

text \<open>Seven segment digits, bit 0 to 6 the segments a to g.\<close>

definition xtouch_translate_char_to_seg_data :: "char \<Rightarrow> u8" where
  "xtouch_translate_char_to_seg_data c =
     (if c \<in> {CHR ''a'', CHR ''A''} then 0b01110111
      else if c \<in> {CHR ''b'', CHR ''B''} then 0b01111100
      else if c = CHR ''c'' then 0b01011000
      else if c = CHR ''C'' then 0b00111001
      else if c \<in> {CHR ''d'', CHR ''D''} then 0b01011110
      else if c \<in> {CHR ''e'', CHR ''E''} then 0b00111001
      else if c \<in> {CHR ''f'', CHR ''F''} then 0b00110001
      else if c = CHR ''o'' then 0b01011100
      else if c \<in> {CHR ''O'', CHR ''0''} then 0b00111111
      else if c = CHR ''1'' then 0b00000110
      else if c = CHR ''2'' then 0b01011011
      else if c = CHR ''3'' then 0b01001111
      else if c = CHR ''4'' then 0b01100110
      else if c = CHR ''5'' then 0b01101101
      else if c = CHR ''6'' then 0b01111100
      else if c = CHR ''7'' then 0b00000111
      else if c = CHR ''8'' then 0b01111111
      else if c = CHR ''9'' then 0b01101111
      else if c = CHR ''-'' then 0b01000000
      else if c = CHR ''_'' then 0b00001000
      else 0)"

definition vendor_behringer :: "u8 \<times> u8 \<times> u8" where
  "vendor_behringer = (0x00, 0x20, 0x32)"

text \<open>The contents are arrays of 12 and of 14 characters.\<close>

definition xtouch_set_seg_display :: "string \<Rightarrow> 'q device_handle \<Rightarrow> 'q device_handle" where
  "xtouch_set_seg_display content d = send_sysex_command
     \<lparr>sysex_data = 0x37 # map xtouch_translate_char_to_seg_data content @ [0, 0], vendor = vendor_behringer\<rparr> d"

definition xtouch_set_lcd_display :: "u8 \<Rightarrow> u8 \<Rightarrow> string \<Rightarrow> 'q device_handle \<Rightarrow> 'q device_handle" where
  "xtouch_set_lcd_display display_index color content d = send_sysex_command
     \<lparr>sysex_data = [0x4C, display_index, color] @ map of_char content, vendor = vendor_behringer\<rparr> d"

text \<open>An array of n characters that is initialised with one blank: the others are zero.\<close>

definition blank_array :: "nat \<Rightarrow> string" where
  "blank_array n = CHR '' '' # replicate (n - 1) (char_of (0 :: nat))"

subsection \<open>A stream of commands arrives whole\<close>



lemma status_byte:
  assumes "s AND 0xF0 = (s :: u8)"
  shows "(s OR (0x0F AND c)) AND 0xF0 = s" "(s OR (0x0F AND c)) AND 0x0F = c AND 0x0F"
    and "s AND 0x80 = 0x80 \<Longrightarrow> (s OR (0x0F AND c)) AND 0x80 \<noteq> 0"
proof -
  have z: "(0x0F AND c) AND 0xF0 = 0" by (simp add: and.assoc and.commute [of c] flip: and.assoc [of "0x0F" "0xF0"])
  show "(s OR (0x0F AND c)) AND 0xF0 = s" using assms z by (simp add: bit.conj_disj_distrib2)
  have "s AND 0x0F = (s AND 0xF0) AND 0x0F" using assms by simp
  also have "\<dots> = 0" by (simp add: and.assoc)
  finally have z2: "s AND 0x0F = 0" .
  show "(s OR (0x0F AND c)) AND 0x0F = c AND 0x0F" using z2
    by (simp only: bit.conj_disj_distrib2 and.assoc) (simp add: ac_simps)
  assume a: "s AND 0x80 = 0x80"
  have "(0x0F AND c) AND 0x80 = 0" by (simp add: and.assoc and.commute [of c] flip: and.assoc [of "0x0F" "0x80"])
  then show "(s OR (0x0F AND c)) AND 0x80 \<noteq> 0" using a by (simp add: bit.conj_disj_distrib2)
qed









text \<open>A byte without the status bit on its own makes the device read from an empty queue.\<close>

lemma stray_byte_undefined:
  assumes "in_construction d = []" and "bs \<noteq> []" and "list_all (\<lambda>b. b AND 0x80 = 0) bs"
  shows "receive_bytes bs d = Inl Undefined_behaviour"
proof -
  have "skip_data bs = Inl Undefined_behaviour" using assms(3) by (induction bs) simp_all
  then show ?thesis using assms(1,2)
    by (simp add: receive_bytes_def decode_all.simps decode_incomming_event_def)
qed

subsection \<open>Output in order\<close>

locale midi_queue = ioqueue "mn_ops M" qlist
  for M :: "('q, 'r) midi_net" and qlist :: "'q \<Rightarrow> 'r list" +
  assumes push_front_bytes: "concat (map (r_bytes (mn_ops M)) (qlist (q_push_front M q r))) =
      r_bytes (mn_ops M) r @ concat (map (r_bytes (mn_ops M)) (qlist q))"
    and make_bytes: "r_bytes (mn_ops M) (r_make M bs) = bs"
begin

definition queued :: "'q \<Rightarrow> u8 list" where
  "queued q = concat (map (r_bytes (mn_ops M)) (qlist q))"

lemma queued_pop:
  "\<not> q_empty (mn_ops M) q \<Longrightarrow> q_pop_front (mn_ops M) q = (r, q') \<Longrightarrow> queued q = r_bytes (mn_ops M) r @ queued q'"
  using pop_fst [of q] pop_snd [of q] empty_list [of q]
  by (metis (no_types, lifting) concat.simps(2) fst_conv list.collapse list.simps(9) queued_def snd_conv)

lemma queued_push_front: "queued (q_push_front M q r) = r_bytes (mn_ops M) r @ queued q"
  by (simp add: queued_def push_front_bytes)

lemma queued_push_back: "queued (q_push_back (mn_ops M) q r) = queued q @ r_bytes (mn_ops M) r"
  by (simp add: queued_def push_list)

lemma write_queue_bytes:
  "write_queue M answers q out = Some (Inr room, answers', q', out') \<Longrightarrow>
   \<exists>w. out' = out @ w \<and> w @ queued q' = queued q \<and> (room \<longrightarrow> queued q' = [])"
proof (induction answers arbitrary: q out)
  case Nil
  then show ?case
    by (auto simp: write_queue.simps [of M "[]"] queued_def empty_list split: if_splits prod.splits)
next
  case (Cons a answers)
  show ?case
  proof (cases "q_empty (mn_ops M) q")
    case True
    then show ?thesis using Cons.prems by (auto simp: write_queue.simps [of M "a # answers"] queued_def empty_list)
  next
    case False
    obtain r q1 where p: "q_pop_front (mn_ops M) q = (r, q1)" by (cases "q_pop_front (mn_ops M) q")
    note q = queued_pop [OF False p]
    show ?thesis
    proof (cases a)
      case (Written n)
      define k where "k = min n (length (r_bytes (mn_ops M) r))"
      have "write_queue M answers (q_push_front M q1 (r_advance (mn_ops M) r k)) (out @ take k (r_bytes (mn_ops M) r))
          = Some (Inr room, answers', q', out')"
        using Cons.prems False p Written by (simp add: write_queue.simps [of M "Written n # answers"] k_def Let_def)
      from Cons.IH [OF this] obtain w where w: "out' = (out @ take k (r_bytes (mn_ops M) r)) @ w"
        "w @ queued q' = r_bytes (mn_ops M) (r_advance (mn_ops M) r k) @ queued q1" "room \<longrightarrow> queued q' = []"
        by (auto simp: queued_push_front)
      have adv: "r_bytes (mn_ops M) (r_advance (mn_ops M) r k) = drop k (r_bytes (mn_ops M) r)"
        using advance_bytes [of k r] by (simp add: k_def)
      have "(take k (r_bytes (mn_ops M) r) @ w) @ queued q' = (take k (r_bytes (mn_ops M) r) @ drop k (r_bytes (mn_ops M) r)) @ queued q1"
        using w(2) adv by simp
      also have "\<dots> = queued q" unfolding append_take_drop_id by (rule q [symmetric])
      finally have "(take k (r_bytes (mn_ops M) r) @ w) @ queued q' = queued q" .
      then show ?thesis using w by (intro exI [of _ "take k (r_bytes (mn_ops M) r) @ w"]) simp
    next
      case Would_block
      then have "q' = q_push_front M q1 r \<and> out' = out \<and> \<not> room" using Cons.prems False p
        by (simp add: write_queue.simps [of M "Would_block # answers"])
      then show ?thesis using q by (simp add: queued_push_front)
    next
      case Write_failed
      then show ?thesis using Cons.prems False p by (simp add: write_queue.simps [of M "Write_failed # answers"])
    qed
  qed
qed

text \<open>What one call of the handler writes, event bytes first, and what it leaves queued.\<close>

lemma handle_write_bytes:
  assumes "handle_write M answers d = Some (Inr (), d', out)"
  shows "\<exists>e s. out = e @ s \<and> e @ queued (event_queue d') = queued (event_queue d)
    \<and> s @ queued (sysex_queue d') = queued (sysex_queue d) \<and> (s \<noteq> [] \<longrightarrow> queued (event_queue d') = [])"
proof -
  obtain r1 a1 q1 o1 where w1: "write_queue M answers (event_queue d) [] = Some (r1, a1, q1, o1)"
    using assms by (auto simp: handle_write_def split: option.splits prod.splits)
  show ?thesis
  proof (cases r1)
    case (Inr room)
    note e = write_queue_bytes [OF w1 [unfolded Inr]]
    show ?thesis
    proof (cases room)
      case True
      obtain r2 a2 q2 o2 where w2: "write_queue M a1 (sysex_queue d) o1 = Some (r2, a2, q2, o2)"
        using assms w1 Inr True by (auto simp: handle_write_def split: option.splits)
      obtain b where r2: "r2 = Inr b" using assms w1 w2 Inr True by (cases r2) (auto simp: handle_write_def)
      from write_queue_bytes [OF w2 [unfolded r2]] e True assms w1 w2 r2 Inr show ?thesis
        by (auto simp: handle_write_def)
    qed (use assms w1 Inr e in \<open>auto simp: handle_write_def\<close>)
  qed (use assms w1 in \<open>auto simp: handle_write_def\<close>)
qed

lemma schedule_bytes:
  assumes "\<not> in_error_state d"
  shows "queued (event_queue (schedule_transmission M d)) = queued (event_queue d) @ event_construction d"
    and "queued (sysex_queue (schedule_transmission M d)) = queued (sysex_queue d) @ sysex_construction d"
  using assms by (simp_all add: schedule_transmission_def queued_push_back make_bytes)

end

text \<open>The queue as a list of byte lists, where a record without bytes is not put back.\<close>

definition list_net :: "(u8 list list, u8 list) midi_net" where
  "list_net = \<lparr>mn_ops = \<lparr>q_new = [], q_empty = (\<lambda>q. q = []), q_push_back = (\<lambda>q r. q @ [r]),
       q_pop_front = (\<lambda>q. (hd q, tl q)), r_bytes = id, r_advance = (\<lambda>r n. drop n r)\<rparr>,
     q_push_front = (\<lambda>q r. if r = [] then q else r # q), r_make = id\<rparr>"

lemma list_net_simps [simp]:
  "q_new (mn_ops list_net) = []" "q_empty (mn_ops list_net) q \<longleftrightarrow> q = []" "q_push_back (mn_ops list_net) q r = q @ [r]"
  "q_pop_front (mn_ops list_net) q = (hd q, tl q)" "r_bytes (mn_ops list_net) r = r"
  "r_advance (mn_ops list_net) r n = drop n r" "q_push_front list_net q r = (if r = [] then q else r # q)"
  "r_make list_net r = r"
  by (simp_all add: list_net_def)

interpretation mq: midi_queue list_net id
  by unfold_locales simp_all


text \<open>
  A message that the driver takes in parts is cut by the next command: after a short write of a
  system exclusive message the event queue is written first again.
\<close>

definition busy_device :: "u8 list list device_handle" where
  "busy_device = \<lparr>event_queue = [], sysex_queue = [[0xF0, 1, 2, 0xF7]], incomming_queue = [], event_construction = [],
     sysex_construction = [], in_construction = [], device_id = X_TOUCH, in_error_state = False\<rparr>"

lemma command_inside_sysex:
  "\<exists>d1 d2 out1 out2. handle_write list_net [Written 2, Would_block] busy_device = Some (Inr (), d1, out1)
     \<and> handle_write list_net [Written 3, Written 2]
         (schedule_transmission list_net (xtouch_set_button_led 8 127 d1)) = Some (Inr (), d2, out2)
     \<and> out1 @ out2 = [0xF0, 1, 0x90, 8, 127, 2, 0xF7]"
  by (simp add: handle_write_def busy_device_def write_queue.simps [of list_net] schedule_transmission_def
      xtouch_set_button_led_def send_command_def encode_command_def NOTE_ON_def)

end
