(* ===== verification/Gui_Connection.thy ===== *)
theory Gui_Connection
  imports State_Registry
begin

text \<open>
  The connected user interfaces, \<^verbatim>\<open>src/src/io/gui_connection_handler.cpp\<close>, and the messages the
  server sends to them. A message is the content of the protobuf message its constructor is
  named after; writing its bytes is modelled in \<open>Client_Handler\<close>. A client is known by a
  number that stands for its pointer; \<open>inbox\<close> is what was written to it.
\<close>

datatype ready_cause = RUC_ENTERED | RUC_ABORTED | RUC_COMMITED

datatype log_level = LL_INFO | LL_WARNING | LL_ERROR

datatype run_mode = RM_FILTER | RM_DIRECT | RM_STOP | RunMode_INT_MIN_SENTINEL | RunMode_INT_MAX_SENTINEL | RM_unknown int

datatype apply_state = SFAS_INVALID | SFAS_NO_SHOW_ERROR | SFAS_SHOW_LOADING | SFAS_SHOW_ACTIVE | SFAS_SHOW_UPDATING
  | SFAS_ERROR_SHOW_RUNNING

text \<open>\<open>'c\<close> is a number of a colour message, a protobuf double.\<close>

datatype 'c column_data =
    Plain_color 'c 'c 'c
  | Raw_data u32 u32 u32
  | Color_with_uv 'c 'c 'c u32

datatype universe_location = Physical_location int | Remote_location string int int | Ftdi_dongle int int string string | No_location

record desk_state_msg =
  dm_selected_column :: string
  dm_find_active_on :: string
  dm_jogwheel_change :: int
  dm_selected_bank :: int
  dm_selected_bank_set :: string
  dm_seven_seg :: string

record state_update_msg =
  um_state :: run_mode
  um_apply_state :: apply_state
  um_scene :: int
  um_cycle_time :: int
  um_last_error :: string

datatype 'c out_message =
    Column_update string "'c column_data"
  | Button_state_change int bool
  | Fader_position string int
  | Rotary_encoder_change string int
  | Readymode_update ready_cause
  | Desk_update desk_state_msg
  | Log_message log_level int string
  | Universe_list "(int \<times> universe_location) list"
  | Universe_info int universe_location
  | Dmx_output int "int list"
  | State_list state_list
  | Current_state_update state_update_msg

record 'c gui_client =
  client_id :: nat
  client_alive :: bool
  inbox :: "'c out_message list"

definition write_message_to :: "'c out_message \<Rightarrow> 'c gui_client \<Rightarrow> 'c gui_client" where
  "write_message_to m c = (if client_alive c then c\<lparr>inbox := inbox c @ [m]\<rparr> else c)"

text \<open>One pass over the clients: the second component is the last client that was found dead.\<close>

fun push_to_clients :: "'c out_message \<Rightarrow> nat option \<Rightarrow> 'c gui_client list \<Rightarrow> 'c gui_client list \<times> nat option" where
  "push_to_clients m to_delete [] = ([], to_delete)"
| "push_to_clients m to_delete (c # cs) =
     (let (cs', dead) = push_to_clients m (if client_alive c then to_delete else Some (client_id c)) cs
      in (write_message_to m c # cs', dead))"

definition push_msg_to_all_gui :: "'c out_message \<Rightarrow> 'c gui_client list \<Rightarrow> 'c gui_client list" where
  "push_msg_to_all_gui m cs = (case push_to_clients m None cs of
      (cs', None) \<Rightarrow> cs'
    | (cs', Some dead) \<Rightarrow> filter (\<lambda>c. client_id c \<noteq> dead) cs')"

text \<open>\<open>client_cb\<close>: a new connection.\<close>

definition client_cb :: "nat \<Rightarrow> 'c gui_client list \<Rightarrow> 'c gui_client list" where
  "client_cb i cs = cs @ [\<lparr>client_id = i, client_alive = True, inbox = []\<rparr>]"

text \<open>The answer to the client a request came from.\<close>

definition reply_to :: "nat \<Rightarrow> 'c out_message \<Rightarrow> 'c gui_client list \<Rightarrow> 'c gui_client list" where
  "reply_to i m cs = map (\<lambda>c. if client_id c = i then write_message_to m c else c) cs"

lemma push_to_clients_fst: "fst (push_to_clients m d cs) = map (write_message_to m) cs"
  by (induction cs arbitrary: d) (simp_all add: Let_def case_prod_beta)

lemma push_to_clients_snd:
  "snd (push_to_clients m d cs) = (case filter (\<lambda>c. \<not> client_alive c) cs of [] \<Rightarrow> d | dead \<Rightarrow> Some (client_id (last dead)))"
  by (induction cs arbitrary: d) (auto simp: Let_def case_prod_beta split: list.splits)

lemma client_id_write [simp]: "client_id (write_message_to m c) = client_id c"
  and client_alive_write [simp]: "client_alive (write_message_to m c) = client_alive c"
  by (simp_all add: write_message_to_def)

text \<open>
  Pushing a message: every live client gets it exactly once and stays connected, and of the
  clients that are gone only the last one leaves the list.
\<close>

lemma push_msg_effect:
  assumes "distinct (map client_id cs)"
  shows "push_msg_to_all_gui m cs =
     (case filter (\<lambda>c. \<not> client_alive c) cs of
        [] \<Rightarrow> map (write_message_to m) cs
      | dead \<Rightarrow> filter (\<lambda>c. client_id c \<noteq> client_id (last dead)) (map (write_message_to m) cs))"
  using push_to_clients_fst [of m None cs] push_to_clients_snd [of m None cs]
  by (auto simp: push_msg_to_all_gui_def split: list.splits prod.splits option.splits)

text \<open>The clients that are alive, with what they received.\<close>

definition live :: "'c gui_client list \<Rightarrow> 'c gui_client list" where
  "live cs = filter client_alive cs"

definition clients_ok :: "'c gui_client list \<Rightarrow> bool" where
  "clients_ok cs \<longleftrightarrow> distinct (map client_id cs)"

lemma push_keeps_live:
  assumes "clients_ok cs"
  shows "live (push_msg_to_all_gui m cs) = map (write_message_to m) (live cs)" and "clients_ok (push_msg_to_all_gui m cs)"
proof -
  let ?cs = "map (write_message_to m) cs"
  have lm: "live ?cs = map (write_message_to m) (live cs)" by (simp add: live_def filter_map comp_def)
  have ids: "map client_id ?cs = map client_id cs" by simp
  have d: "distinct (map client_id cs)" using assms by (simp add: clients_ok_def)
  show "live (push_msg_to_all_gui m cs) = map (write_message_to m) (live cs)"
  proof (cases "filter (\<lambda>c. \<not> client_alive c) cs")
    case Nil
    then show ?thesis using push_msg_effect [OF d, of m] lm by simp
  next
    case (Cons a list)
    let ?dead = "last (a # list)"
    have "?dead \<in> set (filter (\<lambda>c. \<not> client_alive c) cs)" unfolding Cons by (rule last_in_set) simp
    then have dead: "?dead \<in> set cs" "\<not> client_alive ?dead" by simp_all
    have "client_id c \<noteq> client_id ?dead" if "c \<in> set cs" "client_alive c" for c
      using that dead d by (metis distinct_map inj_on_def)
    then have "filter (\<lambda>c. client_id c \<noteq> client_id ?dead \<and> client_alive c) cs = filter client_alive cs"
      by (intro filter_cong) auto
    then show ?thesis using push_msg_effect [OF d, of m] Cons
      by (simp add: live_def filter_map comp_def conj_commute)
  qed
  show "clients_ok (push_msg_to_all_gui m cs)" using push_msg_effect [OF d, of m] d
    by (auto simp: clients_ok_def filter_map comp_def distinct_map_filter split: list.splits)
qed

end
