(* ===== verification/Bank_Column.thy ===== *)
theory Bank_Column
  imports Midi Gui_Connection Pixel
begin

text \<open>
  \<^verbatim>\<open>src/src/control_desk/bank_column.cpp\<close> and \<^verbatim>\<open>bank_column.hpp\<close>: one column of the control desk
  with its fader, encoder, buttons and display. A column knows its device by its position in the
  list of devices; a position outside of the list is an expired pointer. An operation takes the
  column together with the devices and the clients it talks to. The call back to the desk about
  the ready mode is a parameter; the one about the selection, always the last thing the code
  does, is part of the result. \<open>now\<close> is the time the clock shows.
\<close>

unbundle bit_operations_syntax

datatype bank_mode = HSI_COLOR_MODE | HSI_WITH_AMBER_MODE | HSI_WITH_UV_MODE | HSI_WITH_AMBER_AND_UV_MODE | DIRECT_INPUT_MODE

datatype rotary_encoder_assignment = HUE | SATURATION | AMBER | UV

record raw_column_configuration =
  primary_position :: u16
  secondary_position :: u16
  meter_leds :: u8
  select_led :: u8
  button_1 :: u8
  button_2 :: u8
  button_3 :: u8
  rc_display_color :: u8

definition default_raw :: raw_column_configuration where
  "default_raw = \<lparr>primary_position = 0, secondary_position = 0, meter_leds = 0, select_led = led_off,
     button_1 = led_off, button_2 = led_off, button_3 = led_off, rc_display_color = 4\<rparr>"

record bank_column =
  current_bank_mode :: bank_mode
  current_re_assignment :: rotary_encoder_assignment
  display_color :: u8
  fader_index :: u8
  amber :: u8
  readymode_amber :: u8
  uv :: u8
  readymode_uv :: u8
  active_on_device :: bool
  select_active :: bool
  readymode_active :: bool
  black_active :: bool
  flash_active :: bool
  raw_working_on_primary :: bool
  color :: pixel
  readymode_color :: pixel
  raw_configuration :: raw_column_configuration
  readymode_raw_configuration :: raw_column_configuration
  connection :: nat
  column_id :: string
  display_text_up :: "string list"
  display_text_down :: "string list"
  display_scroll_position_up :: nat
  display_scroll_position_down :: nat
  display_text_index_up :: nat
  display_text_index_down :: nat
  accumulated_change :: nat
  last_update_timestamp :: u64
  last_encoder_turn :: u64
  display_hold_until :: u64
  last_display_scroll :: u64

record 'q desk_io =
  devices :: "'q device_handle list"
  clients :: "double gui_client list"

definition new_bank_column :: "nat \<Rightarrow> bank_mode \<Rightarrow> string \<Rightarrow> u8 \<Rightarrow> bank_column" where
  "new_bank_column device_connection mode cid column_index =
     \<lparr>current_bank_mode = mode, current_re_assignment = HUE, display_color = 2, fader_index = column_index,
      amber = 0, readymode_amber = 0, uv = 0, readymode_uv = 0, active_on_device = False, select_active = False,
      readymode_active = False, black_active = False, flash_active = False, raw_working_on_primary = True,
      color = default_pixel, readymode_color = default_pixel, raw_configuration = default_raw,
      readymode_raw_configuration = default_raw, connection = device_connection, column_id = cid,
      display_text_up = [[]], display_text_down = [[]], display_scroll_position_up = 0, display_scroll_position_down = 0,
      display_text_index_up = 0, display_text_index_down = 0, accumulated_change = 0, last_update_timestamp = 0,
      last_encoder_turn = 0, display_hold_until = 0, last_display_scroll = 0\<rparr>"

type_synonym ('q, 'z) col_state = "bank_column \<times> ('q, 'z) desk_io_scheme"

subsection \<open>Device output\<close>

definition on_device :: "('q device_handle \<Rightarrow> 'q device_handle) \<Rightarrow> ('q, 'z) col_state \<Rightarrow> ('q, 'z) col_state" where
  "on_device f s = (let (c, io) = s in
     if connection c < length (devices io)
     then (c, io\<lparr>devices := (devices io)[connection c := f (devices io ! connection c)]\<rparr>) else (c, io))"

definition reset_column :: "('q, 'z) col_state \<Rightarrow> ('q, 'z) col_state" where
  "reset_column s = (let i = fader_index (fst s) in
     on_device (\<lambda>d. xtouch_set_meter_leds (BAR_CH1 + i) 0 (xtouch_set_ring_led (ENC_CH1 + i) 128
       (xtouch_set_button_led (BTN_CH1_SELECT_SELECT + i) led_off (xtouch_set_button_led (BTN_CH1_MUTE_BLACK + i) led_off
       (xtouch_set_button_led (BTN_CH1_SOLO_FLASH + i) led_off (xtouch_set_button_led (BTN_CH1_REC_READY + i) led_off
       (xtouch_set_fader_position (FADER_CH1 + i) 0 (xtouch_set_lcd_display i 0 (blank_array 14) d)))))))) s)"

text \<open>The position on a scale of 128, of the configuration that is edited and of the one in use.\<close>

definition scale128 :: "u16 \<Rightarrow> u8" where
  "scale128 v = of_nat (unat v * 128 div 65536)"

definition edited_raw :: "bank_column \<Rightarrow> raw_column_configuration" where
  "edited_raw c = (if readymode_active c then readymode_raw_configuration c else raw_configuration c)"

definition edited_position :: "bank_column \<Rightarrow> u16" where
  "edited_position c =
     (if raw_working_on_primary c then primary_position (edited_raw c) else secondary_position (edited_raw c))"

definition update_physical_fader_position :: "bool \<Rightarrow> ('q, 'z) col_state \<Rightarrow> ('q, 'z) col_state" where
  "update_physical_fader_position from_activate s = (let c = fst s in
     if \<not> active_on_device c then s
     else if readymode_active c \<and> \<not> from_activate then s
     else on_device (xtouch_set_fader_position (fader_index c + 70) (scale128 (edited_position c))) s)"

text \<open>A property of the colour that is edited; a getter may convert the colour it looks at.\<close>

definition edited_color :: "(pixel \<Rightarrow> double \<times> pixel) \<Rightarrow> bank_column \<Rightarrow> double \<times> bank_column" where
  "edited_color get c =
     (if readymode_active c
      then (case get (readymode_color c) of (v, p) \<Rightarrow> (v, c\<lparr>readymode_color := p\<rparr>))
      else (case get (color c) of (v, p) \<Rightarrow> (v, c\<lparr>color := p\<rparr>)))"

definition update_encoder_leds :: "libm \<Rightarrow> ('q, 'z) col_state \<Rightarrow> ('q, 'z) col_state result" where
  "update_encoder_leds lm s = (let (c, io) = s; e = fader_index c + 80 in
     if \<not> active_on_device c \<or> connection c \<ge> length (devices io) then Inr s
     else if current_bank_mode c = DIRECT_INPUT_MODE
     then let v = (if readymode_active c
                   then (if raw_working_on_primary c then secondary_position (raw_configuration c)
                         else primary_position (raw_configuration c))
                   else secondary_position (readymode_raw_configuration c))
          in Inr (on_device (xtouch_set_ring_led e (scale128 v)) s)
     else let (h, c') = edited_color (getHue lm) c
          in bind_res (to_unsigned 8 (d_mul (d_div h (Num 360)) (Num 128)))
               (\<lambda>v. Inr (on_device (xtouch_set_ring_led e (of_nat v)) (c', io))))"

definition update_button_leds :: "('q, 'z) col_state \<Rightarrow> ('q, 'z) col_state" where
  "update_button_leds s = (let c = fst s; i = fader_index c in
     if \<not> active_on_device c then s
     else on_device (\<lambda>d.
       xtouch_set_button_led (i + BTN_CH1_SELECT_SELECT) (if select_active c then led_on else led_off)
         (xtouch_set_button_led (i + BTN_CH1_MUTE_BLACK) (if black_active c then led_flash else led_off)
         (xtouch_set_button_led (i + BTN_CH1_SOLO_FLASH) (if flash_active c then led_on else led_off)
         (xtouch_set_button_led (i + BTN_CH1_REC_READY) (if readymode_active c then led_on else led_off) d)))) s)"

definition update_side_leds :: "libm \<Rightarrow> ('q, 'z) col_state \<Rightarrow> ('q, 'z) col_state result" where
  "update_side_leds lm s = (let (c, io) = s in
     if \<not> active_on_device c \<or> connection c \<ge> length (devices io) \<or> current_bank_mode c = DIRECT_INPUT_MODE then Inr s
     else let (sat, c') = edited_color (getSaturation lm) c
          in bind_res (to_unsigned 8 (d_add (d_mul sat (Num 126)) (Num 1)))
               (\<lambda>v. Inr (on_device (xtouch_set_meter_leds (BAR_CH1 + fader_index c) (of_nat v)) (c', io))))"

subsection \<open>The display\<close>

definition char_or_blank :: "string \<Rightarrow> nat \<Rightarrow> char" where
  "char_or_blank s i = (if i < length s then s ! i else CHR '' '')"

definition upper_line :: "bank_column \<Rightarrow> string" where
  "upper_line c =
     (if display_text_index_up c < length (display_text_up c)
      then map (\<lambda>i. char_or_blank (display_text_up c ! display_text_index_up c) (i + display_scroll_position_up c)) [0..<7]
      else ''No Data'')"

definition hue_name :: "double \<Rightarrow> string" where
  "hue_name h =
     (if d_lt h (Num 30) then ''red'' else if d_lt h (Num 50) then ''orange'' else if d_lt h (Num 70) then ''yellow''
      else if d_lt h (Num 150) then ''green'' else if d_lt h (Num 185) then ''cyan'' else if d_lt h (Num 285) then ''blue''
      else if d_lt h (Num 330) then ''purple'' else ''red'')"

text \<open>The value that is shown for a while after the encoder was turned.\<close>

definition held_value :: "libm \<Rightarrow> bank_column \<Rightarrow> string \<times> bank_column" where
  "held_value lm c =
     (if current_bank_mode c = DIRECT_INPUT_MODE then (dec (unat (edited_position c)), c)
      else case current_re_assignment c of
          HUE \<Rightarrow> (case edited_color (getHue lm) c of (h, c') \<Rightarrow> (hue_name h, c'))
        | SATURATION \<Rightarrow> (case edited_color (getSaturation lm) c of (x, c') \<Rightarrow> (to_string_double x, c'))
        | AMBER \<Rightarrow> (dec (unat (if readymode_active c then readymode_amber c else amber c)), c)
        | UV \<Rightarrow> (dec (unat (if readymode_active c then readymode_uv c else uv c)), c))"

text \<open>The lower line without a value; its text is read from position 7 on.\<close>

definition lower_line :: "bank_column \<Rightarrow> string" where
  "lower_line c =
     (if current_bank_mode c \<noteq> DIRECT_INPUT_MODE
      then (case current_re_assignment c of HUE \<Rightarrow> ''Hue    '' | SATURATION \<Rightarrow> ''Sature '' | AMBER \<Rightarrow> ''Amber  '' | UV \<Rightarrow> ''UV     '')
      else if display_text_index_down c < length (display_text_down c)
      then let down_text = display_text_down c ! display_text_index_down c
           in if length down_text > 0
              then map (\<lambda>i. char_or_blank down_text (i + display_scroll_position_down c)) [7..<14]
              else if raw_working_on_primary c then ''primary'' else ''second.''
      else ''-------'')"

definition update_display_text :: "libm \<Rightarrow> ('q, 'z) col_state \<Rightarrow> ('q, 'z) col_state" where
  "update_display_text lm s = (let (c, io) = s in
     if \<not> active_on_device c \<or> connection c \<ge> length (devices io) then s
     else let (lower, c') = (if last_update_timestamp c < display_hold_until c
                then (case held_value lm c of (v, c') \<Rightarrow> (map (char_or_blank v) [0..<7], c'))
                else (lower_line c, c));
              content = upper_line c @ lower;
              content' = (if readymode_active c then content[13 := CHR ''*''] else content)
          in on_device (xtouch_set_lcd_display (fader_index c) (display_color c) content') (c', io))"

fun text_lines :: "string \<Rightarrow> string \<Rightarrow> nat \<Rightarrow> string list \<Rightarrow> string list" where
  "text_lines [] ss n acc = acc @ [ss]"
| "text_lines (c # cs) ss n acc =
     (if c = char_of (10 :: nat) \<or> c = char_of (13 :: nat)
      then (if n > 0 then text_lines cs ss 0 (acc @ [ss]) else text_lines cs ss n acc)
      else if c = char_of (9 :: nat) then text_lines cs (ss @ '' '') (Suc n) acc
      else text_lines cs (ss @ [c]) (Suc n) acc)"

text \<open>Resetting the flags of the string stream does not empty it, so a line starts with the lines before it.\<close>

definition set_display_text :: "libm \<Rightarrow> string \<Rightarrow> bool \<Rightarrow> ('q, 'z) col_state \<Rightarrow> ('q, 'z) col_state" where
  "set_display_text lm txt up s = (let (c, io) = s; ls = text_lines txt [] 0 [] in
     update_display_text lm
       (if up then c\<lparr>display_text_up := ls, display_scroll_position_up := 0, display_text_index_up := length ls - 1\<rparr>
        else c\<lparr>display_text_down := ls, display_scroll_position_down := 0, display_text_index_down := length ls - 1\<rparr>, io))"

definition get_display_text :: "bool \<Rightarrow> bank_column \<Rightarrow> string" where
  "get_display_text up c = (case if up then display_text_up c else display_text_down c of [] \<Rightarrow> [] | t # _ \<Rightarrow> t)"

text \<open>Scrolling one line: the new position and the new index.\<close>

definition scroll_line :: "string list \<Rightarrow> nat \<Rightarrow> nat \<Rightarrow> nat \<times> nat" where
  "scroll_line ls pos i =
     (if i < length ls
      then (if length (ls ! i) > 7 \<and> pos < length (ls ! i) - 7 then (pos + 1, i)
            else (0, if Suc i = length ls then 0 else Suc i))
      else (pos, 0))"

definition scroll_display :: "u64 \<Rightarrow> bank_column \<Rightarrow> bank_column" where
  "scroll_display now c =
     (let (pu, iu) = scroll_line (display_text_up c) (display_scroll_position_up c) (display_text_index_up c);
          (pd, id) = scroll_line (display_text_down c) (display_scroll_position_down c) (display_text_index_down c)
      in c\<lparr>display_scroll_position_up := pu, display_text_index_up := iu,
           display_scroll_position_down := pd, display_text_index_down := id, last_display_scroll := now\<rparr>)"

definition column_update :: "libm \<Rightarrow> u64 \<Rightarrow> ('q, 'z) col_state \<Rightarrow> ('q, 'z) col_state" where
  "column_update lm now s = (let (c, io) = s;
     c1 = (if last_encoder_turn c + 750 < last_update_timestamp c then c\<lparr>accumulated_change := 0\<rparr> else c);
     shown = (last_update_timestamp c1 \<noteq> 0 \<and> now \<ge> display_hold_until c1);
     scrolls = (last_display_scroll c1 + 1000 < last_update_timestamp c1);
     c2 = (if scrolls then scroll_display now c1 else c1);
     c3 = c2\<lparr>last_update_timestamp := now\<rparr>
     in if shown \<or> scrolls then update_display_text lm (c3, io) else (c3, io))"

subsection \<open>Messages to the user interfaces\<close>

definition push_gui :: "double out_message \<Rightarrow> ('q, 'z) desk_io_scheme \<Rightarrow> ('q, 'z) desk_io_scheme" where
  "push_gui m io = io\<lparr>clients := push_msg_to_all_gui m (clients io)\<rparr>"

definition color_to_message :: "libm \<Rightarrow> bank_column \<Rightarrow> (double \<times> double \<times> double) \<times> bank_column" where
  "color_to_message lm c =
     (let (h, c1) = edited_color (getHue lm) c; (s, c2) = edited_color (getSaturation lm) c1;
          (i, c3) = edited_color (getIluminance lm) c2
      in ((h, s, i), c3))"

definition send_col_update_to_fish :: "libm \<Rightarrow> ('q, 'z) col_state \<Rightarrow> ('q, 'z) col_state" where
  "send_col_update_to_fish lm s = (let (c, io) = s in
     if current_bank_mode c = HSI_COLOR_MODE
     then let ((h, sat, i), c') = color_to_message lm c
          in (c', push_gui (Column_update (column_id c) (Plain_color h sat i)) io)
     else if current_bank_mode c \<in> {HSI_WITH_UV_MODE, HSI_WITH_AMBER_AND_UV_MODE}
     then let u = (if readymode_active c then readymode_uv c else uv c);
              ((h, sat, i), c') = color_to_message lm c
          in (c', push_gui (Column_update (column_id c) (Color_with_uv h sat i (ucast u))) io)
     else let r = edited_raw c
          in (c, push_gui (Column_update (column_id c)
                 (Raw_data (ucast (primary_position r)) (ucast (secondary_position r)) (ucast (meter_leds r)))) io))"

subsection \<open>Input\<close>

definition set_active :: "libm \<Rightarrow> bool \<Rightarrow> ('q, 'z) col_state \<Rightarrow> ('q, 'z) col_state result" where
  "set_active lm new_value s = (let s1 = (fst s\<lparr>active_on_device := new_value\<rparr>, snd s) in
     if new_value
     then bind_res (update_encoder_leds lm (update_physical_fader_position True (update_display_text lm s1)))
            (\<lambda>s2. update_side_leds lm (update_button_leds s2))
     else Inr s1)"

definition edit_raw :: "(raw_column_configuration \<Rightarrow> raw_column_configuration) \<Rightarrow> bank_column \<Rightarrow> bank_column" where
  "edit_raw f c = (if readymode_active c then c\<lparr>readymode_raw_configuration := f (readymode_raw_configuration c)\<rparr>
     else c\<lparr>raw_configuration := f (raw_configuration c)\<rparr>)"

definition set_position :: "bool \<Rightarrow> (u16 \<Rightarrow> u16) \<Rightarrow> raw_column_configuration \<Rightarrow> raw_column_configuration" where
  "set_position on_primary f r = (if on_primary then r\<lparr>primary_position := f (primary_position r)\<rparr>
     else r\<lparr>secondary_position := f (secondary_position r)\<rparr>)"

definition edit_color :: "(pixel \<Rightarrow> pixel result) \<Rightarrow> bank_column \<Rightarrow> bank_column result" where
  "edit_color f c = (if readymode_active c
     then bind_res (f (readymode_color c)) (\<lambda>p. Inr (c\<lparr>readymode_color := p\<rparr>))
     else bind_res (f (color c)) (\<lambda>p. Inr (c\<lparr>color := p\<rparr>)))"

definition process_fader_change_message :: "libm \<Rightarrow> u32 \<Rightarrow> ('q, 'z) col_state \<Rightarrow> ('q, 'z) col_state result" where
  "process_fader_change_message lm position_request s = (let (c, io) = s;
     p = (if position_request > 65535 then 65535 else ucast position_request) :: u16;
     c1 = edit_raw (set_position (raw_working_on_primary c) (\<lambda>_. p)) c
     in bind_res (if current_bank_mode c \<noteq> DIRECT_INPUT_MODE
                  then edit_color (setIluminance lm (d_div (d_of_word p) (Num 65535))) c1 else Inr c1) (\<lambda>c2.
        let s2 = update_physical_fader_position False (c2, io);
            s3 = (if current_bank_mode c = DIRECT_INPUT_MODE then update_display_text lm s2 else s2)
        in Inr (send_col_update_to_fish lm s3)))"

text \<open>Adding a signed change to a level; the sum of two \<open>int\<close>s may overflow.\<close>

definition add_level :: "u8 \<Rightarrow> u32 \<Rightarrow> u8 result" where
  "add_level v change = (let sum = int (unat v) + sint change in
     if sum > 2 ^ 31 - 1 then Inl Undefined_behaviour
     else if sum > 255 then Inr 255 else if sum < 0 then Inr 0 else Inr (v + ucast change))"

definition turn_hue :: "libm \<Rightarrow> u32 \<Rightarrow> pixel \<Rightarrow> pixel result" where
  "turn_hue lm change p =
     (let (h, p0) = getHue lm p
      in bind_res (setHue lm (d_add h (d_mul (Num 15) (of_int_d (sint change)))) p0) (\<lambda>p1.
         let (h1, p2) = getHue lm p1
         in if d_lt (Num 360) h1 then setHue lm (d_add (Num 0) (d_sub h1 (Num 360))) p2
            else if d_lt h1 (Num 0) then setHue lm (d_add (Num 360) h1) p2
            else Inr p2))"

definition turn_saturation :: "libm \<Rightarrow> u32 \<Rightarrow> pixel \<Rightarrow> pixel result" where
  "turn_saturation lm change p =
     (let (x, p0) = getSaturation lm p
      in bind_res (setSaturation lm (d_add x (d_mul (d_div (Num 1) (Num 128)) (of_int_d (sint change)))) p0) (\<lambda>p1.
         let (x1, p2) = getSaturation lm p1
         in if d_lt (Num 1) x1 then setSaturation lm (Num 1) p2
            else if d_lt x1 (Num 0) then setSaturation lm (Num 0) p2
            else Inr p2))"

definition turn_encoder :: "libm \<Rightarrow> u32 \<Rightarrow> bank_column \<Rightarrow> bank_column result" where
  "turn_encoder lm change c =
     (if current_bank_mode c = DIRECT_INPUT_MODE then Inr c
      else case current_re_assignment c of
          HUE \<Rightarrow> edit_color (turn_hue lm change) c
        | SATURATION \<Rightarrow> edit_color (turn_saturation lm change) c
        | AMBER \<Rightarrow> (if readymode_active c
            then bind_res (add_level (readymode_amber c) change) (\<lambda>v. Inr (c\<lparr>readymode_amber := v\<rparr>))
            else bind_res (add_level (amber c) change) (\<lambda>v. Inr (c\<lparr>amber := v\<rparr>)))
        | UV \<Rightarrow> (if readymode_active c
            then bind_res (add_level (readymode_uv c) change) (\<lambda>v. Inr (c\<lparr>readymode_uv := v\<rparr>))
            else bind_res (add_level (uv c) change) (\<lambda>v. Inr (c\<lparr>uv := v\<rparr>))))"

definition process_encoder_change_message :: "libm \<Rightarrow> u32 \<Rightarrow> ('q, 'z) col_state \<Rightarrow> ('q, 'z) col_state result" where
  "process_encoder_change_message lm change_request s = (let (c, io) = s;
     n = (if accumulated_change c < 1024 then accumulated_change c + 1 else accumulated_change c);
     c1 = c\<lparr>accumulated_change := n, last_encoder_turn := last_update_timestamp c\<rparr>;
     change = change_request * of_nat n;
     c2 = edit_raw (set_position (raw_working_on_primary c1) (\<lambda>p. p + ucast change)) c1
     in bind_res (turn_encoder lm change c2) (\<lambda>c3.
        let c4 = c3\<lparr>display_hold_until := last_update_timestamp c3 + 2500\<rparr>
        in bind_res (update_encoder_leds lm (update_display_text lm (c4, io))) (\<lambda>s1.
           bind_res (update_side_leds lm s1) (\<lambda>s2.
           let s3 = (if current_bank_mode c = DIRECT_INPUT_MODE then update_physical_fader_position False s2 else s2)
           in Inr (send_col_update_to_fish lm s3)))))"

definition next_assignment :: "bank_mode \<Rightarrow> rotary_encoder_assignment \<Rightarrow> rotary_encoder_assignment" where
  "next_assignment m a = (case a of
      HUE \<Rightarrow> SATURATION
    | SATURATION \<Rightarrow> (if m = HSI_WITH_AMBER_MODE \<or> m = HSI_WITH_AMBER_AND_UV_MODE then AMBER
                    else if m = HSI_WITH_UV_MODE then UV else HUE)
    | AMBER \<Rightarrow> (if m = HSI_WITH_AMBER_AND_UV_MODE then UV else HUE)
    | UV \<Rightarrow> HUE)"

text \<open>The ready button: edits are prepared on a copy until they are committed.\<close>

definition toggle_readymode ::
  "libm \<Rightarrow> (string \<Rightarrow> bool \<Rightarrow> ('q, 'z) desk_io_scheme \<Rightarrow> ('q, 'z) desk_io_scheme) \<Rightarrow> ('q, 'z) col_state \<Rightarrow> ('q, 'z) col_state result" where
  "toggle_readymode lm desk_ready_update s = (let (c, io) = s; on = \<not> readymode_active c;
     c1 = c\<lparr>readymode_active := on\<rparr>;
     c2 = (if on then c1\<lparr>readymode_color := color c1, readymode_raw_configuration := raw_configuration c1,
                         readymode_amber := amber c1, readymode_uv := uv c1\<rparr> else c1);
     s1 = update_button_leds (c2, io);
     (c3, io3) = (if on then s1 else update_physical_fader_position False s1);
     s4 = (c3, desk_ready_update (column_id c3) (readymode_active c3) io3)
     in bind_res (update_encoder_leds lm (update_display_text lm s4)) (update_side_leds lm))"

text \<open>The result has the new state of the selection if the desk is to be told.\<close>

definition process_button_press_message ::
  "libm \<Rightarrow> (string \<Rightarrow> bool \<Rightarrow> ('q, 'z) desk_io_scheme \<Rightarrow> ('q, 'z) desk_io_scheme) \<Rightarrow> u8 \<Rightarrow> u8 \<Rightarrow> ('q, 'z) col_state \<Rightarrow>
   (('q, 'z) col_state \<times> bool option) result" where
  "process_button_press_message lm desk_ready_update b ch s = (let (c, io) = s; b_base = b div 8 * 8 in
     if ch = button_pressed then
       (if b_base = BTN_CH1_ENCODER_ROTARYMODE then
          (if current_bank_mode c = DIRECT_INPUT_MODE
           then Inr (update_physical_fader_position False
                  (update_display_text lm (c\<lparr>raw_working_on_primary := \<not> raw_working_on_primary c\<rparr>, io)), None)
           else Inr (update_display_text lm
                  (c\<lparr>current_re_assignment := next_assignment (current_bank_mode c) (current_re_assignment c)\<rparr>, io), None))
        else if b_base = BTN_CH1_REC_READY then bind_res (toggle_readymode lm desk_ready_update s) (\<lambda>s'. Inr (s', None))
        else if b_base = BTN_CH1_SOLO_FLASH then Inr (update_button_leds (c\<lparr>flash_active := True\<rparr>, io), None)
        else if b_base = BTN_CH1_MUTE_BLACK then Inr (update_button_leds (c\<lparr>black_active := \<not> black_active c\<rparr>, io), None)
        else if b_base = BTN_CH1_SELECT_SELECT then Inr (s, Some (\<not> select_active c))
        else Inr (s, None))
     else if ch = button_released \<and> b_base = BTN_CH1_SOLO_FLASH
     then Inr (update_button_leds (c\<lparr>flash_active := False\<rparr>, io), None)
     else Inr (s, None))"

definition commit_from_readymode :: "libm \<Rightarrow> ('q, 'z) col_state \<Rightarrow> ('q, 'z) col_state result" where
  "commit_from_readymode lm s = (let (c, io) = s;
     c1 = c\<lparr>color := readymode_color c, raw_configuration := readymode_raw_configuration c, readymode_active := False,
            amber := readymode_amber c, uv := readymode_uv c\<rparr>
     in bind_res (update_side_leds lm (update_display_text lm (update_button_leds (c1, io))))
          (\<lambda>s'. Inr (send_col_update_to_fish lm s')))"

subsection \<open>Access from the show\<close>

definition get_color :: "libm \<Rightarrow> bank_column \<Rightarrow> (pixel \<times> bank_column) result" where
  "get_color lm c =
     (if black_active c \<or> flash_active c
      then let (h, p1) = getHue lm (color c); (x, p2) = getSaturation lm p1
           in bind_res (hsi_pixel lm h x (Num (if black_active c then 0 else 1))) (\<lambda>p. Inr (p, c\<lparr>color := p2\<rparr>))
      else Inr (color c, c))"

definition set_color :: "libm \<Rightarrow> pixel \<Rightarrow> ('q, 'z) col_state \<Rightarrow> ('q, 'z) col_state result" where
  "set_color lm p s = (let (c, io) = s in
     if current_bank_mode c \<noteq> HSI_COLOR_MODE then Inr s
     else let (i, _) = getIluminance lm p
          in bind_res (to_unsigned 16 (d_mul i (Num 65535))) (\<lambda>n.
             let c1 = edit_raw (\<lambda>r. r\<lparr>primary_position := of_nat n\<rparr>) (c\<lparr>color := p\<rparr>)
             in bind_res (update_encoder_leds lm (update_physical_fader_position False (c1, io))) (\<lambda>s1.
                bind_res (update_side_leds lm s1) (\<lambda>s2. Inr (send_col_update_to_fish lm s2)))))"

definition set_raw_configuration :: "libm \<Rightarrow> raw_column_configuration \<Rightarrow> ('q, 'z) col_state \<Rightarrow> ('q, 'z) col_state result" where
  "set_raw_configuration lm r s = (let (c, io) = s in
     bind_res (update_encoder_leds lm (update_physical_fader_position False (c\<lparr>raw_configuration := r\<rparr>, io)))
       (\<lambda>s'. Inr (send_col_update_to_fish lm s')))"

definition set_amber_value :: "libm \<Rightarrow> u8 \<Rightarrow> ('q, 'z) col_state \<Rightarrow> ('q, 'z) col_state" where
  "set_amber_value lm v s = send_col_update_to_fish lm ((fst s)\<lparr>amber := v\<rparr>, snd s)"

definition get_amber_value :: "bank_column \<Rightarrow> u8" where
  "get_amber_value c = (if black_active c then 0 else amber c)"

definition set_uv_value :: "libm \<Rightarrow> u8 \<Rightarrow> ('q, 'z) col_state \<Rightarrow> ('q, 'z) col_state" where
  "set_uv_value lm v s = send_col_update_to_fish lm
     ((if readymode_active (fst s) then (fst s)\<lparr>readymode_uv := v\<rparr> else (fst s)\<lparr>uv := v\<rparr>), snd s)"

definition get_uv_value :: "bank_column \<Rightarrow> u8" where
  "get_uv_value c = (if black_active c then 0 else uv c)"

definition set_select_button_active :: "bool \<Rightarrow> ('q, 'z) col_state \<Rightarrow> ('q, 'z) col_state" where
  "set_select_button_active st s = update_button_leds ((fst s)\<lparr>select_active := st\<rparr>, snd s)"

definition set_display_color :: "u8 \<Rightarrow> bank_column \<Rightarrow> bank_column" where
  "set_display_color v c = c\<lparr>display_color := v\<rparr>"

end
