(* ===== verification/Column_Ready.thy ===== *)
theory Column_Ready
  imports Bank_Column
begin

text \<open>
  The ready mode of a desk column: while it is active every input changes a copy, and what the
  show reads from the column stays as it was until the copy is committed.
\<close>

subsection \<open>Ready mode\<close>

text \<open>What the show reads from a column, and what is staged while the ready mode is active.\<close>

definition column_output :: "bank_column \<Rightarrow> pixel \<times> raw_column_configuration \<times> u8 \<times> u8" where
  "column_output c = (color c, raw_configuration c, amber c, uv c)"

definition staged :: "bank_column \<Rightarrow> pixel \<times> raw_column_configuration \<times> u8 \<times> u8" where
  "staged c = (readymode_color c, readymode_raw_configuration c, readymode_amber c, readymode_uv c)"

definition untouched :: "bank_column \<Rightarrow> bank_column \<Rightarrow> bool" where
  "untouched c c' \<longleftrightarrow> readymode_active c' \<and> column_output c' = column_output c"

named_theorems staging

lemma untouched_trans: "untouched c c' \<Longrightarrow> untouched c' c'' \<Longrightarrow> untouched c c''"
  by (simp add: untouched_def)

lemma on_device_fst [simp]: "fst (on_device f s) = fst s"
  by (simp add: on_device_def split: prod.splits)

lemma fader_position_fst [simp]: "fst (update_physical_fader_position b s) = fst s"
  by (simp add: update_physical_fader_position_def Let_def)

lemma button_leds_fst [simp]: "fst (update_button_leds s) = fst s"
  by (simp add: update_button_leds_def Let_def)

lemma edited_color_untouched [staging]:
  "readymode_active c \<Longrightarrow> untouched c (snd (edited_color get c))"
  by (simp add: edited_color_def untouched_def column_output_def split: prod.splits)

lemma held_value_untouched [staging]: "readymode_active c \<Longrightarrow> untouched c (snd (held_value lm c))"
  using edited_color_untouched [of c]
  by (auto simp: held_value_def untouched_def split: rotary_encoder_assignment.splits prod.splits) (metis snd_conv)+

lemma display_text_untouched [staging]: "readymode_active (fst s) \<Longrightarrow> untouched (fst s) (fst (update_display_text lm s))"
  using held_value_untouched [of "fst s" lm]
  by (cases s) (auto simp: update_display_text_def untouched_def Let_def split: prod.splits if_splits)

lemma encoder_leds_untouched [staging]:
  "update_encoder_leds lm s = Inr s' \<Longrightarrow> readymode_active (fst s) \<Longrightarrow> untouched (fst s) (fst s')"
  using edited_color_untouched [of "fst s" "getHue lm"]
  by (cases s) (auto simp: update_encoder_leds_def untouched_def Let_def bind_res_Inr_iff split: prod.splits if_splits)

lemma side_leds_untouched [staging]:
  "update_side_leds lm s = Inr s' \<Longrightarrow> readymode_active (fst s) \<Longrightarrow> untouched (fst s) (fst s')"
  using edited_color_untouched [of "fst s" "getSaturation lm"]
  by (cases s) (auto simp: update_side_leds_def untouched_def Let_def bind_res_Inr_iff split: prod.splits if_splits)

lemma color_to_message_untouched: "readymode_active c \<Longrightarrow> untouched c (snd (color_to_message lm c))"
  by (simp add: color_to_message_def edited_color_def untouched_def column_output_def Let_def case_prod_beta)

lemma col_update_untouched [staging]: "readymode_active (fst s) \<Longrightarrow> untouched (fst s) (fst (send_col_update_to_fish lm s))"
  using color_to_message_untouched [of "fst s" lm]
  by (cases s) (auto simp: send_col_update_to_fish_def untouched_def Let_def split: prod.splits if_splits)

lemma edit_raw_untouched [staging]: "readymode_active c \<Longrightarrow> untouched c (edit_raw f c)"
  by (simp add: edit_raw_def untouched_def column_output_def)

lemma edit_color_untouched [staging]: "edit_color f c = Inr c' \<Longrightarrow> readymode_active c \<Longrightarrow> untouched c c'"
  by (auto simp: edit_color_def untouched_def column_output_def bind_res_Inr_iff)

lemma turn_encoder_untouched [staging]: "turn_encoder lm change c = Inr c' \<Longrightarrow> readymode_active c \<Longrightarrow> untouched c c'"
  by (auto simp: turn_encoder_def bind_res_Inr_iff untouched_def column_output_def
      split: if_splits rotary_encoder_assignment.splits dest: edit_color_untouched [unfolded untouched_def column_output_def])

lemma untouched_same_output: "readymode_active c' \<Longrightarrow> column_output c' = column_output c \<Longrightarrow> untouched c c'"
  by (simp add: untouched_def)

lemma fader_change_untouched:
  assumes "process_fader_change_message lm p (c, io) = Inr s'" and r: "readymode_active c"
  shows "untouched c (fst s')"
proof -
  let ?p = "(if p > 65535 then 65535 else ucast p) :: u16"
  let ?c1 = "edit_raw (set_position (raw_working_on_primary c) (\<lambda>_. ?p)) c"
  have u1: "untouched c ?c1" using edit_raw_untouched [OF r] .
  obtain c2 where c2: "(if current_bank_mode c \<noteq> DIRECT_INPUT_MODE
       then edit_color (setIluminance lm (d_div (d_of_word ?p) (Num 65535))) ?c1 else Inr ?c1) = Inr c2"
    and s': "s' = send_col_update_to_fish lm (if current_bank_mode c = DIRECT_INPUT_MODE
        then update_display_text lm (update_physical_fader_position False (c2, io)) else update_physical_fader_position False (c2, io))"
    using assms(1) by (auto simp: process_fader_change_message_def Let_def bind_res_Inr_iff)
  have "untouched ?c1 c2" using c2 edit_color_untouched u1 by (auto simp: untouched_def split: if_splits)
  then have u2: "untouched c c2" using u1 untouched_trans by blast
  let ?s2 = "update_physical_fader_position False (c2, io)"
  have "untouched c (fst (if current_bank_mode c = DIRECT_INPUT_MODE then update_display_text lm ?s2 else ?s2))"
    using u2 display_text_untouched [of ?s2 lm] by (auto simp: untouched_def)
  then show ?thesis using col_update_untouched s' untouched_trans unfolding untouched_def by blast
qed

lemma encoder_change_untouched:
  assumes "process_encoder_change_message lm p (c, io) = Inr s'" and r: "readymode_active c"
  shows "untouched c (fst s')"
proof -
  let ?n = "if accumulated_change c < 1024 then accumulated_change c + 1 else accumulated_change c"
  let ?c1 = "c\<lparr>accumulated_change := ?n, last_encoder_turn := last_update_timestamp c\<rparr>"
  let ?c2 = "edit_raw (set_position (raw_working_on_primary ?c1) (\<lambda>q. q + ucast (p * of_nat ?n))) ?c1"
  have u1: "untouched c ?c1" using r by (simp add: untouched_def column_output_def)
  have u2: "untouched ?c1 ?c2" using r by (intro edit_raw_untouched) simp
  obtain c3 s1 s2 where c3: "turn_encoder lm (p * of_nat ?n) ?c2 = Inr c3"
    and s1: "update_encoder_leds lm (update_display_text lm (c3\<lparr>display_hold_until := last_update_timestamp c3 + 2500\<rparr>, io)) = Inr s1"
    and s2: "update_side_leds lm s1 = Inr s2"
    and s': "s' = send_col_update_to_fish lm (if current_bank_mode c = DIRECT_INPUT_MODE then update_physical_fader_position False s2 else s2)"
    using assms(1) by (auto simp: process_encoder_change_message_def Let_def bind_res_Inr_iff)
  have "untouched ?c2 c3" using turn_encoder_untouched [OF c3] u2 by (simp add: untouched_def)
  then have u3: "untouched c c3" using u1 u2 untouched_trans by blast
  let ?s0 = "(c3\<lparr>display_hold_until := last_update_timestamp c3 + 2500\<rparr>, io)"
  have u4: "untouched c (fst ?s0)" using u3 by (simp add: untouched_def column_output_def)
  have "untouched c (fst (update_display_text lm ?s0))"
    using display_text_untouched u4 untouched_trans unfolding untouched_def by blast
  then have "untouched c (fst s1)" using encoder_leds_untouched [OF s1] untouched_trans unfolding untouched_def by blast
  then have "untouched c (fst s2)" using side_leds_untouched [OF s2] untouched_trans unfolding untouched_def by blast
  then show ?thesis using col_update_untouched [of "if current_bank_mode c = DIRECT_INPUT_MODE then update_physical_fader_position False s2 else s2" lm]
    s' by (auto simp: untouched_def)
qed

text \<open>What can happen to a column while it stays in the ready mode.\<close>

datatype column_input = Move_fader u32 | Turn_encoder u32 | Tick u64 | Show_text string bool | Toggle_select bool

definition column_step :: "libm \<Rightarrow> column_input \<Rightarrow> ('q, 'z) col_state \<Rightarrow> ('q, 'z) col_state result" where
  "column_step lm i s = (case i of
      Move_fader p \<Rightarrow> process_fader_change_message lm p s
    | Turn_encoder ch \<Rightarrow> process_encoder_change_message lm ch s
    | Tick now \<Rightarrow> Inr (column_update lm now s)
    | Show_text txt up \<Rightarrow> Inr (set_display_text lm txt up s)
    | Toggle_select st \<Rightarrow> Inr (set_select_button_active st s))"

lemma display_after: "untouched c c' \<Longrightarrow> untouched c (fst (update_display_text lm (c', io)))"
  using display_text_untouched [of "(c', io)" lm] by (simp add: untouched_def)

lemma scroll_display_untouched: "untouched c c' \<Longrightarrow> untouched c (scroll_display now c')"
  by (simp add: scroll_display_def untouched_def column_output_def split: prod.splits)

lemma column_update_untouched: "readymode_active (fst s) \<Longrightarrow> untouched (fst s) (fst (column_update lm now s))"
proof -
  assume r: "readymode_active (fst s)"
  obtain c io where s: "s = (c, io)" by (cases s)
  define c1 where "c1 = (if last_encoder_turn c + 750 < last_update_timestamp c then c\<lparr>accumulated_change := 0\<rparr> else c)"
  define c2 where "c2 = (if last_display_scroll c1 + 1000 < last_update_timestamp c1 then scroll_display now c1 else c1)"
  have "untouched c c1" using r s by (simp add: c1_def untouched_def column_output_def)
  then have "untouched c c2" using scroll_display_untouched by (simp add: c2_def)
  then have c3: "untouched c (c2\<lparr>last_update_timestamp := now\<rparr>)" by (simp add: untouched_def column_output_def)
  have "fst (column_update lm now s) \<in> {fst (update_display_text lm (c2\<lparr>last_update_timestamp := now\<rparr>, io)), c2\<lparr>last_update_timestamp := now\<rparr>}"
    by (simp add: column_update_def s Let_def c1_def c2_def)
  then show ?thesis using c3 display_after [OF c3] s by auto
qed

lemma set_display_text_untouched: "readymode_active (fst s) \<Longrightarrow> untouched (fst s) (fst (set_display_text lm txt up s))"
proof -
  assume r: "readymode_active (fst s)"
  obtain c io where s: "s = (c, io)" by (cases s)
  have "untouched c (c\<lparr>display_text_up := ls, display_scroll_position_up := 0, display_text_index_up := n\<rparr>)"
    "untouched c (c\<lparr>display_text_down := ls, display_scroll_position_down := 0, display_text_index_down := n\<rparr>)" for ls n
    using r s by (simp_all add: untouched_def column_output_def)
  then show ?thesis by (simp add: set_display_text_def s Let_def display_after)
qed

lemma column_step_untouched:
  assumes "column_step lm i s = Inr s'" and "readymode_active (fst s)"
  shows "untouched (fst s) (fst s')"
proof (cases s)
  case (Pair c io)
  show ?thesis
  proof (cases i)
    case (Move_fader p)
    then show ?thesis using fader_change_untouched [of lm p c io s'] assms Pair by (simp add: column_step_def)
  next
    case (Turn_encoder ch)
    then show ?thesis using encoder_change_untouched [of lm ch c io s'] assms Pair by (simp add: column_step_def)
  next
    case (Tick now)
    then show ?thesis using column_update_untouched [of s lm now] assms by (auto simp: column_step_def)
  next
    case (Show_text t up)
    then show ?thesis using set_display_text_untouched [of s lm t up] assms by (auto simp: column_step_def)
  next
    case (Toggle_select st)
    then show ?thesis using assms by (auto simp: column_step_def set_select_button_active_def untouched_def column_output_def)
  qed
qed

lemma column_steps_untouched:
  "fold_res (column_step lm) is s = Inr s' \<Longrightarrow> readymode_active (fst s) \<Longrightarrow> untouched (fst s) (fst s')"
proof (induction "is" arbitrary: s)
  case Nil
  then show ?case by (simp add: untouched_def)
next
  case (Cons i "is")
  then obtain s1 where s1: "column_step lm i s = Inr s1" "fold_res (column_step lm) is s1 = Inr s'" by (auto simp: bind_res_Inr_iff)
  have u: "untouched (fst s) (fst s1)" using column_step_untouched [OF s1(1)] Cons.prems(2) .
  then show ?case using Cons.IH [OF s1(2)] untouched_trans unfolding untouched_def by blast
qed

subsection \<open>Committing\<close>

text \<open>A colour as its getters leave it: converted to HSI any number of times.\<close>

definition converted :: "libm \<Rightarrow> pixel \<Rightarrow> pixel \<Rightarrow> bool" where
  "converted lm p q \<longleftrightarrow> (\<exists>n. q = (convert_rgb_to_hsi_pre lm ^^ n) p)"

lemma converted_refl [simp]: "converted lm p p"
  unfolding converted_def by (rule exI [of _ 0]) simp

lemma converted_step: "converted lm p q \<Longrightarrow> converted lm p (convert_rgb_to_hsi_pre lm q)"
  unfolding converted_def by (metis comp_apply funpow.simps(2))

definition in_use :: "libm \<Rightarrow> pixel \<times> raw_column_configuration \<times> u8 \<times> u8 \<Rightarrow> bank_column \<Rightarrow> bool" where
  "in_use lm v c \<longleftrightarrow> \<not> readymode_active c \<and> snd (column_output c) = snd v \<and> converted lm (fst v) (color c)"

lemma getters_convert:
  "snd (getHue lm p) = convert_rgb_to_hsi_pre lm p" "snd (getSaturation lm p) = convert_rgb_to_hsi_pre lm p"
  "snd (getIluminance lm p) = convert_rgb_to_hsi_pre lm p"
  by (simp_all add: getHue_def getSaturation_def getIluminance_def Let_def)

lemma edited_color_in_use:
  assumes "in_use lm v c" and "\<And>p. snd (get p) = convert_rgb_to_hsi_pre lm p"
  shows "in_use lm v (snd (edited_color get c))"
  using assms(1) assms(2) [of "color c"] converted_step
  by (cases "get (color c)") (auto simp: in_use_def edited_color_def column_output_def)

lemmas color_in_use = edited_color_in_use [OF _ getters_convert(1)] edited_color_in_use [OF _ getters_convert(2)]
  edited_color_in_use [OF _ getters_convert(3)]

lemma held_value_in_use: "in_use lm v c \<Longrightarrow> in_use lm v (snd (held_value lm c))"
  using color_in_use [of lm v c] by (auto simp: held_value_def split: rotary_encoder_assignment.splits prod.splits)

lemma display_text_in_use: "in_use lm v (fst s) \<Longrightarrow> in_use lm v (fst (update_display_text lm s))"
  using held_value_in_use [of lm v "fst s"]
  by (cases s) (auto simp: update_display_text_def Let_def split: prod.splits if_splits)

lemma side_leds_in_use: "update_side_leds lm s = Inr s' \<Longrightarrow> in_use lm v (fst s) \<Longrightarrow> in_use lm v (fst s')"
  using color_in_use(2) [of lm v "fst s"]
  by (cases s) (auto simp: update_side_leds_def Let_def bind_res_Inr_iff split: prod.splits if_splits)

lemma col_update_in_use: "in_use lm v (fst s) \<Longrightarrow> in_use lm v (fst (send_col_update_to_fish lm s))"
proof -
  assume u: "in_use lm v (fst s)"
  have "in_use lm v (snd (color_to_message lm (fst s)))"
    using color_in_use(3) [OF color_in_use(2) [OF color_in_use(1) [OF u]]]
    by (simp add: color_to_message_def Let_def case_prod_beta)
  then show ?thesis using u
    by (cases s) (auto simp: send_col_update_to_fish_def Let_def split: prod.splits if_splits)
qed

lemma commit_in_use:
  assumes "commit_from_readymode lm s = Inr s'"
  shows "in_use lm (staged (fst s)) (fst s')"
proof -
  obtain c io where s: "s = (c, io)" by (cases s)
  let ?c = "c\<lparr>color := readymode_color c, raw_configuration := readymode_raw_configuration c, readymode_active := False,
            amber := readymode_amber c, uv := readymode_uv c\<rparr>"
  obtain s1 where s1: "update_side_leds lm (update_display_text lm (update_button_leds (?c, io))) = Inr s1"
    and s': "s' = send_col_update_to_fish lm s1"
    using assms s by (auto simp: commit_from_readymode_def Let_def bind_res_Inr_iff)
  have "in_use lm (staged c) (fst (update_button_leds (?c, io)))"
    by (simp add: in_use_def staged_def column_output_def)
  from col_update_in_use [OF side_leds_in_use [OF s1 display_text_in_use [OF this]]] show ?thesis by (simp add: s s')
qed

text \<open>
  C20. Ready mode: as long as a column is in the ready mode, no sequence of fader moves, encoder turns,
  display updates and clock ticks changes what the show reads from it (colour, fader positions,
  amber and ultraviolet level). When the ready mode is committed, the show reads exactly the
  values that were staged, the colour up to the conversions its getters perform, and the column
  has left the ready mode.
\<close>

theorem ready_mode_stages_changes:
  assumes "readymode_active (fst s)" and "fold_res (column_step lm) is s = Inr s1"
  shows "column_output (fst s1) = column_output (fst s) \<and> readymode_active (fst s1)
    \<and> (\<forall>s2. commit_from_readymode lm s1 = Inr s2 \<longrightarrow> in_use lm (staged (fst s1)) (fst s2))"
proof (intro conjI allI impI)
  show "column_output (fst s1) = column_output (fst s)" "readymode_active (fst s1)"
    using column_steps_untouched [OF assms(2,1)] by (simp_all add: untouched_def)
qed (rule commit_in_use)

lemma no_device:
  assumes "devices (snd s) = []"
  shows "update_button_leds s = s" "update_display_text lm s = s" "update_side_leds lm s = Inr s"
  using assms by (cases s, simp add: update_button_leds_def on_device_def Let_def update_display_text_def update_side_leds_def)+

definition demo_column :: bank_column where
  "demo_column = (new_bank_column 0 DIRECT_INPUT_MODE ''c'' 0)\<lparr>readymode_active := True\<rparr>"

theorem ready_mode_stages_changes_witness:
  "\<exists>s1 s2. fold_res (column_step demo_libm) [Move_fader 300, Tick 20, Move_fader 70000]
        (demo_column, \<lparr>devices = [], clients = []\<rparr> :: unit desk_io) = Inr s1
     \<and> column_output (fst s1) = column_output demo_column
     \<and> commit_from_readymode demo_libm s1 = Inr s2 \<and> primary_position (raw_configuration (fst s2)) = 65535"
proof -
  let ?io = "\<lparr>devices = [], clients = []\<rparr> :: unit desk_io"
  obtain s1 where s1: "fold_res (column_step demo_libm) [Move_fader 300, Tick 20, Move_fader 70000] (demo_column, ?io) = Inr s1"
    and p: "primary_position (readymode_raw_configuration (fst s1)) = 65535" and d: "devices (snd s1) = []"
    by (simp add: column_step_def process_fader_change_message_def demo_column_def new_bank_column_def column_update_def
        edit_raw_def set_position_def update_physical_fader_position_def update_display_text_def send_col_update_to_fish_def
        push_gui_def push_msg_to_all_gui_def edited_raw_def default_raw_def)
  have r: "readymode_active (fst (demo_column, ?io))" by (simp add: demo_column_def)
  obtain s2 where s2: "commit_from_readymode demo_libm s1 = Inr s2"
    using d by (cases s1) (simp add: commit_from_readymode_def no_device Let_def)
  from ready_mode_stages_changes [OF r s1] s2 have "column_output (fst s1) = column_output demo_column"
    "in_use demo_libm (staged (fst s1)) (fst s2)" by simp_all
  then have "primary_position (raw_configuration (fst s2)) = 65535" "column_output (fst s1) = column_output demo_column"
    using p by (simp_all add: in_use_def staged_def column_output_def)
  then show ?thesis using s1 s2 by blast
qed

subsection \<open>Levels\<close>

text \<open>
  Turning the encoder on amber or ultraviolet saturates: whatever amount is requested, the
  level becomes the exact sum cut to 0 to 255, unless the sum leaves the range of an \<open>int\<close>,
  which the code does not exclude.
\<close>

theorem add_level_saturates:
  "add_level v change = (if int (unat v) + sint change < 2 ^ 31
     then Inr (of_int (max 0 (min 255 (int (unat v) + sint change)))) else Inl Undefined_behaviour)"
proof -
  have "of_int (sint change) = (ucast change :: u8)"
    by transfer (simp add: take_bit_signed_take_bit)
  then have "(v :: u8) + ucast change = of_int (int (unat v) + sint change)" by simp
  then show ?thesis by (auto simp: add_level_def Let_def max_def min_def)
qed

end
