(* ===== verification/Desk.thy ===== *)
theory Desk
  imports Bank_Column Events
begin

text \<open>
  \<^verbatim>\<open>src/src/control_desk/desk.cpp\<close> and \<^verbatim>\<open>desk.hpp\<close>: the control desk with its devices and its sets of
  fader banks. The columns live in a store, because a bank and the index of its set share them: a
  bank holds positions of the store. Containers that the standard does not order are lists in the
  order of insertion. A read past the end of a vector is undefined behaviour.

  The record \<open>desk_env\<close> has what a call finds around it: the byte queue, the mathematical library,
  the time, and whether the lock of the event storage is free. Rolling back the show belongs to
  the manager of the show files, so it is a parameter of the operations that may trigger it.
\<close>

unbundle bit_operations_syntax

record ('q, 'r) desk_env =
  de_net :: "('q, 'r) midi_net"
  de_libm :: libm
  de_now :: u64
  de_mutex_free :: bool

record bank =
  bk_columns :: "nat list"
  current_col_update_index :: nat

record bank_set =
  active_bank :: nat
  fader_banks :: "bank list"
  columns_map :: "(string, nat) omap"
  columns_in_ready_state :: "string list"
  bs_id :: string

record 'q desk = "'q desk_io" +
  col_store :: "bank_column list"
  bank_sets :: "bank_set list"
  bankset_to_index_map :: "(string, nat) omap"
  selected_column_id :: string
  find_enabled_on_column_id :: string
  max_number_of_colums :: nat
  current_active_bank_set :: nat
  jogwheel_change :: int
  update_message_required :: bool
  bank_set_modification_happened :: bool
  global_dark :: bool
  self_initialized_readymode :: bool
  global_illumination :: u16
  gpio_event_sender :: nat
  ev :: ev_world

text \<open>The messages of the user interface, decoded.\<close>

record fader_column_msg =
  fm_column_id :: string
  fm_display_color :: u32
  fm_top_inverted :: bool
  fm_bottom_inverted :: bool
  fm_upper_text :: string
  fm_lower_text :: string
  fm_data :: "double column_data option"

record add_bank_set_msg =
  am_bank_id :: string
  am_banks :: "fader_column_msg list list"
  am_default_active :: u32

datatype led_request = BS_ACTIVE | BS_SET_LED_BLINKING | BS_other

subsection \<open>Banks\<close>

definition on_column ::
  "nat \<Rightarrow> (bank_column \<times> ('q, 'z) desk_scheme \<Rightarrow> (bank_column \<times> ('q, 'z) desk_scheme) result) \<Rightarrow>
   ('q, 'z) desk_scheme \<Rightarrow> ('q, 'z) desk_scheme result" where
  "on_column a f d =
     bind_res (vec_at (col_store d) a) (\<lambda>c. bind_res (f (c, d)) (\<lambda>(c', d').
       Inr (d'\<lparr>col_store := (col_store d')[a := c']\<rparr>)))"

definition pure_op :: "('s \<Rightarrow> 's) \<Rightarrow> 's \<Rightarrow> 's result" where
  "pure_op f s = Inr (f s)"

definition bank_activate :: "('q, 'r) desk_env \<Rightarrow> bank \<Rightarrow> ('q, 'z) desk_scheme \<Rightarrow> ('q, 'z) desk_scheme result" where
  "bank_activate E b d = fold_res (\<lambda>a. on_column a (set_active (de_libm E) True)) (bk_columns b) d"

definition bank_deactivate ::
  "('q, 'r) desk_env \<Rightarrow> nat \<Rightarrow> bank \<Rightarrow> ('q, 'z) desk_scheme \<Rightarrow> ('q, 'z) desk_scheme result" where
  "bank_deactivate E columns_in_next_row b d =
     bind_res (fold_res (\<lambda>a. on_column a (set_active (de_libm E) False)) (bk_columns b) d) (\<lambda>d'.
       fold_res (\<lambda>a. on_column a (pure_op reset_column)) (drop columns_in_next_row (bk_columns b)) d')"

definition bank_update ::
  "('q, 'r) desk_env \<Rightarrow> bank \<Rightarrow> ('q, 'z) desk_scheme \<Rightarrow> (bank \<times> ('q, 'z) desk_scheme) result" where
  "bank_update E b d =
     (if current_col_update_index b < length (bk_columns b)
      then bind_res (on_column (bk_columns b ! current_col_update_index b)
             (pure_op (column_update (de_libm E) (de_now E))) d)
             (\<lambda>d'. Inr (b\<lparr>current_col_update_index := current_col_update_index b + 1\<rparr>, d'))
      else Inr (b\<lparr>current_col_update_index := 0\<rparr>, d))"

definition bank_get :: "bank \<Rightarrow> nat \<Rightarrow> nat option" where
  "bank_get b pos = (if pos < length (bk_columns b) then Some (bk_columns b ! pos) else None)"

definition active_fader_bank :: "bank_set \<Rightarrow> bank option" where
  "active_fader_bank bs = (if active_bank bs < length (fader_banks bs) then Some (fader_banks bs ! active_bank bs) else None)"

definition current_bank_set :: "('q, 'z) desk_scheme \<Rightarrow> bank_set option" where
  "current_bank_set d = (if current_active_bank_set d < length (bank_sets d)
     then Some (bank_sets d ! current_active_bank_set d) else None)"

definition upd_bank_set :: "nat \<Rightarrow> (bank_set \<Rightarrow> bank_set) \<Rightarrow> ('q, 'z) desk_scheme \<Rightarrow> ('q, 'z) desk_scheme" where
  "upd_bank_set i f d = d\<lparr>bank_sets := (bank_sets d)[i := f (bank_sets d ! i)]\<rparr>"

subsection \<open>Devices\<close>

definition all_devices :: "('q device_handle \<Rightarrow> 'q device_handle) \<Rightarrow> ('q, 'z) desk_scheme \<Rightarrow> ('q, 'z) desk_scheme" where
  "all_devices f d = d\<lparr>devices := map f (devices d)\<rparr>"

definition xtouch_devices :: "('q device_handle \<Rightarrow> 'q device_handle) \<Rightarrow> ('q, 'z) desk_scheme \<Rightarrow> ('q, 'z) desk_scheme" where
  "xtouch_devices f d = all_devices (\<lambda>dev. if device_id dev = X_TOUCH then f dev else dev) d"

definition update_fader_bank_leds :: "('q, 'r) desk_env \<Rightarrow> ('q, 'z) desk_scheme \<Rightarrow> ('q, 'z) desk_scheme" where
  "update_fader_bank_leds E d = (case current_bank_set d of
      None \<Rightarrow> d
    | Some cbs \<Rightarrow> all_devices (\<lambda>dev. schedule_transmission (de_net E)
        (xtouch_set_button_led BTN_FADERBANKNEXT
           (if size_add (active_bank cbs) 1 = length (fader_banks cbs) then led_off else led_on)
        (xtouch_set_button_led BTN_FADERBANKPREV (if active_bank cbs = 0 then led_off else led_on) dev))) d)"

definition reset_device :: "('q, 'r) desk_env \<Rightarrow> 'q device_handle \<Rightarrow> 'q device_handle" where
  "reset_device E dev =
     (let lcds = fold (\<lambda>i. xtouch_set_lcd_display (of_nat i) (of_nat i) (blank_array 14)) [0..<8];
          faders = (\<lambda>is. fold (\<lambda>i. xtouch_set_fader_position (of_nat i) 0) is)
      in schedule_transmission (de_net E) (case device_id dev of
          X_TOUCH \<Rightarrow> faders [70..<79] (lcds (xtouch_set_seg_display (replicate 12 (CHR ''-''))
            (fold (\<lambda>b. xtouch_set_button_led b led_off) xtouch_buttons dev)))
        | X_TOUCH_EXTENSION \<Rightarrow> faders [70..<78] (lcds
            (fold (\<lambda>b. xtouch_set_button_led b led_off) xtouch_extender_buttons dev))))"

definition reset_devices :: "('q, 'r) desk_env \<Rightarrow> ('q, 'z) desk_scheme \<Rightarrow> ('q, 'z) desk_scheme result" where
  "reset_devices E d =
     bind_res (case Option.bind (current_bank_set d) active_fader_bank of
         None \<Rightarrow> Inr d | Some b \<Rightarrow> bank_deactivate E 0 b d)
       (\<lambda>d'. Inr (all_devices (reset_device E) d'))"

definition set_seven_seg_display_data :: "('q, 'r) desk_env \<Rightarrow> string \<Rightarrow> ('q, 'z) desk_scheme \<Rightarrow> ('q, 'z) desk_scheme" where
  "set_seven_seg_display_data E data d =
     (let seg_data = take 12 data @ drop (length (take 12 data)) (blank_array 12)
      in xtouch_devices (\<lambda>dev. schedule_transmission (de_net E) (xtouch_set_seg_display seg_data dev)) d)"

definition notify_showfile_changed :: "('q, 'r) desk_env \<Rightarrow> bool \<Rightarrow> ('q, 'z) desk_scheme \<Rightarrow> ('q, 'z) desk_scheme" where
  "notify_showfile_changed E rollback_available d =
     xtouch_devices (\<lambda>dev. schedule_transmission (de_net E)
       (xtouch_set_button_led BTN_USER_OOPS (if rollback_available then led_on else led_off) dev)) d"

definition update_button_leds_from_protobuf ::
  "('q, 'r) desk_env \<Rightarrow> int \<Rightarrow> led_request \<Rightarrow> ('q, 'z) desk_scheme \<Rightarrow> ('q, 'z) desk_scheme" where
  "update_button_leds_from_protobuf E b s d =
     (if b < 0 \<or> b > 103 then d
      else let st = (case s of BS_ACTIVE \<Rightarrow> led_on | BS_SET_LED_BLINKING \<Rightarrow> led_flash | BS_other \<Rightarrow> led_off)
           in all_devices (\<lambda>dev. schedule_transmission (de_net E) (xtouch_set_button_led (of_int b) st dev)) d)"

subsection \<open>Switching banks\<close>

definition enter_bank_set :: "nat \<Rightarrow> ('q, 'z) desk_scheme \<Rightarrow> ('q, 'z) desk_scheme" where
  "enter_bank_set index d = (let d' = d\<lparr>current_active_bank_set := index\<rparr>
     in if active_fader_bank (bank_sets d ! index) = None then upd_bank_set index (\<lambda>bs. bs\<lparr>active_bank := 0\<rparr>) d' else d')"

definition set_active_bank_set ::
  "('q, 'r) desk_env \<Rightarrow> nat \<Rightarrow> ('q, 'z) desk_scheme \<Rightarrow> (bool \<times> ('q, 'z) desk_scheme) result" where
  "set_active_bank_set E index d =
     (if index < length (bank_sets d) \<and> (index \<noteq> current_active_bank_set d \<or> bank_set_modification_happened d)
      then bind_res (vec_at (bank_sets d) (current_active_bank_set d)) (\<lambda>cbs.
        let nbs = bank_sets d ! index;
            size_of_bank_on_new_set = (case active_fader_bank nbs of None \<Rightarrow> 0 | Some b \<Rightarrow> length (bk_columns b))
        in bind_res (case active_fader_bank cbs of
               None \<Rightarrow> Inr d | Some b \<Rightarrow> bank_deactivate E size_of_bank_on_new_set b d) (\<lambda>d1.
           let d3 = enter_bank_set index d1
           in bind_res (case active_fader_bank (bank_sets d3 ! index) of
                  None \<Rightarrow> Inr d3 | Some b \<Rightarrow> bank_activate E b d3) (\<lambda>d4.
              Inr (True, (update_fader_bank_leds E d4)
                \<lparr>update_message_required := True, bank_set_modification_happened := False\<rparr>))))
      else Inr (False, d))"

definition set_active_bank_set_by_id ::
  "('q, 'r) desk_env \<Rightarrow> string \<Rightarrow> ('q, 'z) desk_scheme \<Rightarrow> (bool \<times> ('q, 'z) desk_scheme) result" where
  "set_active_bank_set_by_id E i d = (case map_of (bankset_to_index_map d) i of
      None \<Rightarrow> Inr (False, d)
    | Some k \<Rightarrow> set_active_bank_set E k (d\<lparr>update_message_required := True\<rparr>))"

definition set_active_fader_bank_on_current_set ::
  "('q, 'r) desk_env \<Rightarrow> nat \<Rightarrow> ('q, 'z) desk_scheme \<Rightarrow> (bool \<times> ('q, 'z) desk_scheme) result" where
  "set_active_fader_bank_on_current_set E index d = (case current_bank_set d of
      None \<Rightarrow> Inr (False, d)
    | Some cbs \<Rightarrow>
        (if index \<ge> length (fader_banks cbs) then Inr (False, d)
         else if index = active_bank cbs \<and> \<not> bank_set_modification_happened d then Inr (False, d)
         else bind_res (vec_at (fader_banks cbs) (active_bank cbs)) (\<lambda>old.
           bind_res (bank_deactivate E (length (bk_columns (fader_banks cbs ! index))) old d) (\<lambda>d1.
           let d2 = upd_bank_set (current_active_bank_set d) (\<lambda>bs. bs\<lparr>active_bank := index\<rparr>) d1
           in bind_res (bank_activate E (fader_banks cbs ! index) d2) (\<lambda>d3.
             Inr (True, (update_fader_bank_leds E d3)\<lparr>update_message_required := True\<rparr>))))))"

definition get_active_fader_bank_on_current_set :: "('q, 'z) desk_scheme \<Rightarrow> nat" where
  "get_active_fader_bank_on_current_set d = (case current_bank_set d of None \<Rightarrow> 0 | Some cbs \<Rightarrow> active_bank cbs)"

subsection \<open>Ready mode and selection\<close>

definition enter_readymode :: "('q, 'r) desk_env \<Rightarrow> ('q, 'z) desk_scheme \<Rightarrow> ('q, 'z) desk_scheme" where
  "enter_readymode E d = push_gui (Readymode_update RUC_ENTERED)
     (xtouch_devices (\<lambda>dev. schedule_transmission (de_net E) (xtouch_set_button_led BTN_GLOBALVIEW_COMMITRDY led_flash dev)) d)"

definition abort_readymode :: "('q, 'r) desk_env \<Rightarrow> ('q, 'z) desk_scheme \<Rightarrow> ('q, 'z) desk_scheme" where
  "abort_readymode E d = (push_gui (Readymode_update RUC_ABORTED)
     (xtouch_devices (\<lambda>dev. schedule_transmission (de_net E) (xtouch_set_button_led BTN_GLOBALVIEW_COMMITRDY led_off dev)) d))
     \<lparr>self_initialized_readymode := False\<rparr>"

definition commit_readymode :: "('q, 'r) desk_env \<Rightarrow> ('q, 'z) desk_scheme \<Rightarrow> ('q, 'z) desk_scheme result" where
  "commit_readymode E d =
     (let d1 = push_gui (Readymode_update RUC_COMMITED)
            (xtouch_devices (xtouch_set_button_led BTN_GLOBALVIEW_COMMITRDY led_off) d)
      in case current_bank_set d1 of
          None \<Rightarrow> Inr d1
        | Some bs \<Rightarrow>
            bind_res (fold_res (\<lambda>cid d. case map_of (columns_map bs) cid of
                 None \<Rightarrow> Inr d | Some a \<Rightarrow> on_column a (commit_from_readymode (de_libm E)) d)
               (columns_in_ready_state bs) d1)
            (\<lambda>d2. Inr ((upd_bank_set (current_active_bank_set d2) (\<lambda>bs. bs\<lparr>columns_in_ready_state := []\<rparr>) d2)
                \<lparr>self_initialized_readymode := False\<rparr>)))"

definition process_readymode_update_from_gui ::
  "('q, 'r) desk_env \<Rightarrow> ready_cause \<Rightarrow> ('q, 'z) desk_scheme \<Rightarrow> ('q, 'z) desk_scheme result" where
  "process_readymode_update_from_gui E cause d = (let d' = d\<lparr>self_initialized_readymode := False\<rparr> in
     case cause of
       RUC_ENTERED \<Rightarrow> Inr (enter_readymode E d')
     | RUC_ABORTED \<Rightarrow> Inr (abort_readymode E d')
     | RUC_COMMITED \<Rightarrow> commit_readymode E d')"

definition handle_ready_state_update_from_bank ::
  "('q, 'r) desk_env \<Rightarrow> string \<Rightarrow> bool \<Rightarrow> ('q, 'z) desk_scheme \<Rightarrow> ('q, 'z) desk_scheme" where
  "handle_ready_state_update_from_bank E cid new_state d = (case current_bank_set d of
      None \<Rightarrow> d
    | Some bs \<Rightarrow>
        (let rset = (if new_state
                     then (if cid \<in> set (columns_in_ready_state bs) then columns_in_ready_state bs
                           else columns_in_ready_state bs @ [cid])
                     else filter (\<lambda>x. x \<noteq> cid) (columns_in_ready_state bs));
             d1 = upd_bank_set (current_active_bank_set d) (\<lambda>bs. bs\<lparr>columns_in_ready_state := rset\<rparr>) d
         in if rset = [] then (if self_initialized_readymode d1 then abort_readymode E d1 else d1)
            else enter_readymode E (d1\<lparr>self_initialized_readymode := True\<rparr>)))"

definition handle_select_state_update_from_bank ::
  "string \<Rightarrow> bool \<Rightarrow> ('q, 'z) desk_scheme \<Rightarrow> ('q, 'z) desk_scheme result" where
  "handle_select_state_update_from_bank cid new_state d = (case current_bank_set d of
      None \<Rightarrow> Inr d
    | Some cbs \<Rightarrow>
        bind_res (case map_of (columns_map cbs) (selected_column_id d) of
            None \<Rightarrow> Inr d | Some a \<Rightarrow> on_column a (pure_op (set_select_button_active False)) d) (\<lambda>d1.
        let sel = (if map_of (columns_map cbs) cid \<noteq> None \<and> new_state then cid else []);
            d2 = d1\<lparr>selected_column_id := sel\<rparr>
        in bind_res (if new_state \<and> sel \<noteq> []
             then (case map_of (columns_map cbs) sel of
                     None \<Rightarrow> Inr d2 | Some a \<Rightarrow> on_column a (pure_op (set_select_button_active True)) d2)
             else Inr d2) (\<lambda>d3.
           Inr (d3\<lparr>update_message_required := True\<rparr>))))"

subsection \<open>Requests of the user interface\<close>

definition current_column :: "string \<Rightarrow> ('q, 'z) desk_scheme \<Rightarrow> nat option" where
  "current_column cid d = Option.bind (current_bank_set d) (\<lambda>bs. map_of (columns_map bs) cid)"

definition column_colors :: "fader_column_msg \<Rightarrow> u8" where
  "column_colors msg = ucast (fm_display_color msg) OR (if fm_top_inverted msg then 0b00010000 else 0)
     OR (if fm_bottom_inverted msg then 0b00100000 else 0)"

definition set_column_data ::
  "libm \<Rightarrow> double column_data option \<Rightarrow> bank_column \<times> ('q, 'z) desk_scheme \<Rightarrow> (bank_column \<times> ('q, 'z) desk_scheme) result" where
  "set_column_data lm data s = (let raw = (\<lambda>fader rotary leds. set_raw_configuration lm
        ((raw_configuration (fst s))\<lparr>primary_position := ucast (fader :: u32), secondary_position := ucast (rotary :: u32),
           meter_leds := ucast (leds :: u32)\<rparr>) s)
     in case data of
       Some (Plain_color h x i) \<Rightarrow> bind_res (hsi_pixel lm h x i) (\<lambda>p. set_color lm p s)
     | Some (Color_with_uv h x i u) \<Rightarrow>
         (let s1 = set_uv_value lm (ucast u) s in bind_res (hsi_pixel lm h x i) (\<lambda>p. set_color lm p s1))
     | Some (Raw_data fader rotary leds) \<Rightarrow> raw fader rotary leds
     | None \<Rightarrow> raw 0 0 0)"

definition update_column_from_message ::
  "('q, 'r) desk_env \<Rightarrow> fader_column_msg \<Rightarrow> nat option \<Rightarrow> ('q, 'z) desk_scheme \<Rightarrow> ('q, 'z) desk_scheme result" where
  "update_column_from_message E msg bank_set_index d =
     (let active_bs_index = (case bank_set_index of None \<Rightarrow> current_active_bank_set d | Some i \<Rightarrow> i) in
      if active_bs_index \<ge> length (bank_sets d) then Inr d
      else case map_of (columns_map (bank_sets d ! active_bs_index)) (fm_column_id msg) of
          None \<Rightarrow> Inr d
        | Some a \<Rightarrow> on_column a (\<lambda>(c, d).
            set_column_data (de_libm E) (fm_data msg)
              (set_display_text (de_libm E) (fm_lower_text msg) False
                (set_display_text (de_libm E) (fm_upper_text msg) True (set_display_color (column_colors msg) c, d)))) d)"

definition deduce_bank_mode :: "fader_column_msg \<Rightarrow> bank_mode" where
  "deduce_bank_mode msg = (case fm_data msg of
      Some (Plain_color _ _ _) \<Rightarrow> HSI_COLOR_MODE
    | Some (Color_with_uv _ _ _ _) \<Rightarrow> HSI_WITH_UV_MODE
    | Some (Raw_data _ _ _) \<Rightarrow> DIRECT_INPUT_MODE
    | None \<Rightarrow> HSI_WITH_AMBER_AND_UV_MODE)"

text \<open>
  The columns of a bank go to the devices from the left, eight to a device. The check for too many
  columns comes before the step to the next device.
\<close>

fun add_columns ::
  "('q, 'r) desk_env \<Rightarrow> nat \<Rightarrow> fader_column_msg list \<Rightarrow> nat \<Rightarrow> nat \<Rightarrow> ('q, 'z) desk_scheme \<Rightarrow> ('q, 'z) desk_scheme result" where
  "add_columns E k [] device_index col_index d = Inr d"
| "add_columns E k (m # ms) device_index col_index d =
     (if device_index = length (devices d) then Inr d
      else let (di, ci) = (if col_index = number_of_supported_columns then (device_index + 1, 0) else (device_index, col_index))
           in bind_res (vec_at (devices d) di) (\<lambda>_.
              let a = length (col_store d);
                  c = new_bank_column di (deduce_bank_mode m) (fm_column_id m) (of_nat ci);
                  d1 = d\<lparr>col_store := col_store d @ [c]\<rparr>;
                  d2 = upd_bank_set k (\<lambda>bs. bs\<lparr>
                         fader_banks := (fader_banks bs)[length (fader_banks bs) - 1 :=
                            (last (fader_banks bs))\<lparr>bk_columns := bk_columns (last (fader_banks bs)) @ [a]\<rparr>],
                         columns_map := om_update (fm_column_id m) a (columns_map bs)\<rparr>) d1
              in bind_res (update_column_from_message E m (Some k) d2) (add_columns E k ms di (ci + 1))))"

definition add_bank ::
  "('q, 'r) desk_env \<Rightarrow> nat \<Rightarrow> fader_column_msg list \<Rightarrow> ('q, 'z) desk_scheme \<Rightarrow> ('q, 'z) desk_scheme result" where
  "add_bank E k cols d = add_columns E k cols 0 0
     (upd_bank_set k (\<lambda>bs. bs\<lparr>fader_banks := fader_banks bs @ [\<lparr>bk_columns = [], current_col_update_index = 0\<rparr>]\<rparr>) d)"

definition bank_set_slot :: "string \<Rightarrow> ('q, 'z) desk_scheme \<Rightarrow> nat \<times> ('q, 'z) desk_scheme" where
  "bank_set_slot i d = (case map_of (bankset_to_index_map d) i of
      Some k \<Rightarrow> (k, d)
    | None \<Rightarrow> (length (bank_sets d), d\<lparr>bank_sets := bank_sets d @ [\<lparr>active_bank = 0, fader_banks = [], columns_map = [],
            columns_in_ready_state = [], bs_id = i\<rparr>],
          bankset_to_index_map := om_update i (length (bank_sets d)) (bankset_to_index_map d)\<rparr>))"

definition fill_bank_set ::
  "('q, 'r) desk_env \<Rightarrow> nat \<Rightarrow> add_bank_set_msg \<Rightarrow> ('q, 'z) desk_scheme \<Rightarrow> ('q, 'z) desk_scheme result" where
  "fill_bank_set E k msg d =
     bind_res (fold_res (add_bank E k) (am_banks msg)
         (upd_bank_set k (\<lambda>bs. bs\<lparr>fader_banks := [], columns_map := [], columns_in_ready_state := []\<rparr>) d))
       (\<lambda>d'. Inr (upd_bank_set k (\<lambda>bs. bs\<lparr>active_bank := nat (sint (am_default_active msg) mod 2 ^ 64)\<rparr>) d'))"

definition add_bank_set_from_protobuf_msg ::
  "('q, 'r) desk_env \<Rightarrow> add_bank_set_msg \<Rightarrow> ('q, 'z) desk_scheme \<Rightarrow> ('q, 'z) desk_scheme result" where
  "add_bank_set_from_protobuf_msg E msg d =
     (let (k, d1) = bank_set_slot (am_bank_id msg) (d\<lparr>bank_set_modification_happened := True\<rparr>)
      in bind_res (vec_at (bank_sets d1) k) (\<lambda>_.
         bind_res (fill_bank_set E k msg d1) (\<lambda>d2.
           if length (bank_sets d2) = 1
           then bind_res (set_active_bank_set E 0 d2) (\<lambda>(_, d3). Inr d3)
           else Inr (update_fader_bank_leds E d2))))"

text \<open>The loop over the map looks for the entry of the set that moves.\<close>

definition redirect_index :: "nat \<Rightarrow> nat \<Rightarrow> (string, nat) omap \<Rightarrow> (string, nat) omap" where
  "redirect_index from into m = (case find (\<lambda>(k, v). v = from) m of None \<Rightarrow> m | Some (k, _) \<Rightarrow> om_update k into m)"

definition pop_bank_set :: "('q, 'z) desk_scheme \<Rightarrow> ('q, 'z) desk_scheme" where
  "pop_bank_set d = d\<lparr>bank_sets := butlast (bank_sets d)\<rparr>"

definition remove_last_set :: "('q, 'r) desk_env \<Rightarrow> nat \<Rightarrow> ('q, 'z) desk_scheme \<Rightarrow> ('q, 'z) desk_scheme result" where
  "remove_last_set E i d =
     bind_res (if i = current_active_bank_set d
                then (if length (bank_sets d) > 1 then bind_res (set_active_bank_set E (i - 1) d) (\<lambda>(_, d'). Inr d')
                      else (case active_fader_bank (bank_sets d ! i) of None \<Rightarrow> Inr d | Some b \<Rightarrow> bank_deactivate E 0 b d))
                else Inr d) (\<lambda>d1. Inr (pop_bank_set d1))"

definition move_last_set :: "nat \<Rightarrow> ('q, 'z) desk_scheme \<Rightarrow> ('q, 'z) desk_scheme" where
  "move_last_set i d = (let s = length (bank_sets d) in
     d\<lparr>bank_sets := (bank_sets d)[i := bank_sets d ! (s - 1)],
       bankset_to_index_map := redirect_index (s - 1) i (bankset_to_index_map d)\<rparr>)"

definition remove_inner_set :: "('q, 'r) desk_env \<Rightarrow> nat \<Rightarrow> ('q, 'z) desk_scheme \<Rightarrow> ('q, 'z) desk_scheme result" where
  "remove_inner_set E i d =
     bind_res (if current_active_bank_set d = length (bank_sets d) - 1
               then bind_res (set_active_bank_set E i (move_last_set i d)) (\<lambda>(_, d'). Inr d')
               else Inr (move_last_set i d)) (\<lambda>d2. Inr (pop_bank_set d2))"

definition remove_bank_set :: "('q, 'r) desk_env \<Rightarrow> nat \<Rightarrow> ('q, 'z) desk_scheme \<Rightarrow> ('q, 'z) desk_scheme result" where
  "remove_bank_set E i d0 =
     (let d = d0\<lparr>bank_set_modification_happened := True\<rparr>; s = length (bank_sets d)
      in if i + 1 > s then Inr d
         else if i + 1 = s then remove_last_set E i d
         else remove_inner_set E i d)"

definition remove_bank_set_by_id ::
  "('q, 'r) desk_env \<Rightarrow> string \<Rightarrow> ('q, 'z) desk_scheme \<Rightarrow> (bool \<times> ('q, 'z) desk_scheme) result" where
  "remove_bank_set_by_id E i d = (case map_of (bankset_to_index_map d) i of
      None \<Rightarrow> Inr (False, d)
    | Some k \<Rightarrow> bind_res (remove_bank_set E k d) (\<lambda>d'. Inr (True, d')))"

definition update_fader_position_from_protobuf ::
  "('q, 'r) desk_env \<Rightarrow> string \<Rightarrow> u32 \<Rightarrow> ('q, 'z) desk_scheme \<Rightarrow> ('q, 'z) desk_scheme result" where
  "update_fader_position_from_protobuf E cid position d =
     (if cid = ''main''
      then Inr (xtouch_devices (xtouch_set_fader_position FADER_MAIN (ucast (position * 127 div 65536)))
             (d\<lparr>global_illumination := ucast position\<rparr>))
      else case current_column cid d of
          None \<Rightarrow> Inr d
        | Some a \<Rightarrow> on_column a (process_fader_change_message (de_libm E) position) d)"

definition update_encoder_state_from_protobuf ::
  "('q, 'r) desk_env \<Rightarrow> string \<Rightarrow> u32 \<Rightarrow> ('q, 'z) desk_scheme \<Rightarrow> ('q, 'z) desk_scheme result" where
  "update_encoder_state_from_protobuf E cid amount d = (case current_column cid d of
      None \<Rightarrow> Inr d
    | Some a \<Rightarrow> on_column a (process_encoder_change_message (de_libm E) amount) d)"

definition process_desk_update_message ::
  "('q, 'r) desk_env \<Rightarrow> desk_state_msg \<Rightarrow> ('q, 'z) desk_scheme \<Rightarrow> ('q, 'z) desk_scheme result" where
  "process_desk_update_message E msg d =
     bind_res (set_active_bank_set_by_id E (dm_selected_bank_set msg) (set_seven_seg_display_data E (dm_seven_seg msg) d)) (\<lambda>(_, d1).
     bind_res (set_active_fader_bank_on_current_set E (nat (dm_selected_bank msg mod 2 ^ 64)) d1) (\<lambda>(_, d2).
       if dm_selected_column msg \<noteq> selected_column_id d2
       then handle_select_state_update_from_bank (dm_selected_column msg) True d2 else Inr d2))"

definition find_column :: "string \<Rightarrow> string \<Rightarrow> ('q, 'z) desk_scheme \<Rightarrow> nat option" where
  "find_column set_id cid d = (case map_of (bankset_to_index_map d) set_id of
      None \<Rightarrow> None
    | Some k \<Rightarrow> if k < length (bank_sets d) then map_of (columns_map (bank_sets d ! k)) cid else None)"

definition get_global_illumination :: "('q, 'z) desk_scheme \<Rightarrow> u16" where
  "get_global_illumination d = (if global_dark d then 0 else global_illumination d)"

subsection \<open>Input of the devices\<close>

definition press_message :: "nat \<Rightarrow> midi_command \<Rightarrow> double out_message" where
  "press_message device_index c = Button_state_change (int (device_index * 256 + unat (data_1 c))) (data_2 c > 10)"

definition handle_bord_buttons ::
  "('q, 'r) desk_env \<Rightarrow> (('q, 'z) desk_scheme \<Rightarrow> ('q, 'z) desk_scheme result) \<Rightarrow> u8 \<Rightarrow> u8 \<Rightarrow>
   ('q, 'z) desk_scheme \<Rightarrow> ('q, 'z) desk_scheme result" where
  "handle_bord_buttons E rollback b c d =
     (if b = BTN_GLOBALVIEW_COMMITRDY then (if c \<noteq> button_pressed then Inr d else commit_readymode E d)
      else if b = BTN_FADERBANKPREV then
        (if c \<noteq> button_pressed then Inr d
         else bind_res (set_active_fader_bank_on_current_set E (size_sub (get_active_fader_bank_on_current_set d) 1) d)
                (\<lambda>(_, d'). Inr d'))
      else if b = BTN_FADERBANKNEXT then
        (if c \<noteq> button_pressed then Inr d
         else bind_res (set_active_fader_bank_on_current_set E (size_add (get_active_fader_bank_on_current_set d) 1) d)
                (\<lambda>(_, d'). Inr d'))
      else if b = BTN_USER_OOPS \<and> c = button_pressed then rollback d
      else if b = BTN_FLIP_MAINDARK then
        (if c \<noteq> button_pressed then Inr d
         else let d1 = d\<lparr>global_dark := \<not> global_dark d\<rparr>
              in Inr (all_devices (xtouch_set_button_led BTN_FLIP_MAINDARK (if global_dark d1 then led_flash else led_off)) d1))
      else Inr (push_gui (Button_state_change (int (unat b)) (c = button_pressed)) d))"

text \<open>The column of the active bank a command belongs to. No bank: nothing happens; no column: None.\<close>

definition on_active_column ::
  "nat \<Rightarrow> (nat \<Rightarrow> ('q, 'z) desk_scheme \<Rightarrow> ('q, 'z) desk_scheme result) \<Rightarrow> ('q, 'z) desk_scheme \<Rightarrow>
   (bool \<times> ('q, 'z) desk_scheme) result" where
  "on_active_column column_index f d = (case Option.bind (current_bank_set d) active_fader_bank of
      None \<Rightarrow> Inr (True, d)
    | Some b \<Rightarrow> (case bank_get b column_index of
         None \<Rightarrow> Inr (False, d)
       | Some a \<Rightarrow> bind_res (f a d) (\<lambda>d'. Inr (True, d'))))"

definition press_column_button ::
  "('q, 'r) desk_env \<Rightarrow> nat \<Rightarrow> midi_command \<Rightarrow> nat \<Rightarrow> ('q, 'z) desk_scheme \<Rightarrow> ('q, 'z) desk_scheme result" where
  "press_column_button E device_index c a d =
     bind_res (vec_at (col_store d) a) (\<lambda>col.
     bind_res (process_button_press_message (de_libm E) (handle_ready_state_update_from_bank E) (data_1 c) (data_2 c) (col, d))
       (\<lambda>((col', d1), select).
        let d2 = d1\<lparr>col_store := (col_store d1)[a := col']\<rparr>
        in bind_res (case select of None \<Rightarrow> Inr d2 | Some st \<Rightarrow> handle_select_state_update_from_bank (column_id col) st d2)
             (\<lambda>d3. Inr (push_gui (press_message device_index c) d3))))"

definition move_column_fader ::
  "('q, 'r) desk_env \<Rightarrow> midi_command \<Rightarrow> nat \<Rightarrow> ('q, 'z) desk_scheme \<Rightarrow> ('q, 'z) desk_scheme result" where
  "move_column_fader E c a d =
     (let v = (if data_2 c < 127 then unat (data_2 c) else 128) * 512
      in bind_res (on_column a (process_fader_change_message (de_libm E) (of_nat v)) d) (\<lambda>d1.
         Inr (push_gui (Fader_position (column_id (col_store d1 ! a)) (int v)) d1)))"

definition turn_column_encoder ::
  "('q, 'r) desk_env \<Rightarrow> midi_command \<Rightarrow> nat \<Rightarrow> ('q, 'z) desk_scheme \<Rightarrow> ('q, 'z) desk_scheme result" where
  "turn_column_encoder E c a d =
     (let change = (if data_2 c = 65 then 1 else - 1) :: int
      in bind_res (on_column a (process_encoder_change_message (de_libm E) (of_int change)) d) (\<lambda>d1.
         Inr (push_gui (Rotary_encoder_change (column_id (col_store d1 ! a)) change) d1)))"

definition send_gpio :: "('q, 'r) desk_env \<Rightarrow> u32 \<Rightarrow> u32 \<Rightarrow> ('q, 'z) desk_scheme \<Rightarrow> ('q, 'z) desk_scheme result" where
  "send_gpio E port new_state d =
     bind_res (vec_at (senders (storage (ev d))) (gpio_event_sender d)) (\<lambda>self.
     bind_res (xtouch_send_message self (de_mutex_free E) port new_state (ev d)) (\<lambda>(_, w). Inr (d\<lparr>ev := w\<rparr>)))"

definition control_change_command ::
  "('q, 'r) desk_env \<Rightarrow> nat \<Rightarrow> midi_command \<Rightarrow> ('q, 'z) desk_scheme \<Rightarrow> (bool \<times> ('q, 'z) desk_scheme) result" where
  "control_change_command E device_index c d = (let go_on = (\<lambda>r. bind_res r (\<lambda>d'. Inr (True, d'))) in
     if xtouch_is_column_fader (data_1 c)
     then on_active_column (device_index * 8 + (unat (data_1 c) - 70)) (move_column_fader E c) d
     else if xtouch_is_column_encoder (data_1 c)
     then on_active_column (device_index * 8 + (unat (data_1 c) - 80)) (turn_column_encoder E c) d
     else if data_1 c = 88
     then Inr (True, d\<lparr>jogwheel_change := jogwheel_change d + (if data_2 c > 60 then 1 else - 1), update_message_required := True\<rparr>)
     else if data_1 c = FADER_MAIN
     then Inr (True, d\<lparr>global_illumination := of_nat (unat (data_2 c) * 65535 div 127)\<rparr>)
     else if data_1 c = 64 \<or> data_1 c = 67
     then go_on (send_gpio E (if data_1 c = 64 then 0 else 1) (if data_2 c > 0 then 1 else 0) d)
     else if data_1 c = 4 then go_on (send_gpio E 2 (ucast (data_2 c)) d)
     else Inr (True, d))"

definition process_incomming_command ::
  "('q, 'r) desk_env \<Rightarrow> (('q, 'z) desk_scheme \<Rightarrow> ('q, 'z) desk_scheme result) \<Rightarrow> nat \<Rightarrow> midi_command \<Rightarrow>
   ('q, 'z) desk_scheme \<Rightarrow> ('q, 'z) desk_scheme result" where
  "process_incomming_command E rollback device_index c d =
     bind_res
       (if mc_status c = NOTE_ON then
          (if xtouch_is_column_button (data_1 c)
           then on_active_column (device_index * 8 + unat (data_1 c) mod 8) (press_column_button E device_index c) d
           else if xtouch_is_fader_touch (data_1 c) then Inr (True, push_gui (press_message device_index c) d)
           else bind_res (handle_bord_buttons E rollback (data_1 c) (data_2 c) d) (\<lambda>d'. Inr (True, d')))
        else if mc_status c = CONTROL_CHANGE then control_change_command E device_index c d
        else Inr (True, d))
       (\<lambda>(transmit, d'). Inr (if transmit
          then d'\<lparr>devices := (devices d')[device_index := schedule_transmission (de_net E) (devices d' ! device_index)]\<rparr>
          else d'))"

text \<open>\<open>update\<close>: the commands that arrived, device by device; each is taken from its queue first.\<close>

definition next_command ::
  "('q, 'r) desk_env \<Rightarrow> (('q, 'z) desk_scheme \<Rightarrow> ('q, 'z) desk_scheme result) \<Rightarrow> nat \<Rightarrow> ('q, 'z) desk_scheme \<Rightarrow> ('q, 'z) desk_scheme result" where
  "next_command E rollback i d = (case get_next_command_from_desk (devices d ! i) of
      (None, _) \<Rightarrow> Inr d
    | (Some c, dev) \<Rightarrow> process_incomming_command E rollback i c (d\<lparr>devices := (devices d)[i := dev]\<rparr>))"

definition update_device ::
  "('q, 'r) desk_env \<Rightarrow> (('q, 'z) desk_scheme \<Rightarrow> ('q, 'z) desk_scheme result) \<Rightarrow> nat \<Rightarrow> ('q, 'z) desk_scheme \<Rightarrow> ('q, 'z) desk_scheme result" where
  "update_device E rollback i d =
     bind_res (fold_res (\<lambda>_. next_command E rollback i) (incomming_queue (devices d ! i)) d) (\<lambda>d'.
       Inr (d'\<lparr>devices := (devices d')[i := schedule_transmission (de_net E) (devices d' ! i)]\<rparr>))"

definition desk_state_message :: "('q, 'z) desk_scheme \<Rightarrow> desk_state_msg" where
  "desk_state_message d =
     \<lparr>dm_selected_column = selected_column_id d, dm_find_active_on = find_enabled_on_column_id d,
      dm_jogwheel_change = jogwheel_change d,
      dm_selected_bank = (case current_bank_set d of None \<Rightarrow> 0 | Some bs \<Rightarrow> sint (of_nat (active_bank bs) :: u32)),
      dm_selected_bank_set = (case current_bank_set d of None \<Rightarrow> [] | Some bs \<Rightarrow> bs_id bs), dm_seven_seg = []\<rparr>"

definition desk_update ::
  "('q, 'r) desk_env \<Rightarrow> (('q, 'z) desk_scheme \<Rightarrow> ('q, 'z) desk_scheme result) \<Rightarrow> ('q, 'z) desk_scheme \<Rightarrow> ('q, 'z) desk_scheme result" where
  "desk_update E rollback d =
     bind_res (case Option.bind (current_bank_set d) active_fader_bank of
         None \<Rightarrow> Inr d
       | Some b \<Rightarrow> bind_res (bank_update E b d) (\<lambda>(b', d').
           Inr (upd_bank_set (current_active_bank_set d') (\<lambda>bs. bs\<lparr>fader_banks := (fader_banks bs)[active_bank bs := b']\<rparr>) d')))
     (\<lambda>d1. bind_res (fold_res (update_device E rollback) [0..<length (devices d)] d1)
     (\<lambda>d2. Inr (if update_message_required d2
        then (push_gui (Desk_update (desk_state_message d2)) (d2\<lparr>update_message_required := False\<rparr>))\<lparr>jogwheel_change := 0\<rparr>
        else d2)))"

subsection \<open>Construction\<close>

definition greet_device :: "('q, 'r) desk_env \<Rightarrow> 'q device_handle \<Rightarrow> 'q device_handle" where
  "greet_device E dev = schedule_transmission (de_net E) (case device_id dev of
      X_TOUCH \<Rightarrow> xtouch_set_lcd_display 1 0x17 '' DMX    1.0.1 '' (xtouch_set_lcd_display 0 0x17 ''MissionVersion'' dev)
    | X_TOUCH_EXTENSION \<Rightarrow> xtouch_set_lcd_display 0 0x17 ''Extend.Connect'' dev)"

definition open_devices :: "('q, 'r) desk_env \<Rightarrow> (bool \<times> midi_device_id) list \<Rightarrow> 'q device_handle list result" where
  "open_devices E inputs = fold_res (\<lambda>(opened, i) ds. bind_res (new_device (de_net E) opened i) (\<lambda>dev. Inr (ds @ [dev]))) inputs []"

definition new_desk ::
  "('q, 'r) desk_env \<Rightarrow> (bool \<times> midi_device_id) list \<Rightarrow> double gui_client list \<Rightarrow> ev_world \<Rightarrow> 'q desk result" where
  "new_desk E inputs cl w =
     bind_res (open_devices E inputs) (\<lambda>ds.
     bind_res (create_source (Gpio_source 0) ''Xtouch GPIO'' w) (\<lambda>(sender, w').
       Inr \<lparr>devices = map (greet_device E \<circ> reset_device E) ds, clients = cl, col_store = [], bank_sets = [],
            bankset_to_index_map = [], selected_column_id = [], find_enabled_on_column_id = [],
            max_number_of_colums = 8 * length inputs, current_active_bank_set = 0, jogwheel_change = 0,
            update_message_required = False, bank_set_modification_happened = False, global_dark = False,
            self_initialized_readymode = False, global_illumination = 0, gpio_event_sender = sender, ev = w'\<rparr>))"

end
