(* ===== verification/Desk_Ok.thy ===== *)
theory Desk_Ok
  imports Desk
begin

text \<open>
  The store of the control desk: no operation of a column changes more than the column, the device
  it writes to and the clients (\<open>io_step\<close>, \<open>desk_frame\<close>), and every operation of the desk keeps the
  banks and indices inside the store (\<open>desk_inv\<close>).
\<close>

subsection \<open>What an operation of a column can reach\<close>

definition io_step :: "('q, 'z) col_state \<Rightarrow> ('q, 'z) col_state \<Rightarrow> bool" where
  "io_step s s' \<longleftrightarrow> connection (fst s') = connection (fst s) \<and> column_id (fst s') = column_id (fst s)
     \<and> length (devices (snd s')) = length (devices (snd s))
     \<and> snd s' = (snd s)\<lparr>devices := devices (snd s'), clients := clients (snd s')\<rparr>"

lemma io_step_refl [simp]: "io_step s s"
  by (simp add: io_step_def)

lemma io_step_trans: "io_step s t \<Longrightarrow> io_step t u \<Longrightarrow> io_step s u"
  unfolding io_step_def
  by (metis (no_types, lifting) desk_io.update_convs desk_io.surjective desk_io.select_convs)

lemma io_step_column: "connection c' = connection c \<Longrightarrow> column_id c' = column_id c \<Longrightarrow> io_step (c, io) (c', io)"
  by (simp add: io_step_def)

lemma on_device_io [simp]: "io_step s (on_device f s)"
  by (cases s) (simp add: on_device_def io_step_def)

lemma push_gui_io [simp]: "io_step (c, io) (c, push_gui m io)"
  by (simp add: push_gui_def io_step_def)

named_theorems column_io

lemma edited_color_same [simp]:
  "connection (snd (edited_color get c)) = connection c" "column_id (snd (edited_color get c)) = column_id c"
  by (simp_all add: edited_color_def split: prod.splits)

lemma edited_color_same' [simp]:
  assumes "edited_color get c = (v, c')"
  shows "connection c' = connection c" "column_id c' = column_id c"
  using edited_color_same [of get c] by (simp_all add: assms)

lemma edit_raw_same [simp]: "connection (edit_raw f c) = connection c" "column_id (edit_raw f c) = column_id c"
  by (simp_all add: edit_raw_def)

lemma edit_color_same: "edit_color f c = Inr c' \<Longrightarrow> connection c' = connection c \<and> column_id c' = column_id c"
  by (auto simp: edit_color_def bind_res_Inr_iff split: if_splits)

lemma turn_encoder_same: "turn_encoder lm ch c = Inr c' \<Longrightarrow> connection c' = connection c \<and> column_id c' = column_id c"
  by (auto simp: turn_encoder_def bind_res_Inr_iff dest: edit_color_same split: if_splits rotary_encoder_assignment.splits)

lemma held_value_same: "held_value lm c = (v, c') \<Longrightarrow> connection c' = connection c \<and> column_id c' = column_id c"
  by (auto simp: held_value_def split: if_splits rotary_encoder_assignment.splits prod.splits)

lemma fader_position_io [simp]: "io_step s (update_physical_fader_position b s)"
  by (simp add: update_physical_fader_position_def Let_def)

lemma button_leds_io [simp]: "io_step s (update_button_leds s)"
  by (simp add: update_button_leds_def Let_def)

lemma reset_column_io [simp]: "io_step s (reset_column s)"
  by (simp add: reset_column_def Let_def)

lemma device_after: "connection c' = connection c \<Longrightarrow> column_id c' = column_id c \<Longrightarrow> io_step (c, io) (on_device f (c', io))"
  using io_step_trans [OF io_step_column on_device_io] .

lemma encoder_leds_io: "update_encoder_leds lm s = Inr s' \<Longrightarrow> io_step s s'"
  by (cases s) (auto simp: update_encoder_leds_def Let_def bind_res_Inr_iff split: if_splits prod.splits intro: device_after)

lemma side_leds_io: "update_side_leds lm s = Inr s' \<Longrightarrow> io_step s s'"
  by (cases s) (auto simp: update_side_leds_def Let_def bind_res_Inr_iff split: if_splits prod.splits intro: device_after)

lemma display_text_io [simp]: "io_step s (update_display_text lm s)"
  by (cases s) (auto simp: update_display_text_def Let_def dest: held_value_same split: if_splits prod.splits intro!: device_after)

lemma gui_after: "connection c' = connection c \<Longrightarrow> column_id c' = column_id c \<Longrightarrow> io_step (c, io) (c', push_gui m io)"
  using io_step_trans [OF io_step_column push_gui_io] .

lemma color_to_message_same: "color_to_message lm c = (v, c') \<Longrightarrow> connection c' = connection c \<and> column_id c' = column_id c"
  by (auto simp: color_to_message_def Let_def split: prod.splits)

lemma col_update_io [simp]: "io_step s (send_col_update_to_fish lm s)"
  by (cases s) (auto simp: send_col_update_to_fish_def Let_def dest: color_to_message_same split: if_splits prod.splits intro!: gui_after)

lemma display_after_io: "io_step s t \<Longrightarrow> io_step s (update_display_text lm t)"
  and fader_after_io: "io_step s t \<Longrightarrow> io_step s (update_physical_fader_position b t)"
  and buttons_after_io: "io_step s t \<Longrightarrow> io_step s (update_button_leds t)"
  and col_update_after_io: "io_step s t \<Longrightarrow> io_step s (send_col_update_to_fish lm t)"
  by (rule io_step_trans, assumption, simp)+

lemma encoder_after_io: "update_encoder_leds lm t = Inr s' \<Longrightarrow> io_step s t \<Longrightarrow> io_step s s'"
  using encoder_leds_io io_step_trans by blast

lemma side_after_io: "update_side_leds lm t = Inr s' \<Longrightarrow> io_step s t \<Longrightarrow> io_step s s'"
  using side_leds_io io_step_trans by blast

lemmas after_io = display_after_io fader_after_io buttons_after_io col_update_after_io

lemma column_change_io: "connection c' = connection (fst s) \<Longrightarrow> column_id c' = column_id (fst s) \<Longrightarrow> io_step s (c', snd s)"
  by (cases s) (simp add: io_step_column)

lemma set_active_io: "set_active lm b s = Inr s' \<Longrightarrow> io_step s s'"
proof -
  assume a: "set_active lm b s = Inr s'"
  let ?s1 = "(fst s\<lparr>active_on_device := b\<rparr>, snd s)"
  have s1: "io_step s ?s1" by (rule column_change_io) simp_all
  show ?thesis
  proof (cases b)
    case True
    then obtain s2 where s2: "update_encoder_leds lm (update_physical_fader_position True (update_display_text lm ?s1)) = Inr s2"
      and s': "update_side_leds lm (update_button_leds s2) = Inr s'"
      using a by (auto simp: set_active_def Let_def bind_res_Inr_iff)
    show ?thesis by (intro side_after_io [OF s'] buttons_after_io encoder_after_io [OF s2] fader_after_io display_after_io s1)
  next
    case False
    then show ?thesis using a s1 by (simp add: set_active_def Let_def)
  qed
qed

lemma set_display_text_io [simp]: "io_step s (set_display_text lm txt up s)"
  by (cases s) (auto simp: set_display_text_def Let_def intro!: display_after_io io_step_column)

lemma scroll_display_same [simp]: "connection (scroll_display now c) = connection c" "column_id (scroll_display now c) = column_id c"
  by (simp_all add: scroll_display_def split: prod.splits)

lemma column_update_io [simp]: "io_step s (column_update lm now s)"
  by (cases s) (auto simp: column_update_def Let_def intro!: display_after_io io_step_column)

lemma set_select_io [simp]: "io_step s (set_select_button_active st s)"
  by (simp add: set_select_button_active_def buttons_after_io column_change_io)

lemma set_uv_io [simp]: "io_step s (set_uv_value lm v s)"
  by (auto simp: set_uv_value_def intro!: col_update_after_io column_change_io)

lemma set_raw_io: "set_raw_configuration lm r s = Inr s' \<Longrightarrow> io_step s s'"
proof -
  assume a: "set_raw_configuration lm r s = Inr s'"
  obtain c io where s: "s = (c, io)" by (cases s)
  obtain s1 where s1: "update_encoder_leds lm (update_physical_fader_position False (c\<lparr>raw_configuration := r\<rparr>, io)) = Inr s1"
    and s': "s' = send_col_update_to_fish lm s1"
    using a s by (auto simp: set_raw_configuration_def bind_res_Inr_iff)
  have "io_step s (c\<lparr>raw_configuration := r\<rparr>, io)" unfolding s by (rule io_step_column) simp_all
  then show ?thesis unfolding s' by (intro col_update_after_io encoder_after_io [OF s1] fader_after_io)
qed

lemma set_color_io: "set_color lm p s = Inr s' \<Longrightarrow> io_step s s'"
proof -
  assume a: "set_color lm p s = Inr s'"
  obtain c io where s: "s = (c, io)" by (cases s)
  show ?thesis
  proof (cases "current_bank_mode c = HSI_COLOR_MODE")
    case True
    then obtain n s1 s2 where s1:
      "update_encoder_leds lm (update_physical_fader_position False
          (edit_raw (\<lambda>r. r\<lparr>primary_position := of_nat n\<rparr>) (c\<lparr>color := p\<rparr>), io)) = Inr s1"
      and s2: "update_side_leds lm s1 = Inr s2" and s': "s' = send_col_update_to_fish lm s2"
      using a s by (auto simp: set_color_def Let_def bind_res_Inr_iff split: prod.splits)
    have "io_step s (edit_raw (\<lambda>r. r\<lparr>primary_position := of_nat n\<rparr>) (c\<lparr>color := p\<rparr>), io)"
      unfolding s by (rule io_step_column) simp_all
    then show ?thesis unfolding s' by (intro col_update_after_io side_after_io [OF s2] encoder_after_io [OF s1] fader_after_io)
  next
    case False
    then show ?thesis using a s by (simp add: set_color_def)
  qed
qed

lemma fader_change_io: "process_fader_change_message lm p s = Inr s' \<Longrightarrow> io_step s s'"
proof -
  assume a: "process_fader_change_message lm p s = Inr s'"
  obtain c io where s: "s = (c, io)" by (cases s)
  let ?p = "(if p > 65535 then 65535 else ucast p) :: u16"
  let ?c1 = "edit_raw (set_position (raw_working_on_primary c) (\<lambda>_. ?p)) c"
  obtain c2 where "(if current_bank_mode c \<noteq> DIRECT_INPUT_MODE
       then edit_color (setIluminance lm (d_div (d_of_word ?p) (Num 65535))) ?c1 else Inr ?c1) = Inr c2"
    and s': "s' = send_col_update_to_fish lm (if current_bank_mode c = DIRECT_INPUT_MODE
        then update_display_text lm (update_physical_fader_position False (c2, io)) else update_physical_fader_position False (c2, io))"
    using a s by (auto simp: process_fader_change_message_def Let_def bind_res_Inr_iff)
  then have c2: "connection c2 = connection c" "column_id c2 = column_id c" by (auto dest!: edit_color_same split: if_split_asm)
  have "io_step s (c2, io)" unfolding s using c2 by (rule io_step_column)
  then show ?thesis unfolding s' by (simp add: after_io)
qed

lemma encoder_change_io: "process_encoder_change_message lm p s = Inr s' \<Longrightarrow> io_step s s'"
proof -
  assume a: "process_encoder_change_message lm p s = Inr s'"
  obtain c io where s: "s = (c, io)" by (cases s)
  obtain c3 s1 s2 where c3: "connection c3 = connection c" "column_id c3 = column_id c"
    and s1: "update_encoder_leds lm (update_display_text lm (c3\<lparr>display_hold_until := last_update_timestamp c3 + 2500\<rparr>, io)) = Inr s1"
    and s2: "update_side_leds lm s1 = Inr s2"
    and s': "s' = send_col_update_to_fish lm (if current_bank_mode c = DIRECT_INPUT_MODE then update_physical_fader_position False s2 else s2)"
    using a s by (auto simp: process_encoder_change_message_def Let_def bind_res_Inr_iff dest!: turn_encoder_same)
  have "io_step s (c3\<lparr>display_hold_until := last_update_timestamp c3 + 2500\<rparr>, io)"
    unfolding s by (rule io_step_column) (simp_all add: c3)
  then have "io_step s s2" by (intro side_after_io [OF s2] encoder_after_io [OF s1] display_after_io)
  then show ?thesis unfolding s' by (simp add: after_io)
qed

lemma commit_io: "commit_from_readymode lm s = Inr s' \<Longrightarrow> io_step s s'"
proof -
  assume a: "commit_from_readymode lm s = Inr s'"
  obtain c io where s: "s = (c, io)" by (cases s)
  let ?c = "c\<lparr>color := readymode_color c, raw_configuration := readymode_raw_configuration c, readymode_active := False,
            amber := readymode_amber c, uv := readymode_uv c\<rparr>"
  obtain s1 where s1: "update_side_leds lm (update_display_text lm (update_button_leds (?c, io))) = Inr s1"
    and s': "s' = send_col_update_to_fish lm s1"
    using a s by (auto simp: commit_from_readymode_def Let_def bind_res_Inr_iff)
  have "io_step s (?c, io)" unfolding s by (rule io_step_column) simp_all
  then have "io_step s s1" by (intro side_after_io [OF s1] display_after_io buttons_after_io)
  then show ?thesis unfolding s' by (simp add: after_io)
qed

subsection \<open>The store\<close>

definition same_columns :: "bank_column list \<Rightarrow> bank_column list \<Rightarrow> bool" where
  "same_columns cs cs' \<longleftrightarrow> map connection cs' = map connection cs \<and> map column_id cs' = map column_id cs"

definition desk_frame :: "('q, 'z) desk_scheme \<Rightarrow> ('q, 'z) desk_scheme \<Rightarrow> bool" where
  "desk_frame d d' \<longleftrightarrow> length (devices d') = length (devices d) \<and> same_columns (col_store d) (col_store d')
     \<and> d' = d\<lparr>devices := devices d', clients := clients d', col_store := col_store d'\<rparr>"

lemma desk_frame_refl [simp]: "desk_frame d d"
  by (simp add: desk_frame_def same_columns_def)

lemma desk_frame_trans: "desk_frame d e \<Longrightarrow> desk_frame e f \<Longrightarrow> desk_frame d f"
proof -
  assume a: "desk_frame d e" "desk_frame e f"
  then have e: "e = d\<lparr>devices := devices e, clients := clients e, col_store := col_store e\<rparr>"
    and f: "f = e\<lparr>devices := devices f, clients := clients f, col_store := col_store f\<rparr>"
    unfolding desk_frame_def by blast+
  have "f = d\<lparr>devices := devices f, clients := clients f, col_store := col_store f\<rparr>"
    by (subst f, subst e) simp
  then show ?thesis using a unfolding desk_frame_def same_columns_def by simp
qed

lemma desk_frame_same:
  assumes "desk_frame d d'"
  shows "bank_sets d' = bank_sets d" "current_active_bank_set d' = current_active_bank_set d"
    "bankset_to_index_map d' = bankset_to_index_map d" "length (devices d') = length (devices d)"
    "length (col_store d') = length (col_store d)" "selected_column_id d' = selected_column_id d"
    "bank_set_modification_happened d' = bank_set_modification_happened d"
    "global_dark d' = global_dark d" "global_illumination d' = global_illumination d" "ev d' = ev d" "desk.more d' = desk.more d"
proof -
  have eq: "d' = d\<lparr>devices := devices d', clients := clients d', col_store := col_store d'\<rparr>"
    using assms by (simp add: desk_frame_def)
  show "bank_sets d' = bank_sets d" "current_active_bank_set d' = current_active_bank_set d"
    "bankset_to_index_map d' = bankset_to_index_map d" "selected_column_id d' = selected_column_id d"
    "bank_set_modification_happened d' = bank_set_modification_happened d"
    "global_dark d' = global_dark d" "global_illumination d' = global_illumination d" "ev d' = ev d" "desk.more d' = desk.more d"
    by (subst eq, simp)+
  show "length (devices d') = length (devices d)" using assms by (simp add: desk_frame_def)
  show "length (col_store d') = length (col_store d)"
    using assms unfolding desk_frame_def same_columns_def by (metis length_map)
qed

lemma on_column_frame:
  assumes "on_column a f d = Inr d'" and "\<And>c s'. f (c, d) = Inr s' \<Longrightarrow> io_step (c, d) s'"
  shows "desk_frame d d'"
proof -
  obtain c' d1 where a: "a < length (col_store d)" and f: "f (col_store d ! a, d) = Inr (c', d1)"
    and d': "d' = d1\<lparr>col_store := (col_store d1)[a := c']\<rparr>"
    using assms(1) by (auto simp: on_column_def bind_res_Inr_iff)
  have io: "io_step (col_store d ! a, d) (c', d1)" using assms(2) [OF f] .
  then obtain ds cl where d1: "d1 = d\<lparr>devices := ds, clients := cl\<rparr>" and l: "length ds = length (devices d)"
    and c': "connection c' = connection (col_store d ! a)" "column_id c' = column_id (col_store d ! a)"
    by (auto simp: io_step_def)
  have "map connection ((col_store d)[a := c']) = map connection (col_store d)"
    "map column_id ((col_store d)[a := c']) = map column_id (col_store d)"
    using a c' by (simp_all add: map_update list_update_same_conv)
  then show ?thesis by (simp add: desk_frame_def same_columns_def d' d1 l)
qed

lemma fold_frame:
  assumes "fold_res f xs d = Inr d'" and "\<And>x d d'. f x d = Inr d' \<Longrightarrow> desk_frame d d'"
  shows "desk_frame d d'"
  using assms(1) by (rule fold_res_invariant [where P = "desk_frame d"])
    (simp, rule desk_frame_trans, assumption, rule assms(2))

lemma pure_op_io: "io_step s (f s) \<Longrightarrow> pure_op f s = Inr s' \<Longrightarrow> io_step s s'"
  by (simp add: pure_op_def)

lemma bank_activate_frame: "bank_activate E b d = Inr d' \<Longrightarrow> desk_frame d d'"
  unfolding bank_activate_def by (erule fold_frame) (erule on_column_frame, erule set_active_io)

lemma bank_deactivate_frame: "bank_deactivate E n b d = Inr d' \<Longrightarrow> desk_frame d d'"
proof -
  assume "bank_deactivate E n b d = Inr d'"
  then obtain d1 where d1: "fold_res (\<lambda>a. on_column a (set_active (de_libm E) False)) (bk_columns b) d = Inr d1"
    and d': "fold_res (\<lambda>a. on_column a (pure_op reset_column)) (drop n (bk_columns b)) d1 = Inr d'"
    by (auto simp: bank_deactivate_def bind_res_Inr_iff)
  have "desk_frame d d1" using d1 by (rule fold_frame) (erule on_column_frame, erule set_active_io)
  moreover have "desk_frame d1 d'" using d'
    by (rule fold_frame) (erule on_column_frame, rule pure_op_io [OF reset_column_io])
  ultimately show ?thesis by (rule desk_frame_trans)
qed

lemma all_devices_frame [simp]: "desk_frame d (all_devices f d)"
  by (simp add: all_devices_def desk_frame_def same_columns_def)

lemma xtouch_devices_frame [simp]: "desk_frame d (xtouch_devices f d)"
  by (simp add: xtouch_devices_def)

lemma push_gui_frame [simp]: "desk_frame d (push_gui m d)"
  by (simp add: push_gui_def desk_frame_def same_columns_def)

lemma fader_bank_leds_frame [simp]: "desk_frame d (update_fader_bank_leds E d)"
  by (simp add: update_fader_bank_leds_def split: option.splits)

subsection \<open>Well-formed desks\<close>

text \<open>
  Every column a bank or an index refers to is in the store, the index names the columns by their
  ids, and every column belongs to a device of the desk.
\<close>

definition set_ok :: "bank_column list \<Rightarrow> bank_set \<Rightarrow> bool" where
  "set_ok cs bs \<longleftrightarrow> list_all (\<lambda>b. list_all (\<lambda>a. a < length cs) (bk_columns b)) (fader_banks bs)
     \<and> om_ok (columns_map bs) \<and> list_all (\<lambda>(k, a). a < length cs \<and> column_id (cs ! a) = k) (columns_map bs)"

definition desk_inv :: "('z \<Rightarrow> bool) \<Rightarrow> ('q, 'z) desk_scheme \<Rightarrow> bool" where
  "desk_inv Q d \<longleftrightarrow> list_all (set_ok (col_store d)) (bank_sets d) \<and> list_all (\<lambda>c. connection c < length (devices d)) (col_store d)
     \<and> om_ok (bankset_to_index_map d) \<and> Q (desk.more d)"

text \<open>
  \<open>Q\<close> is what the operations also keep of the record that extends the desk: none of them changes it.
\<close>

definition desk_ok :: "('q, 'z) desk_scheme \<Rightarrow> bool" where
  "desk_ok d \<longleftrightarrow> desk_inv (\<lambda>_. True) d"

lemma same_columns_length: "same_columns cs cs' \<Longrightarrow> length cs' = length cs"
  unfolding same_columns_def by (metis length_map)

lemma same_columns_nth:
  "same_columns cs cs' \<Longrightarrow> a < length cs \<Longrightarrow> column_id (cs' ! a) = column_id (cs ! a) \<and> connection (cs' ! a) = connection (cs ! a)"
  using same_columns_length unfolding same_columns_def by (metis nth_map)

lemma set_ok_same: "same_columns cs cs' \<Longrightarrow> set_ok cs bs \<Longrightarrow> set_ok cs' bs"
  using same_columns_nth by (fastforce simp: set_ok_def list_all_iff same_columns_length)

lemma desk_ok_frame:
  assumes "desk_frame d d'" and "desk_inv Q d"
  shows "desk_inv Q d'"
proof -
  have sc: "same_columns (col_store d) (col_store d')" and l: "length (devices d') = length (devices d)"
    using assms(1) by (simp_all add: desk_frame_def)
  have "list_all (\<lambda>c. connection c < length (devices d)) (col_store d')"
    using assms(2) same_columns_nth [OF sc] same_columns_length [OF sc] by (simp add: desk_inv_def list_all_length)
  then show ?thesis using assms(2) set_ok_same [OF sc] desk_frame_same [OF assms(1)]
    by (auto simp: desk_inv_def list_all_iff)
qed

lemma desk_ok_upd_bank_set:
  assumes "desk_inv Q d" and "\<And>bs. set_ok (col_store d) bs \<Longrightarrow> set_ok (col_store d) (f bs)"
  shows "desk_inv Q (upd_bank_set i f d)"
proof (cases "i < length (bank_sets d)")
  case True
  then have "list_all (set_ok (col_store d)) ((bank_sets d)[i := f (bank_sets d ! i)])"
    using assms by (auto simp: desk_inv_def list_all_iff dest!: set_update_subset_insert [THEN subsetD])
  then show ?thesis using assms(1) by (simp add: desk_inv_def upd_bank_set_def)
qed (use assms(1) in \<open>simp add: upd_bank_set_def desk_inv_def list_update_beyond\<close>)

lemma set_ok_fields [simp]:
  "set_ok cs (bs\<lparr>active_bank := n\<rparr>) = set_ok cs bs"
  "set_ok cs (bs\<lparr>columns_in_ready_state := r\<rparr>) = set_ok cs bs"
  "set_ok cs (bs\<lparr>fader_banks := [], columns_map := [], columns_in_ready_state := r\<rparr>)"
  by (simp_all add: set_ok_def)

lemma desk_ok_fields [simp]:
  "desk_inv Q (d\<lparr>current_active_bank_set := i\<rparr>) = desk_inv Q d" "desk_inv Q (d\<lparr>update_message_required := b\<rparr>) = desk_inv Q d"
  "desk_inv Q (d\<lparr>bank_set_modification_happened := b\<rparr>) = desk_inv Q d" "desk_inv Q (d\<lparr>selected_column_id := x\<rparr>) = desk_inv Q d"
  "desk_inv Q (d\<lparr>self_initialized_readymode := b\<rparr>) = desk_inv Q d" "desk_inv Q (d\<lparr>global_illumination := v\<rparr>) = desk_inv Q d"
  "desk_inv Q (d\<lparr>jogwheel_change := j\<rparr>) = desk_inv Q d" "desk_inv Q (d\<lparr>global_dark := b\<rparr>) = desk_inv Q d" "desk_inv Q (d\<lparr>ev := w\<rparr>) = desk_inv Q d"
  "desk_inv Q (d\<lparr>update_message_required := b, bank_set_modification_happened := b'\<rparr>) = desk_inv Q d"
  by (simp_all add: desk_inv_def)

lemma desk_ok_leds [simp]:
  "desk_inv Q d \<Longrightarrow> desk_inv Q (all_devices f d)" "desk_inv Q d \<Longrightarrow> desk_inv Q (xtouch_devices f d)"
  "desk_inv Q d \<Longrightarrow> desk_inv Q (push_gui m d)" "desk_inv Q d \<Longrightarrow> desk_inv Q (update_fader_bank_leds E d)"
  by (rule desk_ok_frame [rotated], assumption, simp)+

lemma deactivate_opt_ok:
  "(case b of None \<Rightarrow> Inr d | Some b \<Rightarrow> bank_deactivate E n b d) = Inr d' \<Longrightarrow> desk_frame d d'"
  "(case b of None \<Rightarrow> Inr d | Some b \<Rightarrow> bank_activate E b d) = Inr d' \<Longrightarrow> desk_frame d d'"
  by (auto split: option.splits dest: bank_deactivate_frame bank_activate_frame)

lemma set_active_bank_set_ok:
  fixes d :: "('q, 'z) desk_scheme"
  assumes a: "set_active_bank_set E i d = Inr (b, d')" and ok: "desk_inv Q d"
  shows "desk_inv Q d'"
  proof (cases "i < length (bank_sets d) \<and> (i \<noteq> current_active_bank_set d \<or> bank_set_modification_happened d)")
    case True
    from True a obtain cbs n d1 d4 where
      d1: "(case active_fader_bank cbs of None \<Rightarrow> Inr d | Some b \<Rightarrow> bank_deactivate E n b d) = Inr d1"
      and d4: "(case active_fader_bank (bank_sets (enter_bank_set i d1) ! i) of None \<Rightarrow> Inr (enter_bank_set i d1) | Some b \<Rightarrow> bank_activate E b (enter_bank_set i d1)) = Inr d4"
      and d': "d' = (update_fader_bank_leds E d4)\<lparr>update_message_required := True, bank_set_modification_happened := False\<rparr>"
      by (auto simp: set_active_bank_set_def Let_def bind_res_Inr_iff split del: option.split)
    have "desk_inv Q d1" using desk_ok_frame [OF deactivate_opt_ok(1) [OF d1] ok] .
    then have "desk_inv Q (enter_bank_set i d1)" by (auto simp: enter_bank_set_def Let_def intro!: desk_ok_upd_bank_set)
    then have "desk_inv Q d4" using desk_ok_frame [OF deactivate_opt_ok(2) [OF d4]] by blast
    then show ?thesis by (simp add: d')
  next
    case False
    then have "\<not> (i < length (bank_sets d) \<and> (i \<noteq> current_active_bank_set d \<or> bank_set_modification_happened d))" by blast
    then show ?thesis using a ok by (simp only: set_active_bank_set_def if_False) simp
  qed

lemma set_active_bank_set_by_id_ok: "set_active_bank_set_by_id E i d = Inr (b, d') \<Longrightarrow> desk_inv Q d \<Longrightarrow> desk_inv Q d'"
  by (auto simp: set_active_bank_set_by_id_def split: option.splits dest!: set_active_bank_set_ok)

lemma set_active_fader_bank_ok: "set_active_fader_bank_on_current_set E i d = Inr (b, d') \<Longrightarrow> desk_inv Q d \<Longrightarrow> desk_inv Q d'"
proof -
  assume a: "set_active_fader_bank_on_current_set E i d = Inr (b, d')" and ok: "desk_inv Q d"
  have "d' = d \<or> (\<exists>old n b2 d1 d3. bank_deactivate E n old d = Inr d1
     \<and> bank_activate E b2 (upd_bank_set (current_active_bank_set d) (\<lambda>bs. bs\<lparr>active_bank := i\<rparr>) d1) = Inr d3
     \<and> d' = (update_fader_bank_leds E d3)\<lparr>update_message_required := True\<rparr>)"
    using a by (auto simp: set_active_fader_bank_on_current_set_def Let_def bind_res_Inr_iff split: option.splits if_splits) blast+
  then show "desk_inv Q d'"
  proof
    assume "\<exists>old n b2 d1 d3. bank_deactivate E n old d = Inr d1
     \<and> bank_activate E b2 (upd_bank_set (current_active_bank_set d) (\<lambda>bs. bs\<lparr>active_bank := i\<rparr>) d1) = Inr d3
     \<and> d' = (update_fader_bank_leds E d3)\<lparr>update_message_required := True\<rparr>"
    then obtain old n b2 d1 d3 where d1: "bank_deactivate E n old d = Inr d1"
      and d3: "bank_activate E b2 (upd_bank_set (current_active_bank_set d) (\<lambda>bs. bs\<lparr>active_bank := i\<rparr>) d1) = Inr d3"
      and d': "d' = (update_fader_bank_leds E d3)\<lparr>update_message_required := True\<rparr>" by blast
    have "desk_inv Q d1" using desk_ok_frame [OF bank_deactivate_frame [OF d1] ok] .
    then have "desk_inv Q (upd_bank_set (current_active_bank_set d) (\<lambda>bs. bs\<lparr>active_bank := i\<rparr>) d1)"
      by (simp add: desk_ok_upd_bank_set)
    from desk_ok_frame [OF bank_activate_frame [OF d3] this] show ?thesis by (simp add: d')
  qed (use ok in simp)
qed

lemma on_column_ok:
  assumes "on_column a f d = Inr d'" and "\<And>c s'. f (c, d) = Inr s' \<Longrightarrow> io_step (c, d) s'" and "desk_inv Q d"
  shows "desk_inv Q d'"
  using desk_ok_frame [OF on_column_frame] assms by blast

lemma commit_readymode_ok: "commit_readymode E d = Inr d' \<Longrightarrow> desk_inv Q d \<Longrightarrow> desk_inv Q d'"
proof -
  assume a: "commit_readymode E d = Inr d'" and ok: "desk_inv Q d"
  let ?d1 = "push_gui (Readymode_update RUC_COMMITED) (xtouch_devices (xtouch_set_button_led BTN_GLOBALVIEW_COMMITRDY led_off) d)"
  have ok1: "desk_inv Q ?d1" using ok by simp
  show "desk_inv Q d'"
  proof (cases "current_bank_set ?d1")
    case None
    then show ?thesis using a ok1 by (simp add: commit_readymode_def)
  next
    case (Some bs)
    then obtain d2 where d2: "fold_res (\<lambda>cid d. case map_of (columns_map bs) cid of
         None \<Rightarrow> Inr d | Some a \<Rightarrow> on_column a (commit_from_readymode (de_libm E)) d) (columns_in_ready_state bs) ?d1 = Inr d2"
      and d': "d' = (upd_bank_set (current_active_bank_set d2) (\<lambda>bs. bs\<lparr>columns_in_ready_state := []\<rparr>) d2)\<lparr>self_initialized_readymode := False\<rparr>"
      using a by (auto simp: commit_readymode_def bind_res_Inr_iff)
    have "desk_inv Q d2" using d2
      by (rule fold_res_invariant) (auto simp: ok1 split: option.splits intro: on_column_ok [OF _ commit_io])
    then show ?thesis by (simp add: d' desk_ok_upd_bank_set)
  qed
qed

lemma enter_abort_ok [simp]: "desk_inv Q d \<Longrightarrow> desk_inv Q (enter_readymode E d)" "desk_inv Q d \<Longrightarrow> desk_inv Q (abort_readymode E d)"
  by (simp_all add: enter_readymode_def abort_readymode_def)

lemma process_readymode_update_ok: "process_readymode_update_from_gui E c d = Inr d' \<Longrightarrow> desk_inv Q d \<Longrightarrow> desk_inv Q d'"
  by (auto simp: process_readymode_update_from_gui_def Let_def split: ready_cause.splits dest: commit_readymode_ok)

lemma handle_ready_ok [simp]: "desk_inv Q d \<Longrightarrow> desk_inv Q (handle_ready_state_update_from_bank E cid st d)"
  by (auto simp: handle_ready_state_update_from_bank_def Let_def desk_ok_upd_bank_set split: option.splits)

lemma pure_select_io: "pure_op (set_select_button_active b) s = Inr s' \<Longrightarrow> io_step s s'"
  using set_select_io by (auto simp: pure_op_def)

lemma select_column_ok:
  "(case map_of m x of None \<Rightarrow> Inr d | Some a \<Rightarrow> on_column a (pure_op (set_select_button_active b)) d) = Inr d' \<Longrightarrow> desk_inv Q d \<Longrightarrow> desk_inv Q d'"
  by (auto split: option.splits intro: on_column_ok [OF _ pure_select_io])

lemma select_column_if_ok:
  "(if P then (case map_of m x of None \<Rightarrow> Inr d | Some a \<Rightarrow> on_column a (pure_op (set_select_button_active b)) d) else Inr d) = Inr d'
    \<Longrightarrow> desk_inv Q d \<Longrightarrow> desk_inv Q d'"
  by (cases P) (auto dest: select_column_ok)

lemma handle_select_ok: "handle_select_state_update_from_bank cid st d = Inr d' \<Longrightarrow> desk_inv Q d \<Longrightarrow> desk_inv Q d'"
proof -
  assume a: "handle_select_state_update_from_bank cid st d = Inr d'" and ok: "desk_inv Q d"
  show "desk_inv Q d'"
  proof (cases "current_bank_set d")
    case None
    then show ?thesis using a ok by (simp add: handle_select_state_update_from_bank_def)
  next
    case (Some cbs)
    let ?sel = "if map_of (columns_map cbs) cid \<noteq> None \<and> st then cid else []"
    obtain d1 d3 where d1: "(case map_of (columns_map cbs) (selected_column_id d) of
        None \<Rightarrow> Inr d | Some a \<Rightarrow> on_column a (pure_op (set_select_button_active False)) d) = Inr d1"
      and d3: "(if st \<and> ?sel \<noteq> [] then (case map_of (columns_map cbs) ?sel of None \<Rightarrow> Inr (d1\<lparr>selected_column_id := ?sel\<rparr>)
          | Some a \<Rightarrow> on_column a (pure_op (set_select_button_active True)) (d1\<lparr>selected_column_id := ?sel\<rparr>))
          else Inr (d1\<lparr>selected_column_id := ?sel\<rparr>)) = Inr d3"
      and d': "d' = d3\<lparr>update_message_required := True\<rparr>"
      using a Some unfolding handle_select_state_update_from_bank_def Let_def by (auto simp: bind_res_Inr_iff)
    have "desk_inv Q (d1\<lparr>selected_column_id := ?sel\<rparr>)" using select_column_ok [OF d1 ok] by simp
    from select_column_if_ok [OF d3 this] show ?thesis by (simp add: d')
  qed
qed

lemma set_column_data_io: "set_column_data lm data s = Inr s' \<Longrightarrow> io_step s s'"
  by (auto simp: set_column_data_def Let_def bind_res_Inr_iff split: option.splits column_data.splits
      intro: set_raw_io set_color_io io_step_trans [OF set_uv_io set_color_io])

lemma update_column_frame: "update_column_from_message E msg k d = Inr d' \<Longrightarrow> desk_frame d d'"
proof -
  assume a: "update_column_from_message E msg k d = Inr d'"
  let ?f = "\<lambda>(c, d). set_column_data (de_libm E) (fm_data msg) (set_display_text (de_libm E) (fm_lower_text msg) False
                (set_display_text (de_libm E) (fm_upper_text msg) True (set_display_color (column_colors msg) c, d)))"
  have "io_step (c, d) s'" if "?f (c, d) = Inr s'" for c s'
  proof -
    have "io_step (c, d) (set_display_color (column_colors msg) c, d)"
      by (rule io_step_column) (simp_all add: set_display_color_def)
    then have "io_step (c, d) (set_display_text (de_libm E) (fm_lower_text msg) False
          (set_display_text (de_libm E) (fm_upper_text msg) True (set_display_color (column_colors msg) c, d)))"
      using io_step_trans set_display_text_io by blast
    then show ?thesis using that set_column_data_io io_step_trans by (metis case_prod_conv)
  qed
  moreover have "d' = d \<or> (\<exists>a. on_column a ?f d = Inr d')"
    using a by (auto simp: update_column_from_message_def Let_def split: if_splits option.splits)
  ultimately show ?thesis using on_column_frame [of _ ?f d d'] by auto
qed

subsection \<open>Adding and removing bank sets\<close>

lemma set_ok_extend: "set_ok cs bs \<Longrightarrow> set_ok (cs @ [c]) bs"
  by (fastforce simp: set_ok_def list_all_iff nth_append intro: less_SucI)

lemma desk_ok_new_column:
  assumes "desk_inv Q d" and "connection c < length (devices d)"
  shows "desk_inv Q (d\<lparr>col_store := col_store d @ [c]\<rparr>)"
  using assms set_ok_extend by (auto simp: desk_inv_def list_all_iff)

lemma set_ok_add_column:
  assumes "set_ok cs bs" and "a < length cs" and "column_id (cs ! a) = cid"
  shows "set_ok cs (bs\<lparr>fader_banks := (fader_banks bs)[length (fader_banks bs) - 1 :=
      (last (fader_banks bs))\<lparr>bk_columns := bk_columns (last (fader_banks bs)) @ [a]\<rparr>],
    columns_map := om_update cid a (columns_map bs)\<rparr>)"
proof -
  have "list_all (\<lambda>b. list_all (\<lambda>a. a < length cs) (bk_columns b)) ((fader_banks bs)[length (fader_banks bs) - 1 :=
      (last (fader_banks bs))\<lparr>bk_columns := bk_columns (last (fader_banks bs)) @ [a]\<rparr>])"
  proof (cases "fader_banks bs = []")
    case False
    then have "list_all (\<lambda>a. a < length cs) (bk_columns (last (fader_banks bs)))"
      using assms(1) last_in_set [OF False] unfolding set_ok_def list_all_iff by blast
    then show ?thesis using assms(1,2)
      by (auto simp: set_ok_def list_all_iff dest!: set_update_subset_insert [THEN subsetD])
  qed simp
  moreover have "list_all (\<lambda>(k, a). a < length cs \<and> column_id (cs ! a) = k) (om_update cid a (columns_map bs))"
    using assms set_om_update_subset [of cid a "columns_map bs"] by (auto simp: set_ok_def list_all_iff)
  ultimately show ?thesis using assms(1) by (simp add: set_ok_def om_ok_update)
qed

lemma add_columns_ok: "add_columns E k ms di ci d = Inr d' \<Longrightarrow> desk_inv Q d \<Longrightarrow> desk_inv Q d'"
proof (induction E k ms di ci d rule: add_columns.induct)
  case (2 E k m ms device_index col_index d)
  show ?case
  proof (cases "device_index = length (devices d)")
    case False
    define di where "di = (if col_index = number_of_supported_columns then device_index + 1 else device_index)"
    define ci where "ci = (if col_index = number_of_supported_columns then 0 else col_index)"
    have dc: "(if col_index = number_of_supported_columns then (device_index + 1, 0) else (device_index, col_index)) = (di, ci)"
      by (simp add: di_def ci_def)
    define c where "c = new_bank_column di (deduce_bank_mode m) (fm_column_id m) (of_nat ci)"
    define d2 where "d2 = upd_bank_set k (\<lambda>bs. bs\<lparr>
         fader_banks := (fader_banks bs)[length (fader_banks bs) - 1 :=
            (last (fader_banks bs))\<lparr>bk_columns := bk_columns (last (fader_banks bs)) @ [length (col_store d)]\<rparr>],
         columns_map := om_update (fm_column_id m) (length (col_store d)) (columns_map bs)\<rparr>) (d\<lparr>col_store := col_store d @ [c]\<rparr>)"
    obtain d3 where di: "di < length (devices d)" and d3: "update_column_from_message E m (Some k) d2 = Inr d3"
      and rest: "add_columns E k ms di (ci + 1) d3 = Inr d'"
      using 2(2) False dc by (auto simp: bind_res_Inr_iff d2_def c_def Let_def)
    have "desk_inv Q (d\<lparr>col_store := col_store d @ [c]\<rparr>)"
      using 2(3) di by (intro desk_ok_new_column) (simp_all add: c_def new_bank_column_def)
    then have "desk_inv Q d2" unfolding d2_def
      by (rule desk_ok_upd_bank_set) (rule set_ok_add_column, simp_all add: c_def new_bank_column_def)
    then have "desk_inv Q d3" using desk_ok_frame [OF update_column_frame [OF d3]] by blast
    from 2(1) [OF False refl dc [symmetric] refl refl refl refl rest this] show ?thesis .
  qed (use 2 in simp)
qed simp

lemma add_bank_ok: "add_bank E k cols d = Inr d' \<Longrightarrow> desk_inv Q d \<Longrightarrow> desk_inv Q d'"
  unfolding add_bank_def by (erule add_columns_ok) (erule desk_ok_upd_bank_set, simp add: set_ok_def)

lemma bank_set_slot_ok: "desk_inv Q d \<Longrightarrow> desk_inv Q (snd (bank_set_slot i d))"
  by (auto simp: bank_set_slot_def desk_inv_def set_ok_def om_ok_update split: option.splits)

lemma fill_bank_set_ok: "fill_bank_set E k msg d = Inr d' \<Longrightarrow> desk_inv Q d \<Longrightarrow> desk_inv Q d'"
proof -
  assume a: "fill_bank_set E k msg d = Inr d'" and ok: "desk_inv Q d"
  let ?d = "upd_bank_set k (\<lambda>bs. bs\<lparr>fader_banks := [], columns_map := [], columns_in_ready_state := []\<rparr>) d"
  obtain d3 where d3: "fold_res (add_bank E k) (am_banks msg) ?d = Inr d3"
    and d': "d' = upd_bank_set k (\<lambda>bs. bs\<lparr>active_bank := nat (sint (am_default_active msg) mod 2 ^ 64)\<rparr>) d3"
    using a by (auto simp: fill_bank_set_def bind_res_Inr_iff)
  have "desk_inv Q ?d" using ok by (rule desk_ok_upd_bank_set) (simp add: set_ok_def)
  then have "desk_inv Q d3" using fold_res_invariant [OF d3, of "desk_inv Q"] add_bank_ok by blast
  then show "desk_inv Q d'" unfolding d' by (rule desk_ok_upd_bank_set) simp
qed

lemma add_bank_set_ok: "add_bank_set_from_protobuf_msg E msg d = Inr d' \<Longrightarrow> desk_inv Q d \<Longrightarrow> desk_inv Q d'"
proof -
  assume a: "add_bank_set_from_protobuf_msg E msg d = Inr d'" and ok: "desk_inv Q d"
  obtain k d1 where s: "bank_set_slot (am_bank_id msg) (d\<lparr>bank_set_modification_happened := True\<rparr>) = (k, d1)" by fastforce
  then obtain d2 where f: "fill_bank_set E k msg d1 = Inr d2"
    and fin: "(if length (bank_sets d2) = 1 then bind_res (set_active_bank_set E 0 d2) (\<lambda>(_, d3). Inr d3)
           else Inr (update_fader_bank_leds E d2)) = Inr d'"
    using a by (auto simp: add_bank_set_from_protobuf_msg_def bind_res_Inr_iff)
  have "desk_inv Q d1" using bank_set_slot_ok [of Q "d\<lparr>bank_set_modification_happened := True\<rparr>" "am_bank_id msg"] ok s by simp
  then have "desk_inv Q d2" using fill_bank_set_ok [OF f] by blast
  then show "desk_inv Q d'" using fin set_active_bank_set_ok by (auto simp: bind_res_Inr_iff split: if_splits)
qed
lemma redirect_index_ok: "om_ok m \<Longrightarrow> om_ok (redirect_index a b m)"
  by (auto simp: redirect_index_def om_ok_update split: option.splits)

lemma pop_bank_set_ok [simp]: "desk_inv Q d \<Longrightarrow> desk_inv Q (pop_bank_set d)"
  by (auto simp: pop_bank_set_def desk_inv_def list_all_iff dest: in_set_butlastD)

lemma remove_last_set_ok: "remove_last_set E i d = Inr d' \<Longrightarrow> desk_inv Q d \<Longrightarrow> desk_inv Q d'"
  by (auto simp: remove_last_set_def bind_res_Inr_iff split: if_splits
      dest: set_active_bank_set_ok desk_ok_frame [OF deactivate_opt_ok(1)])

lemma move_last_set_ok: "desk_inv Q d \<Longrightarrow> bank_sets d \<noteq> [] \<Longrightarrow> desk_inv Q (move_last_set i d)"
  by (auto simp: move_last_set_def Let_def desk_inv_def list_all_iff redirect_index_ok
      dest!: set_update_subset_insert [THEN subsetD])

lemma remove_inner_set_ok: "remove_inner_set E i d = Inr d' \<Longrightarrow> desk_inv Q d \<Longrightarrow> bank_sets d \<noteq> [] \<Longrightarrow> desk_inv Q d'"
  by (auto simp: remove_inner_set_def bind_res_Inr_iff split: if_splits
      intro!: pop_bank_set_ok move_last_set_ok intro: set_active_bank_set_ok [OF _ move_last_set_ok])

lemma remove_bank_set_ok: "remove_bank_set E i d = Inr d' \<Longrightarrow> desk_inv Q d \<Longrightarrow> desk_inv Q d'"
  by (auto simp: remove_bank_set_def Let_def split: if_splits dest!: remove_last_set_ok remove_inner_set_ok)

lemma remove_bank_set_by_id_ok: "remove_bank_set_by_id E i d = Inr (b, d') \<Longrightarrow> desk_inv Q d \<Longrightarrow> desk_inv Q d'"
  by (auto simp: remove_bank_set_by_id_def bind_res_Inr_iff split: option.splits dest: remove_bank_set_ok)

lemma fader_position_request_ok: "update_fader_position_from_protobuf E cid p d = Inr d' \<Longrightarrow> desk_inv Q d \<Longrightarrow> desk_inv Q d'"
  by (auto simp: update_fader_position_from_protobuf_def split: if_splits option.splits intro: on_column_ok [OF _ fader_change_io])

lemma encoder_request_ok: "update_encoder_state_from_protobuf E cid p d = Inr d' \<Longrightarrow> desk_inv Q d \<Longrightarrow> desk_inv Q d'"
  by (auto simp: update_encoder_state_from_protobuf_def split: option.splits intro: on_column_ok [OF _ encoder_change_io])

lemma desk_update_request_ok: "process_desk_update_message E msg d = Inr d' \<Longrightarrow> desk_inv Q d \<Longrightarrow> desk_inv Q d'"
proof -
  assume a: "process_desk_update_message E msg d = Inr d'" and ok: "desk_inv Q d"
  obtain b1 d1 b2 d2 where d1: "set_active_bank_set_by_id E (dm_selected_bank_set msg) (set_seven_seg_display_data E (dm_seven_seg msg) d) = Inr (b1, d1)"
    and d2: "set_active_fader_bank_on_current_set E (nat (dm_selected_bank msg mod 2 ^ 64)) d1 = Inr (b2, d2)"
    and d': "(if dm_selected_column msg \<noteq> selected_column_id d2
       then handle_select_state_update_from_bank (dm_selected_column msg) True d2 else Inr d2) = Inr d'"
    using a by (auto simp: process_desk_update_message_def bind_res_Inr_iff)
  have "desk_inv Q (set_seven_seg_display_data E (dm_seven_seg msg) d)" using ok by (simp add: set_seven_seg_display_data_def)
  then have "desk_inv Q d2" using set_active_fader_bank_ok [OF d2] set_active_bank_set_by_id_ok [OF d1] by blast
  then show "desk_inv Q d'" using d' by (auto split: if_split_asm dest: handle_select_ok)
qed

subsection \<open>Input\<close>

text \<open>A button of a column may call the desk back.\<close>

definition press_step :: "('z \<Rightarrow> bool) \<Rightarrow> bank_column \<times> ('q, 'z) desk_scheme \<Rightarrow> bank_column \<times> ('q, 'z) desk_scheme \<Rightarrow> bool" where
  "press_step Q s s' \<longleftrightarrow> connection (fst s') = connection (fst s) \<and> column_id (fst s') = column_id (fst s)
     \<and> (desk_inv Q (snd s) \<longrightarrow> desk_inv Q (snd s')) \<and> col_store (snd s') = col_store (snd s)"

lemma io_press: "io_step s s' \<Longrightarrow> press_step Q s s'"
proof -
  assume io: "io_step s s'"
  obtain c d c' d' where s: "s = (c, d)" "s' = (c', d')" by (cases s, cases s')
  then obtain ds cl where d': "d' = d\<lparr>devices := ds, clients := cl\<rparr>" and l: "length ds = length (devices d)"
    and c': "connection c' = connection c" "column_id c' = column_id c" using io by (auto simp: io_step_def)
  show ?thesis unfolding press_step_def s d' using l c' by (simp add: desk_inv_def)
qed

lemma press_trans: "press_step Q s t \<Longrightarrow> press_step Q t u \<Longrightarrow> press_step Q s u"
  by (simp add: press_step_def)

lemma handle_ready_store [simp]: "col_store (handle_ready_state_update_from_bank E cid st d) = col_store d"
  by (simp add: handle_ready_state_update_from_bank_def Let_def enter_readymode_def abort_readymode_def push_gui_def
      xtouch_devices_def all_devices_def upd_bank_set_def split: option.splits)

lemma toggle_press: "toggle_readymode lm (handle_ready_state_update_from_bank E) s = Inr s' \<Longrightarrow> press_step Q s s'"
proof -
  assume a: "toggle_readymode lm (handle_ready_state_update_from_bank E) s = Inr s'"
  obtain c d where s: "s = (c, d)" by (cases s)
  define c2 where "c2 = (if \<not> readymode_active c then c\<lparr>readymode_active := \<not> readymode_active c, readymode_color := color c,
      readymode_raw_configuration := raw_configuration c, readymode_amber := amber c, readymode_uv := uv c\<rparr>
    else c\<lparr>readymode_active := \<not> readymode_active c\<rparr>)"
  define s3 where "s3 = (if \<not> readymode_active c then update_button_leds (c2, d) else update_physical_fader_position False (update_button_leds (c2, d)))"
  define s4 where "s4 = (fst s3, handle_ready_state_update_from_bank E (column_id (fst s3)) (readymode_active (fst s3)) (snd s3))"
  obtain s5 where s5: "update_encoder_leds lm (update_display_text lm s4) = Inr s5" and s': "update_side_leds lm s5 = Inr s'"
    using a s by (auto simp: toggle_readymode_def Let_def bind_res_Inr_iff c2_def s3_def s4_def split: prod.splits if_splits)
  have "io_step s (c2, d)" unfolding s by (rule io_step_column) (simp_all add: c2_def)
  then have "io_step s s3" by (simp add: s3_def fader_after_io buttons_after_io)
  moreover have "press_step Q s3 s4" by (simp add: press_step_def s4_def)
  moreover have "io_step s4 s'" by (intro side_after_io [OF s'] encoder_after_io [OF s5] display_text_io)
  ultimately show ?thesis using io_press press_trans by blast
qed

lemma button_press:
  assumes "process_button_press_message lm (handle_ready_state_update_from_bank E) b ch s = Inr (s', sel)"
  shows "press_step Q s s'"
proof -
  obtain c d where s: "s = (c, d)" by (cases s)
  have keep: "press_step Q (c, d) (update_button_leds (c', d))" "press_step Q (c, d) (update_display_text lm (c', d))"
    "press_step Q (c, d) (update_physical_fader_position False (update_display_text lm (c', d)))"
    if "connection c' = connection c" "column_id c' = column_id c" for c'
    using that by (intro io_press after_io io_step_column, simp_all)+
  have "press_step Q s s" by (simp add: press_step_def)
  then show ?thesis using assms unfolding s
    by (auto simp: process_button_press_message_def Let_def bind_res_Inr_iff intro: keep dest: toggle_press split: if_splits)
qed

lemma desk_ok_replace:
  assumes "desk_inv Q d" and "a < length (col_store d)" and "connection c = connection (col_store d ! a)"
    and "column_id c = column_id (col_store d ! a)"
  shows "desk_inv Q (d\<lparr>col_store := (col_store d)[a := c]\<rparr>)"
proof -
  have "desk_frame d (d\<lparr>col_store := (col_store d)[a := c]\<rparr>)"
    using assms(2-4) by (simp add: desk_frame_def same_columns_def map_update list_update_same_conv)
  then show ?thesis using desk_ok_frame assms(1) by blast
qed

lemma press_column_ok: "press_column_button E i c a d = Inr d' \<Longrightarrow> desk_inv Q d \<Longrightarrow> desk_inv Q d'"
proof -
  assume p: "press_column_button E i c a d = Inr d'" and ok: "desk_inv Q d"
  obtain col' d1 sel d3 where al: "a < length (col_store d)"
    and b: "process_button_press_message (de_libm E) (handle_ready_state_update_from_bank E) (data_1 c) (data_2 c) (col_store d ! a, d)
       = Inr ((col', d1), sel)"
    and d3: "(case sel of None \<Rightarrow> Inr (d1\<lparr>col_store := (col_store d1)[a := col']\<rparr>)
       | Some st \<Rightarrow> handle_select_state_update_from_bank (column_id (col_store d ! a)) st (d1\<lparr>col_store := (col_store d1)[a := col']\<rparr>)) = Inr d3"
    and d': "d' = push_gui (press_message i c) d3"
    using p by (auto simp: press_column_button_def bind_res_Inr_iff Let_def)
  have "press_step Q (col_store d ! a, d) (col', d1)" using button_press [OF b] .
  then have "desk_inv Q (d1\<lparr>col_store := (col_store d1)[a := col']\<rparr>)"
    using ok al by (intro desk_ok_replace) (auto simp: press_step_def)
  then have "desk_inv Q d3" using d3 by (auto split: option.splits dest: handle_select_ok)
  then show "desk_inv Q d'" by (simp add: d')
qed

lemma on_active_column_ok:
  assumes "on_active_column i f d = Inr (b, d')" and "\<And>a. f a d = Inr d' \<Longrightarrow> desk_inv Q d'" and "desk_inv Q d"
  shows "desk_inv Q d'"
  using assms by (auto simp: on_active_column_def bind_res_Inr_iff split: option.splits)

lemma move_fader_ok: "move_column_fader E c a d = Inr d' \<Longrightarrow> desk_inv Q d \<Longrightarrow> desk_inv Q d'"
proof -
  assume a: "move_column_fader E c a d = Inr d'" and ok: "desk_inv Q d"
  obtain v m d1 where d1: "on_column a (process_fader_change_message (de_libm E) v) d = Inr d1" and d': "d' = push_gui m d1"
    using a unfolding move_column_fader_def Let_def bind_res_Inr_iff by blast
  show ?thesis unfolding d' using on_column_ok [OF d1 fader_change_io ok] by (rule desk_ok_leds(3))
qed

lemma turn_encoder_ok: "turn_column_encoder E c a d = Inr d' \<Longrightarrow> desk_inv Q d \<Longrightarrow> desk_inv Q d'"
proof -
  assume a: "turn_column_encoder E c a d = Inr d'" and ok: "desk_inv Q d"
  obtain v m d1 where d1: "on_column a (process_encoder_change_message (de_libm E) v) d = Inr d1" and d': "d' = push_gui m d1"
    using a unfolding turn_column_encoder_def Let_def bind_res_Inr_iff by blast
  show ?thesis unfolding d' using on_column_ok [OF d1 encoder_change_io ok] by (rule desk_ok_leds(3))
qed

lemma send_gpio_ok: "send_gpio E p n d = Inr d' \<Longrightarrow> desk_inv Q d \<Longrightarrow> desk_inv Q d'"
  by (auto simp: send_gpio_def bind_res_Inr_iff)

lemma column_command_ok:
  assumes "desk_inv Q d"
  shows "on_active_column i (move_column_fader E c) d = Inr (b, d') \<Longrightarrow> desk_inv Q d'"
    and "on_active_column i (turn_column_encoder E c) d = Inr (b, d') \<Longrightarrow> desk_inv Q d'"
    and "on_active_column i (press_column_button E k c) d = Inr (b, d') \<Longrightarrow> desk_inv Q d'"
  using assms by (auto elim!: on_active_column_ok intro: move_fader_ok turn_encoder_ok press_column_ok)

lemma control_change_ok: "control_change_command E i c d = Inr (b, d') \<Longrightarrow> desk_inv Q d \<Longrightarrow> desk_inv Q d'"
  unfolding control_change_command_def Let_def
  by (auto simp: bind_res_Inr_iff split: if_split_asm intro: column_command_ok send_gpio_ok)

definition keeps_inv :: "('z \<Rightarrow> bool) \<Rightarrow> (('q, 'z) desk_scheme \<Rightarrow> ('q, 'z) desk_scheme result) \<Rightarrow> bool" where
  "keeps_inv Q rb \<longleftrightarrow> (\<forall>d d'. rb d = Inr d' \<longrightarrow> desk_inv Q d \<longrightarrow> desk_inv Q d')"

lemma keeps_invD: "keeps_inv Q rb \<Longrightarrow> rb d = Inr d' \<Longrightarrow> desk_inv Q d \<Longrightarrow> desk_inv Q d'"
  by (simp add: keeps_inv_def)

lemma board_buttons_ok: "handle_bord_buttons E rb b c d = Inr d' \<Longrightarrow> keeps_inv Q rb \<Longrightarrow> desk_inv Q d \<Longrightarrow> desk_inv Q d'"
  unfolding handle_bord_buttons_def Let_def
  by (auto simp: bind_res_Inr_iff split: if_split_asm dest: commit_readymode_ok set_active_fader_bank_ok keeps_invD)

lemma incomming_ok:
  assumes rb: "keeps_inv Q rb" and a: "process_incomming_command E rb i c d = Inr d'" and ok: "desk_inv Q d"
  shows "desk_inv Q d'"
proof -
  obtain t d1 where d1: "(if mc_status c = NOTE_ON then
          (if xtouch_is_column_button (data_1 c)
           then on_active_column (i * 8 + unat (data_1 c) mod 8) (press_column_button E i c) d
           else if xtouch_is_fader_touch (data_1 c) then Inr (True, push_gui (press_message i c) d)
           else bind_res (handle_bord_buttons E rb (data_1 c) (data_2 c) d) (\<lambda>d'. Inr (True, d')))
        else if mc_status c = CONTROL_CHANGE then control_change_command E i c d
        else Inr (True, d)) = Inr (t, d1)"
    and d': "d' = (if t then d1\<lparr>devices := (devices d1)[i := schedule_transmission (de_net E) (devices d1 ! i)]\<rparr> else d1)"
    using a unfolding process_incomming_command_def bind_res_Inr_iff by auto
  have "desk_inv Q d1" using d1 ok
    by (auto simp: bind_res_Inr_iff split: if_split_asm intro: column_command_ok control_change_ok board_buttons_ok [OF _ rb])
  then show ?thesis by (simp add: d' desk_inv_def)
qed

lemma next_command_ok: "next_command E rb i d = Inr d' \<Longrightarrow> keeps_inv Q rb \<Longrightarrow> desk_inv Q d \<Longrightarrow> desk_inv Q d'"
proof -
  assume a: "next_command E rb i d = Inr d'" and rb: "keeps_inv Q rb" and ok: "desk_inv Q d"
  obtain co dev where "get_next_command_from_desk (devices d ! i) = (co, dev)" by fastforce
  moreover have "desk_inv Q (d\<lparr>devices := (devices d)[i := dev]\<rparr>)" using ok by (simp add: desk_inv_def)
  ultimately show "desk_inv Q d'" using a ok incomming_ok [OF rb] by (auto simp: next_command_def split: option.splits)
qed

lemma pure_update_io: "pure_op (column_update lm now) s = Inr s' \<Longrightarrow> io_step s s'"
  using column_update_io by (auto simp: pure_op_def)

lemma bank_update_frame:
  "bank_update E b d = Inr (b', d') \<Longrightarrow> desk_frame d d' \<and> bk_columns b' = bk_columns b"
  by (auto simp: bank_update_def bind_res_Inr_iff split: if_splits intro: on_column_frame [OF _ pure_update_io])

lemma bank_columns_bound:
  "set_ok cs bs \<Longrightarrow> b \<in> set (fader_banks bs) \<Longrightarrow> a \<in> set (bk_columns b) \<Longrightarrow> a < length cs"
  unfolding set_ok_def list_all_iff by blast

lemma active_bank_bound:
  assumes "desk_inv Q d" and "Option.bind (current_bank_set d) active_fader_bank = Some b" and "a \<in> set (bk_columns b)"
  shows "a < length (col_store d)"
proof -
  from assms(2) obtain bs where bs: "current_bank_set d = Some bs" and b: "active_fader_bank bs = Some b"
    by (auto simp: bind_eq_Some_conv)
  have "bs \<in> set (bank_sets d)" using bs by (auto simp: current_bank_set_def split: if_splits)
  then have "set_ok (col_store d) bs" using assms(1) by (simp add: desk_inv_def list_all_iff)
  moreover have "b \<in> set (fader_banks bs)" using b by (auto simp: active_fader_bank_def split: if_splits)
  ultimately show ?thesis using assms(3) by (rule bank_columns_bound)
qed

lemma desk_update_ok:
  assumes rb: "keeps_inv Q rb" and "desk_update E rb d = Inr d'" and "desk_inv Q d"
  shows "desk_inv Q d'"
proof -
  have ud: "desk_inv Q d2" if u: "update_device E rb i d1 = Inr d2" and o: "desk_inv Q d1" for d1 d2 i
  proof -
    obtain d3 where d3: "fold_res (\<lambda>_. next_command E rb i) (incomming_queue (devices d1 ! i)) d1 = Inr d3"
      and d2: "d2 = d3\<lparr>devices := (devices d3)[i := schedule_transmission (de_net E) (devices d3 ! i)]\<rparr>"
      using u by (auto simp: update_device_def bind_res_Inr_iff)
    have "desk_inv Q d3" using fold_res_invariant [OF d3, of "desk_inv Q"] o next_command_ok rb by blast
    then show ?thesis by (simp add: d2 desk_inv_def)
  qed
  obtain d1 d2 where d1: "(case Option.bind (current_bank_set d) active_fader_bank of
         None \<Rightarrow> Inr d
       | Some b \<Rightarrow> bind_res (bank_update E b d) (\<lambda>(b', d').
           Inr (upd_bank_set (current_active_bank_set d') (\<lambda>bs. bs\<lparr>fader_banks := (fader_banks bs)[active_bank bs := b']\<rparr>) d'))) = Inr d1"
    and d2: "fold_res (update_device E rb) [0..<length (devices d)] d1 = Inr d2"
    and d': "d' = (if update_message_required d2
        then (push_gui (Desk_update (desk_state_message d2)) (d2\<lparr>update_message_required := False\<rparr>))\<lparr>jogwheel_change := 0\<rparr>
        else d2)"
    using assms(2) unfolding desk_update_def bind_res_Inr_iff by blast
  have "desk_inv Q d1"
  proof (cases "Option.bind (current_bank_set d) active_fader_bank")
    case None
    then show ?thesis using d1 assms(3) by simp
  next
    case (Some b)
    then obtain b' d3 where b': "bank_update E b d = Inr (b', d3)"
      and e: "d1 = upd_bank_set (current_active_bank_set d3) (\<lambda>bs. bs\<lparr>fader_banks := (fader_banks bs)[active_bank bs := b']\<rparr>) d3"
      using d1 by (auto simp: bind_res_Inr_iff)
    have fr: "desk_frame d d3" and cols: "bk_columns b' = bk_columns b" using bank_update_frame [OF b'] by auto
    have ok3: "desk_inv Q d3" using desk_ok_frame [OF fr assms(3)] .
    have "list_all (\<lambda>a. a < length (col_store d3)) (bk_columns b)"
      using active_bank_bound [OF assms(3) Some] by (simp add: list_all_iff desk_frame_same(5) [OF fr])
    then show ?thesis unfolding e using cols
      by (intro desk_ok_upd_bank_set [OF ok3]) (auto simp: set_ok_def list_all_iff dest!: set_update_subset_insert [THEN subsetD])
  qed
  then have "desk_inv Q d2" using fold_res_invariant [OF d2, of "desk_inv Q"] ud by blast
  then show ?thesis by (simp add: d')
qed
end
