(* ===== verification/Desk_Calls.thy ===== *)
theory Desk_Calls
  imports Desk_Ok Column_Ready
begin

text \<open>
  What the requests do to the banks of the control desk: a switch of the fader bank and the columns
  it shows, the index of the sets after a removal, and the invariant of the desk over every
  sequence of calls.
\<close>

subsection \<open>Switching the fader bank\<close>

text \<open>Showing a column changes no other part of it than the colours, which may be converted.\<close>

definition same_active :: "('q, 'z) col_state \<Rightarrow> ('q, 'z) col_state \<Rightarrow> bool" where
  "same_active s s' \<longleftrightarrow> active_on_device (fst s') = active_on_device (fst s)"

lemma same_active_trans: "same_active s t \<Longrightarrow> same_active t u \<Longrightarrow> same_active s u"
  by (simp add: same_active_def)

lemma on_device_active [simp]: "same_active s (on_device f s)"
  by (cases s) (simp add: on_device_def same_active_def)

lemma edited_color_active: "edited_color get c = (v, c') \<Longrightarrow> active_on_device c' = active_on_device c"
  by (auto simp: edited_color_def split: if_splits prod.splits)

lemma held_value_active: "held_value lm c = (v, c') \<Longrightarrow> active_on_device c' = active_on_device c"
  by (auto simp: held_value_def split: if_splits rotary_encoder_assignment.splits prod.splits dest: edited_color_active)

lemma display_text_active [simp]: "same_active s (update_display_text lm s)"
  by (cases s) (auto simp: update_display_text_def Let_def same_active_def dest: held_value_active split: if_splits prod.splits)

lemma fader_position_active [simp]: "same_active s (update_physical_fader_position b s)"
  by (simp add: update_physical_fader_position_def Let_def same_active_def)

lemma button_leds_active [simp]: "same_active s (update_button_leds s)"
  by (simp add: update_button_leds_def Let_def same_active_def)

lemma encoder_leds_active: "update_encoder_leds lm s = Inr s' \<Longrightarrow> same_active s s'"
  by (cases s) (auto simp: update_encoder_leds_def Let_def bind_res_Inr_iff same_active_def dest: edited_color_active
      split: if_splits prod.splits)

lemma side_leds_active: "update_side_leds lm s = Inr s' \<Longrightarrow> same_active s s'"
  by (cases s) (auto simp: update_side_leds_def Let_def bind_res_Inr_iff same_active_def dest: edited_color_active
      split: if_splits prod.splits)

lemma set_active_flag: "set_active lm b s = Inr s' \<Longrightarrow> active_on_device (fst s') = b"
proof -
  assume a: "set_active lm b s = Inr s'"
  let ?s1 = "(fst s\<lparr>active_on_device := b\<rparr>, snd s)"
  show ?thesis
  proof (cases b)
    case True
    then obtain s2 where s2: "update_encoder_leds lm (update_physical_fader_position True (update_display_text lm ?s1)) = Inr s2"
      and s': "update_side_leds lm (update_button_leds s2) = Inr s'"
      using a by (auto simp: set_active_def Let_def bind_res_Inr_iff)
    have "same_active ?s1 s'"
      using same_active_trans [OF display_text_active fader_position_active] encoder_leds_active [OF s2]
        same_active_trans [OF button_leds_active side_leds_active [OF s']] same_active_trans by blast
    then show ?thesis by (simp add: same_active_def)
  next
    case False
    then show ?thesis using a by (auto simp: set_active_def Let_def)
  qed
qed

definition active_flags :: "('q, 'z) desk_scheme \<Rightarrow> bool list" where
  "active_flags d = map active_on_device (col_store d)"

lemma on_column_store:
  assumes "on_column a f d = Inr d'" and "\<And>c s'. f (c, d) = Inr s' \<Longrightarrow> io_step (c, d) s'"
  shows "\<exists>c' d1. f (col_store d ! a, d) = Inr (c', d1) \<and> col_store d' = (col_store d)[a := c']"
proof -
  obtain c' d1 where f: "f (col_store d ! a, d) = Inr (c', d1)" and d': "d' = d1\<lparr>col_store := (col_store d1)[a := c']\<rparr>"
    using assms(1) by (auto simp: on_column_def bind_res_Inr_iff)
  have "io_step (col_store d ! a, d) (c', d1)" using assms(2) [OF f] .
  then obtain ds cl where "d1 = d\<lparr>devices := ds, clients := cl\<rparr>" by (auto simp: io_step_def)
  then show ?thesis using f by (auto simp: d')
qed

lemma set_active_flags:
  "on_column a (set_active lm b) d = Inr d' \<Longrightarrow> active_flags d' = (active_flags d)[a := b]"
  using on_column_store [of a "set_active lm b" d d'] set_active_io set_active_flag [of lm b]
  by (fastforce simp: active_flags_def map_update)

lemma reset_store: "reset_column (c, d) = (c', d') \<Longrightarrow> c' = c"
  by (auto simp: reset_column_def Let_def on_device_def split: if_splits)

lemma reset_flags: "on_column a (pure_op reset_column) d = Inr d' \<Longrightarrow> active_flags d' = active_flags d"
proof -
  assume a: "on_column a (pure_op reset_column) d = Inr d'"
  have "\<exists>c' d1. pure_op reset_column (col_store d ! a, d) = Inr (c', d1) \<and> col_store d' = (col_store d)[a := c']"
    using a by (rule on_column_store) (auto simp: pure_op_def)
  then show ?thesis by (auto simp: active_flags_def pure_op_def dest: reset_store)
qed

definition with_flags :: "nat list \<Rightarrow> bool \<Rightarrow> bool list \<Rightarrow> bool list" where
  "with_flags as b = fold (\<lambda>a fl. fl[a := b]) as"

lemma with_flags_nth:
  "i < length fl \<Longrightarrow> with_flags as b fl ! i = (if i \<in> set as then b else fl ! i)"
proof (induction as arbitrary: fl)
  case (Cons a as)
  have "with_flags (a # as) b fl ! i = with_flags as b (fl[a := b]) ! i" by (simp add: with_flags_def)
  also have "\<dots> = (if i \<in> set as then b else fl[a := b] ! i)" using Cons by simp
  also have "\<dots> = (if i \<in> set (a # as) then b else fl ! i)" using Cons.prems by (simp add: nth_list_update)
  finally show ?case .
qed (simp add: with_flags_def)

lemma with_flags_length [simp]: "length (with_flags as b fl) = length fl"
  by (induction as arbitrary: fl) (simp_all add: with_flags_def)

lemma fold_set_active_flags:
  "fold_res (\<lambda>a. on_column a (set_active lm b)) as d = Inr d' \<Longrightarrow> active_flags d' = with_flags as b (active_flags d)"
  by (induction as arbitrary: d) (auto simp: with_flags_def bind_res_Inr_iff set_active_flags)

lemma fold_reset_flags:
  "fold_res (\<lambda>a. on_column a (pure_op reset_column)) as d = Inr d' \<Longrightarrow> active_flags d' = active_flags d"
  by (induction as arbitrary: d) (auto simp: bind_res_Inr_iff reset_flags)

lemma bank_activate_flags: "bank_activate E b d = Inr d' \<Longrightarrow> active_flags d' = with_flags (bk_columns b) True (active_flags d)"
  by (simp add: bank_activate_def fold_set_active_flags)

lemma bank_deactivate_flags:
  "bank_deactivate E n b d = Inr d' \<Longrightarrow> active_flags d' = with_flags (bk_columns b) False (active_flags d)"
  by (auto simp: bank_deactivate_def bind_res_Inr_iff fold_reset_flags fold_set_active_flags)

lemma fader_bank_leds_store [simp]:
  "col_store (update_fader_bank_leds E d) = col_store d" "bank_sets (update_fader_bank_leds E d) = bank_sets d"
  "current_active_bank_set (update_fader_bank_leds E d) = current_active_bank_set d"
  "bankset_to_index_map (update_fader_bank_leds E d) = bankset_to_index_map d"
  by (simp_all add: update_fader_bank_leds_def all_devices_def split: option.splits)

lemma set_active_fader_bank_cases:
  assumes "set_active_fader_bank_on_current_set E i d = Inr (True, d')"
  obtains cbs d1 d3 where "current_bank_set d = Some cbs" "i < length (fader_banks cbs)" "active_bank cbs < length (fader_banks cbs)"
    "bank_deactivate E (length (bk_columns (fader_banks cbs ! i))) (fader_banks cbs ! active_bank cbs) d = Inr d1"
    "bank_activate E (fader_banks cbs ! i) (upd_bank_set (current_active_bank_set d) (\<lambda>bs. bs\<lparr>active_bank := i\<rparr>) d1) = Inr d3"
    "d' = (update_fader_bank_leds E d3)\<lparr>update_message_required := True\<rparr>"
  using assms by (auto simp: set_active_fader_bank_on_current_set_def Let_def bind_res_Inr_iff split: option.splits if_splits)

text \<open>
  C19. Switching the fader bank: afterwards the set is at the new bank, the columns of the new bank
  are active on the devices, those of the old bank that are not part of it are not, and every
  other column keeps its state.
\<close>

theorem fader_bank_switch:
  assumes switch: "set_active_fader_bank_on_current_set E i d = Inr (True, d')" and set: "current_bank_set d = Some cbs"
  shows "current_bank_set d' = Some (cbs\<lparr>active_bank := i\<rparr>) \<and> i < length (fader_banks cbs)
    \<and> (\<forall>a < length (col_store d). active_on_device (col_store d' ! a) =
         (a \<in> set (bk_columns (fader_banks cbs ! i))
          \<or> (active_on_device (col_store d ! a) \<and> a \<notin> set (bk_columns (fader_banks cbs ! active_bank cbs)))))"
proof -
  obtain d1 d3 where i: "i < length (fader_banks cbs)"
    and d1: "bank_deactivate E (length (bk_columns (fader_banks cbs ! i))) (fader_banks cbs ! active_bank cbs) d = Inr d1"
    and d3: "bank_activate E (fader_banks cbs ! i) (upd_bank_set (current_active_bank_set d) (\<lambda>bs. bs\<lparr>active_bank := i\<rparr>) d1) = Inr d3"
    and d': "d' = (update_fader_bank_leds E d3)\<lparr>update_message_required := True\<rparr>"
    using set_active_fader_bank_cases [OF switch] set by (metis option.inject)
  note f1 = desk_frame_same [OF bank_deactivate_frame [OF d1]] and f3 = desk_frame_same [OF bank_activate_frame [OF d3]]
  have flags: "active_flags d' = with_flags (bk_columns (fader_banks cbs ! i)) True
      (with_flags (bk_columns (fader_banks cbs ! active_bank cbs)) False (active_flags d))"
    using bank_deactivate_flags [OF d1] bank_activate_flags [OF d3] by (simp add: d' active_flags_def upd_bank_set_def)
  have len: "length (col_store d') = length (col_store d)" using f1 f3 by (simp add: d' upd_bank_set_def)
  have flag: "active_on_device (col_store d' ! a) = (a \<in> set (bk_columns (fader_banks cbs ! i))
          \<or> (active_on_device (col_store d ! a) \<and> a \<notin> set (bk_columns (fader_banks cbs ! active_bank cbs))))"
    if a: "a < length (col_store d)" for a
  proof -
    have "active_on_device (col_store d' ! a) = active_flags d' ! a" "length (active_flags d) = length (col_store d)"
      "active_on_device (col_store d ! a) = active_flags d ! a" using a len by (simp_all add: active_flags_def)
    then show ?thesis using a by (simp add: flags with_flags_nth)
  qed
  have cur: "current_bank_set d' = Some (cbs\<lparr>active_bank := i\<rparr>)"
    using set f1 f3 by (auto simp: d' current_bank_set_def upd_bank_set_def split: if_splits)
  show ?thesis using cur i flag by blast
qed

definition demo_env :: "(u8 list list, u8 list) desk_env" where
  "demo_env = \<lparr>de_net = list_net, de_libm = demo_libm, de_now = 7, de_mutex_free = True\<rparr>"

definition demo_set :: bank_set where
  "demo_set = \<lparr>active_bank = 0, fader_banks = [\<lparr>bk_columns = [0, 1], current_col_update_index = 0\<rparr>,
      \<lparr>bk_columns = [1, 2], current_col_update_index = 0\<rparr>], columns_map = [(''a'', 0)], columns_in_ready_state = [], bs_id = ''s''\<rparr>"

definition demo_desk :: "u8 list list desk" where
  "demo_desk = \<lparr>devices = [], clients = [], col_store = map (\<lambda>(i, b). (new_bank_column 0 DIRECT_INPUT_MODE i 0)\<lparr>active_on_device := b\<rparr>)
       [(''a'', True), (''b'', True), (''c'', False)],
     bank_sets = [demo_set], bankset_to_index_map = [(''s'', 0)], selected_column_id = [], find_enabled_on_column_id = [],
     max_number_of_colums = 0, current_active_bank_set = 0, jogwheel_change = 0, update_message_required = False,
     bank_set_modification_happened = False, global_dark = False, self_initialized_readymode = False,
     global_illumination = 0, gpio_event_sender = 0, ev = start_world\<rparr>"

lemmas demo_desk_defs = demo_env_def demo_set_def demo_desk_def

theorem fader_bank_switch_witness:
  "\<exists>d'. set_active_fader_bank_on_current_set demo_env 1 demo_desk = Inr (True, d')
     \<and> \<not> active_on_device (col_store d' ! 0) \<and> active_on_device (col_store d' ! 2)"
proof -
  have set: "current_bank_set demo_desk = Some demo_set" by (simp add: demo_desk_defs current_bank_set_def)
  have "\<exists>d'. set_active_fader_bank_on_current_set demo_env 1 demo_desk = Inr (True, d')"
    by (simp add: demo_desk_defs set_active_fader_bank_on_current_set_def current_bank_set_def bank_deactivate_def
        bank_activate_def on_column_def set_active_def vec_at_def Let_def pure_op_def reset_column_def on_device_def
        update_encoder_leds_def update_side_leds_def update_display_text_def update_button_leds_def
        update_physical_fader_position_def upd_bank_set_def new_bank_column_def)
  then obtain d' where d': "set_active_fader_bank_on_current_set demo_env 1 demo_desk = Inr (True, d')" by blast
  from fader_bank_switch [OF d' set] have "\<forall>a < length (col_store demo_desk). active_on_device (col_store d' ! a) =
         (a \<in> set (bk_columns (fader_banks demo_set ! 1))
          \<or> (active_on_device (col_store demo_desk ! a) \<and> a \<notin> set (bk_columns (fader_banks demo_set ! active_bank demo_set))))"
    by blast
  from this [rule_format, of 0] this [rule_format, of 2] d' show ?thesis by (auto simp: demo_desk_defs)
qed

subsection \<open>Removing a set\<close>

definition same_index :: "('q, 'z) desk_scheme \<Rightarrow> ('q, 'z) desk_scheme \<Rightarrow> bool" where
  "same_index d d' \<longleftrightarrow> bankset_to_index_map d' = bankset_to_index_map d \<and> length (bank_sets d') = length (bank_sets d)"

lemma same_index_frame: "desk_frame d d' \<Longrightarrow> same_index d d'"
  by (simp add: same_index_def desk_frame_same)

lemma same_index_trans: "same_index d e \<Longrightarrow> same_index e f \<Longrightarrow> same_index d f"
  by (simp add: same_index_def)

lemma enter_bank_set_index: "same_index d (enter_bank_set i d)"
  by (simp add: same_index_def enter_bank_set_def upd_bank_set_def Let_def)

lemma set_active_bank_set_index:
  fixes d :: "('q, 'z) desk_scheme"
  assumes "set_active_bank_set E i d = Inr (b, d')"
  shows "same_index d d'"
proof (cases "i < length (bank_sets d) \<and> (i \<noteq> current_active_bank_set d \<or> bank_set_modification_happened d)")
  case True
  from True assms obtain cbs n d1 d4 where
    d1: "(case active_fader_bank cbs of None \<Rightarrow> Inr d | Some b \<Rightarrow> bank_deactivate E n b d) = Inr d1"
    and d4: "(case active_fader_bank (bank_sets (enter_bank_set i d1) ! i) of None \<Rightarrow> Inr (enter_bank_set i d1) | Some b \<Rightarrow> bank_activate E b (enter_bank_set i d1)) = Inr d4"
    and d': "d' = (update_fader_bank_leds E d4)\<lparr>update_message_required := True, bank_set_modification_happened := False\<rparr>"
    by (auto simp: set_active_bank_set_def Let_def bind_res_Inr_iff split del: option.split)
  have "same_index d d4"
    using same_index_frame [OF deactivate_opt_ok(1) [OF d1]] enter_bank_set_index [of d1 i]
      same_index_frame [OF deactivate_opt_ok(2) [OF d4]] same_index_trans by blast
  then show ?thesis by (simp add: d' same_index_def)
next
  case False
  then have "\<not> (i < length (bank_sets d) \<and> (i \<noteq> current_active_bank_set d \<or> bank_set_modification_happened d))" by blast
  then show ?thesis using assms by (simp only: set_active_bank_set_def if_False) (simp add: same_index_def)
qed

lemma pop_bank_set_simps [simp]:
  "length (bank_sets (pop_bank_set d)) = length (bank_sets d) - 1"
  "bankset_to_index_map (pop_bank_set d) = bankset_to_index_map d"
  by (simp_all add: pop_bank_set_def)

lemma remove_last_set_pops: "remove_last_set E i d = Inr d' \<Longrightarrow> \<exists>d1. d' = pop_bank_set d1 \<and> same_index d d1"
proof -
  assume a: "remove_last_set E i d = Inr d'"
  have refl: "same_index d d" by (simp add: same_index_def)
  obtain d1 where d1: "(if i = current_active_bank_set d
                then (if length (bank_sets d) > 1 then bind_res (set_active_bank_set E (i - 1) d) (\<lambda>(_, d'). Inr d')
                      else (case active_fader_bank (bank_sets d ! i) of None \<Rightarrow> Inr d | Some b \<Rightarrow> bank_deactivate E 0 b d))
                else Inr d) = Inr d1" and d': "d' = pop_bank_set d1"
    using a unfolding remove_last_set_def bind_res_Inr_iff by auto
  have "same_index d d1" using d1 refl
    by (auto simp: bind_res_Inr_iff split: if_split_asm intro: set_active_bank_set_index same_index_frame [OF deactivate_opt_ok(1)])
  then show ?thesis using d' by blast
qed

lemma remove_last_set_index:
  "remove_last_set E i d = Inr d' \<Longrightarrow>
    bankset_to_index_map d' = bankset_to_index_map d \<and> length (bank_sets d') = length (bank_sets d) - 1"
  using remove_last_set_pops by (fastforce simp: same_index_def)

text \<open>
  Removing the last bank set of the list leaves its id in the index of the desk: adding a set
  with the same id again takes the old position, which is past the end of the list, and writes
  there.
\<close>

theorem removed_last_set_is_stale:
  assumes "map_of (bankset_to_index_map d) i = Some (length (bank_sets d) - 1)" and "bank_sets d \<noteq> []"
    and "remove_bank_set_by_id E i d = Inr (b, d')" and "am_bank_id msg = i"
  shows "add_bank_set_from_protobuf_msg E msg d' = Inl Undefined_behaviour"
proof -
  have "remove_last_set E (length (bank_sets d) - 1) (d\<lparr>bank_set_modification_happened := True\<rparr>) = Inr d'"
    using assms(1-3) by (auto simp: remove_bank_set_by_id_def remove_bank_set_def bind_res_Inr_iff Let_def)
  from remove_last_set_index [OF this] have "map_of (bankset_to_index_map d') i = Some (length (bank_sets d'))"
    using assms(1) by simp
  then show ?thesis using assms(4)
    by (simp add: add_bank_set_from_protobuf_msg_def bank_set_slot_def vec_at_def)
qed

theorem removed_last_set_is_stale_witness:
  "\<exists>d'. remove_bank_set_by_id demo_env ''s'' demo_desk = Inr (True, d') \<and>
     add_bank_set_from_protobuf_msg demo_env \<lparr>am_bank_id = ''s'', am_banks = [], am_default_active = 0\<rparr> d' = Inl Undefined_behaviour"
proof -
  have "\<exists>d'. remove_bank_set_by_id demo_env ''s'' demo_desk = Inr (True, d')"
    by (simp add: demo_desk_defs remove_bank_set_by_id_def remove_bank_set_def remove_last_set_def active_fader_bank_def
        bank_deactivate_def on_column_def set_active_def vec_at_def Let_def pure_op_def reset_column_def on_device_def new_bank_column_def)
  then obtain d' where d': "remove_bank_set_by_id demo_env ''s'' demo_desk = Inr (True, d')" by blast
  have "map_of (bankset_to_index_map demo_desk) ''s'' = Some (length (bank_sets demo_desk) - 1)" "bank_sets demo_desk \<noteq> []"
    by (simp_all add: demo_desk_defs)
  from removed_last_set_is_stale [OF this d', of "\<lparr>am_bank_id = ''s'', am_banks = [], am_default_active = 0\<rparr>"]
  show ?thesis using d' by auto
qed

subsection \<open>All requests\<close>

text \<open>The calls the rest of the program makes to the desk.\<close>

datatype desk_call =
    Select_set string
  | Select_bank nat
  | Ready_update ready_cause
  | Desk_state desk_state_msg
  | Fader_moved string u32
  | Encoder_moved string u32
  | Column_data fader_column_msg
  | Add_set add_bank_set_msg
  | Remove_set string
  | Desk_leds int led_request
  | Rollback_possible bool
  | Devices_reset
  | Desk_tick

fun call_desk ::
  "('q, 'r) desk_env \<Rightarrow> (('q, 'z) desk_scheme \<Rightarrow> ('q, 'z) desk_scheme result) \<Rightarrow> desk_call \<Rightarrow>
   ('q, 'z) desk_scheme \<Rightarrow> ('q, 'z) desk_scheme result" where
  "call_desk E rb (Select_set i) d = bind_res (set_active_bank_set_by_id E i d) (\<lambda>(_, d'). Inr d')"
| "call_desk E rb (Select_bank i) d = bind_res (set_active_fader_bank_on_current_set E i d) (\<lambda>(_, d'). Inr d')"
| "call_desk E rb (Ready_update c) d = process_readymode_update_from_gui E c d"
| "call_desk E rb (Desk_state m) d = process_desk_update_message E m d"
| "call_desk E rb (Fader_moved i p) d = update_fader_position_from_protobuf E i p d"
| "call_desk E rb (Encoder_moved i a) d = update_encoder_state_from_protobuf E i a d"
| "call_desk E rb (Column_data m) d = update_column_from_message E m None d"
| "call_desk E rb (Add_set m) d = add_bank_set_from_protobuf_msg E m d"
| "call_desk E rb (Remove_set i) d = bind_res (remove_bank_set_by_id E i d) (\<lambda>(_, d'). Inr d')"
| "call_desk E rb (Desk_leds b s) d = Inr (update_button_leds_from_protobuf E b s d)"
| "call_desk E rb (Rollback_possible b) d = Inr (notify_showfile_changed E b d)"
| "call_desk E rb Devices_reset d = reset_devices E d"
| "call_desk E rb Desk_tick d = desk_update E rb d"

lemma reset_devices_ok: "reset_devices E d = Inr d' \<Longrightarrow> desk_inv Q d \<Longrightarrow> desk_inv Q d'"
  by (auto simp: reset_devices_def bind_res_Inr_iff dest: desk_ok_frame [OF deactivate_opt_ok(1)])

lemma call_desk_ok: "call_desk E rb c d = Inr d' \<Longrightarrow> keeps_inv Q rb \<Longrightarrow> desk_inv Q d \<Longrightarrow> desk_inv Q d'"
  by (cases c) (auto simp: bind_res_Inr_iff update_button_leds_from_protobuf_def notify_showfile_changed_def Let_def
      intro: set_active_bank_set_by_id_ok set_active_fader_bank_ok process_readymode_update_ok desk_update_request_ok
        fader_position_request_ok encoder_request_ok desk_ok_frame [OF update_column_frame] add_bank_set_ok
        remove_bank_set_by_id_ok reset_devices_ok desk_update_ok)

lemma new_desk_ok: "new_desk E inputs cl w = Inr d \<Longrightarrow> Q (desk.more d) \<Longrightarrow> desk_inv Q d"
  by (auto simp: new_desk_def bind_res_Inr_iff desk_inv_def om_ok_def)

text \<open>
  C18. Whatever the user interface asks and the devices send, in any order: every column a bank or
  an index of the desk refers to exists, the index of a set names each column by its id, every
  column belongs to one of the devices, and no key is twice in an index.
\<close>

theorem desk_stays_ok:
  assumes "new_desk E inputs cl w = Inr d" and "\<And>d d'. rb d = Inr d' \<Longrightarrow> desk_ok d \<Longrightarrow> desk_ok d'"
    and "fold_res (call_desk E rb) calls d = Inr d'"
  shows "desk_ok d'"
proof -
  have rb: "keeps_inv (\<lambda>_. True) rb" using assms(2) by (simp add: keeps_inv_def desk_ok_def)
  show ?thesis unfolding desk_ok_def
    using assms(3)
  proof (rule fold_res_invariant)
    show "desk_inv (\<lambda>_. True) d" using new_desk_ok [OF assms(1)] by simp
  qed (use call_desk_ok [OF _ rb] in blast)
qed

theorem desk_stays_ok_witness:
  "\<exists>d d'. new_desk demo_env [] [] start_world = Inr d \<and> fold_res (call_desk demo_env Inr)
      [Add_set \<lparr>am_bank_id = ''s'', am_banks = [[]], am_default_active = 0\<rparr>, Select_bank 0, Desk_tick, Remove_set ''s''] d = Inr d'
    \<and> desk_ok d'"
proof -
  have "\<exists>d d'. new_desk demo_env [] [] start_world = Inr d \<and> fold_res (call_desk demo_env Inr)
      [Add_set \<lparr>am_bank_id = ''s'', am_banks = [[]], am_default_active = 0\<rparr>, Select_bank 0, Desk_tick, Remove_set ''s''] d = Inr d'"
    by (simp add: demo_env_def new_desk_def open_devices_def create_source_def start_world_def new_event_storage_def
        register_event_source_def add_bank_set_from_protobuf_msg_def bank_set_slot_def fill_bank_set_def add_bank_def vec_at_def
        upd_bank_set_def set_active_bank_set_def active_fader_bank_def enter_bank_set_def bank_activate_def bank_deactivate_def
        update_fader_bank_leds_def current_bank_set_def all_devices_def set_active_fader_bank_on_current_set_def Let_def
        desk_update_def bank_update_def desk_state_message_def push_gui_def push_msg_to_all_gui_def remove_bank_set_by_id_def
        remove_bank_set_def remove_last_set_def pop_bank_set_def)
  then obtain d d' where d: "new_desk demo_env [] [] start_world = Inr d" and d': "fold_res (call_desk demo_env Inr)
      [Add_set \<lparr>am_bank_id = ''s'', am_banks = [[]], am_default_active = 0\<rparr>, Select_bank 0, Desk_tick, Remove_set ''s''] d = Inr d'"
    by blast
  from desk_stays_ok [OF d _ d'] d d' show ?thesis by blast
qed
end
