(* ===== verification/Io_Manager.thy ===== *)
theory Io_Manager
  imports Desk_Calls Filter_Scene
begin

text \<open>
  \<^verbatim>\<open>src/src/io/iomanager.cpp\<close> and the main loop (\<^verbatim>\<open>src/src/main_loop.cpp\<close>): the requests of the user
  interfaces, loading a show file and rolling it back, and the cycle that updates the desk, the
  events, the active show and the universes.

  The record \<open>manager\<close> has everything these operations change: it extends the desk (whose record has
  the connected user interfaces and the events) by the fields of \<open>IOManager\<close> and of the run time
  state, the universes, the clock of the filters and the state registry. The event loop, the thread that loads a show
  and the main loop run concurrently in the program; here a request, a load and a cycle are each one step.
  An exception that leaves a step is its result, with the state it leaves behind.

  A request is the decoded protobuf message, or None when decoding it failed. Parameters
  (\<open>manager_env\<close>): the XML parser with its error text, the sizes of the filter classes, the
  schedule of the thread pool, the resolution of addresses, the USB library and the clocks.
\<close>

type_synonym dongle = "int \<times> int \<times> string \<times> string"

record ('q, 'r, 'a) manager_env =
  me_desk :: "('q, 'r) desk_env"
  me_lib :: c_library
  me_parse_show :: "string \<Rightarrow> string + ('a, dongle) show_file"
  me_size_of :: "string \<Rightarrow> nat"
  me_setup_clock :: "string \<Rightarrow> int"
  me_ftdi_open :: "dongle \<Rightarrow> unit result"
  me_ftdi_send :: "universe \<Rightarrow> bool"
  me_dongle_ids :: "nat \<Rightarrow> int \<times> int"
  me_id_text :: "int option \<Rightarrow> string"
  me_schedule :: "('a, dongle) show_file \<Rightarrow> (nat \<times> bool) list"
  me_address :: "string \<Rightarrow> int \<Rightarrow> 'a result"
  me_ext_conf :: "event_sender_msg \<Rightarrow> event_source \<Rightarrow> bool \<times> event_source"
  me_ext_encode :: "event_source \<Rightarrow> event_sender_msg \<Rightarrow> event_sender_msg"
  me_time :: int

type_synonym fish_show = "scene_filter project_configuration"

record ('q, 'a) manager = "'q desk" +
  control_desk_handle :: bool
  running :: bool
  is_direct_mode :: bool
  active_show :: "fish_show option"
  last_active_show :: "fish_show option"
  latest_error :: string
  show_file_apply_state :: apply_state
  show_loading_thread :: "(string \<times> bool) option"
  mgr_io :: "'a io_state"
  mgr_clock :: "nat \<Rightarrow> int"
  mgr_readings :: nat
  global_states :: state_registry

definition exn_text :: "exn \<Rightarrow> string" where
  "exn_text e = (case e of Invalid_argument s \<Rightarrow> s | Out_of_range s \<Rightarrow> s | Range_error s \<Rightarrow> s
     | Filter_config_exception s \<Rightarrow> s | Filter_runtime_exception s \<Rightarrow> s | Scheduling_exception s \<Rightarrow> s
     | Project_config_exception s \<Rightarrow> s | Netio_exception s \<Rightarrow> s | Runtime_error s \<Rightarrow> s | Ftdi_exception s \<Rightarrow> s | Length_error s \<Rightarrow> s
     | Undefined_behaviour \<Rightarrow> [])"

subsection \<open>The active show\<close>

text \<open>What the filters of a show see of the manager.\<close>

definition show_world :: "('q, 'a) manager \<Rightarrow> 'a filter_world" where
  "show_world m = \<lparr>w_io = mgr_io m, w_events = storage (ev m), w_clock = mgr_clock m, w_readings = mgr_readings m\<rparr>"

definition with_world :: "'a filter_world \<Rightarrow> ('q, 'a) manager \<Rightarrow> ('q, 'a) manager" where
  "with_world w m = m\<lparr>mgr_io := w_io w, mgr_readings := w_readings w, ev := (ev m)\<lparr>storage := w_events w\<rparr>\<rparr>"

definition on_show :: "(fish_show \<times> 'a filter_world, 'b) act \<Rightarrow> fish_show \<Rightarrow> ('q, 'a) manager \<Rightarrow> 'b result \<times> fish_show \<times> ('q, 'a) manager" where
  "on_show f p m = (case f (p, show_world m) of (r, p', w) \<Rightarrow> (r, p', with_world w m))"

definition is_rollback_available :: "('q, 'a) manager \<Rightarrow> bool" where
  "is_rollback_available m \<longleftrightarrow> last_active_show m \<noteq> None"

definition notify_desk :: "('q, 'r, 'a) manager_env \<Rightarrow> ('q, 'a) manager \<Rightarrow> ('q, 'a) manager" where
  "notify_desk E m = (if control_desk_handle m then notify_showfile_changed (me_desk E) (is_rollback_available m) m else m)"

definition rollback :: "('q, 'r, 'a) manager_env \<Rightarrow> (('q, 'a) manager, unit) act" where
  "rollback E m = (case last_active_show m of
      None \<Rightarrow> (Inr (), m)
    | Some prev \<Rightarrow>
        (case (case active_show m of
                 Some p \<Rightarrow> on_show (set_active_scene (fish_virtual (me_lib E)) (current_scene_id p)) prev m
               | None \<Rightarrow> (Inr False, prev, m)) of
           (Inl e, prev', m') \<Rightarrow> (Inl e, m'\<lparr>last_active_show := Some prev'\<rparr>)
         | (Inr _, prev', m') \<Rightarrow> (Inr (), notify_desk E (m'\<lparr>active_show := Some prev', last_active_show := None\<rparr>))))"

subsection \<open>Loading a show file\<close>

definition report_load :: "('q, 'r, 'a) manager_env \<Rightarrow> bool \<Rightarrow> string \<Rightarrow> ('q, 'a) manager \<Rightarrow> ('q, 'a) manager" where
  "report_load E success log_text m = push_gui (Log_message (if success then LL_INFO else LL_ERROR) (me_time E) log_text)
     (if success then notify_desk E (m\<lparr>show_file_apply_state := SFAS_SHOW_ACTIVE, latest_error := ''Showfile Applied.''\<rparr>)
      else if active_show m = None
      then m\<lparr>latest_error := ''An error occurred while loading the show configuration. No show file is currently loaded. Please review the detailed log message.'',
             show_file_apply_state := SFAS_NO_SHOW_ERROR\<rparr>
      else m\<lparr>latest_error := ''An error occurred while loading the new show configuration. The last successfully loaded configuration is still active. Please review the detailed log message.'',
             show_file_apply_state := SFAS_SHOW_ACTIVE\<rparr>)"

text \<open>Which exceptions the function catches; any other ends the thread, and with it the program.\<close>

definition load_failed :: "('q, 'r, 'a) manager_env \<Rightarrow> exn \<Rightarrow> string \<Rightarrow> (('q, 'a) manager, unit) act" where
  "load_failed E e log_text m = (case e of
      Project_config_exception what \<Rightarrow>
        (Inr (), report_load E False (log_text @ newline @ ''An error occurred while scheduling the filters:'' @ newline @ what @ newline) m)
    | _ \<Rightarrow> (Inl e, m))"

definition keep_scene ::
  "('q, 'r, 'a) manager_env \<Rightarrow> bool \<Rightarrow> fish_show \<Rightarrow> string \<Rightarrow> ('q, 'a) manager \<Rightarrow> unit result \<times> fish_show \<times> string \<times> ('q, 'a) manager" where
  "keep_scene E goto_default_scene p lg m =
     (if goto_default_scene then (Inr (), p, lg, m)
      else case active_show m of
          Some a \<Rightarrow>
            (case on_show (set_active_scene (fish_virtual (me_lib E)) (current_scene_id a)) p m of
               (r, p', m') \<Rightarrow> (bind_res r (\<lambda>_. Inr ()), p',
                  lg @ ''Switching to last active scene '' @ dec (unat (current_scene_id a)) @ ''.'' @ newline, m'))
        | None \<Rightarrow> (Inr (), p, lg @ ''Failed to load last active scene as there was no previous show.'' @ newline, m))"

definition candidate_show ::
  "('q, 'r, 'a) manager_env \<Rightarrow> ('a, dongle) show_file \<Rightarrow> ('q, 'a) manager \<Rightarrow> fish_show result \<times> string \<times> 'a filter_world" where
  "candidate_show E sf m =
     construct_project (me_ftdi_open E) (me_size_of E) (fish_methods (me_lib E) (me_setup_clock E))
       (fish_virtual (me_lib E)) (me_id_text E) (me_schedule E sf) sf (''Show XML successfully parsed.'' @ newline, show_world m)"

definition install_show :: "('q, 'r, 'a) manager_env \<Rightarrow> bool \<Rightarrow> fish_show \<Rightarrow> string \<Rightarrow> (('q, 'a) manager, unit) act" where
  "install_show E goto_default_scene p lg m = (case keep_scene E goto_default_scene p lg m of
      (Inl e, _, lg', m') \<Rightarrow> load_failed E e lg' m'
    | (Inr _, p', lg', m') \<Rightarrow> (Inr (), report_load E True (lg' @ ''Switched to new show.'' @ newline)
         (m'\<lparr>last_active_show := active_show m', active_show := Some p'\<rparr>)))"

definition load_show_file :: "('q, 'r, 'a) manager_env \<Rightarrow> string \<times> bool \<Rightarrow> (('q, 'a) manager, unit) act" where
  "load_show_file E msg m = (let (show_data, goto_default_scene) = msg in
     case me_parse_show E show_data of
       Inl what \<Rightarrow> (Inr (), report_load E False
          (newline @ ''An error occurred while parsing the show file XML:'' @ newline @ what @ newline) m)
     | Inr sf \<Rightarrow>
         (case candidate_show E sf m of
            (Inl e, lg, w) \<Rightarrow> load_failed E e lg (with_world w m)
          | (Inr p, lg, w) \<Rightarrow> install_show E goto_default_scene p lg (with_world w m)))"

text \<open>The thread that loads a show; joining it waits until it is done.\<close>

definition finish_loading :: "('q, 'r, 'a) manager_env \<Rightarrow> (('q, 'a) manager, unit) act" where
  "finish_loading E m = (case show_loading_thread m of
      None \<Rightarrow> (Inr (), m)
    | Some msg \<Rightarrow> load_show_file E msg (m\<lparr>show_loading_thread := None\<rparr>))"

subsection \<open>Requests\<close>

text \<open>
  The messages of the user interface. A message for the desk or about events is processed also when
  decoding it failed, with what was decoded until then; the flag says whether it was decoded.
\<close>

datatype request =
    Update_state "run_mode option"
  | Current_state "unit option"
  | Universe_msg "(int \<times> universe_location) option"
  | Universe_list_msg "(int \<times> universe_location) list option"
  | Request_universe_list "int option"
  | Delete_universe "int option"
  | Button_msg "(int \<times> led_request) option"
  | Fader_msg "(string \<times> u32) option"
  | Readymode_msg "ready_cause option"
  | Encoder_msg "(string \<times> u32) option"
  | Dmx_msg "(int \<times> int list) option"
  | Request_dmx_data "int option"
  | Enter_scene "int option"
  | Load_show_file "(string \<times> bool) option"
  | Update_parameter "(int \<times> string \<times> string \<times> string) option"
  | Log_msg "unit option"
  | State_list_msg "state_list option"
  | Remove_fader_bank_set bool string
  | Add_fader_bank_set bool add_bank_set_msg
  | Desk_update_msg bool desk_state_msg
  | Update_column bool fader_column_msg
  | Event_msg bool event_msg
  | Event_sender_update bool event_sender_msg
  | Unwanted_message nat

definition set_error :: "string \<Rightarrow> ('q, 'a) manager \<Rightarrow> ('q, 'a) manager" where
  "set_error e m = m\<lparr>latest_error := e\<rparr>"

definition not_parsed :: "string \<Rightarrow> (('q, 'a) manager, unit) act" where
  "not_parsed name m = (Inr (), set_error (''Could not parse the message of type: '' @ name @ ''.'') m)"

definition reply :: "nat \<Rightarrow> double out_message \<Rightarrow> ('q, 'a) manager \<Rightarrow> ('q, 'a) manager" where
  "reply client msg m = m\<lparr>clients := reply_to client msg (clients m)\<rparr>"

subsubsection \<open>Running mode\<close>

definition update_state :: "run_mode \<Rightarrow> ('q, 'a) manager \<Rightarrow> ('q, 'a) manager" where
  "update_state mode m = (case mode of
      RM_FILTER \<Rightarrow> m\<lparr>is_direct_mode := False\<rparr>
    | RM_DIRECT \<Rightarrow> m\<lparr>is_direct_mode := True\<rparr>
    | RM_STOP \<Rightarrow> m\<lparr>running := False\<rparr>
    | RunMode_INT_MIN_SENTINEL \<Rightarrow>
        set_error ''IOManager Parse Message: MSGT_UPDATE_STATE: Used RunMode_INT_MIN_SENTINEL_DO_NOT_USE_ which should not be used'' m
    | RunMode_INT_MAX_SENTINEL \<Rightarrow>
        set_error ''IOManager Parse Message: MSGT_UPDATE_STATE: Used RunMode_INT_MAX_SENTINEL_DO_NOT_USE_ which should not be used'' m
    | RM_unknown _ \<Rightarrow> set_error ''IOManager Parse Message: MSGT_UPDATE_STATE: Used Another unknown Run Mode Message'' m)"

subsubsection \<open>Universes\<close>

definition locate :: "('q, 'r, 'a) manager_env \<Rightarrow> universe_location \<Rightarrow> ('a, dongle) location result" where
  "locate E loc = (case loc of
      Remote_location ip port dev \<Rightarrow> bind_res (me_address E ip port) (\<lambda>a. Inr (Artnet_location a (of_int dev)))
    | Ftdi_dongle pid vid nm serial \<Rightarrow> Inr (Ftdi_location (pid, vid, nm, serial))
    | _ \<Rightarrow> Inr Local_location)"

definition log_to_client :: "('q, 'r, 'a) manager_env \<Rightarrow> nat \<Rightarrow> string \<Rightarrow> ('q, 'a) manager \<Rightarrow> ('q, 'a) manager" where
  "log_to_client E client text m = reply client (Log_message LL_WARNING (me_time E) text) m"

text \<open>The pointer that is returned is dropped at once.\<close>

definition register_from_message :: "('q, 'r, 'a) manager_env \<Rightarrow> nat \<Rightarrow> int \<times> universe_location \<Rightarrow> (('q, 'a) manager, unit) act" where
  "register_from_message E client msg m = (let (i, loc) = msg in
     case bind_res (locate E loc) (\<lambda>l. register_universe_from_message (me_ftdi_open E) i l (mgr_io m)) of
       Inr (_, st) \<Rightarrow> (Inr (), m\<lparr>mgr_io := st\<lparr>held := held (mgr_io m)\<rparr>\<rparr>)
     | Inl Undefined_behaviour \<Rightarrow> (Inl Undefined_behaviour, m)
     | Inl (Ftdi_exception what) \<Rightarrow>
         (let text = ''Could not create the usb-dmx universe with id '' @ dec_int i @ ''. Reason: '' @ what
          in (Inr (), log_to_client E client text (set_error text m)))
     | Inl e \<Rightarrow>
         (let text = ''Could not create universe: with id '' @ dec_int i @ ''. Reason: '' @ exn_text e
          in (Inr (), log_to_client E client text (set_error text m))))"

definition universe_message :: "('q, 'r, 'a) manager_env \<Rightarrow> 'a io_state \<Rightarrow> nat \<Rightarrow> int \<times> universe_location" where
  "universe_message E st a = (let u = objs st ! a in (u_id u, case u_type u of
      PHYSICAL \<Rightarrow> Physical_location 1
    | ARTNET \<Rightarrow> Remote_location ''Dummy data - we cant get real one right now'' 6454 1
    | SACN \<Rightarrow> No_location
    | FTDI \<Rightarrow> (case me_dongle_ids E a of (pid, vid) \<Rightarrow>
        Ftdi_dongle pid vid ''Hopefully Enttec USB DMX Pro'' ''Dummy Serial'')))"

definition list_universes :: "('q, 'r, 'a) manager_env \<Rightarrow> nat \<Rightarrow> int \<Rightarrow> ('q, 'a) manager \<Rightarrow> ('q, 'a) manager" where
  "list_universes E client i m =
     (let st = mgr_io m in
      if i < 0
      then reply client (Universe_list (map (universe_message E st) (filter (alive st) (get_universe_list st)))) m
      else case get_universe i st of
          Some a \<Rightarrow> (case universe_message E st a of (j, loc) \<Rightarrow> reply client (Universe_info j loc) m)
        | None \<Rightarrow> m)"

definition direct_output :: "int \<Rightarrow> int list \<Rightarrow> (('q, 'a) manager, unit) act" where
  "direct_output i channel_data m =
     (if is_direct_mode m
      then case get_universe i (mgr_io m) of
          Some a \<Rightarrow>
            (case fold_res (\<lambda>(j, v). write_channel j (of_int (min v 255))) (take 512 (List.enumerate 0 channel_data)) (objs (mgr_io m) ! a) of
               Inl e \<Rightarrow> (Inl e, m)
             | Inr u \<Rightarrow> (Inr (), m\<lparr>mgr_io := (mgr_io m)\<lparr>objs := (objs (mgr_io m))[a := u]\<rparr>\<rparr>))
        | None \<Rightarrow> (Inr (), m)
      else (Inr (), m))"

definition send_dmx_data :: "nat \<Rightarrow> int \<Rightarrow> ('q, 'a) manager \<Rightarrow> ('q, 'a) manager" where
  "send_dmx_data client i m = (case get_universe i (mgr_io m) of
      Some a \<Rightarrow> reply client (Dmx_output i (1 # map (\<lambda>j. int (unat (channel_value (objs (mgr_io m) ! a) j))) [0..<512])) m
    | None \<Rightarrow> set_error (''did not find the universe with id: '' @ dec_int i) m)"

subsubsection \<open>The show\<close>

definition request_scene :: "('q, 'r, 'a) manager_env \<Rightarrow> int \<Rightarrow> (('q, 'a) manager, unit) act" where
  "request_scene E sid m = (case active_show m of
      None \<Rightarrow> (Inr (), set_error ''Request for scene switch couldn't be executed as there is currently no loaded scene.'' m)
    | Some p \<Rightarrow> (case on_show (set_active_scene (fish_virtual (me_lib E)) (of_int sid)) p m of
         (Inl e, p', m') \<Rightarrow> (Inl e, m'\<lparr>active_show := Some p'\<rparr>)
       | (Inr found, p', m') \<Rightarrow> (Inr (),
           (if found then id else set_error (''The requested scene id ('' @ dec_int sid @ '') was not found.''))
             (m'\<lparr>active_show := Some p'\<rparr>))))"

definition request_show :: "('q, 'r, 'a) manager_env \<Rightarrow> string \<times> bool \<Rightarrow> (('q, 'a) manager, unit) act" where
  "request_show E msg = bind_act
     (modify_act (\<lambda>m. m\<lparr>show_file_apply_state := (if active_show m = None then SFAS_SHOW_LOADING else SFAS_SHOW_UPDATING)\<rparr>)) (\<lambda>_.
     bind_act (finish_loading E) (\<lambda>_.
     modify_act (\<lambda>m. m\<lparr>show_loading_thread := Some msg\<rparr>)))"

definition request_parameter ::
  "('q, 'r, 'a) manager_env \<Rightarrow> int \<times> string \<times> string \<times> string \<Rightarrow> (('q, 'a) manager, unit) act" where
  "request_parameter E msg m = (let (scene, fid, k, v) = msg in case active_show m of
      None \<Rightarrow> (Inr (), set_error ''Requested to update filter parameter, but no show is loaded.'' m)
    | Some p \<Rightarrow> (case on_show (update_filter_parameter (fish_virtual (me_lib E)) scene fid k v) p m of
         (r, p', m') \<Rightarrow> (let m1 = m'\<lparr>active_show := Some p'\<rparr> in case r of
             Inr True \<Rightarrow> (Inr (), m1)
           | Inr False \<Rightarrow> (Inr (), set_error (''The requested filter ('' @ fid @ '' in scene '' @ dec_int scene @
               '') reported that it failed to update the parameter '' @ k @ '' to '' @ v @ ''.'') m1)
           | Inl (Invalid_argument what) \<Rightarrow> (Inr (), set_error what m1)
           | Inl e \<Rightarrow> (Inl e, m1))))"

definition request_states :: "nat \<Rightarrow> state_list \<Rightarrow> (('q, 'a) manager, unit) act" where
  "request_states client msg m = (case update_states_from_message msg (global_states m) of
      Inl e \<Rightarrow> (Inl e, m)
    | Inr (answer, r, msg') \<Rightarrow> (Inr (), (if answer then reply client (State_list msg') else id) (m\<lparr>global_states := r\<rparr>)))"

subsubsection \<open>The desk and the events\<close>

text \<open>An exception of the desk becomes the latest error; what was changed before stays unknown to the model.\<close>

definition to_desk :: "(('q, 'a) manager \<Rightarrow> ('q, 'a) manager result) \<Rightarrow> (('q, 'a) manager, unit) act" where
  "to_desk f m =
     (if control_desk_handle m
      then case f m of
          Inr m' \<Rightarrow> (Inr (), m')
        | Inl e \<Rightarrow> if e = Undefined_behaviour then (Inl e, m) else (Inr (), set_error (exn_text e) m)
      else (Inr (), m))"

definition event_request :: "(ev_world \<Rightarrow> (bool \<times> ev_world) result) \<Rightarrow> (('q, 'a) manager, unit) act" where
  "event_request f m = (case f (ev m) of
      Inr (_, w) \<Rightarrow> (Inr (), m\<lparr>ev := w\<rparr>)
    | Inl e \<Rightarrow> if e = Undefined_behaviour then (Inl e, m) else (Inr (), set_error (exn_text e) m))"

definition rollback_from_desk :: "('q, 'r, 'a) manager_env \<Rightarrow> ('q, 'a) manager \<Rightarrow> ('q, 'a) manager result" where
  "rollback_from_desk E m = (case rollback E m of (Inr _, m') \<Rightarrow> Inr m' | (Inl e, _) \<Rightarrow> Inl e)"

definition desk_request :: "('q, 'r, 'a) manager_env \<Rightarrow> desk_call \<Rightarrow> (('q, 'a) manager, unit) act" where
  "desk_request E c = to_desk (call_desk (me_desk E) (rollback_from_desk E) c)"

text \<open>The cases of the dispatch, in the order of the code; the rest of a group is not one of its messages.\<close>

definition universe_requests :: "('q, 'r, 'a) manager_env \<Rightarrow> nat \<Rightarrow> request \<Rightarrow> (('q, 'a) manager, unit) act" where
  "universe_requests E client r = (case r of
      Universe_msg None \<Rightarrow> not_parsed ''MSGT_UNIVERSE''
    | Universe_msg (Some u) \<Rightarrow> register_from_message E client u
    | Universe_list_msg None \<Rightarrow> not_parsed ''MSGT_UNIVERSE_LIST''
    | Universe_list_msg (Some us) \<Rightarrow> for_act (register_from_message E client) us
    | Request_universe_list None \<Rightarrow> not_parsed ''MSGT_REQUEST_UNIVERSE_LIST''
    | Request_universe_list (Some i) \<Rightarrow> modify_act (list_universes E client i)
    | Delete_universe None \<Rightarrow> not_parsed ''MSGT_DELETE_UNIVERSE''
    | Delete_universe (Some i) \<Rightarrow> modify_act (\<lambda>m. m\<lparr>mgr_io := unregister_universe i (mgr_io m)\<rparr>)
    | _ \<Rightarrow> ret_act ())"

definition input_requests :: "('q, 'r, 'a) manager_env \<Rightarrow> nat \<Rightarrow> request \<Rightarrow> (('q, 'a) manager, unit) act" where
  "input_requests E client r = (case r of
      Button_msg None \<Rightarrow> not_parsed ''MSGT_BUTTON_STATE_CHANGE''
    | Button_msg (Some (b, s)) \<Rightarrow> desk_request E (Desk_leds b s)
    | Fader_msg None \<Rightarrow> not_parsed ''MSGT_FADER_POSITION''
    | Fader_msg (Some (cid, p)) \<Rightarrow> desk_request E (Fader_moved cid p)
    | Readymode_msg None \<Rightarrow> not_parsed ''MSGT_READYMODE_UPDATE''
    | Readymode_msg (Some c) \<Rightarrow> desk_request E (Ready_update c)
    | Encoder_msg None \<Rightarrow> not_parsed ''MSGT_ROTARY_ENCODER_CHANGE''
    | Encoder_msg (Some (cid, n)) \<Rightarrow> desk_request E (Encoder_moved cid n)
    | _ \<Rightarrow> ret_act ())"

definition show_requests :: "('q, 'r, 'a) manager_env \<Rightarrow> nat \<Rightarrow> request \<Rightarrow> (('q, 'a) manager, unit) act" where
  "show_requests E client r = (case r of
      Dmx_msg None \<Rightarrow> not_parsed ''MSGT_DMX_OUTPUT''
    | Dmx_msg (Some (i, vs)) \<Rightarrow> direct_output i vs
    | Request_dmx_data None \<Rightarrow> not_parsed ''MSGT_REQUEST_DMX_DATA''
    | Request_dmx_data (Some i) \<Rightarrow> modify_act (send_dmx_data client i)
    | Enter_scene None \<Rightarrow> not_parsed ''MSGT_ENTER_SCENE''
    | Enter_scene (Some sid) \<Rightarrow> request_scene E sid
    | Load_show_file None \<Rightarrow> not_parsed ''MSGT_LOAD_SHOW_FILE''
    | Load_show_file (Some msg) \<Rightarrow> request_show E msg
    | Update_parameter None \<Rightarrow> not_parsed ''MSGT_UPDATE_PARAMETER''
    | Update_parameter (Some msg) \<Rightarrow> request_parameter E msg
    | _ \<Rightarrow> ret_act ())"

definition desk_and_event_requests :: "('q, 'r, 'a) manager_env \<Rightarrow> nat \<Rightarrow> request \<Rightarrow> (('q, 'a) manager, unit) act" where
  "desk_and_event_requests E client r = (case r of
      Log_msg None \<Rightarrow> not_parsed ''MSGT_LOG_MESSAGE''
    | Log_msg (Some _) \<Rightarrow> ret_act ()
    | State_list_msg None \<Rightarrow> ret_act ()
    | State_list_msg (Some msg) \<Rightarrow> request_states client msg
    | Remove_fader_bank_set _ i \<Rightarrow> desk_request E (Remove_set i)
    | Add_fader_bank_set _ msg \<Rightarrow> desk_request E (Add_set msg)
    | Desk_update_msg _ msg \<Rightarrow> desk_request E (Desk_state msg)
    | Update_column _ msg \<Rightarrow> desk_request E (Column_data msg)
    | Event_msg _ msg \<Rightarrow> event_request (insert_event_from_message (de_mutex_free (me_desk E)) msg)
    | Event_sender_update _ msg \<Rightarrow>
        event_request (construct_or_update_event_source_from_message (me_ext_conf E) (me_ext_encode E) msg)
    | _ \<Rightarrow> ret_act ())"

fun is_universe_request :: "request \<Rightarrow> bool" where
  "is_universe_request (Universe_msg _) = True"
| "is_universe_request (Universe_list_msg _) = True"
| "is_universe_request (Request_universe_list _) = True"
| "is_universe_request (Delete_universe _) = True"
| "is_universe_request _ = False"

fun is_input_request :: "request \<Rightarrow> bool" where
  "is_input_request (Button_msg _) = True"
| "is_input_request (Fader_msg _) = True"
| "is_input_request (Readymode_msg _) = True"
| "is_input_request (Encoder_msg _) = True"
| "is_input_request _ = False"

fun is_show_request :: "request \<Rightarrow> bool" where
  "is_show_request (Dmx_msg _) = True"
| "is_show_request (Request_dmx_data _) = True"
| "is_show_request (Enter_scene _) = True"
| "is_show_request (Load_show_file _) = True"
| "is_show_request (Update_parameter _) = True"
| "is_show_request _ = False"

definition parse_message_cb :: "('q, 'r, 'a) manager_env \<Rightarrow> nat \<Rightarrow> request \<Rightarrow> (('q, 'a) manager, unit) act" where
  "parse_message_cb E client r = (case r of
      Update_state None \<Rightarrow> not_parsed ''MSGT_UPDATE_STATE''
    | Update_state (Some mode) \<Rightarrow> modify_act (update_state mode)
    | Current_state None \<Rightarrow> not_parsed ''MSGT_CURRENT_STATE_UPDATE''
    | Current_state (Some _) \<Rightarrow> ret_act ()
    | _ \<Rightarrow> if is_universe_request r then universe_requests E client r
           else if is_input_request r then input_requests E client r
           else if is_show_request r then show_requests E client r
           else desk_and_event_requests E client r)"

subsection \<open>The main loop\<close>

definition push_updates_to_ui :: "int \<Rightarrow> ('q, 'a) manager \<Rightarrow> ('q, 'a) manager" where
  "push_updates_to_ui c_time m = push_gui (Current_state_update
     \<lparr>um_state = (if running m then if is_direct_mode m then RM_DIRECT else RM_FILTER else RM_STOP),
      um_apply_state = show_file_apply_state m,
      um_scene = (if is_direct_mode m then - 1 else case active_show m of Some p \<Rightarrow> sint (current_scene_id p) | None \<Rightarrow> - 2),
      um_cycle_time = sint (of_int c_time :: u32),
      um_last_error = latest_error m\<rparr>) m"

definition show_cycle :: "('q, 'r, 'a) manager_env \<Rightarrow> (('q, 'a) manager, unit) act" where
  "show_cycle E m =
     (if is_direct_mode m then (Inr (), m)
      else case active_show m of
          None \<Rightarrow> (Inr (), m)
        | Some p \<Rightarrow> (case on_show (run_cycle_update (fish_virtual (me_lib E))) p m of
             (r, p', m') \<Rightarrow> catch_act (lift_act r)
                (\<lambda>e. modify_act (\<lambda>m. (set_error (exn_text e) m)\<lparr>show_file_apply_state := SFAS_ERROR_SHOW_RUNNING\<rparr>))
                (m'\<lparr>active_show := Some p'\<rparr>)))"

definition main_update :: "('q, 'r, 'a) manager_env \<Rightarrow> int \<Rightarrow> (('q, 'a) manager, unit) act" where
  "main_update E cycle_time_ms =
     bind_act (\<lambda>m. if control_desk_handle m
         then (case desk_update (me_desk E) (rollback_from_desk E) m of Inl e \<Rightarrow> (Inl e, m) | Inr m' \<Rightarrow> (Inr (), m')) else (Inr (), m)) (\<lambda>_.
     bind_act (\<lambda>m. case swap_buffers (ev m) of Inl e \<Rightarrow> (Inl e, m) | Inr w \<Rightarrow> (Inr (), m\<lparr>ev := w\<rparr>)) (\<lambda>_.
     bind_act (show_cycle E) (\<lambda>_.
     bind_act (\<lambda>m. case push_all_registered_universes (me_ftdi_send E) (mgr_io m) of
         Inl e \<Rightarrow> (Inl e, m) | Inr (_, st) \<Rightarrow> (Inr (), m\<lparr>mgr_io := st\<rparr>)) (\<lambda>_.
     modify_act (push_updates_to_ui cycle_time_ms)))))"

text \<open>The destructor of the desk resets its devices.\<close>

definition drop_desk :: "('q, 'r, 'a) manager_env \<Rightarrow> (('q, 'a) manager, unit) act" where
  "drop_desk E m =
     (if control_desk_handle m
      then case reset_devices (me_desk E) m of Inl e \<Rightarrow> (Inl e, m) | Inr m' \<Rightarrow> (Inr (), m'\<lparr>control_desk_handle := False\<rparr>)
      else (Inr (), m))"

text \<open>The loop, one cycle for each element of the list, until the run time state says to stop.\<close>

fun perform_main_update :: "(('q, 'r, 'a) manager_env \<times> int) list \<Rightarrow> (('q, 'a) manager, unit) act" where
  "perform_main_update [] m = (Inr (), m)"
| "perform_main_update ((E, t) # cycles) m =
     (if running m then bind_act (main_update E t) (\<lambda>_. perform_main_update cycles) m else drop_desk E m)"

text \<open>The handler of the interrupt and of the keyboard.\<close>

definition stop_server :: "('q, 'a) manager \<Rightarrow> ('q, 'a) manager" where
  "stop_server m = m\<lparr>running := False\<rparr>"

definition new_manager :: "'q desk \<Rightarrow> bool \<Rightarrow> (nat \<Rightarrow> int) \<Rightarrow> ('q, 'a) manager" where
  "new_manager d has_desk clock = desk.extend d
     \<lparr>control_desk_handle = has_desk, running = True, is_direct_mode = True, active_show = None, last_active_show = None,
      latest_error = ''No Error occured'', show_file_apply_state = SFAS_INVALID, show_loading_thread = None,
      mgr_io = empty_io, mgr_clock = clock, mgr_readings = 0, global_states = empty_registry\<rparr>"

end
