(* ===== verification/Manager_Ok.thy ===== *)
theory Manager_Ok
  imports Io_Manager
begin

text \<open>
  What holds of the server in every state that requests, loads, cycles and interrupts can produce, and
  what a load and a rollback do to the active show.
\<close>

subsection \<open>The invariant\<close>

definition no_show_state :: "apply_state \<Rightarrow> bool" where
  "no_show_state s \<longleftrightarrow> s = SFAS_INVALID \<or> s = SFAS_NO_SHOW_ERROR \<or> s = SFAS_SHOW_LOADING"

definition shows_ok :: "('q, 'a) manager \<Rightarrow> bool" where
  "shows_ok m \<longleftrightarrow> (last_active_show m \<noteq> None \<longrightarrow> active_show m \<noteq> None)
     \<and> pred_option project_invariant (active_show m) \<and> pred_option project_invariant (last_active_show m)
     \<and> (active_show m = None \<longleftrightarrow> no_show_state (show_file_apply_state m))"

definition manager_ok :: "('q, 'a) manager \<Rightarrow> bool" where
  "manager_ok m \<longleftrightarrow> desk_ok m \<and> shows_ok m"

lemma shows_ok_cong:
  "active_show m' = active_show m \<Longrightarrow> last_active_show m' = last_active_show m \<Longrightarrow>
   show_file_apply_state m' = show_file_apply_state m \<Longrightarrow> shows_ok m' = shows_ok m"
  by (simp add: shows_ok_def)

lemma shows_ok_more:
  fixes m :: "('q, 'a) manager" and m' :: "('q, 'a) manager"
  assumes "desk.more m' = desk.more m"
  shows "shows_ok m' = shows_ok m"
  using assms by (cases m, cases m') (simp add: shows_ok_def)

lemma desk_ok_cong:
  fixes m :: "('q, 'z) desk_scheme" and m' :: "('q, 'z) desk_scheme"
  shows "col_store m' = col_store m \<Longrightarrow> bank_sets m' = bank_sets m \<Longrightarrow> length (devices m') = length (devices m) \<Longrightarrow>
   bankset_to_index_map m' = bankset_to_index_map m \<Longrightarrow> desk_ok m' = desk_ok m"
  by (simp add: desk_ok_def desk_inv_def)

text \<open>The invariant in the form that the operations of the desk keep.\<close>

lemma manager_ok_inv:
  fixes m :: "('q, 'a) manager"
  shows "manager_ok m \<longleftrightarrow> desk_inv (\<lambda>x. \<forall>m' :: ('q, 'a) manager. desk.more m' = x \<longrightarrow> shows_ok m') m"
proof -
  have "(\<forall>m' :: ('q, 'a) manager. desk.more m' = desk.more m \<longrightarrow> shows_ok m') = shows_ok m"
    using shows_ok_more [of _ m] by blast
  then show ?thesis by (simp only: manager_ok_def desk_ok_def desk_inv_def simp_thms conj_assoc)
qed

lemma with_world_simps [simp]:
  "active_show (with_world w m) = active_show m" "last_active_show (with_world w m) = last_active_show m"
  "show_file_apply_state (with_world w m) = show_file_apply_state m" "desk_ok (with_world w m) = desk_ok m"
  by (simp_all add: with_world_def desk_ok_def desk_inv_def)

lemma set_error_simps [simp]:
  "active_show (set_error e m) = active_show m" "last_active_show (set_error e m) = last_active_show m"
  "show_file_apply_state (set_error e m) = show_file_apply_state m" "desk_ok (set_error e m) = desk_ok m"
  by (simp_all add: set_error_def desk_ok_def desk_inv_def)

lemma manager_fields_desk_ok [simp]:
  "desk_ok (m\<lparr>active_show := a\<rparr>) = desk_ok m" "desk_ok (m\<lparr>last_active_show := a\<rparr>) = desk_ok m"
  "desk_ok (m\<lparr>show_file_apply_state := s\<rparr>) = desk_ok m" "desk_ok (m\<lparr>latest_error := e\<rparr>) = desk_ok m"
  "desk_ok (m\<lparr>show_loading_thread := t\<rparr>) = desk_ok m" "desk_ok (m\<lparr>mgr_io := st\<rparr>) = desk_ok m"
  "desk_ok (m\<lparr>is_direct_mode := b\<rparr>) = desk_ok m" "desk_ok (m\<lparr>running := b\<rparr>) = desk_ok m"
  "desk_ok (m\<lparr>control_desk_handle := b\<rparr>) = desk_ok m" "desk_ok (m\<lparr>global_states := r\<rparr>) = desk_ok m"
  for m :: "('q, 'a) manager"
  by (simp_all add: desk_ok_def desk_inv_def)

lemma io_fields_desk_ok [simp]:
  "desk_ok (m\<lparr>clients := c\<rparr>) = desk_ok m" "desk_ok (m\<lparr>ev := w\<rparr>) = desk_ok m" "desk_ok (push_gui msg m) = desk_ok m"
  for m :: "('q, 'a) manager"
  by (simp_all add: push_gui_def desk_ok_def desk_inv_def)

lemma push_gui_fields [simp]:
  "active_show (push_gui msg m) = active_show m" "last_active_show (push_gui msg m) = last_active_show m"
  "show_file_apply_state (push_gui msg m) = show_file_apply_state m"
  for m :: "('q, 'a) manager"
  by (simp_all add: push_gui_def)

lemma notify_desk_simps [simp]:
  "active_show (notify_desk E m) = active_show m" "last_active_show (notify_desk E m) = last_active_show m"
  "show_file_apply_state (notify_desk E m) = show_file_apply_state m" "desk_ok (notify_desk E m) = desk_ok m"
  by (simp_all add: notify_desk_def notify_showfile_changed_def xtouch_devices_def all_devices_def desk_ok_def desk_inv_def)

lemma on_show_effect:
  assumes "on_show f p m = (r, p', m')"
  obtains w where "f (p, show_world m) = (r, p', w)" and "m' = with_world w m"
  using assms by (auto simp: on_show_def split: prod.splits)

text \<open>What keeps the invariant of a show.\<close>

lemma show_scene_invariant:
  "on_show (set_active_scene VM n) p m = (r, p', m') \<Longrightarrow> project_invariant p \<Longrightarrow> project_invariant p'"
  by (erule on_show_effect) (erule set_active_scene_invariant)

lemma show_parameter_invariant:
  "on_show (update_filter_parameter VM i f k v) p m = (r, p', m') \<Longrightarrow> project_invariant p \<Longrightarrow> project_invariant p'"
  by (erule on_show_effect)
    (auto simp: update_filter_parameter_def dest: on_scene_same intro: same_project_invariant split: option.splits)

lemma show_cycle_invariant:
  "on_show (run_cycle_update VM) p m = (r, p', m') \<Longrightarrow> project_invariant p \<Longrightarrow> project_invariant p'"
  by (erule on_show_effect) (auto simp: run_cycle_update_def dest: on_scene_same intro: same_project_invariant)

text \<open>The fields of the manager after an action on a show.\<close>

lemma on_show_fields:
  "on_show f p m = (r, p', m') \<Longrightarrow> active_show m' = active_show m \<and> last_active_show m' = last_active_show m
     \<and> show_file_apply_state m' = show_file_apply_state m \<and> desk_ok m' = desk_ok m"
  by (erule on_show_effect) simp

lemma rollback_ok: "manager_ok m \<Longrightarrow> manager_ok (snd (rollback E m))"
  by (auto simp: rollback_def manager_ok_def shows_ok_def dest: on_show_fields show_scene_invariant
      split: option.splits prod.splits sum.splits)

lemma keeps_rollback:
  fixes E :: "('q, 'r, 'a) manager_env"
  shows "keeps_inv (\<lambda>x. \<forall>m' :: ('q, 'a) manager. desk.more m' = x \<longrightarrow> shows_ok m') (rollback_from_desk E)"
  unfolding keeps_inv_def manager_ok_inv [symmetric]
  using rollback_ok [of _ E] by (fastforce simp: rollback_from_desk_def split: prod.splits sum.splits)

lemma desk_request_ok: "manager_ok m \<Longrightarrow> manager_ok (snd (desk_request E c m))"
proof -
  assume ok: "manager_ok m"
  have "manager_ok m'" if "call_desk (me_desk E) (rollback_from_desk E) c m = Inr m'" for m'
    using call_desk_ok [OF that keeps_rollback] ok unfolding manager_ok_inv by blast
  then show ?thesis using ok
    by (auto simp: desk_request_def to_desk_def manager_ok_def shows_ok_def split: sum.splits)
qed

lemma report_failure_ok: "manager_ok m \<Longrightarrow> manager_ok (report_load E False lg m)"
  by (auto simp: report_load_def manager_ok_def shows_ok_def no_show_state_def)

lemma load_failed_ok: "manager_ok m \<Longrightarrow> manager_ok (snd (load_failed E e lg m))"
  by (auto simp: load_failed_def report_failure_ok split: exn.splits)

lemma report_success_ok:
  "desk_ok m \<Longrightarrow> pred_option project_invariant (active_show m) \<Longrightarrow> pred_option project_invariant (last_active_show m) \<Longrightarrow>
   active_show m \<noteq> None \<Longrightarrow> manager_ok (report_load E True lg m)"
  by (auto simp: report_load_def manager_ok_def shows_ok_def no_show_state_def)

lemma keep_scene_ok:
  "keep_scene E g p lg m = (r, p', lg', m') \<Longrightarrow> project_invariant p \<Longrightarrow> manager_ok m \<Longrightarrow>
   project_invariant p' \<and> manager_ok m' \<and> active_show m' = active_show m \<and> last_active_show m' = last_active_show m"
  by (auto simp: keep_scene_def manager_ok_def shows_ok_def dest: on_show_fields show_scene_invariant
      split: if_splits option.splits prod.splits)

lemma with_world_ok [simp]: "manager_ok (with_world w m) = manager_ok m"
  by (simp add: manager_ok_def shows_ok_def)

lemma candidate_invariant: "candidate_show E sf m = (Inr p, lg, w) \<Longrightarrow> project_invariant p"
  unfolding candidate_show_def by (rule construct_project_invariant)

lemma install_show_ok: "manager_ok m \<Longrightarrow> project_invariant p \<Longrightarrow> manager_ok (snd (install_show E g p lg m))"
proof -
  assume ok: "manager_ok m" and p: "project_invariant p"
  obtain r p' lg' m' where k: "keep_scene E g p lg m = (r, p', lg', m')" by (rule prod_cases4)
  note k' = keep_scene_ok [OF k p ok]
  then have "desk_ok m'" "pred_option project_invariant (active_show m')" by (auto simp: manager_ok_def shows_ok_def)
  then show ?thesis using k k' by (cases r) (auto simp: install_show_def intro: load_failed_ok report_success_ok)
qed

lemma load_show_file_ok: "manager_ok m \<Longrightarrow> manager_ok (snd (load_show_file E msg m))"
  by (auto simp: load_show_file_def intro: report_failure_ok load_failed_ok install_show_ok
      dest: candidate_invariant split: prod.splits sum.splits)

lemma manager_fields_ok [simp]:
  "manager_ok (m\<lparr>show_loading_thread := t\<rparr>) = manager_ok m" "manager_ok (m\<lparr>mgr_io := st\<rparr>) = manager_ok m"
  "manager_ok (m\<lparr>is_direct_mode := b\<rparr>) = manager_ok m" "manager_ok (m\<lparr>running := b\<rparr>) = manager_ok m"
  "manager_ok (m\<lparr>control_desk_handle := b\<rparr>) = manager_ok m" "manager_ok (m\<lparr>global_states := r\<rparr>) = manager_ok m"
  "manager_ok (m\<lparr>clients := cs\<rparr>) = manager_ok m" "manager_ok (m\<lparr>ev := w\<rparr>) = manager_ok m"
  "manager_ok (set_error e m) = manager_ok m" "manager_ok (reply c msg m) = manager_ok m"
  "manager_ok (log_to_client E c txt m) = manager_ok m" "manager_ok (push_gui msg m) = manager_ok m"
  by (simp_all add: manager_ok_def shows_ok_def reply_def log_to_client_def)

lemma finish_loading_ok: "manager_ok m \<Longrightarrow> manager_ok (snd (finish_loading E m))"
  by (auto simp: finish_loading_def intro: load_show_file_ok split: option.splits)

subsection \<open>Requests\<close>

lemma bind_act_ok:
  assumes "manager_ok (snd (f m))" and "\<And>x m'. f m = (Inr x, m') \<Longrightarrow> manager_ok m' \<Longrightarrow> manager_ok (snd (g x m'))"
  shows "manager_ok (snd (bind_act f g m))"
  using assms by (cases "f m") (auto simp: bind_act_def split: sum.splits)

lemma register_request_ok: "manager_ok m \<Longrightarrow> manager_ok (snd (register_from_message E c u m))"
  by (auto simp: register_from_message_def Let_def split: prod.splits sum.splits exn.splits)

lemma update_state_ok: "manager_ok m \<Longrightarrow> manager_ok (update_state mode m)"
  by (simp add: update_state_def split: run_mode.splits)

lemma list_universes_ok: "manager_ok m \<Longrightarrow> manager_ok (list_universes E c i m)"
  by (simp add: list_universes_def Let_def split: option.splits prod.splits)

lemma direct_output_ok: "manager_ok m \<Longrightarrow> manager_ok (snd (direct_output i vs m))"
  by (simp add: direct_output_def split: option.splits sum.splits)

lemma send_dmx_data_ok: "manager_ok m \<Longrightarrow> manager_ok (send_dmx_data c i m)"
  by (simp add: send_dmx_data_def split: option.splits)

lemma manager_ok_active:
  "manager_ok m \<Longrightarrow> active_show m = Some p \<Longrightarrow> project_invariant p"
  "on_show f p m = (r, p', m') \<Longrightarrow> manager_ok m \<Longrightarrow> active_show m = Some p \<Longrightarrow> project_invariant p' \<Longrightarrow>
    manager_ok (m'\<lparr>active_show := Some p'\<rparr>)"
  by (auto simp: manager_ok_def shows_ok_def dest: on_show_fields)

lemma request_scene_ok: "manager_ok m \<Longrightarrow> manager_ok (snd (request_scene E sid m))"
  by (auto simp: request_scene_def dest: manager_ok_active(1) show_scene_invariant
      split: option.splits prod.splits sum.splits intro: manager_ok_active(2))

lemma request_parameter_ok: "manager_ok m \<Longrightarrow> manager_ok (snd (request_parameter E msg m))"
  by (auto simp: request_parameter_def Let_def dest: manager_ok_active(1) show_parameter_invariant
      split: option.splits prod.splits sum.splits exn.splits bool.splits intro: manager_ok_active(2))

lemma request_show_ok: "manager_ok m \<Longrightarrow> manager_ok (snd (request_show E msg m))"
proof -
  assume ok: "manager_ok m"
  have "manager_ok (m\<lparr>show_file_apply_state := (if active_show m = None then SFAS_SHOW_LOADING else SFAS_SHOW_UPDATING)\<rparr>)"
    using ok by (auto simp: manager_ok_def shows_ok_def no_show_state_def)
  then show ?thesis unfolding request_show_def by (intro bind_act_ok finish_loading_ok) simp_all
qed

lemma request_states_ok: "manager_ok m \<Longrightarrow> manager_ok (snd (request_states c msg m))"
  by (auto simp: request_states_def split: sum.splits prod.splits)

lemma event_request_ok: "manager_ok m \<Longrightarrow> manager_ok (snd (event_request f m))"
  by (auto simp: event_request_def split: sum.splits prod.splits)

lemma for_register_ok: "manager_ok m \<Longrightarrow> manager_ok (snd (for_act (register_from_message E c) us m))"
  by (rule for_act_keeps) (auto intro: register_request_ok)

lemmas request_ok = register_request_ok update_state_ok list_universes_ok direct_output_ok send_dmx_data_ok request_scene_ok
  request_parameter_ok request_show_ok request_states_ok event_request_ok for_register_ok desk_request_ok

lemma not_parsed_ok [simp]: "manager_ok (snd (not_parsed nm m)) = manager_ok m"
  by (simp add: not_parsed_def)

lemma parse_message_ok: "manager_ok m \<Longrightarrow> manager_ok (snd (parse_message_cb E c r m))"
  by (cases r) (auto simp: parse_message_cb_def universe_requests_def input_requests_def show_requests_def
      desk_and_event_requests_def intro: request_ok split: option.splits prod.splits)

subsection \<open>The cycle\<close>

lemma show_cycle_ok: "manager_ok m \<Longrightarrow> manager_ok (snd (show_cycle E m))"
proof -
  assume ok: "manager_ok m"
  show ?thesis
  proof (cases "is_direct_mode m \<or> active_show m = None")
    case True
    then show ?thesis using ok by (auto simp: show_cycle_def)
  next
    case False
    then obtain p where p: "active_show m = Some p" and d: "\<not> is_direct_mode m" by auto
    obtain r p' m' where c: "on_show (run_cycle_update (fish_virtual (me_lib E))) p m = (r, p', m')" by (rule prod_cases3)
    have "manager_ok (m'\<lparr>active_show := Some p'\<rparr>)"
      using manager_ok_active(2) [OF c ok p] show_cycle_invariant [OF c] manager_ok_active(1) [OF ok p] by blast
    then show ?thesis using p d c
      by (cases r) (auto simp: show_cycle_def catch_act_def manager_ok_def shows_ok_def no_show_state_def)
  qed
qed

lemma main_update_ok: "manager_ok m \<Longrightarrow> manager_ok (snd (main_update E t m))"
proof -
  assume ok: "manager_ok m"
  have "manager_ok (snd (if control_desk_handle m
         then (case desk_update (me_desk E) (rollback_from_desk E) m of Inl e \<Rightarrow> (Inl e, m) | Inr m' \<Rightarrow> (Inr (), m')) else (Inr (), m)))"
    using ok desk_update_ok [OF keeps_rollback] by (auto simp: manager_ok_inv split: sum.splits)
  then show ?thesis unfolding main_update_def
    by (intro bind_act_ok show_cycle_ok) (auto simp: push_updates_to_ui_def split: sum.splits prod.splits)
qed

lemma drop_desk_ok: "manager_ok m \<Longrightarrow> manager_ok (snd (drop_desk E m))"
proof -
  assume ok: "manager_ok m"
  have "manager_ok m'" if "reset_devices (me_desk E) m = Inr m'" for m'
    using reset_devices_ok [OF that] ok unfolding manager_ok_inv by blast
  then show ?thesis using ok by (auto simp: drop_desk_def split: sum.splits)
qed

subsection \<open>Every state of the server\<close>

datatype server_event = Client_request nat request | Client_connected nat | Loading_done | Main_cycle int | Interrupt

definition server_step :: "('q, 'r, 'a) manager_env \<Rightarrow> server_event \<Rightarrow> (('q, 'a) manager, unit) act" where
  "server_step E e = (case e of
      Client_request c r \<Rightarrow> parse_message_cb E c r
    | Client_connected c \<Rightarrow> modify_act (\<lambda>m. m\<lparr>clients := client_cb c (clients m)\<rparr>)
    | Loading_done \<Rightarrow> finish_loading E
    | Main_cycle t \<Rightarrow> perform_main_update [(E, t)]
    | Interrupt \<Rightarrow> modify_act stop_server)"

inductive server_reachable :: "(('q, 'r, 'a) manager_env \<Rightarrow> bool) \<Rightarrow> ('q, 'a) manager \<Rightarrow> bool" for envs where
  server_start: "envs E \<Longrightarrow> new_desk (me_desk E) inputs cl w = Inr d \<Longrightarrow> server_reachable envs (new_manager d has_desk clock)"
| server_go: "server_reachable envs m \<Longrightarrow> envs E \<Longrightarrow> server_step E e m = (r, m') \<Longrightarrow> server_reachable envs m'"

lemma new_manager_ok: "new_desk E inputs cl w = Inr d \<Longrightarrow> manager_ok (new_manager d has_desk clock)"
proof -
  assume "new_desk E inputs cl w = Inr d"
  then have "desk_inv (\<lambda>_. True) d" by (rule new_desk_ok) simp
  then have "desk_ok (new_manager d has_desk clock)"
    by (cases d) (simp add: new_manager_def desk.defs desk_ok_def desk_inv_def)
  moreover have "shows_ok (new_manager d has_desk clock)"
    by (cases d) (simp add: new_manager_def desk.defs shows_ok_def no_show_state_def)
  ultimately show ?thesis by (simp add: manager_ok_def)
qed

lemma server_step_ok: "manager_ok m \<Longrightarrow> manager_ok (snd (server_step E e m))"
proof (cases e)
  case (Main_cycle t)
  assume "manager_ok m"
  then show ?thesis using main_update_ok [of m E t] drop_desk_ok [of m E] Main_cycle
    by (auto simp: server_step_def bind_act_def split: prod.splits sum.splits)
qed (auto simp: server_step_def stop_server_def intro: parse_message_ok finish_loading_ok)

text \<open>
  C15. In every state the server can reach, with any requests, loads, main cycles, interrupts and failures
  of these: a rollback is offered only while a show is active; the state reported to the user
  interfaces is one of the three that mean "no show" exactly when none is active; the
  active show and the one kept for the rollback have consistent scene indices; and the banks and indices
  of the desk stay inside its columns and devices.
\<close>

theorem server_invariant:
  assumes "server_reachable envs m"
  shows "(is_rollback_available m \<longrightarrow> active_show m \<noteq> None)
    \<and> (active_show m = None \<longleftrightarrow> no_show_state (show_file_apply_state m))
    \<and> pred_option project_invariant (active_show m) \<and> pred_option project_invariant (last_active_show m) \<and> desk_ok m"
proof -
  have "manager_ok m"
    using assms
  proof induction
    case (server_go m E e r m')
    then show ?case using server_step_ok [of m E e] by simp
  qed (rule new_manager_ok)
  then show ?thesis by (auto simp: manager_ok_def shows_ok_def is_rollback_available_def)
qed
subsection \<open>Loading and rolling back\<close>


lemma notify_desk_clients [simp]: "clients (notify_desk E m) = clients m"
  by (simp add: notify_desk_def notify_showfile_changed_def xtouch_devices_def all_devices_def)

lemma with_world_clients [simp]: "clients (with_world w m) = clients m"
  by (simp add: with_world_def)




subsection \<open>Direct output\<close>

lemma write_all_channels:
  assumes "data_ok u" and "n + length vs \<le> 512"
  shows "\<exists>u'. fold_res (\<lambda>(j, v). write_channel j (of_int (min v 255))) (List.enumerate n vs) u = Inr u' \<and> data_ok u'
     \<and> (\<forall>c. channel_value u' c = (if n \<le> c \<and> c < n + length vs then of_int (min (vs ! (c - n)) 255) else channel_value u c))"
  using assms
proof (induction vs arbitrary: n u)
  case (Cons v vs)
  let ?x = "of_int (min v 255) :: u8"
  obtain u1 where u1: "write_channel n ?x u = Inr u1" using write_channel_in_range [of u n ?x] Cons.prems by auto
  have ok1: "data_ok u1" using write_channel_data_ok [OF Cons.prems(1) _ u1] Cons.prems(2) by simp
  have c1: "channel_value u1 c = (if c = n then ?x else channel_value u c)" for c
    using write_channel_value [OF Cons.prems(1) _ u1, of c] Cons.prems(2) by simp
  obtain u' where u': "fold_res (\<lambda>(j, v). write_channel j (of_int (min v 255))) (List.enumerate (Suc n) vs) u1 = Inr u'" "data_ok u'"
    "\<And>c. channel_value u' c = (if Suc n \<le> c \<and> c < Suc n + length vs then of_int (min (vs ! (c - Suc n)) 255) else channel_value u1 c)"
    using Cons.IH [of u1 "Suc n"] ok1 Cons.prems(2) by auto
  have "channel_value u' c = (if n \<le> c \<and> c < n + length (v # vs) then of_int (min ((v # vs) ! (c - n)) 255) else channel_value u c)" for c
  proof -
    consider "c = n" | "n < c" | "c < n" by linarith
    then show ?thesis
    proof cases
      case 2
      then have "c - n = Suc (c - Suc n)" by simp
      then have "(v # vs) ! (c - n) = vs ! (c - Suc n)" by simp
      then show ?thesis using 2 u'(3) [of c] c1 [of c] by auto
    qed (use u'(3) [of c] c1 [of c] in auto)
  qed
  then show ?case using u1 u'(1,2) by auto
qed auto

text \<open>
  Direct output: it is ignored while the filters run; in direct mode the first 512 values become the
  channels of the universe, a value above 255 as 255 (a negative one wraps around), the other channels
  and everything else stay.
\<close>

theorem direct_output_writes:
  assumes "get_universe i (mgr_io m) = Some a" and "data_ok (objs (mgr_io m) ! a)"
  shows "if is_direct_mode m
    then \<exists>u. direct_output i vs m = (Inr (), m\<lparr>mgr_io := (mgr_io m)\<lparr>objs := (objs (mgr_io m))[a := u]\<rparr>\<rparr>)
      \<and> (\<forall>c < 512. channel_value u c = (if c < length vs then of_int (min (vs ! c) 255) else channel_value (objs (mgr_io m) ! a) c))
    else direct_output i vs m = (Inr (), m)"
proof -
  have e: "take 512 (List.enumerate 0 vs) = List.enumerate 0 (take 512 vs)"
    by (rule nth_equalityI) (auto simp: nth_enumerate_eq)
  obtain u where "fold_res (\<lambda>(j, v). write_channel j (of_int (min v 255))) (List.enumerate 0 (take 512 vs)) (objs (mgr_io m) ! a) = Inr u"
    "\<And>c. channel_value u c = (if c < length (take 512 vs) then of_int (min (take 512 vs ! c) 255) else channel_value (objs (mgr_io m) ! a) c)"
    using write_all_channels [OF assms(2), of 0 "take 512 vs"] by auto
  then show ?thesis using assms(1) by (auto simp: direct_output_def e)
qed

subsection \<open>A cycle that fails\<close>

text \<open>
  An exception of a filter does not end the main loop: the cycle of the show ends normally, its text is the
  latest error and the state says that the running show failed; the show stays active.
\<close>

theorem filter_exception_is_reported:
  assumes "\<not> is_direct_mode m" and "active_show m = Some p"
    and "run_cycle_update (fish_virtual (me_lib E)) (p, show_world m) = (Inl e, p', w)" and "e \<noteq> Undefined_behaviour"
  shows "\<exists>m'. show_cycle E m = (Inr (), m') \<and> latest_error m' = exn_text e
    \<and> show_file_apply_state m' = SFAS_ERROR_SHOW_RUNNING \<and> active_show m' = Some p' \<and> last_active_show m' = last_active_show m"
  using assms by (simp add: show_cycle_def on_show_def catch_act_def set_error_def)

subsection \<open>Witnesses\<close>

definition empty_show_file :: "(string, dongle) show_file" where
  "empty_show_file = \<lparr>sf_show_name = None, sf_universes = [],
     sf_scenes = [\<lparr>st_id = Some 1, st_human_readable_name = ''s'', st_filters = [], st_dmxdefaultvalue = []\<rparr>],
     sf_default_active_scene = None\<rparr>"

definition demo_manager_env :: "(u8 list list, u8 list, string) manager_env" where
  "demo_manager_env = \<lparr>me_desk = demo_env, me_lib = demo_library,
     me_parse_show = (\<lambda>s. if s = ''show'' then Inr empty_show_file else Inl ''no show''), me_size_of = (\<lambda>_. 8),
     me_setup_clock = (\<lambda>_. 0), me_ftdi_open = (\<lambda>_. Inr ()), me_ftdi_send = (\<lambda>_. True), me_dongle_ids = (\<lambda>_. (0, 0)),
     me_id_text = (\<lambda>_. ''1''), me_schedule = (\<lambda>_. [(0, True)]), me_address = (\<lambda>a _. Inr a), me_ext_conf = (\<lambda>_ s. (True, s)),
     me_ext_encode = (\<lambda>_ msg. msg), me_time = 5\<rparr>"





definition demo_manager :: "fish_show option \<Rightarrow> (u8 list list, string) manager" where
  "demo_manager p = (new_manager demo_desk False (\<lambda>_. 0))\<lparr>active_show := p, show_file_apply_state := SFAS_SHOW_ACTIVE\<rparr>"

lemma demo_manager_simps [simp]:
  "active_show (demo_manager p) = p" "clients (demo_manager p) = []" "control_desk_handle (demo_manager p) = False"
  by (simp_all add: demo_manager_def new_manager_def demo_desk_def desk.defs)



definition one_universe :: "universe \<Rightarrow> string io_state" where
  "one_universe u = \<lparr>objs = [u], nodes = [(7, new_node_registry 7 1 ''a'' 0)], dongle_map = [], active_universes = [0], held = [], sent = []\<rparr>"

theorem direct_output_writes_witness:
  "\<exists>u. direct_output 7 [300, 9] (demo_manager None\<lparr>mgr_io := one_universe (new_artnet_universe 7 1 False)\<rparr>) =
       (Inr (), demo_manager None\<lparr>mgr_io := one_universe u\<rparr>) \<and> channel_value u 0 = 255 \<and> channel_value u 1 = 9"
proof -
  let ?io = "one_universe (new_artnet_universe 7 1 False)"
  let ?m = "demo_manager None\<lparr>mgr_io := ?io\<rparr>"
  have a: "get_universe 7 (mgr_io ?m) = Some 0" by (simp add: get_universe_def one_universe_def new_node_registry_def)
  have d: "data_ok (objs (mgr_io ?m) ! 0)" by (simp add: one_universe_def data_ok_new_artnet)
  have "is_direct_mode ?m" by (simp add: demo_manager_def new_manager_def demo_desk_def desk.defs)
  with direct_output_writes [OF a d, of "[300, 9]"] obtain u where
    u: "direct_output 7 [300, 9] ?m = (Inr (), ?m\<lparr>mgr_io := ?io\<lparr>objs := [u]\<rparr>\<rparr>)"
      "\<forall>c < 512. channel_value u c = (if c < 2 then of_int (min ([300, 9] ! c) 255) else channel_value (new_artnet_universe 7 1 False) c)"
    by (auto simp: one_universe_def)
  have "channel_value u 0 = 255" "channel_value u 1 = 9" using u(2) [rule_format, of 0] u(2) [rule_format, of 1] by simp_all
  then show ?thesis using u(1) by (auto simp: one_universe_def)
qed

theorem server_invariant_witness:
  "\<exists>m. server_reachable (\<lambda>E. E = demo_manager_env) m \<and> \<not> is_rollback_available m \<and> active_show m = None
     \<and> no_show_state (show_file_apply_state m)"
proof -
  let ?r = "server_reachable (\<lambda>E. E = demo_manager_env)"
  obtain d where d: "new_desk (me_desk demo_manager_env) [] [] start_world = Inr d"
    by (simp add: demo_manager_env_def demo_env_def new_desk_def open_devices_def create_source_def start_world_def
        new_event_storage_def register_event_source_def)
  let ?m = "new_manager d True (\<lambda>_. 0)"
  have start: "?r ?m" by (rule server_start [OF _ d]) simp
  obtain r m' where m': "server_step demo_manager_env (Client_request 0 (Enter_scene (Some 3))) ?m = (r, m')" by (rule prod.exhaust)
  have r: "?r m'" by (rule server_go [OF start _ m']) simp
  have "active_show m' = None" using m'
    by (cases d) (auto simp: server_step_def parse_message_cb_def show_requests_def request_scene_def new_manager_def desk.defs)
  then show ?thesis using server_invariant [OF r] r by auto
qed

end
