(* ===== verification/Act_Triples.thy ===== *)
theory Act_Triples
  imports Actions
begin

text \<open>
  Pre- and postconditions of actions. \<open>triple P m Q E\<close>: started where \<open>P\<close> holds, the action
  returns a value and a state that satisfy \<open>Q\<close>, or it ends with an exception and a state that
  satisfy \<open>E\<close>. The rules follow the structure of the actions; \<open>keeps\<close> is the case of an invariant,
  which must hold also after an exception.
\<close>

text \<open>An action that looks at the state it is started in.\<close>

definition with_act :: "('s \<Rightarrow> ('s, 'a) act) \<Rightarrow> ('s, 'a) act" where
  "with_act m s = m s s"

definition triple :: "('s \<Rightarrow> bool) \<Rightarrow> ('s, 'a) act \<Rightarrow> ('a \<Rightarrow> 's \<Rightarrow> bool) \<Rightarrow> (exn \<Rightarrow> 's \<Rightarrow> bool) \<Rightarrow> bool" where
  "triple P m Q E \<longleftrightarrow> (\<forall>s. P s \<longrightarrow> (case m s of (Inl e, t) \<Rightarrow> E e t | (Inr x, t) \<Rightarrow> Q x t))"

definition keeps :: "('s \<Rightarrow> bool) \<Rightarrow> ('s, 'a) act \<Rightarrow> bool" where
  "keeps P m \<longleftrightarrow> triple P m (\<lambda>_. P) (\<lambda>_. P)"

named_theorems triple_rules
named_theorems keeps_rules

lemma tripleI: "(\<And>s. P s \<Longrightarrow> case m s of (Inl e, t) \<Rightarrow> E e t | (Inr x, t) \<Rightarrow> Q x t) \<Longrightarrow> triple P m Q E"
  by (simp add: triple_def)

lemma triple_Inr: "triple P m Q E \<Longrightarrow> P s \<Longrightarrow> m s = (Inr x, t) \<Longrightarrow> Q x t"
  by (auto simp: triple_def)

lemma triple_Inl: "triple P m Q E \<Longrightarrow> P s \<Longrightarrow> m s = (Inl e, t) \<Longrightarrow> E e t"
  by (auto simp: triple_def)

lemma triple_conseq:
  "triple P' m Q' E' \<Longrightarrow> (\<And>s. P s \<Longrightarrow> P' s) \<Longrightarrow> (\<And>x s. Q' x s \<Longrightarrow> Q x s) \<Longrightarrow> (\<And>e s. E' e s \<Longrightarrow> E e s) \<Longrightarrow>
   triple P m Q E"
  unfolding triple_def by (fastforce split: prod.splits sum.splits)

lemma triple_pre: "triple P' m Q E \<Longrightarrow> (\<And>s. P s \<Longrightarrow> P' s) \<Longrightarrow> triple P m Q E"
  by (rule triple_conseq)

lemma triple_bind [triple_rules]:
  assumes "triple P m R E" and "\<And>x. triple (R x) (f x) Q E"
  shows "triple P (bind_act m f) Q E"
proof (rule tripleI)
  fix s assume "P s"
  then show "case bind_act m f s of (Inl e, t) \<Rightarrow> E e t | (Inr x, t) \<Rightarrow> Q x t"
    using assms by (cases "m s"; cases "fst (m s)") (force simp: triple_def bind_act_def)+
qed

lemma triple_ret [triple_rules]: "(\<And>s. P s \<Longrightarrow> Q x s) \<Longrightarrow> triple P (ret_act x) Q E"
  by (simp add: triple_def)

lemma triple_lift: "(\<And>s. P s \<Longrightarrow> case r of Inl e \<Rightarrow> E e s | Inr x \<Rightarrow> Q x s) \<Longrightarrow> triple P (lift_act r) Q E"
  by (auto simp: triple_def split: sum.splits)

lemma triple_read: "(\<And>s. P s \<Longrightarrow> case g s of Inl e \<Rightarrow> E e s | Inr x \<Rightarrow> Q x s) \<Longrightarrow> triple P (read_act g) Q E"
  by (auto simp: triple_def split: sum.splits)

lemma triple_modify [triple_rules]: "(\<And>s. P s \<Longrightarrow> Q () (f s)) \<Longrightarrow> triple P (modify_act f) Q E"
  by (simp add: triple_def)

lemma triple_if [triple_rules]:
  "(b \<Longrightarrow> triple P m Q E) \<Longrightarrow> (\<not> b \<Longrightarrow> triple P n Q E) \<Longrightarrow> triple P (if b then m else n) Q E"
  by simp

lemma triple_fst:
  "(\<And>w. triple (\<lambda>f. P (f, w)) m (\<lambda>x f. Q x (f, w)) (\<lambda>e f. E e (f, w))) \<Longrightarrow> triple P (on_fst m) Q E"
  unfolding triple_def on_fst_def by (fastforce split: prod.splits sum.splits)

lemma triple_with: "(\<And>s\<^sub>0. triple (\<lambda>s. s = s\<^sub>0 \<and> P s) (m s\<^sub>0) Q E) \<Longrightarrow> triple P (with_act m) Q E"
  by (auto simp: triple_def with_act_def)

lemma triple_for:
  assumes "\<And>x. x \<in> set xs \<Longrightarrow> triple I (f x) (\<lambda>_. I) E"
  shows "triple I (for_act f xs) (\<lambda>_. I) E"
  using assms
proof (induction xs)
  case (Cons x xs)
  have "triple I (bind_act (f x) (\<lambda>_. for_act f xs)) (\<lambda>_. I) E"
    by (rule triple_bind [where R = "\<lambda>_. I"]) (use Cons in auto)
  then show ?case by (simp add: triple_def)
qed (simp add: triple_def)

subsection \<open>Invariants\<close>

lemma keepsI: "(\<And>s. P s \<Longrightarrow> P (snd (m s))) \<Longrightarrow> keeps P m"
  by (auto simp: keeps_def triple_def split: prod.splits sum.splits) (metis snd_conv)+

lemma keepsD: "keeps P m \<Longrightarrow> P s \<Longrightarrow> P (snd (m s))"
  by (cases "m s"; cases "fst (m s)") (auto simp: keeps_def triple_def)

lemma keeps_bind [keeps_rules]: "keeps P m \<Longrightarrow> (\<And>x. keeps P (f x)) \<Longrightarrow> keeps P (bind_act m f)"
  unfolding keeps_def by (rule triple_bind)

lemma keeps_simple [keeps_rules]: "keeps P (ret_act x)" "keeps P (lift_act r)" "keeps P (read_act g)" "keeps P (throw_act e)"
  by (auto intro: keepsI)

lemma keeps_modify [keeps_rules]: "(\<And>s. P s \<Longrightarrow> P (f s)) \<Longrightarrow> keeps P (modify_act f)"
  by (auto intro: keepsI)

lemma keeps_for [keeps_rules]: "(\<And>x. x \<in> set xs \<Longrightarrow> keeps P (f x)) \<Longrightarrow> keeps P (for_act f xs)"
  unfolding keeps_def by (rule triple_for)

lemma keeps_if [keeps_rules]: "(b \<Longrightarrow> keeps P m) \<Longrightarrow> (\<not> b \<Longrightarrow> keeps P n) \<Longrightarrow> keeps P (if b then m else n)"
  by simp

lemma keeps_with [keeps_rules]: "(\<And>s\<^sub>0. keeps P (m s\<^sub>0)) \<Longrightarrow> keeps P (with_act m)"
  by (rule keepsI) (simp add: with_act_def keepsD)

lemma keeps_fst: "keeps P m \<Longrightarrow> keeps (\<lambda>s. P (fst s)) (on_fst m)"
  by (rule keepsI) (auto simp: on_fst_def split: prod.splits dest: keepsD)

end
