(* ===== verification/Cue_Filter.thy ===== *)
theory Cue_Filter
  imports Filter_Base State_Registry Act_Triples
begin

text \<open>
  The cue list filter, \<^verbatim>\<open>src/src/filters/filter_cue.cpp\<close> and \<^verbatim>\<open>filter_cue.hpp\<close>, with the channel
  mapping of \<^verbatim>\<open>filters/util.cpp\<close>. A filter holds cues; a cue is a list of time stamps and, per type of
  channel, one key frame for every channel at every time stamp. The member functions are
  actions, so that what was changed before an exception stays changed; the templates over the
  four channel types take a record \<open>cue_kind\<close>. The world around the filter is the scene id of the
  active show (None without a show), the state registry and the messages sent to the GUI.
  \<open>std::exp\<close> is a parameter. Reserving memory for vectors has no effect in the model.
\<close>

subsection \<open>Data\<close>

datatype transition = EDGE | LINEAR | SIGMOIDAL | EASE_IN | EASE_OUT
datatype handling_at_the_end = HOLD | START_AGAIN | NEXT_CUE | HOLDING
datatype handling_at_restart = DO_NOTHING | START_FROM_BEGIN
datatype channel_type = EIGHT_BIT | SIXTEEN_BIT | FLOAT_CHANNEL | COLOR_CHANNEL

text \<open>The run state is a byte: a cast from the registry may give one that is no enumerator.\<close>

datatype run_state = STOP | PLAY | PAUSE | No_run_state u8

definition run_state_of :: "int \<Rightarrow> run_state" where
  "run_state_of i = (let b = i mod 256 in
     if b = 0 then STOP else if b = 1 then PLAY else if b = 2 then PAUSE else No_run_state (of_int b))"

definition run_state_number :: "run_state \<Rightarrow> nat" where
  "run_state_number r = (case r of STOP \<Rightarrow> 0 | PLAY \<Rightarrow> 1 | PAUSE \<Rightarrow> 2 | No_run_state b \<Rightarrow> unat b)"

record 'v key_frame =
  kf_value :: 'v
  kf_transition :: transition

record cue_st =
  timestamps :: "double list"
  eight_bit_frames :: "u8 key_frame list"
  sixteen_bit_frames :: "u16 key_frame list"
  float_frames :: "double key_frame list"
  color_frames :: "pixel key_frame list"
  end_handling :: handling_at_the_end
  restart_handling :: handling_at_restart

record frame_actual =
  fa_updated :: bool
  fa_time_stamp :: double
  fa_cue :: nat
  fa_frame :: nat
  fa_eight :: "u8 list"
  fa_sixteen :: "u16 list"
  fa_float :: "double list"
  fa_color :: "pixel list"

record filter_cue =
  own_filter_id :: string
  cue_time :: "addr option"
  time_scale_input :: "addr option"
  time_scale :: double
  current_time :: double
  scale_valid :: bool
  state_persistent :: bool
  start_time :: double
  pause_time :: double
  last_values :: frame_actual
  actual_values :: frame_actual
  next_cue :: u16
  default_cue :: int
  cue_end_handling_real :: handling_at_the_end
  handle_end :: handling_at_the_end
  running_state :: run_state
  channel :: "(channel_type \<times> nat) list"
  cues :: "cue_st list"
  channel_names_eight :: "string list"
  channel_names_sixteen :: "string list"
  channel_names_float :: "string list"
  channel_names_color :: "string list"

definition new_frame_actual :: frame_actual where
  "new_frame_actual = \<lparr>fa_updated = False, fa_time_stamp = Num 0, fa_cue = 65535, fa_frame = 65535,
     fa_eight = [], fa_sixteen = [], fa_float = [], fa_color = []\<rparr>"

definition new_filter_cue :: filter_cue where
  "new_filter_cue = \<lparr>own_filter_id = [], cue_time = None, time_scale_input = None, time_scale = Num 1,
     current_time = Num 0, scale_valid = True, state_persistent = False, start_time = Num 0, pause_time = Num 0,
     last_values = new_frame_actual, actual_values = new_frame_actual, next_cue = 0xffff, default_cue = - 1,
     cue_end_handling_real = START_AGAIN, handle_end = HOLD, running_state = STOP, channel = [], cues = [],
     channel_names_eight = [], channel_names_sixteen = [], channel_names_float = [], channel_names_color = []\<rparr>"

definition new_cue_st :: cue_st where
  "new_cue_st = \<lparr>timestamps = [], eight_bit_frames = [], sixteen_bit_frames = [], float_frames = [], color_frames = [],
     end_handling = NEXT_CUE, restart_handling = DO_NOTHING\<rparr>"

text \<open>The type parameter of the member templates: where the values and the key frames of a type are.\<close>

record 'v cue_kind =
  cq_values :: "frame_actual \<Rightarrow> 'v list"
  cq_set :: "'v list \<Rightarrow> frame_actual \<Rightarrow> frame_actual"
  cq_frames :: "cue_st \<Rightarrow> 'v key_frame list"
  cq_push :: "'v key_frame \<Rightarrow> cue_st \<Rightarrow> cue_st"

definition cue8 :: "u8 cue_kind" where
  "cue8 = \<lparr>cq_values = fa_eight, cq_set = (\<lambda>v a. a\<lparr>fa_eight := v\<rparr>), cq_frames = eight_bit_frames,
     cq_push = (\<lambda>x c. c\<lparr>eight_bit_frames := eight_bit_frames c @ [x]\<rparr>)\<rparr>"

definition cue16 :: "u16 cue_kind" where
  "cue16 = \<lparr>cq_values = fa_sixteen, cq_set = (\<lambda>v a. a\<lparr>fa_sixteen := v\<rparr>), cq_frames = sixteen_bit_frames,
     cq_push = (\<lambda>x c. c\<lparr>sixteen_bit_frames := sixteen_bit_frames c @ [x]\<rparr>)\<rparr>"

definition cuef :: "double cue_kind" where
  "cuef = \<lparr>cq_values = fa_float, cq_set = (\<lambda>v a. a\<lparr>fa_float := v\<rparr>), cq_frames = float_frames,
     cq_push = (\<lambda>x c. c\<lparr>float_frames := float_frames c @ [x]\<rparr>)\<rparr>"

definition cuec :: "pixel cue_kind" where
  "cuec = \<lparr>cq_values = fa_color, cq_set = (\<lambda>v a. a\<lparr>fa_color := v\<rparr>), cq_frames = color_frames,
     cq_push = (\<lambda>x c. c\<lparr>color_frames := color_frames c @ [x]\<rparr>)\<rparr>"

lemmas cue_kind_defs = cue8_def cue16_def cuef_def cuec_def

subsection \<open>The channels of the filter\<close>

definition init_values_out :: "channel_type \<Rightarrow> string \<Rightarrow> filter_cue \<Rightarrow> filter_cue" where
  "init_values_out t channel_name f = (let a = actual_values f; l = last_values f in case t of
      EIGHT_BIT \<Rightarrow> f\<lparr>channel := channel f @ [(EIGHT_BIT, length (fa_eight a))],
        channel_names_eight := channel_names_eight f @ [channel_name],
        actual_values := a\<lparr>fa_eight := fa_eight a @ [0]\<rparr>, last_values := l\<lparr>fa_eight := fa_eight l @ [0]\<rparr>\<rparr>
    | SIXTEEN_BIT \<Rightarrow> f\<lparr>channel := channel f @ [(SIXTEEN_BIT, length (fa_sixteen a))],
        channel_names_sixteen := channel_names_sixteen f @ [channel_name],
        actual_values := a\<lparr>fa_sixteen := fa_sixteen a @ [0]\<rparr>, last_values := l\<lparr>fa_sixteen := fa_sixteen l @ [0]\<rparr>\<rparr>
    | FLOAT_CHANNEL \<Rightarrow> f\<lparr>channel := channel f @ [(FLOAT_CHANNEL, length (fa_float a))],
        channel_names_float := channel_names_float f @ [channel_name],
        actual_values := a\<lparr>fa_float := fa_float a @ [Num 0]\<rparr>, last_values := l\<lparr>fa_float := fa_float l @ [Num 0]\<rparr>\<rparr>
    | COLOR_CHANNEL \<Rightarrow> f\<lparr>channel := channel f @ [(COLOR_CHANNEL, length (fa_color a))],
        channel_names_color := channel_names_color f @ [channel_name],
        actual_values := a\<lparr>fa_color := fa_color a @ [default_pixel]\<rparr>,
        last_values := l\<lparr>fa_color := fa_color l @ [default_pixel]\<rparr>\<rparr>)"

text \<open>
  \<open>util::init_mapping\<close>: entries \<open>name:type\<close> separated by semicolons. The positions are those of
  the code; a missing colon makes \<open>sign + 1\<close> wrap around to zero.
\<close>

definition mapping_type :: "string \<Rightarrow> channel_type option" where
  "mapping_type t =
     (if t = ''8bit'' then Some EIGHT_BIT else if t = ''16bit'' then Some SIXTEEN_BIT
      else if t = ''float'' then Some FLOAT_CHANNEL else if t = ''color'' then Some COLOR_CHANNEL else None)"

definition mapping_entry ::
  "(channel_type \<Rightarrow> string \<Rightarrow> 's \<Rightarrow> 's) \<Rightarrow> int \<Rightarrow> string \<Rightarrow> string \<Rightarrow> nat \<Rightarrow> nat \<Rightarrow> ('s, unit) act" where
  "mapping_entry init_values ftype fid mappingstr start_pos next_pos =
     (let sign = str_find mappingstr '':'' start_pos in
      bind_act (lift_act (substr mappingstr (size_add sign 1) (size_sub (size_sub next_pos sign) 1))) (\<lambda>channel_type.
      bind_act (lift_act (substr mappingstr start_pos (size_sub sign start_pos))) (\<lambda>channel_name.
      case mapping_type channel_type of
        Some t \<Rightarrow> modify_act (init_values t channel_name)
      | None \<Rightarrow> lift_act (config_error (''can not recognise channel type: '' @ channel_type) ftype fid))))"

text \<open>After a position below \<open>npos\<close>, the next one found is further on.\<close>

lemma str_find_next: "q < npos \<Longrightarrow> str_find s p (size_add q 1) \<noteq> npos \<Longrightarrow> q < str_find s p (size_add q 1)"
  using str_find_ge [of s p "size_add q 1"] by (auto simp: size_add_def npos_def)

lemma npos_minus_less: "q < npos \<Longrightarrow> q < r \<Longrightarrow> npos - r < npos - (q :: nat)"
  by linarith

lemma str_find_progress: "q < npos \<Longrightarrow> npos - str_find s p (size_add q 1) < npos - q"
  using str_find_next [of q s p] npos_minus_less [of q] by (cases "str_find s p (size_add q 1) = npos") auto

function mapping_loop ::
  "(nat \<Rightarrow> nat \<Rightarrow> ('s, unit) act) \<Rightarrow> string \<Rightarrow> nat \<Rightarrow> nat \<Rightarrow> ('s, unit) act" where
  "mapping_loop entry str start_pos next_pos s = (case entry start_pos next_pos s of
      (Inl e, t) \<Rightarrow> (Inl e, t)
    | (Inr _, t) \<Rightarrow>
        if min (length str) npos \<le> next_pos then (Inr (), t)
        else mapping_loop entry str (size_add next_pos 1) (str_find str '';'' (size_add next_pos 1)) t)"
  by pat_completeness auto
termination
  by (relation "measure (\<lambda>(_, _, _, next_pos, _). npos - next_pos)") (simp_all add: str_find_progress del: One_nat_def)

declare mapping_loop.simps [simp del]

definition init_mapping ::
  "(channel_type \<Rightarrow> string \<Rightarrow> 's \<Rightarrow> 's) \<Rightarrow> int \<Rightarrow> string \<Rightarrow> string \<Rightarrow> ('s, unit) act" where
  "init_mapping init_values ftype fid mappingstr =
     (if length mappingstr < 1 then ret_act ()
      else mapping_loop (mapping_entry init_values ftype fid mappingstr) mappingstr 0 (str_find mappingstr '';'' 0))"

definition filter_type_cue :: int where
  "filter_type_cue = 44"

definition cue_pre_setup :: "(string, string) omap \<Rightarrow> string \<Rightarrow> (filter_cue, unit) act" where
  "cue_pre_setup configuration own_id =
     bind_act (modify_act (\<lambda>f. f\<lparr>own_filter_id := own_id\<rparr>)) (\<lambda>_.
       case map_of configuration ''mapping'' of
         None \<Rightarrow> lift_act (config_error ''cue filter: unable to setup the mapping'' filter_type_cue own_id)
       | Some s \<Rightarrow> init_mapping init_values_out filter_type_cue own_id s)"

definition cue_outputs :: "libm \<Rightarrow> nat \<Rightarrow> string \<Rightarrow> filter_cue \<Rightarrow> addr channel_mapping \<Rightarrow> addr channel_mapping result" where
  "cue_outputs lm i name f cm =
     (let publish = (\<lambda>put names j cm. bind_res (checked_at names j) (\<lambda>n. Inr (put (name @ '':'' @ n) (i, j) cm)));
          a = actual_values f
      in bind_res (fold_res (publish (ck_publish kind8) (channel_names_eight f)) [0..<length (fa_eight a)] cm) (\<lambda>cm.
         bind_res (fold_res (publish (ck_publish kind16) (channel_names_sixteen f)) [0..<length (fa_sixteen a)] cm) (\<lambda>cm.
         bind_res (fold_res (publish (ck_publish kindf) (channel_names_float f)) [0..<length (fa_float a)] cm)
           (fold_res (publish (ck_publish (kindc lm)) (channel_names_color f)) [0..<length (fa_color a)]))))"

subsection \<open>Parsing the cue list\<close>

text \<open>
  \<open>do_with_substr\<close>: the parts of the text between \<open>start\<close> and \<open>end_pos\<close> that the separator divides.
  The end is a \<open>size_t\<close>, so it is at most \<open>npos\<close>.
\<close>

function substr_loop ::
  "(nat \<Rightarrow> nat \<Rightarrow> nat \<Rightarrow> ('s, bool) act) \<Rightarrow> string \<Rightarrow> string \<Rightarrow> nat \<Rightarrow> nat \<Rightarrow> nat \<Rightarrow> nat \<Rightarrow> nat \<Rightarrow> ('s, bool) act" where
  "substr_loop func str sep min_loops end_pos start next_pos number s =
     (case func start (min end_pos next_pos) number s of
        (Inl e, t) \<Rightarrow> (Inl e, t)
      | (Inr ok, t) \<Rightarrow>
          if \<not> ok then (Inr False, t)
          else if min end_pos npos \<le> next_pos then (Inr (min_loops \<le> number + 1), t)
          else substr_loop func str sep min_loops end_pos (size_add next_pos 1)
                 (str_find str sep (size_add next_pos 1)) (number + 1) t)"
  by pat_completeness auto
termination
  by (relation "measure (\<lambda>(_, _, _, _, _, _, next_pos, _, _). npos - next_pos)") (simp_all add: str_find_progress del: One_nat_def)

declare substr_loop.simps [simp del]

definition do_with_substr ::
  "string \<Rightarrow> nat \<Rightarrow> nat \<Rightarrow> string \<Rightarrow> nat \<Rightarrow> (nat \<Rightarrow> nat \<Rightarrow> nat \<Rightarrow> ('s, bool) act) \<Rightarrow> ('s, bool) act" where
  "do_with_substr str start end_pos sep min_loops func =
     substr_loop func str sep min_loops end_pos start (str_find str sep start) 0"

definition catch_bad :: "('s, bool) act \<Rightarrow> ('s, bool) act" where
  "catch_bad m s = (case m s of
      (Inl (Invalid_argument _), t) \<Rightarrow> (Inr False, t)
    | (Inl (Out_of_range _), t) \<Rightarrow> (Inr False, t)
    | r \<Rightarrow> r)"

text \<open>\<open>this->cues.at(cue)\<close> on the left of an assignment or a push.\<close>

definition on_cue :: "nat \<Rightarrow> (cue_st \<Rightarrow> cue_st) \<Rightarrow> (filter_cue, unit) act" where
  "on_cue cue g f = (case checked_at (cues f) cue of
      Inl e \<Rightarrow> (Inl e, f)
    | Inr c \<Rightarrow> (Inr (), f\<lparr>cues := (cues f)[cue := g c]\<rparr>))"

definition frame_transition :: "string \<Rightarrow> transition" where
  "frame_transition s =
     (if s = ''edg'' then EDGE else if s = ''sig'' then SIGMOIDAL else if s = ''e_i'' then EASE_IN
      else if s = ''e_o'' then EASE_OUT else LINEAR)"

definition clamp_to :: "int \<Rightarrow> int \<Rightarrow> int" where
  "clamp_to highest v = max (min v highest) 0"

definition push_frame :: "'v cue_kind \<Rightarrow> nat \<Rightarrow> 'v result \<Rightarrow> transition \<Rightarrow> (filter_cue, unit) act" where
  "push_frame k cue r tr = bind_act (lift_act r) (\<lambda>v. on_cue cue (cq_push k \<lparr>kf_value = v, kf_transition = tr\<rparr>))"

definition frame_color :: "libm \<Rightarrow> string \<Rightarrow> nat \<Rightarrow> nat \<Rightarrow> pixel result" where
  "frame_color lm str start end_pos =
     (let first_position = str_find str '','' start;
          second_position = str_find str '','' (size_add first_position 1)
      in bind_res (bind_res (substr str start (size_sub first_position start)) stod) (\<lambda>h.
         bind_res (bind_res (substr str (size_add first_position 1)
             (size_sub (size_sub second_position first_position) 1)) stod) (\<lambda>s.
         bind_res (bind_res (substr str (size_add second_position 1)
             (size_sub (size_sub end_pos second_position) 1)) stod) (\<lambda>i.
         hsi_pixel lm h s i))))"

definition handle_channel_frame :: "libm \<Rightarrow> nat \<Rightarrow> string \<Rightarrow> nat \<Rightarrow> nat \<Rightarrow> nat \<Rightarrow> (filter_cue, bool) act" where
  "handle_channel_frame lm cue str start end_pos nr_channel f =
     (let sep = str_find str ''@'' start;
          text_value = substr str start (size_sub sep start)
      in if length (channel f) \<le> nr_channel then (Inr False, f)
         else bind_act (lift_act (substr str (size_add sep 1) (size_sub (size_sub end_pos sep) 1))) (\<lambda>name.
           let tr = frame_transition name
           in catch_bad (bind_act (case fst (channel f ! nr_channel) of
                EIGHT_BIT \<Rightarrow> push_frame cue8 cue (bind_res (bind_res text_value stoi) (\<lambda>v. Inr (of_int (clamp_to 255 v)))) tr
              | SIXTEEN_BIT \<Rightarrow> push_frame cue16 cue (bind_res (bind_res text_value stoi) (\<lambda>v. Inr (of_int (clamp_to 65535 v)))) tr
              | FLOAT_CHANNEL \<Rightarrow> push_frame cuef cue (bind_res text_value stod) tr
              | COLOR_CHANNEL \<Rightarrow> push_frame cuec cue (frame_color lm str start end_pos) tr)
              (\<lambda>_. ret_act True))) f)"

definition push_timestamp :: "double \<Rightarrow> cue_st \<Rightarrow> cue_st" where
  "push_timestamp x c = c\<lparr>timestamps := timestamps c @ [x]\<rparr>"

definition handle_timestamps :: "libm \<Rightarrow> nat \<Rightarrow> string \<Rightarrow> nat \<Rightarrow> nat \<Rightarrow> nat \<Rightarrow> (filter_cue, bool) act" where
  "handle_timestamps lm cue str start end_pos nr_timestamp f =
     (let end_ts = str_find str '':'' start
      in if start < end_pos
         then bind_act (catch_bad (bind_act (lift_act (bind_res (substr str start (size_sub end_ts start)) stod)) (\<lambda>t.
                bind_act (on_cue cue (push_timestamp (d_mul t (Num 1000)))) (\<lambda>_. ret_act True)))) (\<lambda>ok.
              if \<not> ok then ret_act False
              else do_with_substr str (size_add end_ts 1) end_pos ''&'' (length (channel f)) (handle_channel_frame lm cue str)) f
         else (Inr True, f))"

definition handle_cue_conf :: "nat \<Rightarrow> string \<Rightarrow> nat \<Rightarrow> nat \<Rightarrow> nat \<Rightarrow> (filter_cue, bool) act" where
  "handle_cue_conf cue str start end_pos number =
     (if 1 < number then ret_act True
      else bind_act (lift_act (substr str start (size_sub end_pos start))) (\<lambda>word.
        let change = (\<lambda>g. bind_act (on_cue cue g) (\<lambda>_. ret_act True))
        in if word = ''hold'' then change (\<lambda>c. c\<lparr>end_handling := HOLD\<rparr>)
           else if word = ''start_again'' then change (\<lambda>c. c\<lparr>end_handling := START_AGAIN\<rparr>)
           else if word = ''next_cue'' then change (\<lambda>c. c\<lparr>end_handling := NEXT_CUE\<rparr>)
           else if word = ''do_nothing'' then change (\<lambda>c. c\<lparr>restart_handling := DO_NOTHING\<rparr>)
           else if word = ''restart'' then change (\<lambda>c. c\<lparr>restart_handling := START_FROM_BEGIN\<rparr>)
           else ret_act False))"

definition handle_cue :: "libm \<Rightarrow> string \<Rightarrow> nat \<Rightarrow> nat \<Rightarrow> nat \<Rightarrow> (filter_cue, bool) act" where
  "handle_cue lm str start end_pos cue =
     bind_act (modify_act (\<lambda>f. f\<lparr>cues := cues f @ [new_cue_st]\<rparr>)) (\<lambda>_.
     bind_act (on_cue cue (\<lambda>c. c\<lparr>end_handling := NEXT_CUE, restart_handling := DO_NOTHING\<rparr>)) (\<lambda>_.
     let end_conf = str_find str ''#'' start
     in bind_act (do_with_substr str start (min end_conf end_pos) ''|'' 1 (handle_timestamps lm cue str)) (\<lambda>ok.
        if \<not> ok then ret_act False
        else if end_conf < end_pos
        then do_with_substr str (size_add end_conf 1) end_pos ''#'' 1 (handle_cue_conf cue str)
        else ret_act True)))"

definition read_default_cue :: "string \<Rightarrow> string \<Rightarrow> (filter_cue, unit) act" where
  "read_default_cue own_id s f = (case stol s of
      Inl (Invalid_argument _) \<Rightarrow> (config_error (''cue filter: unable to setup the cuelist. '' @
        ''Property 'default_cue' is not parseable as long.'') filter_type_cue own_id, f)
    | Inl (Out_of_range _) \<Rightarrow> (config_error (''cue filter: unable to setup the cuelist. '' @
        ''Property 'default_cue' was too large.'') filter_type_cue own_id, f)
    | Inl e \<Rightarrow> (Inl e, f)
    | Inr n \<Rightarrow> (Inr (), f\<lparr>default_cue := (if int (length (cues f)) \<le> n then - 1 else n)\<rparr>))"

definition read_cuelist :: "libm \<Rightarrow> (string, string) omap \<Rightarrow> string \<Rightarrow> (filter_cue, unit) act" where
  "read_cuelist lm configuration own_id = (case map_of configuration ''cuelist'' of
      None \<Rightarrow> lift_act (config_error (''cue filter: unable to setup the cuelist. '' @
        ''Property 'cuelist' is missing.'') filter_type_cue own_id)
    | Some frames \<Rightarrow>
        bind_act (do_with_substr frames 0 (length frames) ''$'' 1 (handle_cue lm frames)) (\<lambda>ok.
          if ok then ret_act () else lift_act (config_error ''cue filter: unable to parse the cuelist'' filter_type_cue own_id)))"

definition cue_setup :: "libm \<Rightarrow> (string, string) omap \<Rightarrow> addr channel_mapping \<Rightarrow> string \<Rightarrow> (filter_cue, unit) act" where
  "cue_setup lm configuration cm own_id =
     bind_act (lift_act (link_input kindf cm ''time'' (''Unable to link input of cue filter: channel mapping does not '' @
       ''contain channel 'time' of type 'double'. This input should come from the scenes global time node.'') filter_type_cue own_id)) (\<lambda>t.
     bind_act (modify_act (\<lambda>f. f\<lparr>cue_time := Some t\<rparr>)) (\<lambda>_.
     bind_act (lift_act (link_input kindf cm ''time_scale'' (''Unable to link input of cue filter: channel mapping does not '' @
       ''contain channel 'time_scale' of type 'double'. If you dont want to change the speed you can link a constant with value 1'')
       filter_type_cue own_id)) (\<lambda>s.
     bind_act (modify_act (\<lambda>f. f\<lparr>time_scale_input := Some s,
       handle_end := (if map_of configuration ''end_handling'' = Some ''start_again'' then START_AGAIN else HOLD)\<rparr>)) (\<lambda>_.
     bind_act (read_cuelist lm configuration own_id) (\<lambda>_.
     bind_act (case map_of configuration ''default_cue'' of None \<Rightarrow> ret_act () | Some d \<Rightarrow> read_default_cue own_id d) (\<lambda>_.
       case map_of configuration ''persistence'' of None \<Rightarrow> ret_act ()
       | Some s \<Rightarrow> modify_act (\<lambda>f. f\<lparr>state_persistent := (map tolower_char s = ''true'')\<rparr>)))))))"

end
