(* ===== verification/Cue_Playback.thy ===== *)
theory Cue_Playback
  imports Cue_Filter
begin

text \<open>
  The running cue list: transitions between key frames, the handling of the end of a cue and of
  the list, the parameters sent by the GUI, and the state kept in the registry over a change of
  the scene (\<^verbatim>\<open>src/src/filters/filter_cue.cpp\<close> from line 277).
\<close>

record cue_world =
  active_scene :: "u32 option"
  registry :: state_registry
  sent_updates :: "parameter_update list"

type_synonym 'a cue_act = "(filter_cue \<times> cue_world, 'a) act"

definition get_fst :: "('s \<Rightarrow> 'a) \<Rightarrow> ('s \<times> 'w, 'a) act" where
  "get_fst g s = (Inr (g (fst s)), s)"

definition set_fst :: "('s \<Rightarrow> 's) \<Rightarrow> ('s \<times> 'w, unit) act" where
  "set_fst g s = (Inr (), g (fst s), snd s)"

subsection \<open>The state sent to the GUI\<close>

definition run_state_text :: "run_state \<Rightarrow> string" where
  "run_state_text r = (case r of STOP \<Rightarrow> ''stop'' | PLAY \<Rightarrow> ''play'' | PAUSE \<Rightarrow> ''pause'' | No_run_state _ \<Rightarrow> ''error'')"

definition actual_cue :: "filter_cue \<Rightarrow> cue_st result" where
  "actual_cue f = checked_at (cues f) (fa_cue (actual_values f))"

definition parameter_text :: "filter_cue \<Rightarrow> string result" where
  "parameter_text f = bind_res (actual_cue f) (\<lambda>c.
     bind_res (if length (timestamps c) > 0
               then bind_res (checked_at (timestamps c) (length (timestamps c) - 1)) (\<lambda>t. Inr (to_string_double (d_div t (Num 1000))))
               else Inr (dec 0)) (\<lambda>len.
     Inr (run_state_text (running_state f) @ '';'' @ dec (fa_cue (actual_values f)) @ '';'' @
       to_string_double (d_div (d_sub (current_time f) (start_time f)) (Num 1000)) @ '';'' @ len @ '';'' @
       to_string_double (time_scale f))))"

definition update_parameter_gui :: "unit cue_act" where
  "update_parameter_gui s = (case active_scene (snd s) of
      None \<Rightarrow> (Inr (), s)
    | Some scene_id \<Rightarrow> (case parameter_text (fst s) of
        Inl e \<Rightarrow> (Inl e, s)
      | Inr text_value \<Rightarrow> (Inr (), fst s, (snd s)\<lparr>sent_updates := sent_updates (snd s) @
          [\<lparr>up_filter_id = own_filter_id (fst s), up_scene_id = scene_id, up_parameter_key = ''actual_state'',
            up_parameter_value = text_value\<rparr>]\<rparr>)))"

subsection \<open>Transitions\<close>

definition sigmoidal_offset :: double where
  "sigmoidal_offset = lit 0.0024726231566347743340599073722557624510930726498587540880605924"

definition eased :: "(double \<Rightarrow> double) \<Rightarrow> transition \<Rightarrow> double \<Rightarrow> double" where
  "eased ex tr rel_time = (case tr of
      SIGMOIDAL \<Rightarrow> d_div (d_sub (d_div (Num 1) (d_add (Num 1) (ex (d_sub (Num 6) (d_mul rel_time (Num 12)))))) sigmoidal_offset)
        (d_sub (Num 1) (d_mul (Num 2) sigmoidal_offset))
    | EASE_IN \<Rightarrow> d_mul rel_time rel_time
    | EASE_OUT \<Rightarrow> d_sub (Num 1) (d_mul (d_sub (Num 1) rel_time) (d_sub (Num 1) rel_time))
    | _ \<Rightarrow> rel_time)"

text \<open>
  \<open>(end - start) * rel_time + start\<close>: the difference of two small integers is an \<open>int\<close>. Only the
  integer channels are rounded; the colour components are truncated by the cast.
\<close>

definition between :: "int \<Rightarrow> int \<Rightarrow> double \<Rightarrow> double" where
  "between start_value end_value rel_time =
     d_add (d_mul (of_int_d (end_value - start_value)) rel_time) (of_int_d start_value)"

definition blend8 :: "double \<Rightarrow> u8 \<Rightarrow> u8 \<Rightarrow> u8 result" where
  "blend8 rel_time a b = to_u8 (between (uint a) (uint b) rel_time)"

definition blend16 :: "double \<Rightarrow> u16 \<Rightarrow> u16 \<Rightarrow> u16 result" where
  "blend16 rel_time a b = to_u16 (between (uint a) (uint b) rel_time)"

definition blendf :: "double \<Rightarrow> double \<Rightarrow> double \<Rightarrow> double result" where
  "blendf rel_time a b = Inr (d_add (d_mul (d_sub b a) rel_time) a)"

definition blend_component :: "(pixel \<Rightarrow> (u16 \<times> pixel) result) \<Rightarrow> double \<Rightarrow> pixel \<Rightarrow> pixel \<Rightarrow> u16 result" where
  "blend_component get rel_time a b = bind_res (get a) (\<lambda>(x, _). bind_res (get b) (\<lambda>(y, _).
     bind_res (to_unsigned 16 (between (uint x) (uint y) rel_time)) (\<lambda>n. Inr (of_nat n))))"

definition blendc :: "libm \<Rightarrow> double \<Rightarrow> pixel \<Rightarrow> pixel \<Rightarrow> pixel result" where
  "blendc lm rel_time a b =
     bind_res (blend_component (getRed lm) rel_time a b) (\<lambda>r.
     bind_res (blend_component (getGreen lm) rel_time a b) (\<lambda>g.
     bind_res (blend_component (getBlue lm) rel_time a b) (\<lambda>bl. Inr (rgb_pixel lm r g bl))))"

definition transition_value ::
  "(double \<Rightarrow> double) \<Rightarrow> (double \<Rightarrow> 'v \<Rightarrow> 'v \<Rightarrow> 'v result) \<Rightarrow> double \<Rightarrow> transition \<Rightarrow> 'v \<Rightarrow> 'v \<Rightarrow> 'v result" where
  "transition_value ex blend rel_time tr start_value end_value =
     (if tr = EDGE then Inr (if d_lt rel_time (Num 1) then start_value else end_value)
      else blend (eased ex tr rel_time) start_value end_value)"

definition put_at :: "'v cue_kind \<Rightarrow> nat \<Rightarrow> 'v \<Rightarrow> (frame_actual, unit) act" where
  "put_at k i x a = (case checked_at (cq_values k a) i of
      Inl e \<Rightarrow> (Inl e, a)
    | Inr _ \<Rightarrow> (Inr (), cq_set k ((cq_values k a)[i := x]) a))"

text \<open>Actions on the two sets of values.\<close>

definition on_actual :: "(frame_actual, 'a) act \<Rightarrow> (filter_cue, 'a) act" where
  "on_actual m f = (case m (actual_values f) of (r, a) \<Rightarrow> (r, f\<lparr>actual_values := a\<rparr>))"

definition on_last :: "(frame_actual, 'a) act \<Rightarrow> (filter_cue, 'a) act" where
  "on_last m f = (case m (last_values f) of (r, a) \<Rightarrow> (r, f\<lparr>last_values := a\<rparr>))"

definition calc_transition ::
  "'v cue_kind \<Rightarrow> (double \<Rightarrow> double) \<Rightarrow> (double \<Rightarrow> 'v \<Rightarrow> 'v \<Rightarrow> 'v result) \<Rightarrow> double \<Rightarrow> transition \<Rightarrow> 'v \<Rightarrow> 'v \<Rightarrow> nat \<Rightarrow>
   (filter_cue, unit) act" where
  "calc_transition k ex blend rel_time tr start_value end_value ind =
     bind_act (lift_act (transition_value ex blend rel_time tr start_value end_value)) (\<lambda>v.
     bind_act (on_actual (put_at k ind v)) (\<lambda>_.
     on_actual (modify_act (\<lambda>a. a\<lparr>fa_updated := False\<rparr>))))"

subsection \<open>Copies between the values\<close>

definition copy_at :: "'v cue_kind \<Rightarrow> frame_actual \<Rightarrow> nat \<Rightarrow> (frame_actual, unit) act" where
  "copy_at k src i = bind_act (lift_act (checked_at (cq_values k src) i)) (put_at k i)"

text \<open>The four loops run over the sizes of the actual values.\<close>

definition copy_values :: "frame_actual \<Rightarrow> frame_actual \<Rightarrow> (frame_actual, unit) act" where
  "copy_values sizes src =
     bind_act (for_act (copy_at cue8 src) [0..<length (fa_eight sizes)]) (\<lambda>_.
     bind_act (for_act (copy_at cue16 src) [0..<length (fa_sixteen sizes)]) (\<lambda>_.
     bind_act (for_act (copy_at cuef src) [0..<length (fa_float sizes)]) (\<lambda>_.
     for_act (copy_at cuec src) [0..<length (fa_color sizes)])))"

definition update_hold_values :: "(filter_cue, unit) act" where
  "update_hold_values = with_act (\<lambda>f.
     if fa_updated (actual_values f) then ret_act ()
     else bind_act (on_actual (copy_values (actual_values f) (last_values f)))
            (\<lambda>_. on_actual (modify_act (\<lambda>a. a\<lparr>fa_updated := True\<rparr>))))"

definition mark_last :: "frame_actual \<Rightarrow> frame_actual \<Rightarrow> frame_actual" where
  "mark_last a l = l\<lparr>fa_frame := fa_frame a, fa_cue := fa_cue a, fa_updated := True\<rparr>"

definition update_last_values :: "(filter_cue, unit) act" where
  "update_last_values = with_act (\<lambda>f.
     bind_act (on_last (modify_act (\<lambda>l. l\<lparr>fa_time_stamp := current_time f\<rparr>))) (\<lambda>_.
       if fa_updated (last_values f) then ret_act ()
       else bind_act (on_last (copy_values (actual_values f) (actual_values f)))
              (\<lambda>_. on_last (modify_act (mark_last (actual_values f))))))"

definition frame_index :: "nat \<Rightarrow> nat \<Rightarrow> nat \<Rightarrow> nat" where
  "frame_index channels frame_number i = (channels * frame_number + i) mod 2 ^ 64"

definition key_frame_at :: "'v cue_kind \<Rightarrow> filter_cue \<Rightarrow> nat \<Rightarrow> 'v key_frame result" where
  "key_frame_at k f i = bind_res (actual_cue f) (\<lambda>c.
     checked_at (cq_frames k c) (frame_index (length (cq_values k (actual_values f))) (fa_frame (actual_values f)) i))"

definition put_key_frame :: "'v cue_kind \<Rightarrow> nat \<Rightarrow> (filter_cue, unit) act" where
  "put_key_frame k i =
     bind_act (read_act (\<lambda>f. key_frame_at k f i)) (\<lambda>kf. on_last (put_at k i (kf_value kf)))"

definition update_last_values_from_cuelist :: "(filter_cue, unit) act" where
  "update_last_values_from_cuelist = with_act (\<lambda>f. let a = actual_values f in
     bind_act (for_act (put_key_frame cue8) [0..<length (fa_eight a)]) (\<lambda>_.
     bind_act (for_act (put_key_frame cue16) [0..<length (fa_sixteen a)]) (\<lambda>_.
     bind_act (for_act (put_key_frame cuef) [0..<length (fa_float a)]) (\<lambda>_.
     bind_act (for_act (put_key_frame cuec) [0..<length (fa_color a)]) (\<lambda>_.
     on_last (modify_act (mark_last a)))))))"

subsection \<open>Starting and ending a cue\<close>

definition set_actual_cue :: "nat \<Rightarrow> filter_cue \<Rightarrow> filter_cue" where
  "set_actual_cue c f = f\<lparr>actual_values := (actual_values f)\<lparr>fa_cue := c\<rparr>\<rparr>"

definition set_actual_frame :: "nat \<Rightarrow> filter_cue \<Rightarrow> filter_cue" where
  "set_actual_frame n f = f\<lparr>actual_values := (actual_values f)\<lparr>fa_frame := n\<rparr>\<rparr>"

definition clamp_cue :: "filter_cue \<Rightarrow> filter_cue" where
  "clamp_cue f = (if length (cues f) \<le> fa_cue (actual_values f) then set_actual_cue (size_sub (length (cues f)) 1) f else f)"

definition adopt_end_handling :: "filter_cue \<Rightarrow> filter_cue" where
  "adopt_end_handling f =
     (if fa_cue (actual_values f) < length (cues f)
      then f\<lparr>cue_end_handling_real := end_handling (cues f ! fa_cue (actual_values f))\<rparr> else f)"

definition reset_for_starting_cue :: "(filter_cue, unit) act" where
  "reset_for_starting_cue = bind_act update_last_values (\<lambda>_.
     modify_act (\<lambda>f. adopt_end_handling (clamp_cue (set_actual_frame 0 (f\<lparr>start_time := current_time f\<rparr>)))))"

definition take_next_cue :: "filter_cue \<Rightarrow> filter_cue" where
  "take_next_cue f =
     (if unat (next_cue f) < length (cues f) then (set_actual_cue (unat (next_cue f)) f)\<lparr>next_cue := 0xffff\<rparr> else f)"

definition read_end_handling :: "(filter_cue, unit) act" where
  "read_end_handling = bind_act (read_act actual_cue) (\<lambda>c. modify_act (\<lambda>f. f\<lparr>cue_end_handling_real := end_handling c\<rparr>))"

definition start_following_cue :: "bool cue_act" where
  "start_following_cue = bind_act (set_fst take_next_cue) (\<lambda>_.
     bind_act (on_fst reset_for_starting_cue) (\<lambda>_. bind_act (on_fst read_end_handling) (\<lambda>_. ret_act True)))"

text \<open>At the end of the list: start again, or stop.\<close>

definition end_of_list :: "bool cue_act" where
  "end_of_list = bind_act (get_fst handle_end) (\<lambda>h. case h of
      START_AGAIN \<Rightarrow> bind_act (set_fst (set_actual_cue 0)) (\<lambda>_. start_following_cue)
    | HOLD \<Rightarrow> bind_act (set_fst (\<lambda>f. f\<lparr>running_state := STOP\<rparr>)) (\<lambda>_.
        bind_act (on_fst update_hold_values) (\<lambda>_. bind_act update_parameter_gui (\<lambda>_. ret_act False)))
    | _ \<Rightarrow> ret_act False)"

definition next_cue_number :: "filter_cue \<Rightarrow> nat" where
  "next_cue_number f = size_add (fa_cue (actual_values f)) 1"

definition last_frame_handling :: "bool cue_act" where
  "last_frame_handling = bind_act (get_fst id) (\<lambda>f. case cue_end_handling_real f of
      START_AGAIN \<Rightarrow> start_following_cue
    | HOLD \<Rightarrow> bind_act (on_fst update_hold_values) (\<lambda>_.
        bind_act (set_fst (\<lambda>f. f\<lparr>pause_time := current_time f, running_state := PAUSE, cue_end_handling_real := HOLDING\<rparr>)) (\<lambda>_.
        bind_act update_parameter_gui (\<lambda>_. ret_act False)))
    | HOLDING \<Rightarrow> ret_act False
    | NEXT_CUE \<Rightarrow>
        if fa_cue (actual_values f) < size_sub (length (cues f)) 1
        then bind_act (set_fst (set_actual_cue (next_cue_number f))) (\<lambda>_. start_following_cue)
        else end_of_list)"

subsection \<open>One cycle of a running cue\<close>

text \<open>The time stamp of the current key frame, stretched by the time scale.\<close>

definition scaled_stamp :: "filter_cue \<Rightarrow> double result" where
  "scaled_stamp f = bind_res (actual_cue f) (\<lambda>c.
     bind_res (checked_at (timestamps c) (fa_frame (actual_values f))) (\<lambda>t. Inr (d_div t (time_scale f))))"

definition number_of_stamps :: "filter_cue \<Rightarrow> nat result" where
  "number_of_stamps f = bind_res (actual_cue f) (\<lambda>c. Inr (length (timestamps c)))"

definition forget_last :: "filter_cue \<Rightarrow> filter_cue" where
  "forget_last f = f\<lparr>last_values := (last_values f)\<lparr>fa_updated := False\<rparr>\<rparr>"

definition check_last :: "filter_cue \<Rightarrow> filter_cue" where
  "check_last f =
     (if fa_frame (last_values f) \<noteq> size_sub (fa_frame (actual_values f)) 1 \<or> fa_cue (last_values f) \<noteq> fa_cue (actual_values f)
      then forget_last f else f)"

definition relative_time :: "filter_cue \<Rightarrow> double \<Rightarrow> double" where
  "relative_time f stamp = (let len = d_add (d_sub stamp (fa_time_stamp (last_values f))) (start_time f) in
     if d_le len (Num 0) then Num 1 else d_div (d_sub (current_time f) (fa_time_stamp (last_values f))) len)"

definition calc_channel ::
  "'v cue_kind \<Rightarrow> (double \<Rightarrow> double) \<Rightarrow> (double \<Rightarrow> 'v \<Rightarrow> 'v \<Rightarrow> 'v result) \<Rightarrow> double \<Rightarrow> nat \<Rightarrow> (filter_cue, unit) act" where
  "calc_channel k ex blend rel_time i =
     bind_act (read_act (\<lambda>f. key_frame_at k f i)) (\<lambda>kf.
     bind_act (read_act (\<lambda>f. checked_at (cq_values k (last_values f)) i)) (\<lambda>start_value.
     calc_transition k ex blend rel_time (kf_transition kf) start_value (kf_value kf) i))"

definition calc_outputs :: "libm \<Rightarrow> (double \<Rightarrow> double) \<Rightarrow> double \<Rightarrow> (filter_cue, unit) act" where
  "calc_outputs lm ex rel_time = with_act (\<lambda>f. let a = actual_values f in
     bind_act (for_act (calc_channel cue8 ex blend8 rel_time) [0..<length (fa_eight a)]) (\<lambda>_.
     bind_act (for_act (calc_channel cue16 ex blend16 rel_time) [0..<length (fa_sixteen a)]) (\<lambda>_.
     bind_act (for_act (calc_channel cuef ex blendf rel_time) [0..<length (fa_float a)]) (\<lambda>_.
     for_act (calc_channel cuec ex (blendc lm) rel_time) [0..<length (fa_color a)]))))"

text \<open>The second half of \<open>calc_values\<close>: the values between two key frames.\<close>

definition calc_between :: "libm \<Rightarrow> (double \<Rightarrow> double) \<Rightarrow> (filter_cue, unit) act" where
  "calc_between lm ex = bind_act (read_act number_of_stamps) (\<lambda>n.
     bind_act (read_act (\<lambda>f. Inr (fa_frame (actual_values f)))) (\<lambda>frame_number.
       if frame_number < n
       then bind_act (modify_act forget_last) (\<lambda>_.
         bind_act (read_act scaled_stamp) (\<lambda>stamp.
         bind_act (read_act (\<lambda>f. Inr (relative_time f stamp))) (calc_outputs lm ex)))
       else ret_act ()))"

definition reach_key_frame :: "(filter_cue, unit) act" where
  "reach_key_frame =
     bind_act (read_act (\<lambda>f. Inr (fa_updated (last_values f)))) (\<lambda>up.
     bind_act (if up then ret_act () else update_last_values_from_cuelist) (\<lambda>_.
     bind_act (read_act scaled_stamp) (\<lambda>stamp.
     modify_act (\<lambda>f. f\<lparr>last_values := (last_values f)\<lparr>fa_time_stamp := d_add (start_time f) stamp\<rparr>\<rparr>))))"

definition advance_frame :: "filter_cue \<Rightarrow> filter_cue" where
  "advance_frame f = set_actual_frame (size_add (fa_frame (actual_values f)) 1) f"

text \<open>The first half: a key frame that has been reached. The result says whether to go on.\<close>

definition pass_key_frame :: "nat \<Rightarrow> bool cue_act" where
  "pass_key_frame n =
     bind_act (on_fst reach_key_frame) (\<lambda>_.
     bind_act (get_fst (\<lambda>f. fa_frame (actual_values f) < size_sub n 1)) (\<lambda>more.
     bind_act (if more then bind_act (set_fst advance_frame) (\<lambda>_. ret_act True) else last_frame_handling) (\<lambda>go_on.
       if go_on then bind_act update_parameter_gui (\<lambda>_. ret_act True) else ret_act False)))"

definition frame_reached :: "double \<Rightarrow> filter_cue \<Rightarrow> bool" where
  "frame_reached stamp f \<longleftrightarrow> d_le (d_add stamp (start_time f)) (current_time f)"

definition calc_values :: "libm \<Rightarrow> (double \<Rightarrow> double) \<Rightarrow> unit cue_act" where
  "calc_values lm ex = bind_act (on_fst (read_act number_of_stamps)) (\<lambda>n.
     bind_act (get_fst (\<lambda>f. fa_frame (actual_values f))) (\<lambda>frame_number.
       if n \<le> frame_number then bind_act last_frame_handling (\<lambda>_. ret_act ())
       else bind_act (set_fst check_last) (\<lambda>_.
         bind_act (on_fst (read_act scaled_stamp)) (\<lambda>stamp.
         bind_act (get_fst (frame_reached stamp)) (\<lambda>reached.
         bind_act (if reached then pass_key_frame n else ret_act True) (\<lambda>go_on.
           if go_on then on_fst (calc_between lm ex) else ret_act ()))))))"

subsection \<open>Parameters from the GUI\<close>

definition shift_pause :: "filter_cue \<Rightarrow> filter_cue" where
  "shift_pause f = (let d = d_sub (current_time f) (pause_time f)
     in f\<lparr>start_time := d_add (start_time f) d,
          last_values := (last_values f)\<lparr>fa_time_stamp := d_add (fa_time_stamp (last_values f)) d\<rparr>\<rparr>)"

definition last_stamp :: "filter_cue \<Rightarrow> double result" where
  "last_stamp f = bind_res (actual_cue f) (\<lambda>c. checked_at (timestamps c) (size_sub (length (timestamps c)) 1))"

definition following_cue :: "filter_cue \<Rightarrow> filter_cue" where
  "following_cue f =
     (if fa_cue (actual_values f) < size_sub (length (cues f)) 1 then set_actual_cue (next_cue_number f) f
      else set_actual_cue 0 f)"

definition resume :: "unit cue_act" where
  "resume = bind_act (set_fst shift_pause) (\<lambda>_.
     bind_act (on_fst (read_act last_stamp)) (\<lambda>t.
     bind_act (get_fst (\<lambda>f. d_le (d_add t (start_time f)) (current_time f))) (\<lambda>finished.
       if finished
       then bind_act (on_fst (read_act actual_cue)) (\<lambda>c.
         bind_act (if end_handling c \<in> {NEXT_CUE, HOLD} then set_fst (\<lambda>f. take_next_cue (following_cue f)) else ret_act ())
           (\<lambda>_. on_fst reset_for_starting_cue))
       else ret_act ())))"

text \<open>What \<open>play\<close> does in each run state; None is the early return of false.\<close>

definition prepare_play :: "bool cue_act" where
  "prepare_play = bind_act (get_fst running_state) (\<lambda>r. case r of
      STOP \<Rightarrow> bind_act (set_fst (\<lambda>f. take_next_cue (set_actual_cue 0 f))) (\<lambda>_.
        bind_act (on_fst reset_for_starting_cue) (\<lambda>_. ret_act True))
    | PLAY \<Rightarrow> bind_act (on_fst (read_act actual_cue)) (\<lambda>c.
        bind_act (if restart_handling c = START_FROM_BEGIN then on_fst reset_for_starting_cue else ret_act ()) (\<lambda>_. ret_act True))
    | PAUSE \<Rightarrow> bind_act resume (\<lambda>_. ret_act True)
    | No_run_state _ \<Rightarrow> ret_act False)"

definition play :: "bool \<Rightarrow> bool cue_act" where
  "play to_next_cue = bind_act prepare_play (\<lambda>ok.
     if \<not> ok then ret_act False
     else bind_act (set_fst (\<lambda>f. f\<lparr>running_state := PLAY\<rparr>)) (\<lambda>_.
       bind_act (on_fst read_end_handling) (\<lambda>_.
       bind_act (set_fst (\<lambda>f. if to_next_cue then f\<lparr>cue_end_handling_real := HOLD\<rparr> else f)) (\<lambda>_.
       bind_act update_parameter_gui (\<lambda>_. ret_act True)))))"

definition pause :: "bool cue_act" where
  "pause = bind_act (get_fst running_state) (\<lambda>r. case r of
      PLAY \<Rightarrow> bind_act (set_fst (\<lambda>f. f\<lparr>running_state := PAUSE, pause_time := current_time f\<rparr>)) (\<lambda>_.
        bind_act update_parameter_gui (\<lambda>_. ret_act True))
    | PAUSE \<Rightarrow> ret_act True
    | _ \<Rightarrow> ret_act False)"

text \<open>A number read with \<open>std::stoi\<close> and cut to 16 bits; None where the message is refused.\<close>

definition read_cue_number :: "string \<Rightarrow> u16 option" where
  "read_cue_number s = (case stoi s of Inl _ \<Rightarrow> None | Inr n \<Rightarrow> Some (of_int n))"

definition run_cue :: "u16 \<Rightarrow> bool cue_act" where
  "run_cue next = bind_act (get_fst (\<lambda>f. length (cues f) < unat next)) (\<lambda>refused.
     if refused then ret_act False
     else bind_act (on_fst reset_for_starting_cue) (\<lambda>_.
       bind_act (set_fst (\<lambda>f. (set_actual_cue (unat next) f)\<lparr>running_state := PLAY\<rparr>)) (\<lambda>_.
       bind_act (on_fst read_end_handling) (\<lambda>_.
       bind_act update_parameter_gui (\<lambda>_. ret_act True)))))"

definition choose_next_cue :: "u16 \<Rightarrow> bool cue_act" where
  "choose_next_cue next = bind_act (get_fst (\<lambda>f. length (cues f) < unat next)) (\<lambda>refused.
     if refused then ret_act False else bind_act (set_fst (\<lambda>f. f\<lparr>next_cue := next\<rparr>)) (\<lambda>_. ret_act True))"

definition set_default_cue :: "string \<Rightarrow> bool cue_act" where
  "set_default_cue s = (case stol s of
      Inl _ \<Rightarrow> ret_act False
    | Inr n \<Rightarrow> bind_act (set_fst (\<lambda>f. f\<lparr>default_cue := (if int (length (cues f)) \<le> n then - 1 else n)\<rparr>)) (\<lambda>_. ret_act True))"

definition cue_receive :: "string \<Rightarrow> string \<Rightarrow> bool cue_act" where
  "cue_receive key val = with_act (\<lambda>s.
      if key = ''run_mode'' \<and> val \<in> {''play'', ''to_next_cue''} \<and> scale_valid (fst s) then play (val = ''to_next_cue'')
      else if key = ''run_mode'' \<and> val = ''pause'' then pause
      else if key = ''run_mode'' \<and> val = ''stop'' then
        bind_act (set_fst (\<lambda>f. f\<lparr>running_state := STOP\<rparr>)) (\<lambda>_. bind_act update_parameter_gui (\<lambda>_. ret_act True))
      else if key = ''run_cue'' \<and> d_lt (Num 0) (time_scale (fst s)) then
        (case read_cue_number val of None \<Rightarrow> ret_act False | Some n \<Rightarrow> run_cue n)
      else if key = ''next_cue'' then
        (case read_cue_number val of None \<Rightarrow> ret_act False | Some n \<Rightarrow> choose_next_cue n)
      else if key = ''set_default_cue'' then set_default_cue val
      else ret_act False)"

subsection \<open>The cycle\<close>

text \<open>A time before now, moved so that the elapsed time counts in the new scale.\<close>

definition rescale :: "filter_cue \<Rightarrow> double \<Rightarrow> double \<Rightarrow> double" where
  "rescale f scale t = d_sub (current_time f) (d_div (d_mul (d_sub (current_time f) t) (time_scale f)) scale)"

definition adopt_scale :: "double \<Rightarrow> filter_cue \<Rightarrow> filter_cue" where
  "adopt_scale scale f = f\<lparr>start_time := rescale f scale (start_time f), pause_time := rescale f scale (pause_time f),
     last_values := (last_values f)\<lparr>fa_time_stamp := rescale f scale (fa_time_stamp (last_values f))\<rparr>, time_scale := scale\<rparr>"

definition follow_scale :: "double \<Rightarrow> unit cue_act" where
  "follow_scale scale = with_act (\<lambda>s.
      if d_eq scale (time_scale (fst s)) then ret_act ()
      else if d_le scale (Num 0) \<and> scale_valid (fst s) then
        bind_act (cue_receive ''run_mode'' ''pause'') (\<lambda>_. set_fst (\<lambda>f. f\<lparr>scale_valid := False\<rparr>))
      else if d_lt (Num 0) scale then
        bind_act (if scale_valid (fst s) then ret_act ()
                  else bind_act (set_fst (\<lambda>f. f\<lparr>scale_valid := True\<rparr>)) (\<lambda>_.
                    bind_act (cue_receive ''run_mode'' ''play'') (\<lambda>_. ret_act ())))
          (\<lambda>_. set_fst (adopt_scale scale))
      else ret_act ())"

definition cue_update :: "libm \<Rightarrow> (double \<Rightarrow> double) \<Rightarrow> memory \<Rightarrow> unit cue_act" where
  "cue_update lm ex m = bind_act (on_fst (read_act (\<lambda>f. deref kindf m (cue_time f)))) (\<lambda>now.
     bind_act (set_fst (\<lambda>f. f\<lparr>current_time := now\<rparr>)) (\<lambda>_.
     bind_act (get_fst running_state) (\<lambda>r.
     bind_act (if r = STOP \<or> r = PAUSE then ret_act () else calc_values lm ex) (\<lambda>_.
     bind_act (on_fst (read_act (\<lambda>f. deref kindf m (time_scale_input f)))) follow_scale))))"

subsection \<open>Change of the scene\<close>

definition state_key :: "filter_cue \<Rightarrow> string \<Rightarrow> string" where
  "state_key f name = own_filter_id f @ ''::'' @ name"

definition stored :: "u32 \<Rightarrow> string \<Rightarrow> filter_cue \<times> cue_world \<Rightarrow> string option" where
  "stored scene_id name s = get_scene_state (unat scene_id) (state_key (fst s) name) (registry (snd s))"

text \<open>A value of the registry is read when it is there; the result says whether it was.\<close>

definition load_value :: "u32 \<Rightarrow> string \<Rightarrow> (string \<Rightarrow> (filter_cue, unit) act) \<Rightarrow> bool cue_act" where
  "load_value scene_id name load = with_act (\<lambda>s. case stored scene_id name s of
      None \<Rightarrow> ret_act False
    | Some v \<Rightarrow> bind_act (on_fst (load v)) (\<lambda>_. ret_act True))"

definition load_run_state :: "string \<Rightarrow> (filter_cue, unit) act" where
  "load_run_state v = bind_act (lift_act (stoi v)) (\<lambda>i. modify_act (\<lambda>f. f\<lparr>running_state := run_state_of i\<rparr>))"

definition load_cue :: "string \<Rightarrow> (filter_cue, unit) act" where
  "load_cue v = bind_act (lift_act (stol v)) (\<lambda>i. modify_act (set_actual_cue (nat (i mod 2 ^ 64))))"

definition load_frame :: "string \<Rightarrow> (filter_cue, unit) act" where
  "load_frame v = bind_act (lift_act (stol v)) (\<lambda>i. modify_act (set_actual_frame (nat (i mod 2 ^ 64))))"

definition load_time :: "memory \<Rightarrow> string \<Rightarrow> (filter_cue, unit) act" where
  "load_time m v = bind_act (read_act (\<lambda>f. deref kindf m (cue_time f))) (\<lambda>now.
     bind_act (modify_act (\<lambda>f. f\<lparr>current_time := now\<rparr>)) (\<lambda>_.
     bind_act (lift_act (stod v)) (\<lambda>t. modify_act (\<lambda>f. f\<lparr>start_time := d_sub (current_time f) t\<rparr>))))"

definition restore_last_values :: "(filter_cue, unit) act" where
  "restore_last_values = with_act (\<lambda>f.
     if fa_frame (actual_values f) > 0
      then bind_act (modify_act (set_actual_frame (fa_frame (actual_values f) - 1))) (\<lambda>_.
           bind_act update_last_values_from_cuelist (\<lambda>_. modify_act advance_frame))
      else ret_act ())"

definition load_state :: "memory \<Rightarrow> u32 \<Rightarrow> bool cue_act" where
  "load_state m scene_id =
     bind_act (load_value scene_id ''running_state'' load_run_state) (\<lambda>a.
     bind_act (load_value scene_id ''cue'' load_cue) (\<lambda>b.
     bind_act (load_value scene_id ''frame'' load_frame) (\<lambda>c.
     bind_act (load_value scene_id ''time'' (load_time m)) (\<lambda>d.
     ret_act (a \<and> b \<and> c \<and> d)))))"

definition start_default_cue :: "unit cue_act" where
  "start_default_cue = bind_act (get_fst default_cue) (\<lambda>d.
     if - 1 < d
     then bind_act (set_fst (\<lambda>f. set_actual_cue (unat (of_int d :: u16)) (f\<lparr>running_state := PLAY\<rparr>))) (\<lambda>_.
            on_fst reset_for_starting_cue)
     else ret_act ())"

text \<open>The active show is dereferenced without a check: without one the behaviour is undefined.\<close>

definition cue_activated :: "memory \<Rightarrow> unit cue_act" where
  "cue_activated m = with_act (\<lambda>s.
      if \<not> state_persistent (fst s) then start_default_cue
      else case active_scene (snd s) of
          None \<Rightarrow> throw_act Undefined_behaviour
        | Some scene_id \<Rightarrow>
            bind_act (load_state m scene_id) (\<lambda>loaded.
              if loaded
              then bind_act (set_fst (\<lambda>f. adopt_end_handling (clamp_cue f))) (\<lambda>_. on_fst restore_last_values)
              else start_default_cue))"

definition store_state :: "u32 \<Rightarrow> filter_cue \<Rightarrow> state_registry \<Rightarrow> state_registry" where
  "store_state scene_id f =
     set_scene_state (unat scene_id) (state_key f ''time'') (to_string_double (d_sub (current_time f) (start_time f)))
     \<circ> set_scene_state (unat scene_id) (state_key f ''frame'') (dec (fa_frame (actual_values f)))
     \<circ> set_scene_state (unat scene_id) (state_key f ''cue'') (dec (fa_cue (actual_values f)))
     \<circ> set_scene_state (unat scene_id) (state_key f ''running_state'') (dec (run_state_number (running_state f)))"

definition cue_deactivated :: "unit cue_act" where
  "cue_deactivated s =
     (if \<not> state_persistent (fst s) then (Inr (), s)
      else case active_scene (snd s) of
          None \<Rightarrow> (Inl Undefined_behaviour, s)
        | Some scene_id \<Rightarrow> (Inr (), fst s, (snd s)\<lparr>registry := store_state scene_id (fst s) (registry (snd s))\<rparr>))"

end
