(* ===== verification/Cue_Parse.thy ===== *)
theory Cue_Parse
  imports Cue_Filter
begin

text \<open>
  What a successful set-up of a cue filter gives: the values and the names of every type of
  channel agree in number, and every cue has one key frame per channel and time stamp, for each
  of the four types.
\<close>

definition sizes :: "frame_actual \<Rightarrow> channel_type \<Rightarrow> nat" where
  "sizes a t = (case t of EIGHT_BIT \<Rightarrow> length (fa_eight a) | SIXTEEN_BIT \<Rightarrow> length (fa_sixteen a)
     | FLOAT_CHANNEL \<Rightarrow> length (fa_float a) | COLOR_CHANNEL \<Rightarrow> length (fa_color a))"

definition names_of :: "filter_cue \<Rightarrow> channel_type \<Rightarrow> string list" where
  "names_of f t = (case t of EIGHT_BIT \<Rightarrow> channel_names_eight f | SIXTEEN_BIT \<Rightarrow> channel_names_sixteen f
     | FLOAT_CHANNEL \<Rightarrow> channel_names_float f | COLOR_CHANNEL \<Rightarrow> channel_names_color f)"

definition frame_count :: "cue_st \<Rightarrow> channel_type \<Rightarrow> nat" where
  "frame_count c t = (case t of EIGHT_BIT \<Rightarrow> length (eight_bit_frames c) | SIXTEEN_BIT \<Rightarrow> length (sixteen_bit_frames c)
     | FLOAT_CHANNEL \<Rightarrow> length (float_frames c) | COLOR_CHANNEL \<Rightarrow> length (color_frames c))"

definition of_type :: "channel_type \<Rightarrow> (channel_type \<times> nat) list \<Rightarrow> nat" where
  "of_type t cs = length (filter (\<lambda>c. fst c = t) cs)"

definition sized :: "(channel_type \<Rightarrow> nat) \<Rightarrow> filter_cue \<Rightarrow> bool" where
  "sized n f \<longleftrightarrow> sizes (actual_values f) = n \<and> sizes (last_values f) = n \<and> (\<forall>t. length (names_of f t) = n t)"

definition complete_cue :: "(channel_type \<Rightarrow> nat) \<Rightarrow> cue_st \<Rightarrow> bool" where
  "complete_cue n c \<longleftrightarrow> (\<forall>t. frame_count c t = length (timestamps c) * n t)"

definition parsed_channels :: "(channel_type \<Rightarrow> nat) \<Rightarrow> filter_cue \<Rightarrow> bool" where
  "parsed_channels n f \<longleftrightarrow> sized n f \<and> (\<forall>t. of_type t (channel f) = n t)"

definition cues_complete :: "(channel_type \<Rightarrow> nat) \<Rightarrow> filter_cue \<Rightarrow> bool" where
  "cues_complete n f \<longleftrightarrow> sized n f \<and> (\<forall>c \<in> set (cues f). complete_cue n c)"

subsection \<open>The channels\<close>

lemma of_type_snoc [simp]: "of_type t (cs @ [c]) = of_type t cs + (if fst c = t then 1 else 0)"
  by (simp add: of_type_def)

lemma of_type_Nil [simp]: "of_type t [] = 0"
  by (simp add: of_type_def)

definition agreeing :: "filter_cue \<Rightarrow> bool" where
  "agreeing f \<longleftrightarrow> parsed_channels (sizes (actual_values f)) f"

lemma init_values_agreeing: "agreeing f \<Longrightarrow> agreeing (init_values_out t name f) \<and> cues (init_values_out t name f) = cues f"
  by (cases t) (auto simp: agreeing_def parsed_channels_def sized_def init_values_out_def sizes_def names_of_def
      Let_def fun_eq_iff split: channel_type.splits)

lemma agreeing_new: "agreeing new_filter_cue"
  by (auto simp: agreeing_def parsed_channels_def sized_def new_filter_cue_def new_frame_actual_def sizes_def names_of_def
      fun_eq_iff split: channel_type.splits)

definition ready_to_parse :: "filter_cue \<Rightarrow> bool" where
  "ready_to_parse f \<longleftrightarrow> agreeing f \<and> cues f = []"

lemma mapping_entry_keeps: "keeps ready_to_parse (mapping_entry init_values_out ftype fid str a b)"
  unfolding mapping_entry_def Let_def
  by (intro keeps_rules) (auto intro!: keeps_rules simp: ready_to_parse_def init_values_agreeing split: option.splits)

lemma mapping_loop_keeps: "(\<And>a b. keeps P (entry a b)) \<Longrightarrow> keeps P (mapping_loop entry str a b)"
proof (rule keepsI)
  fix s
  assume e: "\<And>a b. keeps P (entry a b)" and "P s"
  then show "P (snd (mapping_loop entry str a b s))"
  proof (induction entry str a b s rule: mapping_loop.induct)
    case (1 entry str a b s)
    have "P (snd (entry a b s))" using 1(2,3) by (blast dest: keepsD)
    then show ?case using 1(1) [OF _ _ _ 1(2)]
      by (subst mapping_loop.simps) (auto split: prod.splits sum.splits)
  qed
qed

lemma pre_setup_ready: "cue_pre_setup configuration own_id new_filter_cue = (Inr (), f) \<Longrightarrow> ready_to_parse f"
proof -
  have "keeps ready_to_parse (cue_pre_setup configuration own_id)"
    unfolding cue_pre_setup_def init_mapping_def
    by (intro keeps_rules) (auto intro!: keeps_rules mapping_loop_keeps mapping_entry_keeps split: option.splits
        simp: ready_to_parse_def agreeing_def parsed_channels_def sized_def names_of_def split: channel_type.splits)
  moreover have "ready_to_parse new_filter_cue" using agreeing_new by (simp add: ready_to_parse_def new_filter_cue_def)
  ultimately show "cue_pre_setup configuration own_id new_filter_cue = (Inr (), f) \<Longrightarrow> ready_to_parse f"
    by (metis keepsD snd_conv)
qed

subsection \<open>The loop over the parts of a text\<close>

lemma substr_loop_rule:
  assumes "\<And>a b n. triple (I n) (func a b n) (\<lambda>ok. if ok then I (Suc n) else (\<lambda>_. True)) (\<lambda>_ _. True)"
    and "substr_loop func str sep min_loops end_pos start next_pos number s = (Inr True, t)" and "I number s"
  shows "\<exists>k. number < k \<and> min_loops \<le> k \<and> I k t"
  using assms
proof (induction func str sep min_loops end_pos start next_pos number s rule: substr_loop.induct)
  case (1 func str sep min_loops end_pos start next_pos number s)
  obtain u where u: "func start (min end_pos next_pos) number s = (Inr True, u)"
    using 1(3) by (subst (asm) substr_loop.simps) (auto split: prod.splits sum.splits if_splits)
  have I: "I (Suc number) u" using triple_Inr [OF 1(2) 1(4) u] by simp
  show ?case
  proof (cases "min end_pos npos \<le> next_pos")
    case True
    then have "min_loops \<le> Suc number \<and> t = u"
      using 1(3) u by (subst (asm) substr_loop.simps) simp
    then show ?thesis using I by blast
  next
    case False
    then have "substr_loop func str sep min_loops end_pos (size_add next_pos 1) (str_find str sep (size_add next_pos 1)) (number + 1) u = (Inr True, t)"
      using 1(3) u by (subst (asm) substr_loop.simps) (simp del: One_nat_def)
    moreover have "I (number + 1) u" using I by simp
    ultimately obtain k where "number + 1 < k" "min_loops \<le> k" "I k t"
      using 1(1) [OF u [symmetric] refl _ False 1(2)] by blast
    then show ?thesis by (intro exI [of _ k]) simp
  qed
qed

lemma do_with_substr_rule:
  assumes "\<And>a b n. triple (I n) (func a b n) (\<lambda>ok. if ok then I (Suc n) else (\<lambda>_. True)) (\<lambda>_ _. True)"
  shows "triple (I 0) (do_with_substr str start end_pos sep min_loops func)
    (\<lambda>ok. if ok then (\<lambda>t. \<exists>k. 0 < k \<and> min_loops \<le> k \<and> I k t) else (\<lambda>_. True)) (\<lambda>_ _. True)"
  using substr_loop_rule [where I = I and func = func, OF assms]
  by (fastforce intro!: tripleI simp: do_with_substr_def split: prod.splits sum.splits)

subsection \<open>The key frames of a time stamp\<close>

text \<open>While the frames of the last time stamp of cue \<open>i\<close> are read, \<open>k\<close> of the channels are done.\<close>

definition frames_until :: "(channel_type \<Rightarrow> nat) \<Rightarrow> nat \<Rightarrow> nat \<Rightarrow> filter_cue \<Rightarrow> bool" where
  "frames_until n i k f \<longleftrightarrow> parsed_channels n f \<and> length (cues f) = Suc i \<and> k \<le> length (channel f)
     \<and> (\<forall>j < length (cues f). j \<noteq> i \<longrightarrow> complete_cue n (cues f ! j))
     \<and> timestamps (cues f ! i) \<noteq> []
     \<and> (\<forall>t. frame_count (cues f ! i) t = (length (timestamps (cues f ! i)) - 1) * n t + of_type t (take k (channel f)))"

lemma parsed_channels_cues [simp]: "parsed_channels n (f\<lparr>cues := cs\<rparr>) = parsed_channels n f"
  by (simp add: parsed_channels_def sized_def names_of_def split: channel_type.splits)

lemma catch_bad_True: "catch_bad m s = (Inr True, t) \<Longrightarrow> m s = (Inr True, t)"
  by (auto simp: catch_bad_def split: prod.splits sum.splits exn.splits)

lemma on_cue_Inr: "on_cue i g f = (Inr x, f') \<Longrightarrow> i < length (cues f) \<and> f' = f\<lparr>cues := (cues f)[i := g (cues f ! i)]\<rparr>"
  by (auto simp: on_cue_def split: sum.splits)

text \<open>A push adds one key frame of its type.\<close>

definition adds_one :: "'v cue_kind \<Rightarrow> channel_type \<Rightarrow> bool" where
  "adds_one k u \<longleftrightarrow> (\<forall>v c. timestamps (cq_push k v c) = timestamps c
     \<and> (\<forall>t. frame_count (cq_push k v c) t = frame_count c t + (if t = u then 1 else 0)))"

lemma adds_one_kinds: "adds_one cue8 EIGHT_BIT" "adds_one cue16 SIXTEEN_BIT" "adds_one cuef FLOAT_CHANNEL" "adds_one cuec COLOR_CHANNEL"
  by (simp_all add: adds_one_def cue_kind_defs frame_count_def split: channel_type.splits)

definition one_frame_more :: "nat \<Rightarrow> channel_type \<Rightarrow> filter_cue \<Rightarrow> filter_cue \<Rightarrow> bool" where
  "one_frame_more i u f f' \<longleftrightarrow> i < length (cues f) \<and> (\<exists>c. f' = f\<lparr>cues := (cues f)[i := c]\<rparr>
     \<and> timestamps c = timestamps (cues f ! i)
     \<and> (\<forall>t. frame_count c t = frame_count (cues f ! i) t + (if t = u then 1 else 0)))"

lemma push_frame_Inr: "push_frame k i r tr f = (Inr x, f') \<Longrightarrow> adds_one k u \<Longrightarrow> one_frame_more i u f f'"
  by (auto simp: push_frame_def bind_act_Inr_iff one_frame_more_def adds_one_def dest!: on_cue_Inr)

lemmas push_frame_more = push_frame_Inr [OF _ adds_one_kinds(1)] push_frame_Inr [OF _ adds_one_kinds(2)]
  push_frame_Inr [OF _ adds_one_kinds(3)] push_frame_Inr [OF _ adds_one_kinds(4)]

lemma handle_channel_frame_True:
  assumes "handle_channel_frame lm i str a b k f = (Inr True, f')"
  shows "k < length (channel f) \<and> one_frame_more i (fst (channel f ! k)) f f'"
proof (cases "fst (channel f ! k)")
qed (use assms in \<open>auto simp: handle_channel_frame_def Let_def bind_act_Inr_iff
      dest!: catch_bad_True push_frame_more split: if_splits\<close>)

lemma handle_channel_frame_step:
  "triple (frames_until n i k) (handle_channel_frame lm i str a b k)
     (\<lambda>ok. if ok then frames_until n i (Suc k) else (\<lambda>_. True)) (\<lambda>_ _. True)"
proof (rule tripleI)
  fix f assume f: "frames_until n i k f"
  have "frames_until n i (Suc k) f'" if "handle_channel_frame lm i str a b k f = (Inr True, f')" for f'
    using handle_channel_frame_True [OF that] f
    by (auto simp: frames_until_def one_frame_more_def take_Suc_conv_app_nth nth_list_update)
  then show "case handle_channel_frame lm i str a b k f of (Inl e, t) \<Rightarrow> True
      | (Inr ok, t) \<Rightarrow> (if ok then frames_until n i (Suc k) else (\<lambda>_. True)) t"
    by (auto split: prod.splits sum.splits)
qed

definition cues_read :: "(channel_type \<Rightarrow> nat) \<Rightarrow> nat \<Rightarrow> filter_cue \<Rightarrow> bool" where
  "cues_read n i f \<longleftrightarrow> parsed_channels n f \<and> length (cues f) = i \<and> (\<forall>c \<in> set (cues f). complete_cue n c)"

lemma frames_until_all: "frames_until n i k f \<Longrightarrow> length (channel f) \<le> k \<Longrightarrow> cues_read n (Suc i) f"
proof -
  assume f: "frames_until n i k f" and k: "length (channel f) \<le> k"
  have "complete_cue n (cues f ! i)"
    using f k unfolding complete_cue_def frames_until_def
    by (cases "timestamps (cues f ! i)") (auto simp: parsed_channels_def)
  then have "complete_cue n (cues f ! j)" if "j < length (cues f)" for j
    using f that by (cases "j = i") (auto simp: frames_until_def)
  then show ?thesis using f by (auto simp: cues_read_def frames_until_def all_set_conv_all_nth)
qed

subsection \<open>A cue\<close>

lemma complete_new_cue: "complete_cue n new_cue_st"
  by (auto simp: complete_cue_def new_cue_st_def frame_count_def split: channel_type.splits)

lemma complete_cue_handling [simp]:
  "complete_cue n (c\<lparr>end_handling := h\<rparr>) = complete_cue n c" "complete_cue n (c\<lparr>restart_handling := r\<rparr>) = complete_cue n c"
  by (simp_all add: complete_cue_def frame_count_def split: channel_type.splits)

lemma cues_read_update:
  "cues_read n m f \<Longrightarrow> i < length (cues f) \<Longrightarrow> complete_cue n c \<Longrightarrow> cues_read n m (f\<lparr>cues := (cues f)[i := c]\<rparr>)"
  by (auto simp: cues_read_def dest!: set_update_subset_insert [THEN subsetD])

lemma cues_read_nth: "cues_read n m f \<Longrightarrow> i < length (cues f) \<Longrightarrow> complete_cue n (cues f ! i)"
  by (simp add: cues_read_def)

lemma on_cue_handling:
  "(\<And>c. complete_cue n c \<Longrightarrow> complete_cue n (g c)) \<Longrightarrow> triple (cues_read n m) (on_cue i g) (\<lambda>_. cues_read n m) (\<lambda>_ _. True)"
  by (rule tripleI) (auto simp: on_cue_def intro!: cues_read_update intro: cues_read_nth split: sum.splits)

lemma new_timestamp:
  assumes "cues_read n (Suc i) f"
  shows "frames_until n i 0 (f\<lparr>cues := (cues f)[i := push_timestamp t (cues f ! i)]\<rparr>)"
  using assms
  by (auto simp: frames_until_def cues_read_def push_timestamp_def complete_cue_def frame_count_def
      split: channel_type.splits)

lemma timestamp_pushed:
  "triple (cues_read n (Suc i)) (on_cue i (push_timestamp t)) (\<lambda>_. frames_until n i 0) (\<lambda>_ _. True)"
  by (rule tripleI) (auto simp: on_cue_def new_timestamp split: sum.splits)

lemma triple_catch_bad:
  assumes "triple P m (\<lambda>ok. if ok then Q else (\<lambda>_. True)) (\<lambda>_ _. True)"
  shows "triple P (catch_bad m) (\<lambda>ok. if ok then Q else (\<lambda>_. True)) (\<lambda>_ _. True)"
proof (rule tripleI)
  fix s assume s: "P s"
  have "Q t" if "catch_bad m s = (Inr True, t)" for t
    using triple_Inr [OF assms s catch_bad_True [OF that]] by simp
  then show "case catch_bad m s of (Inl e, t) \<Rightarrow> True | (Inr ok, t) \<Rightarrow> (if ok then Q else (\<lambda>_. True)) t"
    by (auto split: prod.splits sum.splits)
qed

definition all_channels :: "(channel_type \<Rightarrow> nat) \<Rightarrow> nat" where
  "all_channels n = n EIGHT_BIT + n SIXTEEN_BIT + n FLOAT_CHANNEL + n COLOR_CHANNEL"

lemma of_type_Cons: "of_type t (c # cs) = (if fst c = t then 1 else 0) + of_type t cs"
  by (simp add: of_type_def)

lemma length_of_types: "length cs = all_channels (\<lambda>t. of_type t cs)"
proof (induction cs)
  case (Cons c cs)
  then show ?case by (cases "fst c") (simp_all add: all_channels_def of_type_Cons)
qed (simp add: all_channels_def)

lemma parsed_channels_length: "parsed_channels n f \<Longrightarrow> length (channel f) = all_channels n"
  using length_of_types [of "channel f"] by (simp add: parsed_channels_def)

lemma frames_of_stamp:
  "triple (frames_until n i 0) (do_with_substr str a b ''&'' (all_channels n) (handle_channel_frame lm i str))
     (\<lambda>ok. if ok then cues_read n (Suc i) else (\<lambda>_. True)) (\<lambda>_ _. True)"
proof (rule triple_conseq [OF do_with_substr_rule [where I = "frames_until n i", OF handle_channel_frame_step]])
  fix ok f
  assume "(if ok then (\<lambda>t. \<exists>k. 0 < k \<and> all_channels n \<le> k \<and> frames_until n i k t) else (\<lambda>_. True)) f"
  moreover have "length (channel f) = all_channels n" if "frames_until n i k f" for k
    using that parsed_channels_length by (simp add: frames_until_def)
  ultimately show "(if ok then cues_read n (Suc i) else (\<lambda>_. True)) f"
    using frames_until_all by (auto split: if_splits)
qed simp_all

lemma handle_timestamps_step:
  "triple (cues_read n (Suc i)) (handle_timestamps lm i str a b k)
     (\<lambda>ok. if ok then cues_read n (Suc i) else (\<lambda>_. True)) (\<lambda>_ _. True)"
proof (rule tripleI)
  fix f assume f: "cues_read n (Suc i) f"
  have len: "length (channel f) = all_channels n" using f parsed_channels_length by (simp add: cues_read_def)
  have stamp: "triple (cues_read n (Suc i))
      (catch_bad (bind_act (lift_act r) (\<lambda>t. bind_act (on_cue i (push_timestamp (g t))) (\<lambda>_. ret_act True))))
      (\<lambda>ok. if ok then frames_until n i 0 else (\<lambda>_. True)) (\<lambda>_ _. True)" for r :: "double result" and g
    by (intro triple_catch_bad triple_bind [where R = "\<lambda>_. cues_read n (Suc i)"] triple_lift
        triple_bind [OF timestamp_pushed] triple_ret) (auto split: sum.splits)
  have "triple (cues_read n (Suc i)) (bind_act
      (catch_bad (bind_act (lift_act r) (\<lambda>t. bind_act (on_cue i (push_timestamp (g t))) (\<lambda>_. ret_act True)))) (\<lambda>ok.
        if \<not> ok then ret_act False else do_with_substr str c b ''&'' (all_channels n) (handle_channel_frame lm i str)))
      (\<lambda>ok. if ok then cues_read n (Suc i) else (\<lambda>_. True)) (\<lambda>_ _. True)" for r :: "double result" and g c
    by (rule triple_bind [OF stamp]) (auto intro: frames_of_stamp triple_ret)
  then show "case handle_timestamps lm i str a b k f of (Inl e, t) \<Rightarrow> True
      | (Inr ok, t) \<Rightarrow> (if ok then cues_read n (Suc i) else (\<lambda>_. True)) t"
    using f unfolding handle_timestamps_def Let_def len triple_def by auto
qed

lemma handle_cue_conf_step:
  "triple (cues_read n m) (handle_cue_conf i str a b k) (\<lambda>ok. if ok then cues_read n m else (\<lambda>_. True)) (\<lambda>_ _. True)"
  unfolding handle_cue_conf_def Let_def
  by (intro triple_if triple_ret triple_bind [where R = "\<lambda>_. cues_read n m"] triple_lift on_cue_handling)
    (auto split: sum.splits)

lemma cues_read_new: "cues_read n i f \<Longrightarrow> cues_read n (Suc i) (f\<lparr>cues := cues f @ [new_cue_st]\<rparr>)"
  by (auto simp: cues_read_def complete_new_cue)

lemma handle_cue_step:
  "triple (cues_read n i) (handle_cue lm str a b i) (\<lambda>ok. if ok then cues_read n (Suc i) else (\<lambda>_. True)) (\<lambda>_ _. True)"
proof -
  have parts: "triple (cues_read n (Suc i)) (do_with_substr str a c ''|'' 1 (handle_timestamps lm i str))
      (\<lambda>ok. if ok then cues_read n (Suc i) else (\<lambda>_. True)) (\<lambda>_ _. True)" for c
    by (rule triple_conseq [OF do_with_substr_rule [where I = "\<lambda>_. cues_read n (Suc i)", OF handle_timestamps_step]])
      (auto split: if_splits)
  have conf: "triple (cues_read n (Suc i)) (do_with_substr str a' c ''#'' 1 (handle_cue_conf i str))
      (\<lambda>ok. if ok then cues_read n (Suc i) else (\<lambda>_. True)) (\<lambda>_ _. True)" for a' c
    by (rule triple_conseq [OF do_with_substr_rule [where I = "\<lambda>_. cues_read n (Suc i)", OF handle_cue_conf_step]])
      (auto split: if_splits)
  show ?thesis
    unfolding handle_cue_def Let_def
    by (intro triple_bind [where R = "\<lambda>_. cues_read n (Suc i)"] triple_modify cues_read_new on_cue_handling
        triple_bind [OF parts] triple_if triple_ret triple_pre [OF conf]) simp_all
qed

lemma cues_parsed:
  "triple (cues_read n 0) (do_with_substr str 0 b ''$'' 1 (handle_cue lm str))
     (\<lambda>ok. if ok then (\<lambda>f. \<exists>k. 0 < k \<and> cues_read n k f) else (\<lambda>_. True)) (\<lambda>_ _. True)"
  by (rule triple_conseq [OF do_with_substr_rule [where I = "cues_read n", OF handle_cue_step]]) (auto split: if_splits)

definition set_up :: "(channel_type \<Rightarrow> nat) \<Rightarrow> filter_cue \<Rightarrow> bool" where
  "set_up n f \<longleftrightarrow> cues_complete n f \<and> cues f \<noteq> []"

lemma cues_read_set_up: "0 < k \<Longrightarrow> cues_read n k f \<Longrightarrow> set_up n f"
  by (auto simp: set_up_def cues_complete_def cues_read_def parsed_channels_def)

lemma read_cuelist_set_up:
  "triple (cues_read n 0) (read_cuelist lm configuration own_id) (\<lambda>_. set_up n) (\<lambda>_ _. True)"
proof -
  have "triple (cues_read n 0) (bind_act (do_with_substr str 0 (length str) ''$'' 1 (handle_cue lm str))
      (\<lambda>ok. if ok then ret_act () else lift_act (config_error cause filter_type_cue own_id))) (\<lambda>_. set_up n) (\<lambda>_ _. True)"
    for str cause
    by (rule triple_bind [OF cues_parsed]) (auto intro!: triple_ret triple_lift intro: cues_read_set_up simp: config_error_def)
  then show ?thesis
    unfolding read_cuelist_def
    by (cases "map_of configuration ''cuelist''") (auto intro: triple_lift simp: config_error_def)
qed

lemma cues_read_links [simp]:
  "cues_read n k (f\<lparr>cue_time := t\<rparr>) = cues_read n k f"
  "cues_read n k (f\<lparr>time_scale_input := t, handle_end := h\<rparr>) = cues_read n k f"
  "set_up n (f\<lparr>default_cue := d\<rparr>) = set_up n f" "set_up n (f\<lparr>state_persistent := b\<rparr>) = set_up n f"
  by (simp_all add: cues_read_def parsed_channels_def sized_def names_of_def set_up_def cues_complete_def split: channel_type.splits)

lemma read_default_cue_set_up: "triple (set_up n) (read_default_cue own_id s) (\<lambda>_. set_up n) (\<lambda>_ _. True)"
  by (rule tripleI) (auto simp: read_default_cue_def config_error_def split: sum.splits exn.splits)

lemma cue_setup_complete:
  "triple (cues_read n 0) (cue_setup lm configuration cm own_id) (\<lambda>_. set_up n) (\<lambda>_ _. True)"
  unfolding cue_setup_def
  by (rule triple_bind [where R = "\<lambda>_. cues_read n 0"], rule triple_lift, simp split: sum.splits,
      rule triple_bind [where R = "\<lambda>_. cues_read n 0"], rule triple_modify, simp,
      rule triple_bind [where R = "\<lambda>_. cues_read n 0"], rule triple_lift, simp split: sum.splits,
      rule triple_bind [where R = "\<lambda>_. cues_read n 0"], rule triple_modify, simp,
      rule triple_bind [OF read_cuelist_set_up], rule triple_bind [where R = "\<lambda>_. set_up n"])
    (auto split: option.splits intro!: triple_ret triple_modify read_default_cue_set_up)

text \<open>
  C7. A cue filter whose configuration is accepted has at least one cue, every cue has exactly one key
  frame per channel of its type and time stamp, and the values, the values of the last frame and
  the names of each type of channel agree in number.
\<close>

theorem parsed_cues_complete:
  assumes "cue_pre_setup configuration own_id new_filter_cue = (Inr (), f)"
    and "cue_setup lm configuration cm own_id f = (Inr (), f')"
  shows "set_up (sizes (actual_values f')) f'"
proof -
  have "ready_to_parse f" by (rule pre_setup_ready [OF assms(1)])
  then have "cues_read (sizes (actual_values f)) 0 f" by (simp add: ready_to_parse_def agreeing_def cues_read_def)
  from triple_Inr [OF cue_setup_complete this assms(2)] have "set_up (sizes (actual_values f)) f'" .
  moreover from this have "sizes (actual_values f') = sizes (actual_values f)"
    by (simp add: set_up_def cues_complete_def sized_def)
  ultimately show ?thesis by simp
qed

subsection \<open>An instance\<close>

definition demo_cue_configuration :: "(string, string) omap" where
  "demo_cue_configuration = [(''cuelist'', ''0:7@lin|2:9@edg#hold''), (''default_cue'', ''0''), (''mapping'', ''a:8bit'')]"

definition demo_cue :: cue_st where
  "demo_cue = new_cue_st\<lparr>timestamps := [Num 0, Num 2000], eight_bit_frames := [\<lparr>kf_value = 7, kf_transition = LINEAR\<rparr>, \<lparr>kf_value = 9, kf_transition = EDGE\<rparr>], end_handling := HOLD\<rparr>"

definition demo_pre :: filter_cue where
  "demo_pre = new_filter_cue\<lparr>own_filter_id := ''c'', channel := [(EIGHT_BIT, 0)], channel_names_eight := [''a''],
     actual_values := new_frame_actual\<lparr>fa_eight := [0]\<rparr>, last_values := new_frame_actual\<lparr>fa_eight := [0]\<rparr>\<rparr>"

lemma demo_cue_pre_setup: "cue_pre_setup demo_cue_configuration ''c'' new_filter_cue = (Inr (), demo_pre)"
  by (simp add: cue_pre_setup_def demo_cue_configuration_def init_mapping_def mapping_loop.simps mapping_entry_def
   bind_act_def str_find_def substr_def size_sub_def size_add_def npos_def mapping_type_def init_values_out_def Let_def
   new_filter_cue_def new_frame_actual_def demo_pre_def)

lemma dec_literals: "dec 0 = ''0''" "dec 2 = ''2''" "dec 7 = ''7''" "dec 9 = ''9''"
  by code_simp+

lemma number_literals:
  "stod ''0'' = Inr (Num 0)" "stod ''2'' = Inr (Num 2)" "stoi ''7'' = Inr 7" "stoi ''9'' = Inr 9" "stol ''0'' = Inr 0"
  using stod_dec [of 0] stod_dec [of 2] stoi_dec [of 7] stoi_dec [of 9]
  by (simp_all add: dec_literals stol_def parse_int_prefix_def isspace_def isdigit_def digits_value_def)

lemma thousand: "d_mul (Num 0) (Num 1000) = Num 0" "d_mul (Num 2) (Num 1000) = Num 2000"
  using rnd_int [of 0] rnd_int [of 2000] by simp_all

definition demo_cue_mapping :: "addr channel_mapping" where
  "demo_cue_mapping = empty_mapping\<lparr>float_channels := [(''time'', (0, 0)), (''time_scale'', (1, 0))]\<rparr>"

definition demo_cue_filter :: filter_cue where
  "demo_cue_filter = demo_pre\<lparr>cue_time := Some (0, 0), time_scale_input := Some (1, 0), cues := [demo_cue], default_cue := 0\<rparr>"

lemma demo_cue_setup: "cue_setup lm demo_cue_configuration demo_cue_mapping ''c'' demo_pre = (Inr (), demo_cue_filter)"
  by (simp add: cue_setup_def demo_cue_configuration_def demo_cue_mapping_def empty_mapping_def link_input_def kindf_def
    bind_act_def read_cuelist_def do_with_substr_def substr_loop.simps handle_cue_def handle_timestamps_def handle_channel_frame_def
    handle_cue_conf_def catch_bad_def on_cue_def push_frame_def frame_transition_def push_timestamp_def cue8_def
    str_find_def substr_def size_sub_def size_add_def npos_def Let_def checked_at_def demo_pre_def new_filter_cue_def new_frame_actual_def
    number_literals thousand clamp_to_def read_default_cue_def demo_cue_filter_def demo_cue_def new_cue_st_def
    del: d_mul.simps)
theorem parsed_cues_complete_witness:
  "set_up (sizes (actual_values demo_cue_filter)) demo_cue_filter \<and> length (timestamps (cues demo_cue_filter ! 0)) = 2
     \<and> length (eight_bit_frames (cues demo_cue_filter ! 0)) = 2"
  using parsed_cues_complete [OF demo_cue_pre_setup demo_cue_setup]
  by (simp add: demo_cue_filter_def demo_cue_def)

end
