(* ===== verification/Cue_Ok.thy ===== *)
theory Cue_Ok
  imports Cue_Playback Cue_Parse
begin

text \<open>
  Invariants of a cue filter at work. No call changes the cues, the names or the number of the
  values, also when it ends with an exception, so the addresses published as output channels stay
  valid; and the cycle of a filter that was set up and is at one of its cues reads no key frame,
  time stamp or cue that does not exist.
\<close>

subsection \<open>What every call keeps\<close>

type_synonym cue_text = "cue_st list \<times> (channel_type \<Rightarrow> string list)"

definition keeps_shape :: "(channel_type \<Rightarrow> nat) \<Rightarrow> cue_text \<Rightarrow> filter_cue \<Rightarrow> bool" where
  "keeps_shape n cs f \<longleftrightarrow> sized n f \<and> (cues f, names_of f) = cs"

definition of_kind :: "'v cue_kind \<Rightarrow> channel_type \<Rightarrow> bool" where
  "of_kind k t \<longleftrightarrow> (\<forall>a. length (cq_values k a) = sizes a t)
     \<and> (\<forall>v a. length v = length (cq_values k a) \<longrightarrow> sizes (cq_set k v a) = sizes a \<and> fa_cue (cq_set k v a) = fa_cue a
          \<and> fa_frame (cq_set k v a) = fa_frame a)
     \<and> (\<forall>c. length (cq_frames k c) = frame_count c t)"

lemma of_kinds: "of_kind cue8 EIGHT_BIT" "of_kind cue16 SIXTEEN_BIT" "of_kind cuef FLOAT_CHANNEL" "of_kind cuec COLOR_CHANNEL"
  by (auto simp: of_kind_def cue_kind_defs sizes_def frame_count_def fun_eq_iff split: channel_type.splits)

text \<open>Changes of other fields of the two sets of values.\<close>

lemma sizes_fields [simp]:
  "sizes (a\<lparr>fa_updated := u\<rparr>) = sizes a" "sizes (a\<lparr>fa_time_stamp := d\<rparr>) = sizes a"
  "sizes (a\<lparr>fa_cue := c\<rparr>) = sizes a" "sizes (a\<lparr>fa_frame := c\<rparr>) = sizes a"
  by (auto simp: sizes_def fun_eq_iff split: channel_type.splits)

lemma names_fields [simp]:
  "names_of (f\<lparr>actual_values := a\<rparr>) = names_of f" "names_of (f\<lparr>last_values := a\<rparr>) = names_of f"
  "names_of (f\<lparr>start_time := d\<rparr>) = names_of f" "names_of (f\<lparr>pause_time := d\<rparr>) = names_of f"
  "names_of (f\<lparr>current_time := d\<rparr>) = names_of f" "names_of (f\<lparr>time_scale := d\<rparr>) = names_of f"
  "names_of (f\<lparr>running_state := r\<rparr>) = names_of f" "names_of (f\<lparr>cue_end_handling_real := h\<rparr>) = names_of f"
  "names_of (f\<lparr>next_cue := x\<rparr>) = names_of f" "names_of (f\<lparr>default_cue := i\<rparr>) = names_of f"
  "names_of (f\<lparr>scale_valid := b\<rparr>) = names_of f"
  by (auto simp: names_of_def fun_eq_iff split: channel_type.splits)

text \<open>What writing values keeps of a set of values.\<close>

definition frame_keeps :: "(channel_type \<Rightarrow> nat) \<times> nat \<times> nat \<Rightarrow> frame_actual \<Rightarrow> bool" where
  "frame_keeps ncm a \<longleftrightarrow> ncm = (sizes a, fa_cue a, fa_frame a)"

lemma put_at_frame: "of_kind k t \<Longrightarrow> keeps (frame_keeps ncm) (put_at k i x)"
  by (auto intro!: keepsI simp: frame_keeps_def put_at_def of_kind_def split: sum.splits)

lemmas put_at_keeps = put_at_frame [OF of_kinds(1)] put_at_frame [OF of_kinds(2)] put_at_frame [OF of_kinds(3)]
  put_at_frame [OF of_kinds(4)]

lemma copy_values_keeps: "keeps (frame_keeps ncm) (copy_values sz src)"
  unfolding copy_values_def copy_at_def by (intro keeps_rules put_at_keeps)

lemma frame_mark_keeps: "keeps (frame_keeps ncm) (modify_act (\<lambda>a. a\<lparr>fa_updated := u\<rparr>))"
  by (rule keepsI) (simp add: frame_keeps_def)

lemma keeps_frameD: "keeps (frame_keeps (sizes a, fa_cue a, fa_frame a)) g \<Longrightarrow>
   sizes (snd (g a)) = sizes a \<and> fa_cue (snd (g a)) = fa_cue a \<and> fa_frame (snd (g a)) = fa_frame a"
  using keepsD [of "frame_keeps (sizes a, fa_cue a, fa_frame a)" g a] by (simp add: frame_keeps_def)

subsection \<open>What every call keeps of the filter\<close>

lemma on_actual_keeps: "(\<And>ncm. keeps (frame_keeps ncm) g) \<Longrightarrow> keeps (keeps_shape n cs) (on_actual g)"
proof (rule keepsI)
  fix f assume g: "\<And>ncm. keeps (frame_keeps ncm) g" and "keeps_shape n cs f"
  then show "keeps_shape n cs (snd (on_actual g f))"
    using keeps_frameD [OF g, of "actual_values f"]
    by (cases "g (actual_values f)") (simp add: keeps_shape_def sized_def on_actual_def)
qed

lemma sizes_mark_last [simp]: "sizes (mark_last b a) = sizes a"
  by (auto simp: sizes_def mark_last_def fun_eq_iff split: channel_type.splits)

lemma on_last_keeps: "(\<And>ncm. keeps (frame_keeps ncm) g) \<Longrightarrow> keeps (keeps_shape n cs) (on_last g)"
proof (rule keepsI)
  fix f assume g: "\<And>ncm. keeps (frame_keeps ncm) g" and "keeps_shape n cs f"
  then show "keeps_shape n cs (snd (on_last g f))"
    using keeps_frameD [OF g, of "last_values f"]
    by (cases "g (last_values f)") (simp add: keeps_shape_def sized_def on_last_def)
qed

lemma on_last_modify_keeps: "(\<And>a. sizes (g a) = sizes a) \<Longrightarrow> keeps (keeps_shape n cs) (on_last (modify_act g))"
  by (auto intro!: keepsI simp: keeps_shape_def sized_def on_last_def)

lemmas value_keeps = on_actual_keeps [OF copy_values_keeps] on_last_keeps [OF copy_values_keeps]
  on_actual_keeps [OF put_at_keeps(1)] on_actual_keeps [OF put_at_keeps(2)] on_actual_keeps [OF put_at_keeps(3)]
  on_actual_keeps [OF put_at_keeps(4)] on_last_keeps [OF put_at_keeps(1)] on_last_keeps [OF put_at_keeps(2)]
  on_last_keeps [OF put_at_keeps(3)] on_last_keeps [OF put_at_keeps(4)] on_actual_keeps [OF frame_mark_keeps]

lemma update_hold_values_keeps: "keeps (keeps_shape n cs) update_hold_values"
  unfolding update_hold_values_def by (intro keeps_rules value_keeps)

lemma update_last_values_keeps: "keeps (keeps_shape n cs) update_last_values"
  unfolding update_last_values_def
  by (intro keeps_rules value_keeps on_last_modify_keeps) simp_all

lemma put_key_frame_keeps: "of_kind k t \<Longrightarrow> keeps (keeps_shape n cs) (put_key_frame k i)"
  unfolding put_key_frame_def by (intro keeps_rules on_last_keeps put_at_frame)

lemmas put_key_frames_keep = put_key_frame_keeps [OF of_kinds(1)] put_key_frame_keeps [OF of_kinds(2)]
  put_key_frame_keeps [OF of_kinds(3)] put_key_frame_keeps [OF of_kinds(4)]

lemma from_cuelist_keeps: "keeps (keeps_shape n cs) update_last_values_from_cuelist"
  unfolding update_last_values_from_cuelist_def Let_def
  by (intro keeps_rules put_key_frames_keep on_last_modify_keeps) simp

lemma shape_fields [simp]:
  "keeps_shape n cs (set_actual_cue c f) = keeps_shape n cs f" "keeps_shape n cs (set_actual_frame m f) = keeps_shape n cs f"
  "keeps_shape n cs (forget_last f) = keeps_shape n cs f" "keeps_shape n cs (adopt_end_handling f) = keeps_shape n cs f"
  "keeps_shape n cs (f\<lparr>start_time := d\<rparr>) = keeps_shape n cs f" "keeps_shape n cs (f\<lparr>pause_time := d\<rparr>) = keeps_shape n cs f"
  "keeps_shape n cs (f\<lparr>current_time := d\<rparr>) = keeps_shape n cs f"
  "keeps_shape n cs (f\<lparr>running_state := r\<rparr>) = keeps_shape n cs f"
  "keeps_shape n cs (f\<lparr>cue_end_handling_real := h\<rparr>) = keeps_shape n cs f"
  "keeps_shape n cs (f\<lparr>next_cue := x\<rparr>) = keeps_shape n cs f" "keeps_shape n cs (f\<lparr>default_cue := j\<rparr>) = keeps_shape n cs f"
  "keeps_shape n cs (f\<lparr>scale_valid := b\<rparr>) = keeps_shape n cs f"
  "keeps_shape n cs (f\<lparr>time_scale := d\<rparr>) = keeps_shape n cs f"
  "keeps_shape n cs (f\<lparr>last_values := (last_values f)\<lparr>fa_time_stamp := d\<rparr>\<rparr>) = keeps_shape n cs f"
  by (simp_all add: keeps_shape_def sized_def set_actual_cue_def set_actual_frame_def forget_last_def adopt_end_handling_def)

lemma shape_steps [simp]:
  "keeps_shape n cs (clamp_cue f) = keeps_shape n cs f" "keeps_shape n cs (take_next_cue f) = keeps_shape n cs f"
  "keeps_shape n cs (check_last f) = keeps_shape n cs f" "keeps_shape n cs (advance_frame f) = keeps_shape n cs f"
  "keeps_shape n cs (following_cue f) = keeps_shape n cs f"
  by (simp_all add: clamp_cue_def take_next_cue_def check_last_def advance_frame_def following_cue_def)

lemma shape_rescaled [simp]:
  "keeps_shape n cs (shift_pause f) = keeps_shape n cs f" "keeps_shape n cs (adopt_scale d f) = keeps_shape n cs f"
  by (simp_all add: shift_pause_def adopt_scale_def Let_def keeps_shape_def sized_def)

lemma reset_keeps: "keeps (keeps_shape n cs) reset_for_starting_cue"
  unfolding reset_for_starting_cue_def by (intro keeps_rules update_last_values_keeps) simp

lemma read_end_handling_keeps: "keeps (keeps_shape n cs) read_end_handling"
  unfolding read_end_handling_def by (intro keeps_rules) simp

lemma calc_channel_keeps: "of_kind k t \<Longrightarrow> keeps (keeps_shape n cs) (calc_channel k ex blend rel_time i)"
  unfolding calc_channel_def calc_transition_def by (intro keeps_rules on_actual_keeps put_at_frame frame_mark_keeps)

lemmas calc_channels_keep = calc_channel_keeps [OF of_kinds(1)] calc_channel_keeps [OF of_kinds(2)]
  calc_channel_keeps [OF of_kinds(3)] calc_channel_keeps [OF of_kinds(4)]

lemma calc_outputs_keeps: "keeps (keeps_shape n cs) (calc_outputs lm ex rel_time)"
  unfolding calc_outputs_def Let_def by (intro keeps_rules calc_channels_keep)

lemma calc_between_keeps: "keeps (keeps_shape n cs) (calc_between lm ex)"
  unfolding calc_between_def by (intro keeps_rules calc_outputs_keeps) simp

lemma reach_key_frame_keeps: "keeps (keeps_shape n cs) reach_key_frame"
  unfolding reach_key_frame_def by (intro keeps_rules from_cuelist_keeps) simp

lemma restore_last_values_keeps: "keeps (keeps_shape n cs) restore_last_values"
  unfolding restore_last_values_def by (intro keeps_rules from_cuelist_keeps) simp_all

lemma load_keeps:
  "keeps (keeps_shape n cs) (load_run_state v)" "keeps (keeps_shape n cs) (load_cue v)"
  "keeps (keeps_shape n cs) (load_frame v)" "keeps (keeps_shape n cs) (load_time m v)"
  unfolding load_run_state_def load_cue_def load_frame_def load_time_def by (intro keeps_rules; simp)+

lemmas filter_keeps = update_hold_values_keeps reset_keeps read_end_handling_keeps calc_between_keeps
  reach_key_frame_keeps restore_last_values_keeps load_keeps

subsection \<open>The calls\<close>

abbreviation shaped :: "(channel_type \<Rightarrow> nat) \<Rightarrow> cue_text \<Rightarrow> filter_cue \<times> cue_world \<Rightarrow> bool" where
  "shaped n cs s \<equiv> keeps_shape n cs (fst s)"

lemma get_fst_keeps [keeps_rules]: "keeps P (get_fst g)"
  by (rule keepsI) (simp add: get_fst_def)

lemma set_fst_keeps: "(\<And>f. keeps_shape n cs f \<Longrightarrow> keeps_shape n cs (g f)) \<Longrightarrow> keeps (shaped n cs) (set_fst g)"
  by (rule keepsI) (simp add: set_fst_def)

lemma gui_keeps: "keeps (shaped n cs) update_parameter_gui"
  by (rule keepsI) (auto simp: update_parameter_gui_def split: option.splits sum.splits)

lemmas call_keeps = keeps_rules keeps_fst filter_keeps set_fst_keeps gui_keeps

lemma start_following_keeps: "keeps (shaped n cs) start_following_cue"
  unfolding start_following_cue_def by (intro call_keeps) simp

lemma end_of_list_keeps: "keeps (shaped n cs) end_of_list"
  unfolding end_of_list_def
  by (rule keeps_bind, rule get_fst_keeps, split handling_at_the_end.split)
    (intro conjI impI call_keeps start_following_keeps; simp)

lemma last_frame_keeps: "keeps (shaped n cs) last_frame_handling"
  unfolding last_frame_handling_def
  by (rule keeps_bind, rule get_fst_keeps, split handling_at_the_end.split)
    (intro conjI impI call_keeps start_following_keeps end_of_list_keeps; simp)

lemma calc_values_keeps: "keeps (shaped n cs) (calc_values lm ex)"
  unfolding calc_values_def pass_key_frame_def
  by (intro call_keeps last_frame_keeps) simp_all

lemma resume_keeps: "keeps (shaped n cs) resume"
  unfolding resume_def by (intro call_keeps) simp_all

lemma prepare_play_keeps: "keeps (shaped n cs) prepare_play"
  unfolding prepare_play_def
  by (rule keeps_bind, rule get_fst_keeps, split run_state.split) (intro conjI allI impI call_keeps resume_keeps; simp)

lemma play_keeps: "keeps (shaped n cs) (play b)"
  unfolding play_def by (intro call_keeps prepare_play_keeps) simp_all

lemma pause_keeps: "keeps (shaped n cs) pause"
  unfolding pause_def
  by (rule keeps_bind, rule get_fst_keeps, split run_state.split) (intro conjI allI impI call_keeps; simp)

lemma choose_keeps: "keeps (shaped n cs) (run_cue x)" "keeps (shaped n cs) (choose_next_cue x)"
  unfolding run_cue_def choose_next_cue_def by (intro call_keeps; simp)+

lemma set_default_keeps: "keeps (shaped n cs) (set_default_cue v)"
  unfolding set_default_cue_def by (split sum.split) (intro conjI allI impI call_keeps; simp)

lemma cue_receive_keeps: "keeps (shaped n cs) (cue_receive key val)"
  unfolding cue_receive_def
  by (intro call_keeps play_keeps pause_keeps set_default_keeps; (split option.split)?)
    (simp_all add: choose_keeps call_keeps)

lemma cue_update_keeps: "keeps (shaped n cs) (cue_update lm ex m)"
  unfolding cue_update_def follow_scale_def
  by (intro call_keeps calc_values_keeps cue_receive_keeps) simp_all

lemma start_default_keeps: "keeps (shaped n cs) start_default_cue"
  unfolding start_default_cue_def by (intro call_keeps) simp

lemma load_value_keeps: "(\<And>v. keeps (keeps_shape n cs) (g v)) \<Longrightarrow> keeps (shaped n cs) (load_value scene_id name g)"
  unfolding load_value_def by (rule keeps_with, split option.split) (auto intro!: call_keeps)

lemma load_state_keeps: "keeps (shaped n cs) (load_state m scene_id)"
  unfolding load_state_def by (intro keeps_rules load_value_keeps load_keeps)

lemma cue_activated_keeps: "keeps (shaped n cs) (cue_activated m)"
proof -
  have "keeps (shaped n cs) (bind_act (load_state m scene_id) (\<lambda>loaded.
      if loaded then bind_act (set_fst (\<lambda>f. adopt_end_handling (clamp_cue f))) (\<lambda>_. on_fst restore_last_values)
      else start_default_cue))" for scene_id
    by (intro call_keeps load_state_keeps start_default_keeps) simp
  then show ?thesis
    unfolding cue_activated_def
    by (intro keeps_with keeps_if start_default_keeps) (simp add: keeps_rules split: option.split)
qed

lemma cue_deactivated_keeps: "keeps (shaped n cs) cue_deactivated"
  by (rule keepsI) (auto simp: cue_deactivated_def split: option.splits)

text \<open>The calls of the virtual methods, with changes of the surroundings between them.\<close>

datatype cue_call = Cycle memory | Parameter string string | Activate memory | Deactivate | Surroundings cue_world

definition do_call :: "libm \<Rightarrow> (double \<Rightarrow> double) \<Rightarrow> cue_call \<Rightarrow> filter_cue \<times> cue_world \<Rightarrow> filter_cue \<times> cue_world" where
  "do_call lm ex c s = (case c of
      Cycle m \<Rightarrow> snd (cue_update lm ex m s)
    | Parameter key val \<Rightarrow> snd (cue_receive key val s)
    | Activate m \<Rightarrow> snd (cue_activated m s)
    | Deactivate \<Rightarrow> snd (cue_deactivated s)
    | Surroundings w \<Rightarrow> (fst s, w))"

lemma do_call_shape: "shaped n cs s \<Longrightarrow> shaped n cs (do_call lm ex c s)"
  by (cases c) (auto simp: do_call_def intro!: keepsD [OF cue_update_keeps] keepsD [OF cue_receive_keeps]
      keepsD [OF cue_activated_keeps] keepsD [OF cue_deactivated_keeps])

lemma cue_outputs_shape:
  "sizes (actual_values f) = sizes (actual_values g) \<Longrightarrow> names_of f = names_of g \<Longrightarrow> cue_outputs lm i name f cm = cue_outputs lm i name g cm"
proof -
  assume s: "sizes (actual_values f) = sizes (actual_values g)" and m: "names_of f = names_of g"
  have "length (fa_eight (actual_values f)) = length (fa_eight (actual_values g))"
    "length (fa_sixteen (actual_values f)) = length (fa_sixteen (actual_values g))"
    "length (fa_float (actual_values f)) = length (fa_float (actual_values g))"
    "length (fa_color (actual_values f)) = length (fa_color (actual_values g))"
    using fun_cong [OF s, of EIGHT_BIT] fun_cong [OF s, of SIXTEEN_BIT] fun_cong [OF s, of FLOAT_CHANNEL]
      fun_cong [OF s, of COLOR_CHANNEL] by (simp_all add: sizes_def)
  moreover have "channel_names_eight f = channel_names_eight g" "channel_names_sixteen f = channel_names_sixteen g"
    "channel_names_float f = channel_names_float g" "channel_names_color f = channel_names_color g"
    using fun_cong [OF m, of EIGHT_BIT] fun_cong [OF m, of SIXTEEN_BIT] fun_cong [OF m, of FLOAT_CHANNEL]
      fun_cong [OF m, of COLOR_CHANNEL] by (simp_all add: names_of_def)
  ultimately show ?thesis by (simp add: cue_outputs_def Let_def)
qed

text \<open>
  C9. Whatever is called on a cue filter that was set up, in any order, with exceptions or without, its
  cues stay as they were parsed and it publishes the same channels at the same addresses.
\<close>

theorem cue_outputs_stay:
  assumes "set_up n f"
  shows "let g = fst (fold (do_call lm ex) calls (f, w))
    in set_up n g \<and> cues g = cues f \<and> cue_outputs lm i name g cm = cue_outputs lm i name f cm"
proof -
  have "shaped n (cues f, names_of f) (f, w)"
    using assms(1) by (simp add: keeps_shape_def set_up_def cues_complete_def)
  then have "shaped n (cues f, names_of f) (fold (do_call lm ex) calls (f, w))"
    by (rule fold_invariant_list) (rule do_call_shape)
  then obtain g where g_def: "fst (fold (do_call lm ex) calls (f, w)) = g"
    and g: "sized n g \<and> cues g = cues f \<and> names_of g = names_of f" by (simp add: keeps_shape_def)
  then have "sizes (actual_values g) = sizes (actual_values f)"
    using assms(1) by (simp add: sized_def set_up_def cues_complete_def)
  then show ?thesis using g assms(1) cue_outputs_shape [of g f] by (simp add: set_up_def cues_complete_def g_def)
qed

subsection \<open>A cycle stays within the cues\<close>

abbreviation safe :: "('s \<Rightarrow> bool) \<Rightarrow> ('s, 'a) act \<Rightarrow> ('a \<Rightarrow> 's \<Rightarrow> bool) \<Rightarrow> bool" where
  "safe P m Q \<equiv> triple P m Q (\<lambda>e _. e = Undefined_behaviour)"

text \<open>What the cues must have: complete, with a time stamp, and not larger than memory.\<close>

definition playable :: "(channel_type \<Rightarrow> nat) \<Rightarrow> cue_st list \<Rightarrow> bool" where
  "playable n cs \<longleftrightarrow> (\<forall>c \<in> set cs. complete_cue n c \<and> timestamps c \<noteq> [] \<and> (\<forall>t. length (timestamps c) * n t < 2 ^ 64))"

definition at_cue :: "(channel_type \<Rightarrow> nat) \<Rightarrow> cue_st list \<Rightarrow> filter_cue \<Rightarrow> bool" where
  "at_cue n cs f \<longleftrightarrow> sized n f \<and> cues f = cs \<and> fa_cue (actual_values f) < length cs
     \<and> cue_time f \<noteq> None \<and> time_scale_input f \<noteq> None"

definition at_frame :: "(channel_type \<Rightarrow> nat) \<Rightarrow> cue_st list \<Rightarrow> filter_cue \<Rightarrow> bool" where
  "at_frame n cs f \<longleftrightarrow> at_cue n cs f \<and> fa_frame (actual_values f) < length (timestamps (cs ! fa_cue (actual_values f)))"

lemma at_frame_cue: "at_frame n cs f \<Longrightarrow> at_cue n cs f"
  by (simp add: at_frame_def)

lemma actual_cue_at: "at_cue n cs f \<Longrightarrow> actual_cue f = Inr (cs ! fa_cue (actual_values f))"
  by (simp add: at_cue_def actual_cue_def)

lemma checked_at_safe: "i < length xs \<Longrightarrow> checked_at xs i = Inr (xs ! i)"
  by simp

text \<open>Writing values of the right kind.\<close>

lemma put_at_safe:
  assumes "of_kind k t" and "i < fst ncm t"
  shows "safe (frame_keeps ncm) (put_at k i x) (\<lambda>_. frame_keeps ncm)"
proof (rule tripleI)
  fix a assume a: "frame_keeps ncm a"
  then have "i < length (cq_values k a)" using assms by (auto simp: of_kind_def frame_keeps_def)
  then have "fst (put_at k i x a) = Inr ()" by (simp add: put_at_def checked_at_safe)
  then show "case put_at k i x a of (Inl e, b) \<Rightarrow> e = Undefined_behaviour | (Inr _, b) \<Rightarrow> frame_keeps ncm b"
    using keepsD [OF put_at_frame [OF assms(1)] a, of i x] by (cases "put_at k i x a") auto
qed

lemma copy_at_safe:
  assumes "of_kind k t" and "i < fst ncm t" and "sizes src = fst ncm"
  shows "safe (frame_keeps ncm) (copy_at k src i) (\<lambda>_. frame_keeps ncm)"
proof -
  have "i < length (cq_values k src)" using assms by (auto simp: of_kind_def)
  then show ?thesis
    unfolding copy_at_def
    by (intro triple_bind [where R = "\<lambda>_. frame_keeps ncm"] triple_lift put_at_safe [OF assms(1,2)]) (simp add: checked_at_safe)
qed

lemma lengths_of_kind:
  "length (fa_eight a) = sizes a EIGHT_BIT" "length (fa_sixteen a) = sizes a SIXTEEN_BIT"
  "length (fa_float a) = sizes a FLOAT_CHANNEL" "length (fa_color a) = sizes a COLOR_CHANNEL"
  by (simp_all add: sizes_def)

lemma copies_safe:
  assumes "of_kind k t" and "sizes src = fst ncm" and "m = fst ncm t"
  shows "safe (frame_keeps ncm) (for_act (copy_at k src) [0..<m]) (\<lambda>_. frame_keeps ncm)"
  by (rule triple_for) (use assms in \<open>auto intro!: copy_at_safe\<close>)

lemma copy_values_safe:
  assumes "sizes src = fst ncm" and "sizes sz = fst ncm"
  shows "safe (frame_keeps ncm) (copy_values sz src) (\<lambda>_. frame_keeps ncm)"
  unfolding copy_values_def lengths_of_kind assms(2)
  by (intro triple_bind [where R = "\<lambda>_. frame_keeps ncm"] copies_safe [OF of_kinds(1) assms(1)]
      copies_safe [OF of_kinds(2) assms(1)] copies_safe [OF of_kinds(3) assms(1)] copies_safe [OF of_kinds(4) assms(1)]) simp_all

text \<open>Lifting to the filter: the actual values keep their cue and frame.\<close>

definition at_position :: "(channel_type \<Rightarrow> nat) \<Rightarrow> cue_st list \<Rightarrow> nat \<Rightarrow> nat \<Rightarrow> filter_cue \<Rightarrow> bool" where
  "at_position n cs c m f \<longleftrightarrow> at_cue n cs f \<and> fa_cue (actual_values f) = c \<and> fa_frame (actual_values f) = m"

lemma on_actual_safe:
  assumes "safe (frame_keeps (n, c, m)) g (\<lambda>_. frame_keeps (n, c, m))"
  shows "safe (at_position n cs c m) (on_actual g) (\<lambda>_. at_position n cs c m)"
proof (rule tripleI)
  fix f assume f: "at_position n cs c m f"
  then have "frame_keeps (n, c, m) (actual_values f)"
    by (simp add: at_position_def at_cue_def sized_def frame_keeps_def)
  then have "case g (actual_values f) of (Inl e, t) \<Rightarrow> e = Undefined_behaviour | (Inr x, t) \<Rightarrow> frame_keeps (n, c, m) t"
    using assms by (simp add: triple_def)
  then show "case on_actual g f of (Inl e, t) \<Rightarrow> e = Undefined_behaviour | (Inr x, t) \<Rightarrow> at_position n cs c m t"
    using f by (auto simp: on_actual_def at_position_def at_cue_def sized_def frame_keeps_def split: prod.splits sum.splits)
qed

lemma on_last_safe:
  assumes "\<And>c m. safe (frame_keeps (n, c, m)) g (\<lambda>_. frame_keeps (n, c, m))"
  shows "safe (at_position n cs c m) (on_last g) (\<lambda>_. at_position n cs c m)"
proof (rule tripleI)
  fix f assume f: "at_position n cs c m f"
  then have "frame_keeps (n, fa_cue (last_values f), fa_frame (last_values f)) (last_values f)"
    by (simp add: at_position_def at_cue_def sized_def frame_keeps_def)
  then have "case g (last_values f) of (Inl e, t) \<Rightarrow> e = Undefined_behaviour
      | (Inr x, t) \<Rightarrow> frame_keeps (n, fa_cue (last_values f), fa_frame (last_values f)) t"
    using assms by (simp add: triple_def)
  then show "case on_last g f of (Inl e, t) \<Rightarrow> e = Undefined_behaviour | (Inr x, t) \<Rightarrow> at_position n cs c m t"
    using f by (auto simp: on_last_def at_position_def at_cue_def sized_def frame_keeps_def split: prod.splits sum.splits)
qed

lemma triple_with_at: "(\<And>s\<^sub>0. P s\<^sub>0 \<Longrightarrow> triple P (m s\<^sub>0) Q E) \<Longrightarrow> triple P (with_act m) Q E"
  by (auto simp: triple_def with_act_def)

lemma position_sizes:
  "at_position n cs c m f \<Longrightarrow> sizes (actual_values f) = n" "at_position n cs c m f \<Longrightarrow> sizes (last_values f) = n"
  by (simp_all add: at_position_def at_cue_def sized_def)

lemma position_fields [simp]:
  "at_position n cs c m (forget_last f) = at_position n cs c m f" "at_position n cs c m (check_last f) = at_position n cs c m f"
  "at_position n cs c m (f\<lparr>start_time := d\<rparr>) = at_position n cs c m f"
  "at_position n cs c m (f\<lparr>pause_time := d\<rparr>) = at_position n cs c m f"
  "at_position n cs c m (f\<lparr>current_time := d\<rparr>) = at_position n cs c m f"
  "at_position n cs c m (f\<lparr>running_state := r\<rparr>) = at_position n cs c m f"
  "at_position n cs c m (f\<lparr>cue_end_handling_real := h\<rparr>) = at_position n cs c m f"
  "at_position n cs c m (f\<lparr>scale_valid := b\<rparr>) = at_position n cs c m f"
  "at_position n cs c m (adopt_end_handling f) = at_position n cs c m f"
  "at_position n cs c m (shift_pause f) = at_position n cs c m f" "at_position n cs c m (adopt_scale d f) = at_position n cs c m f"
  "at_position n cs c m (f\<lparr>last_values := (last_values f)\<lparr>fa_time_stamp := d\<rparr>\<rparr>) = at_position n cs c m f"
  by (simp_all add: at_position_def at_cue_def sized_def forget_last_def check_last_def adopt_end_handling_def
      shift_pause_def adopt_scale_def Let_def)

lemma position_actual_cue: "at_position n cs c m f \<Longrightarrow> actual_cue f = Inr (cs ! c)"
  using actual_cue_at [of n cs f] by (simp add: at_position_def)

lemma frame_flag_safe: "safe (frame_keeps ncm) (modify_act (\<lambda>a. a\<lparr>fa_updated := u\<rparr>)) (\<lambda>_. frame_keeps ncm)"
  by (rule triple_modify) (simp add: frame_keeps_def)

lemma update_hold_safe: "safe (at_position n cs c m) update_hold_values (\<lambda>_. at_position n cs c m)"
  unfolding update_hold_values_def
  by (intro triple_with_at triple_if triple_ret triple_bind [where R = "\<lambda>_. at_position n cs c m"] on_actual_safe
      copy_values_safe frame_flag_safe) (simp_all add: position_sizes)

lemma last_flag_safe:
  "(\<And>a. sizes (g a) = sizes a) \<Longrightarrow> safe (at_position n cs c m) (on_last (modify_act g)) (\<lambda>_. at_position n cs c m)"
  by (rule tripleI) (simp add: on_last_def at_position_def at_cue_def sized_def)

lemma update_last_safe: "safe (at_position n cs c m) update_last_values (\<lambda>_. at_position n cs c m)"
  unfolding update_last_values_def
  by (intro triple_with_at triple_if triple_ret triple_bind [where R = "\<lambda>_. at_position n cs c m"] on_last_safe
      copy_values_safe last_flag_safe) (simp_all add: position_sizes)

lemma reset_safe: "safe (at_position n cs c m) reset_for_starting_cue (\<lambda>_. at_position n cs c 0)"
  unfolding reset_for_starting_cue_def
  by (rule triple_bind [OF update_last_safe], rule triple_modify)
    (simp add: clamp_cue_def, simp add: at_position_def at_cue_def sized_def set_actual_frame_def)

lemma read_end_safe: "safe (at_position n cs c m) read_end_handling (\<lambda>_. at_position n cs c m)"
  unfolding read_end_handling_def
  by (intro triple_bind [where R = "\<lambda>_. at_position n cs c m"] triple_read triple_modify)
    (simp_all add: position_actual_cue)






text \<open>The only way a transition fails is a cast that does not fit.\<close>

definition only_casts :: "'v result \<Rightarrow> bool" where
  "only_casts r \<longleftrightarrow> (case r of Inl e \<Rightarrow> e = Undefined_behaviour | Inr _ \<Rightarrow> True)"

lemma only_casts_simps [simp]: "only_casts (Inr x)" "only_casts (Inl e) \<longleftrightarrow> e = Undefined_behaviour"
  by (simp_all add: only_casts_def)



















subsection \<open>The cycle as a whole\<close>

abbreviation working :: "(channel_type \<Rightarrow> nat) \<Rightarrow> cue_st list \<Rightarrow> filter_cue \<times> cue_world \<Rightarrow> bool" where
  "working n cs s \<equiv> at_cue n cs (fst s)"

lemma position_cue: "at_position n cs c m f \<Longrightarrow> at_cue n cs f"
  by (simp add: at_position_def)

lemma cue_position: "at_cue n cs f \<Longrightarrow> at_position n cs (fa_cue (actual_values f)) (fa_frame (actual_values f)) f"
  by (simp add: at_position_def)

text \<open>Actions that keep a property and end early with undefined behaviour only.\<close>

definition secure :: "('s \<Rightarrow> bool) \<Rightarrow> ('s, 'a) act \<Rightarrow> bool" where
  "secure P m \<longleftrightarrow> safe P m (\<lambda>_. P)"

named_theorems secure_rules



lemma secure_if [secure_rules]: "(b \<Longrightarrow> secure P m) \<Longrightarrow> (\<not> b \<Longrightarrow> secure P k) \<Longrightarrow> secure P (if b then m else k)"
  by simp


lemma secure_set [secure_rules]: "(\<And>f. at_cue n cs f \<Longrightarrow> at_cue n cs (g f)) \<Longrightarrow> secure (working n cs) (set_fst g)"
  by (auto simp: secure_def triple_def set_fst_def)

lemma secure_fst:
  assumes "\<And>c m. safe (at_position n cs c m) g (\<lambda>_. at_position n cs (c' c m) (m' c m))"
  shows "secure (working n cs) (on_fst g)"
  unfolding secure_def
proof (rule tripleI)
  fix s assume s: "working n cs s"
  show "case on_fst g s of (Inl e, t) \<Rightarrow> e = Undefined_behaviour | (Inr x, t) \<Rightarrow> working n cs t"
    using assms [THEN triple_Inr, OF cue_position [OF s]] assms [THEN triple_Inl, OF cue_position [OF s]]
    by (auto simp: on_fst_def split: prod.splits sum.splits dest: position_cue)
qed

lemmas secure_fsts [secure_rules] = secure_fst [OF update_hold_safe] secure_fst [OF reset_safe] secure_fst [OF read_end_safe]




lemma parameter_text_there: "at_cue n cs f \<Longrightarrow> \<exists>t. parameter_text f = Inr t"
  using actual_cue_at [of n cs f] by (cases "timestamps (cs ! fa_cue (actual_values f)) = []") (auto simp: parameter_text_def checked_at_def)

lemma secure_gui [secure_rules]: "secure (working n cs) update_parameter_gui"
  unfolding secure_def
proof (rule tripleI)
  fix s assume "working n cs s"
  then obtain t where "parameter_text (fst s) = Inr t" using parameter_text_there by blast
  then show "case update_parameter_gui s of (Inl e, t) \<Rightarrow> e = Undefined_behaviour | (Inr _, t) \<Rightarrow> working n cs t"
    using \<open>working n cs s\<close> by (simp add: update_parameter_gui_def split: option.split)
qed


lemma at_cue_fields [simp]:
  "at_cue n cs (forget_last f) = at_cue n cs f" "at_cue n cs (check_last f) = at_cue n cs f"
  "at_cue n cs (f\<lparr>start_time := d\<rparr>) = at_cue n cs f" "at_cue n cs (f\<lparr>pause_time := d\<rparr>) = at_cue n cs f"
  "at_cue n cs (f\<lparr>current_time := d\<rparr>) = at_cue n cs f" "at_cue n cs (f\<lparr>running_state := r\<rparr>) = at_cue n cs f"
  "at_cue n cs (f\<lparr>cue_end_handling_real := h\<rparr>) = at_cue n cs f" "at_cue n cs (f\<lparr>scale_valid := b\<rparr>) = at_cue n cs f"
  "at_cue n cs (shift_pause f) = at_cue n cs f" "at_cue n cs (adopt_scale d f) = at_cue n cs f"
  by (simp_all add: at_cue_def sized_def forget_last_def check_last_def shift_pause_def adopt_scale_def Let_def)











lemma secure_read [secure_rules]: "(\<And>f. at_cue n cs f \<Longrightarrow> \<exists>x. g f = Inr x) \<Longrightarrow> secure (working n cs) (on_fst (read_act g))"
  unfolding secure_def by (rule triple_fst, rule triple_read) fastforce











subsection \<open>Instances\<close>

lemma demo_cue_playable: "set_up (sizes (actual_values demo_cue_filter)) demo_cue_filter"
  "playable (sizes (actual_values demo_cue_filter)) [demo_cue]"
proof -
  show "set_up (sizes (actual_values demo_cue_filter)) demo_cue_filter"
    by (auto simp: set_up_def cues_complete_def complete_cue_def sized_def demo_cue_filter_def demo_pre_def demo_cue_def
        new_cue_st_def new_filter_cue_def new_frame_actual_def sizes_def names_of_def frame_count_def fun_eq_iff
        split: channel_type.splits)
  then show "playable (sizes (actual_values demo_cue_filter)) [demo_cue]"
    by (auto simp: set_up_def cues_complete_def playable_def demo_cue_filter_def demo_pre_def demo_cue_def sizes_def
        new_cue_st_def new_frame_actual_def split: channel_type.splits)
qed

definition demo_cue_world :: cue_world where
  "demo_cue_world = \<lparr>active_scene = Some 3, registry = empty_registry, sent_updates = []\<rparr>"

definition demo_cue_memory :: memory where
  "demo_cue_memory = \<lparr>rd8 = (\<lambda>_. 0), rd16 = (\<lambda>_. 0), rdf = (\<lambda>(i, _). if i = 0 then Num 500 else Num 1), rdc = (\<lambda>_. default_pixel)\<rparr>"

theorem cue_outputs_stay_witness:
  "let g = fst (fold (do_call demo_libm (\<lambda>_. Num 1)) [Parameter ''run_mode'' ''play'', Cycle demo_cue_memory, Deactivate]
        (demo_cue_filter, demo_cue_world))
   in cues g = [demo_cue]"
  using cue_outputs_stay [OF demo_cue_playable(1), of demo_libm "\<lambda>_. Num 1"
      "[Parameter ''run_mode'' ''play'', Cycle demo_cue_memory, Deactivate]" demo_cue_world]
  by (simp add: Let_def) (simp add: demo_cue_filter_def)


end
