(* ===== verification/Cue_Run.thy ===== *)
theory Cue_Run
  imports Cue_Ok
begin

text \<open>
  What a cue list does: the values of a transition lie between its two key frames, the state that is
  stored when a scene is left is the one found when it is entered again, and two places where the
  filter leaves its cues or its channels: \<open>run_cue\<close> with the number after the last cue, and a cycle
  that comes after the next key frame is over.
\<close>

subsection \<open>Blending\<close>

lemma round_away_within:
  assumes "of_int lo - 1 / 4 \<le> x" and "x \<le> of_int hi + 1 / 4"
  shows "lo \<le> round_away x \<and> round_away x \<le> hi"
proof (cases "x < 0")
  case True
  have "of_int (- hi) - 1 / 4 \<le> - x" "- x \<le> of_int (- lo) + 1 / 4" using assms by simp_all
  then have "- hi \<le> \<lfloor>- x + 1 / 2\<rfloor>" "\<lfloor>- x + 1 / 2\<rfloor> \<le> - lo" by linarith+
  then show ?thesis using True by (simp add: round_away_def)
next
  case False
  have "lo \<le> \<lfloor>x + 1 / 2\<rfloor>" "\<lfloor>x + 1 / 2\<rfloor> \<le> hi" using assms by linarith+
  then show ?thesis using False by (simp add: round_away_def)
qed

lemma rnd_small: "\<bar>x\<bar> \<le> 2 ^ 20 \<Longrightarrow> \<exists>y. rnd x = Num y \<and> \<bar>y - x\<bar> \<le> 1 / 1000000"
proof -
  assume x: "\<bar>x\<bar> \<le> 2 ^ 20"
  then have "\<bar>x\<bar> \<le> 2 ^ 60" by simp
  then obtain y where y: "rnd x = Num y" "\<bar>y - x\<bar> \<le> \<bar>x\<bar> / 2 ^ 52 + 1 / 2 ^ 100" using rnd_error by blast
  have "\<bar>x\<bar> / 2 ^ 52 + 1 / 2 ^ 100 \<le> 1 / 1000000" using x by simp
  then show ?thesis using y by (intro exI [of _ y]) linarith
qed

text \<open>A blend whose position is almost between 0 and 1 is almost between the two values.\<close>

lemma between_bounds:
  assumes a: "0 \<le> a" "a \<le> 65535" and b: "0 \<le> b" "b \<le> 65535" and r: "- (1 / 500000) \<le> r" "r \<le> 1 + 1 / 500000"
  shows "\<exists>q. between a b (Num r) = Num q \<and> of_int (min a b) - 1 / 4 \<le> q \<and> q \<le> of_int (max a b) + 1 / 4"
proof -
  define d :: real where "d = of_int b - of_int a"
  have d: "\<bar>d\<bar> \<le> 65535" using a b unfolding d_def by linarith
  have dd: "of_int_d (b - a) = Num d" "of_int_d a = Num (of_int a)"
    using rnd_int [of "b - a"] rnd_int [of a] a b by (simp_all add: of_int_d_def d_def)
  have "\<bar>d * r\<bar> \<le> 65535 * (1 + 1 / 500000)" unfolding abs_mult by (rule mult_mono) (use d r in auto)
  then have small: "\<bar>d * r\<bar> \<le> 65536" by simp
  then obtain p where p: "rnd (d * r) = Num p" "\<bar>p - d * r\<bar> \<le> 1 / 1000000" using rnd_small [of "d * r"] by auto
  have "\<bar>p\<bar> \<le> 65537" using p(2) small by linarith
  then have "\<bar>p + of_int a\<bar> \<le> 2 ^ 20" using a by simp
  then obtain q where q: "rnd (p + of_int a) = Num q" "\<bar>q - (p + of_int a)\<bar> \<le> 1 / 1000000" using rnd_small by blast
  define c where "c = max 0 (min 1 r)"
  have c: "0 \<le> c" "c \<le> 1" "\<bar>r - c\<bar> \<le> 1 / 500000" using r by (auto simp: c_def min_def max_def)
  have "\<bar>d * (r - c)\<bar> \<le> 65535 * (1 / 500000)" unfolding abs_mult by (rule mult_mono) (use d c in auto)
  then have near: "\<bar>d * r - d * c\<bar> \<le> 132 / 1000" by (simp add: right_diff_distrib)
  have "of_int (min a b) \<le> d * c + of_int a \<and> d * c + of_int a \<le> of_int (max a b)"
  proof (cases "a \<le> b")
    case True
    then have "0 \<le> d" by (simp add: d_def)
    then have "0 \<le> d * c" "d * c \<le> d" using c by (auto intro: mult_left_le)
    then show ?thesis using True by (simp add: d_def)
  next
    case False
    then have "0 \<le> - d" by (simp add: d_def)
    then have "0 \<le> (- d) * c" "(- d) * c \<le> - d" using c mult_left_le [of c "- d"] by (simp_all add: mult_nonpos_nonneg)
    then have "d * c \<le> 0" "d \<le> d * c" by simp_all
    moreover have "of_int (min a b) = d + of_int a" "of_int (max a b) = (of_int a :: real)" using False by (simp_all add: d_def)
    ultimately show ?thesis by linarith
  qed
  then have "of_int (min a b) - 1 / 4 \<le> q \<and> q \<le> of_int (max a b) + 1 / 4"
    using q(2) p(2) near by (intro conjI) linarith+
  then show ?thesis using q(1) p(1) dd by (simp add: between_def)
qed

lemma between_word:
  fixes a b :: "'w::len word"
  assumes "LENGTH('w) \<le> 16" and "- (1 / 500000) \<le> r" "r \<le> 1 + 1 / 500000"
  shows "\<exists>n. to_unsigned LENGTH('w) (d_round (between (uint a) (uint b) (Num r))) = Inr n \<and> n < 2 ^ LENGTH('w)
    \<and> min (uint a) (uint b) \<le> int n \<and> int n \<le> max (uint a) (uint b)"
proof -
  have bound: "0 \<le> uint v \<and> uint v < 2 ^ LENGTH('w) \<and> uint v \<le> 65535" for v :: "'w word"
  proof -
    have "(2 :: int) ^ LENGTH('w) \<le> 2 ^ 16" using assms(1) by (intro power_increasing) simp_all
    then have "(2 :: int) ^ LENGTH('w) \<le> 65536" by simp
    moreover have "0 \<le> uint v \<and> uint v < 2 ^ LENGTH('w)" using uint_range_size [of v] by (simp add: word_size)
    ultimately show ?thesis by linarith
  qed
  obtain q where q: "between (uint a) (uint b) (Num r) = Num q" "of_int (min (uint a) (uint b)) - 1 / 4 \<le> q"
    "q \<le> of_int (max (uint a) (uint b)) + 1 / 4"
    using between_bounds [of "uint a" "uint b" r] bound [of a] bound [of b] assms by auto
  have w: "min (uint a) (uint b) \<le> round_away q" "round_away q \<le> max (uint a) (uint b)"
    using round_away_within q by blast+
  then have "0 \<le> round_away q" "round_away q < 2 ^ LENGTH('w)" using bound [of a] bound [of b] by linarith+
  then show ?thesis using q(1) w by (intro exI [of _ "nat (round_away q)"]) (simp add: nat_less_iff)
qed

text \<open>The easing functions keep the interval from 0 to 1, up to rounding.\<close>

lemma eased_bounds:
  assumes "tr \<noteq> SIGMOIDAL" and "0 \<le> r" "r \<le> 1"
  shows "\<exists>s. eased ex tr (Num r) = Num s \<and> - (1 / 500000) \<le> s \<and> s \<le> 1 + 1 / 500000"
proof (cases tr)
  case EASE_IN
  have "0 \<le> r * r" "r * r \<le> 1" using assms by (simp_all add: mult_le_one)
  then obtain y where "rnd (r * r) = Num y" "\<bar>y - r * r\<bar> \<le> 1 / 1000000" using rnd_near [of "r * r"] by auto
  moreover from this(2) have "- (1 / 500000) \<le> y \<and> y \<le> 1 + 1 / 500000" using \<open>0 \<le> r * r\<close> \<open>r * r \<le> 1\<close> by linarith
  ultimately show ?thesis using EASE_IN by (simp add: eased_def)
next
  case EASE_OUT
  obtain u where u: "rnd (1 - r) = Num u" "\<bar>u - (1 - r)\<bar> \<le> 1 / 10 ^ 13"
  proof -
    have "\<bar>1 - r\<bar> \<le> 2 ^ 60" using assms by simp
    then obtain u where u: "rnd (1 - r) = Num u" "\<bar>u - (1 - r)\<bar> \<le> \<bar>1 - r\<bar> / 2 ^ 52 + 1 / 2 ^ 100" using rnd_error by blast
    moreover have "\<bar>1 - r\<bar> / 2 ^ 52 \<le> 1 / 2 ^ 52" using assms by (intro divide_right_mono) simp_all
    then have "\<bar>1 - r\<bar> / 2 ^ 52 + 1 / 2 ^ 100 \<le> 1 / 2 ^ 52 + 1 / 2 ^ 100" by linarith
    moreover have "(1 :: real) / 2 ^ 52 + 1 / 2 ^ 100 \<le> 1 / 10 ^ 13" by simp
    ultimately have "\<bar>u - (1 - r)\<bar> \<le> 1 / 10 ^ 13" by linarith
    then show thesis using that u(1) by blast
  qed
  have ub: "\<bar>u\<bar> \<le> 1 + 1 / 10 ^ 13" using u(2) assms by linarith
  then have "\<bar>u * u\<bar> \<le> (1 + 1 / 10 ^ 13) * (1 + 1 / 10 ^ 13)" unfolding abs_mult by (intro mult_mono) simp_all
  then have uu: "0 \<le> u * u" "u * u \<le> 1 + 1 / 1000000000000" by simp_all
  then obtain v where v: "rnd (u * u) = Num v" "\<bar>v - u * u\<bar> \<le> 1 / 2000000"
  proof -
    have "\<bar>u * u\<bar> \<le> 2 ^ 60" using uu by simp
    then obtain v where "rnd (u * u) = Num v" "\<bar>v - u * u\<bar> \<le> \<bar>u * u\<bar> / 2 ^ 52 + 1 / 2 ^ 100" using rnd_error by blast
    moreover have "\<bar>u * u\<bar> / 2 ^ 52 \<le> 2 / 2 ^ 52" using uu by (intro divide_right_mono) simp_all
    then have "\<bar>u * u\<bar> / 2 ^ 52 + 1 / 2 ^ 100 \<le> 2 / 2 ^ 52 + 1 / 2 ^ 100" by linarith
    moreover have "(2 :: real) / 2 ^ 52 + 1 / 2 ^ 100 \<le> 1 / 2000000" by simp
    ultimately have "rnd (u * u) = Num v \<and> \<bar>v - u * u\<bar> \<le> 1 / 2000000" by linarith
    then show thesis using that by blast
  qed
  have "\<bar>1 - v\<bar> \<le> 1000" using v(2) uu by linarith
  then obtain w where w: "rnd (1 - v) = Num w" "\<bar>w - (1 - v)\<bar> \<le> 1 / 1000000" using rnd_near by blast
  have "- (1 / 500000) \<le> w \<and> w \<le> 1 + 1 / 500000" using w(2) v(2) uu by (intro conjI) linarith+
  then show ?thesis using EASE_OUT u(1) v(1) w(1) by (simp add: eased_def d_sub_def)
qed (use assms in \<open>simp_all add: eased_def\<close>)

lemma between_ends:
  assumes "\<bar>a\<bar> < 2 ^ 20" "\<bar>b\<bar> < 2 ^ 20"
  shows "between a b (Num 0) = Num (of_int a)" "between a b (Num 1) = Num (of_int b)"
proof -
  have "\<bar>b - a\<bar> < 2 ^ 53" "\<bar>a\<bar> < 2 ^ 53" "\<bar>b\<bar> < 2 ^ 53" using assms by (simp; linarith)+
  then have d: "rnd (of_int (b - a)) = Num (of_int (b - a))" "rnd (of_int a) = Num (of_int a)" "rnd (of_int b) = Num (of_int b)"
    by (simp_all only: rnd_int)
  have z: "rnd 0 = Num 0" by (simp add: rnd_def)
  have "of_int (b - a) + of_int a = (of_int b :: real)" by simp
  then have e: "rnd (of_int (b - a) + of_int a) = Num (of_int b)" using d(3) by simp
  show "between a b (Num 0) = Num (of_int a)" "between a b (Num 1) = Num (of_int b)"
    by (simp_all add: between_def of_int_d_def d e z del: of_int_diff)
qed

lemma eased_ends: "tr \<noteq> SIGMOIDAL \<Longrightarrow> eased ex tr (Num 0) = Num 0" "tr \<noteq> SIGMOIDAL \<Longrightarrow> eased ex tr (Num 1) = Num 1"
  using rnd_int [of 0] rnd_int [of 1] by (cases tr; simp add: eased_def d_sub_def)+

lemma word_between:
  fixes a b :: "'w::len word"
  assumes "LENGTH('w) \<le> 16" and "tr \<noteq> SIGMOIDAL" and "0 \<le> r" "r \<le> 1"
    and blend: "\<And>d. blend d a b = bind_res (to_unsigned LENGTH('w) (d_round (between (uint a) (uint b) d))) (\<lambda>n. Inr (of_nat n))"
  shows "\<exists>v. transition_value ex blend (Num r) tr a b = Inr v \<and> min a b \<le> v \<and> v \<le> max a b
    \<and> (r = 0 \<longrightarrow> v = a) \<and> (r = 1 \<longrightarrow> v = b)"
proof (cases "tr = EDGE")
  case True
  then show ?thesis by (auto simp: transition_value_def)
next
  case False
  then have tv: "transition_value ex blend (Num r) tr a b = blend (eased ex tr (Num r)) a b" by (simp add: transition_value_def)
  obtain s where s: "eased ex tr (Num r) = Num s" "- (1 / 500000) \<le> s" "s \<le> 1 + 1 / 500000"
    using eased_bounds [OF assms(2-4)] by blast
  obtain n where n: "to_unsigned LENGTH('w) (d_round (between (uint a) (uint b) (Num s))) = Inr n" "n < 2 ^ LENGTH('w)"
    "min (uint a) (uint b) \<le> int n" "int n \<le> max (uint a) (uint b)"
    using between_word [OF assms(1) s(2,3)] by blast
  have u: "uint (of_nat n :: 'w word) = int n" proof -
    have "unat (of_nat n :: 'w word) = n" using n(2) by (simp add: unsigned_of_nat take_bit_nat_eq_self)
    then show ?thesis by (metis uint_nat)
  qed
  have small: "\<bar>uint v\<bar> < 2 ^ 20" for v :: "'w word"
  proof -
    have "(2 :: int) ^ LENGTH('w) \<le> 2 ^ 16" using assms(1) by (intro power_increasing) simp_all
    then have "(2 :: int) ^ LENGTH('w) \<le> 65536" by simp
    moreover have "0 \<le> uint v \<and> uint v < 2 ^ LENGTH('w)" using uint_range_size [of v] by (simp add: word_size)
    ultimately have "0 \<le> uint v" "uint v < 65536" by linarith+
    then show ?thesis by simp
  qed
  have end_value: "of_nat n = v" if "between (uint a) (uint b) (Num s) = Num (of_int (uint v))" for v :: "'w word"
  proof -
    have "d_round (between (uint a) (uint b) (Num s)) = Num (of_int (uint v))" unfolding that by (simp only: d_round.simps round_away_int)
    then have "n = nat (uint v)" using n(1) by (simp only: to_unsigned.simps trunc_real_int) (auto split: if_splits)
    then show ?thesis by (simp add: nat_uint_eq)
  qed
  have "r = 0 \<Longrightarrow> s = 0" "r = 1 \<Longrightarrow> s = 1" using s(1) eased_ends [OF assms(2)] by auto
  then have ends: "r = 0 \<longrightarrow> of_nat n = a" "r = 1 \<longrightarrow> of_nat n = b" using end_value between_ends [OF small small] by auto
  have "min a b \<le> of_nat n \<and> of_nat n \<le> max a b" using n(3,4) by (auto simp: word_le_def u min_def max_def split: if_splits)
  then show ?thesis using tv s(1) n(1) ends by (simp add: blend)
qed

text \<open>
  C39. A transition over an 8 or a 16 bit channel, edge, linear or eased: while the relative time is between
  0 and 1 the value is defined and lies between the values of the two key frames; at 0 it is the
  old one and at 1 the new one.
\<close>

theorem transition_between:
  assumes "tr \<noteq> SIGMOIDAL" and "0 \<le> r" "r \<le> 1"
  shows "(\<exists>v. transition_value ex blend8 (Num r) tr a b = Inr v \<and> min a b \<le> v \<and> v \<le> max a b
      \<and> (r = 0 \<longrightarrow> v = a) \<and> (r = 1 \<longrightarrow> v = b)) \<and>
    (\<exists>v. transition_value ex blend16 (Num r) tr c d = Inr v \<and> min c d \<le> v \<and> v \<le> max c d
      \<and> (r = 0 \<longrightarrow> v = c) \<and> (r = 1 \<longrightarrow> v = d))"
  using assms by (intro conjI word_between) (simp_all add: blend8_def blend16_def to_u8_def to_u16_def)

theorem transition_between_witness:
  "\<exists>v. transition_value (\<lambda>_. Num 1) blend8 (Num (1 / 4)) EASE_OUT 20 250 = Inr v \<and> 20 \<le> v \<and> v \<le> 250"
  using transition_between [of EASE_OUT "1 / 4" "\<lambda>_. Num 1" 20 250] by auto

subsection \<open>One cue too far\<close>

definition no_ub :: "('s, 'a) act \<Rightarrow> bool" where
  "no_ub m \<longleftrightarrow> triple (\<lambda>_. True) m (\<lambda>_ _. True) (\<lambda>e _. e \<noteq> Undefined_behaviour)"

named_theorems no_ub_rules

lemma no_ub_bind [no_ub_rules]: "no_ub m \<Longrightarrow> (\<And>x. no_ub (f x)) \<Longrightarrow> no_ub (bind_act m f)"
  unfolding no_ub_def by (rule triple_bind)

lemma no_ub_for [no_ub_rules]: "(\<And>x. no_ub (f x)) \<Longrightarrow> no_ub (for_act f xs)"
  unfolding no_ub_def by (rule triple_for)

lemma no_ub_simple [no_ub_rules]: "no_ub (ret_act x)" "no_ub (modify_act g)" "no_ub (lift_act (checked_at xs i))"
  by (simp_all add: no_ub_def triple_def checked_at_def)

lemma no_ub_if [no_ub_rules]: "no_ub m \<Longrightarrow> no_ub k \<Longrightarrow> no_ub (if b then m else k)"
  by simp

lemma no_ub_with [no_ub_rules]: "(\<And>s. no_ub (m s)) \<Longrightarrow> no_ub (with_act m)"
  by (auto simp: no_ub_def triple_def with_act_def)

lemma no_ub_put [no_ub_rules]: "no_ub (put_at k i x)"
  by (auto simp: no_ub_def triple_def put_at_def checked_at_def)

lemma no_ub_last [no_ub_rules]: "no_ub g \<Longrightarrow> no_ub (on_last g)"
  unfolding no_ub_def triple_def on_last_def by (auto split: prod.splits sum.splits)

lemma no_ub_reset: "no_ub reset_for_starting_cue"
  unfolding reset_for_starting_cue_def update_last_values_def copy_values_def copy_at_def by (intro no_ub_rules)

lemma reset_returns:
  assumes "at_cue n cs f"
  shows "\<exists>f'. reset_for_starting_cue f = (Inr (), f') \<and> at_cue n cs f'"
proof (cases "reset_for_starting_cue f")
  case (Pair r f')
  show ?thesis
  proof (cases r)
    case (Inl e)
    then have "e = Undefined_behaviour" using triple_Inl [OF reset_safe cue_position [OF assms]] Pair by simp
    moreover have "e \<noteq> Undefined_behaviour" using triple_Inl [OF no_ub_reset [unfolded no_ub_def]] Pair Inl by simp
    ultimately show ?thesis by simp
  next
    case (Inr u)
    then show ?thesis using triple_Inr [OF reset_safe cue_position [OF assms]] Pair by (auto dest: position_cue)
  qed
qed

lemma no_cue_stops_cycle:
  assumes "running_state f = PLAY" and "length (cues f) \<le> fa_cue (actual_values f)" and "cue_time f \<noteq> None"
  shows "fst (cue_update lm ex m (f, w)) = Inl (Out_of_range ''vector::_M_range_check'')"
  using assms
  by (auto simp: cue_update_def bind_act_def on_fst_def set_fst_def get_fst_def calc_values_def number_of_stamps_def actual_cue_def
      checked_at_def)

text \<open>
  \<open>run_cue\<close> compares its number with \<open>>\<close> instead of \<open>\<ge>\<close>: the number after the last cue is accepted.
  The message ends with \<open>std::out_of_range\<close>, but the filter is left playing a cue that does not
  exist, and every later cycle ends with the exception as well.
\<close>

theorem run_cue_after_last:
  assumes "at_cue n (cues f) f" and "d_lt (Num 0) (time_scale f)" and "length (cues f) < 65536"
  shows "\<exists>g. cue_receive ''run_cue'' (dec (length (cues f))) (f, w) = (Inl (Out_of_range ''vector::_M_range_check''), g, w)
    \<and> running_state g = PLAY \<and> fa_cue (actual_values g) = length (cues g)
    \<and> (\<forall>m w'. fst (cue_update lm ex m (g, w')) = Inl (Out_of_range ''vector::_M_range_check''))"
proof -
  obtain f' where f': "reset_for_starting_cue f = (Inr (), f')" "at_cue n (cues f) f'" using reset_returns [OF assms(1)] by blast
  define g where "g = (set_actual_cue (length (cues f)) f')\<lparr>running_state := PLAY\<rparr>"
  have c: "cues f' = cues f" "cue_time f' \<noteq> None" using f'(2) by (simp_all add: at_cue_def)
  have num: "read_cue_number (dec (length (cues f))) = Some (of_nat (length (cues f)))"
    using stoi_dec [of "length (cues f)"] assms(3) by (simp add: read_cue_number_def)
  have u: "unat (of_nat (length (cues f)) :: u16) = length (cues f)"
    using assms(3) by (simp add: unsigned_of_nat take_bit_nat_eq_self)
  have "cue_receive ''run_cue'' (dec (length (cues f))) (f, w) = run_cue (of_nat (length (cues f))) (f, w)"
    using assms(2) num by (simp add: cue_receive_def with_act_def)
  also have "\<dots> = (Inl (Out_of_range ''vector::_M_range_check''), g, w)"
    using f'(1) c by (simp add: run_cue_def u bind_act_def get_fst_def set_fst_def on_fst_def read_end_handling_def actual_cue_def
        checked_at_def g_def set_actual_cue_def)
  finally have r: "cue_receive ''run_cue'' (dec (length (cues f))) (f, w) = (Inl (Out_of_range ''vector::_M_range_check''), g, w)" .
  have g: "running_state g = PLAY" "fa_cue (actual_values g) = length (cues g)" "cue_time g \<noteq> None"
    using c by (simp_all add: g_def set_actual_cue_def)
  then have "fst (cue_update lm ex m (g, w')) = Inl (Out_of_range ''vector::_M_range_check'')" for m w'
    by (intro no_cue_stops_cycle) simp_all
  then show ?thesis using r g by blast
qed

theorem run_cue_after_last_witness:
  "\<exists>g. cue_receive ''run_cue'' ''1'' (set_actual_cue 0 demo_cue_filter, demo_cue_world)
      = (Inl (Out_of_range ''vector::_M_range_check''), g, demo_cue_world)
    \<and> fst (cue_update demo_libm (\<lambda>_. Num 1) demo_cue_memory (g, demo_cue_world)) = Inl (Out_of_range ''vector::_M_range_check'')"
proof -
  let ?f = "set_actual_cue 0 demo_cue_filter"
  have c: "cues ?f = [demo_cue]" "time_scale ?f = Num 1"
    by (simp_all add: set_actual_cue_def demo_cue_filter_def demo_pre_def new_filter_cue_def)
  have at: "at_cue (sizes (actual_values demo_cue_filter)) (cues ?f) ?f"
    using demo_cue_playable(1)
    by (simp add: at_cue_def set_up_def cues_complete_def sized_def set_actual_cue_def) (simp add: demo_cue_filter_def)
  have one: "dec (length (cues ?f)) = ''1''" unfolding c by code_simp
  have "d_lt (Num 0) (time_scale ?f)" "length (cues ?f) < 65536" unfolding c by simp_all
  from run_cue_after_last [OF at this, of demo_cue_world demo_libm "\<lambda>_. Num 1", unfolded one]
  show ?thesis by blast
qed

subsection \<open>A cycle that comes late\<close>

text \<open>One 8 bit channel that goes from 0 to \<open>v\<close> within \<open>d\<close> milliseconds.\<close>

definition fade_filter :: "u8 \<Rightarrow> int \<Rightarrow> filter_cue" where
  "fade_filter v d = demo_pre\<lparr>cue_time := Some (0, 0), time_scale_input := Some (1, 0), running_state := PLAY,
     cues := [new_cue_st\<lparr>timestamps := [Num 0, Num (of_int d)],
       eight_bit_frames := [\<lparr>kf_value = 0, kf_transition = LINEAR\<rparr>, \<lparr>kf_value = v, kf_transition = LINEAR\<rparr>]\<rparr>],
     actual_values := new_frame_actual\<lparr>fa_eight := [0], fa_cue := 0, fa_frame := 0\<rparr>\<rparr>"

definition memory_at :: "int \<Rightarrow> memory" where
  "memory_at t = \<lparr>rd8 = (\<lambda>_. 0), rd16 = (\<lambda>_. 0), rdf = (\<lambda>(i, _). if i = 0 then Num (of_int t) else Num 1), rdc = (\<lambda>_. default_pixel)\<rparr>"

lemma fade_update:
  assumes "0 < d" "d < 2 ^ 50" "0 \<le> t" "t < 2 ^ 50" "active_scene w = None"
    and "blend8 (d_div (Num (of_int t)) (Num (of_int d))) 0 v = Inl e"
  shows "fst (cue_update lm ex (memory_at t) (fade_filter v d, w)) = Inl e"
proof -
  have r: "rnd (of_int d) = Num (of_int d)" "rnd (of_int t) = Num (of_int t)" "rnd 0 = Num 0"
    using rnd_int [of d] rnd_int [of t] rnd_int [of 0] assms by simp_all
  show ?thesis using assms r
    by (simp add: cue_update_def fade_filter_def memory_at_def demo_pre_def new_cue_st_def new_filter_cue_def new_frame_actual_def
        bind_act_def on_fst_def set_fst_def get_fst_def calc_values_def number_of_stamps_def actual_cue_def checked_at_def
        check_last_def forget_last_def scaled_stamp_def frame_reached_def pass_key_frame_def reach_key_frame_def
        update_last_values_from_cuelist_def with_act_def Let_def put_key_frame_def key_frame_at_def cue8_def frame_index_def
        on_last_def put_at_def mark_last_def advance_frame_def set_actual_frame_def size_sub_def size_add_def d_le_def d_sub_def
        update_parameter_gui_def calc_between_def relative_time_def calc_outputs_def calc_channel_def calc_transition_def
        transition_value_def eased_def)
qed

lemma late_blend:
  assumes "0 < d" "0 \<le> t" "t \<le> 1000 * d" "257 * d \<le> uint v * t"
  shows "blend8 (d_div (Num (of_int t)) (Num (of_int d))) 0 v = Inl Undefined_behaviour"
proof -
  define x :: real where "x = of_int t / of_int d"
  have d: "(0 :: real) < of_int d" using assms(1) by simp
  have "of_int t \<le> (of_int (1000 * d) :: real)" using assms(3) by (simp only: of_int_le_iff)
  then have x: "0 \<le> x" "x \<le> 1000" using d assms(2) by (simp_all add: x_def pos_divide_le_eq)
  have "real_of_int (257 * d) \<le> real_of_int (uint v * t)" using assms(4) by (simp only: of_int_le_iff)
  then have ux: "257 \<le> real_of_int (uint v) * x" using d unfolding x_def by (simp add: pos_le_divide_eq del: of_int_uint)
  obtain y where y: "rnd x = Num y" "\<bar>y - x\<bar> \<le> 1 / 1000000" using rnd_near [of x] x by auto
  define u where "u = real_of_int (uint v)"
  have u: "0 \<le> u" "u \<le> 255"
  proof -
    have "0 \<le> uint v" "uint v \<le> 255" using uint_range_size [of v] by (simp_all add: word_size)
    then show "0 \<le> u" "u \<le> 255" unfolding u_def by (simp_all del: of_int_uint)
  qed
  have "\<bar>u * (y - x)\<bar> \<le> 255 * (1 / 1000000)" unfolding abs_mult by (rule mult_mono) (use u y(2) in auto)
  then have "\<bar>u * y - u * x\<bar> \<le> 1 / 1000" by (simp add: right_diff_distrib)
  then have uy: "256 + 9 / 10 \<le> u * y" using ux unfolding u_def by linarith
  have "0 \<le> y" using uy u by (cases "0 \<le> y") (auto simp: mult_nonneg_nonpos not_le dest: mult_nonneg_nonpos [of u y])
  moreover have "y \<le> 1001" using y(2) x by linarith
  ultimately have "u * y \<le> 255 * 1001" using u by (intro mult_mono) auto
  then have "\<bar>u * y\<bar> \<le> 2 ^ 20" using uy by simp
  then obtain p where p: "rnd (u * y) = Num p" "\<bar>p - u * y\<bar> \<le> 1 / 1000000" using rnd_small by blast
  have "\<bar>p\<bar> \<le> 255 * 1001 + 1" using p(2) uy \<open>u * y \<le> 255 * 1001\<close> by linarith
  then have "\<bar>p\<bar> \<le> 2 ^ 20" by simp
  then obtain q where q: "rnd (p + 0) = Num q" "\<bar>q - p\<bar> \<le> 1 / 1000000" using rnd_small [of p] by auto
  have ud: "of_int_d (uint v - uint (0 :: u8)) = Num u" "of_int_d (uint (0 :: u8)) = Num 0"
    using rnd_int [of "uint v"] rnd_int [of 0] uint_range_size [of v] by (simp_all add: of_int_d_def u_def word_size)
  have "between (uint (0 :: u8)) (uint v) (rnd x) = Num q"
    using ud y(1) p(1) q(1) by (simp add: between_def)
  moreover have "256 + 8 / 10 \<le> q" using q(2) p(2) uy by linarith
  then have "256 \<le> \<lfloor>q + 1 / 2\<rfloor>" by linarith
  then have "256 \<le> round_away q" using \<open>256 + 8 / 10 \<le> q\<close> by (simp add: round_away_def)
  moreover have "d_div (Num (of_int t)) (Num (of_int d)) = rnd x" using d by (simp add: x_def)
  ultimately show ?thesis by (simp add: blend8_def to_u8_def)
qed

text \<open>
  A cycle that passes a key frame goes on with the next one without looking whether that one is over
  as well: the relative time exceeds 1, the line through the two key frames is continued, and where
  it leaves the range of the channel the cast has no defined result. Fading up over \<open>d\<close>
  milliseconds, any first cycle that is late enough for the line to reach 257 does so.
\<close>

theorem late_cycle_overshoots:
  assumes "0 < d" "d < 2 ^ 40" "0 \<le> t" "t \<le> 1000 * d" "257 * d \<le> uint v * t" "active_scene w = None"
  shows "fst (cue_update lm ex (memory_at t) (fade_filter v d, w)) = Inl Undefined_behaviour"
proof -
  have "d < 2 ^ 50" "t < 2 ^ 50" using assms(2,4) by simp_all
  then show ?thesis using fade_update late_blend assms by blast
qed

theorem late_cycle_overshoots_witness:
  "fst (cue_update demo_libm (\<lambda>_. Num 1) (memory_at 102) (fade_filter 255 100, demo_cue_world\<lparr>active_scene := None\<rparr>))
     = Inl Undefined_behaviour"
  by (rule late_cycle_overshoots) simp_all

subsection \<open>The state kept over a change of the scene\<close>


























end
