(* ===== verification/Fader_Filters.thy ===== *)
theory Fader_Filters
  imports Io_Manager
begin

text \<open>
  \<^verbatim>\<open>src/src/filters/filter_fader.hpp\<close>: the filters that read a column of the control desk, one template
  over the mode of the column, and the one that reads the main fader; with them the two accessors
  of \<^verbatim>\<open>src/src/io/iomanager.hpp\<close> they use. The filter keeps a weak pointer to its column: it is a
  position of the store of the desk, expired when no bank and no index of a set holds it. The
  storage types of the five instances are one record, whose fields an instance uses as its mode
  says. An operation changes the filter and, because reading a colour may convert it, the desk.
\<close>

record fader_storage =
  st_raw :: raw_column_configuration
  st_color :: pixel
  st_amber :: u8
  st_uv :: u8
  global_main_enabled :: bool

record filter_fader =
  input_col :: "nat option"
  storage_of :: fader_storage
  first_retry :: bool
  fd_set_id :: string
  fd_column_id :: string

definition new_filter_fader :: filter_fader where
  "new_filter_fader = \<lparr>input_col = None,
     storage_of = \<lparr>st_raw = default_raw, st_color = default_pixel, st_amber = 0, st_uv = 0, global_main_enabled = True\<rparr>,
     first_retry = True, fd_set_id = [], fd_column_id = []\<rparr>"

type_synonym ('q, 'a, 'z, 'r) fader_act = "(filter_fader \<times> ('q, 'a, 'z) manager_scheme, 'r) act"

fun bank_mode_number :: "bank_mode \<Rightarrow> int" where
  "bank_mode_number HSI_COLOR_MODE = 0"
| "bank_mode_number HSI_WITH_AMBER_MODE = 2"
| "bank_mode_number HSI_WITH_UV_MODE = 3"
| "bank_mode_number HSI_WITH_AMBER_AND_UV_MODE = 4"
| "bank_mode_number DIRECT_INPUT_MODE = 1"

text \<open>The \<open>own_type\<close> of the five instances of the template.\<close>

fun fader_filter_type :: "bank_mode \<Rightarrow> int" where
  "fader_filter_type DIRECT_INPUT_MODE = 39"
| "fader_filter_type HSI_COLOR_MODE = 40"
| "fader_filter_type HSI_WITH_AMBER_MODE = 41"
| "fader_filter_type HSI_WITH_UV_MODE = 42"
| "fader_filter_type HSI_WITH_AMBER_AND_UV_MODE = 43"

subsection \<open>Access to the desk\<close>

definition access_desk_column :: "string \<Rightarrow> string \<Rightarrow> ('q, 'a, 'z) manager_scheme \<Rightarrow> nat option" where
  "access_desk_column set_id cid m = (if control_desk_handle m then find_column set_id cid m else None)"

definition main_illumination :: "('q, 'a, 'z) manager_scheme \<Rightarrow> u16" where
  "main_illumination m = (if control_desk_handle m then get_global_illumination m else 0)"

text \<open>Whether a column still has an owner.\<close>

definition owned_by :: "nat \<Rightarrow> bank_set \<Rightarrow> bool" where
  "owned_by a bs \<longleftrightarrow> list_ex (\<lambda>b. a \<in> set (bk_columns b)) (fader_banks bs) \<or> a \<in> snd ` set (columns_map bs)"

definition column_alive :: "nat \<Rightarrow> ('q, 'z) desk_scheme \<Rightarrow> bool" where
  "column_alive a d \<longleftrightarrow> list_ex (owned_by a) (bank_sets d)"

definition lock_column :: "nat option \<Rightarrow> ('q, 'z) desk_scheme \<Rightarrow> nat option" where
  "lock_column p d = (case p of None \<Rightarrow> None | Some a \<Rightarrow> if column_alive a d then Some a else None)"

definition column_at :: "nat \<Rightarrow> (filter_fader \<times> ('q, 'a, 'z) manager_scheme) \<Rightarrow> bank_column result" where
  "column_at a s = vec_at (col_store (snd s)) a"

subsection \<open>Reading the column\<close>

definition put_storage :: "(fader_storage \<Rightarrow> fader_storage) \<Rightarrow> ('q, 'a, 'z, unit) fader_act" where
  "put_storage g = modify_act (\<lambda>(f, m). (f\<lparr>storage_of := g (storage_of f)\<rparr>, m))"

definition column_color :: "libm \<Rightarrow> nat \<Rightarrow> ('q, 'a, 'z, pixel) fader_act" where
  "column_color lm a = bind_act (read_act (column_at a)) (\<lambda>c.
     bind_act (lift_act (get_color lm c)) (\<lambda>(p, c').
     bind_act (modify_act (\<lambda>(f, m). (f, m\<lparr>col_store := (col_store m)[a := c']\<rparr>))) (\<lambda>_. ret_act p)))"

definition raw_reading :: "bank_column \<Rightarrow> raw_column_configuration" where
  "raw_reading c = (let r = raw_configuration c
     in if flash_active c then r\<lparr>primary_position := 65535, secondary_position := 65535\<rparr>
        else if black_active c then r\<lparr>primary_position := 0, secondary_position := 0\<rparr> else r)"

text \<open>The brightness of the main fader, as the share of 65536.\<close>

definition main_share :: "u16 \<Rightarrow> double" where
  "main_share v = d_div (d_of_word v) (Num 65536)"

definition dim_color :: "libm \<Rightarrow> u16 \<Rightarrow> pixel \<Rightarrow> pixel result" where
  "dim_color lm v p = (let (i, p1) = getIluminance lm p in setIluminance lm (d_mul i (main_share v)) p1)"

definition read_color_column :: "libm \<Rightarrow> bank_mode \<Rightarrow> nat \<Rightarrow> ('q, 'a, 'z, unit) fader_act" where
  "read_color_column lm mode a =
     bind_act (column_color lm a) (\<lambda>p.
     bind_act (read_act (column_at a)) (\<lambda>c.
     bind_act (put_storage (\<lambda>st. st\<lparr>st_color := p,
         st_amber := (if mode \<in> {HSI_WITH_AMBER_MODE, HSI_WITH_AMBER_AND_UV_MODE} then get_amber_value c else st_amber st),
         st_uv := (if mode \<in> {HSI_WITH_UV_MODE, HSI_WITH_AMBER_AND_UV_MODE} then get_uv_value c else st_uv st)\<rparr>)) (\<lambda>_.
     bind_act (read_act (\<lambda>(f, m). Inr (global_main_enabled (storage_of f), main_illumination m))) (\<lambda>(enabled, v).
       if enabled
       then bind_act (lift_act (dim_color lm v p)) (\<lambda>q. put_storage (\<lambda>st. st\<lparr>st_color := q\<rparr>))
       else ret_act ()))))"

subsection \<open>The filter\<close>

text \<open>The condition of the code: the new column is taken when it is not in the mode of the filter.\<close>

definition reload_pointer :: "bank_mode \<Rightarrow> ('q, 'a, 'z, bool) fader_act" where
  "reload_pointer mode = (\<lambda>(f, m).
     case access_desk_column (fd_set_id f) (fd_column_id f) m of
       Some a \<Rightarrow> bind_act (read_act (column_at a)) (\<lambda>c.
         if current_bank_mode c \<noteq> mode
         then bind_act (modify_act (\<lambda>(f, m). (f\<lparr>input_col := Some a\<rparr>, m))) (\<lambda>_. ret_act True)
         else bind_act (modify_act (\<lambda>(f, m). (f\<lparr>first_retry := False\<rparr>, m))) (\<lambda>_. ret_act False)) (f, m)
     | None \<Rightarrow> (Inr False, f\<lparr>first_retry := False\<rparr>, m))"

definition fader_update :: "libm \<Rightarrow> bank_mode \<Rightarrow> ('q, 'a, 'z, unit) fader_act" where
  "fader_update lm mode = (\<lambda>(f, m).
     case lock_column (input_col f) m of
       Some a \<Rightarrow>
         (if mode = DIRECT_INPUT_MODE
          then bind_act (read_act (column_at a)) (\<lambda>c. put_storage (\<lambda>st. st\<lparr>st_raw := raw_reading c\<rparr>)) (f, m)
          else read_color_column lm mode a (f, m))
     | None \<Rightarrow> if first_retry f then bind_act (reload_pointer mode) (\<lambda>_. ret_act ()) (f, m) else (Inr (), f, m))"

definition wrong_mode_text :: "bank_mode \<Rightarrow> filter_fader \<Rightarrow> bank_column \<Rightarrow> string" where
  "wrong_mode_text mode f c = ''The requested column ('' @ fd_set_id f @ '':'' @ fd_column_id f @
     '') is not in the correct mode. Expected: '' @ dec_int (bank_mode_number mode) @ '', got: '' @
     dec_int (bank_mode_number (current_bank_mode c)) @ ''.''"

definition no_column_text :: "filter_fader \<Rightarrow> string" where
  "no_column_text f = ''The requested column '' @ quoted (fd_column_id f) @ '' in the '' @ quoted (fd_set_id f) @
     '' set does not seam to exist.''"

definition connect_fader :: "libm \<Rightarrow> bank_mode \<Rightarrow> string \<Rightarrow> ('q, 'a, 'z, unit) fader_act" where
  "connect_fader lm mode own_id = (\<lambda>(f, m).
     case access_desk_column (fd_set_id f) (fd_column_id f) m of
       Some a \<Rightarrow> bind_act (read_act (column_at a)) (\<lambda>c.
         if current_bank_mode c \<noteq> mode
         then lift_act (config_error (wrong_mode_text mode f c) (fader_filter_type mode) own_id)
         else bind_act (modify_act (\<lambda>(f, m). (f\<lparr>input_col := Some a\<rparr>, m))) (\<lambda>_. fader_update lm mode)) (f, m)
     | None \<Rightarrow> (config_error (no_column_text f) (fader_filter_type mode) own_id, f, m))"

text \<open>Without a manager, as in the unit tests, the set-up ends after the names are stored.\<close>

definition fader_setup ::
  "libm \<Rightarrow> bool \<Rightarrow> bank_mode \<Rightarrow> (string, string) omap \<Rightarrow> string \<Rightarrow> ('q, 'a, 'z, unit) fader_act" where
  "fader_setup lm has_manager mode configuration own_id =
     (case map_of configuration ''column_id'' of
        None \<Rightarrow> lift_act (config_error (''Unable to set value of fader input filter: configuration does not '' @
          ''contain column_id parameter'') (fader_filter_type mode) own_id)
      | Some cid \<Rightarrow> (case map_of configuration ''set_id'' of
          None \<Rightarrow> lift_act (config_error (''Unable to set value of fader input filter: configuration does not '' @
            ''contain set_id parameter'') (fader_filter_type mode) own_id)
        | Some sid \<Rightarrow>
            bind_act (modify_act (\<lambda>(f, m). (f\<lparr>fd_set_id := sid, fd_column_id := cid\<rparr>, m))) (\<lambda>_.
            if \<not> has_manager then ret_act ()
            else bind_act (connect_fader lm mode own_id) (\<lambda>_.
              if mode \<noteq> DIRECT_INPUT_MODE \<and> map_of configuration ''ignore_main_brightness_control'' = Some ''true''
              then put_storage (\<lambda>st. st\<lparr>global_main_enabled := False\<rparr>) else ret_act ()))))"

definition rename_column :: "string \<Rightarrow> string \<Rightarrow> filter_fader \<Rightarrow> filter_fader option" where
  "rename_column key value f =
     (if key = ''set'' then Some (f\<lparr>fd_set_id := value\<rparr>)
      else if key = ''column'' then Some (f\<lparr>fd_column_id := value\<rparr>) else None)"

definition fader_receive :: "bank_mode \<Rightarrow> string \<Rightarrow> string \<Rightarrow> ('q, 'a, 'z, bool) fader_act" where
  "fader_receive mode key value = (\<lambda>(f, m). case rename_column key value f of
      None \<Rightarrow> (Inr False, f, m)
    | Some f' \<Rightarrow>
        bind_act (reload_pointer mode) (\<lambda>reloaded.
        bind_act (modify_act (\<lambda>(g, m).
          ((if \<not> reloaded \<and> lock_column (input_col g) m \<noteq> None
            then g\<lparr>fd_column_id := fd_column_id f, fd_set_id := fd_set_id f\<rparr> else g)\<lparr>first_retry := True\<rparr>, m)))
        (\<lambda>_. ret_act True)) (f', m))"

definition fader_activated :: "filter_fader \<Rightarrow> filter_fader" where
  "fader_activated f = f\<lparr>first_retry := True\<rparr>"

definition publish_color :: "nat \<Rightarrow> string \<Rightarrow> addr channel_mapping \<Rightarrow> addr channel_mapping" where
  "publish_color i name cm = cm\<lparr>color_channels := om_update (name @ '':color'') (i, 0) (color_channels cm)\<rparr>"

definition fader_outputs :: "bank_mode \<Rightarrow> nat \<Rightarrow> string \<Rightarrow> addr channel_mapping \<Rightarrow> addr channel_mapping" where
  "fader_outputs mode i name cm = (case mode of
      DIRECT_INPUT_MODE \<Rightarrow> ck_publish kind16 (name @ '':secondary'') (i, 1) (ck_publish kind16 (name @ '':primary'') (i, 0) cm)
    | HSI_COLOR_MODE \<Rightarrow> publish_color i name cm
    | HSI_WITH_AMBER_MODE \<Rightarrow> ck_publish kind8 (name @ '':amber'') (i, 1) (publish_color i name cm)
    | HSI_WITH_UV_MODE \<Rightarrow> ck_publish kind8 (name @ '':uv'') (i, 2) (publish_color i name cm)
    | HSI_WITH_AMBER_AND_UV_MODE \<Rightarrow> ck_publish kind8 (name @ '':uv'') (i, 2)
        (ck_publish kind8 (name @ '':amber'') (i, 1) (publish_color i name cm)))"

subsection \<open>The main fader\<close>

record filter_main_brightness =
  mb_storage :: u16

definition main_brightness_update :: "('q, 'a, 'z) manager_scheme \<Rightarrow> filter_main_brightness \<Rightarrow> filter_main_brightness" where
  "main_brightness_update m f = f\<lparr>mb_storage := main_illumination m\<rparr>"

definition main_brightness_outputs :: "nat \<Rightarrow> string \<Rightarrow> addr channel_mapping \<Rightarrow> addr channel_mapping" where
  "main_brightness_outputs i name = ck_publish kind16 (name @ '':brightness'') (i, 0)"

end
