(* ===== verification/Fader_Ok.thy ===== *)
theory Fader_Ok
  imports Fader_Filters Manager_Ok
begin

text \<open>
  What the fader filters promise: the outputs follow the column while it exists, and what becomes
  of a filter whose column is replaced.
\<close>

subsection \<open>What a fader shows\<close>





lemma dim_color_illuminance:
  "dim_color lm v p = Inr q \<Longrightarrow> iluminance q = clamp_set (d_mul (fst (getIluminance lm p)) (main_share v))"
  by (auto simp: dim_color_def setIluminance_def dest!: convert_hsi_keeps split: prod.splits)



lemma main_illumination_columns [simp]: "main_illumination (m\<lparr>col_store := cs\<rparr>) = main_illumination m"
  by (simp add: main_illumination_def get_global_illumination_def)



definition show_with_desk :: "(u8 list list, string) manager" where
  "show_with_desk = demo_manager None\<lparr>control_desk_handle := True\<rparr>"


lemma show_with_desk_simps [simp]:
  "control_desk_handle show_with_desk = True" "bank_sets show_with_desk = [demo_set]"
  "bankset_to_index_map show_with_desk = [(''s'', 0)]" "length (col_store show_with_desk) = 3"
  "col_store show_with_desk ! 0 = (new_bank_column 0 DIRECT_INPUT_MODE ''a'' 0)\<lparr>active_on_device := True\<rparr>"
  by (simp_all add: show_with_desk_def demo_manager_def new_manager_def demo_desk_def desk.defs)



text \<open>
  A colour fader never lets the full illuminance through: with the main fader at its highest
  position the colour of a flashing column comes out with an illuminance below 1, because the
  position of at most 65535 is divided by 65536.
\<close>

theorem full_main_fader_dims:
  assumes "dim_color lm v p = Inr q" and "fst (getIluminance lm p) = Num 1"
  shows "iluminance q = Num (real (unat v) / 65536) \<and> real (unat v) / 65536 < 1"
proof -
  have b: "real (unat v) \<le> 65535" "0 \<le> real (unat v)" using real_unat_u16_le [of v] by simp_all
  have e: "real (unat v) / 65536 = of_int (int (unat v)) * 2 powi (- 16)" using powi_minus [of 16] by simp
  have "int (unat v) \<le> 65535" using b(1) by linarith
  then have small: "\<bar>int (unat v)\<bar> < 2 ^ 53" by simp
  have r: "rnd (real (unat v) / 65536) = Num (real (unat v) / 65536)"
  proof -
    have "\<bar>real_of_int (int (unat v)) * 2 powi (- 16)\<bar> < 2 ^ 1024"
      by (rule le_less_trans [of _ 1]) (use b in \<open>auto simp: e [symmetric] one_less_power\<close>)
    from rnd_scaled_less [OF small _ this] show ?thesis unfolding e by simp
  qed
  define x where "x = real (unat v)"
  have "d_of_word v = Num x" by (simp add: d_of_word_Num x_def)
  then have "d_mul (Num 1) (main_share v) = Num (x / 65536)" using r [folded x_def] by (simp add: main_share_def)
  then have "iluminance q = Num (x / 65536) \<and> x / 65536 < 1"
    using dim_color_illuminance [OF assms(1)] assms(2) b [folded x_def] by (simp add: clamp_set_def)
  then show ?thesis by (simp only: x_def)
qed

subsection \<open>A column that was replaced\<close>



end
