(* ===== verification/Color_Mixers.thy ===== *)
theory Color_Mixers
  imports Filter_Base Actions
begin

text \<open>
  The three filters that mix the colours of their inputs (\<^verbatim>\<open>src/src/filters/filter_color_mixer.hpp\<close>,
  \<^verbatim>\<open>filter_color_mixer_add_rgb.cpp\<close>, \<^verbatim>\<open>filter_color_mixer_norm_rgb.cpp\<close>, \<^verbatim>\<open>filter_color_mixer_hsv.cpp\<close>): they share
  their set-up and differ in the update. A getter may convert the colour of an input where it is
  stored; a converted colour is read as the same colour again (\<open>convert_again\<close>), so the update
  reads the memory and leaves it alone.
\<close>

record color_mixer =
  mix_inputs :: "addr list"
  reduce_saturation_on_far_angles :: bool
  mix_output :: pixel

definition new_color_mixer :: color_mixer where
  "new_color_mixer = \<lparr>mix_inputs = [], reduce_saturation_on_far_angles = False, mix_output = default_pixel\<rparr>"

definition mixer_outputs :: "libm \<Rightarrow> nat \<Rightarrow> string \<Rightarrow> addr channel_mapping \<Rightarrow> addr channel_mapping" where
  "mixer_outputs lm i name = ck_publish (kindc lm) (name @ '':value'') (i, 0)"

definition link_color :: "libm \<Rightarrow> int \<Rightarrow> int \<Rightarrow> addr channel_mapping \<Rightarrow> string \<Rightarrow> nat \<Rightarrow> (color_mixer, unit) act" where
  "link_color lm own_type input_count cm own_id i =
     bind_act (lift_act (link_input (kindc lm) cm (dec i) (''Unable to link input channel number '' @ dec i @
       ''. Hint: input_count is configured to '' @ dec_int input_count) own_type own_id))
       (\<lambda>a. modify_act (\<lambda>f. f\<lparr>mix_inputs := mix_inputs f @ [a]\<rparr>))"

text \<open>Reserving room for a negative number of inputs throws \<open>std::length_error\<close>.\<close>

definition link_colors :: "libm \<Rightarrow> int \<Rightarrow> string \<Rightarrow> addr channel_mapping \<Rightarrow> string \<Rightarrow> (color_mixer, unit) act" where
  "link_colors lm own_type count cm own_id =
     bind_act (lift_act (stoi count)) (\<lambda>n.
       if n < 0 then throw_act (Length_error ''vector::reserve'')
       else for_act (link_color lm own_type n cm own_id) [0..<nat n])"

definition rgb_mixer_setup ::
  "libm \<Rightarrow> int \<Rightarrow> (string, string) omap \<Rightarrow> addr channel_mapping \<Rightarrow> string \<Rightarrow> (color_mixer, unit) act" where
  "rgb_mixer_setup lm own_type configuration cm own_id = (case map_of configuration ''input_count'' of
      None \<Rightarrow> ret_act ()
    | Some count \<Rightarrow> link_colors lm own_type count cm own_id)"

definition add_rgb_setup ::
  "libm \<Rightarrow> (string, string) omap \<Rightarrow> addr channel_mapping \<Rightarrow> string \<Rightarrow> (color_mixer, unit) act" where
  "add_rgb_setup lm = rgb_mixer_setup lm 60"

definition norm_rgb_setup ::
  "libm \<Rightarrow> (string, string) omap \<Rightarrow> addr channel_mapping \<Rightarrow> string \<Rightarrow> (color_mixer, unit) act" where
  "norm_rgb_setup lm = rgb_mixer_setup lm 61"

definition hsv_setup ::
  "libm \<Rightarrow> (string, string) omap \<Rightarrow> (string, string) omap \<Rightarrow> addr channel_mapping \<Rightarrow> string \<Rightarrow> (color_mixer, unit) act" where
  "hsv_setup lm configuration initial_parameters cm own_id = (case map_of configuration ''input_count'' of
      None \<Rightarrow> ret_act ()
    | Some count \<Rightarrow>
        bind_act (case map_of initial_parameters ''reduce_saturation_on_far_angles'' of
            None \<Rightarrow> ret_act ()
          | Some v \<Rightarrow> if v \<noteq> ''false'' then modify_act (\<lambda>f. f\<lparr>reduce_saturation_on_far_angles := True\<rparr>) else ret_act ())
          (\<lambda>_. link_colors lm 59 count cm own_id))"

subsection \<open>Adding\<close>

definition rgb_of :: "libm \<Rightarrow> pixel \<Rightarrow> ((u16 \<times> u16 \<times> u16) \<times> pixel) result" where
  "rgb_of lm p =
     bind_res (getRed lm p) (\<lambda>(r, p1).
     bind_res (getGreen lm p1) (\<lambda>(g, p2).
     bind_res (getBlue lm p2) (\<lambda>(b, p3). Inr ((r, g, b), p3))))"

definition set_rgb :: "libm \<Rightarrow> u16 \<Rightarrow> u16 \<Rightarrow> u16 \<Rightarrow> pixel \<Rightarrow> pixel result" where
  "set_rgb lm r g b p =
     bind_res (setRed lm r p) (\<lambda>p1. bind_res (setGreen lm g p1) (\<lambda>p2. setBlue lm b p2))"

definition add_input ::
  "libm \<Rightarrow> memory \<Rightarrow> addr \<Rightarrow> double \<times> double \<times> double \<Rightarrow> (double \<times> double \<times> double) result" where
  "add_input lm m a = (\<lambda>(r, g, b). bind_res (rgb_of lm (rdc m a)) (\<lambda>((r2, g2, b2), _).
     Inr (d_add r (d_of_word r2), d_add g (d_of_word g2), d_add b (d_of_word b2))))"

definition capped :: "double \<Rightarrow> u16 result" where
  "capped x = bind_res (to_unsigned 16 (if d_lt (Num 65535) x then Num 65535 else x)) (\<lambda>n. Inr (of_nat n))"

definition add_rgb_update :: "libm \<Rightarrow> memory \<Rightarrow> color_mixer \<Rightarrow> color_mixer result" where
  "add_rgb_update lm m f =
     bind_res (fold_res (add_input lm m) (mix_inputs f) (Num 0, Num 0, Num 0)) (\<lambda>(r, g, b).
     bind_res (capped r) (\<lambda>r16. bind_res (capped g) (\<lambda>g16. bind_res (capped b) (\<lambda>b16.
     bind_res (set_rgb lm r16 g16 b16 (mix_output f)) (\<lambda>p. Inr (f\<lparr>mix_output := p\<rparr>))))))"

subsection \<open>Adding as vectors\<close>

text \<open>\<open>uint16_t\<close> is promoted to \<open>int\<close>: its square may be too large for it.\<close>

definition square_int :: "u16 \<Rightarrow> double result" where
  "square_int v = (if int (unat v) * int (unat v) \<le> 2147483647
     then Inr (of_int_d (int (unat v) * int (unat v))) else Inl Undefined_behaviour)"

type_synonym norm_sums = "double \<times> double \<times> double \<times> double"

definition norm_step :: "libm \<Rightarrow> pixel \<Rightarrow> norm_sums \<Rightarrow> norm_sums result" where
  "norm_step lm color = (\<lambda>(r, g, b, i). bind_res (rgb_of lm color) (\<lambda>((r2, g2, b2), p).
     bind_res (square_int r2) (\<lambda>rr. bind_res (square_int g2) (\<lambda>gg. bind_res (square_int b2) (\<lambda>bb.
       Inr (d_add r rr, d_add g gg, d_add b bb, std_max i (fst (getIluminance lm p))))))))"

definition norm_channel :: "double \<Rightarrow> double \<Rightarrow> double \<Rightarrow> u16 result" where
  "norm_channel x vlen i =
     bind_res (to_unsigned 16 (d_mul (d_mul (d_div x vlen) (Num 65535)) i)) (\<lambda>n. Inr (of_nat n))"

definition norm_output :: "libm \<Rightarrow> norm_sums \<Rightarrow> pixel \<Rightarrow> pixel result" where
  "norm_output lm = (\<lambda>(rr, gg, bb, ii) out.
     let r = d_sqrt rr; g = d_sqrt gg; b = d_sqrt bb; i = std_min ii (Num 1);
         vlen = d_sqrt (d_add (d_add (d_mul r r) (d_mul g g)) (d_mul b b))
     in bind_res (norm_channel r vlen i) (\<lambda>r16. bind_res (setRed lm r16 out) (\<lambda>p1.
        bind_res (norm_channel g vlen i) (\<lambda>g16. bind_res (setGreen lm g16 p1) (\<lambda>p2.
        bind_res (norm_channel b vlen i) (\<lambda>b16. setBlue lm b16 p2))))))"

definition norm_rgb_update :: "libm \<Rightarrow> memory \<Rightarrow> color_mixer \<Rightarrow> color_mixer result" where
  "norm_rgb_update lm m f =
     bind_res (fold_res (\<lambda>a. norm_step lm (rdc m a)) (mix_inputs f) (Num 0, Num 0, Num 0, Num 0)) (\<lambda>acc.
     bind_res (norm_output lm acc (mix_output f)) (\<lambda>p. Inr (f\<lparr>mix_output := p\<rparr>)))"

subsection \<open>Mixing hue, saturation and illuminance\<close>

definition hue_difference :: "double \<Rightarrow> double \<Rightarrow> double" where
  "hue_difference h1 h2 = d_sub (d_fmod (d_add (d_add (d_sub h1 h2) (Num 180)) (Num 360)) (Num 360)) (Num 180)"

definition mix_hsv :: "libm \<Rightarrow> bool \<Rightarrow> pixel \<Rightarrow> pixel \<Rightarrow> pixel result" where
  "mix_hsv lm far input out =
     (let (h1, o1) = getHue lm out; (h2, q) = getHue lm input;
          hue_diff = hue_difference h1 h2
      in bind_res (setHue lm (d_fmod (d_add (d_add (Num 360) h2) (d_div hue_diff (Num 2))) (Num 360)) o1) (\<lambda>o2.
         let reduction = (if far \<and> d_lt (Num 45) hue_diff then d_div hue_diff (Num 360) else Num 0);
             (s1, o3) = getSaturation lm o2; (s2, q2) = getSaturation lm q
         in bind_res (setSaturation lm (d_div (d_sub (d_add s1 s2) reduction) (Num 2)) o3) (\<lambda>o4.
            let (i1, o5) = getIluminance lm o4; (i2, _) = getIluminance lm q2
            in setIluminance lm (d_div (d_add (d_add i1 i2) (d_div reduction (Num 2))) (Num 2)) o5)))"

definition hsv_update :: "libm \<Rightarrow> memory \<Rightarrow> color_mixer \<Rightarrow> color_mixer result" where
  "hsv_update lm m f = (case mix_inputs f of
      [] \<Rightarrow> Inr f
    | a # rest \<Rightarrow>
        bind_res (fold_res (\<lambda>x. mix_hsv lm (reduce_saturation_on_far_angles f) (rdc m x)) rest (rdc m a))
          (\<lambda>p. Inr (f\<lparr>mix_output := p\<rparr>)))"

subsection \<open>Reading a colour twice\<close>

lemma convert_again:
  "convert_hsi_to_rgb_pre lm p = Inr p' \<Longrightarrow> convert_hsi_to_rgb_pre lm p' = Inr p'"
  by (auto simp: convert_hsi_to_rgb_pre_def convert_hsi_to_rgb_def bind_res_Inr_iff pixel_to_rgb16_def rgb_invalid_def
      Let_def split: if_splits)

subsection \<open>Adding saturates\<close>

text \<open>The channels of a colour that can be read without a conversion that is undefined.\<close>

definition channels_of :: "libm \<Rightarrow> pixel \<Rightarrow> (u16 \<times> u16 \<times> u16) option" where
  "channels_of lm p = (case rgb_of lm p of Inr (c, _) \<Rightarrow> Some c | Inl _ \<Rightarrow> None)"

definition readable :: "libm \<Rightarrow> memory \<Rightarrow> addr \<Rightarrow> bool" where
  "readable lm m a \<longleftrightarrow> channels_of lm (rdc m a) \<noteq> None"

definition input_red :: "libm \<Rightarrow> memory \<Rightarrow> addr \<Rightarrow> nat" where
  "input_red lm m a = unat (fst (the (channels_of lm (rdc m a))))"

definition input_green :: "libm \<Rightarrow> memory \<Rightarrow> addr \<Rightarrow> nat" where
  "input_green lm m a = unat (fst (snd (the (channels_of lm (rdc m a)))))"

definition input_blue :: "libm \<Rightarrow> memory \<Rightarrow> addr \<Rightarrow> nat" where
  "input_blue lm m a = unat (snd (snd (the (channels_of lm (rdc m a)))))"

lemmas input_defs = input_red_def input_green_def input_blue_def

lemma readableE:
  assumes "readable lm m a"
  obtains r g b p where "rgb_of lm (rdc m a) = Inr ((r, g, b), p)" "channels_of lm (rdc m a) = Some (r, g, b)"
  using assms by (auto simp: readable_def channels_of_def split: sum.splits)

lemma d_add_count:
  "n + unat v < 2 ^ 53 \<Longrightarrow> d_add (Num (of_nat n)) (d_of_word (v :: u16)) = Num (of_nat (n + unat v))"
proof -
  assume "n + unat v < 2 ^ 53"
  then have "rnd (of_nat (n + unat v)) = Num (of_nat (n + unat v))" by (rule rnd_nat)
  moreover have "d_of_word v = Num (of_nat (unat v))" by (rule d_of_word_Num) simp
  ultimately show ?thesis by (simp only: d_add.simps of_nat_add)
qed

lemma u16_le: "unat (v :: u16) \<le> 65535"
  using unsigned_less [of v, where ?'a = nat] by simp

lemma input_bounds: "input_red lm m a \<le> 65535" "input_green lm m a \<le> 65535" "input_blue lm m a \<le> 65535"
  by (simp_all add: input_defs u16_le)

lemma add_inputs:
  assumes "\<forall>a \<in> set as. readable lm m a" and "max (max r g) b + length as * 65535 < 2 ^ 53"
  shows "fold_res (add_input lm m) as (Num (of_nat r), Num (of_nat g), Num (of_nat b))
    = Inr (Num (of_nat (r + sum_list (map (input_red lm m) as))), Num (of_nat (g + sum_list (map (input_green lm m) as))),
           Num (of_nat (b + sum_list (map (input_blue lm m) as))))"
  using assms
proof (induction as arbitrary: r g b)
  case (Cons a as)
  obtain r2 g2 b2 p where p: "rgb_of lm (rdc m a) = Inr ((r2, g2, b2), p)" "channels_of lm (rdc m a) = Some (r2, g2, b2)"
    using Cons.prems(1) by (auto elim: readableE)
  have in_a: "input_red lm m a = unat r2" "input_green lm m a = unat g2" "input_blue lm m a = unat b2"
    by (simp_all add: input_defs p(2))
  have le: "unat r2 \<le> 65535" "unat g2 \<le> 65535" "unat b2 \<le> 65535"
    using input_bounds [of lm m a] by (simp_all add: in_a)
  have "add_input lm m a (Num (of_nat r), Num (of_nat g), Num (of_nat b))
      = Inr (Num (of_nat (r + unat r2)), Num (of_nat (g + unat g2)), Num (of_nat (b + unat b2)))"
    using le Cons.prems(2) by (simp add: add_input_def p(1) d_add_count del: of_nat_add)
  moreover have "max (max (r + unat r2) (g + unat g2)) (b + unat b2) + length as * 65535 < 2 ^ 53"
    using Cons.prems(2) le by simp
  ultimately show ?case using Cons.IH [of "r + unat r2" "g + unat g2" "b + unat b2"] Cons.prems(1)
    by (simp add: in_a add.assoc)
qed simp

lemma capped_count: "capped (Num (of_nat n)) = Inr (of_nat (min n 65535))"
  using trunc_real_nat [of 65535] by (auto simp: capped_def min_def)

lemma rnd_zero: "rnd 0 = Num 0"
  by (simp add: rnd_def)

lemma new_rgb_valid: "\<not> rgb_invalid (convert_rgb_to_hsi_pre lm (invalidate_hsi p))"
  by (auto simp: rgb_invalid_def convert_rgb_to_hsi_pre_def convert_rgb_to_hsi_def invalidate_hsi_def hsi_invalid_def
      d_of_word_Num Let_def rnd_zero)

lemma convert_hsi_keeps_rgb:
  "red (convert_rgb_to_hsi_pre lm p) = red p" "green (convert_rgb_to_hsi_pre lm p) = green p"
  "blue (convert_rgb_to_hsi_pre lm p) = blue p"
  by (simp_all add: convert_rgb_to_hsi_pre_def convert_rgb_to_hsi_def Let_def)

text \<open>Setting one channel of a valid colour keeps the others.\<close>

lemma set_channel:
  assumes "\<not> rgb_invalid p"
  shows "\<exists>q. setRed lm v p = Inr q \<and> red q = v \<and> green q = green p \<and> blue q = blue p \<and> \<not> rgb_invalid q"
    and "\<exists>q. setGreen lm v p = Inr q \<and> red q = red p \<and> green q = v \<and> blue q = blue p \<and> \<not> rgb_invalid q"
    and "\<exists>q. setBlue lm v p = Inr q \<and> red q = red p \<and> green q = green p \<and> blue q = v \<and> \<not> rgb_invalid q"
proof -
  have "invalidate_hsi (p\<lparr>red := v\<rparr>) = (invalidate_hsi p)\<lparr>red := v\<rparr>" "invalidate_hsi (p\<lparr>green := v\<rparr>) = (invalidate_hsi p)\<lparr>green := v\<rparr>"
    "invalidate_hsi (p\<lparr>blue := v\<rparr>) = (invalidate_hsi p)\<lparr>blue := v\<rparr>" by (simp_all add: invalidate_hsi_def)
  note i = this [symmetric]
  show "\<exists>q. setRed lm v p = Inr q \<and> red q = v \<and> green q = green p \<and> blue q = blue p \<and> \<not> rgb_invalid q"
    "\<exists>q. setGreen lm v p = Inr q \<and> red q = red p \<and> green q = v \<and> blue q = blue p \<and> \<not> rgb_invalid q"
    "\<exists>q. setBlue lm v p = Inr q \<and> red q = red p \<and> green q = green p \<and> blue q = v \<and> \<not> rgb_invalid q"
    using assms by (simp_all add: setRed_def setGreen_def setBlue_def convert_hsi_to_rgb_pre_def i new_rgb_valid
      convert_hsi_keeps_rgb) (simp_all add: invalidate_hsi_def)
qed

lemma set_rgb_result:
  assumes "\<not> rgb_invalid p"
  shows "\<exists>q. set_rgb lm r g b p = Inr q \<and> red q = r \<and> green q = g \<and> blue q = b \<and> \<not> rgb_invalid q"
proof -
  obtain p1 where 1: "setRed lm r p = Inr p1" "red p1 = r" "\<not> rgb_invalid p1" using set_channel(1) [OF assms] by blast
  obtain p2 where 2: "setGreen lm g p1 = Inr p2" "red p2 = r" "green p2 = g" "\<not> rgb_invalid p2"
    using set_channel(2) [OF 1(3), of lm g] 1(2) by blast
  show ?thesis using set_channel(3) [OF 2(4), of lm b] by (auto simp: set_rgb_def 1 2)
qed

text \<open>
  C27. The additive mixer always gives a colour, whose red, green and blue are the sums of the
  inputs' channels, or 65535 where the sum is larger; nothing wraps around, and the new output
  can be read as it is (the update can be repeated). This needs that the inputs can be read, and
  at most as many inputs as an \<open>int\<close> can count.
\<close>

theorem additive_mixer_saturates:
  assumes "\<forall>a \<in> set (mix_inputs f). readable lm m a" and "length (mix_inputs f) < 2 ^ 31"
    and "\<not> rgb_invalid (mix_output f)"
  shows "\<exists>p. add_rgb_update lm m f = Inr (f\<lparr>mix_output := p\<rparr>) \<and> \<not> rgb_invalid p
     \<and> unat (red p) = min (sum_list (map (input_red lm m) (mix_inputs f))) 65535
     \<and> unat (green p) = min (sum_list (map (input_green lm m) (mix_inputs f))) 65535
     \<and> unat (blue p) = min (sum_list (map (input_blue lm m) (mix_inputs f))) 65535"
proof -
  have small: "max (max 0 0) 0 + length (mix_inputs f) * 65535 < 2 ^ 53" using assms(2) by simp
  note sums = add_inputs [OF assms(1) small]
  have u: "unat (of_nat (min n 65535) :: u16) = min n 65535" for n by (simp add: unat_of_nat)
  let ?c = "\<lambda>channel. of_nat (min (sum_list (map (channel lm m) (mix_inputs f))) 65535) :: u16"
  obtain p where "set_rgb lm (?c input_red) (?c input_green) (?c input_blue) (mix_output f) = Inr p"
    "red p = ?c input_red" "green p = ?c input_green" "blue p = ?c input_blue" "\<not> rgb_invalid p"
    using set_rgb_result [OF assms(3)] by metis
  then show ?thesis using sums by (intro exI [of _ p]) (simp add: add_rgb_update_def capped_count u)
qed

definition white_memory :: "u16 \<Rightarrow> memory" where
  "white_memory v = \<lparr>rd8 = (\<lambda>_. 0), rd16 = (\<lambda>_. 0), rdf = (\<lambda>_. Num 0),
     rdc = (\<lambda>_. default_pixel\<lparr>red := v, green := v, blue := v\<rparr>)\<rparr>"

lemma white_channels [simp]: "channels_of lm (rdc (white_memory v) a) = Some (v, v, v)"
  by (simp add: channels_of_def rgb_of_def white_memory_def getRed_def getGreen_def getBlue_def
      convert_hsi_to_rgb_pre_def rgb_invalid_def default_pixel_def)

definition two_inputs :: color_mixer where
  "two_inputs = new_color_mixer\<lparr>mix_inputs := [(0, 0), (1, 0)]\<rparr>"

theorem additive_mixer_saturates_witness:
  "\<exists>p. add_rgb_update demo_libm (white_memory 40000) two_inputs = Inr (two_inputs\<lparr>mix_output := p\<rparr>) \<and> unat (red p) = 65535"
proof -
  have "\<exists>p. add_rgb_update demo_libm (white_memory 40000) two_inputs = Inr (two_inputs\<lparr>mix_output := p\<rparr>) \<and> \<not> rgb_invalid p
     \<and> unat (red p) = min (sum_list (map (input_red demo_libm (white_memory 40000)) (mix_inputs two_inputs))) 65535
     \<and> unat (green p) = min (sum_list (map (input_green demo_libm (white_memory 40000)) (mix_inputs two_inputs))) 65535
     \<and> unat (blue p) = min (sum_list (map (input_blue demo_libm (white_memory 40000)) (mix_inputs two_inputs))) 65535"
    by (rule additive_mixer_saturates)
       (simp_all add: readable_def two_inputs_def new_color_mixer_def rgb_invalid_def default_pixel_def)
  then show ?thesis by (auto simp: two_inputs_def input_defs)
qed

subsection \<open>Where the normative mixer is undefined\<close>

definition too_bright :: "libm \<Rightarrow> memory \<Rightarrow> addr \<Rightarrow> bool" where
  "too_bright lm m a \<longleftrightarrow> 46340 < max (max (input_red lm m a) (input_green lm m a)) (input_blue lm m a)"

lemma square_int_cases: "square_int v = (if unat v \<le> 46340 then Inr (of_int_d (int (unat v * unat v))) else Inl Undefined_behaviour)"
proof (cases "unat v \<le> 46340")
  case True
  then have "unat v * unat v \<le> 46340 * 46340" by (rule mult_le_mono) (use True in simp)
  then have "int (unat v * unat v) \<le> 2147483647" by linarith
  then show ?thesis using True by (simp add: square_int_def)
next
  case False
  then have "46341 * 46341 \<le> unat v * unat v" by (intro mult_le_mono) linarith+
  then have "\<not> int (unat v * unat v) \<le> 2147483647" by linarith
  then show ?thesis using False by (simp add: square_int_def)
qed

lemma norm_inputs_overflow:
  assumes "\<forall>a \<in> set as. readable lm m a" and "\<exists>a \<in> set as. too_bright lm m a"
  shows "fold_res (\<lambda>a. norm_step lm (rdc m a)) as acc = Inl Undefined_behaviour"
  using assms
proof (induction as arbitrary: acc)
  case (Cons a as)
  obtain r g b i where acc: "acc = (r, g, b, i)" by (cases acc) auto
  obtain r2 g2 b2 p where p: "rgb_of lm (rdc m a) = Inr ((r2, g2, b2), p)" "channels_of lm (rdc m a) = Some (r2, g2, b2)"
    using Cons.prems(1) by (auto elim: readableE)
  show ?case
  proof (cases "too_bright lm m a")
    case True
    then show ?thesis by (auto simp: norm_step_def acc p too_bright_def input_defs square_int_cases)
  next
    case False
    then have "\<exists>a \<in> set as. too_bright lm m a" using Cons.prems(2) by auto
    with False show ?thesis using Cons.IH Cons.prems(1)
      by (auto simp: norm_step_def acc p too_bright_def input_defs square_int_cases)
  qed
qed simp

lemma norm_inputs_black:
  assumes "\<forall>a \<in> set as. channels_of lm (rdc m a) = Some (0, 0, 0)"
  shows "\<exists>i'. fold_res (\<lambda>a. norm_step lm (rdc m a)) as (Num 0, Num 0, Num 0, i) = Inr (Num 0, Num 0, Num 0, i')"
  using assms
proof (induction as arbitrary: i)
  case (Cons a as)
  then obtain p where p: "rgb_of lm (rdc m a) = Inr ((0, 0, 0), p)" by (auto simp: channels_of_def split: sum.splits)
  show ?case using Cons.IH Cons.prems
    by (simp add: norm_step_def p square_int_cases of_int_d_def rnd_zero)
qed simp

text \<open>
  The normative mixer is undefined on common inputs: when a channel of a colour is above
  46340 its square does not fit into the \<open>int\<close> it is computed in, and when all inputs are black
  (or there is none) a division of zero by zero is converted to an integer. This holds in whatever
  state the mixer is and whatever the other inputs are.
\<close>

theorem normative_mixer_undefined:
  assumes "\<forall>a \<in> set (mix_inputs f). readable lm m a"
    and "(\<exists>a \<in> set (mix_inputs f). too_bright lm m a)
      \<or> (\<forall>a \<in> set (mix_inputs f). channels_of lm (rdc m a) = Some (0, 0, 0))"
  shows "norm_rgb_update lm m f = Inl Undefined_behaviour"
  using assms(2)
proof
  assume "\<exists>a \<in> set (mix_inputs f). too_bright lm m a"
  from norm_inputs_overflow [OF assms(1) this] show ?thesis by (simp add: norm_rgb_update_def)
next
  assume "\<forall>a \<in> set (mix_inputs f). channels_of lm (rdc m a) = Some (0, 0, 0)"
  from norm_inputs_black [OF this] obtain i where
    "fold_res (\<lambda>a. norm_step lm (rdc m a)) (mix_inputs f) (Num 0, Num 0, Num 0, Num 0) = Inr (Num 0, Num 0, Num 0, i)" by blast
  then show ?thesis by (simp add: norm_rgb_update_def norm_output_def Let_def norm_channel_def rnd_zero)
qed

theorem normative_mixer_undefined_witness:
  "norm_rgb_update demo_libm (white_memory 46341) two_inputs = Inl Undefined_behaviour
   \<and> norm_rgb_update demo_libm (white_memory 0) two_inputs = Inl Undefined_behaviour"
  by (intro conjI normative_mixer_undefined)
     (auto simp: two_inputs_def new_color_mixer_def readable_def too_bright_def input_defs)

end
