(* ===== verification/Sequencer_Channel.thy ===== *)
theory Sequencer_Channel
  imports Color_Mixers Utils
begin

text \<open>
  Key frames, their queues and the channels of the sequencer (\<^verbatim>\<open>src/src/filters/sequencer/keyframe.hpp\<close>,
  \<^verbatim>\<open>keyframe.cpp\<close>, \<^verbatim>\<open>frame_queue.hpp\<close>, \<^verbatim>\<open>channel.hpp\<close>, \<^verbatim>\<open>channel.cpp\<close>). A template over the type of the
  values is a definition over a record \<open>seq_kind\<close> with the code that depends on the type. The
  loop over a queue need not end: it is a partial function whose value None says that it does
  not. An unordered map is a list sorted by its keys. \<open>std::exp\<close> is a parameter.
\<close>

type_synonym sequencer_time_t = double

datatype transition_t = EDGE | LINEAR | SIGMOIDAL | EASE_IN | EASE_OUT

definition stotransition :: "string \<Rightarrow> transition_t result" where
  "stotransition s = (let s_upper = toupper s in
     if s_upper = ''EDG'' then Inr EDGE else if s_upper = ''LIN'' then Inr LINEAR
     else if s_upper = ''SIG'' then Inr SIGMOIDAL else if s_upper = ''E_I'' then Inr EASE_IN
     else if s_upper = ''E_O'' then Inr EASE_OUT
     else Inl (Invalid_argument (''Expected transition description instead of '' @ quoted s @ ''.'')))"

subsection \<open>Key frames\<close>

record 'v keyframe =
  fr_value :: 'v
  fr_transition :: transition_t
  fr_duration :: sequencer_time_t

definition compute_interleave_point ::
  "(double \<Rightarrow> double) \<Rightarrow> 'v keyframe \<Rightarrow> sequencer_time_t \<Rightarrow> double \<Rightarrow> double" where
  "compute_interleave_point ex fr elapsed_time time_scale =
     (let scaled = d_mul elapsed_time time_scale; adv = d_div scaled (fr_duration fr)
      in case fr_transition fr of
        LINEAR \<Rightarrow> std_min (std_max adv (Num 0)) (Num 1)
      | EDGE \<Rightarrow> if d_le (fr_duration fr) (d_add scaled (Num 40)) then Num 1 else Num 0
      | SIGMOIDAL \<Rightarrow> d_div (d_sub (ex adv) (Num 1)) (d_sub (ex (Num 1)) (Num 1))
      | EASE_IN \<Rightarrow> d_mul adv adv
      | EASE_OUT \<Rightarrow> d_sub (Num 1) (d_mul (d_sub (Num 1) adv) (d_sub (Num 1) adv)))"

text \<open>The code of the templates that depends on the type of the values.\<close>

record 'v seq_kind =
  sk_mix :: "'v \<Rightarrow> 'v \<Rightarrow> double \<Rightarrow> 'v result"
  sk_average :: "'v list \<Rightarrow> 'v \<Rightarrow> 'v result"
  sk_max :: "'v list \<Rightarrow> 'v \<Rightarrow> 'v result"
  sk_min :: "'v list \<Rightarrow> 'v \<Rightarrow> 'v result"
  sk_parse :: "string \<Rightarrow> 'v result"

definition calculate_update ::
  "'v seq_kind \<Rightarrow> (double \<Rightarrow> double) \<Rightarrow> 'v keyframe \<Rightarrow> sequencer_time_t \<Rightarrow> 'v \<Rightarrow> double \<Rightarrow> 'v result" where
  "calculate_update k ex fr time_since_start start_value time_scale =
     sk_mix k start_value (fr_value fr) (compute_interleave_point ex fr time_since_start time_scale)"

definition interleave :: "double \<Rightarrow> double \<Rightarrow> double \<Rightarrow> double" where
  "interleave start target point = d_add (d_mul start (d_sub (Num 1) point)) (d_mul target point)"

definition mix_word :: "'w::len word \<Rightarrow> 'w word \<Rightarrow> double \<Rightarrow> 'w word result" where
  "mix_word start target point =
     bind_res (to_unsigned LENGTH('w) (interleave (d_of_word start) (d_of_word target) point)) (\<lambda>n. Inr (of_nat n))"

subsection \<open>Arbitration between several transitions\<close>

text \<open>\<open>std::accumulate\<close> adds in the type \<open>int\<close> of its start value.\<close>

definition average_word :: "'w::len word list \<Rightarrow> 'w word \<Rightarrow> 'w word result" where
  "average_word values cur = (let total = sum_list (map unat values) in
     if 2147483647 < total then Inl Undefined_behaviour else Inr (of_nat (total div length values)))"

definition average_double :: "double list \<Rightarrow> double \<Rightarrow> double result" where
  "average_double values cur = Inr (foldl (\<lambda>acc v. d_add acc (d_div v (of_int_d (int (length values))))) (Num 0) values)"

definition average_color :: "libm \<Rightarrow> pixel list \<Rightarrow> pixel \<Rightarrow> pixel result" where
  "average_color lm values cur =
     (if length values = 1 then Inr (hd values)
      else bind_res (fold_res (norm_step lm) values (Num 0, Num 0, Num 0, Num 0)) (\<lambda>acc. norm_output lm acc cur))"

definition best :: "('v \<Rightarrow> 'v \<Rightarrow> 'v) \<Rightarrow> 'v list \<Rightarrow> 'v \<Rightarrow> 'v result" where
  "best better values cur = Inr (foldl better (hd values) (tl values))"

definition best_color :: "libm \<Rightarrow> (u16 \<Rightarrow> u16 \<Rightarrow> u16) \<Rightarrow> u16 \<Rightarrow> pixel list \<Rightarrow> pixel \<Rightarrow> pixel result" where
  "best_color lm better start values cur =
     bind_res (fold_res (\<lambda>color (r, g, b). bind_res (rgb_of lm color) (\<lambda>((r2, g2, b2), _).
         Inr (better r r2, better g g2, better b b2))) values (start, start, start)) (\<lambda>(r, g, b). set_rgb lm r g b cur)"

definition seq_word :: "'w::len word seq_kind" where
  "seq_word = \<lparr>sk_mix = mix_word, sk_average = average_word, sk_max = best max, sk_min = best min,
     sk_parse = (\<lambda>s. bind_res (stoi s) (\<lambda>v. Inr (of_int v)))\<rparr>"

definition seq_double :: "double seq_kind" where
  "seq_double = \<lparr>sk_mix = (\<lambda>s t p. Inr (interleave s t p)), sk_average = average_double, sk_max = best std_max,
     sk_min = best std_min, sk_parse = stod\<rparr>"

definition seq_color :: "libm \<Rightarrow> pixel seq_kind" where
  "seq_color lm = \<lparr>sk_mix = mix_color_interleaving lm, sk_average = average_color lm, sk_max = best_color lm max 0,
     sk_min = best_color lm min 65535, sk_parse = stopixel lm\<rparr>"

subsection \<open>Queues of key frames\<close>

record 'v frame_queue =
  storage_wrapper :: "'v keyframe list"
  position :: nat
  fq_start_time :: sequencer_time_t
  fq_start_value :: 'v

definition new_frame_queue :: "'v keyframe list \<Rightarrow> sequencer_time_t \<Rightarrow> 'v \<Rightarrow> 'v frame_queue" where
  "new_frame_queue ref_to_storage now v =
     \<lparr>storage_wrapper = ref_to_storage, position = 0, fq_start_time = now, fq_start_value = v\<rparr>"

definition queue_empty :: "'v frame_queue \<Rightarrow> bool" where
  "queue_empty q \<longleftrightarrow> position q \<ge> length (storage_wrapper q)"

definition queue_front :: "'v frame_queue \<Rightarrow> 'v keyframe" where
  "queue_front q = storage_wrapper q ! position q"

definition queue_advance :: "sequencer_time_t \<Rightarrow> 'v \<Rightarrow> 'v frame_queue \<Rightarrow> 'v frame_queue" where
  "queue_advance now v q = q\<lparr>fq_start_time := now, fq_start_value := v, position := position q + 1\<rparr>"

text \<open>Whether the key frame in front has run for its duration, of at least 40 milliseconds.\<close>

definition frame_over :: "sequencer_time_t \<Rightarrow> double \<Rightarrow> 'v frame_queue \<Rightarrow> bool" where
  "frame_over now time_scale q \<longleftrightarrow>
     d_le (d_add (fq_start_time q) (std_max (fr_duration (queue_front q)) (Num 40))) (d_mul now time_scale)"

text \<open>The inner loop: it leaves with the queue when that is empty, or at the key frame that runs.\<close>

partial_function (option) run_queue ::
  "sequencer_time_t \<Rightarrow> double \<Rightarrow> 'v \<Rightarrow> 'v frame_queue \<Rightarrow> 'v frame_queue option" where
  "run_queue now time_scale cur q =
     (if queue_empty q then Some q
      else if d_lt (fq_start_time q) (Num 0) then run_queue now time_scale cur (q\<lparr>fq_start_time := d_mul now time_scale\<rparr>)
      else if frame_over now time_scale q then run_queue now time_scale cur (queue_advance now cur q)
      else Some q)"

subsection \<open>Channels\<close>

text \<open>\<open>MIN\<close> and \<open>MAX\<close> are notation of HOL, so the constructors have a prime.\<close>

datatype interleaving_method = AVERAGE | MIN' | MAX'

definition interleaving_method_from_string :: "string \<Rightarrow> interleaving_method" where
  "interleaving_method_from_string s = (let upper_s = toupper s in
     if s = ''MAX'' then MAX' else if upper_s = ''MIN'' then MIN' else AVERAGE)"

record 'v seq_channel =
  current_value :: 'v
  default_value :: 'v
  upcomming_keyframes :: "(nat, 'v frame_queue) omap"
  default_on_empty :: bool
  default_on_clear :: bool
  i_method :: interleaving_method
  channel_name :: string

definition new_seq_channel :: "string \<Rightarrow> 'v \<Rightarrow> bool \<Rightarrow> bool \<Rightarrow> interleaving_method \<Rightarrow> 'v seq_channel" where
  "new_seq_channel name dv on_empty on_clear method =
     \<lparr>current_value = dv, default_value = dv, upcomming_keyframes = [], default_on_empty = on_empty,
      default_on_clear = on_clear, i_method = method, channel_name = name\<rparr>"

definition perform_update_arbiting :: "'v seq_kind \<Rightarrow> 'v list \<Rightarrow> 'v seq_channel \<Rightarrow> 'v seq_channel result" where
  "perform_update_arbiting k values c =
     (if values = [] then Inr c
      else bind_res ((case i_method c of AVERAGE \<Rightarrow> sk_average k | MAX' \<Rightarrow> sk_max k | MIN' \<Rightarrow> sk_min k) values (current_value c))
        (\<lambda>v. Inr (c\<lparr>current_value := v\<rparr>)))"

text \<open>
  The outer loop over the transitions of a channel: it gives the queues as it leaves them, in the
  order it visits them, and the values the running key frames request.
\<close>

definition queue_value ::
  "'v seq_kind \<Rightarrow> (double \<Rightarrow> double) \<Rightarrow> sequencer_time_t \<Rightarrow> double \<Rightarrow> 'v frame_queue \<Rightarrow> 'v list \<Rightarrow> 'v list result" where
  "queue_value k ex now time_scale q values =
     (if queue_empty q then Inr values
      else bind_res (calculate_update k ex (queue_front q) (d_sub now (fq_start_time q)) (fq_start_value q) time_scale)
             (\<lambda>v. Inr (values @ [v])))"

fun run_queues ::
  "'v seq_kind \<Rightarrow> (double \<Rightarrow> double) \<Rightarrow> sequencer_time_t \<Rightarrow> double \<Rightarrow> 'v \<Rightarrow> (nat, 'v frame_queue) omap \<Rightarrow>
   'v list \<Rightarrow> ((nat, 'v frame_queue) omap \<times> 'v list) result option" where
  "run_queues k ex now time_scale cur [] values = Some (Inr ([], values))"
| "run_queues k ex now time_scale cur ((i, q) # qs) values = (case run_queue now time_scale cur q of
      None \<Rightarrow> None
    | Some q' \<Rightarrow> (case queue_value k ex now time_scale q' values of
        Inl e \<Rightarrow> Some (Inl e)
      | Inr values' \<Rightarrow> map_option (\<lambda>r. bind_res r (\<lambda>(qs', vs). Inr ((i, q') # qs', vs)))
          (run_queues k ex now time_scale cur qs values')))"

definition finish_update ::
  "'v seq_kind \<Rightarrow> 'v seq_channel \<Rightarrow> (nat, 'v frame_queue) omap \<times> 'v list \<Rightarrow> (bool \<times> 'v seq_channel) result" where
  "finish_update k c = (\<lambda>(qs, values). bind_res (perform_update_arbiting k values c) (\<lambda>c'.
       Inr (list_ex (\<lambda>(i, q). queue_empty q) qs,
            c'\<lparr>upcomming_keyframes := filter (\<lambda>(i, q). \<not> queue_empty q) qs\<rparr>)))"

definition apply_update ::
  "'v seq_kind \<Rightarrow> (double \<Rightarrow> double) \<Rightarrow> sequencer_time_t \<Rightarrow> double \<Rightarrow> 'v seq_channel \<Rightarrow> (bool \<times> 'v seq_channel) result option" where
  "apply_update k ex now time_scale c =
     (if upcomming_keyframes c = []
      then Some (Inr (False, if default_on_empty c then c\<lparr>current_value := default_value c\<rparr> else c))
      else map_option (\<lambda>r. bind_res r (finish_update k c))
             (run_queues k ex now time_scale (current_value c) (upcomming_keyframes c) []))"

definition transition_active :: "nat \<Rightarrow> 'v seq_channel \<Rightarrow> bool" where
  "transition_active i c \<longleftrightarrow> map_of (upcomming_keyframes c) i \<noteq> None"

definition insert_keyframes :: "'v keyframe list \<Rightarrow> nat \<Rightarrow> bool \<Rightarrow> 'v seq_channel \<Rightarrow> bool \<times> 'v seq_channel" where
  "insert_keyframes frames i reset_allowed c =
     (if transition_active i c \<and> \<not> reset_allowed then (False, c)
      else (True, c\<lparr>upcomming_keyframes :=
              om_update i (new_frame_queue frames (Num (- 1)) (current_value c)) (om_erase i (upcomming_keyframes c))\<rparr>))"

definition clear_channel :: "'v seq_channel \<Rightarrow> 'v seq_channel" where
  "clear_channel c = (let c' = c\<lparr>upcomming_keyframes := []\<rparr> in
     if default_on_clear c then c'\<lparr>current_value := default_value c\<rparr> else c')"

end
