(* ===== verification/Sequencer.thy ===== *)
theory Sequencer
  imports Sequencer_Channel Events
begin

text \<open>
  The sequencer filter: events start transitions, which move channels along key frames
  (\<^verbatim>\<open>src/src/filters/sequencer/transition.cpp\<close>, \<^verbatim>\<open>transition.hpp\<close>, \<^verbatim>\<open>filter_sequencer.cpp\<close>, \<^verbatim>\<open>filter_sequencer.hpp\<close>,
  \<^verbatim>\<open>name_maps.h\<close>). The multimap of the transitions is a list in the order of insertion, which
  is the order the standard keeps among equal keys. The world of the filter is the number of the
  active scene (None without a manager or a show), the events of the cycle and the messages sent.
\<close>

record name_maps =
  name_to_id_8bit :: "(string, nat) omap"
  name_to_id_16bit :: "(string, nat) omap"
  name_to_id_float :: "(string, nat) omap"
  name_to_id_color :: "(string, nat) omap"

definition empty_names :: name_maps where
  "empty_names = \<lparr>name_to_id_8bit = [], name_to_id_16bit = [], name_to_id_float = [], name_to_id_color = []\<rparr>"

type_synonym 'v frames = "(nat, 'v keyframe list) omap"

record seq_transition =
  reset_allowed :: bool
  tr_id :: nat
  tr_name :: string
  frames_8bit :: "u8 frames"
  frames_16bit :: "u16 frames"
  frames_float :: "double frames"
  frames_color :: "pixel frames"

definition new_transition :: seq_transition where
  "new_transition = \<lparr>reset_allowed = True, tr_id = 0, tr_name = [], frames_8bit = [], frames_16bit = [],
     frames_float = [], frames_color = []\<rparr>"

record filter_sequencer =
  input_time :: "addr option"
  sq_time_scale :: "addr option"
  channels_8bit :: "u8 seq_channel list"
  channels_16bit :: "u16 seq_channel list"
  channels_float :: "double seq_channel list"
  channels_color :: "pixel seq_channel list"
  seq_transitions :: "(u64 \<times> seq_transition) list"
  active_transitions :: "(nat, string) omap"
  tmp_name_maps :: "name_maps option"
  sq_filter_id :: string

definition new_filter_sequencer :: filter_sequencer where
  "new_filter_sequencer = \<lparr>input_time = None, sq_time_scale = None, channels_8bit = [], channels_16bit = [],
     channels_float = [], channels_color = [], seq_transitions = [], active_transitions = [], tmp_name_maps = None,
     sq_filter_id = []\<rparr>"

definition filter_type_sequencer :: int where
  "filter_type_sequencer = 69"

subsection \<open>Transitions\<close>

definition push_keyframe :: "nat \<Rightarrow> 'v keyframe \<Rightarrow> 'v frames \<Rightarrow> 'v frames" where
  "push_keyframe i fr m = (case map_of m i of None \<Rightarrow> om_update i [fr] m | Some frs \<Rightarrow> om_update i (frs @ [fr]) m)"

definition read_frame :: "'v seq_kind \<Rightarrow> string list \<Rightarrow> transition_t \<Rightarrow> double \<Rightarrow> 'v keyframe result" where
  "read_frame k params tr duration = bind_res (sk_parse k (get_from_str_list params 1)) (\<lambda>v.
     Inr \<lparr>fr_value = v, fr_transition = tr, fr_duration = duration\<rparr>)"

definition add_frame_def :: "libm \<Rightarrow> name_maps \<Rightarrow> string \<Rightarrow> seq_transition \<Rightarrow> seq_transition result" where
  "add_frame_def lm nm frame_text t =
     (let params = split_str frame_text (CHR '':''); target = get_from_str_list params 0
      in bind_res (stotransition (get_from_str_list params 2)) (\<lambda>tr.
         bind_res (stod (get_from_str_list params 3)) (\<lambda>duration.
         case map_of (name_to_id_8bit nm) target of
           Some i \<Rightarrow> bind_res (read_frame seq_word params tr duration) (\<lambda>fr. Inr (t\<lparr>frames_8bit := push_keyframe i fr (frames_8bit t)\<rparr>))
         | None \<Rightarrow> (case map_of (name_to_id_16bit nm) target of
           Some i \<Rightarrow> bind_res (read_frame seq_word params tr duration) (\<lambda>fr. Inr (t\<lparr>frames_16bit := push_keyframe i fr (frames_16bit t)\<rparr>))
         | None \<Rightarrow> (case map_of (name_to_id_float nm) target of
           Some i \<Rightarrow> bind_res (read_frame seq_double params tr duration) (\<lambda>fr. Inr (t\<lparr>frames_float := push_keyframe i fr (frames_float t)\<rparr>))
         | None \<Rightarrow> (case map_of (name_to_id_color nm) target of
           Some i \<Rightarrow> bind_res (read_frame (seq_color lm) params tr duration) (\<lambda>fr. Inr (t\<lparr>frames_color := push_keyframe i fr (frames_color t)\<rparr>))
         | None \<Rightarrow> Inl (Invalid_argument (''No channel with name '' @ quoted target @ '' exists.''))))))))"

definition make_transition :: "libm \<Rightarrow> string \<Rightarrow> string list \<Rightarrow> name_maps \<Rightarrow> seq_transition result" where
  "make_transition lm name s nm = bind_res (fold_res (add_frame_def lm nm) s new_transition) (\<lambda>t. Inr (t\<lparr>tr_name := name\<rparr>))"

subsection \<open>Set-up\<close>

definition decode_input_channels :: "addr channel_mapping \<Rightarrow> string \<Rightarrow> (filter_sequencer, unit) act" where
  "decode_input_channels cm own_id =
     bind_act (lift_act (link_input kindf cm ''time'' (''Unable to link input of sequencer filter: channel mapping does not '' @
       ''contain channel 'time' of type 'double'. This input should come from '' @ ''the scenes global time node.'')
       filter_type_sequencer own_id)) (\<lambda>t.
     bind_act (modify_act (\<lambda>f. f\<lparr>input_time := Some t\<rparr>)) (\<lambda>_.
     bind_act (lift_act (link_input kindf cm ''time_scale'' (''Unable to link input of sequencer filter: channel mapping does not '' @
       ''contain channel 'time_scale' of type 'double'. If you dont want to '' @
       ''change the speed you can link a constant with value 1.0.'') filter_type_sequencer own_id)) (\<lambda>s.
     modify_act (\<lambda>f. f\<lparr>sq_time_scale := Some s\<rparr>))))"

definition ensure_uniqueness :: "string \<Rightarrow> string \<Rightarrow> nat \<Rightarrow> (string, nat) omap \<Rightarrow> (string, nat) omap result" where
  "ensure_uniqueness new_name own_id channel_id m =
     (if map_of m new_name \<noteq> None
      then config_error (''Channel name '' @ quoted new_name @ '' is not unique.'') filter_type_sequencer own_id
      else Inr (om_update new_name channel_id m))"

record channel_setup =
  cs_filter :: filter_sequencer
  cs_names :: name_maps
  cs_global :: "(string, nat) omap"

text \<open>One channel of a type: a unique name, its number, and its place at the end of the vector.\<close>

definition add_channel ::
  "'v seq_kind \<Rightarrow> string \<Rightarrow> (filter_sequencer \<Rightarrow> 'v seq_channel list) \<Rightarrow>
   ('v seq_channel \<Rightarrow> filter_sequencer \<Rightarrow> filter_sequencer) \<Rightarrow> (string \<Rightarrow> nat \<Rightarrow> name_maps \<Rightarrow> name_maps) \<Rightarrow>
   string \<Rightarrow> string \<Rightarrow> bool \<Rightarrow> bool \<Rightarrow> interleaving_method \<Rightarrow> (channel_setup, unit) act" where
  "add_channel k own_id chans push put_name name dv on_empty on_clear method = (\<lambda>s.
     let channel_id = length (chans (cs_filter s)) in
     bind_act (lift_act (ensure_uniqueness name own_id channel_id (cs_global s))) (\<lambda>g.
     bind_act (modify_act (\<lambda>s. s\<lparr>cs_global := g, cs_names := put_name name channel_id (cs_names s)\<rparr>)) (\<lambda>_.
     bind_act (lift_act (sk_parse k dv)) (\<lambda>v.
     modify_act (\<lambda>s. s\<lparr>cs_filter := push (new_seq_channel name v on_empty on_clear method) (cs_filter s)\<rparr>)))) s)"

definition construct_channel :: "libm \<Rightarrow> string \<Rightarrow> string \<Rightarrow> (channel_setup, unit) act" where
  "construct_channel lm own_id channel_text =
     (case split_str channel_text (CHR '':'') of
        name # type_text # dv # on_empty # on_clear # method # _ \<Rightarrow>
          (let data_type = toupper type_text; oe = stob on_empty; oc = stob on_clear; im = interleaving_method_from_string method in
           if data_type = ''8BIT''
           then add_channel seq_word own_id channels_8bit (\<lambda>c f. f\<lparr>channels_8bit := channels_8bit f @ [c]\<rparr>)
             (\<lambda>n i nm. nm\<lparr>name_to_id_8bit := om_update n i (name_to_id_8bit nm)\<rparr>) name dv oe oc im
           else if data_type = ''16BIT''
           then add_channel seq_word own_id channels_16bit (\<lambda>c f. f\<lparr>channels_16bit := channels_16bit f @ [c]\<rparr>)
             (\<lambda>n i nm. nm\<lparr>name_to_id_16bit := om_update n i (name_to_id_16bit nm)\<rparr>) name dv oe oc im
           else if data_type = ''FLOAT''
           then add_channel seq_double own_id channels_float (\<lambda>c f. f\<lparr>channels_float := channels_float f @ [c]\<rparr>)
             (\<lambda>n i nm. nm\<lparr>name_to_id_float := om_update n i (name_to_id_float nm)\<rparr>) name dv oe oc im
           else if data_type = ''COLOR''
           then add_channel (seq_color lm) own_id channels_color (\<lambda>c f. f\<lparr>channels_color := channels_color f @ [c]\<rparr>)
             (\<lambda>n i nm. nm\<lparr>name_to_id_color := om_update n i (name_to_id_color nm)\<rparr>) name dv oe oc im
           else lift_act (config_error (''Unknown channel data type: '' @ quoted data_type @ ''.'') filter_type_sequencer own_id))
      | _ \<Rightarrow> lift_act (config_error ''Channel definition contains underspecified channels.'' filter_type_sequencer own_id))"

text \<open>The loop cuts the text at the semicolons, as \<open>utils::split\<close> does.\<close>

definition construct_channels :: "libm \<Rightarrow> (string, string) omap \<Rightarrow> string \<Rightarrow> (channel_setup, unit) act" where
  "construct_channels lm configuration own_id = (case map_of configuration ''channels'' of
      None \<Rightarrow> lift_act (config_error ''Expected the configuration to contain a channel definition.'' filter_type_sequencer own_id)
    | Some channel_map_str \<Rightarrow>
        bind_act (modify_act (\<lambda>s. s\<lparr>cs_global := []\<rparr>)) (\<lambda>_.
          for_act (construct_channel lm own_id) (split_str channel_map_str (CHR '';''))))"

definition sequencer_pre_setup :: "libm \<Rightarrow> (string, string) omap \<Rightarrow> string \<Rightarrow> (filter_sequencer, unit) act" where
  "sequencer_pre_setup lm configuration own_id f =
     (case construct_channels lm configuration own_id
             \<lparr>cs_filter = f\<lparr>sq_filter_id := own_id\<rparr>, cs_names = empty_names, cs_global = []\<rparr> of
        (r, s) \<Rightarrow> (r, (cs_filter s)\<lparr>tmp_name_maps := Some (cs_names s)\<rparr>))"

text \<open>
  A transition: the event, the name, the key frames. A text without a name reads the front of an
  empty list.
\<close>

definition construct_transition :: "libm \<Rightarrow> name_maps \<Rightarrow> string \<Rightarrow> (filter_sequencer, unit) act" where
  "construct_transition lm nm transition_str = (case split_str transition_str (CHR ''#'') of
      [] \<Rightarrow> throw_act Undefined_behaviour
    | sender # rest \<Rightarrow>
        bind_act (lift_act (parse_sender_representation sender)) (\<lambda>trigger_event_id. case rest of
            [] \<Rightarrow> throw_act Undefined_behaviour
          | name # defs \<Rightarrow>
              bind_act (lift_act (make_transition lm name defs nm)) (\<lambda>t.
                modify_act (\<lambda>f. f\<lparr>seq_transitions := seq_transitions f @
                  [(trigger_event_id, t\<lparr>tr_id := length (seq_transitions f)\<rparr>)]\<rparr>))))"

definition construct_transitions :: "libm \<Rightarrow> (string, string) omap \<Rightarrow> string \<Rightarrow> name_maps \<Rightarrow> (filter_sequencer, unit) act" where
  "construct_transitions lm configuration own_id nm = (case map_of configuration ''transitions'' of
      None \<Rightarrow> lift_act (config_error ''Configuration map does not contain 'transitions'.'' filter_type_sequencer own_id)
    | Some s \<Rightarrow> catch_act (for_act (construct_transition lm nm) (split_str s (CHR '';''))) (\<lambda>e. case e of
          Invalid_argument what \<Rightarrow> lift_act (config_error (''Unable to decode transitions: '' @ what) filter_type_sequencer own_id)
        | _ \<Rightarrow> throw_act e))"

definition sequencer_setup :: "libm \<Rightarrow> (string, string) omap \<Rightarrow> addr channel_mapping \<Rightarrow> string \<Rightarrow> (filter_sequencer, unit) act" where
  "sequencer_setup lm configuration cm own_id = (\<lambda>f. case tmp_name_maps f of
      None \<Rightarrow> (Inl Undefined_behaviour, f)
    | Some nm \<Rightarrow> bind_act (decode_input_channels cm own_id) (\<lambda>_.
        bind_act (construct_transitions lm configuration own_id nm) (\<lambda>_.
        modify_act (\<lambda>f. f\<lparr>tmp_name_maps := None\<rparr>))) f)"

definition publish_channels ::
  "('v, 'z) chan_kind_scheme \<Rightarrow> nat \<Rightarrow> nat \<Rightarrow> string \<Rightarrow> 'v seq_channel list \<Rightarrow> addr channel_mapping \<Rightarrow> addr channel_mapping" where
  "publish_channels k i first name cs cm =
     fold (\<lambda>j. ck_publish k (name @ '':'' @ channel_name (cs ! j)) (i, first + j)) [0..<length cs] cm"

text \<open>The fields of the filter are numbered over the four vectors.\<close>

definition sequencer_outputs :: "libm \<Rightarrow> nat \<Rightarrow> string \<Rightarrow> filter_sequencer \<Rightarrow> addr channel_mapping \<Rightarrow> addr channel_mapping" where
  "sequencer_outputs lm i name f cm =
     (let n8 = length (channels_8bit f); n16 = length (channels_16bit f); nf = length (channels_float f)
      in publish_channels (kindc lm) i (n8 + n16 + nf) name (channels_color f)
           (publish_channels kindf i (n8 + n16) name (channels_float f)
             (publish_channels kind16 i n8 name (channels_16bit f)
               (publish_channels kind8 i 0 name (channels_8bit f) cm))))"

subsection \<open>Running transitions\<close>

record seq_world =
  sw_scene :: "u32 option"
  sw_events :: event_storage
  sw_sent :: "parameter_update list"

definition insert_frames :: "nat \<Rightarrow> bool \<Rightarrow> 'v frames \<Rightarrow> 'v seq_channel list \<Rightarrow> 'v seq_channel list result" where
  "insert_frames i reset frs cs =
     fold_res (\<lambda>(channel_id, fr) cs. bind_res (vec_at cs channel_id) (\<lambda>c.
       Inr (cs[channel_id := snd (insert_keyframes fr i reset c)]))) frs cs"

definition enqueue_transition :: "seq_transition \<Rightarrow> filter_sequencer \<Rightarrow> (bool \<times> filter_sequencer) result" where
  "enqueue_transition t f =
     (let i = tr_id t; reset = reset_allowed t in
      if \<not> reset \<and> map_of (active_transitions f) i \<noteq> None then Inr (False, f)
      else bind_res (insert_frames i reset (frames_8bit t) (channels_8bit f)) (\<lambda>c8.
           bind_res (insert_frames i reset (frames_16bit t) (channels_16bit f)) (\<lambda>c16.
           bind_res (insert_frames i reset (frames_float t) (channels_float f)) (\<lambda>cf.
           bind_res (insert_frames i reset (frames_color t) (channels_color f)) (\<lambda>cc.
           Inr (True, f\<lparr>channels_8bit := c8, channels_16bit := c16, channels_float := cf, channels_color := cc,
                        active_transitions := om_update i (tr_name t) (active_transitions f)\<rparr>))))))"

definition triggered :: "filter_sequencer \<Rightarrow> event list \<Rightarrow> seq_transition list" where
  "triggered f evs = concat (map (\<lambda>e. map snd (filter (\<lambda>(key, t). key = ev_sender e) (seq_transitions f))) evs)"

definition enqueue_triggered :: "event list \<Rightarrow> filter_sequencer \<Rightarrow> filter_sequencer result" where
  "enqueue_triggered evs f =
     fold_res (\<lambda>t f. bind_res (enqueue_transition t f) (\<lambda>(_, f'). Inr f')) (triggered f evs) f"

definition compute_transition_active :: "nat \<Rightarrow> filter_sequencer \<Rightarrow> bool" where
  "compute_transition_active i f \<longleftrightarrow>
     list_ex (transition_active i) (channels_8bit f) \<or> list_ex (transition_active i) (channels_16bit f)
     \<or> list_ex (transition_active i) (channels_float f) \<or> list_ex (transition_active i) (channels_color f)"

definition perform_transition_gc :: "filter_sequencer \<Rightarrow> filter_sequencer" where
  "perform_transition_gc f =
     f\<lparr>active_transitions := filter (\<lambda>(i, name). compute_transition_active i f) (active_transitions f)\<rparr>"

definition active_text :: "filter_sequencer \<Rightarrow> string" where
  "active_text f = join (CHR '';'') (map snd (active_transitions f))"

definition send_transition_update_to_gui :: "filter_sequencer \<Rightarrow> seq_world \<Rightarrow> seq_world" where
  "send_transition_update_to_gui f w = (case sw_scene w of
      None \<Rightarrow> w
    | Some scene_id \<Rightarrow> w\<lparr>sw_sent := sw_sent w @ [\<lparr>up_filter_id = sq_filter_id f, up_scene_id = scene_id,
        up_parameter_key = ''active_transition_list'', up_parameter_value = active_text f\<rparr>]\<rparr>)"

text \<open>A step that may throw or not end.\<close>

definition bind_run :: "'a result option \<Rightarrow> ('a \<Rightarrow> 'b result option) \<Rightarrow> 'b result option" where
  "bind_run m f = (case m of None \<Rightarrow> None | Some (Inl e) \<Rightarrow> Some (Inl e) | Some (Inr x) \<Rightarrow> f x)"

fun update_channels ::
  "'v seq_kind \<Rightarrow> (double \<Rightarrow> double) \<Rightarrow> sequencer_time_t \<Rightarrow> double \<Rightarrow> 'v seq_channel list \<Rightarrow>
   (bool \<times> 'v seq_channel list) result option" where
  "update_channels k ex now time_scale [] = Some (Inr (False, []))"
| "update_channels k ex now time_scale (c # cs) =
     bind_run (apply_update k ex now time_scale c) (\<lambda>(removed, c').
     bind_run (update_channels k ex now time_scale cs) (\<lambda>(removed', cs').
     Some (Inr (removed \<or> removed', c' # cs'))))"

definition run_channels ::
  "libm \<Rightarrow> (double \<Rightarrow> double) \<Rightarrow> sequencer_time_t \<Rightarrow> double \<Rightarrow> filter_sequencer \<Rightarrow> (bool \<times> filter_sequencer) result option" where
  "run_channels lm ex now time_scale f =
     bind_run (update_channels seq_word ex now time_scale (channels_8bit f)) (\<lambda>(r8, c8).
     bind_run (update_channels seq_word ex now time_scale (channels_16bit f)) (\<lambda>(r16, c16).
     bind_run (update_channels seq_double ex now time_scale (channels_float f)) (\<lambda>(rf, cf).
     bind_run (update_channels (seq_color lm) ex now time_scale (channels_color f)) (\<lambda>(rc, cc).
     Some (Inr (r8 \<or> r16 \<or> rf \<or> rc,
       f\<lparr>channels_8bit := c8, channels_16bit := c16, channels_float := cf, channels_color := cc\<rparr>))))))"

definition sequencer_update ::
  "libm \<Rightarrow> (double \<Rightarrow> double) \<Rightarrow> memory \<Rightarrow> filter_sequencer \<times> seq_world \<Rightarrow> (filter_sequencer \<times> seq_world) result option" where
  "sequencer_update lm ex m = (\<lambda>(f, w).
     let evs = get_storage (sw_events w); inserted = (triggered f evs \<noteq> []) in
     bind_run (Some (enqueue_triggered evs f)) (\<lambda>f1.
     bind_run (Some (deref kindf m (input_time f1))) (\<lambda>now.
     bind_run (Some (deref kindf m (sq_time_scale f1))) (\<lambda>ts.
     bind_run (run_channels lm ex now ts f1) (\<lambda>(removed, f2).
       let f3 = (if removed then perform_transition_gc f2 else f2)
       in Some (Inr (f3, if inserted \<or> removed then send_transition_update_to_gui f3 w else w)))))))"

definition sequencer_receive :: "string \<Rightarrow> string \<Rightarrow> filter_sequencer \<Rightarrow> bool \<times> filter_sequencer" where
  "sequencer_receive = no_parameters"

definition sequencer_activated :: "filter_sequencer \<times> seq_world \<Rightarrow> filter_sequencer \<times> seq_world" where
  "sequencer_activated = (\<lambda>(f, w).
     let f' = f\<lparr>channels_8bit := map clear_channel (channels_8bit f), channels_16bit := map clear_channel (channels_16bit f),
                channels_float := map clear_channel (channels_float f), channels_color := map clear_channel (channels_color f),
                active_transitions := []\<rparr>
     in (f', send_transition_update_to_gui f' w))"

end
