(* ===== verification/Sequencer_Values.thy ===== *)
theory Sequencer_Values
  imports Sequencer_Channel
begin

text \<open>
  What the key frames of the sequencer make of a channel: numbers move from the old value to the
  new one, with the rounding of binary64, and colours move the other way.
\<close>

subsection \<open>The values between two key frames\<close>

lemma rnd_close: "\<bar>x\<bar> \<le> 200000 \<Longrightarrow> \<exists>y. rnd x = Num y \<and> \<bar>y - x\<bar> \<le> 1 / 10000000000"
proof -
  assume x: "\<bar>x\<bar> \<le> 200000"
  then have "\<bar>x\<bar> \<le> 2 ^ 60" by simp
  then obtain y where y: "rnd x = Num y" "\<bar>y - x\<bar> \<le> \<bar>x\<bar> / 2 ^ 52 + 1 / 2 ^ 100" using rnd_error by blast
  have "\<bar>x\<bar> / 2 ^ 52 + 1 / 2 ^ 100 \<le> 1 / 10000000000" using x by simp
  then show ?thesis using y by (intro exI [of _ y]) linarith
qed

lemma interleave_close:
  assumes a: "0 \<le> a" "a \<le> 65535" and b: "0 \<le> b" "b \<le> 65535" and s: "0 \<le> s" "s \<le> 1"
  shows "\<exists>r. interleave (Num a) (Num b) (Num s) = Num r \<and> min a b - 1 / 1000 \<le> r \<and> r \<le> max a b + 1 / 1000"
proof -
  obtain u where u: "rnd (1 - s) = Num u" "\<bar>u - (1 - s)\<bar> \<le> 1 / 10000000000" using rnd_close [of "1 - s"] s by auto
  have ub: "0 \<le> u + 1 / 10000000000" "u \<le> 1 + 1 / 10000000000" using u(2) s by linarith+
  have "\<bar>a * u - a * (1 - s)\<bar> = a * \<bar>u - (1 - s)\<bar>" using a(1) by (simp add: right_diff_distrib [symmetric] abs_mult)
  also have "\<dots> \<le> 65535 * (1 / 10000000000)" using a u(2) by (intro mult_mono) simp_all
  finally have au: "\<bar>a * u - a * (1 - s)\<bar> \<le> 1 / 100000" by simp
  have a1: "0 \<le> a * (1 - s)" "a * (1 - s) \<le> 65535" using a s mult_mono [of a 65535 "1 - s" 1] by simp_all
  have b1: "0 \<le> b * s" "b * s \<le> 65535" using b s mult_mono [of b 65535 s 1] by simp_all
  have "\<bar>a * u\<bar> \<le> 200000" using au a1 by linarith
  then obtain p where p: "rnd (a * u) = Num p" "\<bar>p - a * u\<bar> \<le> 1 / 10000000000" using rnd_close by blast
  have "\<bar>b * s\<bar> \<le> 200000" using b1 by linarith
  then obtain q where q: "rnd (b * s) = Num q" "\<bar>q - b * s\<bar> \<le> 1 / 10000000000" using rnd_close by blast
  have "\<bar>p + q\<bar> \<le> 200000" using p(2) q(2) au a1 b1 by linarith
  then obtain r where r: "rnd (p + q) = Num r" "\<bar>r - (p + q)\<bar> \<le> 1 / 10000000000" using rnd_close by blast
  have lo: "min a b \<le> a * (1 - s) + b * s"
  proof -
    have "min a b * (1 - s) \<le> a * (1 - s)" "min a b * s \<le> b * s" using s by (intro mult_right_mono; simp)+
    then show ?thesis by (simp add: algebra_simps)
  qed
  have hi: "a * (1 - s) + b * s \<le> max a b"
  proof -
    have "a * (1 - s) \<le> max a b * (1 - s)" "b * s \<le> max a b * s" using s by (intro mult_right_mono; simp)+
    then show ?thesis by (simp add: algebra_simps)
  qed
  have "\<bar>r - (a * (1 - s) + b * s)\<bar> \<le> 1 / 1000" using r(2) p(2) q(2) au by linarith
  then have "min a b - 1 / 1000 \<le> r \<and> r \<le> max a b + 1 / 1000" using lo hi by linarith
  then show ?thesis using u(1) p(1) q(1) r(1) by (simp add: interleave_def d_sub_def)
qed

lemma trunc_real_lower: "real n - 1 / 1000 \<le> r \<Longrightarrow> int n - 1 \<le> trunc_real r \<and> 0 \<le> trunc_real r"
  and trunc_real_upper: "r \<le> real m + 1 / 1000 \<Longrightarrow> trunc_real r \<le> int m"
  unfolding trunc_real_def by (auto split: if_splits) linarith+

lemma interleave_ends:
  assumes "rnd a = Num a" and "rnd b = Num b"
  shows "interleave (Num a) (Num b) (Num 0) = Num a" "interleave (Num a) (Num b) (Num 1) = Num b"
proof -
  have one: "rnd 1 = Num 1" using rnd_int [of 1] by simp
  show "interleave (Num a) (Num b) (Num 0) = Num a" "interleave (Num a) (Num b) (Num 1) = Num b"
    by (simp_all add: interleave_def d_sub_def assms one rnd_zero)
qed

lemma interleave_nat:
  assumes "n \<le> 65535" "m \<le> 65535" and "0 \<le> s" "s \<le> 1"
  shows "\<exists>r. interleave (Num (of_nat n)) (Num (of_nat m)) (Num s) = Num r \<and> 0 \<le> trunc_real r
    \<and> min n m \<le> nat (trunc_real r) + 1 \<and> nat (trunc_real r) \<le> max n m"
proof -
  have "real n \<le> 65535" "real m \<le> 65535" using assms(1,2) by simp_all
  from interleave_close [OF of_nat_0_le_iff this(1) of_nat_0_le_iff this(2) assms(3,4)]
  obtain r where r: "interleave (Num (real n)) (Num (real m)) (Num s) = Num r"
    "min (real n) (real m) - 1 / 1000 \<le> r" "r \<le> max (real n) (real m) + 1 / 1000" by blast
  have "real (min n m) - 1 / 1000 \<le> r" "r \<le> real (max n m) + 1 / 1000" using r(2,3) by (simp_all add: of_nat_min of_nat_max)
  then have t: "int (min n m) - 1 \<le> trunc_real r" "0 \<le> trunc_real r" "trunc_real r \<le> int (max n m)"
    using trunc_real_lower [of "min n m" r] trunc_real_upper [of r "max n m"] by blast+
  then have "min n m \<le> nat (trunc_real r) + 1" "nat (trunc_real r) \<le> max n m" by linarith+
  then show ?thesis using r(1) t(2) by blast
qed

lemma word_small: "LENGTH('w) \<le> 16 \<Longrightarrow> unat (v :: 'w::len word) \<le> 65535"
proof -
  assume "LENGTH('w) \<le> 16"
  then have "(2 :: nat) ^ LENGTH('w) \<le> 2 ^ 16" by (intro power_increasing) simp_all
  with unsigned_less [of v, where ?'a = nat] have "unat v < 2 ^ 16" by (rule less_le_trans)
  then show ?thesis by simp
qed

lemma word_double:
  "LENGTH('w) \<le> 16 \<Longrightarrow> d_of_word (v :: 'w::len word) = Num (of_nat (unat v)) \<and> rnd (of_nat (unat v)) = Num (of_nat (unat v))"
  using word_small [of v] rnd_nat [of "unat v"] by (simp add: d_of_word_def)

lemma mix_word_between:
  fixes v w :: "'w::len word"
  assumes l: "LENGTH('w) \<le> 16" and s: "0 \<le> s" "s \<le> 1"
  shows "\<exists>x. mix_word v w (Num s) = Inr x \<and> unat x \<le> max (unat v) (unat w) \<and> min (unat v) (unat w) \<le> unat x + 1
    \<and> (s = 0 \<longrightarrow> x = v) \<and> (s = 1 \<longrightarrow> x = w)"
proof -
  let ?i = "interleave (d_of_word v) (d_of_word w) (Num s)"
  obtain r where r: "?i = Num r" "0 \<le> trunc_real r" "min (unat v) (unat w) \<le> nat (trunc_real r) + 1"
    "nat (trunc_real r) \<le> max (unat v) (unat w)"
    using interleave_nat [OF word_small [OF l] word_small [OF l] s] word_double [OF l] by metis
  define n where "n = nat (trunc_real r)"
  have "unat v < 2 ^ LENGTH('w)" "unat w < 2 ^ LENGTH('w)" by simp_all
  then have "max (unat v) (unat w) < 2 ^ LENGTH('w)" by simp
  with r(4) have m: "n < 2 ^ LENGTH('w)" unfolding n_def by (rule le_less_trans)
  then have un: "unat (of_nat n :: 'w word) = n" by (simp add: unat_of_nat)
  have "trunc_real r < 2 ^ LENGTH('w)" using m r(2) unfolding n_def by (simp add: nat_less_iff)
  then have mix: "mix_word v w (Num s) = Inr (of_nat n)" using r(1,2) by (simp add: mix_word_def n_def)
  have e: "of_nat n = x" if "?i = d_of_word x" for x :: "'w word"
  proof -
    have "r = of_nat (unat x)" using that r(1) word_double [OF l, of x] by (metis double.inject(1))
    then have "n = unat x" unfolding n_def by (simp only: trunc_real_nat nat_int)
    then show ?thesis by simp
  qed
  have "s = 0 \<Longrightarrow> ?i = d_of_word v" "s = 1 \<Longrightarrow> ?i = d_of_word w"
    using interleave_ends word_double [OF l] by metis+
  then have "s = 0 \<Longrightarrow> of_nat n = v" "s = 1 \<Longrightarrow> of_nat n = w" using e by blast+
  then show ?thesis using mix un r(3,4) by (intro exI [of _ "of_nat n"]) (simp add: n_def)
qed

text \<open>
  C40. A key frame of an 8 or a 16 bit channel of the sequencer: while its interleaving point is between
  0 and 1 the value is defined, at most the larger and at least one less than the smaller of the
  two values (the code truncates, so a constant may show one step too low), and at 0 and 1 it is
  exactly the old and the new value.
\<close>

theorem keyframe_stays_between:
  assumes "0 \<le> s" "s \<le> 1"
  shows "(\<exists>x. mix_word (v :: u8) w (Num s) = Inr x \<and> unat x \<le> max (unat v) (unat w) \<and> min (unat v) (unat w) \<le> unat x + 1
      \<and> (s = 0 \<longrightarrow> x = v) \<and> (s = 1 \<longrightarrow> x = w)) \<and>
    (\<exists>x. mix_word (v' :: u16) w' (Num s) = Inr x \<and> unat x \<le> max (unat v') (unat w') \<and> min (unat v') (unat w') \<le> unat x + 1
      \<and> (s = 0 \<longrightarrow> x = v') \<and> (s = 1 \<longrightarrow> x = w'))"
  by (intro conjI mix_word_between assms) simp_all

theorem keyframe_stays_between_witness:
  "\<exists>x. mix_word (10 :: u8) 250 (Num (1 / 3)) = Inr x \<and> 9 \<le> unat x \<and> unat x \<le> 250"
  using keyframe_stays_between [of "1 / 3" 10 250 0 0] by auto

text \<open>
  Colour key frames run backwards: where the interleaving point of a key frame is 0, at its
  start, the channel gets the illuminance of the colour to be reached, and where it is 1, at its
  end, that of the colour it started from, while for a number it is the other way round. The
  share is given to \<open>mix_color_interleaving\<close> as the weight of the first colour, the old one.
\<close>

theorem color_keyframes_run_backwards:
  assumes "compute_interleave_point ex fr el ts = Num t" and "t = 0 \<or> t = 1"
    and "calculate_update (seq_color lm) ex fr el start ts = Inr p"
    and "\<not> hsi_invalid start" "iluminance start = Num a" "rnd a = Num a" "0 \<le> a" "a \<le> 1"
    and "\<not> hsi_invalid (fr_value fr)" "iluminance (fr_value fr) = Num b" "rnd b = Num b" "0 \<le> b" "b \<le> 1"
  shows "iluminance p = (if t = 0 then iluminance (fr_value fr) else iluminance start)
     \<and> interleave (Num a) (Num b) (Num t) = (if t = 0 then Num a else Num b)"
proof -
  have valid: "getHue lm c = (hue c, c)" "getSaturation lm c = (saturation c, c)" "getIluminance lm c = (iluminance c, c)"
    if "\<not> hsi_invalid c" for c
    using that by (simp_all add: getHue_def getSaturation_def getIluminance_def convert_rgb_to_hsi_pre_def)
  have one: "rnd 1 = Num 1" using rnd_int [of 1] by simp
  have "mix_color_interleaving lm start (fr_value fr) (Num t) = Inr p"
    using assms(1,3) by (simp add: calculate_update_def seq_color_def)
  then obtain o2 where "setIluminance lm (d_add (d_mul (Num a) (Num t)) (d_mul (Num b) (d_sub (Num 1) (Num t)))) o2 = Inr p"
    using assms(2,5,10) by (auto simp: mix_color_interleaving_def valid [OF assms(4)] valid [OF assms(9)] bind_res_Inr_iff Let_def
      simp del: d_add.simps d_mul.simps)
  then have p: "iluminance p = clamp_set (d_add (d_mul (Num a) (Num t)) (d_mul (Num b) (d_sub (Num 1) (Num t))))"
    by (auto simp: setIluminance_def dest!: convert_hsi_keeps)
  show ?thesis
  proof (cases "t = 0")
    case True
    then show ?thesis using p assms(10-13) interleave_ends [OF assms(6,11)] by (simp add: d_sub_def one rnd_zero clamp_set_def)
  next
    case False
    then have "t = 1" using assms(2) by simp
    then show ?thesis using p assms(5-8) interleave_ends [OF assms(6,11)] by (simp add: d_sub_def one rnd_zero clamp_set_def)
  qed
qed

definition to_white :: "pixel keyframe" where
  "to_white = \<lparr>fr_value = default_pixel\<lparr>iluminance := Num 1\<rparr>, fr_transition = LINEAR, fr_duration = Num 1000\<rparr>"

lemma to_white_over: "compute_interleave_point ex to_white (Num 1000) (Num 1) = Num 1"
proof -
  have "rnd 1000 = Num 1000" "rnd 1 = Num 1" using rnd_int [of 1000] rnd_int [of 1] by simp_all
  then show ?thesis by (simp add: compute_interleave_point_def to_white_def std_min_def std_max_def)
qed

theorem color_keyframes_run_backwards_witness:
  "\<exists>p. calculate_update (seq_color demo_libm) (\<lambda>_. Num 1) to_white (Num 1000) default_pixel (Num 1) = Inr p \<and> iluminance p = Num 0"
proof -
  have one: "rnd 1 = Num 1" using rnd_int [of 1] by simp
  let ?c = "calculate_update (seq_color demo_libm) (\<lambda>_. Num 1) to_white (Num 1000) default_pixel (Num 1)"
  have "\<exists>p. mix_color_interleaving demo_libm default_pixel (default_pixel\<lparr>iluminance := Num 1\<rparr>) (Num 1) = Inr p"
    by (simp add: mix_color_interleaving_def getHue_def getSaturation_def
      getIluminance_def convert_rgb_to_hsi_pre_def hsi_invalid_def default_pixel_def Let_def setHue_def
      setSaturation_def setIluminance_def convert_hsi_to_rgb_pre_def rgb_invalid_def invalidate_rgb_def d_sub_def one rnd_zero
      clamp_set_def)
  then have "\<exists>p. ?c = Inr p"
    by (simp add: calculate_update_def seq_color_def to_white_over) (simp add: to_white_def)
  then obtain p where p: "?c = Inr p" by blast
  from color_keyframes_run_backwards [OF to_white_over _ p, of 0 1] p show ?thesis
    by (simp add: to_white_def default_pixel_def hsi_invalid_def one rnd_zero)
qed

end
