(* ===== verification/Responding_Constants.thy ===== *)
theory Responding_Constants
  imports Filters_Arith Actions
begin

text \<open>
  The responding constants of \<^verbatim>\<open>src/src/filters/filter_constants.hpp\<close>, which report their value to the
  user interfaces. \<open>std::to_string\<close> of the type of the value is a parameter. The set-up of
  the base class calls the virtual \<open>receive_update_from_gui\<close>, which is the one of the derived
  class: it reports before the filter knows its own id.
\<close>

record 'v responding_constant =
  rc_constant :: "'v filter_constant"
  rc_own_id :: string

definition new_responding :: "('v, 'z) chan_kind_scheme \<Rightarrow> 'v responding_constant" where
  "new_responding k = \<lparr>rc_constant = new_constant k, rc_own_id = []\<rparr>"

text \<open>The active scene, None without a manager or a show, and the messages pushed to all clients.\<close>

record gui_world =
  gw_scene :: "u32 option"
  gw_sent :: "parameter_update list"

definition push_value_update :: "('v \<Rightarrow> string) \<Rightarrow> 'v responding_constant \<Rightarrow> gui_world \<Rightarrow> gui_world" where
  "push_value_update to_text f w = (case gw_scene w of
      None \<Rightarrow> w
    | Some scene_id \<Rightarrow> w\<lparr>gw_sent := gw_sent w @ [\<lparr>up_filter_id = rc_own_id f, up_scene_id = scene_id,
        up_parameter_key = ''value'', up_parameter_value = to_text (fc_value (rc_constant f))\<rparr>]\<rparr>)"

type_synonym ('v, 'a) responding_act = "('v responding_constant \<times> gui_world, 'a) act"

definition push_value :: "('v \<Rightarrow> string) \<Rightarrow> ('v, unit) responding_act" where
  "push_value to_text = modify_act (\<lambda>(f, w). (f, push_value_update to_text f w))"

definition responding_receive ::
  "('v, 'z) chan_kind_scheme \<Rightarrow> ('v \<Rightarrow> string) \<Rightarrow> string \<Rightarrow> string \<Rightarrow> ('v, bool) responding_act" where
  "responding_receive k to_text key v =
     bind_act (read_act (\<lambda>(f, w). constant_receive k key v (rc_constant f))) (\<lambda>(ret_val, c).
     bind_act (modify_act (\<lambda>(f, w). (f\<lparr>rc_constant := c\<rparr>, w))) (\<lambda>_.
     bind_act (push_value to_text) (\<lambda>_. ret_act ret_val)))"

definition responding_setup ::
  "('v, 'z) chan_kind_scheme \<Rightarrow> ('v \<Rightarrow> string) \<Rightarrow> int \<Rightarrow> (string, string) omap \<Rightarrow> string \<Rightarrow> ('v, unit) responding_act" where
  "responding_setup k to_text own_type initial_parameters own_id = (case map_of initial_parameters ''value'' of
      None \<Rightarrow> lift_act (config_error
        ''Unable to set value of constant filter: initial configuration does not contain value parameter'' own_type own_id)
    | Some v \<Rightarrow> bind_act (responding_receive k to_text ''value'' v) (\<lambda>ok.
        if \<not> ok then lift_act (config_error ''Unable to set value of constant filter: unable to parse parameter.'' own_type own_id)
        else modify_act (\<lambda>(f, w). (f\<lparr>rc_own_id := own_id\<rparr>, w))))"

definition responding_activated :: "('v \<Rightarrow> string) \<Rightarrow> ('v, unit) responding_act" where
  "responding_activated to_text = push_value to_text"

text \<open>
  Every report carries the value of the output; the one of the set-up has an empty filter id and,
  when a show is being loaded, the scene of the show that is still active.
\<close>

theorem setup_reports_without_id:
  assumes "responding_setup k to_text own_type params own_id (new_responding k, w) = (Inr (), f, w')"
    and "gw_scene w = Some scene_id"
  shows "rc_own_id f = own_id \<and> gw_sent w' = gw_sent w @ [\<lparr>up_filter_id = [], up_scene_id = scene_id,
      up_parameter_key = ''value'', up_parameter_value = to_text (fc_value (rc_constant f))\<rparr>]"
proof -
  from assms(1) obtain v where v: "map_of params ''value'' = Some v"
    by (auto simp: responding_setup_def config_error_def split: option.splits)
  show ?thesis using assms v
    by (auto simp: responding_setup_def responding_receive_def push_value_def push_value_update_def bind_act_Inr_iff
        new_responding_def config_error_def split: if_splits)
qed

end
