(* ===== verification/Chaser_Base.thy ===== *)
theory Chaser_Base
  imports Filter_Base Utils
begin

text \<open>
  What the layers of the colour chaser share (\<^verbatim>\<open>src/src/filters/chaser/cle_parameters.cpp\<close>): their
  parameters, the conversions and the signed arithmetic of C++ they rely on, and the blending of a
  colour over a pixel. A parameter is a number or colour of the text of the configuration, or the
  address of an input of the chaser. The functions of the C library whose results the standard does
  not fix, \<open>std::rand\<close> among them, are the record \<open>layer_math\<close>; the generator of random numbers is one
  for the whole program, its state is the seed last given to \<open>std::srand\<close> and how many numbers have
  been drawn since.
\<close>

record layer_math =
  lm_colors :: libm
  lm_sin :: "double \<Rightarrow> double"
  lm_tan :: "double \<Rightarrow> double"
  lm_pow :: "double \<Rightarrow> double \<Rightarrow> double"
  lm_exp :: "double \<Rightarrow> double"
  lm_rand :: "u32 \<Rightarrow> nat \<Rightarrow> nat"

type_synonym rng = "u32 \<times> nat"

definition srand :: "u32 \<Rightarrow> rng" where
  "srand seed = (seed, 0)"

definition rand :: "layer_math \<Rightarrow> rng \<Rightarrow> nat \<times> rng" where
  "rand M g = (lm_rand M (fst g) (snd g), (fst g, Suc (snd g)))"

subsection \<open>Conversions and signed arithmetic\<close>

text \<open>A cast from \<open>double\<close> to a signed type of w bits, and the result of signed arithmetic.\<close>

fun to_signed :: "nat \<Rightarrow> double \<Rightarrow> int result" where
  "to_signed w (Num x) =
     (if - (2 ^ (w - 1)) \<le> trunc_real x \<and> trunc_real x < 2 ^ (w - 1) then Inr (trunc_real x) else Inl Undefined_behaviour)"
| "to_signed w _ = Inl Undefined_behaviour"

definition signed_res :: "nat \<Rightarrow> int \<Rightarrow> int result" where
  "signed_res w n = (if - (2 ^ (w - 1)) \<le> n \<and> n < 2 ^ (w - 1) then Inr n else Inl Undefined_behaviour)"

text \<open>Division of \<open>int\<close> truncates towards zero.\<close>

definition c_div :: "int \<Rightarrow> int \<Rightarrow> int result" where
  "c_div a b = (if b = 0 then Inl Undefined_behaviour else Inr (sgn a * sgn b * (\<bar>a\<bar> div \<bar>b\<bar>)))"

text \<open>Division and remainder of \<open>size_t\<close>.\<close>

definition size_div :: "nat \<Rightarrow> nat \<Rightarrow> nat result" where
  "size_div a b = (if b = 0 then Inl Undefined_behaviour else Inr (a div b))"

definition size_mod :: "nat \<Rightarrow> nat \<Rightarrow> nat result" where
  "size_mod a b = (if b = 0 then Inl Undefined_behaviour else Inr (a mod b))"

text \<open>A signed number used as a \<open>size_t\<close>.\<close>

definition size_of_int :: "int \<Rightarrow> nat" where
  "size_of_int n = nat (n mod 2 ^ 64)"

text \<open>A countdown \<open>remaining -= (T) elapsed\<close> of a signed type.\<close>

definition count_down :: "nat \<Rightarrow> double \<Rightarrow> int \<Rightarrow> int result" where
  "count_down w elapsed remaining = bind_res (to_signed w elapsed) (\<lambda>e. signed_res w (remaining - e))"

text \<open>Writing to \<open>xs[i]\<close>.\<close>

definition write_at :: "nat \<Rightarrow> 'a \<Rightarrow> 'a list \<Rightarrow> 'a list result" where
  "write_at i v xs = (if i < length xs then Inr (xs[i := v]) else Inl Undefined_behaviour)"

subsection \<open>Parameters\<close>

datatype number_parameter = Number_input addr | Number_value u16

definition make_number :: "(string, addr) omap \<Rightarrow> string \<Rightarrow> number_parameter result" where
  "make_number inputs descr = (case map_of inputs descr of
      Some a \<Rightarrow> Inr (Number_input a)
    | None \<Rightarrow> bind_res (stoi descr) (\<lambda>n. Inr (Number_value (of_int n))))"

definition number_get :: "memory \<Rightarrow> number_parameter \<Rightarrow> u16" where
  "number_get m p = (case p of Number_input a \<Rightarrow> rd16 m a | Number_value v \<Rightarrow> v)"

datatype color_parameter = Color_input addr | Color_value pixel

text \<open>\<open>front()\<close> of a list that \<open>pop_front()\<close> has emptied is undefined.\<close>

definition front :: "string list \<Rightarrow> string result" where
  "front l = (case l of [] \<Rightarrow> Inl Undefined_behaviour | s # _ \<Rightarrow> Inr s)"

definition pop_front :: "string list \<Rightarrow> string list result" where
  "pop_front l = (case l of [] \<Rightarrow> Inl Undefined_behaviour | _ # r \<Rightarrow> Inr r)"

definition parse_color :: "libm \<Rightarrow> string \<Rightarrow> pixel result" where
  "parse_color lm descr =
     (let comp_strings = split_str descr (CHR '','')
      in bind_res (hsi_pixel lm (Num 0) (Num 0) (Num 0)) (\<lambda>p.
         bind_res (bind_res (front comp_strings) stod) (\<lambda>h.
         bind_res (setHue lm h p) (\<lambda>p1.
         bind_res (pop_front comp_strings) (\<lambda>l1.
         bind_res (bind_res (front l1) stod) (\<lambda>s.
         bind_res (setSaturation lm s p1) (\<lambda>p2.
         bind_res (pop_front l1) (\<lambda>l2.
         bind_res (bind_res (front l2) stod) (\<lambda>i. setIluminance lm i p2)))))))))"

definition make_color :: "libm \<Rightarrow> (string, addr) omap \<Rightarrow> string \<Rightarrow> color_parameter result" where
  "make_color lm inputs descr = (case map_of inputs descr of
      Some a \<Rightarrow> Inr (Color_input a)
    | None \<Rightarrow> bind_res (parse_color lm descr) (\<lambda>p. Inr (Color_value p)))"

definition color_get :: "memory \<Rightarrow> color_parameter \<Rightarrow> pixel" where
  "color_get m p = (case p of Color_input a \<Rightarrow> rdc m a | Color_value c \<Rightarrow> c)"

text \<open>The next parameter of a description: \<open>pop_front()\<close>, then \<open>front()\<close>.\<close>

definition next_text :: "string list \<Rightarrow> (string \<times> string list) result" where
  "next_text l = bind_res (pop_front l) (\<lambda>r. bind_res (front r) (\<lambda>s. Inr (s, r)))"

definition next_number :: "(string, addr) omap \<Rightarrow> string list \<Rightarrow> (number_parameter \<times> string list) result" where
  "next_number inputs l = bind_res (next_text l) (\<lambda>(s, r). bind_res (make_number inputs s) (\<lambda>p. Inr (p, r)))"

definition next_color ::
  "libm \<Rightarrow> (string, addr) omap \<Rightarrow> string list \<Rightarrow> (color_parameter \<times> string list) result" where
  "next_color lm inputs l = bind_res (next_text l) (\<lambda>(s, r). bind_res (make_color lm inputs s) (\<lambda>p. Inr (p, r)))"

subsection \<open>Blending\<close>

definition mask_share :: "u16 list \<Rightarrow> nat \<Rightarrow> double result" where
  "mask_share msk i = bind_res (vec_at msk i) (\<lambda>v. Inr (d_div (d_of_word v) (Num 65535)))"

text \<open>\<open>pixels[i] = mix_color_interleaving(pixels[i], c, mask[i] / 65535.0)\<close>\<close>

definition blend_at :: "libm \<Rightarrow> u16 list \<Rightarrow> pixel \<Rightarrow> nat \<Rightarrow> pixel list \<Rightarrow> pixel list result" where
  "blend_at lm msk c i pixels =
     bind_res (vec_at pixels i) (\<lambda>p. bind_res (mask_share msk i) (\<lambda>t.
     bind_res (mix_color_interleaving lm p c t) (\<lambda>q. write_at i q pixels)))"

subsection \<open>Lemmas\<close>

text \<open>
  A step that, when it returns, keeps the length of what it changes; and a result that throws
  nothing, that is, whose only failure is undefined behaviour.
\<close>

definition no_throw :: "'a result \<Rightarrow> bool" where
  "no_throw r \<longleftrightarrow> (\<forall>e. r = Inl e \<longrightarrow> e = Undefined_behaviour)"

lemma no_throw_simps [simp]: "no_throw (Inr x)" "no_throw (Inl e) \<longleftrightarrow> e = Undefined_behaviour"
  by (simp_all add: no_throw_def)

lemma no_throw_bind:
  "no_throw m \<Longrightarrow> (\<And>x. m = Inr x \<Longrightarrow> no_throw (f x)) \<Longrightarrow> no_throw (bind_res m f)"
  by (cases m) auto

lemma no_throw_fold:
  "(\<And>x s. x \<in> set xs \<Longrightarrow> no_throw (f x s)) \<Longrightarrow> no_throw (fold_res f xs s)"
  by (induction xs arbitrary: s) (auto intro!: no_throw_bind)

lemma no_throw_basic [simp, intro]:
  "no_throw (to_signed w d)" "no_throw (signed_res w n)" "no_throw (c_div a b)" "no_throw (size_div x y)"
  "no_throw (size_mod x y)" "no_throw (write_at i v xs)" "no_throw (vec_at xs i)" "no_throw (to_unsigned w d)"
  "no_throw (mask_share msk i)"
  by (auto simp: signed_res_def c_div_def size_div_def size_mod_def write_at_def vec_at_def mask_share_def
      intro!: no_throw_bind intro: to_signed.cases [of "(w, d)"] to_unsigned.cases [of "(w, d)"])

text \<open>An instance of the parameters.\<close>

definition demo_math :: layer_math where
  "demo_math = \<lparr>lm_colors = demo_libm, lm_sin = id, lm_tan = id, lm_pow = (\<lambda>_ _. Num 0), lm_exp = (\<lambda>_. Num 1),
     lm_rand = (\<lambda>_ n. n)\<rparr>"

end
