(* ===== verification/Chaser_Masks.thy ===== *)
theory Chaser_Masks
  imports Chaser_Base
begin

text \<open>
  The layers of the colour chaser that change the mask (\<^verbatim>\<open>src/src/filters/chaser/layer_*.hpp\<close>): one
  record and the functions \<open>_make\<close>, \<open>_apply\<close>, \<open>_reset\<close> and \<open>_step\<close> of every class, a template parameter
  being an argument. A function that changes nothing is left out. A \<open>_make\<close> is the constructor, from
  the description whose first word is the name of the layer.
\<close>

text \<open>The loop over all positions that writes one value to each of them.\<close>

definition each_entry :: "(nat \<Rightarrow> u16 \<Rightarrow> u16 result) \<Rightarrow> u16 list \<Rightarrow> u16 list result" where
  "each_entry f ms = fold_res (\<lambda>i xs. bind_res (vec_at xs i) (\<lambda>v. bind_res (f i v) (\<lambda>v'. write_at i v' xs)))
     [0..<length ms] ms"

subsection \<open>Sprinkles\<close>

record sprinkles =
  sp_num_sprinkles :: number_parameter
  sp_sprinkle_size :: number_parameter
  sp_update_freq :: number_parameter
  sp_mask_off :: number_parameter
  sp_mask_on :: number_parameter
  sp_location_seed :: u32
  sp_remaining_time :: int

definition sprinkles_make ::
  "layer_math \<Rightarrow> u32 \<Rightarrow> (string, addr) omap \<Rightarrow> string list \<Rightarrow> (sprinkles \<times> rng) result" where
  "sprinkles_make M now inputs l =
     bind_res (next_number inputs l) (\<lambda>(n, l1). bind_res (next_number inputs l1) (\<lambda>(s, l2).
     bind_res (next_number inputs l2) (\<lambda>(u, l3). bind_res (next_number inputs l3) (\<lambda>(off, l4).
     bind_res (next_number inputs l4) (\<lambda>(on, l5).
     let (seed, g) = rand M (srand now)
     in Inr (\<lparr>sp_num_sprinkles = n, sp_sprinkle_size = s, sp_update_freq = u, sp_mask_off = off, sp_mask_on = on,
              sp_location_seed = of_nat seed, sp_remaining_time = 0\<rparr>, g))))))"

text \<open>
  The difference of an \<open>int\<close> and a \<open>long\<close> is a \<open>long\<close>, which becomes an \<open>int\<close> again modulo 2 to
  the 32. The index \<open>j + center\<close> is computed modulo 2 to the 64.
\<close>

definition sprinkle :: "layer_math \<Rightarrow> nat \<Rightarrow> u16 \<Rightarrow> u16 \<Rightarrow> u16 list \<times> rng \<Rightarrow> (u16 list \<times> rng) result" where
  "sprinkle M num_pixels sprinkle_size on = (\<lambda>(ms, g).
     let half = unat sprinkle_size div 2; (r, g') = rand M g
     in bind_res (size_mod r (size_sub num_pixels (unat sprinkle_size))) (\<lambda>c.
        let center = size_add c half
        in bind_res (fold_res (\<lambda>j. write_at (size_of_int (j + int center)) on) [- int half..int half - 1] ms)
             (\<lambda>ms'. Inr (ms', g'))))"

definition sprinkles_tick :: "layer_math \<Rightarrow> u16 \<Rightarrow> int \<Rightarrow> sprinkles \<Rightarrow> sprinkles \<times> rng" where
  "sprinkles_tick M update_freq remaining s =
     (if remaining < 0 \<and> 0 < update_freq
      then (let (seed, g) = rand M (srand (sp_location_seed s))
            in (s\<lparr>sp_remaining_time := int (unat update_freq), sp_location_seed := of_nat seed\<rparr>, g))
      else (s\<lparr>sp_remaining_time := remaining\<rparr>, srand (sp_location_seed s)))"

definition sprinkles_apply ::
  "layer_math \<Rightarrow> memory \<Rightarrow> double \<Rightarrow> sprinkles \<Rightarrow> u16 list \<Rightarrow> (sprinkles \<times> u16 list \<times> rng) result" where
  "sprinkles_apply M m elapsed s ms =
     bind_res (to_signed 64 elapsed) (\<lambda>e.
     bind_res (signed_res 64 (sp_remaining_time s - e)) (\<lambda>left.
     case sprinkles_tick M (number_get m (sp_update_freq s)) (signed_take_bit 31 left) s of (s1, g1) \<Rightarrow>
       bind_res (each_entry (\<lambda>i v. Inr (number_get m (sp_mask_off s))) ms) (\<lambda>ms1.
       bind_res (fold_res (\<lambda>i. sprinkle M (length ms) (number_get m (sp_sprinkle_size s)) (number_get m (sp_mask_on s)))
         [0..<unat (number_get m (sp_num_sprinkles s))] (ms1, g1)) (\<lambda>(ms2, g2). Inr (s1, ms2, g2)))))"

definition sprinkles_reset :: "sprinkles \<Rightarrow> sprinkles" where
  "sprinkles_reset s = s\<lparr>sp_remaining_time := 0\<rparr>"

definition sprinkles_step :: "layer_math \<Rightarrow> rng \<Rightarrow> sprinkles \<Rightarrow> sprinkles \<times> rng" where
  "sprinkles_step M g s = (let (seed, g') = rand M g in (s\<lparr>sp_location_seed := of_nat seed\<rparr>, g'))"

subsection \<open>Dots\<close>

record dots =
  dt_num_dots :: number_parameter
  dt_dots_size :: number_parameter
  dt_update_freq :: number_parameter
  dt_mask_off :: number_parameter
  dt_mask_on :: number_parameter
  dt_location_offset :: int
  dt_remaining_time :: int

definition dots_make :: "(string, addr) omap \<Rightarrow> string list \<Rightarrow> dots result" where
  "dots_make inputs l =
     bind_res (next_number inputs l) (\<lambda>(n, l1). bind_res (next_number inputs l1) (\<lambda>(s, l2).
     bind_res (next_number inputs l2) (\<lambda>(u, l3). bind_res (next_number inputs l3) (\<lambda>(off, l4).
     bind_res (next_number inputs l4) (\<lambda>(on, l5).
     Inr \<lparr>dt_num_dots = n, dt_dots_size = s, dt_update_freq = u, dt_mask_off = off, dt_mask_on = on,
          dt_location_offset = 0, dt_remaining_time = 0\<rparr>)))))"

definition dots_apply :: "memory \<Rightarrow> double \<Rightarrow> dots \<Rightarrow> u16 list \<Rightarrow> (dots \<times> u16 list) result" where
  "dots_apply m elapsed d ms =
     bind_res (count_down 64 elapsed (dt_remaining_time d)) (\<lambda>remaining.
     let update_freq = number_get m (dt_update_freq d)
     in bind_res (if remaining < 0 \<and> 0 < update_freq
          then bind_res (signed_res 64 (dt_location_offset d + 1))
                 (\<lambda>o'. Inr (d\<lparr>dt_remaining_time := int (unat update_freq), dt_location_offset := o'\<rparr>))
          else Inr (d\<lparr>dt_remaining_time := remaining\<rparr>)) (\<lambda>d1.
        let num_dots = max 1 (unat (number_get m (dt_num_dots d)));
            seg_len = length ms div num_dots;
            on_len = size_sub seg_len (unat (number_get m (dt_dots_size d)))
        in bind_res (each_entry (\<lambda>i v. bind_res (signed_res 64 (int i + dt_location_offset d1)) (\<lambda>p.
             bind_res (size_mod (size_of_int p) seg_len) (\<lambda>pos_in_seg.
             Inr (if pos_in_seg < on_len then number_get m (dt_mask_on d) else number_get m (dt_mask_off d))))) ms)
             (\<lambda>ms'. Inr (d1, ms'))))"

definition dots_reset :: "dots \<Rightarrow> dots" where
  "dots_reset d = d\<lparr>dt_location_offset := 0\<rparr>"

definition dots_step :: "dots \<Rightarrow> dots result" where
  "dots_step d = bind_res (signed_res 64 (dt_location_offset d + 1)) (\<lambda>o'. Inr (d\<lparr>dt_location_offset := o'\<rparr>))"

subsection \<open>Scales\<close>

record scale =
  sc_start :: number_parameter
  sc_end :: number_parameter
  sc_mask_off :: number_parameter
  sc_mask_on :: number_parameter

definition scale_make :: "(string, addr) omap \<Rightarrow> string list \<Rightarrow> scale result" where
  "scale_make inputs l =
     bind_res (next_number inputs l) (\<lambda>(s, l1). bind_res (next_number inputs l1) (\<lambda>(e, l2).
     bind_res (next_number inputs l2) (\<lambda>(off, l3). bind_res (next_number inputs l3) (\<lambda>(on, l4).
     Inr \<lparr>sc_start = s, sc_end = e, sc_mask_off = off, sc_mask_on = on\<rparr>))))"

text \<open>
  The value of the slope of height \<open>rise\<close> over the width \<open>run\<close>, in \<open>int\<close>.
\<close>

definition slope :: "int \<Rightarrow> int \<Rightarrow> int \<Rightarrow> int \<Rightarrow> u16 result" where
  "slope rise run offs base =
     bind_res (bind_res (c_div rise run) (\<lambda>q. signed_res 32 (q * offs))) (\<lambda>p.
     bind_res (signed_res 32 (p + base)) (\<lambda>v. Inr (of_int v)))"

definition scale_apply :: "memory \<Rightarrow> scale \<Rightarrow> u16 list \<Rightarrow> u16 list result" where
  "scale_apply m s =
     (let scale_start = int (unat (number_get m (sc_start s))); scale_end = int (unat (number_get m (sc_end s)));
          off = number_get m (sc_mask_off s); on = number_get m (sc_mask_on s)
      in each_entry (\<lambda>i v.
           if int i < scale_start then Inr on
           else if int i < scale_end
           then slope (int (unat off) - int (unat on)) (scale_end - scale_start) (int i - scale_start) (int (unat on))
           else Inr off))"

definition scale_inv_apply :: "memory \<Rightarrow> scale \<Rightarrow> u16 list \<Rightarrow> u16 list result" where
  "scale_inv_apply m s =
     (let scale_start = int (unat (number_get m (sc_start s))); scale_end = int (unat (number_get m (sc_end s)));
          off = number_get m (sc_mask_off s); on = number_get m (sc_mask_on s)
      in each_entry (\<lambda>i v.
           if int i < scale_start then Inr off
           else if int i < scale_end
           then slope (int (unat on) - int (unat off)) (scale_start - scale_end) (int i - scale_start) (int (unat off))
           else Inr on))"

subsection \<open>Flat and inverted masks\<close>

record flat_mask =
  fm_value :: number_parameter

definition flat_mask_make :: "(string, addr) omap \<Rightarrow> string list \<Rightarrow> flat_mask result" where
  "flat_mask_make inputs l = bind_res (next_number inputs l) (\<lambda>(v, _). Inr \<lparr>fm_value = v\<rparr>)"

definition flat_mask_apply :: "memory \<Rightarrow> flat_mask \<Rightarrow> u16 list \<Rightarrow> u16 list result" where
  "flat_mask_apply m f = each_entry (\<lambda>i v. Inr (number_get m (fm_value f)))"

definition invert_mask_apply :: "u16 list \<Rightarrow> u16 list result" where
  "invert_mask_apply = each_entry (\<lambda>i v. Inr (65535 - v))"

subsection \<open>Arithmetic on a part of the mask\<close>

datatype mod_operation_type = Mod_add | Mod_sub | Mod_mul | Mod_div

record mask_mod =
  mm_value :: number_parameter
  mm_start :: number_parameter
  mm_end :: number_parameter

definition mask_mod_make :: "(string, addr) omap \<Rightarrow> string list \<Rightarrow> mask_mod result" where
  "mask_mod_make inputs l =
     bind_res (next_number inputs l) (\<lambda>(v, l1). bind_res (next_number inputs l1) (\<lambda>(s, l2).
     bind_res (next_number inputs l2) (\<lambda>(e, l3). Inr \<lparr>mm_value = v, mm_start = s, mm_end = e\<rparr>)))"

text \<open>The operands are promoted to \<open>int\<close>; a product may be too large for it.\<close>

fun mod_entry :: "mod_operation_type \<Rightarrow> u16 \<Rightarrow> u16 \<Rightarrow> u16 result" where
  "mod_entry Mod_add v x = Inr (x + v)"
| "mod_entry Mod_sub v x = Inr (x - v)"
| "mod_entry Mod_mul v x = bind_res (signed_res 32 (int (unat x) * int (unat v))) (\<lambda>p. Inr (of_int p))"
| "mod_entry Mod_div v x = bind_res (c_div (int (unat x)) (int (unat v))) (\<lambda>q. Inr (of_int q))"

definition mask_position :: "u16 \<Rightarrow> nat \<Rightarrow> nat" where
  "mask_position raw mask_size = (if 65534 < raw then mask_size else unat raw * mask_size div 65535)"

definition mask_mod_apply :: "mod_operation_type \<Rightarrow> memory \<Rightarrow> mask_mod \<Rightarrow> u16 list \<Rightarrow> u16 list result" where
  "mask_mod_apply op_type m f ms =
     fold_res (\<lambda>i xs. bind_res (vec_at xs i) (\<lambda>x.
         bind_res (mod_entry op_type (number_get m (mm_value f)) x) (\<lambda>x'. write_at i x' xs)))
       [mask_position (number_get m (mm_start f)) (length ms)..<mask_position (number_get m (mm_end f)) (length ms)] ms"

end
