(* ===== verification/Chaser_Waves.thy ===== *)
theory Chaser_Waves
  imports Chaser_Masks
begin

text \<open>
  The layers of the colour chaser whose masks move or follow a curve (\<^verbatim>\<open>src/src/filters/chaser/\<close>:
  \<^verbatim>\<open>layer_mask_shift.hpp\<close>, \<^verbatim>\<open>layer_strobe.hpp\<close>, \<^verbatim>\<open>layer_johnson.hpp\<close>, \<^verbatim>\<open>layer_mask_close_to_center.hpp\<close>,
  \<^verbatim>\<open>layer_mask_wave.hpp\<close>, \<^verbatim>\<open>layer_gaussian_curve.hpp\<close>, \<^verbatim>\<open>layer_trig.hpp\<close>). A mask has fewer than 2 to the 31
  entries, so an index is an \<open>int\<close> without loss.
\<close>

subsection \<open>Shifting\<close>

text \<open>
  \<open>current_shift\<close> and the countdown of \<open>mask_shift\<close> and \<open>color_shift\<close>; the copy each of them keeps is
  written before it is read, so it is not part of the state.
\<close>

record shift_layer =
  sh_time :: number_parameter
  sh_current_shift :: u32
  sh_remaining_time :: int

definition shift_make :: "(string, addr) omap \<Rightarrow> string list \<Rightarrow> shift_layer result" where
  "shift_make inputs l = bind_res (next_number inputs l) (\<lambda>(t, _).
     Inr \<lparr>sh_time = t, sh_current_shift = 0, sh_remaining_time = 0\<rparr>)"

definition shift_advance :: "memory \<Rightarrow> double \<Rightarrow> nat \<Rightarrow> shift_layer \<Rightarrow> shift_layer result" where
  "shift_advance m elapsed mask_size s =
     bind_res (count_down 64 elapsed (sh_remaining_time s)) (\<lambda>remaining.
     if remaining \<le> 0
     then bind_res (size_mod (unat (sh_current_shift s + 1)) mask_size) (\<lambda>c.
            Inr (s\<lparr>sh_remaining_time := int (unat (number_get m (sh_time s))), sh_current_shift := of_nat c\<rparr>))
     else Inr (s\<lparr>sh_remaining_time := remaining\<rparr>))"

definition shifted_index :: "shift_layer \<Rightarrow> nat \<Rightarrow> nat \<Rightarrow> nat result" where
  "shifted_index s n i = size_mod (unat (of_nat i + sh_current_shift s)) n"

definition mask_shift_apply :: "memory \<Rightarrow> double \<Rightarrow> shift_layer \<Rightarrow> u16 list \<Rightarrow> (shift_layer \<times> u16 list) result" where
  "mask_shift_apply m elapsed s ms =
     bind_res (shift_advance m elapsed (length ms) s) (\<lambda>s1.
     bind_res (each_entry (\<lambda>i v. bind_res (shifted_index s1 (length ms) i) (vec_at ms)) ms) (\<lambda>ms'. Inr (s1, ms')))"

definition shift_reset :: "shift_layer \<Rightarrow> shift_layer" where
  "shift_reset s = s\<lparr>sh_current_shift := 0\<rparr>"

definition shift_step :: "shift_layer \<Rightarrow> shift_layer" where
  "shift_step s = s\<lparr>sh_remaining_time := 0\<rparr>"

subsection \<open>Strobe\<close>

record mask_strobe =
  st_bpm :: number_parameter
  st_remaining_time :: int
  st_currently_on :: bool

definition strobe_make :: "(string, addr) omap \<Rightarrow> string list \<Rightarrow> mask_strobe result" where
  "strobe_make inputs l = bind_res (next_number inputs l) (\<lambda>(b, _).
     Inr \<lparr>st_bpm = b, st_remaining_time = 0, st_currently_on = True\<rparr>)"

definition strobe_interval :: "u16 \<Rightarrow> int result" where
  "strobe_interval bpm =
     (if 0 < bpm
      then if bpm \<le> 750 then to_signed 32 (d_div (Num 60000) (d_mul (d_of_word bpm) (Num 2))) else Inr 0
      else Inr 2147483647)"

definition strobe_apply :: "memory \<Rightarrow> double \<Rightarrow> mask_strobe \<Rightarrow> u16 list \<Rightarrow> (mask_strobe \<times> u16 list) result" where
  "strobe_apply m elapsed s ms =
     bind_res (count_down 32 elapsed (st_remaining_time s)) (\<lambda>remaining.
     bind_res (if remaining \<le> 0
       then bind_res (strobe_interval (number_get m (st_bpm s)))
              (\<lambda>t. Inr (s\<lparr>st_remaining_time := t, st_currently_on := \<not> st_currently_on s\<rparr>))
       else Inr (s\<lparr>st_remaining_time := remaining\<rparr>)) (\<lambda>s1.
     bind_res (if st_currently_on s1 then Inr ms else each_entry (\<lambda>i v. Inr 0) ms) (\<lambda>ms'. Inr (s1, ms'))))"

definition strobe_reset :: "mask_strobe \<Rightarrow> mask_strobe" where
  "strobe_reset s = s\<lparr>st_remaining_time := 0, st_currently_on := False\<rparr>"

definition strobe_step :: "mask_strobe \<Rightarrow> mask_strobe" where
  "strobe_step s = s\<lparr>st_remaining_time := 0\<rparr>"

subsection \<open>Johnson counter\<close>

datatype direction = Fwd | Rev

record johnson =
  jo_update_speed :: number_parameter
  jo_mask_setting :: number_parameter
  jo_progress :: nat
  jo_last_mask_size :: nat
  jo_remaining_time :: int
  jo_is_buildup :: bool

definition johnson_make :: "(string, addr) omap \<Rightarrow> string list \<Rightarrow> johnson result" where
  "johnson_make inputs l =
     bind_res (next_number inputs l) (\<lambda>(u, l1). bind_res (next_number inputs l1) (\<lambda>(s, _).
     Inr \<lparr>jo_update_speed = u, jo_mask_setting = s, jo_progress = 0, jo_last_mask_size = 0, jo_remaining_time = 0,
          jo_is_buildup = True\<rparr>))"

fun johnson_step :: "direction \<Rightarrow> johnson \<Rightarrow> johnson" where
  "johnson_step Fwd j =
     (let p = size_add (jo_progress j) 1
      in if jo_last_mask_size j < p then j\<lparr>jo_progress := 0, jo_is_buildup := \<not> jo_is_buildup j\<rparr> else j\<lparr>jo_progress := p\<rparr>)"
| "johnson_step Rev j =
     (let p = size_sub (jo_progress j) 1
      in if jo_last_mask_size j < p then j\<lparr>jo_progress := jo_last_mask_size j, jo_is_buildup := \<not> jo_is_buildup j\<rparr>
         else j\<lparr>jo_progress := p\<rparr>)"

definition johnson_value :: "johnson \<Rightarrow> u16 \<Rightarrow> nat \<Rightarrow> u16" where
  "johnson_value j mask_val i =
     (if jo_is_buildup j then (if jo_progress j < i then 0 else mask_val)
      else (if i \<le> jo_progress j then 0 else mask_val))"

definition johnson_apply ::
  "direction \<Rightarrow> memory \<Rightarrow> double \<Rightarrow> johnson \<Rightarrow> u16 list \<Rightarrow> (johnson \<times> u16 list) result" where
  "johnson_apply d m elapsed j ms =
     (let update_time = number_get m (jo_update_speed j)
      in bind_res (count_down 64 elapsed (jo_remaining_time j)) (\<lambda>remaining.
         let j1 = j\<lparr>jo_last_mask_size := length ms, jo_remaining_time := remaining\<rparr>;
             j2 = (if update_time \<noteq> 0 \<and> remaining < 0
                   then johnson_step d (j1\<lparr>jo_remaining_time := int (unat update_time)\<rparr>) else j1)
         in bind_res (each_entry (\<lambda>i v. Inr (johnson_value j2 (number_get m (jo_mask_setting j)) i)) ms)
              (\<lambda>ms'. Inr (j2, ms'))))"

definition johnson_reset :: "johnson \<Rightarrow> johnson" where
  "johnson_reset j = j\<lparr>jo_progress := 0, jo_remaining_time := 0, jo_is_buildup := True\<rparr>"

subsection \<open>Closing, opening and segmented waves\<close>

text \<open>\<open>mask[i] += (uint16_t) val\<close>\<close>

definition raise_level :: "double \<Rightarrow> u16 \<Rightarrow> u16 result" where
  "raise_level val v = bind_res (to_unsigned 16 val) (\<lambda>n. Inr (v + of_nat n))"

definition decay_factor :: "u16 \<Rightarrow> double" where
  "decay_factor decay = d_sub (Num 1) (d_div (d_of_word decay) (Num 65535))"

record close_to_center =
  cc_update_time :: number_parameter
  cc_decay :: number_parameter
  cc_intensity :: number_parameter
  cc_current_step :: nat
  cc_remaining_time :: int

definition close_make :: "(string, addr) omap \<Rightarrow> string list \<Rightarrow> close_to_center result" where
  "close_make inputs l =
     bind_res (next_number inputs l) (\<lambda>(u, l1). bind_res (next_number inputs l1) (\<lambda>(d, l2).
     bind_res (next_number inputs l2) (\<lambda>(n, _).
     Inr \<lparr>cc_update_time = u, cc_decay = d, cc_intensity = n, cc_current_step = 0, cc_remaining_time = 0\<rparr>)))"

definition close_active :: "bool \<Rightarrow> nat \<Rightarrow> nat \<Rightarrow> nat \<Rightarrow> bool" where
  "close_active is_opening mask_size st i =
     (if is_opening
      then (if i < mask_size div 2 then size_sub (mask_size div 2) st \<le> i else i < size_add (mask_size div 2) st)
      else (if i < mask_size div 2 then i < st else st < size_sub i (mask_size div 2)))"

definition close_apply ::
  "layer_math \<Rightarrow> bool \<Rightarrow> memory \<Rightarrow> double \<Rightarrow> close_to_center \<Rightarrow> u16 list \<Rightarrow> (close_to_center \<times> u16 list) result" where
  "close_apply M is_opening m elapsed c ms =
     bind_res (count_down 32 elapsed (cc_remaining_time c)) (\<lambda>remaining.
     let c1 = (if remaining < 0
               then c\<lparr>cc_current_step := size_add (cc_current_step c) 1,
                      cc_remaining_time := int (unat (number_get m (cc_update_time c)))\<rparr>
               else c\<lparr>cc_remaining_time := remaining\<rparr>);
         st = (if length ms div 2 \<le> cc_current_step c1 then 0 else cc_current_step c1);
         mult = decay_factor (number_get m (cc_decay c)); intensity = number_get m (cc_intensity c)
     in bind_res (each_entry (\<lambda>i v.
          raise_level (if close_active is_opening (length ms) st i
            then d_mul (lm_pow M mult (of_int_d \<bar>int st - int i\<bar>)) (d_of_word intensity) else Num 0) v) ms)
          (\<lambda>ms'. Inr (c1\<lparr>cc_current_step := st\<rparr>, ms')))"

definition close_reset :: "close_to_center \<Rightarrow> close_to_center" where
  "close_reset c = c\<lparr>cc_current_step := 0, cc_remaining_time := 0\<rparr>"

definition close_step :: "close_to_center \<Rightarrow> close_to_center" where
  "close_step c = c\<lparr>cc_current_step := size_add (cc_current_step c) 1\<rparr>"

text \<open>The fields of \<open>segwave\<close> and of \<open>wave\<close>, which also share reset, step and the countdown.\<close>

record wave_layer =
  wv_update_time :: number_parameter
  wv_decay :: number_parameter
  wv_num_waves :: number_parameter
  wv_intensity :: number_parameter
  wv_current_step :: nat
  wv_remaining_time :: int

definition wave_make :: "(string, addr) omap \<Rightarrow> string list \<Rightarrow> wave_layer result" where
  "wave_make inputs l =
     bind_res (next_number inputs l) (\<lambda>(u, l1). bind_res (next_number inputs l1) (\<lambda>(d, l2).
     bind_res (next_number inputs l2) (\<lambda>(w, l3). bind_res (next_number inputs l3) (\<lambda>(n, _).
     Inr \<lparr>wv_update_time = u, wv_decay = d, wv_num_waves = w, wv_intensity = n, wv_current_step = 0,
          wv_remaining_time = 0\<rparr>))))"

definition wave_advance :: "memory \<Rightarrow> double \<Rightarrow> wave_layer \<Rightarrow> wave_layer result" where
  "wave_advance m elapsed w = bind_res (count_down 32 elapsed (wv_remaining_time w)) (\<lambda>remaining.
     Inr (if remaining < 0
          then w\<lparr>wv_current_step := size_add (wv_current_step w) 1,
                 wv_remaining_time := int (unat (number_get m (wv_update_time w)))\<rparr>
          else w\<lparr>wv_remaining_time := remaining\<rparr>))"

text \<open>
  The distance is the difference of an \<open>int\<close> and a \<open>size_t\<close>, hence a \<open>size_t\<close>. Backwards the index, a \<open>size_t\<close>,
  is never less than 0: after position 0 comes 2 to the 64 minus 1.
\<close>

definition segwave_entry :: "layer_math \<Rightarrow> memory \<Rightarrow> wave_layer \<Rightarrow> nat \<Rightarrow> nat \<Rightarrow> u16 list \<Rightarrow> u16 list result" where
  "segwave_entry M m w wave_div i ms =
     bind_res (size_mod (wv_current_step w) wave_div) (\<lambda>a. bind_res (size_mod i wave_div) (\<lambda>b.
     let distance_to_wall = size_of_int (signed_take_bit 31 (int a) - int b)
     in bind_res (vec_at ms i) (\<lambda>v.
        bind_res (raise_level (if 0 < distance_to_wall
            then d_mul (lm_pow M (decay_factor (number_get m (wv_decay w))) (of_int_d (int distance_to_wall)))
                   (d_of_word (number_get m (wv_intensity w)))
            else Num 0) v) (\<lambda>v'. write_at i v' ms))))"

fun segwave_positions :: "direction \<Rightarrow> nat \<Rightarrow> nat list" where
  "segwave_positions Fwd n = [0..<n]"
| "segwave_positions Rev n = rev [0..<n] @ [2 ^ 64 - 1]"

definition segwave_apply ::
  "layer_math \<Rightarrow> direction \<Rightarrow> memory \<Rightarrow> double \<Rightarrow> wave_layer \<Rightarrow> u16 list \<Rightarrow> (wave_layer \<times> u16 list) result" where
  "segwave_apply M d m elapsed w ms =
     bind_res (wave_advance m elapsed w) (\<lambda>w1.
     let wave_div = length ms div max 1 (unat (number_get m (wv_num_waves w)))
     in bind_res (fold_res (segwave_entry M m w1 wave_div) (segwave_positions d (length ms)) ms) (\<lambda>ms'. Inr (w1, ms')))"

subsection \<open>Waves\<close>

text \<open>
  Forward the index runs down from \<open>mask_size + wave_div\<close> to 1; in the other direction it starts at minus
  \<open>wave_div\<close>, which is compared as a \<open>size_t\<close>: the loop body is not entered unless \<open>wave_div\<close> is 0.
\<close>

definition wave_entry :: "layer_math \<Rightarrow> memory \<Rightarrow> wave_layer \<Rightarrow> nat \<Rightarrow> nat \<Rightarrow> double \<times> u16 list \<Rightarrow> (double \<times> u16 list) result" where
  "wave_entry M m w wave_div i = (\<lambda>(intensity, ms).
     bind_res (size_mod (size_add i (wv_current_step w)) wave_div) (\<lambda>r.
     let intensity' = (if r = 0 then d_of_word (number_get m (wv_intensity w))
                       else d_mul intensity (decay_factor (number_get m (wv_decay w))))
     in if length ms \<le> i then Inr (intensity', ms)
        else bind_res (vec_at ms i) (\<lambda>v. bind_res (raise_level intensity' v) (\<lambda>v'.
             bind_res (write_at i v' ms) (\<lambda>ms'. Inr (intensity', ms'))))))"

fun wave_positions :: "direction \<Rightarrow> nat \<Rightarrow> nat \<Rightarrow> nat list" where
  "wave_positions Fwd n wave_div = rev [1..<n + wave_div + 1]"
| "wave_positions Rev n wave_div = (if wave_div = 0 then [0..<n] else [])"

definition wave_apply ::
  "layer_math \<Rightarrow> direction \<Rightarrow> memory \<Rightarrow> double \<Rightarrow> wave_layer \<Rightarrow> u16 list \<Rightarrow> (wave_layer \<times> u16 list) result" where
  "wave_apply M d m elapsed w ms =
     bind_res (wave_advance m elapsed w) (\<lambda>w1.
     bind_res (size_div (length ms) (unat (number_get m (wv_num_waves w)))) (\<lambda>wave_div.
     bind_res (fold_res (wave_entry M m w1 wave_div) (wave_positions d (length ms) wave_div) (Num 0, ms))
       (\<lambda>(_, ms'). Inr (w1, ms'))))"

definition wave_reset :: "wave_layer \<Rightarrow> wave_layer" where
  "wave_reset w = w\<lparr>wv_current_step := 0, wv_remaining_time := 0\<rparr>"

definition wave_step :: "wave_layer \<Rightarrow> wave_layer" where
  "wave_step w = w\<lparr>wv_current_step := size_add (wv_current_step w) 1\<rparr>"

subsection \<open>Curves\<close>

record gaussian_curve =
  gc_position :: number_parameter
  gc_width :: number_parameter
  gc_height :: number_parameter

definition gaussian_curve_make :: "(string, addr) omap \<Rightarrow> string list \<Rightarrow> gaussian_curve result" where
  "gaussian_curve_make inputs l =
     bind_res (next_number inputs l) (\<lambda>(p, l1). bind_res (next_number inputs l1) (\<lambda>(w, l2).
     bind_res (next_number inputs l2) (\<lambda>(h, _). Inr \<lparr>gc_position = p, gc_width = w, gc_height = h\<rparr>)))"

definition gaussian_curve_apply :: "layer_math \<Rightarrow> memory \<Rightarrow> gaussian_curve \<Rightarrow> u16 list \<Rightarrow> u16 list result" where
  "gaussian_curve_apply M m c ms =
     (let n = of_int_d (int (length ms));
          mu = d_mul (d_div (d_of_word (number_get m (gc_position c))) (Num 65535)) n;
          sigma_s = d_mul (d_mul (Num 2) (d_div (d_of_word (number_get m (gc_width c))) n)) (d_div n (Num 2));
          prefix = d_div (Num 1) (d_mul (d_sqrt (d_mul (Num (1 / 2)) sigma_s)) (d_sqrt (d_mul (Num 2) (lit pi))))
      in each_entry (\<lambda>i v.
           let x = d_sub (of_int_d (int i)) mu;
               val = d_mul prefix (lm_exp M (d_sub (Num 0) (d_div (d_mul x x) sigma_s)))
           in bind_res (to_signed 32 (d_add (d_of_word v) (d_mul val (Num 65535)))) (\<lambda>k.
              Inr (of_int (max 0 (min k 65535))))) ms)"

datatype trig_operations = Op_sin | Op_cos | Op_tan

record trig_layer =
  tr_lowest :: number_parameter
  tr_highest :: number_parameter
  tr_phase :: number_parameter

definition trig_make :: "(string, addr) omap \<Rightarrow> string list \<Rightarrow> trig_layer result" where
  "trig_make inputs l =
     bind_res (next_number inputs l) (\<lambda>(a, l1). bind_res (next_number inputs l1) (\<lambda>(b, l2).
     bind_res (next_number inputs l2) (\<lambda>(p, _). Inr \<lparr>tr_lowest = a, tr_highest = b, tr_phase = p\<rparr>)))"

definition get_rad :: "nat \<Rightarrow> u16 \<Rightarrow> nat \<Rightarrow> double" where
  "get_rad val phase len =
     (let mod_val = d_add (d_mul (d_div (of_int_d (int val)) (of_int_d (int len))) (Num 360)) (d_of_word phase)
      in d_mul (d_div mod_val (Num 360)) (lit pi))"

fun trig_fun :: "layer_math \<Rightarrow> trig_operations \<Rightarrow> double \<Rightarrow> double" where
  "trig_fun M Op_sin = lm_sin M"
| "trig_fun M Op_cos = m_cos (lm_colors M)"
| "trig_fun M Op_tan = lm_tan M"

definition trig_apply :: "layer_math \<Rightarrow> trig_operations \<Rightarrow> memory \<Rightarrow> trig_layer \<Rightarrow> u16 list \<Rightarrow> u16 list result" where
  "trig_apply M op_type m t ms =
     (let phase = number_get m (tr_phase t); highest = number_get m (tr_highest t); lowest = number_get m (tr_lowest t)
      in each_entry (\<lambda>i v.
           bind_res (to_unsigned 16 (d_mul (trig_fun M op_type (get_rad i phase (length ms)))
               (of_int_d (int (unat highest) - int (unat lowest))))) (\<lambda>n. Inr (of_nat n + lowest))) ms)"

end
