(* ===== verification/Chaser_Colors.thy ===== *)
theory Chaser_Colors
  imports Chaser_Waves
begin

text \<open>
  The layers of the colour chaser that change the pixels (\<^verbatim>\<open>src/src/filters/chaser/\<close>:
  \<^verbatim>\<open>layer_plain_color.hpp\<close>, \<^verbatim>\<open>layer_rainbow.hpp\<close>, \<^verbatim>\<open>layer_colormix.hpp\<close>, \<^verbatim>\<open>layer_randomcolor.hpp\<close>,
  \<^verbatim>\<open>layer_color_shift.hpp\<close>, \<^verbatim>\<open>layer_chanmod.hpp\<close>, \<^verbatim>\<open>layer_chancalc.hpp\<close>, \<^verbatim>\<open>layer_gaussian_blur.hpp\<close>,
  \<^verbatim>\<open>layer_invert_color.hpp\<close>), in the style of \<open>Chaser_Masks\<close>. A getter may convert a colour where it is
  stored, so the pixel a getter leaves behind is the one that is used afterwards.
\<close>

subsection \<open>Plain colours, rainbows and mixtures\<close>

record plain_color =
  pc_cp1 :: color_parameter

definition plain_color_make :: "libm \<Rightarrow> (string, addr) omap \<Rightarrow> string list \<Rightarrow> plain_color result" where
  "plain_color_make lm inputs l = bind_res (next_color lm inputs l) (\<lambda>(c, _). Inr \<lparr>pc_cp1 = c\<rparr>)"

definition plain_color_apply :: "libm \<Rightarrow> memory \<Rightarrow> plain_color \<Rightarrow> u16 list \<Rightarrow> pixel list \<Rightarrow> pixel list result" where
  "plain_color_apply lm m c ms pixels =
     fold_res (blend_at lm ms (color_get m (pc_cp1 c))) [0..<length pixels] pixels"

record rainbow =
  rb_cp1 :: color_parameter
  rb_cp2 :: color_parameter
  rb_np :: number_parameter

definition rainbow_make ::
  "libm \<Rightarrow> (string, addr) omap \<Rightarrow> (string, addr) omap \<Rightarrow> string list \<Rightarrow> rainbow result" where
  "rainbow_make lm colors numbers l =
     bind_res (next_color lm colors l) (\<lambda>(c1, l1). bind_res (next_color lm colors l1) (\<lambda>(c2, l2).
     bind_res (next_number numbers l2) (\<lambda>(n, _). Inr \<lparr>rb_cp1 = c1, rb_cp2 = c2, rb_np = n\<rparr>)))"

definition rainbow_entry ::
  "libm \<Rightarrow> memory \<Rightarrow> rainbow \<Rightarrow> nat \<Rightarrow> u16 list \<Rightarrow> nat \<Rightarrow> pixel list \<Rightarrow> pixel list result" where
  "rainbow_entry lm m r seg_count ms i pixels =
     (let divisor = (if seg_count = 1 then Num 1 else of_int_d (int seg_count - 1))
      in bind_res (mix_color_interleaving lm (color_get m (rb_cp1 r)) (color_get m (rb_cp2 r))
             (d_div (of_int_d (int (i mod seg_count))) divisor)) (\<lambda>dest_color.
         bind_res (vec_at pixels i) (\<lambda>p. bind_res (mask_share ms i) (\<lambda>t.
         bind_res (mix_color_interleaving lm p dest_color (d_sub (Num 1) t)) (\<lambda>q. write_at i q pixels)))))"

definition rainbow_apply :: "libm \<Rightarrow> memory \<Rightarrow> rainbow \<Rightarrow> u16 list \<Rightarrow> pixel list \<Rightarrow> pixel list result" where
  "rainbow_apply lm m r ms pixels =
     (let seg_count = max 1 (length pixels div max 1 (unat (number_get m (rb_np r))))
      in fold_res (rainbow_entry lm m r seg_count ms) [0..<length pixels] pixels)"

record colormix =
  cm_cp1 :: color_parameter
  cm_cp2 :: color_parameter

definition colormix_make :: "libm \<Rightarrow> (string, addr) omap \<Rightarrow> string list \<Rightarrow> colormix result" where
  "colormix_make lm inputs l =
     bind_res (next_color lm inputs l) (\<lambda>(c1, l1). bind_res (next_color lm inputs l1) (\<lambda>(c2, _).
     Inr \<lparr>cm_cp1 = c1, cm_cp2 = c2\<rparr>))"

definition colormix_apply :: "libm \<Rightarrow> memory \<Rightarrow> colormix \<Rightarrow> u16 list \<Rightarrow> pixel list \<Rightarrow> pixel list result" where
  "colormix_apply lm m c ms pixels =
     fold_res (\<lambda>i ps. bind_res (mix_color_interleaving lm (color_get m (cm_cp1 c)) (color_get m (cm_cp2 c)) (Num (1 / 2)))
       (\<lambda>res_color. blend_at lm ms res_color i ps)) [0..<length pixels] pixels"

subsection \<open>Random colours\<close>

record randomcolor =
  rc_number_of_colors :: number_parameter
  rc_update_time :: number_parameter
  rc_color_seed :: u32
  rc_remaining_time :: int

definition randomcolor_make ::
  "layer_math \<Rightarrow> u32 \<Rightarrow> (string, addr) omap \<Rightarrow> string list \<Rightarrow> (randomcolor \<times> rng) result" where
  "randomcolor_make M now inputs l =
     bind_res (next_number inputs l) (\<lambda>(n, l1). bind_res (next_number inputs l1) (\<lambda>(u, _).
     let (seed, g) = rand M (srand now)
     in Inr (\<lparr>rc_number_of_colors = n, rc_update_time = u, rc_color_seed = of_nat seed, rc_remaining_time = 0\<rparr>, g)))"

definition randomcolor_step :: "layer_math \<Rightarrow> randomcolor \<Rightarrow> randomcolor \<times> rng" where
  "randomcolor_step M c = (let (seed, g) = rand M (srand (rc_color_seed c)) in (c\<lparr>rc_color_seed := of_nat seed\<rparr>, g))"

definition random_channel :: "layer_math \<Rightarrow> rng \<Rightarrow> u16 \<times> rng" where
  "random_channel M g = (let (r, g') = rand M g in (of_nat (r mod 65535), g'))"

type_synonym color_state = "pixel list \<times> (u16 \<times> u16 \<times> u16) \<times> rng"

definition segment_color :: "layer_math \<Rightarrow> nat \<Rightarrow> (u16 \<times> u16 \<times> u16) \<times> rng \<Rightarrow> (u16 \<times> u16 \<times> u16) \<times> rng" where
  "segment_color M k = (\<lambda>(rgb, g).
     if k = 0
     then (let (r, g1) = random_channel M g; (gr, g2) = random_channel M g1; (b, g3) = random_channel M g2
           in ((r, gr, b), g3))
     else (rgb, g))"

definition randomcolor_entry :: "layer_math \<Rightarrow> u16 list \<Rightarrow> nat \<Rightarrow> nat \<Rightarrow> color_state \<Rightarrow> color_state result" where
  "randomcolor_entry M ms pixels_per_segment i = (\<lambda>(ps, c).
     bind_res (size_mod i pixels_per_segment) (\<lambda>k. case segment_color M k c of ((r, gr, b), g) \<Rightarrow>
     bind_res (blend_at (lm_colors M) ms (rgb_pixel (lm_colors M) r gr b) i ps) (\<lambda>ps'. Inr (ps', (r, gr, b), g))))"

text \<open>\<open>int\<close> minus \<open>double\<close> is a \<open>double\<close>, which is cast back.\<close>

definition randomcolor_apply ::
  "layer_math \<Rightarrow> memory \<Rightarrow> double \<Rightarrow> randomcolor \<Rightarrow> u16 list \<Rightarrow> pixel list \<Rightarrow> (randomcolor \<times> pixel list \<times> rng) result" where
  "randomcolor_apply M m elapsed c ms pixels =
     bind_res (to_signed 32 (d_sub (of_int_d (rc_remaining_time c)) elapsed)) (\<lambda>remaining.
     let c1 = (if remaining < 0
               then fst (randomcolor_step M (c\<lparr>rc_remaining_time := int (unat (number_get m (rc_update_time c)))\<rparr>))
               else c\<lparr>rc_remaining_time := remaining\<rparr>);
         pixels_per_segment = length pixels div max 1 (unat (number_get m (rc_number_of_colors c)))
     in bind_res (fold_res (randomcolor_entry M ms pixels_per_segment) [0..<length pixels]
          (pixels, (0, 0, 0), srand (rc_color_seed c1))) (\<lambda>(ps, _, g). Inr (c1, ps, g)))"

subsection \<open>Shifting colours\<close>

definition color_shift_apply ::
  "libm \<Rightarrow> memory \<Rightarrow> double \<Rightarrow> shift_layer \<Rightarrow> u16 list \<Rightarrow> pixel list \<Rightarrow> (shift_layer \<times> pixel list) result" where
  "color_shift_apply lm m elapsed s ms pixels =
     bind_res (shift_advance m elapsed (length ms) s) (\<lambda>s1.
     bind_res (fold_res (\<lambda>i cs. bind_res (vec_at pixels i) (\<lambda>p. Inr (cs @ [p]))) [0..<length ms] []) (\<lambda>pixel_copy.
     bind_res (fold_res (\<lambda>i ps. bind_res (shifted_index s1 (length ms) i) (\<lambda>k.
         bind_res (vec_at pixel_copy k) (\<lambda>c. blend_at lm ms c i ps))) [0..<length ms] pixels) (\<lambda>ps. Inr (s1, ps))))"

subsection \<open>Setting and computing channels\<close>

datatype color_channel_target = Ch_R | Ch_G | Ch_B | Ch_H | Ch_S | Ch_I

record channel_layer =
  cl_target_value :: number_parameter

definition channel_make :: "(string, addr) omap \<Rightarrow> string list \<Rightarrow> channel_layer result" where
  "channel_make inputs l = bind_res (next_number inputs l) (\<lambda>(n, _). Inr \<lparr>cl_target_value = n\<rparr>)"

definition share :: "u16 \<Rightarrow> double" where
  "share v = d_div (d_of_word v) (Num 65535)"

fun set_channel_to :: "libm \<Rightarrow> color_channel_target \<Rightarrow> u16 \<Rightarrow> pixel \<Rightarrow> pixel result" where
  "set_channel_to lm Ch_R v = setRed lm v"
| "set_channel_to lm Ch_G v = setGreen lm v"
| "set_channel_to lm Ch_B v = setBlue lm v"
| "set_channel_to lm Ch_H v = setHue lm (share v)"
| "set_channel_to lm Ch_S v = setSaturation lm (share v)"
| "set_channel_to lm Ch_I v = setIluminance lm (share v)"

text \<open>The channel as an \<open>int\<close>, with the pixel the getter leaves behind.\<close>

definition word_channel :: "(u16 \<times> pixel) result \<Rightarrow> (int \<times> pixel) result" where
  "word_channel r = bind_res r (\<lambda>(v, p). Inr (int (unat v), p))"

definition cast_channel :: "double \<Rightarrow> pixel \<Rightarrow> (int \<times> pixel) result" where
  "cast_channel d p = bind_res (to_signed 32 d) (\<lambda>v. Inr (v, p))"

fun read_channel :: "libm \<Rightarrow> color_channel_target \<Rightarrow> pixel \<Rightarrow> (int \<times> pixel) result" where
  "read_channel lm Ch_R p = word_channel (getRed lm p)"
| "read_channel lm Ch_G p = word_channel (getGreen lm p)"
| "read_channel lm Ch_B p = word_channel (getBlue lm p)"
| "read_channel lm Ch_H p = (case getHue lm p of (h, q) \<Rightarrow> cast_channel h q)"
| "read_channel lm Ch_S p = (case getSaturation lm p of (s, q) \<Rightarrow> cast_channel (d_mul s (Num 65535)) q)"
| "read_channel lm Ch_I p = (case getIluminance lm p of (i, q) \<Rightarrow> cast_channel (d_mul i (Num 65535)) q)"

fun calc_value :: "mod_operation_type \<Rightarrow> int \<Rightarrow> u16 \<Rightarrow> int result" where
  "calc_value Mod_add x v = signed_res 32 (x + int (unat v))"
| "calc_value Mod_sub x v = signed_res 32 (x - int (unat v))"
| "calc_value Mod_mul x v = signed_res 32 (x * int (unat v))"
| "calc_value Mod_div x v = c_div x (int (unat v))"

definition each_pixel :: "(pixel \<Rightarrow> pixel result) \<Rightarrow> pixel list \<Rightarrow> pixel list result" where
  "each_pixel f pixels = fold_res (\<lambda>i ps. bind_res (vec_at ps i) (\<lambda>p. bind_res (f p) (\<lambda>q. write_at i q ps)))
     [0..<length pixels] pixels"

definition chanmod_apply ::
  "libm \<Rightarrow> color_channel_target \<Rightarrow> memory \<Rightarrow> channel_layer \<Rightarrow> pixel list \<Rightarrow> pixel list result" where
  "chanmod_apply lm target_channel m c = each_pixel (set_channel_to lm target_channel (number_get m (cl_target_value c)))"

definition chancalc_apply ::
  "libm \<Rightarrow> color_channel_target \<Rightarrow> mod_operation_type \<Rightarrow> memory \<Rightarrow> channel_layer \<Rightarrow> pixel list \<Rightarrow> pixel list result" where
  "chancalc_apply lm target_channel op_type m c = each_pixel (\<lambda>p.
     bind_res (read_channel lm target_channel p) (\<lambda>(x, q).
     bind_res (calc_value op_type x (number_get m (cl_target_value c))) (\<lambda>y.
     set_channel_to lm target_channel (of_int (max (min y 65535) 0)) q)))"

subsection \<open>Blurring\<close>

record gaussian_blur =
  gb_kernel_size :: number_parameter
  gb_last_kernel_size :: int
  gb_kernel :: "double list"

definition gaussian_blur_make :: "(string, addr) omap \<Rightarrow> string list \<Rightarrow> gaussian_blur result" where
  "gaussian_blur_make inputs l = bind_res (next_number inputs l) (\<lambda>(n, _).
     Inr \<lparr>gb_kernel_size = n, gb_last_kernel_size = - 1, gb_kernel = []\<rparr>)"

definition kernel_weight :: "layer_math \<Rightarrow> nat \<Rightarrow> int \<Rightarrow> double" where
  "kernel_weight M radius i =
     (let sigma = d_div (of_int_d (int radius)) (Num 3);
          two_sigma_sq = d_mul (d_mul (Num 2) sigma) sigma;
          norm = d_div (Num 1) (d_sqrt (d_mul two_sigma_sq (lit pi)));
          x = of_int_d i
      in d_mul norm (lm_exp M (d_div (d_neg (d_mul x x)) two_sigma_sq)))"

definition make_kernel :: "layer_math \<Rightarrow> nat \<Rightarrow> double list" where
  "make_kernel M radius =
     (let weights = map (kernel_weight M radius) [- int radius..int radius];
          total = fold (\<lambda>w s. d_add s w) weights (Num 0)
      in map (\<lambda>v. d_div v total) weights)"

text \<open>
  \<open>std::clamp<size_t>(i + k, 0, pix_size - 1)\<close>: a position left of the first pixel is a very large \<open>size_t\<close>.
\<close>

definition clamped_index :: "nat \<Rightarrow> nat \<Rightarrow> int \<Rightarrow> nat" where
  "clamped_index pix_size i k = min (size_of_int (int i + k)) (pix_size - 1)"

type_synonym blur_sums = "double \<times> double \<times> double"

definition blur_sample ::
  "libm \<Rightarrow> double list \<Rightarrow> nat \<Rightarrow> nat \<Rightarrow> nat \<Rightarrow> int \<Rightarrow> blur_sums \<times> pixel list \<Rightarrow> (blur_sums \<times> pixel list) result" where
  "blur_sample lm ks radius pix_size i k = (\<lambda>((r, g, b), buffer).
     let idx = clamped_index pix_size i k
     in bind_res (vec_at ks (nat (k + int radius))) (\<lambda>weight. bind_res (vec_at buffer idx) (\<lambda>src.
        bind_res (getRed lm src) (\<lambda>(sr, p1). bind_res (getGreen lm p1) (\<lambda>(sg, p2). bind_res (getBlue lm p2) (\<lambda>(sb, p3).
        Inr ((d_add r (d_mul weight (share sr)), d_add g (d_mul weight (share sg)), d_add b (d_mul weight (share sb))),
             buffer[idx := p3])))))))"

definition blur_channel :: "double \<Rightarrow> u16 result" where
  "blur_channel x = bind_res (to_unsigned 16 (d_mul x (Num 65535))) (\<lambda>n. Inr (of_nat n))"

definition blur_entry ::
  "libm \<Rightarrow> double list \<Rightarrow> nat \<Rightarrow> u16 list \<Rightarrow> nat \<Rightarrow> pixel list \<times> pixel list \<Rightarrow> (pixel list \<times> pixel list) result" where
  "blur_entry lm ks radius ms i = (\<lambda>(pixels, buffer).
     bind_res (fold_res (blur_sample lm ks radius (length pixels) i) [- int radius..int radius]
        ((Num 0, Num 0, Num 0), buffer)) (\<lambda>((r, g, b), buffer').
     bind_res (blur_channel r) (\<lambda>r16. bind_res (blur_channel b) (\<lambda>g16. bind_res (blur_channel b) (\<lambda>b16.
     bind_res (vec_at buffer' i) (\<lambda>p. bind_res (mask_share ms i) (\<lambda>t.
     bind_res (mix_color_interleaving lm p (rgb_pixel lm r16 g16 b16) t) (\<lambda>q.
     bind_res (write_at i q pixels) (\<lambda>pixels'. Inr (pixels', buffer'))))))))))"

text \<open>The buffer is written before it is read: it starts as a copy of the pixels.\<close>

definition gaussian_blur_apply ::
  "layer_math \<Rightarrow> memory \<Rightarrow> gaussian_blur \<Rightarrow> u16 list \<Rightarrow> pixel list \<Rightarrow> (gaussian_blur \<times> pixel list) result" where
  "gaussian_blur_apply M m f ms pixels =
     (let radius = min (unat (number_get m (gb_kernel_size f))) (length pixels div 2)
      in if radius < 1 then Inr (f, pixels)
         else let f1 = (if int radius \<noteq> gb_last_kernel_size f
                        then f\<lparr>gb_kernel := make_kernel M radius, gb_last_kernel_size := int radius\<rparr> else f)
              in bind_res (fold_res (blur_entry (lm_colors M) (gb_kernel f1) radius ms) [0..<length pixels] (pixels, pixels))
                   (\<lambda>(ps, _). Inr (f1, ps)))"

subsection \<open>Inverting\<close>

definition invert_entry :: "libm \<Rightarrow> u16 list \<Rightarrow> nat \<Rightarrow> pixel list \<Rightarrow> pixel list result" where
  "invert_entry lm ms i pixels =
     bind_res (vec_at pixels i) (\<lambda>c. bind_res (getRed lm c) (\<lambda>(r, c1). bind_res (getGreen lm c1) (\<lambda>(g, c2).
     bind_res (getBlue lm c2) (\<lambda>(b, c3). blend_at lm ms (rgb_pixel lm (65535 - r) (65535 - g) (65535 - b)) i (pixels[i := c3])))))"

definition invert_color_apply :: "libm \<Rightarrow> u16 list \<Rightarrow> pixel list \<Rightarrow> pixel list result" where
  "invert_color_apply lm ms pixels = fold_res (invert_entry lm ms) [0..<length pixels] pixels"

end
