(* ===== verification/Chaser.thy ===== *)
theory Chaser
  imports Chaser_Colors Events Actions
begin

text \<open>
  The colour chaser (\<^verbatim>\<open>src/src/filters/chaser/chaser_setup.cpp\<close>, \<^verbatim>\<open>color_chaser.cpp\<close>): a configuration
  text becomes a list of layers, and every cycle starts with white pixels and a full mask, which the
  layers change one after the other. A layer is a constructor of \<open>layer\<close>, its class one of
  \<open>layer_class\<close>. The text is read in two passes: the first adds up the memory of the classes it finds
  (\<open>reserve_table\<close>), the second allocates and constructs them (\<open>build_table\<close>). The memory itself comes
  from a library; the first pass is modelled as the list of the reserved classes.
\<close>

datatype layer_class =
    Class_plain_color | Class_rainbow | Class_sprinkles | Class_dots | Class_scale | Class_scale_inv | Class_flat_mask
  | Class_mask_mod mod_operation_type | Class_mask_shift | Class_color_shift | Class_trig trig_operations
  | Class_mask_strobe | Class_johnson direction | Class_colormix | Class_randomcolor
  | Class_chanmod color_channel_target | Class_chancalc color_channel_target mod_operation_type
  | Class_gaussian_blur | Class_gaussian_curve | Class_invert_mask | Class_invert_color | Class_close_to_center bool
  | Class_segwave direction | Class_wave direction

datatype layer =
    Plain_color plain_color | Rainbow rainbow | Sprinkles sprinkles | Dots dots | Scale scale | Scale_inv scale
  | Flat_mask flat_mask | Mask_mod mod_operation_type mask_mod | Mask_shift shift_layer | Color_shift shift_layer
  | Trig trig_operations trig_layer | Strobe mask_strobe | Johnson direction johnson | Colormix colormix
  | Random_color randomcolor | Chanmod color_channel_target channel_layer
  | Chancalc color_channel_target mod_operation_type channel_layer | Gaussian_blur gaussian_blur
  | Gaussian_curve gaussian_curve | Invert_mask | Invert_color | Close_to_center bool close_to_center
  | Segwave direction wave_layer | Wave direction wave_layer

fun class_of :: "layer \<Rightarrow> layer_class" where
  "class_of (Plain_color _) = Class_plain_color"
| "class_of (Rainbow _) = Class_rainbow"
| "class_of (Sprinkles _) = Class_sprinkles"
| "class_of (Dots _) = Class_dots"
| "class_of (Scale _) = Class_scale"
| "class_of (Scale_inv _) = Class_scale_inv"
| "class_of (Flat_mask _) = Class_flat_mask"
| "class_of (Mask_mod op_type _) = Class_mask_mod op_type"
| "class_of (Mask_shift _) = Class_mask_shift"
| "class_of (Color_shift _) = Class_color_shift"
| "class_of (Trig op_type _) = Class_trig op_type"
| "class_of (Strobe _) = Class_mask_strobe"
| "class_of (Johnson d _) = Class_johnson d"
| "class_of (Colormix _) = Class_colormix"
| "class_of (Random_color _) = Class_randomcolor"
| "class_of (Chanmod c _) = Class_chanmod c"
| "class_of (Chancalc c op_type _) = Class_chancalc c op_type"
| "class_of (Gaussian_blur _) = Class_gaussian_blur"
| "class_of (Gaussian_curve _) = Class_gaussian_curve"
| "class_of Invert_mask = Class_invert_mask"
| "class_of Invert_color = Class_invert_color"
| "class_of (Close_to_center b _) = Class_close_to_center b"
| "class_of (Segwave d _) = Class_segwave d"
| "class_of (Wave d _) = Class_wave d"

subsection \<open>The virtual functions of a layer\<close>

type_synonym light_frame = "pixel list \<times> u16 list \<times> rng"

text \<open>A layer that changes the mask, or the pixels, and neither the other nor the random numbers.\<close>

definition masking :: "(u16 list \<Rightarrow> ('l \<times> u16 list) result) \<Rightarrow> ('l \<Rightarrow> layer) \<Rightarrow> light_frame \<Rightarrow> (layer \<times> light_frame) result" where
  "masking f c = (\<lambda>(ps, ms, g). bind_res (f ms) (\<lambda>(l, ms'). Inr (c l, ps, ms', g)))"

definition coloring ::
  "(u16 list \<Rightarrow> pixel list \<Rightarrow> ('l \<times> pixel list) result) \<Rightarrow> ('l \<Rightarrow> layer) \<Rightarrow> light_frame \<Rightarrow> (layer \<times> light_frame) result" where
  "coloring f c = (\<lambda>(ps, ms, g). bind_res (f ms ps) (\<lambda>(l, ps'). Inr (c l, ps', ms, g)))"

text \<open>The same for a layer without a state of its own.\<close>

definition with_layer :: "'l \<Rightarrow> 'a result \<Rightarrow> ('l \<times> 'a) result" where
  "with_layer l r = bind_res r (\<lambda>x. Inr (l, x))"

fun layer_apply :: "layer_math \<Rightarrow> memory \<Rightarrow> double \<Rightarrow> layer \<Rightarrow> light_frame \<Rightarrow> (layer \<times> light_frame) result" where
  "layer_apply M m el (Plain_color l) = coloring (\<lambda>ms ps. with_layer l (plain_color_apply (lm_colors M) m l ms ps)) Plain_color"
| "layer_apply M m el (Rainbow l) = coloring (\<lambda>ms ps. with_layer l (rainbow_apply (lm_colors M) m l ms ps)) Rainbow"
| "layer_apply M m el (Sprinkles l) = (\<lambda>(ps, ms, g).
     bind_res (sprinkles_apply M m el l ms) (\<lambda>(l', ms', g'). Inr (Sprinkles l', ps, ms', g')))"
| "layer_apply M m el (Dots l) = masking (dots_apply m el l) Dots"
| "layer_apply M m el (Scale l) = masking (\<lambda>ms. with_layer l (scale_apply m l ms)) Scale"
| "layer_apply M m el (Scale_inv l) = masking (\<lambda>ms. with_layer l (scale_inv_apply m l ms)) Scale_inv"
| "layer_apply M m el (Flat_mask l) = masking (\<lambda>ms. with_layer l (flat_mask_apply m l ms)) Flat_mask"
| "layer_apply M m el (Mask_mod op_type l) = masking (\<lambda>ms. with_layer l (mask_mod_apply op_type m l ms)) (Mask_mod op_type)"
| "layer_apply M m el (Mask_shift l) = masking (mask_shift_apply m el l) Mask_shift"
| "layer_apply M m el (Color_shift l) = coloring (color_shift_apply (lm_colors M) m el l) Color_shift"
| "layer_apply M m el (Trig op_type l) = masking (\<lambda>ms. with_layer l (trig_apply M op_type m l ms)) (Trig op_type)"
| "layer_apply M m el (Strobe l) = masking (strobe_apply m el l) Strobe"
| "layer_apply M m el (Johnson d l) = masking (johnson_apply d m el l) (Johnson d)"
| "layer_apply M m el (Colormix l) = coloring (\<lambda>ms ps. with_layer l (colormix_apply (lm_colors M) m l ms ps)) Colormix"
| "layer_apply M m el (Random_color l) = (\<lambda>(ps, ms, g).
     bind_res (randomcolor_apply M m el l ms ps) (\<lambda>(l', ps', g'). Inr (Random_color l', ps', ms, g')))"
| "layer_apply M m el (Chanmod c l) = coloring (\<lambda>ms ps. with_layer l (chanmod_apply (lm_colors M) c m l ps)) (Chanmod c)"
| "layer_apply M m el (Chancalc c op_type l) =
     coloring (\<lambda>ms ps. with_layer l (chancalc_apply (lm_colors M) c op_type m l ps)) (Chancalc c op_type)"
| "layer_apply M m el (Gaussian_blur l) = coloring (gaussian_blur_apply M m l) Gaussian_blur"
| "layer_apply M m el (Gaussian_curve l) = masking (\<lambda>ms. with_layer l (gaussian_curve_apply M m l ms)) Gaussian_curve"
| "layer_apply M m el Invert_mask = masking (\<lambda>ms. with_layer () (invert_mask_apply ms)) (\<lambda>_. Invert_mask)"
| "layer_apply M m el Invert_color =
     coloring (\<lambda>ms ps. with_layer () (invert_color_apply (lm_colors M) ms ps)) (\<lambda>_. Invert_color)"
| "layer_apply M m el (Close_to_center b l) = masking (close_apply M b m el l) (Close_to_center b)"
| "layer_apply M m el (Segwave d l) = masking (segwave_apply M d m el l) (Segwave d)"
| "layer_apply M m el (Wave d l) = masking (wave_apply M d m el l) (Wave d)"

fun layer_reset :: "layer \<Rightarrow> layer" where
  "layer_reset (Sprinkles l) = Sprinkles (sprinkles_reset l)"
| "layer_reset (Dots l) = Dots (dots_reset l)"
| "layer_reset (Mask_shift l) = Mask_shift (shift_reset l)"
| "layer_reset (Color_shift l) = Color_shift (shift_reset l)"
| "layer_reset (Strobe l) = Strobe (strobe_reset l)"
| "layer_reset (Johnson d l) = Johnson d (johnson_reset l)"
| "layer_reset (Close_to_center b l) = Close_to_center b (close_reset l)"
| "layer_reset (Segwave d l) = Segwave d (wave_reset l)"
| "layer_reset (Wave d l) = Wave d (wave_reset l)"
| "layer_reset l = l"

fun layer_step :: "layer_math \<Rightarrow> layer \<Rightarrow> rng \<Rightarrow> (layer \<times> rng) result" where
  "layer_step M (Sprinkles l) g = (case sprinkles_step M g l of (l', g') \<Rightarrow> Inr (Sprinkles l', g'))"
| "layer_step M (Dots l) g = bind_res (dots_step l) (\<lambda>l'. Inr (Dots l', g))"
| "layer_step M (Mask_shift l) g = Inr (Mask_shift (shift_step l), g)"
| "layer_step M (Color_shift l) g = Inr (Color_shift (shift_step l), g)"
| "layer_step M (Strobe l) g = Inr (Strobe (strobe_step l), g)"
| "layer_step M (Johnson d l) g = Inr (Johnson d (johnson_step d l), g)"
| "layer_step M (Random_color l) g = (case randomcolor_step M l of (l', g') \<Rightarrow> Inr (Random_color l', g'))"
| "layer_step M (Close_to_center b l) g = Inr (Close_to_center b (close_step l), g)"
| "layer_step M (Segwave d l) g = Inr (Segwave d (wave_step l), g)"
| "layer_step M (Wave d l) g = Inr (Wave d (wave_step l), g)"
| "layer_step M l g = Inr (l, g)"

subsection \<open>Reading a configuration\<close>

definition reserve_table :: "(string \<times> layer_class) list" where
  "reserve_table = [
    (''plain_color'', Class_plain_color), (''rainbow'', Class_rainbow), (''sprinkles'', Class_sprinkles),
    (''dots'', Class_dots), (''scale'', Class_scale), (''scale_inv'', Class_scale_inv),
    (''flat_mask'', Class_flat_mask), (''maskmod__add'', Class_mask_mod Mod_add),
    (''maskmod__sub'', Class_mask_mod Mod_sub), (''maskmod__mul'', Class_mask_mod Mod_mul),
    (''maskmod__div'', Class_mask_mod Mod_div), (''mask_shift'', Class_mask_shift),
    (''color_shift'', Class_color_shift), (''trig__sin'', Class_trig Op_sin),
    (''trig__cos'', Class_trig Op_cos), (''trig__tan'', Class_trig Op_tan), (''strobe'', Class_mask_strobe),
    (''johnson__fwd'', Class_johnson Fwd), (''johnson__rev'', Class_johnson Rev),
    (''colormix'', Class_colormix), (''random_color'', Class_randomcolor),
    (''color_chanmod__r'', Class_chanmod Ch_R), (''color_chanmod__g'', Class_chanmod Ch_G),
    (''color_chanmod__b'', Class_chanmod Ch_B), (''color_chanmod__h'', Class_chanmod Ch_H),
    (''color_chanmod__s'', Class_chanmod Ch_S), (''color_chanmod__i'', Class_chanmod Ch_I),
    (''color_chancalc__r__add'', Class_chancalc Ch_R Mod_add),
    (''color_chancalc__r__sub'', Class_chancalc Ch_R Mod_sub),
    (''color_chancalc__r__mul'', Class_chancalc Ch_R Mod_mul),
    (''color_chancalc__r__div'', Class_chancalc Ch_R Mod_div),
    (''color_chancalc__g__add'', Class_chancalc Ch_G Mod_add),
    (''color_chancalc__g__sub'', Class_chancalc Ch_G Mod_sub),
    (''color_chancalc__g__mul'', Class_chancalc Ch_G Mod_mul),
    (''color_chancalc__g__div'', Class_chancalc Ch_G Mod_div),
    (''color_chancalc__b__add'', Class_chancalc Ch_B Mod_add),
    (''color_chancalc__b__sub'', Class_chancalc Ch_B Mod_sub),
    (''color_chancalc__b__mul'', Class_chancalc Ch_B Mod_mul),
    (''color_chancalc__b__div'', Class_chancalc Ch_B Mod_div),
    (''color_chancalc__h__add'', Class_chancalc Ch_H Mod_add),
    (''color_chancalc__h__sub'', Class_chancalc Ch_H Mod_sub),
    (''color_chancalc__h__mul'', Class_chancalc Ch_H Mod_mul),
    (''color_chancalc__h__div'', Class_chancalc Ch_H Mod_div),
    (''color_chancalc__s__add'', Class_chancalc Ch_S Mod_add),
    (''color_chancalc__s__sub'', Class_chancalc Ch_S Mod_sub),
    (''color_chancalc__s__mul'', Class_chancalc Ch_S Mod_mul),
    (''color_chancalc__s__div'', Class_chancalc Ch_S Mod_div),
    (''color_chancalc__i__add'', Class_chancalc Ch_I Mod_add),
    (''color_chancalc__i__sub'', Class_chancalc Ch_I Mod_sub),
    (''color_chancalc__i__mul'', Class_chancalc Ch_I Mod_mul),
    (''color_chancalc__i__div'', Class_chancalc Ch_I Mod_div), (''gaussian_blur'', Class_gaussian_blur),
    (''gaussian_curve_on_mask'', Class_gaussian_curve), (''invert_mask'', Class_invert_mask),
    (''invert_color'', Class_invert_color), (''close_to_center'', Class_close_to_center False),
    (''open_from_center'', Class_close_to_center True), (''segwave__fwd'', Class_segwave Fwd),
    (''segwave__rev'', Class_segwave Rev), (''wave__fwd'', Class_wave Fwd), (''wave__rev'', Class_wave Rev)]"

text \<open>The names of the second pass with the number of parameters they need, in the order of the code.\<close>

definition build_effects :: "(string \<times> nat \<times> layer_class) list" where
  "build_effects = [
    (''plain_color'', 1, Class_plain_color), (''rainbow'', 2, Class_rainbow),
    (''sprinkles'', 5, Class_sprinkles), (''dots'', 5, Class_dots), (''scale'', 4, Class_scale),
    (''scale_inv'', 4, Class_scale_inv), (''flat_mask'', 1, Class_flat_mask),
    (''maskmod__add'', 3, Class_mask_mod Mod_add), (''maskmod__sub'', 3, Class_mask_mod Mod_sub),
    (''maskmod__mul'', 3, Class_mask_mod Mod_mul), (''maskmod__div'', 3, Class_mask_mod Mod_div),
    (''mask_shift'', 1, Class_mask_shift), (''color_shift'', 1, Class_color_shift),
    (''trig__sin'', 4, Class_trig Op_sin), (''trig__cos'', 4, Class_trig Op_cos),
    (''trig__tan'', 4, Class_trig Op_tan), (''strobe'', 1, Class_mask_strobe),
    (''johnson__fwd'', 2, Class_johnson Fwd), (''johnson__rev'', 2, Class_johnson Rev),
    (''colormix'', 2, Class_colormix), (''random_color'', 2, Class_randomcolor)]"

definition build_channels :: "(string \<times> nat \<times> layer_class) list" where
  "build_channels = [
    (''color_chanmod_r'', 1, Class_chanmod Ch_R), (''color_chanmod_g'', 1, Class_chanmod Ch_G),
    (''color_chanmod_b'', 1, Class_chanmod Ch_B), (''color_chanmod_h'', 1, Class_chanmod Ch_H),
    (''color_chanmod_s'', 1, Class_chanmod Ch_S), (''color_chanmod_i'', 1, Class_chanmod Ch_I),
    (''color_chancalc_r_add'', 1, Class_chancalc Ch_R Mod_add),
    (''color_chancalc_r_sub'', 1, Class_chancalc Ch_R Mod_sub),
    (''color_chancalc_r_mul'', 1, Class_chancalc Ch_R Mod_mul),
    (''color_chancalc_r_div'', 1, Class_chancalc Ch_R Mod_div),
    (''color_chancalc_g_add'', 1, Class_chancalc Ch_G Mod_add),
    (''color_chancalc_g_sub'', 1, Class_chancalc Ch_G Mod_sub),
    (''color_chancalc_g_mul'', 1, Class_chancalc Ch_G Mod_mul),
    (''color_chancalc_g_div'', 1, Class_chancalc Ch_G Mod_div),
    (''color_chancalc_b_add'', 1, Class_chancalc Ch_B Mod_add),
    (''color_chancalc_b_sub'', 1, Class_chancalc Ch_B Mod_sub),
    (''color_chancalc_b_mul'', 1, Class_chancalc Ch_B Mod_mul),
    (''color_chancalc_b_div'', 1, Class_chancalc Ch_B Mod_div),
    (''color_chancalc_h_add'', 1, Class_chancalc Ch_H Mod_add),
    (''color_chancalc_h_sub'', 1, Class_chancalc Ch_H Mod_sub),
    (''color_chancalc_h_mul'', 1, Class_chancalc Ch_H Mod_mul),
    (''color_chancalc_h_div'', 1, Class_chancalc Ch_H Mod_div),
    (''color_chancalc_s_add'', 1, Class_chancalc Ch_S Mod_add),
    (''color_chancalc_s_sub'', 1, Class_chancalc Ch_S Mod_sub),
    (''color_chancalc_s_mul'', 1, Class_chancalc Ch_S Mod_mul),
    (''color_chancalc_s_div'', 1, Class_chancalc Ch_S Mod_div),
    (''color_chancalc_i_add'', 1, Class_chancalc Ch_I Mod_add),
    (''color_chancalc_i_sub'', 1, Class_chancalc Ch_I Mod_sub),
    (''color_chancalc_i_mul'', 1, Class_chancalc Ch_I Mod_mul),
    (''color_chancalc_i_div'', 1, Class_chancalc Ch_I Mod_div)]"

definition build_shapes :: "(string \<times> nat \<times> layer_class) list" where
  "build_shapes = [
    (''gaussian_blur'', 1, Class_gaussian_blur), (''gaussian_curve_on_mask'', 3, Class_gaussian_curve),
    (''invert_mask'', 0, Class_invert_mask), (''invert_color'', 0, Class_invert_color),
    (''close_to_center'', 3, Class_close_to_center False),
    (''open_from_center'', 3, Class_close_to_center True), (''segwave__fwd'', 4, Class_segwave Fwd),
    (''segwave__rev'', 4, Class_segwave Rev), (''wave__fwd'', 4, Class_wave Fwd),
    (''wave__rev'', 4, Class_wave Rev)]"

definition build_table :: "(string \<times> nat \<times> layer_class) list" where
  "build_table = build_effects @ build_channels @ build_shapes"

record chaser_setup =
  cs_last_update_time :: double
  cs_layers :: "layer list"

record filter_color_chaser =
  ch_color_inputs :: "(string, addr) omap"
  ch_number_inputs :: "(string, addr) omap"
  ch_time_input :: "addr option"
  ch_timescale_input :: "addr option"
  ch_pixels :: "pixel list"
  ch_mask :: "u16 list"
  ch_setup :: "chaser_setup option"
  ch_own_id :: string
  ch_uses_steps :: bool
  ch_uses_args :: bool
  ch_event_sender :: u64
  ch_event_arguments :: "u8 list"

definition new_color_chaser :: filter_color_chaser where
  "new_color_chaser = \<lparr>ch_color_inputs = [], ch_number_inputs = [], ch_time_input = None, ch_timescale_input = None,
     ch_pixels = [], ch_mask = [], ch_setup = None, ch_own_id = [], ch_uses_steps = False, ch_uses_args = False,
     ch_event_sender = 0, ch_event_arguments = replicate 8 0\<rparr>"

definition chaser_error :: "string \<Rightarrow> filter_color_chaser \<Rightarrow> 'a result" where
  "chaser_error cause f = config_error cause 75 (ch_own_id f)"

definition reserve_layer :: "filter_color_chaser \<Rightarrow> string \<Rightarrow> layer_class result" where
  "reserve_layer f entry = (let name = hd (split_str entry (CHR ''|''))
     in case map_of reserve_table name of
          None \<Rightarrow> chaser_error (''Unsupported chaser layer: '' @ name) f
        | Some c \<Rightarrow> Inr c)"

definition reserve_layers :: "filter_color_chaser \<Rightarrow> string list \<Rightarrow> layer_class list result" where
  "reserve_layers f entries = fold_res (\<lambda>e cs. bind_res (reserve_layer f e) (\<lambda>c. Inr (cs @ [c]))) entries []"

definition ensure_arg_count :: "string list \<Rightarrow> nat \<Rightarrow> filter_color_chaser \<Rightarrow> unit result" where
  "ensure_arg_count arg_l required f =
     (if length arg_l < required + 1 then chaser_error (''Not enough parameters to instantiate layer '' @ hd arg_l @ ''.'') f
      else Inr ())"

text \<open>The constructors; those of \<open>sprinkles\<close> and \<open>randomcolor\<close> seed the random numbers with the time.\<close>

definition built :: "('l \<Rightarrow> layer) \<Rightarrow> 'l result \<Rightarrow> (rng, layer) act" where
  "built c r = lift_act (bind_res r (\<lambda>l. Inr (c l)))"

definition built_seeded :: "('l \<Rightarrow> layer) \<Rightarrow> ('l \<times> rng) result \<Rightarrow> (rng, layer) act" where
  "built_seeded c r = bind_act (lift_act r) (\<lambda>(l, g). bind_act (modify_act (\<lambda>_. g)) (\<lambda>_. ret_act (c l)))"

fun construct_layer ::
  "layer_math \<Rightarrow> u32 \<Rightarrow> filter_color_chaser \<Rightarrow> string list \<Rightarrow> layer_class \<Rightarrow> (rng, layer) act" where
  "construct_layer M now f l Class_plain_color = built Plain_color (plain_color_make (lm_colors M) (ch_color_inputs f) l)"
| "construct_layer M now f l Class_rainbow =
     built Rainbow (rainbow_make (lm_colors M) (ch_color_inputs f) (ch_number_inputs f) l)"
| "construct_layer M now f l Class_sprinkles = built_seeded Sprinkles (sprinkles_make M now (ch_number_inputs f) l)"
| "construct_layer M now f l Class_dots = built Dots (dots_make (ch_number_inputs f) l)"
| "construct_layer M now f l Class_scale = built Scale (scale_make (ch_number_inputs f) l)"
| "construct_layer M now f l Class_scale_inv = built Scale_inv (scale_make (ch_number_inputs f) l)"
| "construct_layer M now f l Class_flat_mask = built Flat_mask (flat_mask_make (ch_number_inputs f) l)"
| "construct_layer M now f l (Class_mask_mod op_type) = built (Mask_mod op_type) (mask_mod_make (ch_number_inputs f) l)"
| "construct_layer M now f l Class_mask_shift = built Mask_shift (shift_make (ch_number_inputs f) l)"
| "construct_layer M now f l Class_color_shift = built Color_shift (shift_make (ch_number_inputs f) l)"
| "construct_layer M now f l (Class_trig op_type) = built (Trig op_type) (trig_make (ch_number_inputs f) l)"
| "construct_layer M now f l Class_mask_strobe = built Strobe (strobe_make (ch_number_inputs f) l)"
| "construct_layer M now f l (Class_johnson d) = built (Johnson d) (johnson_make (ch_number_inputs f) l)"
| "construct_layer M now f l Class_colormix = built Colormix (colormix_make (lm_colors M) (ch_color_inputs f) l)"
| "construct_layer M now f l Class_randomcolor = built_seeded Random_color (randomcolor_make M now (ch_number_inputs f) l)"
| "construct_layer M now f l (Class_chanmod c) = built (Chanmod c) (channel_make (ch_number_inputs f) l)"
| "construct_layer M now f l (Class_chancalc c op_type) = built (Chancalc c op_type) (channel_make (ch_number_inputs f) l)"
| "construct_layer M now f l Class_gaussian_blur = built Gaussian_blur (gaussian_blur_make (ch_number_inputs f) l)"
| "construct_layer M now f l Class_gaussian_curve = built Gaussian_curve (gaussian_curve_make (ch_number_inputs f) l)"
| "construct_layer M now f l Class_invert_mask = ret_act Invert_mask"
| "construct_layer M now f l Class_invert_color = ret_act Invert_color"
| "construct_layer M now f l (Class_close_to_center b) = built (Close_to_center b) (close_make (ch_number_inputs f) l)"
| "construct_layer M now f l (Class_segwave d) = built (Segwave d) (wave_make (ch_number_inputs f) l)"
| "construct_layer M now f l (Class_wave d) = built (Wave d) (wave_make (ch_number_inputs f) l)"

definition parse_failure :: "string \<Rightarrow> string \<Rightarrow> string \<Rightarrow> string" where
  "parse_failure exception_name entry cause =
     ''Unable to parse parameter ('' @ exception_name @ '') in layer description: '' @ entry @ ''. Cause: '' @ cause"

definition build_layer :: "layer_math \<Rightarrow> u32 \<Rightarrow> filter_color_chaser \<Rightarrow> string \<Rightarrow> (layer list \<times> rng, unit) act" where
  "build_layer M now f entry =
     (let param_list = split_str entry (CHR ''|'')
      in case map_of build_table (hd param_list) of
           None \<Rightarrow> ret_act ()
         | Some (required, c) \<Rightarrow>
             bind_act (lift_act (ensure_arg_count param_list required f)) (\<lambda>_. \<lambda>(ls, g).
             case construct_layer M now f param_list c g of
               (Inr l, g') \<Rightarrow> (Inr (), ls @ [l], g')
             | (Inl (Invalid_argument s), g') \<Rightarrow> (chaser_error (parse_failure ''std::invalid_argument'' entry s) f, ls, g')
             | (Inl (Out_of_range s), g') \<Rightarrow> (chaser_error (parse_failure ''std::out_of_range'' entry s) f, ls, g')
             | (Inl e, g') \<Rightarrow> (Inl e, ls, g')))"

definition make_setup :: "layer_math \<Rightarrow> u32 \<Rightarrow> filter_color_chaser \<Rightarrow> string \<Rightarrow> (rng, chaser_setup) act" where
  "make_setup M now f configuration g =
     (let layer_descriptions = split_str configuration (CHR '';'')
      in case reserve_layers f layer_descriptions of
           Inl e \<Rightarrow> (Inl e, g)
         | Inr _ \<Rightarrow> (case for_act (build_layer M now f) layer_descriptions ([], g) of
               (Inl e, _, g') \<Rightarrow> (Inl e, g')
             | (Inr _, ls, g') \<Rightarrow> (Inr \<lparr>cs_last_update_time = Num (- 1), cs_layers = ls\<rparr>, g')))"

subsection \<open>Running the layers\<close>

definition scaled_time :: "memory \<Rightarrow> filter_color_chaser \<Rightarrow> double" where
  "scaled_time m f =
     (let t = (case (ch_time_input f, ch_timescale_input f) of
            (Some a, Some b) \<Rightarrow> d_mul (rdf m a) (rdf m b)
          | _ \<Rightarrow> Num 0)
      in if d_lt t (Num 0) then Num 0 else t)"

text \<open>The layers in their order, on the frame the layer before has left.\<close>

definition run_layers :: "layer_math \<Rightarrow> memory \<Rightarrow> double \<Rightarrow> layer list \<Rightarrow> light_frame \<Rightarrow> (layer list \<times> light_frame) result" where
  "run_layers M m elapsed ls fr =
     fold_res (\<lambda>l (done_layers, fr). bind_res (layer_apply M m elapsed l fr) (\<lambda>(l', fr'). Inr (done_layers @ [l'], fr')))
       ls ([], fr)"

definition setup_execute ::
  "layer_math \<Rightarrow> memory \<Rightarrow> chaser_setup \<Rightarrow> filter_color_chaser \<times> rng \<Rightarrow> (filter_color_chaser \<times> rng) result" where
  "setup_execute M m s = (\<lambda>(f, g).
     let t = scaled_time m f;
         elapsed = (if ch_uses_steps f then Num 0 else d_sub t (cs_last_update_time s))
     in bind_res (run_layers M m elapsed (cs_layers s) (ch_pixels f, ch_mask f, g)) (\<lambda>(ls, ps, ms, g').
        Inr (f\<lparr>ch_setup := Some \<lparr>cs_last_update_time = t, cs_layers = ls\<rparr>, ch_pixels := ps, ch_mask := ms\<rparr>, g')))"

definition setup_step :: "layer_math \<Rightarrow> chaser_setup \<times> rng \<Rightarrow> (chaser_setup \<times> rng) result" where
  "setup_step M = (\<lambda>(s, g).
     bind_res (fold_res (\<lambda>l (done_layers, g). bind_res (layer_step M l g) (\<lambda>(l', g'). Inr (done_layers @ [l'], g')))
       (cs_layers s) ([], g)) (\<lambda>(ls, g'). Inr (s\<lparr>cs_layers := ls\<rparr>, g')))"

definition setup_reset :: "memory \<Rightarrow> filter_color_chaser \<Rightarrow> chaser_setup \<Rightarrow> chaser_setup" where
  "setup_reset m f s = \<lparr>cs_last_update_time = scaled_time m f, cs_layers = map layer_reset (cs_layers s)\<rparr>"

subsection \<open>The filter\<close>

definition chaser_receive ::
  "layer_math \<Rightarrow> u32 \<Rightarrow> string \<Rightarrow> string \<Rightarrow> (filter_color_chaser \<times> rng, bool) act" where
  "chaser_receive M now key v = (\<lambda>(f, g).
     if key \<noteq> ''config'' then (Inr False, f, g)
     else (case make_setup M now f v g of
         (Inr s, g') \<Rightarrow> (Inr True, f\<lparr>ch_setup := Some s\<rparr>, g')
       | (Inl (Filter_config_exception _), g') \<Rightarrow> (Inr False, f, g')
       | (Inl e, g') \<Rightarrow> (Inl e, f, g')))"

text \<open>
  Reserving room for a negative number of pixels throws \<open>std::length_error\<close>; the counter of the loops
  is an \<open>int\<close>.
\<close>

definition read_pixel_count :: "layer_math \<Rightarrow> (string, string) omap \<Rightarrow> filter_color_chaser \<Rightarrow> filter_color_chaser result" where
  "read_pixel_count M configuration f = (case map_of configuration ''number_of_pixels'' of
      None \<Rightarrow> chaser_error ''Filter configuration needs to contain number_of_pixels parameter.'' f
    | Some s \<Rightarrow> bind_res (stol s) (\<lambda>num_pix.
        if num_pix < 0 then Inl (Length_error ''vector::reserve'')
        else if 2147483647 < num_pix then Inl Undefined_behaviour
        else bind_res (hsi_pixel (lm_colors M) (Num 0) (Num 0) (Num 1)) (\<lambda>white.
             Inr (f\<lparr>ch_pixels := ch_pixels f @ replicate (nat num_pix) white,
                    ch_mask := ch_mask f @ replicate (nat num_pix) 65535\<rparr>))))"

definition read_trigger_event :: "string \<Rightarrow> filter_color_chaser \<Rightarrow> filter_color_chaser result" where
  "read_trigger_event text_value f = (case split_str text_value (CHR '':'') of
      s # q # args \<Rightarrow>
        bind_res (stoi s) (\<lambda>sender. bind_res (stoi q) (\<lambda>fn.
        fold_res (\<lambda>a f. bind_res (stoi a) (\<lambda>v.
            Inr (f\<lparr>ch_event_arguments := (ch_event_arguments f)[0 := of_int v], ch_uses_args := True\<rparr>)))
          (take 8 args) (f\<lparr>ch_event_sender := event_sender (of_int sender) (of_int fn)\<rparr>)))
    | _ \<Rightarrow> chaser_error (''Invalid event format. Got: '' @ text_value) f)"

definition chaser_pre_setup ::
  "layer_math \<Rightarrow> (string, string) omap \<Rightarrow> string \<Rightarrow> filter_color_chaser \<Rightarrow> filter_color_chaser result" where
  "chaser_pre_setup M configuration own_id f =
     bind_res (read_pixel_count M configuration (f\<lparr>ch_own_id := own_id\<rparr>)) (\<lambda>f1.
     case map_of configuration ''trigger_event'' of
       None \<Rightarrow> Inr (f1\<lparr>ch_uses_steps := False\<rparr>)
     | Some s \<Rightarrow> if s = [] then Inr (f1\<lparr>ch_uses_steps := False\<rparr>) else read_trigger_event s (f1\<lparr>ch_uses_steps := True\<rparr>))"

definition missing_time :: "string \<Rightarrow> string" where
  "missing_time channel =
     ''This filter has not been configured to operate in event mode but the '' @ channel @ '' input is missing.''"

definition link_times :: "addr channel_mapping \<Rightarrow> string \<Rightarrow> filter_color_chaser \<Rightarrow> filter_color_chaser result" where
  "link_times cm own_id f =
     (if ch_uses_steps f then Inr f
      else bind_res (link_input kindf cm ''time'' (missing_time ''time'') 75 own_id) (\<lambda>a.
           bind_res (link_input kindf cm ''time_scale'' (missing_time ''time_scale'') 75 own_id) (\<lambda>b.
           Inr (f\<lparr>ch_time_input := Some a, ch_timescale_input := Some b\<rparr>))))"

definition link_parameters ::
  "('v, 'z) chan_kind_scheme \<Rightarrow> string \<Rightarrow> string \<Rightarrow> (string, string) omap \<Rightarrow> addr channel_mapping \<Rightarrow> string \<Rightarrow>
   (string, addr) omap \<Rightarrow> (string, addr) omap result" where
  "link_parameters k key kind_text configuration cm own_id inputs = (case map_of configuration key of
      None \<Rightarrow> config_error (''Filter configuration must contain '' @ quoted key @ ''.'') 75 own_id
    | Some entries \<Rightarrow> fold_res (\<lambda>e xs.
        bind_res (link_input k cm e (''Expected '' @ kind_text @ '' input channel named '' @ CHR 0x27 # e @ ''.'') 75 own_id) (\<lambda>a.
        Inr (om_update e a xs))) (split_str entries (CHR '':'')) inputs)"

definition chaser_setup_filter ::
  "layer_math \<Rightarrow> u32 \<Rightarrow> (string, string) omap \<Rightarrow> (string, string) omap \<Rightarrow> addr channel_mapping \<Rightarrow> string \<Rightarrow>
   (filter_color_chaser \<times> rng, unit) act" where
  "chaser_setup_filter M now configuration initial_parameters cm own_id = (\<lambda>(f, g).
     case bind_res (link_times cm own_id f) (\<lambda>f1.
          bind_res (link_parameters (kindc (lm_colors M)) ''color_parameters'' ''color'' configuration cm own_id (ch_color_inputs f1)) (\<lambda>cs.
          bind_res (link_parameters kind16 ''number_parameters'' ''16bit'' configuration cm own_id (ch_number_inputs f1)) (\<lambda>ns.
          Inr (f1\<lparr>ch_color_inputs := cs, ch_number_inputs := ns\<rparr>)))) of
       Inl e \<Rightarrow> (Inl e, f, g)
     | Inr f2 \<Rightarrow> for_act (\<lambda>(k, v). bind_act (chaser_receive M now k v) (\<lambda>_. ret_act ())) initial_parameters (f2, g))"

definition chaser_outputs :: "libm \<Rightarrow> nat \<Rightarrow> string \<Rightarrow> filter_color_chaser \<Rightarrow> addr channel_mapping \<Rightarrow> addr channel_mapping" where
  "chaser_outputs lm i name f cm =
     fold (\<lambda>k. ck_publish (kindc lm) (name @ '':'' @ dec k) (i, k)) [0..<length (ch_pixels f)] cm"

definition triggers :: "filter_color_chaser \<Rightarrow> event \<Rightarrow> bool" where
  "triggers f e \<longleftrightarrow> ev_sender e = ch_event_sender f \<and> (ch_uses_args f \<longrightarrow> ch_event_arguments f = event_arguments e)"

definition chaser_update ::
  "layer_math \<Rightarrow> event_storage \<Rightarrow> memory \<Rightarrow> filter_color_chaser \<times> rng \<Rightarrow> (filter_color_chaser \<times> rng) result" where
  "chaser_update M st m = (\<lambda>(f, g). case ch_setup f of
      None \<Rightarrow> Inr (f, g)
    | Some s \<Rightarrow>
        bind_res (if ch_uses_steps f
          then fold_res (\<lambda>e x. if triggers f e then setup_step M x else Inr x) (get_storage st) (s, g)
          else Inr (s, g)) (\<lambda>(s1, g1).
        bind_res (hsi_pixel (lm_colors M) (Num 0) (Num 0) (Num 1)) (\<lambda>white.
        setup_execute M m s1 (f\<lparr>ch_mask := map (\<lambda>_. 65535) (ch_mask f), ch_pixels := map (\<lambda>_. white) (ch_pixels f)\<rparr>, g1))))"

definition chaser_activated :: "memory \<Rightarrow> filter_color_chaser \<Rightarrow> filter_color_chaser" where
  "chaser_activated m f = (case ch_setup f of None \<Rightarrow> f | Some s \<Rightarrow> f\<lparr>ch_setup := Some (setup_reset m f s)\<rparr>)"

end
