(* ===== verification/Chaser_Config.thy ===== *)
theory Chaser_Config
  imports Chaser
begin

text \<open>
  What a configuration of the colour chaser becomes: the relation of the two passes over the text.
\<close>

definition is_channel_class :: "layer_class \<Rightarrow> bool" where
  "is_channel_class c \<longleftrightarrow> (case c of Class_chanmod _ \<Rightarrow> True | Class_chancalc _ _ \<Rightarrow> True | _ \<Rightarrow> False)"

text \<open>The name of the layer of an entry.\<close>

definition entry_name :: "string \<Rightarrow> string" where
  "entry_name entry = hd (split_str entry (CHR ''|''))"

lemma layer_tables_agree:
  assumes "map_of reserve_table name = Some c"
  shows "case map_of build_table name of None \<Rightarrow> is_channel_class c | Some (k, c') \<Rightarrow> c' = c \<and> \<not> is_channel_class c"
proof -
  have "list_all (\<lambda>(n, c). case map_of build_table n of None \<Rightarrow> is_channel_class c | Some (k, c') \<Rightarrow> c' = c \<and> \<not> is_channel_class c)
      reserve_table"
    by code_simp
  moreover have "(name, c) \<in> set reserve_table" using assms by (rule map_of_SomeD)
  ultimately show ?thesis unfolding list_all_iff by blast
qed

lemma built_class: "built k r g = (Inr l, g') \<Longrightarrow> (\<And>x. class_of (k x) = c) \<Longrightarrow> class_of l = c"
  by (auto simp: built_def bind_res_Inr_iff)

lemma built_seeded_class: "built_seeded k r g = (Inr l, g') \<Longrightarrow> (\<And>x. class_of (k x) = c) \<Longrightarrow> class_of l = c"
  by (auto simp: built_seeded_def bind_act_def split: sum.splits prod.splits)

lemma construct_class: "construct_layer M now f l c g = (Inr x, g') \<Longrightarrow> class_of x = c"
  by (cases c) (auto elim: built_class built_seeded_class)

lemma build_layer_class:
  assumes "build_layer M now f entry (ls, g) = (Inr (), ls', g')" and "map_of reserve_table (entry_name entry) = Some c"
  shows "map class_of ls' = map class_of ls @ (if is_channel_class c then [] else [c])"
proof (cases "map_of build_table (entry_name entry)")
  case None
  then show ?thesis using assms layer_tables_agree [OF assms(2)] by (simp add: build_layer_def entry_name_def Let_def)
next
  case (Some kc)
  obtain k where kc: "kc = (k, c)" "\<not> is_channel_class c" using layer_tables_agree [OF assms(2)] Some by (cases kc) auto
  obtain r g1 where c: "construct_layer M now f (split_str entry (CHR ''|'')) c g = (r, g1)"
    by (cases "construct_layer M now f (split_str entry (CHR ''|'')) c g")
  have "\<exists>l. r = Inr l \<and> ls' = ls @ [l]" using assms(1) Some kc(1)
    by (auto simp: build_layer_def entry_name_def [symmetric] Let_def bind_act_def ensure_arg_count_def chaser_error_def
        config_error_def c split: if_splits sum.splits exn.splits)
  then show ?thesis using construct_class c kc(2) by fastforce
qed

lemma reserve_layers_Inr_iff:
  "fold_res (\<lambda>e cs. bind_res (reserve_layer f e) (\<lambda>c. Inr (cs @ [c]))) es cs0 = Inr cs
   \<longleftrightarrow> (\<exists>ds. cs = cs0 @ ds \<and> list_all2 (\<lambda>e c. map_of reserve_table (entry_name e) = Some c) es ds)"
  by (induction es arbitrary: cs0)
    (auto simp: reserve_layer_def entry_name_def chaser_error_def config_error_def bind_res_Inr_iff list_all2_Cons1 Let_def
      split: option.splits)

lemma build_layers_classes:
  assumes "for_act (build_layer M now f) es (ls, g) = (Inr (), ls', g')"
    and "list_all2 (\<lambda>e c. map_of reserve_table (entry_name e) = Some c) es cs"
  shows "map class_of ls' = map class_of ls @ filter (\<lambda>c. \<not> is_channel_class c) cs"
  using assms(2,1)
proof (induction arbitrary: ls g rule: list_all2_induct)
  case (Cons e es c cs)
  obtain ls1 g1 where b: "build_layer M now f e (ls, g) = (Inr (), ls1, g1)"
    and r: "for_act (build_layer M now f) es (ls1, g1) = (Inr (), ls', g')"
    using Cons.prems by (auto simp: bind_act_Inr_iff)
  show ?case using Cons.IH [OF r] build_layer_class [OF b Cons.hyps(1)] by simp
qed simp

text \<open>
  C14. A configuration that is accepted becomes exactly its layers, in their order, without those that set
  or compute a single channel of the colour: the second pass looks for names with one underscore
  where the first has two, so such a layer is accepted and never built. The second pass therefore
  needs at most the memory the first has reserved, whatever the sizes of the classes. A
  configuration with an unknown name is refused before a layer is constructed.
\<close>

theorem layers_follow_configuration:
  "(\<forall>s g'. make_setup M now f configuration g = (Inr s, g') \<longrightarrow>
      (\<exists>cs. reserve_layers f (split_str configuration (CHR '';'')) = Inr cs
         \<and> map class_of (cs_layers s) = filter (\<lambda>c. \<not> is_channel_class c) cs
         \<and> (\<forall>size_of :: layer_class \<Rightarrow> nat.
              sum_list (map (size_of \<circ> class_of) (cs_layers s)) \<le> sum_list (map size_of cs))))
   \<and> (\<forall>e \<in> set (split_str configuration (CHR '';'')). map_of reserve_table (entry_name e) = None \<longrightarrow>
        (\<exists>x. make_setup M now f configuration g = (Inl (Filter_config_exception x), g)))"
proof (intro conjI allI impI ballI)
  fix s g'
  assume a: "make_setup M now f configuration g = (Inr s, g')"
  define es where "es = split_str configuration (CHR '';'')"
  obtain cs where cs: "reserve_layers f es = Inr cs"
    using a by (auto simp: make_setup_def es_def Let_def split: sum.splits)
  obtain ls where ls: "for_act (build_layer M now f) es ([], g) = (Inr (), ls, g')" "cs_layers s = ls"
    using a cs by (auto simp: make_setup_def es_def [symmetric] Let_def split: sum.splits prod.splits)
  have "list_all2 (\<lambda>e c. map_of reserve_table (entry_name e) = Some c) es cs"
    using cs by (simp add: reserve_layers_def reserve_layers_Inr_iff)
  from build_layers_classes [OF ls(1) this] have m: "map class_of (cs_layers s) = filter (\<lambda>c. \<not> is_channel_class c) cs"
    by (simp add: ls(2))
  have "sum_list (map size_of (filter (\<lambda>c. \<not> is_channel_class c) cs)) \<le> sum_list (map size_of cs)" for size_of :: "layer_class \<Rightarrow> nat"
    by (induction cs) auto
  then have "sum_list (map (size_of \<circ> class_of) (cs_layers s)) \<le> sum_list (map size_of cs)" for size_of :: "layer_class \<Rightarrow> nat"
    by (simp add: m [symmetric])
  then show "\<exists>cs. reserve_layers f (split_str configuration (CHR '';'')) = Inr cs
         \<and> map class_of (cs_layers s) = filter (\<lambda>c. \<not> is_channel_class c) cs
         \<and> (\<forall>size_of :: layer_class \<Rightarrow> nat. sum_list (map (size_of \<circ> class_of) (cs_layers s)) \<le> sum_list (map size_of cs))"
    using cs m by (auto simp: es_def)
next
  fix e
  assume e: "e \<in> set (split_str configuration (CHR '';''))" "map_of reserve_table (entry_name e) = None"
  have "\<exists>x. fold_res (\<lambda>e cs. bind_res (reserve_layer f e) (\<lambda>c. Inr (cs @ [c]))) es cs0 = Inl (Filter_config_exception x)"
    if "e \<in> set es" for es cs0
    using that
    by (induction es arbitrary: cs0) (use e(2) in \<open>auto simp: reserve_layer_def entry_name_def chaser_error_def config_error_def
        Let_def split: option.splits\<close>)
  then obtain x where "reserve_layers f (split_str configuration (CHR '';'')) = Inl (Filter_config_exception x)"
    using e(1) unfolding reserve_layers_def by blast
  then show "\<exists>x. make_setup M now f configuration g = (Inl (Filter_config_exception x), g)"
    by (simp add: make_setup_def Let_def)
qed

theorem layers_follow_configuration_witness:
  "make_setup demo_math 0 new_color_chaser ''color_chanmod__r|5;invert_mask'' (0, 0)
     = (Inr \<lparr>cs_last_update_time = Num (- 1), cs_layers = [Invert_mask]\<rparr>, (0, 0))
   \<and> (\<exists>x. make_setup demo_math 0 new_color_chaser ''color_chanmod_r|5'' (0, 0) = (Inl (Filter_config_exception x), (0, 0)))"
proof
  show "make_setup demo_math 0 new_color_chaser ''color_chanmod__r|5;invert_mask'' (0, 0)
     = (Inr \<lparr>cs_last_update_time = Num (- 1), cs_layers = [Invert_mask]\<rparr>, (0, 0))"
  proof -
    have sp: "split_str ''color_chanmod__r|5;invert_mask'' (CHR '';'') = [''color_chanmod__r|5'', ''invert_mask'']"
      "split_str ''color_chanmod__r|5'' (CHR ''|'') = [''color_chanmod__r'', ''5'']"
      "split_str ''invert_mask'' (CHR ''|'') = [''invert_mask'']" by code_simp+
    have tab: "map_of reserve_table ''color_chanmod__r'' = Some (Class_chanmod Ch_R)"
      "map_of reserve_table ''invert_mask'' = Some Class_invert_mask"
      "map_of build_table ''color_chanmod__r'' = None" "map_of build_table ''invert_mask'' = Some (0, Class_invert_mask)"
      by code_simp+
    show ?thesis
      by (simp add: make_setup_def sp tab reserve_layers_def reserve_layer_def build_layer_def ensure_arg_count_def bind_act_def)
  qed
  have "''color_chanmod_r|5'' \<in> set (split_str ''color_chanmod_r|5'' (CHR '';''))"
    "map_of reserve_table (entry_name ''color_chanmod_r|5'') = None"
    by code_simp+
  then show "\<exists>x. make_setup demo_math 0 new_color_chaser ''color_chanmod_r|5'' (0, 0) = (Inl (Filter_config_exception x), (0, 0))"
    using layers_follow_configuration by blast
qed

end
