(* ===== verification/Chaser_Ok.thy ===== *)
theory Chaser_Ok
  imports Chaser
begin

text \<open>
  The colour chaser stays consistent: the layers keep the number of pixels and of mask entries, and
  nothing is thrown out of a cycle.
\<close>

subsection \<open>Sizes\<close>

lemma write_at_length: "write_at i v xs = Inr ys \<Longrightarrow> length ys = length xs"
  by (auto simp: write_at_def split: if_splits)

lemma fold_length:
  assumes "fold_res f xs s = Inr t" and "\<And>x s t. f x s = Inr t \<Longrightarrow> length t = length s"
  shows "length t = length s"
  using fold_res_invariant [OF assms(1), of "\<lambda>t. length t = length s"] assms(2) by simp

text \<open>The same for a loop that carries a list as one part of its state.\<close>

lemma fold_part_length:
  assumes "fold_res f xs s = Inr t" and "\<And>x s t. f x s = Inr t \<Longrightarrow> length (p t) = length (p s)"
  shows "length (p t) = length (p s)"
  using fold_res_invariant [OF assms(1), of "\<lambda>t. length (p t) = length (p s)"] assms(2) by simp

lemma each_entry_length: "each_entry f ms = Inr ms' \<Longrightarrow> length ms' = length ms"
  unfolding each_entry_def by (erule fold_length) (auto simp: bind_res_Inr_iff dest: write_at_length)

lemma each_pixel_length: "each_pixel f ps = Inr ps' \<Longrightarrow> length ps' = length ps"
  unfolding each_pixel_def by (erule fold_length) (auto simp: bind_res_Inr_iff dest: write_at_length)

lemma blend_at_length: "blend_at lm ms c i ps = Inr ps' \<Longrightarrow> length ps' = length ps"
  by (auto simp: blend_at_def bind_res_Inr_iff dest: write_at_length)

lemma sprinkle_length: "sprinkle M n sz on s = Inr t \<Longrightarrow> length (fst t) = length (fst s)"
  by (auto simp: sprinkle_def bind_res_Inr_iff Let_def split: prod.splits dest!: fold_length [OF _ write_at_length])

lemma mask_mod_length: "mask_mod_apply op_type m f ms = Inr ms' \<Longrightarrow> length ms' = length ms"
  unfolding mask_mod_apply_def by (erule fold_length) (auto simp: bind_res_Inr_iff dest: write_at_length)

lemma segwave_entry_length: "segwave_entry M m w d i ms = Inr ms' \<Longrightarrow> length ms' = length ms"
  by (auto simp: segwave_entry_def bind_res_Inr_iff Let_def dest: write_at_length)

lemma wave_entry_length: "wave_entry M m w d i s = Inr t \<Longrightarrow> length (snd t) = length (snd s)"
  by (auto simp: wave_entry_def bind_res_Inr_iff Let_def split: prod.splits if_splits dest: write_at_length)

lemma rainbow_entry_length: "rainbow_entry lm m r n ms i ps = Inr ps' \<Longrightarrow> length ps' = length ps"
  by (auto simp: rainbow_entry_def bind_res_Inr_iff Let_def dest: write_at_length)

lemma randomcolor_entry_length: "randomcolor_entry M ms n i s = Inr t \<Longrightarrow> length (fst t) = length (fst s)"
proof -
  assume a: "randomcolor_entry M ms n i s = Inr t"
  obtain ps c where s: "s = (ps, c)" by (cases s)
  obtain k where "size_mod i n = Inr k" using a by (auto simp: randomcolor_entry_def bind_res_Inr_iff s)
  then show ?thesis using a
    by (cases "segment_color M k c") (auto simp: randomcolor_entry_def s bind_res_Inr_iff, drule blend_at_length, assumption)
qed

lemma blur_entry_length: "blur_entry lm ks n ms i s = Inr t \<Longrightarrow> length (fst t) = length (fst s)"
  by (auto simp: blur_entry_def bind_res_Inr_iff split: prod.splits dest: write_at_length)

lemma invert_entry_length: "invert_entry lm ms i ps = Inr ps' \<Longrightarrow> length ps' = length ps"
  by (auto simp: invert_entry_def bind_res_Inr_iff dest: blend_at_length)

lemma length_simps [simp]:
  "masking f c (ps, ms, g) = Inr (l', fr') \<longleftrightarrow> (\<exists>l ms'. f ms = Inr (l, ms') \<and> l' = c l \<and> fr' = (ps, ms', g))"
  "coloring h c (ps, ms, g) = Inr (l', fr') \<longleftrightarrow> (\<exists>l ps'. h ms ps = Inr (l, ps') \<and> l' = c l \<and> fr' = (ps', ms, g))"
  "with_layer l r = Inr (l1, x) \<longleftrightarrow> r = Inr x \<and> l1 = l"
  by (auto simp: masking_def coloring_def with_layer_def bind_res_Inr_iff)

lemma sprinkles_length:
  "sprinkles_apply M m el s ms = Inr (s', ms', g') \<Longrightarrow> length ms' = length ms"
proof -
  assume "sprinkles_apply M m el s ms = Inr (s', ms', g')"
  then obtain f g ms1 where e: "each_entry f ms = Inr ms1" and r:
    "fold_res (\<lambda>i. sprinkle M (length ms) (number_get m (sp_sprinkle_size s)) (number_get m (sp_mask_on s)))
       [0..<unat (number_get m (sp_num_sprinkles s))] (ms1, g) = Inr (ms', g')"
    by (cases "sprinkles_tick M (number_get m (sp_update_freq s))
         (signed_take_bit 31 (sp_remaining_time s - projr (to_signed 64 el))) s")
      (fastforce simp: sprinkles_apply_def bind_res_Inr_iff signed_res_def split: if_splits)
  from r have "length (fst (ms', g')) = length (fst (ms1, g))" by (rule fold_part_length [where p = fst]) (rule sprinkle_length)
  then show ?thesis using each_entry_length [OF e] by simp
qed

lemma wave_length: "wave_apply M d m el w ms = Inr (w', ms') \<Longrightarrow> length ms' = length ms"
proof -
  assume "wave_apply M d m el w ms = Inr (w', ms')"
  then obtain w1 k t where "fold_res (wave_entry M m w1 k) (wave_positions d (length ms) k) (Num 0, ms) = Inr t" "ms' = snd t"
    by (auto simp: wave_apply_def bind_res_Inr_iff)
  then show ?thesis using fold_part_length [where p = snd, OF _ wave_entry_length] by fastforce
qed

lemma randomcolor_length: "randomcolor_apply M m el c ms ps = Inr (c', ps', g') \<Longrightarrow> length ps' = length ps"
proof -
  assume "randomcolor_apply M m el c ms ps = Inr (c', ps', g')"
  then obtain rgb where "fold_res (randomcolor_entry M ms (length ps div max 1 (unat (number_get m (rc_number_of_colors c)))))
      [0..<length ps] (ps, (0, 0, 0), srand (rc_color_seed c')) = Inr (ps', rgb, g')"
    by (auto simp: randomcolor_apply_def bind_res_Inr_iff Let_def)
  from fold_part_length [where p = fst, OF this randomcolor_entry_length] show ?thesis by simp
qed

lemma blur_length: "gaussian_blur_apply M m f ms ps = Inr (f', ps') \<Longrightarrow> length ps' = length ps"
proof -
  assume a: "gaussian_blur_apply M m f ms ps = Inr (f', ps')"
  show ?thesis
  proof (cases "ps' = ps")
    case False
    then obtain ks n t where "fold_res (blur_entry (lm_colors M) ks n ms) [0..<length ps] (ps, ps) = Inr t" "ps' = fst t"
      using a by (auto simp: gaussian_blur_apply_def bind_res_Inr_iff Let_def split: if_splits)
    then show ?thesis using fold_part_length [where p = fst, OF _ blur_entry_length] by fastforce
  qed simp
qed

lemma mask_layer_lengths:
  "dots_apply m el d ms = Inr (d', ms') \<Longrightarrow> length ms' = length ms"
  "mask_shift_apply m el s ms = Inr (s', ms') \<Longrightarrow> length ms' = length ms"
  "strobe_apply m el st ms = Inr (st', ms') \<Longrightarrow> length ms' = length ms"
  "johnson_apply di m el j ms = Inr (j', ms') \<Longrightarrow> length ms' = length ms"
  "close_apply M b m el c ms = Inr (c', ms') \<Longrightarrow> length ms' = length ms"
  "segwave_apply M di m el w ms = Inr (w', ms') \<Longrightarrow> length ms' = length ms"
  by (auto simp: dots_apply_def mask_shift_apply_def strobe_apply_def johnson_apply_def close_apply_def segwave_apply_def
      bind_res_Inr_iff Let_def split: if_splits dest: each_entry_length fold_length [OF _ segwave_entry_length])

lemma stateless_mask_lengths:
  "scale_apply m s ms = Inr ms' \<Longrightarrow> length ms' = length ms" "scale_inv_apply m s ms = Inr ms' \<Longrightarrow> length ms' = length ms"
  "flat_mask_apply m fm ms = Inr ms' \<Longrightarrow> length ms' = length ms" "invert_mask_apply ms = Inr ms' \<Longrightarrow> length ms' = length ms"
  "gaussian_curve_apply M m gc ms = Inr ms' \<Longrightarrow> length ms' = length ms"
  "trig_apply M op_type m t ms = Inr ms' \<Longrightarrow> length ms' = length ms"
  by (auto simp: scale_apply_def scale_inv_apply_def flat_mask_apply_def invert_mask_apply_def gaussian_curve_apply_def
      trig_apply_def Let_def dest: each_entry_length)

lemma color_layer_lengths:
  "plain_color_apply lm m c ms ps = Inr ps' \<Longrightarrow> length ps' = length ps"
  "rainbow_apply lm m r ms ps = Inr ps' \<Longrightarrow> length ps' = length ps"
  "colormix_apply lm m cm ms ps = Inr ps' \<Longrightarrow> length ps' = length ps"
  "color_shift_apply lm m el s ms ps = Inr (s', ps') \<Longrightarrow> length ps' = length ps"
  "chanmod_apply lm ch m cl ps = Inr ps' \<Longrightarrow> length ps' = length ps"
  "chancalc_apply lm ch op_type m cl ps = Inr ps' \<Longrightarrow> length ps' = length ps"
  "invert_color_apply lm ms ps = Inr ps' \<Longrightarrow> length ps' = length ps"
proof -
  show "plain_color_apply lm m c ms ps = Inr ps' \<Longrightarrow> length ps' = length ps"
    unfolding plain_color_apply_def by (erule fold_length) (rule blend_at_length)
  show "rainbow_apply lm m r ms ps = Inr ps' \<Longrightarrow> length ps' = length ps"
    unfolding rainbow_apply_def Let_def by (erule fold_length) (rule rainbow_entry_length)
  show "colormix_apply lm m cm ms ps = Inr ps' \<Longrightarrow> length ps' = length ps"
    unfolding colormix_apply_def by (erule fold_length) (auto simp: bind_res_Inr_iff dest: blend_at_length)
  show "color_shift_apply lm m el s ms ps = Inr (s', ps') \<Longrightarrow> length ps' = length ps"
    unfolding color_shift_apply_def bind_res_Inr_iff
    by (elim exE conjE, drule fold_length [where s = ps]) (auto simp: bind_res_Inr_iff dest: blend_at_length)
  show "chanmod_apply lm ch m cl ps = Inr ps' \<Longrightarrow> length ps' = length ps"
    "chancalc_apply lm ch op_type m cl ps = Inr ps' \<Longrightarrow> length ps' = length ps"
    by (auto simp: chanmod_apply_def chancalc_apply_def dest: each_pixel_length)
  show "invert_color_apply lm ms ps = Inr ps' \<Longrightarrow> length ps' = length ps"
    unfolding invert_color_apply_def by (erule fold_length) (rule invert_entry_length)
qed

text \<open>A layer keeps the sizes of the frame, and its class.\<close>

lemma layer_apply_length:
  assumes "layer_apply M m el l (ps, ms, g) = Inr (l', ps', ms', g')"
  shows "length ps' = length ps \<and> length ms' = length ms \<and> class_of l' = class_of l"
  using assms
  by (cases l) (auto simp: bind_res_Inr_iff dest: mask_mod_length mask_layer_lengths stateless_mask_lengths color_layer_lengths
      sprinkles_length wave_length randomcolor_length blur_length)

subsection \<open>Exceptions\<close>

text \<open>Rounding keeps a number between 0 and 1.\<close>

lemma rnd_unit:
  assumes "0 \<le> x" "x \<le> 1"
  shows "\<exists>y. rnd x = Num y \<and> 0 \<le> y \<and> y \<le> 1"
proof (cases "x = 0 \<or> x = 1")
  case True
  then show ?thesis using rnd_int [of 1] by (auto simp: rnd_def)
next
  case False
  then have x: "0 < x" "x < 1" using assms by auto
  define e where "e = ulp_exponent x"
  have "log 2 x < 0" using x by simp
  then have "\<lfloor>log 2 \<bar>x\<bar>\<rfloor> \<le> 0" using x by (simp add: floor_le_iff)
  then have e0: "e \<le> 0" by (simp add: e_def ulp_exponent_def)
  define k where "k = nat (- e)"
  have e: "e = - int k" using e0 by (simp add: k_def)
  have p: "(2 :: real) powi e = 1 / 2 ^ k" unfolding e by (rule powi_minus)
  define r where "r = round_half_even (x / 2 powi e)"
  have d: "x / 2 powi e = x * 2 ^ k" unfolding p by simp
  have "x * 2 ^ k < 2 ^ k" using x by simp
  then have "\<bar>x * 2 ^ k\<bar> < of_int (2 ^ k)" using x by (simp add: abs_mult)
  then have up: "\<bar>r\<bar> \<le> 2 ^ k" unfolding r_def d by (rule round_half_even_le)
  have "x * 2 ^ k - 1 / 2 \<le> of_int r" using round_half_even_bounds [of "x * 2 ^ k"] by (simp add: r_def d)
  moreover have "0 < x * 2 ^ k" using x by simp
  ultimately have "- 1 < (of_int r :: real)" by linarith
  then have r0: "0 \<le> r" by linarith
  have "real_of_int r \<le> of_int (2 ^ k)" using up by (simp only: of_int_le_iff)
  then have y: "0 \<le> of_int r * (2 :: real) powi e" "of_int r * (2 :: real) powi e \<le> 1" using r0 unfolding p by simp_all
  have "(1 :: real) < 2 ^ 1024" by (rule one_less_power) simp_all
  then have "\<not> 2 ^ 1024 \<le> \<bar>of_int r * (2 :: real) powi e\<bar>" using y by linarith
  then have "rnd x = Num (of_int r * 2 powi e)" using x by (simp add: rnd_def Let_def e_def r_def)
  then show ?thesis using y by blast
qed

definition unit_share :: "double \<Rightarrow> bool" where
  "unit_share t \<longleftrightarrow> (\<exists>y. t = Num y \<and> 0 \<le> y \<and> y \<le> 1)"

lemma quotient_share: "a \<le> b \<Longrightarrow> b \<noteq> 0 \<Longrightarrow> unit_share (d_div (Num (real a)) (Num (real b)))"
  using rnd_unit [of "real a / real b"] by (auto simp: unit_share_def)

lemma mask_share_unit: "mask_share ms i = Inr t \<Longrightarrow> unit_share t"
proof -
  assume "mask_share ms i = Inr t"
  then have t: "t = d_div (Num (real (unat (ms ! i)))) (Num 65535)"
    by (auto simp: mask_share_def bind_res_Inr_iff d_of_word_Num simp del: unat_of_nat)
  have "unat (ms ! i) < 65536" using unsigned_less [of "ms ! i", where ?'a = nat] by simp
  then have "unat (ms ! i) \<le> 65535" by simp
  from quotient_share [OF this] show ?thesis unfolding t by (metis of_nat_numeral zero_neq_numeral)
qed

lemma complement_share: "unit_share t \<Longrightarrow> unit_share (d_sub (Num 1) t)"
  by (auto simp: unit_share_def d_sub_def dest: rnd_unit [of "1 - _", simplified])

lemma no_throw_pixel [simp, intro]:
  "no_throw (convert_hsi_to_rgb_pre lm p)" "no_throw (getRed lm p)" "no_throw (getGreen lm p)" "no_throw (getBlue lm p)"
  "no_throw (setRed lm v p)" "no_throw (setGreen lm v p)" "no_throw (setBlue lm v p)" "no_throw (setHue lm d p)"
  "no_throw (setSaturation lm d p)" "no_throw (setIluminance lm d p)" "no_throw (hsi_pixel lm h s j)"
proof -
  have s: "no_throw (sector_rgb16 lm h s i)" for h s i
    by (auto simp: sector_rgb16_def to_u16_def Let_def intro!: no_throw_bind split: prod.splits)
  have "no_throw (pixel_to_rgb16 lm p)" for p by (auto simp: pixel_to_rgb16_def Let_def intro!: s no_throw_bind split: prod.splits)
  then have "no_throw (convert_hsi_to_rgb lm p)" for p by (auto simp: convert_hsi_to_rgb_def intro!: no_throw_bind split: prod.splits)
  then show c: "no_throw (convert_hsi_to_rgb_pre lm p)" for p by (simp add: convert_hsi_to_rgb_pre_def)
  show "no_throw (getRed lm p)" "no_throw (getGreen lm p)" "no_throw (getBlue lm p)"
    "no_throw (setRed lm v p)" "no_throw (setGreen lm v p)" "no_throw (setBlue lm v p)" "no_throw (setHue lm d p)"
    "no_throw (setSaturation lm d p)" "no_throw (setIluminance lm d p)" "no_throw (hsi_pixel lm h s j)"
    by (auto simp: getRed_def getGreen_def getBlue_def setRed_def setGreen_def setBlue_def setHue_def setSaturation_def
        setIluminance_def hsi_pixel_def intro!: c no_throw_bind)
qed

lemma no_throw_mix: "unit_share t \<Longrightarrow> no_throw (mix_color_interleaving lm p q t)"
  by (auto simp: unit_share_def mix_color_interleaving_def Let_def intro!: no_throw_bind split: prod.splits)

lemma no_throw_case_prod: "(\<And>a b. x = (a, b) \<Longrightarrow> no_throw (f a b)) \<Longrightarrow> no_throw (case x of (a, b) \<Rightarrow> f a b)"
  by (cases x) simp

lemma no_throw_blend [simp, intro]: "no_throw (blend_at lm ms c i ps)"
  unfolding blend_at_def by (intro no_throw_bind no_throw_mix no_throw_basic) (rule mask_share_unit)

lemma no_throw_each [intro]:
  "(\<And>i v. no_throw (f i v)) \<Longrightarrow> no_throw (each_entry f ms)" "(\<And>p. no_throw (h p)) \<Longrightarrow> no_throw (each_pixel h ps)"
  unfolding each_entry_def each_pixel_def by (intro no_throw_fold no_throw_bind no_throw_basic; simp)+

lemmas no_throw_rules = no_throw_bind no_throw_fold no_throw_each no_throw_basic no_throw_blend no_throw_case_prod

lemma no_throw_count_down [simp, intro]: "no_throw (count_down w el r)"
  unfolding count_down_def by (intro no_throw_rules)

lemma no_throw_slope [simp, intro]: "no_throw (slope a b c d)"
  by (auto simp: slope_def intro!: no_throw_bind)

lemma no_throw_mod [simp, intro]: "no_throw (mod_entry op_type v x)" "no_throw (calc_value op_type y v)"
  by (cases op_type; auto intro!: no_throw_bind)+

lemma no_throw_raise_level [simp, intro]: "no_throw (raise_level d v)"
  by (auto simp: raise_level_def intro!: no_throw_bind)

lemma no_throw_sprinkles: "no_throw (sprinkles_apply M m el s ms)"
  unfolding sprinkles_apply_def sprinkle_def Let_def
  by (intro no_throw_rules no_throw_simps)

lemma no_throw_masks:
  "no_throw (dots_apply m el d ms)" "no_throw (scale_apply m sc ms)" "no_throw (scale_inv_apply m sc ms)"
  "no_throw (flat_mask_apply m fm ms)" "no_throw (invert_mask_apply ms)" "no_throw (mask_mod_apply op_type m mm ms)"
  unfolding dots_apply_def scale_apply_def scale_inv_apply_def flat_mask_apply_def invert_mask_apply_def mask_mod_apply_def
    Let_def
  by (auto intro!: no_throw_rules)

lemma no_throw_shift [simp, intro]: "no_throw (shift_advance m el n s)" "no_throw (shifted_index s n i)"
  unfolding shift_advance_def shifted_index_def by (auto intro!: no_throw_rules)

lemma no_throw_curves:
  "no_throw (mask_shift_apply m el s ms)" "no_throw (strobe_apply m el st ms)" "no_throw (johnson_apply di m el j ms)"
  "no_throw (close_apply M b m el c ms)" "no_throw (gaussian_curve_apply M m gc ms)" "no_throw (trig_apply M tr m t ms)"
  unfolding mask_shift_apply_def strobe_apply_def strobe_interval_def johnson_apply_def close_apply_def
    gaussian_curve_apply_def trig_apply_def Let_def
  by (auto intro!: no_throw_rules)

lemma no_throw_wave_entries [simp, intro]: "no_throw (segwave_entry M m w d i ms)" "no_throw (wave_entry M m w d i s)"
  unfolding segwave_entry_def wave_entry_def Let_def by (auto intro!: no_throw_rules split: prod.splits)

lemma no_throw_waves: "no_throw (segwave_apply M di m el w ms)" "no_throw (wave_apply M di m el w ms)"
  unfolding segwave_apply_def wave_apply_def wave_advance_def Let_def by (auto intro!: no_throw_rules split: prod.splits)

lemma rainbow_share:
  assumes "n \<noteq> 0" "n < 2 ^ 52"
  shows "unit_share (d_div (of_int_d (int (i mod n))) (if n = 1 then Num 1 else of_int_d (int n - 1)))"
proof (cases "n = 1")
  case True
  then show ?thesis using quotient_share [of 0 1] by (simp add: of_int_d_def rnd_def)
next
  case False
  have le: "i mod n \<le> n - 1" using assms(1) by (simp add: Suc_leI less_Suc_eq_le [symmetric])
  have "of_int_d (int (i mod n)) = Num (real (i mod n))"
    using rnd_nat [of "i mod n"] le assms(2) by (simp add: of_int_d_def)
  moreover have "of_int_d (int n - 1) = Num (real (n - 1))"
    using rnd_nat [of "n - 1"] assms by (simp add: of_int_d_def of_nat_diff)
  ultimately show ?thesis using quotient_share [OF le] False assms(1) by simp
qed

lemma no_throw_rainbow:
  assumes "length ps < 2 ^ 52"
  shows "no_throw (rainbow_apply lm m r ms ps)"
proof -
  define n where "n = max 1 (length ps div max 1 (unat (number_get m (rb_np r))))"
  have "length ps div max 1 (unat (number_get m (rb_np r))) \<le> length ps" by (rule div_le_dividend)
  then have "length ps div max 1 (unat (number_get m (rb_np r))) < 2 ^ 52" using assms by (rule le_less_trans)
  moreover have "(1 :: nat) < 2 ^ 52" by simp
  ultimately have n: "n \<noteq> 0" "n < 2 ^ 52" unfolding n_def by (simp, metis max_less_iff_conj)
  have "no_throw (rainbow_entry lm m r n ms i xs)" for i xs
    unfolding rainbow_entry_def Let_def
    by (intro no_throw_bind no_throw_mix no_throw_basic complement_share rainbow_share n) (rule mask_share_unit)
  then show ?thesis unfolding rainbow_apply_def Let_def n_def [symmetric] by (intro no_throw_fold)
qed

lemma half_share: "unit_share (Num (1 / 2))"
  unfolding unit_share_def by (intro exI [of _ "1 / 2"]) simp

lemma no_throw_read_channel [simp, intro]: "no_throw (read_channel lm c p)"
  by (cases c) (auto simp: word_channel_def cast_channel_def intro!: no_throw_rules split: prod.splits)

lemma no_throw_set_channel [simp, intro]: "no_throw (set_channel_to lm c v p)"
  by (cases c) auto

lemma no_throw_colors:
  "no_throw (plain_color_apply lm m c ms ps)" "no_throw (colormix_apply lm m cm ms ps)"
  "no_throw (randomcolor_apply M m el rc ms ps)" "no_throw (color_shift_apply lm m el s ms ps)"
  "no_throw (chanmod_apply lm ch m cl ps)" "no_throw (chancalc_apply lm ch op_type m cl ps)"
  "no_throw (invert_color_apply lm ms ps)"
  unfolding plain_color_apply_def colormix_apply_def randomcolor_apply_def randomcolor_entry_def color_shift_apply_def
    chanmod_apply_def chancalc_apply_def invert_color_apply_def invert_entry_def Let_def
  by (auto intro!: no_throw_rules no_throw_mix half_share split: prod.splits)

lemma no_throw_blur: "no_throw (gaussian_blur_apply M m f ms ps)"
proof -
  have s: "no_throw (blur_sample lm ks r n i k s)" for lm ks r n i k s
    unfolding blur_sample_def Let_def by (auto intro!: no_throw_rules split: prod.splits)
  have "no_throw (blur_entry lm ks r ms i s)" for lm ks r i s
    unfolding blur_entry_def blur_channel_def
    by (auto intro!: no_throw_rules s no_throw_mix mask_share_unit split: prod.splits)
  then show ?thesis unfolding gaussian_blur_apply_def Let_def by (auto intro!: no_throw_rules)
qed

text \<open>A layer throws nothing.\<close>

lemma no_throw_layer:
  assumes "length ps < 2 ^ 52"
  shows "no_throw (layer_apply M m el l (ps, ms, g))"
  using assms
  by (cases l) (auto simp: masking_def coloring_def with_layer_def
      intro!: no_throw_bind no_throw_sprinkles no_throw_masks no_throw_curves no_throw_waves no_throw_rainbow no_throw_colors no_throw_blur)

subsection \<open>The interface of the layers\<close>

text \<open>
  \<open>chaser_layer_executor\<close>, the abstract class of \<^verbatim>\<open>chaser_setup.hpp\<close>: what the set-up calls of a layer, and
  what every layer promises. The lemmas are those of the loops of the set-up over its layers.
\<close>

locale layer_executor =
  fixes apply_layer :: "'l \<Rightarrow> light_frame \<Rightarrow> ('l \<times> light_frame) result"
    and step_layer :: "'l \<Rightarrow> rng \<Rightarrow> ('l \<times> rng) result"
    and reset_layer :: "'l \<Rightarrow> 'l"
    and kind_of :: "'l \<Rightarrow> 'k"
  assumes apply_keeps: "apply_layer l (ps, ms, g) = Inr (l', ps', ms', g') \<Longrightarrow>
      length ps' = length ps \<and> length ms' = length ms \<and> kind_of l' = kind_of l"
    and step_keeps: "step_layer l g = Inr (l', g') \<Longrightarrow> kind_of l' = kind_of l"
    and reset_keeps: "kind_of (reset_layer l) = kind_of l"
    and apply_no_throw: "length ps < 2 ^ 52 \<Longrightarrow> no_throw (apply_layer l (ps, ms, g))"
    and step_no_throw: "no_throw (step_layer l g)"
begin

lemma apply_all_no_throw:
  assumes "length ps < 2 ^ 52"
  shows "no_throw (fold_res (\<lambda>l (ds, fr). bind_res (apply_layer l fr) (\<lambda>(l', fr'). Inr (ds @ [l'], fr'))) ls (ds, ps, ms, g))"
  using assms
proof (induction ls arbitrary: ds ps ms g)
  case (Cons l ls)
  have rest: "no_throw (fold_res (\<lambda>l (ds, fr). bind_res (apply_layer l fr) (\<lambda>(l', fr'). Inr (ds @ [l'], fr'))) ls x)"
    if "bind_res (apply_layer l (ps, ms, g)) (\<lambda>(l', fr'). Inr (ds @ [l'], fr')) = Inr x" for x
  proof -
    obtain l' ps' ms' g' where a: "apply_layer l (ps, ms, g) = Inr (l', ps', ms', g')" and x: "x = (ds @ [l'], ps', ms', g')"
      using \<open>_ = Inr x\<close> by (auto simp: bind_res_Inr_iff)
    have "length ps' < 2 ^ 52" using apply_keeps [OF a] Cons.prems by simp
    then show ?thesis unfolding x by (rule Cons.IH)
  qed
  have "no_throw (bind_res (apply_layer l (ps, ms, g)) (\<lambda>(l', fr'). Inr (ds @ [l'], fr')))"
    by (intro no_throw_bind apply_no_throw Cons.prems no_throw_case_prod no_throw_simps)
  from no_throw_bind [OF this rest] show ?case by (simp only: fold_res.simps prod.case)
qed simp

lemma apply_all_keeps:
  assumes "fold_res (\<lambda>l (ds, fr). bind_res (apply_layer l fr) (\<lambda>(l', fr'). Inr (ds @ [l'], fr'))) ls (ds, ps, ms, g) = Inr (ls', ps', ms', g')"
  shows "length ps' = length ps \<and> length ms' = length ms \<and> map kind_of ls' = map kind_of ds @ map kind_of ls"
  using assms
proof (induction ls arbitrary: ds ps ms g)
  case (Cons l ls)
  then obtain l1 ps1 ms1 g1 where a: "apply_layer l (ps, ms, g) = Inr (l1, ps1, ms1, g1)" and
    r: "fold_res (\<lambda>l (ds, fr). bind_res (apply_layer l fr) (\<lambda>(l', fr'). Inr (ds @ [l'], fr'))) ls (ds @ [l1], ps1, ms1, g1) = Inr (ls', ps', ms', g')"
    by (auto simp: bind_res_Inr_iff)
  show ?case using Cons.IH [OF r] apply_keeps [OF a] by simp
qed simp

lemma step_all_keeps:
  assumes "fold_res (\<lambda>l (ds, g). bind_res (step_layer l g) (\<lambda>(l', g'). Inr (ds @ [l'], g'))) ls (ds, g) = Inr (ls', g')"
  shows "map kind_of ls' = map kind_of ds @ map kind_of ls"
  using assms
proof (induction ls arbitrary: ds g)
  case (Cons l ls)
  then obtain l1 g1 where a: "step_layer l g = Inr (l1, g1)" and r: "fold_res (\<lambda>l (ds, g). bind_res (step_layer l g) (\<lambda>(l', g'). Inr (ds @ [l'], g'))) ls (ds @ [l1], g1) = Inr (ls', g')"
    by (auto simp: bind_res_Inr_iff)
  show ?case using Cons.IH [OF r] step_keeps [OF a] by simp
qed simp

lemma step_all_no_throw: "no_throw (fold_res (\<lambda>l (ds, g). bind_res (step_layer l g) (\<lambda>(l', g'). Inr (ds @ [l'], g'))) ls x)"
  by (intro no_throw_fold no_throw_bind no_throw_case_prod step_no_throw no_throw_simps)

lemma reset_all_keeps: "map kind_of (map reset_layer ls) = map kind_of ls"
  by (simp add: reset_keeps)

end

text \<open>The layers of the chaser keep these promises, with their class.\<close>

lemma layer_step_class: "layer_step M l g = Inr (l', g') \<Longrightarrow> class_of l' = class_of l"
  by (cases l) (auto simp: bind_res_Inr_iff split: prod.splits)

lemma no_throw_layer_step: "no_throw (layer_step M l g)"
  by (cases l) (auto simp: sprinkles_step_def dots_step_def randomcolor_step_def Let_def intro!: no_throw_rules split: prod.splits)

lemma reset_class [simp]: "class_of (layer_reset l) = class_of l"
  by (cases l) simp_all

interpretation executor: layer_executor "layer_apply M m el" "layer_step M" layer_reset class_of for M m el
  by unfold_locales (simp_all add: layer_apply_length layer_step_class no_throw_layer no_throw_layer_step)

subsection \<open>Cycles\<close>

lemma no_throw_setup_step: "no_throw (setup_step M (s, g))"
  unfolding setup_step_def prod.case by (intro no_throw_bind no_throw_case_prod no_throw_simps executor.step_all_no_throw)

lemma no_throw_run_layers: "length ps < 2 ^ 52 \<Longrightarrow> no_throw (run_layers M m el ls (ps, ms, g))"
  unfolding run_layers_def by (rule executor.apply_all_no_throw)

lemma run_layers_length:
  "run_layers M m el ls (ps, ms, g) = Inr (ls', ps', ms', g') \<Longrightarrow>
   length ps' = length ps \<and> length ms' = length ms \<and> map class_of ls' = map class_of ls"
  unfolding run_layers_def by (drule executor.apply_all_keeps) simp

lemma setup_step_classes:
  assumes "setup_step M (s, g) = Inr (s', g')"
  shows "map class_of (cs_layers s') = map class_of (cs_layers s)"
proof -
  obtain ls where "fold_res (\<lambda>l (ds, g). bind_res (layer_step M l g) (\<lambda>(l', g'). Inr (ds @ [l'], g'))) (cs_layers s) ([], g)
      = Inr (ls, g')" and "s' = s\<lparr>cs_layers := ls\<rparr>"
    using assms by (auto simp: setup_step_def bind_res_Inr_iff)
  then show ?thesis using executor.step_all_keeps by fastforce
qed

definition chaser_ok :: "nat \<Rightarrow> filter_color_chaser \<Rightarrow> bool" where
  "chaser_ok n f \<longleftrightarrow> length (ch_pixels f) = n \<and> length (ch_mask f) = n"

definition setup_classes :: "filter_color_chaser \<Rightarrow> layer_class list option" where
  "setup_classes f = map_option (\<lambda>s. map class_of (cs_layers s)) (ch_setup f)"

lemma chaser_update_keeps:
  assumes "chaser_ok n f" and "chaser_update M st m (f, g) = Inr (f', g')"
  shows "chaser_ok n f' \<and> setup_classes f' = setup_classes f"
proof (cases "ch_setup f")
  case None
  then show ?thesis using assms by (simp add: chaser_update_def)
next
  case (Some s)
  define f1 where "f1 white = f\<lparr>ch_mask := map (\<lambda>_. 65535) (ch_mask f), ch_pixels := map (\<lambda>_. white) (ch_pixels f)\<rparr>" for white
  obtain s1 g1 white where steps: "(if ch_uses_steps f
      then fold_res (\<lambda>e x. if triggers f e then setup_step M x else Inr x) (get_storage st) (s, g) else Inr (s, g)) = Inr (s1, g1)"
    and ex: "setup_execute M m s1 (f1 white, g1) = Inr (f', g')"
    using assms(2) Some by (auto simp: chaser_update_def bind_res_Inr_iff f1_def)
  have stepped: "map class_of (cs_layers (fst x)) = map class_of (cs_layers s)"
    if "fold_res (\<lambda>e x. if triggers f e then setup_step M x else Inr x) es (s, g) = Inr x" for es x
    using that
    by (rule fold_res_invariant [where P = "\<lambda>x. map class_of (cs_layers (fst x)) = map class_of (cs_layers s)"])
      (auto split: if_splits dest: setup_step_classes)
  then have s1: "map class_of (cs_layers s1) = map class_of (cs_layers s)"
    using steps stepped [of "get_storage st" "(s1, g1)"] by (simp split: if_splits)
  obtain el ls ps ms where r: "run_layers M m el (cs_layers s1) (ch_pixels (f1 white), ch_mask (f1 white), g1) = Inr (ls, ps, ms, g')"
    and f': "f' = (f1 white)\<lparr>ch_setup := Some \<lparr>cs_last_update_time = scaled_time m (f1 white), cs_layers = ls\<rparr>, ch_pixels := ps, ch_mask := ms\<rparr>"
    using ex by (auto simp: setup_execute_def bind_res_Inr_iff Let_def)
  show ?thesis using run_layers_length [OF r] s1 assms(1) Some
    by (simp add: f' f1_def chaser_ok_def setup_classes_def)
qed

lemma chaser_update_no_throw:
  assumes "chaser_ok n f" and "n < 2 ^ 52"
  shows "no_throw (chaser_update M st m (f, g))"
proof (cases "ch_setup f")
  case (Some s)
  have "no_throw (setup_execute M m s1 (f1, g1))" if "length (ch_pixels f1) = n" for s1 f1 g1
  proof -
    have "length (ch_pixels f1) < 2 ^ 52" using that assms(2) by simp
    then have "no_throw (run_layers M m el ls (ch_pixels f1, ch_mask f1, g1))" for el ls
      by (rule no_throw_run_layers)
    then show ?thesis unfolding setup_execute_def Let_def prod.case by (intro no_throw_bind no_throw_case_prod no_throw_simps)
  qed
  moreover have "no_throw (if b then fold_res (\<lambda>e x. if triggers f e then setup_step M x else Inr x) es (s, g) else Inr (s, g))"
    for b es by (auto intro!: no_throw_fold no_throw_setup_step)
  ultimately show ?thesis using assms(1) unfolding chaser_update_def prod.case Some option.case
    by (intro no_throw_bind no_throw_case_prod no_throw_pixel) (simp_all add: chaser_ok_def)
qed (simp add: chaser_update_def)

lemma chaser_receive_keeps:
  assumes "chaser_receive M now key v (f, g) = (r, f', g')"
  shows "ch_pixels f' = ch_pixels f \<and> ch_mask f' = ch_mask f \<and> (r \<noteq> Inr True \<longrightarrow> f' = f)"
  using assms by (auto simp: chaser_receive_def split: if_splits prod.splits sum.splits exn.splits)

lemma trigger_event_ok:
  assumes r: "read_trigger_event t f2 = Inr f1" and ok: "chaser_ok n f2"
  shows "chaser_ok n f1"
proof -
  obtain a b args where sp: "split_str t (CHR '':'') = a # b # args"
    using r by (auto simp: read_trigger_event_def chaser_error_def config_error_def split: list.splits)
  then obtain x y where "fold_res (\<lambda>a f. bind_res (stoi a) (\<lambda>v.
      Inr (f\<lparr>ch_event_arguments := (ch_event_arguments f)[0 := of_int v], ch_uses_args := True\<rparr>))) (take 8 args)
      (f2\<lparr>ch_event_sender := event_sender (of_int x) (of_int y)\<rparr>) = Inr f1"
    using r by (auto simp: read_trigger_event_def bind_res_Inr_iff)
  then show ?thesis
    by (rule fold_res_invariant [where P = "chaser_ok n"]) (use ok in \<open>auto simp: chaser_ok_def bind_res_Inr_iff\<close>)
qed

lemma chaser_pre_setup_ok:
  assumes "map_of configuration ''number_of_pixels'' = Some s" and "stol s = Inr (int n)"
    and "chaser_pre_setup M configuration own_id new_color_chaser = Inr f0"
  shows "chaser_ok n f0 \<and> n < 2 ^ 31"
proof -
  obtain f1 where f1: "read_pixel_count M configuration (new_color_chaser\<lparr>ch_own_id := own_id\<rparr>) = Inr f1"
    and r: "f0 = f1\<lparr>ch_uses_steps := False\<rparr> \<or> (\<exists>t. read_trigger_event t (f1\<lparr>ch_uses_steps := True\<rparr>) = Inr f0)"
    using assms(3) by (auto simp: chaser_pre_setup_def bind_res_Inr_iff split: option.splits if_splits)
  have ok: "chaser_ok n f1" "n < 2 ^ 31" using f1 assms(1,2)
    by (auto simp: read_pixel_count_def bind_res_Inr_iff chaser_ok_def new_color_chaser_def split: if_splits)
  then have "chaser_ok n (f1\<lparr>ch_uses_steps := b\<rparr>)" for b by (simp add: chaser_ok_def)
  then show ?thesis using r ok(2) trigger_event_ok by blast
qed

lemma link_times_ok: "link_times cm own_id f = Inr f1 \<Longrightarrow> chaser_ok n f \<Longrightarrow> chaser_ok n f1"
  by (auto simp: link_times_def chaser_ok_def bind_res_Inr_iff split: if_splits)

lemma setup_filter_ok:
  assumes "chaser_ok n f"
  shows "chaser_ok n (fst (snd (chaser_setup_filter M now configuration initial cm own_id (f, g))))"
proof -
  have rec: "chaser_ok n (fst (snd (for_act (\<lambda>(k, v). bind_act (chaser_receive M now k v) (\<lambda>_. ret_act ())) xs (f2, g))))"
    if ok: "chaser_ok n f2" for f2 xs
  proof (rule for_act_keeps [where P = "\<lambda>x. chaser_ok n (fst x)"])
    show "chaser_ok n (fst (f2, g))" using ok by simp
  next
    fix x :: "string \<times> string" and s :: "filter_color_chaser \<times> rng"
    assume ok: "chaser_ok n (fst s)"
    obtain k v where x: "x = (k, v)" by (cases x)
    obtain h q where s: "s = (h, q)" by (cases s)
    obtain r h' q' where c: "chaser_receive M now k v (h, q) = (r, h', q')" by (metis prod_cases3)
    show "chaser_ok n (fst (snd ((case x of (k, v) \<Rightarrow> bind_act (chaser_receive M now k v) (\<lambda>_. ret_act ())) s)))"
      using ok chaser_receive_keeps [OF c] by (simp add: x s bind_act_def c chaser_ok_def split: sum.splits)
  qed
  have upd: "chaser_ok n (f1\<lparr>ch_color_inputs := cs, ch_number_inputs := ns\<rparr>)" if "link_times cm own_id f = Inr f1" for f1 cs ns
    using link_times_ok [OF that assms] by (simp add: chaser_ok_def)
  show ?thesis
  proof (cases "snd (chaser_setup_filter M now configuration initial cm own_id (f, g)) = (f, g)")
    case False
    then obtain f2 where "chaser_ok n f2" and "chaser_setup_filter M now configuration initial cm own_id (f, g)
        = for_act (\<lambda>(k, v). bind_act (chaser_receive M now k v) (\<lambda>_. ret_act ())) initial (f2, g)"
      using upd by (auto simp: chaser_setup_filter_def bind_res_Inr_iff split: sum.splits)
    then show ?thesis using rec by simp
  qed (use assms in simp)
qed

lemma chaser_activated_keeps: "chaser_ok n f \<Longrightarrow> chaser_ok n (chaser_activated m f) \<and> setup_classes (chaser_activated m f) = setup_classes f"
  by (auto simp: chaser_ok_def chaser_activated_def setup_classes_def setup_reset_def comp_def split: option.splits)

text \<open>
  C13. The colour chaser stays consistent: after the first part of the set-up it has as many pixels and mask
  entries as the configuration asks for, and the second part, every new list of layers, every cycle
  and every activation keep the two sizes. A refused list
  leaves the chaser as it was, a cycle keeps the classes of the layers in their order, and no cycle
  throws.
\<close>

theorem chaser_stays_consistent:
  assumes "map_of configuration ''number_of_pixels'' = Some s" and "stol s = Inr (int n)"
    and "chaser_pre_setup M configuration own_id new_color_chaser = Inr f0" and "chaser_ok n f"
  shows "chaser_ok n f0 \<and> n < 2 ^ 31
    \<and> (\<forall>initial cm g. chaser_ok n (fst (snd (chaser_setup_filter M now configuration initial cm own_id (f0, g)))))
    \<and> (\<forall>g key v r f' g'. chaser_receive M now key v (f, g) = (r, f', g') \<longrightarrow> chaser_ok n f' \<and> (r \<noteq> Inr True \<longrightarrow> f' = f))
    \<and> (\<forall>st m g f' g'. chaser_update M st m (f, g) = Inr (f', g') \<longrightarrow> chaser_ok n f' \<and> setup_classes f' = setup_classes f)
    \<and> (\<forall>st m g. no_throw (chaser_update M st m (f, g)))
    \<and> (\<forall>m. chaser_ok n (chaser_activated m f) \<and> setup_classes (chaser_activated m f) = setup_classes f)"
proof -
  note ok = chaser_pre_setup_ok [OF assms(1-3)]
  have "n < 2 ^ 52" using ok by simp
  then have "no_throw (chaser_update M st m (f, g))" for st m g by (rule chaser_update_no_throw [OF assms(4)])
  moreover have "chaser_ok n f' \<and> (r \<noteq> Inr True \<longrightarrow> f' = f)"
    if "chaser_receive M now key v (f, g) = (r, f', g')" for g key v r f' g'
    using chaser_receive_keeps [OF that] assms(4) by (simp add: chaser_ok_def)
  ultimately show ?thesis
    using ok setup_filter_ok [of n f0] chaser_update_keeps [OF assms(4)] chaser_activated_keeps [OF assms(4)] by simp
qed

theorem chaser_stays_consistent_witness:
  "\<exists>f0. chaser_pre_setup demo_math [(''number_of_pixels'', ''1'')] ''f'' new_color_chaser = Inr f0 \<and> chaser_ok 1 f0"
proof -
  let ?c = "[(''number_of_pixels'', ''1'')] :: (string, string) omap"
  obtain white where w: "hsi_pixel demo_libm (Num 0) (Num 0) (Num 1) = Inr white"
    using rgb_hsi_roundtrip_loses_brightness_witness by blast
  have n: "stol ''1'' = Inr (int 1)" by code_simp
  obtain f0 where f0: "chaser_pre_setup demo_math ?c ''f'' new_color_chaser = Inr f0"
    using n by (simp add: chaser_pre_setup_def read_pixel_count_def w demo_math_def)
  have "map_of ?c ''number_of_pixels'' = Some ''1''" by simp
  from chaser_stays_consistent [OF this n f0, of "new_color_chaser\<lparr>ch_pixels := [default_pixel], ch_mask := [0]\<rparr>"] show ?thesis
    using f0 by (auto simp: chaser_ok_def)
qed

end
