(* ===== verification/Chaser_Effects.thy ===== *)
theory Chaser_Effects
  imports Chaser_Config Chaser_Ok "HOL-Library.Multiset"
begin

text \<open>What single layers of the colour chaser do to the frame.\<close>

subsection \<open>The loop over the mask\<close>

text \<open>A loop whose body looks only at its own position computes all values independently.\<close>

lemma each_entry_prefix:
  assumes "fold_res (\<lambda>i xs. bind_res (vec_at xs i) (\<lambda>v. bind_res (f i v) (\<lambda>v'. write_at i v' xs))) [0..<n] ms = Inr ms'"
    and "n \<le> length ms"
  shows "length ms' = length ms \<and> (\<forall>i<length ms. if i < n then f i (ms ! i) = Inr (ms' ! i) else ms' ! i = ms ! i)"
  using assms
proof (induction n arbitrary: ms')
  case (Suc n)
  then obtain xs where xs: "fold_res (\<lambda>i xs. bind_res (vec_at xs i) (\<lambda>v. bind_res (f i v) (\<lambda>v'. write_at i v' xs))) [0..<n] ms = Inr xs"
    and last: "bind_res (vec_at xs n) (\<lambda>v. bind_res (f n v) (\<lambda>v'. write_at n v' xs)) = Inr ms'"
    by (auto simp: fold_res_append bind_res_Inr_iff)
  have ih: "length xs = length ms" "\<forall>i<length ms. if i < n then f i (ms ! i) = Inr (xs ! i) else xs ! i = ms ! i"
    using Suc.IH [OF xs] Suc.prems(2) by auto
  obtain v' where v': "f n (xs ! n) = Inr v'" "ms' = xs[n := v']"
    using last by (auto simp: bind_res_Inr_iff write_at_def split: if_splits)
  show ?case using ih v' Suc.prems(2) by (auto simp: nth_list_update less_Suc_eq)
qed simp

lemma each_entry_iff: "each_entry f ms = Inr ms' \<longleftrightarrow> length ms' = length ms \<and> (\<forall>i<length ms. f i (ms ! i) = Inr (ms' ! i))"
proof
  assume "each_entry f ms = Inr ms'"
  then show "length ms' = length ms \<and> (\<forall>i<length ms. f i (ms ! i) = Inr (ms' ! i))"
    using each_entry_prefix [of f "length ms" ms ms'] by (simp add: each_entry_def)
next
  assume r: "length ms' = length ms \<and> (\<forall>i<length ms. f i (ms ! i) = Inr (ms' ! i))"
  have "fold_res (\<lambda>i xs. bind_res (vec_at xs i) (\<lambda>v. bind_res (f i v) (\<lambda>v'. write_at i v' xs))) [0..<n] ms
      = Inr (take n ms' @ drop n ms)" if "n \<le> length ms" for n
    using that
  proof (induction n)
    case (Suc n)
    have n: "n < length ms" "n < length ms'" "length (take n ms') = n" using Suc.prems r by simp_all
    have d: "drop n ms = ms ! n # drop (Suc n) ms" using n(1) by (simp add: Cons_nth_drop_Suc)
    have "take (Suc n) ms' = take n ms' @ [ms' ! n]" using n(2) by (simp add: take_Suc_conv_app_nth)
    then have u: "(take n ms' @ drop n ms)[n := ms' ! n] = take (Suc n) ms' @ drop (Suc n) ms"
      using n(3) by (simp add: d list_update_append)
    have g: "(take n ms' @ drop n ms) ! n = ms ! n" using n(3) by (simp add: d nth_append)
    have l: "n < length (take n ms' @ drop n ms)" using n by simp
    have "fold_res (\<lambda>i xs. bind_res (vec_at xs i) (\<lambda>v. bind_res (f i v) (\<lambda>v'. write_at i v' xs))) [0..<n] ms
        = Inr (take n ms' @ drop n ms)" using Suc by simp
    moreover have "f n (ms ! n) = Inr (ms' ! n)" using r n(1) by simp
    ultimately show ?case by (simp add: fold_res_append write_at_def vec_at_def g u del: length_append length_take length_drop)
      (use l in simp)
  qed simp
  from this [of "length ms"] show "each_entry f ms = Inr ms'" using r by (simp add: each_entry_def)
qed

subsection \<open>Shifting the mask\<close>

lemma unat_shift_index:
  assumes "i < n" "c < n" "n < 2 ^ 31"
  shows "unat (of_nat i + of_nat c :: u32) = i + c"
proof -
  have "i + c < 2 ^ 32" using assms by simp
  then have "unat (of_nat (i + c) :: u32) = i + c" unfolding unsigned_of_nat by (simp add: take_bit_nat_eq_self)
  then show ?thesis by (simp only: of_nat_add)
qed

text \<open>
  C28. The layer \<open>mask_shift\<close> rotates the mask to the left by its current shift, which stays below the
  number of entries: no entry is lost or doubled, and after a step the shift is one more, starting
  again from 0 at the end.
\<close>

theorem mask_shift_rotates:
  assumes "mask_shift_apply m elapsed s ms = Inr (s', ms')" and "unat (sh_current_shift s) < length ms" and "length ms < 2 ^ 31"
  shows "ms' = rotate (unat (sh_current_shift s')) ms \<and> mset ms' = mset ms \<and> unat (sh_current_shift s') < length ms
    \<and> (sh_current_shift s' = sh_current_shift s
       \<or> unat (sh_current_shift s') = (unat (sh_current_shift s) + 1) mod length ms)"
proof -
  let ?n = "length ms"
  obtain adv: "shift_advance m elapsed ?n s = Inr s'"
    and e: "each_entry (\<lambda>i v. bind_res (shifted_index s' ?n i) (vec_at ms)) ms = Inr ms'"
    using assms(1) by (auto simp: mask_shift_apply_def bind_res_Inr_iff)
  define c where "c = unat (sh_current_shift s)"
  have n: "?n \<noteq> 0" using assms(2) by auto
  have suc: "unat (sh_current_shift s + 1) = c + 1"
    using unat_shift_index [of c ?n 1] assms(2,3) n
    by (cases "?n = 1") (auto simp: c_def unat_eq_0)
  have m: "(c + 1) mod ?n < ?n" using n by simp
  then have "(c + 1) mod ?n < 2 ^ 32" using assms(3) by simp
  then have u: "unat (of_nat ((c + 1) mod ?n) :: u32) = (c + 1) mod ?n" by (simp add: unsigned_of_nat take_bit_nat_eq_self)
  have cur: "sh_current_shift s' = sh_current_shift s \<or> unat (sh_current_shift s') = (c + 1) mod ?n"
    using adv n u by (auto simp: shift_advance_def bind_res_Inr_iff suc size_mod_def split: if_splits)
  then have lt: "unat (sh_current_shift s') < ?n" using m assms(2) by (auto simp: c_def)
  have "ms' ! i = ms ! ((unat (sh_current_shift s') + i) mod ?n)" if "i < ?n" for i
  proof -
    have "unat (of_nat i + sh_current_shift s') = i + unat (sh_current_shift s')"
      using unat_shift_index [OF that lt assms(3)] by simp
    then show ?thesis using e that n
      by (auto simp: each_entry_iff shifted_index_def size_mod_def add.commute)
  qed
  moreover have "length ms' = ?n" using e by (simp add: each_entry_iff)
  ultimately have "ms' = rotate (unat (sh_current_shift s')) ms"
    by (intro nth_equalityI) (simp_all add: nth_rotate)
  moreover have "mset (rotate k ms) = mset ms" for k
    unfolding rotate_drop_take by (metis add.commute append_take_drop_id mset_append)
  ultimately show ?thesis using lt cur by (simp add: c_def)
qed

definition no_memory :: memory where
  "no_memory = \<lparr>rd8 = (\<lambda>_. 0), rd16 = (\<lambda>_. 0), rdf = (\<lambda>_. Num 0), rdc = (\<lambda>_. default_pixel)\<rparr>"

theorem mask_shift_rotates_witness:
  "\<exists>s'. mask_shift_apply no_memory (Num 0) \<lparr>sh_time = Number_value 5, sh_current_shift = 1, sh_remaining_time = 0\<rparr> [10, 20, 30]
      = Inr (s', [30, 10, 20])"
proof -
  let ?s = "\<lparr>sh_time = Number_value 5, sh_current_shift = 1, sh_remaining_time = 0\<rparr>"
  let ?t = "\<lparr>sh_time = Number_value 5, sh_current_shift = 2, sh_remaining_time = 5\<rparr>"
  have a: "shift_advance no_memory (Num 0) 3 ?s = Inr ?t"
    by (simp add: shift_advance_def count_down_def signed_res_def size_mod_def trunc_real_def number_get_def)
  have "mask_shift_apply no_memory (Num 0) ?s [10, 20, 30] = Inr (?t, [30, 10, 20])"
  proof -
    have "each_entry (\<lambda>i v. bind_res (shifted_index ?t 3 i) (vec_at [10, 20, 30])) [10, 20, 30] = Inr [30, 10, 20]"
      by (auto simp: each_entry_iff shifted_index_def size_mod_def vec_at_def less_Suc_eq)
    moreover have l: "length [10, 20, 30 :: u16] = 3" by simp
    ultimately show ?thesis using a unfolding mask_shift_apply_def l by simp
  qed
  from this mask_shift_rotates [OF this] show ?thesis by auto
qed

end
