(* ===== verification/Chaser_Layers_Ok.thy ===== *)
theory Chaser_Layers_Ok
  imports Chaser_Effects
begin

text \<open>More of what single layers of the colour chaser do: counters, waves, scales and plain colours.\<close>

subsection \<open>The Johnson counter\<close>

lemma whole_turns:
  assumes "p < (N :: nat)"
  shows "(p + N) mod N = p" "(p + N) div N = 1" "(p + 2 * N) mod N = p" "(p + 2 * N) div N = 2"
  using assms by simp_all

lemma johnson_fwd:
  assumes "n + 1 < 2 ^ 64" and "jo_last_mask_size j = n" and "jo_progress j \<le> n"
  shows "(johnson_step Fwd ^^ k) j = j\<lparr>jo_progress := (jo_progress j + k) mod (n + 1),
     jo_is_buildup := (jo_is_buildup j = even ((jo_progress j + k) div (n + 1)))\<rparr>"
proof (induction k)
  case 0
  then show ?case using assms(3) by simp
next
  case (Suc k)
  define a where "a = jo_progress j + k"
  have le: "a mod (n + 1) \<le> n" by (simp add: less_Suc_eq_le [symmetric])
  then have add: "size_add (a mod (n + 1)) 1 = a mod (n + 1) + 1" by (intro size_add_lt) (use assms(1) in linarith)
  show ?case
  proof (cases "a mod (n + 1) = n")
    case True
    then have "Suc a mod (n + 1) = 0" "Suc a div (n + 1) = Suc (a div (n + 1))" by (simp_all add: mod_Suc div_Suc)
    then show ?thesis using Suc add True assms(2) by (simp add: a_def [symmetric] Let_def)
  next
    case False
    then have "Suc a mod (n + 1) = Suc (a mod (n + 1))" "Suc a div (n + 1) = a div (n + 1)" by (simp_all add: mod_Suc div_Suc)
    moreover have "\<not> n < Suc (a mod (n + 1))" using le False by linarith
    ultimately show ?thesis using Suc add False assms(2) by (simp add: a_def [symmetric] Let_def)
  qed
qed

lemma johnson_rev:
  assumes "n + 1 < 2 ^ 64" and "jo_last_mask_size j = n" and "jo_progress j \<le> n"
  shows "(johnson_step Rev ^^ k) j = j\<lparr>jo_progress := n - (n - jo_progress j + k) mod (n + 1),
     jo_is_buildup := (jo_is_buildup j = even ((n - jo_progress j + k) div (n + 1)))\<rparr>"
proof (induction k)
  case 0
  then show ?case using assms(3) by simp
next
  case (Suc k)
  define a where "a = n - jo_progress j + k"
  have le: "a mod (n + 1) \<le> n" by (simp add: less_Suc_eq_le [symmetric])
  show ?case
  proof (cases "a mod (n + 1) = n")
    case True
    have "size_sub (n - a mod (n + 1)) 1 = 2 ^ 64 - 1" using True by (simp add: size_sub_def)
    moreover have "n < 2 ^ 64 - 1" using assms(1) by simp
    moreover have "Suc a mod (n + 1) = 0" "Suc a div (n + 1) = Suc (a div (n + 1))" using True by (simp_all add: mod_Suc div_Suc)
    ultimately show ?thesis using Suc True assms(2) by (simp add: a_def [symmetric] Let_def)
  next
    case False
    then have "1 \<le> n - a mod (n + 1)" "n - a mod (n + 1) < 2 ^ 64" using le assms(1) by linarith+
    then have "size_sub (n - a mod (n + 1)) 1 = n - Suc (a mod (n + 1))"
      using size_sub_le by simp
    moreover have "Suc a mod (n + 1) = Suc (a mod (n + 1))" "Suc a div (n + 1) = a div (n + 1)"
      using False by (simp_all add: mod_Suc div_Suc)
    ultimately show ?thesis using Suc False assms(2) by (simp add: a_def [symmetric] Let_def)
  qed
qed

text \<open>
  C29. The Johnson counter of a chaser over n positions is a cycle of 2 (n + 1) steps in both directions: every
  n + 1 steps it changes between building up and tearing down, after twice as many it is where it was,
  and its progress never leaves the mask, although the backward counter gets there through the
  wrap-around of a \<open>size_t\<close> below 0.
\<close>

theorem johnson_counter_cycles:
  assumes "n + 1 < 2 ^ 64" and "jo_last_mask_size j = n" and "jo_progress j \<le> n"
  shows "(johnson_step d ^^ (2 * (n + 1))) j = j
    \<and> (johnson_step d ^^ (n + 1)) j = j\<lparr>jo_is_buildup := \<not> jo_is_buildup j\<rparr>
    \<and> jo_progress ((johnson_step d ^^ k) j) \<le> n"
proof -
  have turn: "(p + (n + 1)) mod (n + 1) = p" "(p + (n + 1)) div (n + 1) = 1"
    "(p + 2 * (n + 1)) mod (n + 1) = p" "(p + 2 * (n + 1)) div (n + 1) = 2" if "p \<le> n" for p
    using that by (intro whole_turns; linarith)+
  have mirror: "n - (n - jo_progress j) = jo_progress j" "n - jo_progress j \<le> n" using assms(3) by simp_all
  show ?thesis
  proof (cases d)
    case Fwd
    show ?thesis unfolding Fwd johnson_fwd [OF assms] turn [OF assms(3)]
      by (cases j) (simp add: less_Suc_eq_le [symmetric])
  next
    case Rev
    show ?thesis unfolding Rev johnson_rev [OF assms] turn [OF mirror(2)] mirror(1)
      by (cases j) simp
  qed
qed

theorem johnson_counter_cycles_witness:
  "(johnson_step Rev ^^ 8) \<lparr>jo_update_speed = Number_value 1, jo_mask_setting = Number_value 9, jo_progress = 0,
     jo_last_mask_size = 3, jo_remaining_time = 0, jo_is_buildup = True\<rparr>
   = \<lparr>jo_update_speed = Number_value 1, jo_mask_setting = Number_value 9, jo_progress = 0,
     jo_last_mask_size = 3, jo_remaining_time = 0, jo_is_buildup = True\<rparr>"
  using johnson_counter_cycles [of 3 "\<lparr>jo_update_speed = Number_value 1, jo_mask_setting = Number_value 9, jo_progress = 0,
     jo_last_mask_size = 3, jo_remaining_time = 0, jo_is_buildup = True\<rparr>" Rev 0] by simp

subsection \<open>Waves\<close>

lemma wave_keeps_first:
  assumes "fold_res (wave_entry M m w k) js (x, ms) = Inr (y, ms')" and "0 \<notin> set js"
  shows "ms' ! 0 = ms ! 0"
proof -
  have "snd (y, ms') ! 0 = ms ! 0"
    by (rule fold_res_invariant [OF assms(1), where P = "\<lambda>s. snd s ! 0 = ms ! 0"])
      (use assms(2) in \<open>auto simp: wave_entry_def bind_res_Inr_iff Let_def write_at_def nth_list_update
        split: prod.splits if_splits\<close>)
  then show ?thesis by simp
qed

text \<open>
  C35. Waves run forward only, and not over the first pixel: a backward segmented wave always runs into
  undefined behaviour, since its index is never less than 0; a backward wave never changes the mask, since
  its negative start is compared as an unsigned number; and a forward wave never changes the first
  entry of the mask, since its loop ends above 0.
\<close>

theorem waves_run_forward_only:
  assumes "length ms < 2 ^ 63"
  shows "segwave_apply M Rev m elapsed w ms = Inl Undefined_behaviour
    \<and> (wave_apply M Rev m elapsed w ms = Inr (w', ms') \<longrightarrow> ms' = ms)
    \<and> (wave_apply M Fwd m elapsed w ms = Inr (w', ms') \<longrightarrow> ms' ! 0 = ms ! 0 \<and> length ms' = length ms)"
proof (intro conjI impI)
  have "segwave_apply M Rev m elapsed w ms \<noteq> Inr r" for r
  proof
    assume "segwave_apply M Rev m elapsed w ms = Inr r"
    then obtain w1 k xs ys where "fold_res (segwave_entry M m w1 k) (rev [0..<length ms]) ms = Inr xs"
      and last: "segwave_entry M m w1 k (2 ^ 64 - 1) xs = Inr ys"
      by (auto simp: segwave_apply_def bind_res_Inr_iff Let_def fold_res_append)
    then have "length xs = length ms" by (elim fold_length) (rule segwave_entry_length)
    then have "vec_at xs (2 ^ 64 - 1) = Inl Undefined_behaviour" using assms by (simp add: vec_at_def)
    then show False using last by (auto simp: segwave_entry_def bind_res_Inr_iff Let_def)
  qed
  then show "segwave_apply M Rev m elapsed w ms = Inl Undefined_behaviour"
    using no_throw_waves(1) [of M Rev m elapsed w ms] by (cases "segwave_apply M Rev m elapsed w ms") (auto simp: no_throw_def)
next
  assume a: "wave_apply M Rev m elapsed w ms = Inr (w', ms')"
  then obtain w1 k x where r: "fold_res (wave_entry M m w1 k) (wave_positions Rev (length ms) k) (Num 0, ms) = Inr (x, ms')"
    by (auto simp: wave_apply_def bind_res_Inr_iff)
  show "ms' = ms"
  proof (cases "k = 0 \<and> ms \<noteq> []")
    case True
    then obtain js where "[0..<length ms] = 0 # js" by (cases ms) (simp_all add: upt_rec)
    then show ?thesis using r True by (simp add: wave_entry_def size_mod_def)
  qed (use r in \<open>cases "k = 0"; auto\<close>)
next
  assume a: "wave_apply M Fwd m elapsed w ms = Inr (w', ms')"
  then obtain w1 k x where r: "fold_res (wave_entry M m w1 k) (wave_positions Fwd (length ms) k) (Num 0, ms) = Inr (x, ms')"
    by (auto simp: wave_apply_def bind_res_Inr_iff)
  show "ms' ! 0 = ms ! 0" using wave_keeps_first [OF r] by simp
  show "length ms' = length ms" using a by (rule wave_length)
qed

theorem waves_run_forward_only_witness:
  "segwave_apply demo_math Rev no_memory (Num 0) \<lparr>wv_update_time = Number_value 1, wv_decay = Number_value 1,
     wv_num_waves = Number_value 1, wv_intensity = Number_value 9, wv_current_step = 0, wv_remaining_time = 0\<rparr> [1, 2, 3]
   = Inl Undefined_behaviour"
  using waves_run_forward_only [of "[1, 2, 3]"] by simp

subsection \<open>Scales\<close>

text \<open>The value of a slope that starts at \<open>base\<close> and moves by \<open>rise\<close> over \<open>run\<close> positions.\<close>

lemma slope_value:
  assumes "0 \<le> offs" "offs < run" "\<bar>rise\<bar> \<le> 65535" "0 \<le> base" "base \<le> 65535"
  shows "slope rise run offs base = Inr (of_int (sgn rise * (\<bar>rise\<bar> div run) * offs + base))
    \<and> (\<bar>rise\<bar> div run) * offs \<le> \<bar>rise\<bar>"
proof -
  define q where "q = \<bar>rise\<bar> div run"
  have q0: "0 \<le> q" using assms(1,2) by (simp add: q_def pos_imp_zdiv_nonneg_iff)
  have "q * offs \<le> q * run" using q0 assms(2) by (intro mult_left_mono) simp_all
  also have "\<dots> \<le> \<bar>rise\<bar>"
    using div_mult_mod_eq [of "\<bar>rise\<bar>" run] pos_mod_sign [of run "\<bar>rise\<bar>"] assms(1,2) unfolding q_def by linarith
  finally have le: "q * offs \<le> \<bar>rise\<bar>" .
  have "\<bar>sgn rise * q * offs\<bar> \<le> \<bar>rise\<bar>" using le q0 assms(1) by (cases rise "0 :: int" rule: linorder_cases) simp_all
  then have b: "\<bar>sgn rise * q * offs\<bar> \<le> 65535" using assms(3) by linarith
  then have "signed_res 32 (sgn rise * q * offs) = Inr (sgn rise * q * offs)"
    "signed_res 32 (sgn rise * q * offs + base) = Inr (sgn rise * q * offs + base)"
    using assms(4,5) by (auto simp: signed_res_def)
  moreover have "c_div rise run = Inr (sgn rise * q)" using assms(1,2) by (simp add: c_div_def q_def)
  ultimately show ?thesis using le by (simp add: slope_def q_def)
qed

lemma of_int_between: "0 \<le> x \<Longrightarrow> x \<le> 65535 \<Longrightarrow> int (unat (of_int x :: u16)) = x"
  by (simp add: unsigned_of_int take_bit_int_eq_self)

lemma int_unat_le: "int (unat (v :: u16)) \<le> 65535"
  using unsigned_less [of v, where ?'a = int] by simp

text \<open>One entry of the scale between start and end: between the two values.\<close>

lemma scale_slope:
  assumes "start \<le> int i" and "int i < stop"
  shows "\<exists>v. slope (int (unat off) - int (unat on)) (stop - start) (int i - start) (int (unat on)) = Inr v
    \<and> min on off \<le> (v :: u16) \<and> v \<le> max on off"
proof -
  define a b where "a = int (unat (on :: u16))" and "b = int (unat (off :: u16))"
  have ab: "0 \<le> a" "a \<le> 65535" "0 \<le> b" "b \<le> 65535" using int_unat_le by (simp_all add: a_def b_def)
  define q where "q = (\<bar>b - a\<bar> div (stop - start)) * (int i - start)"
  have s: "slope (b - a) (stop - start) (int i - start) a = Inr (of_int (sgn (b - a) * (\<bar>b - a\<bar> div (stop - start)) * (int i - start) + a))"
    and q: "q \<le> \<bar>b - a\<bar>"
    using slope_value [of "int i - start" "stop - start" "b - a" a] assms ab by (auto simp: q_def)
  have q0: "0 \<le> q" using assms by (simp add: q_def pos_imp_zdiv_nonneg_iff)
  define x where "x = sgn (b - a) * q + a"
  have x: "min a b \<le> x" "x \<le> max a b" using q q0 by (cases a b rule: linorder_cases; simp add: x_def)+
  then have u: "int (unat (of_int x :: u16)) = x" using ab by (intro of_int_between) linarith+
  have "min on off \<le> (of_int x :: u16) \<and> (of_int x :: u16) \<le> max on off"
    using x u unfolding a_def b_def min_def max_def word_le_def by (auto split: if_splits)
  moreover have "slope (b - a) (stop - start) (int i - start) a = Inr (of_int x)"
    using s by (simp add: x_def q_def mult.assoc)
  ultimately show ?thesis by (auto simp: a_def b_def)
qed

text \<open>
  The layer \<open>scale\<close> of a chaser always succeeds and stays within its two mask values: before its start the
  mask has the value for on, from its end the value for off, and in between a value between the two.
\<close>

theorem scale_stays_between:
  "\<exists>ms'. scale_apply m s ms = Inr ms' \<and> length ms' = length ms
     \<and> (\<forall>i<length ms.
          min (number_get m (sc_mask_on s)) (number_get m (sc_mask_off s)) \<le> ms' ! i
        \<and> ms' ! i \<le> max (number_get m (sc_mask_on s)) (number_get m (sc_mask_off s))
        \<and> (i < unat (number_get m (sc_start s)) \<longrightarrow> ms' ! i = number_get m (sc_mask_on s))
        \<and> (unat (number_get m (sc_start s)) \<le> i \<and> unat (number_get m (sc_end s)) \<le> i \<longrightarrow> ms' ! i = number_get m (sc_mask_off s)))"
proof -
  define a b on off where "a = unat (number_get m (sc_start s))" and "b = unat (number_get m (sc_end s))"
    and "on = number_get m (sc_mask_on s)" and "off = number_get m (sc_mask_off s)"
  define f where "f i = (if int i < int a then Inr on else if int i < int b
      then slope (int (unat off) - int (unat on)) (int b - int a) (int i - int a) (int (unat on)) else Inr off)" for i
  have "\<exists>v. f i = Inr v \<and> min on off \<le> v \<and> v \<le> max on off \<and> (i < a \<longrightarrow> v = on) \<and> (a \<le> i \<and> b \<le> i \<longrightarrow> v = off)" for i
    using scale_slope [of "int a" i "int b" off on] by (simp add: f_def not_less)
  then obtain v where v: "\<And>i. f i = Inr (v i) \<and> min on off \<le> v i \<and> v i \<le> max on off \<and> (i < a \<longrightarrow> v i = on)
      \<and> (a \<le> i \<and> b \<le> i \<longrightarrow> v i = off)" by metis
  have "scale_apply m s ms = each_entry (\<lambda>i _. f i) ms"
    unfolding scale_apply_def f_def a_def b_def on_def off_def Let_def by (rule refl)
  then have "scale_apply m s ms = Inr (map v [0..<length ms])" using v by (simp add: each_entry_iff)
  then show ?thesis using v unfolding a_def [symmetric] b_def [symmetric] on_def [symmetric] off_def [symmetric]
    by (intro exI [of _ "map v [0..<length ms]"]) simp
qed

text \<open>
  The layer \<open>scale_inv\<close> should rise from its off to its on value and descends: the quotient of its slope has
  the wrong sign, so at every position between start and end the entry is below the off value by the
  amount it should be above, taken modulo 2 to the 16.
\<close>

theorem scale_inv_descends:
  assumes "scale_inv_apply m s ms = Inr ms'" and "i < length ms"
    and "unat (number_get m (sc_start s)) \<le> i" and "i < unat (number_get m (sc_end s))"
    and "number_get m (sc_mask_off s) \<le> number_get m (sc_mask_on s)"
  shows "ms' ! i = number_get m (sc_mask_off s)
    - of_nat ((unat (number_get m (sc_mask_on s)) - unat (number_get m (sc_mask_off s)))
        div (unat (number_get m (sc_end s)) - unat (number_get m (sc_start s))) * (i - unat (number_get m (sc_start s))))"
proof -
  define a b on off where "a = unat (number_get m (sc_start s))" and "b = unat (number_get m (sc_end s))"
    and "on = number_get m (sc_mask_on s)" and "off = number_get m (sc_mask_off s)"
  define d where "d = unat on - unat off"
  have i: "a \<le> i" "i < b" and le: "unat off \<le> unat on" using assms(3-5) by (simp_all add: a_def b_def on_def off_def word_le_nat_alt)
  have d: "int (unat on) - int (unat off) = int d" using le by (simp add: d_def)
  define q where "q = d div (b - a) * (i - a)"
  have "d div (b - a) * (i - a) \<le> d div (b - a) * (b - a)" using i by (intro mult_left_mono) simp_all
  then have qd: "q \<le> d" unfolding q_def by (meson div_times_less_eq_dividend le_trans)
  have d16: "int d \<le> 65535" using d int_unat_le [of on] by linarith
  have neg: "int a - int b = - int (b - a)" "int i - int a = int (i - a)" using i by simp_all
  have "c_div (int d) (- int (b - a)) = Inr (- int (d div (b - a)))"
    using i by (cases "d = 0") (simp_all add: c_div_def zdiv_int)
  moreover have "- int (d div (b - a)) * int (i - a) = - int q" by (simp add: q_def)
  moreover have "signed_res 32 (- int q) = Inr (- int q)" "signed_res 32 (- int q + B) = Inr (- int q + B)"
    if "0 \<le> B" "B \<le> 65535" for B
    using qd d16 that by (auto simp: signed_res_def)
  ultimately have "slope (int d) (int a - int b) (int i - int a) B = Inr (of_int (- int q + B))" if "0 \<le> B" "B \<le> 65535" for B
    using that unfolding neg by (simp add: slope_def)
  from this [OF of_nat_0_le_iff int_unat_le [of off]]
  have s: "slope (int d) (int a - int b) (int i - int a) (int (unat off)) = Inr (of_int (- int q + int (unat off)))" .
  have "\<forall>i<length ms. (if int i < int a then Inr off else if int i < int b
      then slope (int (unat on) - int (unat off)) (int a - int b) (int i - int a) (int (unat off)) else Inr on) = Inr (ms' ! i)"
    using assms(1) unfolding scale_inv_apply_def each_entry_iff Let_def a_def b_def on_def off_def by (rule conjunct2)
  then have "slope (int d) (int a - int b) (int i - int a) (int (unat off)) = Inr (ms' ! i)"
    using assms(2) i unfolding d by (metis not_less of_nat_le_iff of_nat_less_iff)
  then have "ms' ! i = of_int (- int q + int (unat off))" using s by simp
  then show ?thesis by (simp add: q_def d_def a_def b_def on_def off_def)
qed

theorem scale_inv_descends_witness:
  "\<exists>ms'. scale_inv_apply no_memory \<lparr>sc_start = Number_value 0, sc_end = Number_value 4, sc_mask_off = Number_value 0,
       sc_mask_on = Number_value 65535\<rparr> [0, 0, 0] = Inr ms' \<and> ms' ! 1 = 49153"
proof -
  let ?s = "\<lparr>sc_start = Number_value 0, sc_end = Number_value 4, sc_mask_off = Number_value 0, sc_mask_on = Number_value 65535\<rparr>"
  have "scale_inv_apply no_memory ?s [0, 0, 0] = Inr [0, 49153, 32770]"
    by (simp add: scale_inv_apply_def each_entry_def upt_rec vec_at_def write_at_def slope_def c_div_def signed_res_def
        number_get_def)
  moreover have "scale_inv_apply no_memory ?s [0, 0, 0] = Inr ms' \<Longrightarrow> ms' ! 1 = 49153" for ms'
    using scale_inv_descends [of no_memory ?s "[0, 0, 0]" ms' 1] by (simp add: number_get_def)
  ultimately show ?thesis by blast
qed

subsection \<open>Trigger events\<close>

text \<open>
  Only the last argument of the trigger event of a chaser is kept, in the place of the first one: an event
  whose second to eighth argument is not zero never makes a step, even when the configuration names
  exactly its arguments.
\<close>

theorem trigger_keeps_last_argument:
  assumes "read_trigger_event t f = Inr f'" and "split_str t (CHR '':'') = s # q # args" and "args \<noteq> []"
    and "ch_event_arguments f = replicate 8 0"
  shows "\<exists>v. stoi (last (take 8 args)) = Inr v \<and> ch_event_arguments f' = of_int v # replicate 7 0 \<and> ch_uses_args f'
     \<and> (triggers f' e \<longrightarrow> tl (event_arguments e) = replicate 7 0)"
proof -
  define g where "g = (\<lambda>a (f :: filter_color_chaser). bind_res (stoi a) (\<lambda>v. Inr (f\<lparr>ch_event_arguments := (ch_event_arguments f)[0 := of_int v],
    ch_uses_args := True\<rparr>)))"
  have loop: "\<exists>v. stoi (last as) = Inr v \<and> ch_event_arguments h' = of_int v # replicate 7 0 \<and> ch_uses_args h'"
    if "fold_res g as h = Inr h'" "as \<noteq> []" "tl (ch_event_arguments h) = replicate 7 0" "ch_event_arguments h \<noteq> []" for as h h'
    using that
  proof (induction as arbitrary: h)
    case (Cons a as)
    obtain v where v: "stoi a = Inr v"
      "fold_res g as (h\<lparr>ch_event_arguments := (ch_event_arguments h)[0 := of_int v], ch_uses_args := True\<rparr>) = Inr h'"
      using Cons.prems(1) by (auto simp: g_def bind_res_Inr_iff)
    have set: "(ch_event_arguments h)[0 := of_int v] = of_int v # replicate 7 0"
      using Cons.prems(3,4) by (cases "ch_event_arguments h") simp_all
    show ?case
    proof (cases "as = []")
      case True
      then show ?thesis using v set by auto
    next
      case False
      then show ?thesis using Cons.IH [OF v(2)] set by simp
    qed
  qed simp
  obtain x y where "fold_res g (take 8 args) (f\<lparr>ch_event_sender := event_sender (of_int x) (of_int y)\<rparr>) = Inr f'"
    using assms(1,2) by (auto simp: read_trigger_event_def bind_res_Inr_iff g_def)
  from loop [OF this] assms(3,4) obtain v where v: "stoi (last (take 8 args)) = Inr v"
    "ch_event_arguments f' = of_int v # replicate 7 0" "ch_uses_args f'" by auto
  have "tl (event_arguments e) = replicate 7 0" if "triggers f' e"
    using that v(2,3) unfolding triggers_def by (metis list.sel(3))
  then show ?thesis using v by blast
qed

theorem trigger_keeps_last_argument_witness:
  "\<exists>f'. read_trigger_event ''1:2:5:7'' new_color_chaser = Inr f' \<and> ch_event_arguments f' = [7, 0, 0, 0, 0, 0, 0, 0]
     \<and> \<not> triggers f' \<lparr>ev_type = 1, event_arguments = [5, 7, 0, 0, 0, 0, 0, 0], event_id = 1, ev_sender = ch_event_sender f'\<rparr>"
proof -
  have sp: "split_str ''1:2:5:7'' (CHR '':'') = ''1'' # ''2'' # [''5'', ''7'']" by code_simp
  have n: "stoi ''1'' = Inr 1" "stoi ''2'' = Inr 2" "stoi ''5'' = Inr 5" "stoi ''7'' = Inr 7" by code_simp+
  obtain f' where f': "read_trigger_event ''1:2:5:7'' new_color_chaser = Inr f'"
    by (simp add: read_trigger_event_def sp n)
  have z: "ch_event_arguments new_color_chaser = replicate 8 0" by (simp add: new_color_chaser_def)
  have args: "ch_event_arguments f' = 7 # replicate 7 0" "triggers f' e \<Longrightarrow> tl (event_arguments e) = replicate 7 0" for e
    using trigger_keeps_last_argument [OF f' sp _ z, of e] by (simp_all add: n(4) numeral_eq_Suc)
  have r: "replicate 7 (0 :: u8) = [0, 0, 0, 0, 0, 0, 0]" by (simp add: numeral_eq_Suc)
  have "\<not> triggers f' \<lparr>ev_type = 1, event_arguments = [5, 7, 0, 0, 0, 0, 0, 0], event_id = 1, ev_sender = ch_event_sender f'\<rparr>"
    using args(2) [of "\<lparr>ev_type = 1, event_arguments = [5, 7, 0, 0, 0, 0, 0, 0], event_id = 1, ev_sender = ch_event_sender f'\<rparr>"]
    by (auto simp: r)
  then show ?thesis using f' args(1) by (simp add: r)
qed

subsection \<open>Plain colours\<close>

definition white_like :: "pixel \<Rightarrow> bool" where
  "white_like p \<longleftrightarrow> saturation p = Num 0 \<and> iluminance p = Num 1"

lemma white_like_valid: "white_like p \<Longrightarrow> \<not> hsi_invalid p"
  by (simp add: white_like_def hsi_invalid_def)

lemma new_hue: "setHue lm h default_pixel = Inr p \<Longrightarrow> iluminance p = Num 0"
  by (auto simp: setHue_def default_pixel_def convert_rgb_to_hsi_pre_def hsi_invalid_def invalidate_rgb_def dest!: convert_hsi_keeps)

text \<open>Mixing gives all the weight to the first colour.\<close>

lemma mix_full_share:
  assumes "white_like p" and "\<not> hsi_invalid c" "saturation c = Num s" "iluminance c = Num i"
    and "mix_color_interleaving lm p c (Num 1) = Inr q"
  shows "white_like q"
proof -
  have one: "rnd 1 = Num 1" using rnd_int [of 1] by simp
  have get: "getHue lm x = (hue x, x)" "getSaturation lm x = (saturation x, x)" "getIluminance lm x = (iluminance x, x)"
    if "\<not> hsi_invalid x" for x
    using that by (simp_all add: getHue_def getSaturation_def getIluminance_def convert_rgb_to_hsi_pre_def)
  obtain h o1 o2 where o1: "setHue lm h default_pixel = Inr o1" and
    o2: "setSaturation lm (d_add (d_mul (Num 0) (Num 1)) (d_mul (Num s) (d_sub (Num 1) (Num 1)))) o1 = Inr o2" and
    q: "setIluminance lm (d_add (d_mul (Num 1) (Num 1)) (d_mul (Num i) (d_sub (Num 1) (Num 1)))) o2 = Inr q"
    using assms by (auto simp: mix_color_interleaving_def get [OF white_like_valid [OF assms(1)]] get [OF assms(2)] white_like_def
        bind_res_Inr_iff Let_def simp del: d_add.simps d_mul.simps)
  have zero: "d_add (d_mul (Num 0) (Num 1)) (d_mul (Num s) (d_sub (Num 1) (Num 1))) = Num 0"
    "d_add (d_mul (Num 1) (Num 1)) (d_mul (Num i) (d_sub (Num 1) (Num 1))) = Num 1"
    by (simp_all add: d_sub_def one rnd_def [of 0])
  have "iluminance o1 = Num 0" using o1 by (rule new_hue)
  then have "saturation o2 = Num 0 \<and> iluminance o2 = Num 0" using o2 unfolding zero
    by (auto simp: setSaturation_def convert_rgb_to_hsi_pre_def hsi_invalid_def invalidate_rgb_def clamp_set_def
        dest!: convert_hsi_keeps)
  then show ?thesis using q unfolding zero
    by (auto simp: setIluminance_def convert_rgb_to_hsi_pre_def hsi_invalid_def invalidate_rgb_def clamp_set_def white_like_def
        dest!: convert_hsi_keeps)
qed

lemma full_share: "mask_share ms j = Inr t \<Longrightarrow> set ms \<subseteq> {65535} \<Longrightarrow> t = Num 1"
proof -
  assume "mask_share ms j = Inr t" and "set ms \<subseteq> {65535}"
  then have "ms ! j = 65535" "t = d_div (d_of_word (ms ! j)) (Num 65535)"
    by (auto simp: mask_share_def bind_res_Inr_iff dest: nth_mem)
  moreover have "d_of_word (65535 :: u16) = Num 65535" using d_of_word_Num [of "65535 :: u16"] by simp
  ultimately show "t = Num 1" using rnd_int [of 1] by simp
qed

lemma plain_color_keeps_white:
  assumes "plain_color_apply lm m l ms ps = Inr ps'" and "set ms \<subseteq> {65535}" and "\<forall>p \<in> set ps. white_like p"
    and "\<not> hsi_invalid (color_get m (pc_cp1 l))" "saturation (color_get m (pc_cp1 l)) = Num s"
      "iluminance (color_get m (pc_cp1 l)) = Num i"
  shows "\<forall>p \<in> set ps'. white_like p"
proof -
  have "\<forall>p \<in> set ys. white_like p" if blend: "blend_at lm ms (color_get m (pc_cp1 l)) j xs = Inr ys" and
    xs: "\<forall>p \<in> set xs. white_like p" for j xs ys
  proof -
    obtain t q where b: "j < length xs" "mask_share ms j = Inr t" "ys = xs[j := q]"
      "mix_color_interleaving lm (xs ! j) (color_get m (pc_cp1 l)) t = Inr q"
      using blend by (auto simp: blend_at_def bind_res_Inr_iff write_at_def split: if_splits)
    have "white_like (xs ! j)" using xs b(1) by simp
    then have "white_like q" using mix_full_share [OF _ assms(4-6)] b(4) full_share [OF b(2) assms(2)] by blast
    then show ?thesis using xs b(3) by (auto dest: subsetD [OF set_update_subset_insert])
  qed
  then show ?thesis using assms(1,3) unfolding plain_color_apply_def
    by (elim fold_res_invariant [where P = "\<lambda>xs. \<forall>p \<in> set xs. white_like p"]) blast+
qed

text \<open>
  C34. A plain colour alone has no effect: a cycle of a chaser whose only layer is \<open>plain_color\<close>, whatever
  its colour, leaves every pixel the white it starts from, without saturation and at full illuminance.
  The mask, which is full, is given to \<open>mix_color_interleaving\<close> as the weight of the old colour.
\<close>

theorem plain_color_has_no_effect:
  assumes "ch_setup f = Some s" and "cs_layers s = [Plain_color l]" and "chaser_update M st m (f, g) = Inr (f', g')"
    and "\<not> hsi_invalid (color_get m (pc_cp1 l))" and "saturation (color_get m (pc_cp1 l)) = Num x"
    and "iluminance (color_get m (pc_cp1 l)) = Num y"
  shows "length (ch_pixels f') = length (ch_pixels f)
    \<and> (\<forall>p \<in> set (ch_pixels f'). saturation p = Num 0 \<and> iluminance p = Num 1)"
proof -
  have "setup_step M (r, h) = Inr (r, h)" if "cs_layers r = [Plain_color l]" for r h
    using that by (cases r) (simp add: setup_step_def)
  then have still: "fold_res (\<lambda>e x. if triggers f e then setup_step M x else Inr x) es (s, g) = Inr (s, g)" for es
    using assms(2) by (induction es) simp_all
  define f1 where "f1 white = f\<lparr>ch_mask := map (\<lambda>_. 65535) (ch_mask f), ch_pixels := map (\<lambda>_. white) (ch_pixels f)\<rparr>" for white
  obtain white where w: "hsi_pixel (lm_colors M) (Num 0) (Num 0) (Num 1) = Inr white"
    and ex: "setup_execute M m s (f1 white, g) = Inr (f', g')"
    using assms(1,3) by (auto simp: chaser_update_def still bind_res_Inr_iff f1_def split: if_splits)
  have "white_like white" using w by (auto simp: hsi_pixel_def white_like_def dest!: convert_hsi_keeps)
  then have start: "\<forall>p \<in> set (ch_pixels (f1 white)). white_like p" by (auto simp: f1_def)
  have r: "plain_color_apply (lm_colors M) m l (ch_mask (f1 white)) (ch_pixels (f1 white)) = Inr (ch_pixels f')"
    using ex by (auto simp: setup_execute_def run_layers_def assms(2) bind_res_Inr_iff Let_def)
  have "length (ch_pixels f') = length (ch_pixels f)" using color_layer_lengths(1) [OF r] by (simp add: f1_def)
  moreover have "\<forall>p \<in> set (ch_pixels f'). white_like p"
    by (rule plain_color_keeps_white [OF r _ start assms(4-6)]) (auto simp: f1_def)
  ultimately show ?thesis by (simp add: white_like_def)
qed

text \<open>A chaser with one pixel that should show red.\<close>

definition red_layer :: plain_color where
  "red_layer = \<lparr>pc_cp1 = Color_value (default_pixel\<lparr>saturation := Num 1, iluminance := Num 1\<rparr>)\<rparr>"

definition red_chaser :: filter_color_chaser where
  "red_chaser = new_color_chaser\<lparr>ch_pixels := [default_pixel], ch_mask := [0], ch_uses_steps := True,
     ch_setup := Some \<lparr>cs_last_update_time = Num 0, cs_layers = [Plain_color red_layer]\<rparr>\<rparr>"

lemma white_mixed:
  assumes w: "hsi_pixel lm (Num 0) (Num 0) (Num 1) = Inr white"
  shows "mix_color_interleaving lm white (default_pixel\<lparr>saturation := Num 1, iluminance := Num 1\<rparr>) (Num 1) = Inr white"
proof -
  have r: "rnd 1 = Num 1" "rnd 180 = Num 180" "rnd 360 = Num 360" "rnd 540 = Num 540" "rnd 2 = Num 2" "rnd 0 = Num 0"
    using rnd_int [of 1] rnd_int [of 180] rnd_int [of 360] rnd_int [of 540] rnd_int [of 2] by (simp_all add: rnd_def [of 0])
  have h: "hue white = Num 0" "saturation white = Num 0" "iluminance white = Num 1"
    using w by (auto simp: hsi_pixel_def dest!: convert_hsi_keeps)
  have dp: "hue default_pixel = Num 0" by (simp add: default_pixel_def)
  have f: "d_fmod (Num 540) (Num 360) = Num 180" "d_fmod (Num 360) (Num 360) = Num 0" by (simp_all add: trunc_real_def)
  have g: "getHue lm x = (hue x, x)" "getSaturation lm x = (saturation x, x)" "getIluminance lm x = (iluminance x, x)"
    if "iluminance x = Num 1" for x
    using that by (simp_all add: getHue_def getSaturation_def getIluminance_def convert_rgb_to_hsi_pre_def hsi_invalid_def)
  have sets: "setHue lm (Num 0) default_pixel = Inr default_pixel" "setSaturation lm (Num 0) default_pixel = Inr default_pixel"
    "setIluminance lm (Num 1) default_pixel = hsi_pixel lm (Num 0) (Num 0) (Num 1)"
    by (simp_all add: setHue_def setSaturation_def setIluminance_def hsi_pixel_def default_pixel_def convert_rgb_to_hsi_pre_def
        hsi_invalid_def invalidate_rgb_def convert_hsi_to_rgb_pre_def rgb_invalid_def clamp_set_def)
  show ?thesis
    by (simp add: mix_color_interleaving_def g h dp sets w f r d_sub_def Let_def del: d_fmod.simps)
qed

theorem plain_color_has_no_effect_witness:
  "\<exists>f' g' p. chaser_update demo_math \<lparr>storage_a = [], storage_b = [], senders = [], current_read_storage_is_a = True,
        ongoing_events = [], index_source_by_name = []\<rparr> no_memory (red_chaser, (0, 0)) = Inr (f', g')
     \<and> ch_pixels f' = [p] \<and> saturation p = Num 0 \<and> iluminance p = Num 1"
proof -
  let ?st = "\<lparr>storage_a = [], storage_b = [], senders = [], current_read_storage_is_a = True,
        ongoing_events = [], index_source_by_name = []\<rparr>"
  obtain white where w: "hsi_pixel demo_libm (Num 0) (Num 0) (Num 1) = Inr white"
    using rgb_hsi_roundtrip_loses_brightness_witness by blast
  have share: "mask_share [65535] 0 = Inr (Num 1)"
    using full_share [of "[65535]" 0] by (auto simp: mask_share_def vec_at_def)
  have lm: "lm_colors demo_math = demo_libm" by (simp add: demo_math_def)
  have "plain_color_apply demo_libm no_memory red_layer [65535] [white] = Inr [white]"
    using white_mixed [OF w] share
    by (simp add: plain_color_apply_def blend_at_def write_at_def vec_at_def color_get_def red_layer_def)
  then obtain f' g' where u: "chaser_update demo_math ?st no_memory (red_chaser, (0, 0)) = Inr (f', g')"
    by (simp add: chaser_update_def red_chaser_def new_color_chaser_def get_storage_def lm w setup_execute_def run_layers_def
        coloring_def with_layer_def Let_def)
  have s: "ch_setup red_chaser = Some \<lparr>cs_last_update_time = Num 0, cs_layers = [Plain_color red_layer]\<rparr>"
    by (simp add: red_chaser_def)
  have c: "color_get no_memory (pc_cp1 red_layer) = default_pixel\<lparr>saturation := Num 1, iluminance := Num 1\<rparr>"
    by (simp add: red_layer_def color_get_def)
  have e: "length (ch_pixels f') = length (ch_pixels red_chaser)
      \<and> (\<forall>p \<in> set (ch_pixels f'). saturation p = Num 0 \<and> iluminance p = Num 1)"
    by (rule plain_color_has_no_effect [where l = red_layer, OF s _ u]) (simp_all add: c hsi_invalid_def)
  then obtain p where "ch_pixels f' = [p]" by (auto simp: red_chaser_def length_Suc_conv)
  then show ?thesis using u e by (intro exI conjI) auto
qed

end
