(* ===== verification/Spec2Isabelle.thy ===== *)
theory Spec2Isabelle
  imports Client_Handler Events State_Registry Scene_Factory Universes Filters_Arith Filters_Time Filter_Scene Column_Ready Manager_Ok Cue_Run Fader_Ok Color_Mixers Sequencer_Ok Sequencer_Values Responding_Constants Chaser_Layers_Ok
begin

text \<open>
  A model of the realtime server of a light control system (\<^verbatim>\<open>src/src/\<close>, C++) with the theorems that
  make it correct. This theory imports all the others.

  \<^bold>\<open>The program.\<close> User interfaces connect over a stream and send protobuf messages
  (\<^verbatim>\<open>io/\<close>). A show file becomes a project of scenes (\<^verbatim>\<open>executioners/\<close>); a scene is a graph of filters
  (\<^verbatim>\<open>filters/\<close>) whose outputs are read through pointers by the filters after them. Every cycle of the
  main loop (\<^verbatim>\<open>main_loop.cpp\<close>) swaps the buffers of the events (\<^verbatim>\<open>events/\<close>), updates the control
  desk (\<^verbatim>\<open>control_desk/\<close>, MIDI devices with banks of columns), runs the filters of the active scene
  and pushes the DMX universes (\<^verbatim>\<open>dmx/\<close>, \<^verbatim>\<open>io/artnet_handler.hpp\<close>, \<^verbatim>\<open>io/universe_sender.cpp\<close>).

  \<^bold>\<open>Conventions.\<close> A class is a record with the names of its fields, an enum a datatype, a machine
  integer a word of its width, a \<open>double\<close> the type of \<open>Doubles\<close> (binary64 with its rounding). A
  \<open>std::map\<close> is an association list sorted by its keys; a container without an order in the standard
  is a list whose order the theory that has it states. An exception is a value of the type \<open>exn\<close> in
  the left part of a \<open>result\<close>; a member function that may throw after it changed its object is an
  action (\<open>Actions\<close>), which gives the result and the state left behind. What the standard leaves
  undefined is \<open>Undefined_behaviour\<close>, so a result that is \<open>Inr\<close> stays within its containers.

  \<^bold>\<open>Parts.\<close>
  \<^item> Foundations: \<open>Fish_Prelude\<close>, \<open>Actions\<close>, \<open>Act_Triples\<close> (rules for pre- and postconditions of
    actions), \<open>Ordered_Map\<close> (the locale of \<open>std::map\<close> and its interpretation), \<open>Std_Strings\<close> and \<open>Doubles\<close>
    (the standard library the source uses), \<open>Utils\<close> (\<^verbatim>\<open>utils.cpp\<close>).
  \<^item> User interfaces: \<open>Wire_Buffer\<close> (\<^verbatim>\<open>client_input_buffer.cpp\<close>, \<^verbatim>\<open>client_output_buffer.cpp\<close>),
    \<open>Client_Handler\<close> (\<^verbatim>\<open>client_handler.cpp\<close>), \<open>Gui_Connection\<close> (\<^verbatim>\<open>gui_connection_handler.cpp\<close>). The frames a
    peer sends are delivered whole and in order however the stream is cut, the buffers are
    never read outside, and a header of five continued bytes stalls a connection.
  \<^item> \<open>Events\<close> (\<^verbatim>\<open>events/\<close>): each event is delivered in exactly one cycle, ongoing events follow
    the edges, texts and messages are read back as what was written.
  \<^item> \<open>State_Registry\<close> (\<^verbatim>\<open>executioners/state_registry.cpp\<close>): states kept per scene and key.
  \<^item> Universes: \<open>Universes\<close> (\<^verbatim>\<open>dmx/universe.hpp\<close>, \<^verbatim>\<open>artnet_universe.hpp\<close>, \<^verbatim>\<open>ftdi_universe.cpp\<close>,
    \<^verbatim>\<open>io/artnet_handler.hpp\<close>, \<^verbatim>\<open>universe_sender.cpp\<close>): a round sends each registered universe once, in
    packets that are well formed.
  \<^item> Filters: \<open>Channels\<close>, \<open>Filter_Base\<close>, \<open>Pixel\<close> (\<^verbatim>\<open>dmx/pixel.cpp\<close>), \<open>Filters_Arith\<close>, \<open>Responding_Constants\<close>,
    \<open>Filters_Time\<close>, \<open>Color_Mixers\<close>, \<open>Fader_Filters\<close>, each a filter class as record, set-up, outputs,
    update and parameters. \<open>Fader_Ok\<close>: a fader shows its column, and loses a column that is replaced.
  \<^item> The cue filter (\<^verbatim>\<open>filters/filter_cue.cpp\<close>, \<^verbatim>\<open>util.cpp\<close>): \<open>Cue_Filter\<close> parses, \<open>Cue_Playback\<close> plays. \<open>Cue_Parse\<close>: a
    cue list that is accepted is complete and well typed. \<open>Cue_Ok\<close>: the outputs stay where they
    were published and a cycle stays within the cues. \<open>Cue_Run\<close>: transitions stay between their key
    frames, the state of a scene is found again, and two commands or cycles that go wrong.
  \<^item> The sequencer (\<^verbatim>\<open>filters/sequencer/\<close>): \<open>Sequencer_Channel\<close> (key frames, queues, channels) and
    \<open>Sequencer\<close> (transitions, the filter). \<open>Sequencer_Ok\<close>: what a set-up, cycles and activations can
    reach is consistent, a cycle returns unless the scaled time is negative, and hangs when it is.
    \<open>Sequencer_Values\<close>: numbers stay between the key frames, colours run backwards.
  \<^item> The colour chaser (\<^verbatim>\<open>filters/chaser/\<close>): \<open>Chaser_Base\<close> (parameters of layers), \<open>Chaser_Masks\<close>, \<open>Chaser_Waves\<close>,
    \<open>Chaser_Colors\<close> (the layers) and \<open>Chaser\<close> (configurations, the filter). \<open>Chaser_Ok\<close>: every operation keeps
    the sizes of the frame and no cycle throws. \<open>Chaser_Config\<close>: what a configuration becomes, without
    the layers of single channels. \<open>Chaser_Effects\<close>, \<open>Chaser_Layers_Ok\<close>: a shift is a rotation, the
    Johnson counter a cycle, scales stay between their values, and what some layers do not do.
  \<^item> Scenes: \<open>Scene_Factory\<close> (\<^verbatim>\<open>executioners/scene_factory.cpp\<close>: memory, schedule and connections of the
    filters), \<open>Scenes\<close> (\<^verbatim>\<open>scene.hpp\<close>, \<^verbatim>\<open>project_configuration.cpp\<close>, \<^verbatim>\<open>threadpool.cpp\<close>), \<open>Filter_Scene\<close> (the
    filters of \<open>Filters_Arith\<close> and \<open>Filters_Time\<close> as objects of a scene: a cycle in the order of the
    schedule computes the network of equations the show file describes).
  \<^item> The control desk: \<open>Midi\<close> (\<^verbatim>\<open>command.hpp\<close>, \<^verbatim>\<open>device_handle.cpp\<close>, \<^verbatim>\<open>xtouch_driver.cpp\<close>), \<open>Bank_Column\<close>
    (\<^verbatim>\<open>bank_column.cpp\<close>), \<open>Desk\<close> (\<^verbatim>\<open>desk.cpp\<close>); \<open>Column_Ready\<close>: the ready mode stages changes;
    \<open>Desk_Ok\<close>, \<open>Desk_Calls\<close>: the invariant of the store of columns over every sequence of calls, the
    switch of banks, and the index that keeps a removed set.
  \<^item> The server: \<open>Io_Manager\<close> (\<^verbatim>\<open>io/iomanager.cpp\<close>, \<^verbatim>\<open>main_loop.cpp\<close>), \<open>Manager_Ok\<close>: an invariant of every
    state that requests, loads, cycles and interrupts reach, failed loads and rollback.

  \<^bold>\<open>Interfaces.\<close> Five locales: \<open>std_map\<close> (\<open>Ordered_Map\<close>), interpreted by the sorted lists; \<open>ioqueue\<close>
  (\<open>Client_Handler\<close>), the byte queue of the network library, which \<open>midi_queue\<close> (\<open>Midi\<close>) extends for
  the desk, both interpreted by byte lists; \<open>dataflow\<close> (\<open>Filter_Scene\<close>), objects that read the outputs
  of others, interpreted by the filters of a scene; and \<open>layer_executor\<close> (\<open>Chaser_Ok\<close>), the abstract class of
  the layers of a chaser, interpreted by them.

  \<^bold>\<open>Termination.\<close> Loops over a text have the distance to its end as measure; the rounds of the
  scheduler the number of filters that are not placed; the framing of a connection the bytes
  left, with a fuel of one more than their number, which is shown to be enough. The loop over a
  queue of the sequencer is a partial function, since it need not end.

  \<^bold>\<open>Parameters.\<close> Code that is not part of the sources: the transport, protobuf, the XML parser, the
  USB library, the resolution of addresses, the clock, the sizes of the C++ classes, the order in which
  the pool runs its tasks, and the functions of the C library whose results no standard fixes
  (sine, cosine, exponential, random numbers and the like). Hypotheses about them are named where they are used,
  with an instance that satisfies them.

  \<^bold>\<open>Not modelled.\<close> Threads and locks: a request, a load and a cycle are one step each, and what
  the threads of the pool do is a list of tasks in any order. Logging. Sockets, serial ports and the
  event loop; the I/O board, RTP MIDI, and the start-up in \<^verbatim>\<open>main.cpp\<close>, which are pure input and
  output. The Lua filter, which passes values to an interpreter that is not part of the
  sources. The sound analysis, an adapted third-party library over the sound card. The cue filter, the
  sequencer, the colour chaser, the faders and the mixers are modelled as objects of their own; the
  scene of \<open>Filter_Scene\<close> does not contain them.
\<close>

end
